(* ===== verification/Prelude.thy ===== *)
theory Prelude
  imports Main "HOL-Library.Word" "HOL-Library.AList" "HOL-Library.Multiset"
begin

text \<open>
  Shared vocabulary of the development: the exceptions of the Python sources as a datatype, the
  result type (an exception on the left, a value on the right), Python strings as lists of code
  points, dictionaries as association lists in insertion order, and the generic lemmas that the
  component theories use. A fold of a fallible step over a list is stated once as a locale and
  instantiated by every replay of the program.
\<close>

named_theorems ok_simps \<open>success of a result expression, taken apart\<close>
named_theorems dict_simps \<open>lookups in updated dictionaries\<close>

subsection \<open>Exceptions and results\<close>

datatype exn =
    FoldError string int string
  | EventContractError string
  | ValidationError exn
  | CanonicalJsonError string
  | InvalidIdentifierError string
  | DomainConstraintError string string
  | DomainValidationError string
  | ValueError string
  | TypeError string
  | KeyError string
  | RuntimeError string
  | OverflowError string
  | AssertionError
  | BudgetTooSmallError
  | EventStoreError string string
  | ProjectionPersistenceError string
  | DBAPIError "string option"
  | SerializableTransactionError int int
  | OutboxWorkerError string
  | LeaseLostError string
  | DecimalInvalidOperation
  | FileNotFoundError
  | KeyProviderError
  | OSError
  | SelectionHistoryError string
  | InvalidSealedEnvelopeError
  | SealedContentAuthenticationError
  | SealedContentKeyUnavailableError
  | SealedContentError string

type_synonym 'a result = "exn + 'a"

definition rbind :: "'e + 'a \<Rightarrow> ('a \<Rightarrow> 'e + 'b) \<Rightarrow> 'e + 'b" where
  "rbind r f = (case r of Inl e \<Rightarrow> Inl e | Inr x \<Rightarrow> f x)"

definition require :: "bool \<Rightarrow> 'e \<Rightarrow> 'e + unit" where
  "require b e = (if b then Inr () else Inl e)"

definition is_ok :: "'e + 'a \<Rightarrow> bool" where
  "is_ok r = (case r of Inl _ \<Rightarrow> False | Inr _ \<Rightarrow> True)"

lemma rbind_simps [simp]:
  "rbind (Inl e) f = Inl e"
  "rbind (Inr x) f = f x"
  by (simp_all add: rbind_def)

lemma require_simps [simp]:
  "require True e = Inr ()"
  "require False e = Inl e"
  by (simp_all add: require_def)

lemma is_ok_simps [simp]:
  "is_ok (Inl e) = False"
  "is_ok (Inr x) = True"
  by (simp_all add: is_ok_def)

lemma is_ok_iff: "is_ok r \<longleftrightarrow> (\<exists>x. r = Inr x)"
  by (cases r) auto

lemma rbind_InrE: "rbind r f = Inr y \<Longrightarrow> (\<And>x. r = Inr x \<Longrightarrow> f x = Inr y \<Longrightarrow> P) \<Longrightarrow> P"
  by (cases r) auto

lemma rbind_eq_Inr [ok_simps]: "rbind r f = Inr y \<longleftrightarrow> (\<exists>x. r = Inr x \<and> f x = Inr y)"
  by (cases r) auto

lemma require_eq_Inr [ok_simps]: "require b e = Inr u \<longleftrightarrow> b"
  by (cases b) auto

lemma if_Inl_eq_Inr [ok_simps]:
  "((if c then Inl e else r) = Inr y) \<longleftrightarrow> \<not> c \<and> r = Inr y"
  "((if c then r else Inl e) = Inr y) \<longleftrightarrow> c \<and> r = Inr y"
  by simp_all

lemma option_case_eq_Inr [ok_simps]:
  "((case x of None \<Rightarrow> Inl e | Some a \<Rightarrow> f a) = Inr y) \<longleftrightarrow> (\<exists>a. x = Some a \<and> f a = Inr y)"
  by (cases x) auto

lemma sum_case_eq_Inr [ok_simps]:
  "((case r of Inl z \<Rightarrow> Inl (g z) | Inr a \<Rightarrow> f a) = Inr y) \<longleftrightarrow> (\<exists>a. r = Inr a \<and> f a = Inr y)"
  by (cases r) auto

lemma rbind_cong [fundef_cong]:
  "r = r' \<Longrightarrow> (\<And>x. r' = Inr x \<Longrightarrow> f x = f' x) \<Longrightarrow> rbind r f = rbind r' f'"
  by (cases r') auto

text \<open>
  A subclass of \<^verbatim>\<open>ValueError\<close> raised inside a model validator is reported as a validation
  error; any other exception passes through.
\<close>

fun is_value_error :: "exn \<Rightarrow> bool" where
  "is_value_error (TypeError m) = False"
| "is_value_error (KeyError m) = False"
| "is_value_error (RuntimeError m) = False"
| "is_value_error (OverflowError m) = False"
| "is_value_error (EventStoreError c m) = False"
| "is_value_error (ProjectionPersistenceError c) = False"
| "is_value_error (DBAPIError sqlstate) = False"
| "is_value_error (SerializableTransactionError n t) = False"
| "is_value_error (OutboxWorkerError m) = False"
| "is_value_error (LeaseLostError m) = False"
| "is_value_error DecimalInvalidOperation = False"
| "is_value_error FileNotFoundError = False"
| "is_value_error KeyProviderError = False"
| "is_value_error OSError = False"
| "is_value_error (SelectionHistoryError c) = False"
| "is_value_error InvalidSealedEnvelopeError = False"
| "is_value_error SealedContentAuthenticationError = False"
| "is_value_error SealedContentKeyUnavailableError = False"
| "is_value_error (SealedContentError m) = False"
| "is_value_error e = True"

definition validated :: "'a result \<Rightarrow> 'a result" where
  "validated r =
     (case r of Inl e \<Rightarrow> Inl (if is_value_error e then ValidationError e else e) | Inr x \<Rightarrow> Inr x)"

lemma validated_simps [simp]:
  "validated (Inl e) = Inl (if is_value_error e then ValidationError e else e)"
  "validated (Inr x) = Inr x"
  by (simp_all add: validated_def)

lemma validated_eq_Inr [ok_simps]: "validated r = Inr x \<longleftrightarrow> r = Inr x"
  by (cases r) auto

text \<open>A list comprehension or a loop whose body may raise: the first exception wins.\<close>

fun traverse :: "('a \<Rightarrow> 'e + 'b) \<Rightarrow> 'a list \<Rightarrow> 'e + 'b list" where
  "traverse f [] = Inr []"
| "traverse f (x # xs) = rbind (f x) (\<lambda>y. rbind (traverse f xs) (\<lambda>ys. Inr (y # ys)))"

lemma traverse_cong [fundef_cong]:
  "xs = ys \<Longrightarrow> (\<And>x. x \<in> set ys \<Longrightarrow> f x = g x) \<Longrightarrow> traverse f xs = traverse g ys"
  by (induction ys arbitrary: xs) auto

lemma traverse_eq_Inr:
  "traverse f xs = Inr ys \<longleftrightarrow> list_all2 (\<lambda>x y. f x = Inr y) xs ys"
  by (induction xs arbitrary: ys) (auto simp: ok_simps list_all2_Cons1)

lemma traverse_id: "(\<And>x. x \<in> set xs \<Longrightarrow> f x = Inr x) \<Longrightarrow> traverse f xs = Inr xs"
  by (induction xs) auto

lemma traverse_member: "traverse f xs = Inr ys \<Longrightarrow> x \<in> set xs \<Longrightarrow> \<exists>y \<in> set ys. f x = Inr y"
  by (induction xs arbitrary: ys) (auto simp: ok_simps)

lemma traverse_image: "traverse f xs = Inr ys \<Longrightarrow> y \<in> set ys \<Longrightarrow> \<exists>x \<in> set xs. f x = Inr y"
  by (induction xs arbitrary: ys) (auto simp: ok_simps)

lemma sort_key_sorted: "sorted (map f xs) \<Longrightarrow> sort_key f xs = xs"
  by (induction xs) (auto simp: insort_is_Cons)

lemma sort_key_map: "sort_key f (map g xs) = map g (sort_key (\<lambda>x. f (g x)) xs)"
proof -
  have "insort_key f (g x) (map g ys) = map g (insort_key (\<lambda>x. f (g x)) x ys)" for x ys
    by (induction ys) auto
  then show ?thesis by (induction xs) simp_all
qed

subsection \<open>Python strings, dictionaries and digests\<close>

type_synonym pystr = "nat list"
type_synonym bytes = "8 word list"
type_synonym uuid = "128 word"
type_synonym ('k, 'v) dict = "('k \<times> 'v) list"

definition lit :: "string \<Rightarrow> pystr" where
  "lit s = map of_char s"

abbreviation dict_get :: "('k, 'v) dict \<Rightarrow> 'k \<Rightarrow> 'v option" where
  "dict_get d \<equiv> map_of d"

abbreviation dict_set :: "'k \<Rightarrow> 'v \<Rightarrow> ('k, 'v) dict \<Rightarrow> ('k, 'v) dict" where
  "dict_set \<equiv> AList.update"

abbreviation dict_del :: "'k \<Rightarrow> ('k, 'v) dict \<Rightarrow> ('k, 'v) dict" where
  "dict_del \<equiv> AList.delete"

abbreviation dict_has :: "('k, 'v) dict \<Rightarrow> 'k \<Rightarrow> bool" where
  "dict_has d k \<equiv> map_of d k \<noteq> None"

text \<open>The dictionary interface the event fold relies on, and its list implementation.\<close>

locale pydict =
  fixes get :: "'d \<Rightarrow> 'k \<Rightarrow> 'v option"
    and put :: "'k \<Rightarrow> 'v \<Rightarrow> 'd \<Rightarrow> 'd"
    and del :: "'k \<Rightarrow> 'd \<Rightarrow> 'd"
  assumes get_put: "get (put k v d) = (get d)(k \<mapsto> v)"
    and get_del: "get (del k d) = (get d)(k := None)"
begin

lemma get_put_same: "get (put k v d) k = Some v"
  by (simp add: get_put)

lemma get_put_other: "k' \<noteq> k \<Longrightarrow> get (put k v d) k' = get d k'"
  by (simp add: get_put)

lemma put_keeps_dom: "dom (get d) \<subseteq> dom (get (put k v d))"
  by (auto simp: get_put)

lemma put_all:
  "(\<And>k' x. get d k' = Some x \<Longrightarrow> P k' x) \<Longrightarrow> P k v \<Longrightarrow> get (put k v d) k' = Some x \<Longrightarrow> P k' x"
  by (auto simp: get_put split: if_splits)

lemma del_all:
  "(\<And>k' x. get d k' = Some x \<Longrightarrow> P k' x) \<Longrightarrow> get (del k d) k' = Some x \<Longrightarrow> P k' x"
  by (auto simp: get_del split: if_splits)

end

interpretation ad: pydict "dict_get" "dict_set" "dict_del"
  by unfold_locales (auto simp: AList.update_conv' AList.delete_conv')

lemmas ad_lookup [dict_simps] = ad.get_put ad.get_del

subsection \<open>Replay of a fallible step over a list\<close>

fun replay :: "('s \<Rightarrow> 'e \<Rightarrow> 'x + 's) \<Rightarrow> 's \<Rightarrow> 'e list \<Rightarrow> 'x + 's" where
  "replay step s [] = Inr s"
| "replay step s (e # es) = rbind (step s e) (\<lambda>s'. replay step s' es)"

lemma replay_append:
  "replay step s (es @ fs) = rbind (replay step s es) (\<lambda>s'. replay step s' fs)"
  by (induction es arbitrary: s) (auto simp: rbind_def split: sum.splits)

text \<open>An invariant of one step is an invariant of every replay.\<close>

locale replay_invariant =
  fixes step :: "'s \<Rightarrow> 'e \<Rightarrow> 'x + 's"
    and inv :: "'s \<Rightarrow> bool"
  assumes step_inv: "inv s \<Longrightarrow> step s e = Inr s' \<Longrightarrow> inv s'"
begin

lemma replay_inv: "inv s \<Longrightarrow> replay step s es = Inr s' \<Longrightarrow> inv s'"
  by (induction es arbitrary: s) (auto simp: ok_simps dest: step_inv)

end

text \<open>A reflexive and transitive relation kept by one step is kept by every replay.\<close>

locale replay_relation =
  fixes step :: "'s \<Rightarrow> 'e \<Rightarrow> 'x + 's"
    and inv :: "'s \<Rightarrow> bool"
    and rel :: "'s \<Rightarrow> 's \<Rightarrow> bool"
  assumes step_keeps: "inv s \<Longrightarrow> step s e = Inr s' \<Longrightarrow> inv s'"
    and step_rel: "inv s \<Longrightarrow> step s e = Inr s' \<Longrightarrow> rel s s'"
    and rel_refl: "rel s s"
    and rel_trans: "rel s t \<Longrightarrow> rel t u \<Longrightarrow> rel s u"

sublocale replay_relation \<subseteq> replay_invariant
  by unfold_locales (rule step_keeps)

context replay_relation
begin

lemma replay_rel: "inv s \<Longrightarrow> replay step s es = Inr s' \<Longrightarrow> rel s s'"
proof (induction es arbitrary: s)
  case Nil
  then show ?case by (simp add: rel_refl)
next
  case (Cons e es)
  then obtain t where t: "step s e = Inr t" "replay step t es = Inr s'"
    by (auto simp: ok_simps)
  with Cons.prems have "inv t" "rel s t"
    by (auto intro: step_keeps step_rel)
  with t Cons.IH show ?case by (blast intro: rel_trans)
qed

end

subsection \<open>Lists\<close>

lemma length_remdups_eq_distinct: "length (remdups xs) = length xs \<longleftrightarrow> distinct xs"
  by (metis distinct_card distinct_remdups length_remdups_card_conv card_distinct)

lemma card_set_eq_length_iff: "card (set xs) = length xs \<longleftrightarrow> distinct xs"
  by (metis card_distinct distinct_card)

end
