(* ===== verification/Identifiers.thy ===== *)
theory Identifiers
  imports Prelude
begin

text \<open>
  RFC 9562 UUIDv7 generation and validation (\<^verbatim>\<open>domain/identifiers.py\<close>). A \<^verbatim>\<open>uuid.UUID\<close> is its
  128-bit integer; \<^verbatim>\<open>version\<close>, \<^verbatim>\<open>variant\<close> and \<^verbatim>\<open>str\<close> are the attributes of the standard
  library class. The clock and the random source are arguments.
\<close>

unbundle bit_operations_syntax

definition UUID7_TIMESTAMP_BITS :: nat where "UUID7_TIMESTAMP_BITS = 48"
definition UUID7_RANDOM_BITS :: nat where "UUID7_RANDOM_BITS = 74"
definition MAX_UUID7_TIMESTAMP_MS :: int where "MAX_UUID7_TIMESTAMP_MS = 2 ^ UUID7_TIMESTAMP_BITS - 1"
definition MAX_UUID7_RANDOM :: int where "MAX_UUID7_RANDOM = 2 ^ UUID7_RANDOM_BITS - 1"

lemmas uuid7_limits =
  UUID7_TIMESTAMP_BITS_def UUID7_RANDOM_BITS_def MAX_UUID7_TIMESTAMP_MS_def MAX_UUID7_RANDOM_def

datatype uuid_variant = NCS | RFC_4122 | MICROSOFT | FUTURE

definition uuid_of_int :: "int \<Rightarrow> uuid result" where
  "uuid_of_int v =
     (if 0 \<le> v \<and> v < 2 ^ 128 then Inr (word_of_int v)
      else Inl (ValueError ''int is out of range (need a 128-bit value)''))"

definition uuid_variant :: "uuid \<Rightarrow> uuid_variant" where
  "uuid_variant u =
     (if \<not> bit u 63 then NCS
      else if \<not> bit u 62 then RFC_4122
      else if \<not> bit u 61 then MICROSOFT
      else FUTURE)"

definition uuid_version :: "uuid \<Rightarrow> int option" where
  "uuid_version u =
     (if uuid_variant u = RFC_4122 then Some (uint (drop_bit 76 u AND 15)) else None)"

definition new_uuid7 :: "int \<Rightarrow> int \<Rightarrow> int option \<Rightarrow> int option \<Rightarrow> uuid result" where
  "new_uuid7 time_ns randbits timestamp_ms random_bits =
     (let resolved_timestamp = (case timestamp_ms of None \<Rightarrow> time_ns div 1000000 | Some t \<Rightarrow> t);
          resolved_random = (case random_bits of None \<Rightarrow> randbits | Some r \<Rightarrow> r)
      in if \<not> (0 \<le> resolved_timestamp \<and> resolved_timestamp \<le> MAX_UUID7_TIMESTAMP_MS)
         then Inl (InvalidIdentifierError ''UUIDv7 timestamp is outside the 48-bit range'')
         else if \<not> (0 \<le> resolved_random \<and> resolved_random \<le> MAX_UUID7_RANDOM)
         then Inl (InvalidIdentifierError ''UUIDv7 random value is outside the 74-bit range'')
         else let random_a = drop_bit 62 resolved_random;
                  random_b = resolved_random AND (push_bit 62 1 - 1);
                  v = push_bit 80 resolved_timestamp OR push_bit 76 7 OR push_bit 64 random_a
                        OR push_bit 62 2 OR random_b
              in uuid_of_int v)"

definition is_uuid7 :: "uuid \<Rightarrow> bool" where
  "is_uuid7 u \<longleftrightarrow> uuid_version u = Some 7 \<and> uuid_variant u = RFC_4122"

definition require_uuid7 :: "uuid \<Rightarrow> string \<Rightarrow> uuid result" where
  "require_uuid7 u field_name =
     (if \<not> is_uuid7 u
      then Inl (InvalidIdentifierError (field_name @ '' must be an RFC 9562 UUIDv7''))
      else Inr u)"

lemma require_uuid7_ok [ok_simps]: "require_uuid7 u n = Inr v \<longleftrightarrow> is_uuid7 u \<and> v = u"
  by (auto simp: require_uuid7_def)

subsection \<open>Layout of a generated identifier\<close>

lemma int_bit_bound: "0 \<le> (x::int) \<Longrightarrow> x < 2 ^ n \<Longrightarrow> n \<le> m \<Longrightarrow> \<not> bit x m"
  by (metis bit_take_bit_iff linorder_not_less take_bit_int_eq_self)

definition uuid7_layout :: "int \<Rightarrow> int \<Rightarrow> int" where
  "uuid7_layout ts r =
     push_bit 80 ts OR push_bit 76 7 OR push_bit 64 (drop_bit 62 r) OR push_bit 62 2
       OR (r AND mask 62)"

lemma new_uuid7_eq:
  "new_uuid7 time_ns randbits (Some ts) (Some r) =
     (if \<not> (0 \<le> ts \<and> ts \<le> MAX_UUID7_TIMESTAMP_MS)
      then Inl (InvalidIdentifierError ''UUIDv7 timestamp is outside the 48-bit range'')
      else if \<not> (0 \<le> r \<and> r \<le> MAX_UUID7_RANDOM)
      then Inl (InvalidIdentifierError ''UUIDv7 random value is outside the 74-bit range'')
      else uuid_of_int (uuid7_layout ts r))"
  by (simp add: new_uuid7_def uuid7_layout_def mask_eq_exp_minus_1 push_bit_eq_mult)

lemma bit_seven: "bit (7::int) n \<longleftrightarrow> n < 3"
proof -
  have "mask 3 = (7::int)" by (simp add: mask_eq_exp_minus_1)
  then show ?thesis by (metis bit_mask_iff possible_bit_int)
qed

lemma bit_two: "bit (2::int) n \<longleftrightarrow> n = 1"
  by (simp add: bit_2_iff)

lemma bit_uuid7_layout:
  assumes "0 \<le> ts" "ts < 2 ^ 48" "0 \<le> r" "r < 2 ^ 74"
  shows "bit (uuid7_layout ts r) n \<longleftrightarrow>
    (if n < 62 then bit r n
     else if n < 64 then n = 63
     else if n < 76 then bit r (n - 2)
     else if n < 80 then n < 79
     else bit ts (n - 80))"
proof -
  have ts: "\<not> bit ts m" if "48 \<le> m" for m 
    using assms(1,2) that by (rule int_bit_bound)
  have r: "\<not> bit r m" if "74 \<le> m" for m
    using assms(3,4) that by (rule int_bit_bound)
  have seven: "bit (push_bit 76 (7::int)) n \<longleftrightarrow> 76 \<le> n \<and> n < 79"
    unfolding bit_push_bit_iff_int bit_seven by auto
  have two: "bit (push_bit 62 (2::int)) n \<longleftrightarrow> n = 63"
    unfolding bit_push_bit_iff_int bit_two by auto
  have rest: "bit (push_bit 80 ts) n \<longleftrightarrow> 80 \<le> n \<and> bit ts (n - 80)"
    "bit (push_bit 64 (drop_bit 62 r)) n \<longleftrightarrow> 64 \<le> n \<and> bit r (n - 2)"
    "bit (r AND mask 62) n \<longleftrightarrow> n < 62 \<and> bit r n"
    by (auto simp: bit_simps)
  show ?thesis
    unfolding uuid7_layout_def bit_or_iff seven two rest using r[of "n - 2"] by auto
qed

lemma uuid7_layout_range:
  assumes "0 \<le> ts" "ts < 2 ^ 48" "0 \<le> r" "r < 2 ^ 74"
  shows "0 \<le> uuid7_layout ts r \<and> uuid7_layout ts r < 2 ^ 128"
proof -
  have nn: "0 \<le> uuid7_layout ts r"
    using assms by (simp add: uuid7_layout_def)
  have "take_bit 128 (uuid7_layout ts r) = uuid7_layout ts r"
  proof (rule bit_eqI)
    fix n
    have "\<not> bit ts (n - 80)" if "\<not> n < 128"
      using assms(1,2) by (rule int_bit_bound) (use that in simp)
    then show "bit (take_bit 128 (uuid7_layout ts r)) n \<longleftrightarrow> bit (uuid7_layout ts r) n"
      unfolding bit_take_bit_iff bit_uuid7_layout[OF assms] by auto
  qed
  with nn show ?thesis
    by (metis take_bit_int_less_exp)
qed

lemma limits_lt:
  "ts \<le> MAX_UUID7_TIMESTAMP_MS \<longleftrightarrow> ts < 2 ^ 48" "r \<le> MAX_UUID7_RANDOM \<longleftrightarrow> r < 2 ^ 74"
  by (auto simp: uuid7_limits)

lemma new_uuid7_ok:
  "new_uuid7 time_ns randbits (Some ts) (Some r) = Inr u \<longleftrightarrow>
     0 \<le> ts \<and> ts < 2 ^ 48 \<and> 0 \<le> r \<and> r < 2 ^ 74 \<and> u = word_of_int (uuid7_layout ts r)"
  unfolding new_uuid7_eq limits_lt uuid_of_int_def
  using uuid7_layout_range by (auto simp: ok_simps simp del: numeral_power_eq_of_int_cancel_iff)

lemma new_uuid7_resolve:
  "new_uuid7 time_ns randbits timestamp_ms random_bits =
   new_uuid7 time_ns randbits
     (Some (case timestamp_ms of None \<Rightarrow> time_ns div 1000000 | Some t \<Rightarrow> t))
     (Some (case random_bits of None \<Rightarrow> randbits | Some r \<Rightarrow> r))"
  by (simp add: new_uuid7_def)

lemma uint_uuid7:
  assumes "0 \<le> ts" "ts < 2 ^ 48" "0 \<le> r" "r < 2 ^ 74"
  shows "uint (word_of_int (uuid7_layout ts r) :: uuid) = uuid7_layout ts r"
  unfolding uint_word_of_int_eq using uuid7_layout_range[OF assms]
  by (intro take_bit_int_eq_self) auto

text \<open>The timestamp and the random bits are read back from the identifier.\<close>

definition uuid7_timestamp :: "uuid \<Rightarrow> int" where
  "uuid7_timestamp u = drop_bit 80 (uint u)"

definition uuid7_random :: "uuid \<Rightarrow> int" where
  "uuid7_random u = (push_bit 62 (take_bit 12 (drop_bit 64 (uint u)))) OR take_bit 62 (uint u)"

lemma layout_timestamp:
  assumes "0 \<le> ts" "ts < 2 ^ 48" "0 \<le> r" "r < 2 ^ 74"
  shows "drop_bit 80 (uuid7_layout ts r) = ts"
  by (rule bit_eqI) (simp add: bit_drop_bit_eq bit_uuid7_layout[OF assms] del: numeral_plus_numeral)

lemma layout_random:
  assumes "0 \<le> ts" "ts < 2 ^ 48" "0 \<le> r" "r < 2 ^ 74"
  shows "push_bit 62 (take_bit 12 (drop_bit 64 (uuid7_layout ts r)))
           OR take_bit 62 (uuid7_layout ts r) = r"
proof (rule bit_eqI)
  fix n
  have "\<not> bit r n" if "74 \<le> n"
    using assms(3,4) that by (rule int_bit_bound)
  then show "bit (push_bit 62 (take_bit 12 (drop_bit 64 (uuid7_layout ts r)))
           OR take_bit 62 (uuid7_layout ts r)) n = bit r n"
    unfolding bit_or_iff bit_push_bit_iff_int bit_take_bit_iff bit_drop_bit_eq o_def
      bit_uuid7_layout[OF assms]
    by (cases "n < 62"; cases "n < 74") auto
qed

lemma layout_is_uuid7:
  assumes "0 \<le> ts" "ts < 2 ^ 48" "0 \<le> r" "r < 2 ^ 74"
  shows "is_uuid7 (word_of_int (uuid7_layout ts r))"
proof -
  let ?u = "word_of_int (uuid7_layout ts r) :: uuid"
  have b: "bit ?u n \<longleftrightarrow> n < 128 \<and> bit (uuid7_layout ts r) n" for n
    by (simp add: bit_simps)
  have variant: "uuid_variant ?u = RFC_4122"
    unfolding uuid_variant_def b bit_uuid7_layout[OF assms] by simp
  have "drop_bit 76 ?u AND 15 = 7"
  proof (rule bit_eqI)
    fix n assume "possible_bit TYPE(uuid) n"
    have m: "mask 4 = (15::uuid)" "mask 3 = (7::uuid)" by (simp_all add: mask_eq_exp_minus_1)
    have "bit (mask 4 :: uuid) n \<longleftrightarrow> n < 4" "bit (mask 3 :: uuid) n \<longleftrightarrow> n < 3"
      unfolding bit_mask_iff using \<open>possible_bit TYPE(uuid) n\<close> by auto
    then show "bit (drop_bit 76 ?u AND 15) n = bit (7::uuid) n"
      unfolding m bit_and_iff bit_drop_bit_eq o_def b bit_uuid7_layout[OF assms]
      by auto
  qed
  with variant show ?thesis
    by (simp add: is_uuid7_def uuid_version_def)
qed

text \<open>
  A generated identifier is a version 7 identifier of the RFC variant, and its timestamp and
  its 74 random bits read back as the ones it was made from. So two calls give the same identifier
  only for the same timestamp and the same random bits.
\<close>

theorem new_uuid7_roundtrip:
  assumes "new_uuid7 time_ns randbits timestamp_ms random_bits = Inr u"
  shows "is_uuid7 u \<and>
    uuid7_timestamp u = (case timestamp_ms of None \<Rightarrow> time_ns div 1000000 | Some t \<Rightarrow> t) \<and>
    uuid7_random u = (case random_bits of None \<Rightarrow> randbits | Some r \<Rightarrow> r)"
  using assms layout_is_uuid7 layout_timestamp layout_random uint_uuid7
  unfolding uuid7_timestamp_def uuid7_random_def
  by (subst (asm) new_uuid7_resolve) (simp add: new_uuid7_ok)

theorem new_uuid7_roundtrip_witness:
  "uuid7_timestamp (word_of_int (uuid7_layout 1700000000000 42)) = 1700000000000 \<and>
   uuid7_random (word_of_int (uuid7_layout 1700000000000 42)) = 42"
  using new_uuid7_roundtrip[of 0 0 "Some 1700000000000" "Some 42"
      "word_of_int (uuid7_layout 1700000000000 42)"]
  by (simp add: new_uuid7_ok)

end
