(* ===== verification/Encoding.thy ===== *)
theory Encoding
  imports Identifiers
begin

text \<open>
  The standard-library encodings the sources rely on: hexadecimal digests (\<^verbatim>\<open>bytes.hex\<close>,
  \<^verbatim>\<open>hexdigest\<close>), the text form of a UUID, big-endian byte forms, and RFC 4648 base64 with
  Python's \<^verbatim>\<open>b64decode(validate=True)\<close>. The contract of an encoding, that decoding gives back
  what was encoded, is a locale interpreted on each of them.
\<close>

locale text_codec =
  fixes enc :: "'a \<Rightarrow> 'b"
    and dec :: "'b \<Rightarrow> 'e + 'a"
  assumes dec_enc: "dec (enc x) = Inr x"
begin

lemma enc_inj: "enc x = enc y \<Longrightarrow> x = y"
  by (metis dec_enc sum.inject(2))

lemma enc_eq_iff: "enc x = enc y \<longleftrightarrow> x = y"
  by (auto dest: enc_inj)

end

subsection \<open>Hexadecimal\<close>

definition hex_alphabet :: string where
  "hex_alphabet = ''0123456789abcdef''"

definition hex_digit :: "nat \<Rightarrow> char" where
  "hex_digit n = hex_alphabet ! n"

definition is_hex :: "char \<Rightarrow> bool" where
  "is_hex c \<longleftrightarrow> c \<in> set hex_alphabet"

fun index_of :: "'a list \<Rightarrow> 'a \<Rightarrow> nat option" where
  "index_of [] x = None"
| "index_of (y # ys) x = (if x = y then Some 0 else map_option Suc (index_of ys x))"

lemma index_of_nth: "distinct xs \<Longrightarrow> n < length xs \<Longrightarrow> index_of xs (xs ! n) = Some n"
proof (induction xs arbitrary: n)
  case (Cons y ys)
  then show ?case by (cases n) auto
qed simp

lemma hex_alphabet_facts: "distinct hex_alphabet" "length hex_alphabet = 16"
  by (simp_all add: hex_alphabet_def)

lemma index_of_hex_digit: "n < 16 \<Longrightarrow> index_of hex_alphabet (hex_digit n) = Some n"
  by (simp add: hex_digit_def index_of_nth hex_alphabet_facts)

lemma is_hex_digit: "n < 16 \<Longrightarrow> is_hex (hex_digit n)"
  by (simp add: is_hex_def hex_digit_def hex_alphabet_facts)

lemma hex_digit_inj: "m < 16 \<Longrightarrow> n < 16 \<Longrightarrow> hex_digit m = hex_digit n \<Longrightarrow> m = n"
  by (metis index_of_hex_digit option.inject)

fun bytes_hex :: "bytes \<Rightarrow> string" where
  "bytes_hex [] = []"
| "bytes_hex (b # bs) = hex_digit (unat b div 16) # hex_digit (unat b mod 16) # bytes_hex bs"

fun bytes_fromhex :: "string \<Rightarrow> bytes result" where
  "bytes_fromhex [] = Inr []"
| "bytes_fromhex [c] = Inl (ValueError ''non-hexadecimal number found in fromhex() arg'')"
| "bytes_fromhex (c # d # s) =
     (case (index_of hex_alphabet c, index_of hex_alphabet d) of
        (Some h, Some l) \<Rightarrow> rbind (bytes_fromhex s) (\<lambda>bs. Inr (of_nat (16 * h + l) # bs))
      | _ \<Rightarrow> Inl (ValueError ''non-hexadecimal number found in fromhex() arg''))"

lemma unat_byte: "unat (b :: 8 word) < 256"
  using unsigned_less[of b] by simp

lemma bytes_fromhex_hex: "bytes_fromhex (bytes_hex bs) = Inr bs"
proof (induction bs)
  case (Cons b bs)
  have "unat b div 16 < 16" using unat_byte[of b] by simp
  moreover have "of_nat (16 * (unat b div 16) + unat b mod 16) = b" by simp
  ultimately show ?case using Cons by (simp add: index_of_hex_digit)
qed simp

interpretation hex: text_codec bytes_hex bytes_fromhex
  by unfold_locales (rule bytes_fromhex_hex)

lemma length_bytes_hex: "length (bytes_hex bs) = 2 * length bs"
  by (induction bs) auto

lemma bytes_hex_is_hex: "list_all is_hex (bytes_hex bs)"
proof (induction bs)
  case (Cons b bs)
  have "unat b div 16 < 16" using unat_byte[of b] by simp
  with Cons show ?case by (simp add: is_hex_digit)
qed simp

text \<open>The \<^verbatim>\<open>HexDigest\<close> pattern: exactly 64 lower-case hexadecimal characters.\<close>

definition hex_digest_ok :: "string \<Rightarrow> bool" where
  "hex_digest_ok s \<longleftrightarrow> length s = 64 \<and> list_all is_hex s"

lemma hexdigest_of_32: "length d = 32 \<Longrightarrow> hex_digest_ok (bytes_hex d)"
  by (simp add: hex_digest_ok_def length_bytes_hex bytes_hex_is_hex)

subsection \<open>Byte and text forms of a UUID\<close>

definition uuid_nibble :: "uuid \<Rightarrow> nat \<Rightarrow> nat" where
  "uuid_nibble u i = unat u div 16 ^ (31 - i) mod 16"

definition uuid_hex :: "uuid \<Rightarrow> string" where
  "uuid_hex u = map (\<lambda>i. hex_digit (uuid_nibble u i)) [0..<32]"

definition uuid_str :: "uuid \<Rightarrow> string" where
  "uuid_str u =
     (let h = uuid_hex u
      in take 8 h @ ''-'' @ take 4 (drop 8 h) @ ''-'' @ take 4 (drop 12 h) @ ''-''
           @ take 4 (drop 16 h) @ ''-'' @ drop 20 h)"

definition uuid_bytes :: "uuid \<Rightarrow> bytes" where
  "uuid_bytes u = map (\<lambda>i. of_nat (unat u div 256 ^ (15 - i) mod 256)) [0..<16]"

fun of_digits :: "nat \<Rightarrow> nat list \<Rightarrow> nat" where
  "of_digits base [] = 0"
| "of_digits base (d # ds) = d * base ^ length ds + of_digits base ds"

definition uuid_unstr :: "string \<Rightarrow> uuid result" where
  "uuid_unstr s =
     (let h = filter (\<lambda>c. c \<noteq> CHR ''-'') s
      in if length h \<noteq> 32 \<or> \<not> list_all is_hex h
         then Inl (ValueError ''badly formed hexadecimal UUID string'')
         else Inr (of_nat (of_digits 16 (map (\<lambda>c. the (index_of hex_alphabet c)) h))))"

lemma of_digits_map:
  "n < base ^ k \<Longrightarrow> 1 < base \<Longrightarrow>
   of_digits base (map (\<lambda>i. n div base ^ (k - 1 - i) mod base) [0..<k]) = n"
proof (induction k arbitrary: n)
  case 0
  then show ?case by simp
next
  case (Suc k)
  let ?r = "n mod base ^ k"
  have eq: "map (\<lambda>i. n div base ^ (Suc k - 1 - i) mod base) [0..<Suc k] =
      (n div base ^ k mod base) # map (\<lambda>i. ?r div base ^ (k - 1 - i) mod base) [0..<k]"
  proof -
    have "n div base ^ (k - Suc i) mod base = ?r div base ^ (k - 1 - i) mod base"
      if "i < k" for i
    proof -
      have k: "base ^ k = base ^ (k - Suc i) * base ^ Suc i"
        by (metis Suc_leI le_add_diff_inverse2 power_add that)
      have "?r div base ^ (k - Suc i) = n div base ^ (k - Suc i) mod base ^ Suc i"
        unfolding k using Suc.prems(2) by (simp add: mod_mult2_eq del: power_Suc)
      then show ?thesis by (simp add: mod_mod_cancel)
    qed
    then show ?thesis by (simp add: upt_conv_Cons map_Suc_upt[symmetric] del: upt_Suc)
  qed
  have "?r < base ^ k" using Suc.prems by simp
  then have "of_digits base (map (\<lambda>i. ?r div base ^ (k - 1 - i) mod base) [0..<k]) = ?r"
    using Suc by blast
  moreover have "n div base ^ k mod base = n div base ^ k"
    using Suc.prems by (simp add: less_mult_imp_div_less)
  ultimately show ?case
    unfolding eq by (simp add: div_mult_mod_eq)
qed

lemma uuid_hex_digits:
  "map (\<lambda>c. the (index_of hex_alphabet c)) (uuid_hex u) = map (uuid_nibble u) [0..<32]"
  by (simp add: uuid_hex_def index_of_hex_digit uuid_nibble_def del: upt_rec_numeral)

lemma uuid_hex_value: "of_nat (of_digits 16 (map (\<lambda>c. the (index_of hex_alphabet c)) (uuid_hex u))) = u"
proof -
  have "unat u < 16 ^ 32" using unsigned_less[of u] by simp
  then have "of_digits 16 (map (uuid_nibble u) [0..<32]) = unat u"
    using of_digits_map[of "unat u" 16 32]
    by (simp add: uuid_nibble_def[abs_def] del: upt_rec_numeral)
  then show ?thesis by (simp add: uuid_hex_digits del: upt_rec_numeral)
qed

lemma uuid_hex_facts: "length (uuid_hex u) = 32" "list_all is_hex (uuid_hex u)"
  by (simp_all add: uuid_hex_def list_all_iff is_hex_digit uuid_nibble_def del: upt_rec_numeral)

lemma hex_no_dash: "is_hex c \<Longrightarrow> c \<noteq> CHR ''-''"
  by (auto simp: is_hex_def hex_alphabet_def)

lemma filter_no_dash: "list_all is_hex s \<Longrightarrow> filter (\<lambda>c. c \<noteq> CHR ''-'') s = s"
  by (auto simp: list_all_iff dest: hex_no_dash intro!: filter_True)

lemma uuid_str_undash: "filter (\<lambda>c. c \<noteq> CHR ''-'') (uuid_str u) = uuid_hex u"
proof -
  let ?h = "uuid_hex u"
  have sub: "list_all is_hex (take n (drop m ?h))" "list_all is_hex (take n ?h)"
    "list_all is_hex (drop m ?h)" for m n
    using uuid_hex_facts(2)[of u] by (auto simp: list_all_iff dest: in_set_takeD in_set_dropD)
  have "filter (\<lambda>c. c \<noteq> CHR ''-'') (uuid_str u) =
      take 8 ?h @ take 4 (drop 8 ?h) @ take 4 (drop 12 ?h) @ take 4 (drop 16 ?h) @ drop 20 ?h"
    by (simp add: uuid_str_def Let_def filter_no_dash sub)
  also have "\<dots> = ?h"
  proof -
    have "take 4 (drop 16 ?h) @ drop 20 ?h = drop 16 ?h"
      "take 4 (drop 12 ?h) @ drop 16 ?h = drop 12 ?h"
      "take 4 (drop 8 ?h) @ drop 12 ?h = drop 8 ?h"
      using append_take_drop_id[of 4 "drop 16 ?h"] append_take_drop_id[of 4 "drop 12 ?h"]
        append_take_drop_id[of 4 "drop 8 ?h"]
      unfolding drop_drop by simp_all
    then show ?thesis by (simp only: append_take_drop_id)
  qed
  finally show ?thesis .
qed

lemma uuid_unstr_str: "uuid_unstr (uuid_str u) = Inr u"
  by (simp add: uuid_unstr_def uuid_str_undash uuid_hex_facts uuid_hex_value Let_def)

interpretation uuid_text: text_codec uuid_str uuid_unstr
  by unfold_locales (rule uuid_unstr_str)

subsection \<open>Base64\<close>

definition b64_alphabet :: string where
  "b64_alphabet = ''ABCDEFGHIJKLMNOPQRSTUVWXYZabcdefghijklmnopqrstuvwxyz0123456789+/''"

definition b64_char :: "nat \<Rightarrow> char" where
  "b64_char n = b64_alphabet ! n"

definition b64_val :: "char \<Rightarrow> nat option" where
  "b64_val c = index_of b64_alphabet c"

lemma b64_alphabet_facts: "distinct b64_alphabet" "length b64_alphabet = 64"
  by (simp_all add: b64_alphabet_def)

lemma b64_val_char: "n < 64 \<Longrightarrow> b64_val (b64_char n) = Some n"
  by (simp add: b64_char_def b64_val_def index_of_nth b64_alphabet_facts)

lemma b64_val_pad: "b64_val (CHR ''='') = None"
  by (simp add: b64_val_def b64_alphabet_def)

lemma b64_char_not_pad: "n < 64 \<Longrightarrow> b64_char n \<noteq> CHR ''=''"
  using b64_val_char b64_val_pad by fastforce

fun b64encode :: "bytes \<Rightarrow> string" where
  "b64encode [] = []"
| "b64encode [a] = [b64_char (unat a div 4), b64_char (unat a mod 4 * 16), CHR ''='', CHR ''='']"
| "b64encode [a, b] =
     [b64_char (unat a div 4), b64_char (unat a mod 4 * 16 + unat b div 16),
      b64_char (unat b mod 16 * 4), CHR ''='']"
| "b64encode (a # b # c # bs) =
     b64_char (unat a div 4) # b64_char (unat a mod 4 * 16 + unat b div 16)
       # b64_char (unat b mod 16 * 4 + unat c div 64) # b64_char (unat c mod 64) # b64encode bs"

definition b64_error :: exn where
  "b64_error = ValueError ''binascii.Error''"

fun b64decode :: "string \<Rightarrow> bytes result" where
  "b64decode [] = Inr []"
| "b64decode (p # q # r # t # s) =
     (if t = CHR ''='' then
        if s \<noteq> [] then Inl b64_error
        else if r = CHR ''='' then
          (case (b64_val p, b64_val q) of
             (Some x, Some y) \<Rightarrow> Inr [of_nat (x * 4 + y div 16)]
           | _ \<Rightarrow> Inl b64_error)
        else
          (case (b64_val p, b64_val q, b64_val r) of
             (Some x, Some y, Some z) \<Rightarrow>
               Inr [of_nat (x * 4 + y div 16), of_nat (y mod 16 * 16 + z div 4)]
           | _ \<Rightarrow> Inl b64_error)
      else
        (case (b64_val p, b64_val q, b64_val r, b64_val t) of
           (Some x, Some y, Some z, Some w) \<Rightarrow>
             rbind (b64decode s) (\<lambda>bs. Inr (of_nat (x * 4 + y div 16) # of_nat (y mod 16 * 16 + z div 4)
               # of_nat (z mod 4 * 64 + w) # bs))
         | _ \<Rightarrow> Inl b64_error))"
| "b64decode s = Inl b64_error"

lemma b64_sextets:
  fixes a b c :: "8 word"
  shows "unat a div 4 < 64" "unat a mod 4 * 16 < 64" "unat b mod 16 * 4 < 64"
    "unat a mod 4 * 16 + unat b div 16 < 64" "unat b mod 16 * 4 + unat c div 64 < 64"
  using unat_byte[of a] unat_byte[of b] unat_byte[of c] by linarith+

lemma b64_octets:
  fixes b c :: "8 word"
  shows "unat b div 16 div 16 = 0" "unat b div 16 mod 16 = unat b div 16"
    "unat c div 64 div 4 = 0" "unat c div 64 mod 4 = unat c div 64"
  using unat_byte[of b] unat_byte[of c] by (simp_all add: div_mult2_eq[symmetric])

lemma b64decode_encode: "b64decode (b64encode bs) = Inr bs"
  by (induction bs rule: b64encode.induct)
    (simp_all add: b64_val_char b64_sextets b64_char_not_pad b64_octets div_mult_mod_eq
      del: of_nat_add of_nat_mult)

interpretation b64: text_codec b64encode b64decode
  by unfold_locales (rule b64decode_encode)

end
