(* ===== verification/Values.thy ===== *)
theory Values
  imports Encoding Complex_Main
begin

text \<open>
  Normalised scalar values (\<^verbatim>\<open>domain/values.py\<close>): unit scores as Python decimals, and aware
  datetimes normalised to UTC and rendered with six fractional digits. A decimal is its sign,
  coefficient and exponent; a datetime is its wall-clock reading in microseconds since
  0001-01-01T00:00:00 together with the UTC offset it carries, and a normalised datetime is the
  UTC instant alone.
\<close>

subsection \<open>Decimals\<close>

datatype decimal = Dec bool nat int | DecInf bool | DecNaN

definition scale10 :: "nat \<Rightarrow> int \<Rightarrow> rat" where
  "scale10 c e = (if 0 \<le> e then of_nat c * 10 ^ nat e else of_nat c / 10 ^ nat (- e))"

fun dec_is_finite :: "decimal \<Rightarrow> bool" where
  "dec_is_finite (Dec s c e) = True"
| "dec_is_finite (DecInf s) = False"
| "dec_is_finite DecNaN = False"

fun dec_value :: "decimal \<Rightarrow> rat" where
  "dec_value (Dec s c e) = (if s then - scale10 c e else scale10 c e)"
| "dec_value (DecInf s) = 0"
| "dec_value DecNaN = 0"

fun dec_is_zero :: "decimal \<Rightarrow> bool" where
  "dec_is_zero (Dec s c e) = (c = 0)"
| "dec_is_zero (DecInf s) = False"
| "dec_is_zero DecNaN = False"

fun strip_zeros :: "nat \<Rightarrow> int \<Rightarrow> nat \<times> int" where
  "strip_zeros c e = (if c \<noteq> 0 \<and> c mod 10 = 0 then strip_zeros (c div 10) (e + 1) else (c, e))"

declare strip_zeros.simps [simp del]

fun dec_normalize :: "decimal \<Rightarrow> decimal" where
  "dec_normalize (Dec s c e) =
     (if c = 0 then Dec s 0 0 else case strip_zeros c e of (c', e') \<Rightarrow> Dec s c' e')"
| "dec_normalize (DecInf s) = DecInf s"
| "dec_normalize DecNaN = DecNaN"

definition round_half_even :: "nat \<Rightarrow> nat \<Rightarrow> nat" where
  "round_half_even n d =
     (let q = n div d; r = n mod d
      in if 2 * r < d \<or> (2 * r = d \<and> even q) then q else Suc q)"

definition MAX_SCORE_DECIMAL_PLACES :: nat where
  "MAX_SCORE_DECIMAL_PLACES = 6"

text \<open>\<^verbatim>\<open>value.quantize(Decimal(1).scaleb(-6))\<close> in the default context of 28 digits.\<close>

fun quantize_score :: "decimal \<Rightarrow> decimal result" where
  "quantize_score (Dec s c e) =
     (let places = int MAX_SCORE_DECIMAL_PLACES;
          q = (if - places \<le> e then c * 10 ^ nat (e + places)
               else round_half_even c (10 ^ nat (- places - e)))
      in if 10 ^ 28 \<le> q then Inl (ValueError ''InvalidOperation'')
         else Inr (Dec s q (- places)))"
| "quantize_score d = Inl (ValueError ''InvalidOperation'')"

definition normalize_unit_score :: "decimal \<Rightarrow> decimal result" where
  "normalize_unit_score d =
     (if \<not> dec_is_finite d then Inl (DomainValidationError ''score must be a finite decimal'')
      else if dec_value d < 0 \<or> dec_value d > 1
      then Inl (DomainValidationError ''score must be between zero and one'')
      else case quantize_score d of
             Inl _ \<Rightarrow> Inl (DomainValidationError ''score precision is invalid'')
           | Inr quantized \<Rightarrow>
               if dec_value quantized \<noteq> dec_value d
               then Inl (DomainValidationError ''score supports at most six decimal places'')
               else Inr (if dec_is_zero d then Dec False 0 0 else dec_normalize d))"

subsection \<open>Unit scores are canonical\<close>

lemma divide_power10: "rat_of_nat c / 10 ^ k = of_nat c * (inverse 10) ^ k"
  by (metis divide_inverse power_inverse)

lemma scale10_eq_powi: "scale10 c e = of_nat c * 10 powi e"
  unfolding scale10_def power_int_def by (simp only: divide_power10 split: if_split) blast

lemma scale10_zero_iff: "scale10 c e = 0 \<longleftrightarrow> c = 0"
  by (simp add: scale10_eq_powi)

lemma scale10_nonneg: "0 \<le> scale10 c e"
  by (simp add: scale10_eq_powi)

lemma strip_zeros_value: "strip_zeros c e = (c', e') \<Longrightarrow> scale10 c' e' = scale10 c e"
proof (induction c e arbitrary: c' e' rule: strip_zeros.induct)
  case (1 c e)
  show ?case
  proof (cases "c \<noteq> 0 \<and> c mod 10 = 0")
    case True
    then obtain k where k: "c = 10 * k" by (metis mod_eq_0_iff_dvd dvdE)
    from True 1 have "scale10 c' e' = scale10 (c div 10) (e + 1)"
      by (simp add: strip_zeros.simps[of c e])
    also have "\<dots> = scale10 c e"
      unfolding k by (simp add: scale10_eq_powi power_int_add)
    finally show ?thesis .
  next
    case False
    with "1.prems" show ?thesis by (simp add: strip_zeros.simps[of c e] split: if_splits)
  qed
qed

lemma strip_zeros_stripped: "c \<noteq> 0 \<Longrightarrow> fst (strip_zeros c e) \<noteq> 0 \<and> fst (strip_zeros c e) mod 10 \<noteq> 0"
proof (induction c e rule: strip_zeros.induct)
  case (1 c e)
  show ?case
  proof (cases "c mod 10 = 0")
    case True
    with "1.prems" have nz: "c div 10 \<noteq> 0" by (metis div_mult_mod_eq add_0_right mult_0)
    have eq: "strip_zeros c e = strip_zeros (c div 10) (e + 1)"
      using True "1.prems" by (simp add: strip_zeros.simps[of c e])
    from "1.prems" True have "c \<noteq> 0 \<and> c mod 10 = 0" by blast
    from "1.IH"[OF this nz] show ?thesis unfolding eq .
  next
    case False
    then have "strip_zeros c e = (c, e)" by (simp add: strip_zeros.simps[of c e])
    with "1.prems" False show ?thesis by simp
  qed
qed

lemma stripped_unique:
  assumes eq: "scale10 c e = scale10 c' e'"
    and c: "c \<noteq> 0" "c mod 10 \<noteq> 0" and c': "c' \<noteq> 0" "c' mod 10 \<noteq> 0"
  shows "c = c' \<and> e = e'"
proof -
  have aux: "e \<le> e'" if "scale10 c e = scale10 c' e'" "c' mod 10 \<noteq> 0" for c c' e e'
  proof (rule ccontr)
    assume "\<not> e \<le> e'"
    then obtain k where k: "e = e' + 1 + int k" by (metis not_le zless_iff_Suc_zadd add.assoc int_Suc add.commute)
    have "rat_of_nat (c * 10 ^ Suc k) * 10 powi e' = of_nat c' * 10 powi e'"
      using that(1) unfolding scale10_eq_powi k by (simp add: power_int_add algebra_simps)
    then have "rat_of_nat (c * 10 ^ Suc k) = of_nat c'" by simp
    then have "c * 10 ^ Suc k = c'" by (simp only: of_nat_eq_iff)
    then have "c' mod 10 = 0" by auto
    with that(2) show False by simp
  qed
  have "e = e'" using aux[OF eq c'(2)] aux[OF eq[symmetric] c(2)] by simp
  with eq show ?thesis by (simp add: scale10_eq_powi)
qed

lemma dec_normalize_value: "dec_value (dec_normalize d) = dec_value d"
  by (cases d) (auto simp: scale10_zero_iff scale10_def[of 0 0] split: prod.split
      dest: strip_zeros_value)

text \<open>A score is accepted exactly when it is a multiple of one millionth in the unit interval.\<close>

definition unit_score :: "decimal \<Rightarrow> bool" where
  "unit_score d \<longleftrightarrow> dec_is_finite d \<and> 0 \<le> dec_value d \<and> dec_value d \<le> 1
     \<and> (\<exists>n::nat. dec_value d = of_nat n / 10 ^ 6)"

lemma scale10_micro: "scale10 n (- 6) = of_nat n / 10 ^ 6"
  by (simp add: scale10_def)

lemma scale10_shift: "scale10 c (int k + e) = scale10 (c * 10 ^ k) e"
  by (simp add: scale10_eq_powi power_int_add)

lemma scale10_le_one: "scale10 c (- int k) \<le> 1 \<longleftrightarrow> c \<le> 10 ^ k"
proof -
  have eq: "scale10 c (- int k) = of_nat c / of_nat (10 ^ k)"
    by (simp add: scale10_def)
  have "(0::rat) < of_nat (10 ^ k)" by simp
  then show ?thesis unfolding eq by (simp only: pos_divide_le_eq mult_1 of_nat_le_iff)
qed

lemma scale10_inj: "scale10 c e = scale10 c' e \<longleftrightarrow> c = c'"
  by (simp add: scale10_eq_powi)

lemma round_half_even_mult: "0 < d \<Longrightarrow> round_half_even (n * d) d = n"
  by (simp add: round_half_even_def Let_def)

lemma round_half_even_le: "round_half_even n d \<le> Suc (n div d)"
  by (simp add: round_half_even_def Let_def)

lemma quantize_coarse:
  assumes "- 6 \<le> e" "scale10 c e \<le> 1"
  shows "\<exists>q. quantize_score (Dec s c e) = Inr (Dec s q (- 6)) \<and> scale10 c e = scale10 q (- 6)"
proof -
  obtain k where k: "e = int k + (- 6)" using assms(1) by (metis zle_iff_zadd add.commute)
  have "scale10 (c * 10 ^ k) (- 6) \<le> 1" using assms(2) unfolding k scale10_shift .
  then have "scale10 (c * 10 ^ k) (- int 6) \<le> 1" by simp
  then have "c * 10 ^ k \<le> 10 ^ 6" unfolding scale10_le_one .
  then have "c * 10 ^ k < 10 ^ 28" by (rule le_less_trans) simp
  then show ?thesis
    unfolding k scale10_shift by (simp add: MAX_SCORE_DECIMAL_PLACES_def Let_def)
qed

lemma quantize_fine:
  assumes "e < - 6" "scale10 c e \<le> 1"
  shows "quantize_score (Dec s c e) = Inr (Dec s (round_half_even c (10 ^ nat (- 6 - e))) (- 6))"
proof -
  define k where "k = nat (- 6 - e)"
  have e: "e = - int (k + 6)" using assms(1) by (simp add: k_def)
  have "c \<le> 10 ^ (k + 6)" using assms(2) unfolding e scale10_le_one .
  then have "c div 10 ^ k \<le> 10 ^ (k + 6) div 10 ^ k" by (rule div_le_mono)
  also have "(10::nat) ^ (k + 6) div 10 ^ k = 10 ^ 6" by (simp add: power_add)
  finally have "c div 10 ^ k \<le> 10 ^ 6" .
  then have "round_half_even c (10 ^ k) \<le> Suc (10 ^ 6)"
    using round_half_even_le[of c "10 ^ k"] by linarith
  then have "round_half_even c (10 ^ k) < 10 ^ 28" by (rule le_less_trans) simp
  with assms(1) show ?thesis
    by (simp add: MAX_SCORE_DECIMAL_PLACES_def Let_def k_def[symmetric])
qed

lemma quantize_fine_exact:
  assumes "e < - 6"
  shows "scale10 (round_half_even c (10 ^ nat (- 6 - e))) (- 6) = scale10 c e \<longleftrightarrow>
    (\<exists>n::nat. scale10 c e = scale10 n (- 6))"
proof -
  define k where "k = nat (- 6 - e)"
  have e: "(- 6) = int k + e" using assms by (simp add: k_def)
  have 1: "scale10 n (- 6) = scale10 c e \<longleftrightarrow> n * 10 ^ k = c" for n
    unfolding e scale10_shift scale10_inj ..
  have 2: "round_half_even (n * 10 ^ k) (10 ^ k) = n" for n
    by (rule round_half_even_mult) simp
  show ?thesis
    unfolding k_def[symmetric] eq_commute[of "scale10 c e"] 1 by (auto simp: 2)
qed

lemma nonneg_dec: "0 \<le> dec_value (Dec s c e) \<longleftrightarrow> \<not> s \<or> c = 0"
  using scale10_nonneg[of c e] scale10_zero_iff[of c e] by auto

lemma quantize_exact:
  assumes "0 \<le> dec_value (Dec s c e)" "dec_value (Dec s c e) \<le> 1"
  shows "(\<exists>q. quantize_score (Dec s c e) = Inr q \<and> dec_value q = dec_value (Dec s c e)) \<longleftrightarrow>
    (\<exists>n::nat. dec_value (Dec s c e) = of_nat n / 10 ^ 6)"
proof -
  have sc: "dec_value (Dec s c e) = scale10 c e"
    using assms(1) nonneg_dec[of s c e] scale10_zero_iff[of c e] by auto
  then have le: "scale10 c e \<le> 1" using assms by simp
  have sq: "dec_value (Dec s q (- 6)) = scale10 c e \<longleftrightarrow> scale10 q (- 6) = scale10 c e" for q
    using sc assms(1) scale10_nonneg[of q "- 6"] scale10_nonneg[of c e] by auto
  show ?thesis
  proof (cases "- 6 \<le> e")
    case True
    from quantize_coarse[OF this le, of s] show ?thesis
      unfolding sc scale10_micro[symmetric] using sq by fastforce
  next
    case False
    then have e: "e < - 6" by simp
    show ?thesis
      unfolding sc scale10_micro[symmetric] quantize_fine[OF e le]
      using quantize_fine_exact[OF e, of c] sq by auto
  qed
qed

lemma normalize_unit_score_eq:
  "normalize_unit_score d = Inr r \<longleftrightarrow>
     unit_score d \<and> r = (if dec_is_zero d then Dec False 0 0 else dec_normalize d)"
proof (cases d)
  case (Dec s c e)
  show ?thesis
  proof (cases "0 \<le> dec_value d \<and> dec_value d \<le> 1")
    case True
    then show ?thesis
      using quantize_exact[of s c e] unfolding Dec unit_score_def normalize_unit_score_def
      by (auto simp: ok_simps split: sum.splits simp del: quantize_score.simps dec_value.simps
          dec_normalize.simps dec_is_zero.simps)
  next
    case False
    then show ?thesis
      by (auto simp: unit_score_def normalize_unit_score_def Dec)
  qed
qed (simp_all add: normalize_unit_score_def unit_score_def)

lemma normalized_shape:
  assumes "unit_score d" "\<not> dec_is_zero d"
  shows "\<exists>c e. dec_normalize d = Dec False c e \<and> c \<noteq> 0 \<and> c mod 10 \<noteq> 0"
proof -
  obtain s c e where d: "d = Dec s c e" using assms(1) by (cases d) (auto simp: unit_score_def)
  then have c: "c \<noteq> 0" "\<not> s" using assms nonneg_dec[of s c e] by (auto simp: unit_score_def)
  obtain c' e' where st: "strip_zeros c e = (c', e')" by (cases "strip_zeros c e")
  from strip_zeros_stripped[OF c(1), of e] show ?thesis using c by (simp add: d st)
qed

lemma unit_score_value: "unit_score d \<Longrightarrow> dec_is_zero d \<longleftrightarrow> dec_value d = 0"
  by (cases d) (auto simp: unit_score_def scale10_zero_iff)

lemma normalized_score_value:
  "normalize_unit_score d = Inr r \<Longrightarrow> dec_value r = dec_value d \<and> unit_score r"
  unfolding normalize_unit_score_eq
  using unit_score_value[of d] normalized_shape[of d] dec_normalize_value[of d]
  by (auto simp: unit_score_def scale10_def[of 0 0])

lemma strip_zeros_id: "c mod 10 \<noteq> 0 \<Longrightarrow> strip_zeros c e = (c, e)"
  by (simp add: strip_zeros.simps[of c e])

lemma normalized_score_idem:
  assumes "normalize_unit_score d = Inr r"
  shows "normalize_unit_score r = Inr r"
proof (cases "dec_is_zero d")
  case True
  then have "r = Dec False 0 0" using assms by (simp add: normalize_unit_score_eq)
  with normalized_score_value[OF assms] show ?thesis by (simp add: normalize_unit_score_eq)
next
  case False
  with assms obtain c e where "r = Dec False c e" "c \<noteq> 0" "c mod 10 \<noteq> 0"
    using normalized_shape[of d] by (auto simp: normalize_unit_score_eq)
  with normalized_score_value[OF assms] show ?thesis
    by (simp add: normalize_unit_score_eq strip_zeros_id)
qed

lemma normalized_score_unique:
  assumes "normalize_unit_score d = Inr r" "normalize_unit_score d' = Inr r'"
    and "dec_value d = dec_value d'"
  shows "r = r'"
proof (cases "dec_is_zero d")
  case True
  then have "dec_is_zero d'"
    using assms unit_score_value[of d] unit_score_value[of d'] by (simp add: normalize_unit_score_eq)
  with True assms show ?thesis by (simp add: normalize_unit_score_eq)
next
  case False
  then have "\<not> dec_is_zero d'"
    using assms unit_score_value[of d] unit_score_value[of d'] by (simp add: normalize_unit_score_eq)
  with False assms obtain c e c' e'
    where "r = Dec False c e" "c \<noteq> 0" "c mod 10 \<noteq> 0" "r' = Dec False c' e'" "c' \<noteq> 0" "c' mod 10 \<noteq> 0"
    using normalized_shape[of d] normalized_shape[of d'] by (auto simp: normalize_unit_score_eq)
  moreover have "dec_value r = dec_value r'"
    using normalized_score_value assms by metis
  ultimately show ?thesis using stripped_unique[of c e c' e'] by simp
qed

text \<open>
  \<^verbatim>\<open>normalize_unit_score\<close> accepts exactly the finite decimals that are multiples of one
  millionth in the unit interval. What it returns has the value it was given, is a fixed point of
  the normalisation, and is the same decimal, digit for digit, for any two inputs of equal value:
  equal scores have equal canonical bytes.
\<close>

theorem normalize_unit_score_canonical:
  "is_ok (normalize_unit_score d) = unit_score d \<and>
   (normalize_unit_score d = Inr r \<longrightarrow>
      dec_value r = dec_value d \<and> normalize_unit_score r = Inr r \<and>
      (normalize_unit_score d' = Inr r' \<longrightarrow> (dec_value d = dec_value d') = (r = r')))"
proof (intro conjI impI)
  show "is_ok (normalize_unit_score d) = unit_score d"
    by (simp add: is_ok_iff normalize_unit_score_eq)
next
  assume r: "normalize_unit_score d = Inr r"
  then show "dec_value r = dec_value d" using normalized_score_value by blast
  from r show "normalize_unit_score r = Inr r" by (rule normalized_score_idem)
  assume "normalize_unit_score d' = Inr r'"
  with r show "(dec_value d = dec_value d') = (r = r')"
    using normalized_score_unique normalized_score_value by metis
qed

theorem normalize_unit_score_canonical_witness:
  "normalize_unit_score (Dec False 850 (- 3)) = Inr (Dec False 85 (- 2)) \<and>
   normalize_unit_score (Dec False 8500 (- 4)) = Inr (Dec False 85 (- 2)) \<and>
   dec_value (Dec False 850 (- 3)) = dec_value (Dec False 8500 (- 4))"
proof -
  have a: "normalize_unit_score (Dec False 850 (- 3)) = Inr (Dec False 85 (- 2))"
    and b: "normalize_unit_score (Dec False 8500 (- 4)) = Inr (Dec False 85 (- 2))"
    by (simp_all add: normalize_unit_score_def scale10_def MAX_SCORE_DECIMAL_PLACES_def
        strip_zeros.simps Let_def)
  from normalize_unit_score_canonical[of "Dec False 850 (- 3)" "Dec False 85 (- 2)"
      "Dec False 8500 (- 4)" "Dec False 85 (- 2)"] a b
  show ?thesis by simp
qed

subsection \<open>Datetimes\<close>

type_synonym utc = int

record py_datetime =
  dt_local :: int
  dt_utcoffset :: "int option"

definition MICROSECONDS_PER_DAY :: int where
  "MICROSECONDS_PER_DAY = 86400000000"

definition MAX_DATETIME :: int where
  "MAX_DATETIME = 3652059 * MICROSECONDS_PER_DAY"

definition normalize_utc_datetime :: "py_datetime \<Rightarrow> utc result" where
  "normalize_utc_datetime dt =
     (case dt_utcoffset dt of
        None \<Rightarrow> Inl (DomainValidationError ''datetime must include a timezone offset'')
      | Some offset \<Rightarrow>
          let instant = dt_local dt - offset
          in if 0 \<le> instant \<and> instant < MAX_DATETIME then Inr instant
             else Inl (OverflowError ''date value out of range''))"

text \<open>The proleptic Gregorian date of a day number, as \<^verbatim>\<open>datetime._ord2ymd\<close> computes it.\<close>

definition days_before_month :: "nat \<Rightarrow> int" where
  "days_before_month m = [0, 0, 31, 59, 90, 120, 151, 181, 212, 243, 273, 304, 334] ! m"

definition days_in_month :: "nat \<Rightarrow> int" where
  "days_in_month m = [0, 31, 28, 31, 30, 31, 30, 31, 31, 30, 31, 30, 31] ! m"

definition ord2ymd :: "int \<Rightarrow> int \<times> int \<times> int" where
  "ord2ymd ordinal =
     (let n = ordinal - 1; n400 = n div 146097; n = n mod 146097;
          n100 = n div 36524; n = n mod 36524; n4 = n div 1461; n = n mod 1461;
          n1 = n div 365; n = n mod 365;
          year = n400 * 400 + 1 + n100 * 100 + n4 * 4 + n1
      in if n1 = 4 \<or> n100 = 4 then (year - 1, 12, 31)
         else let leap = (n1 = 3 \<and> (n4 \<noteq> 24 \<or> n100 = 3));
                  month = (n + 50) div 32;
                  preceding = days_before_month (nat month) + (if month > 2 \<and> leap then 1 else 0)
              in if preceding > n
                 then let month = month - 1;
                          preceding = preceding
                            - (days_in_month (nat month) + (if month = 2 \<and> leap then 1 else 0))
                      in (year, month, n - preceding + 1)
                 else (year, month, n - preceding + 1))"

definition digit_char :: "nat \<Rightarrow> char" where
  "digit_char n = ''0123456789'' ! (n mod 10)"

fun zero_padded :: "nat \<Rightarrow> nat \<Rightarrow> string" where
  "zero_padded 0 n = []"
| "zero_padded (Suc width) n = zero_padded width (n div 10) @ [digit_char n]"

definition format_utc :: "utc \<Rightarrow> string" where
  "format_utc t =
     (let day = t div MICROSECONDS_PER_DAY; us = t mod MICROSECONDS_PER_DAY;
          (y, m, d) = ord2ymd (day + 1); sec = us div 1000000
      in zero_padded 4 (nat y) @ ''-'' @ zero_padded 2 (nat m) @ ''-'' @ zero_padded 2 (nat d) @ ''T''
           @ zero_padded 2 (nat (sec div 3600)) @ '':'' @ zero_padded 2 (nat (sec div 60 mod 60)) @ '':''
           @ zero_padded 2 (nat (sec mod 60)) @ ''.'' @ zero_padded 6 (nat (us mod 1000000)) @ ''Z'')"

definition format_utc_datetime :: "py_datetime \<Rightarrow> string result" where
  "format_utc_datetime dt = rbind (normalize_utc_datetime dt) (\<lambda>t. Inr (format_utc t))"

text \<open>Adding a number of seconds to an instant, as \<^verbatim>\<open>datetime + timedelta\<close> does.\<close>

definition utc_plus_seconds :: "utc \<Rightarrow> int \<Rightarrow> utc result" where
  "utc_plus_seconds t seconds =
     (let u = t + seconds * 1000000
      in if 0 \<le> u \<and> u < MAX_DATETIME then Inr u else Inl (OverflowError ''date value out of range''))"

lemma utc_plus_seconds_ok: "utc_plus_seconds t n = Inr u \<Longrightarrow> u = t + n * 1000000"
  by (simp add: utc_plus_seconds_def Let_def split: if_splits)

subsection \<open>Decimal text of integers\<close>

fun nat_str :: "nat \<Rightarrow> string" where
  "nat_str n = (if n < 10 then [digit_char n] else nat_str (n div 10) @ [digit_char n])"

declare nat_str.simps [simp del]

definition int_str :: "int \<Rightarrow> string" where
  "int_str i = (if i < 0 then ''-'' @ nat_str (nat (- i)) else nat_str (nat i))"

definition nat_value :: "string \<Rightarrow> nat" where
  "nat_value s = foldl (\<lambda>n c. 10 * n + (of_char c - 48)) 0 s"

lemma digit_char_value: "(of_char (digit_char n) :: nat) - 48 = n mod 10"
proof -
  have "\<forall>k \<in> set [0..<10]. (of_char (''0123456789'' ! k) :: nat) - 48 = k" by code_simp
  moreover have "n mod 10 \<in> set [0..<10]" by simp
  ultimately show ?thesis unfolding digit_char_def by (rule bspec)
qed

lemma nat_value_str: "nat_value (nat_str n) = n"
proof (induction n rule: nat_str.induct)
  case (1 n)
  show ?case
  proof (cases "n < 10")
    case True
    then show ?thesis by (subst nat_str.simps) (simp add: nat_value_def digit_char_value)
  next
    case False
    with 1 show ?thesis
      by (subst nat_str.simps) (simp add: nat_value_def digit_char_value)
  qed
qed

lemma nat_str_inj: "nat_str m = nat_str n \<longleftrightarrow> m = n"
  by (metis nat_value_str)

end
