(* ===== verification/Enums.thy ===== *)
theory Enums
  imports Prelude
begin

text \<open>
  The closed vocabularies of \<^verbatim>\<open>domain/enums.py\<close>, one datatype per \<^verbatim>\<open>StrEnum\<close> with the
  members in source order, their wire values, and the category, ontology, scope and visibility
  tables of \<^verbatim>\<open>domain/constraints.py\<close> and \<^verbatim>\<open>domain/folding.py\<close> that are functions of these
  enumerations alone.
\<close>

subsection \<open>Members\<close>

datatype memory_category =
    STABLE_FACT | USER_PREFERENCE | ASSISTANT_PREFERENCE_LIKE_PATTERN | BOUNDARY_OR_PERMISSION
  | INTERACTION_CONVENTION | RELATIONSHIP_PATTERN | EMERGENT_TENDENCY | EPISODIC_ANCHOR
  | PROJECT_DECISION | PROJECT_STATE | PROCEDURE | OPEN_QUESTION | INTERPRETATION | EXTERNAL_FACT

datatype ontological_status =
    LITERAL_USER_FACT | LITERAL_TECHNICAL_FACT | ASSISTANT_SELF_DESCRIPTION
  | OBSERVED_ASSISTANT_BEHAVIOR | ONT_INTERACTION_CONVENTION | FICTIONAL_OR_ROLEPLAYED_SCENE
  | HYPOTHESIS | UNCERTAIN

datatype memory_scope =
    SC_GLOBAL | SC_PERSONA | SC_RELATIONSHIP | SC_PROJECT | SC_EPISODIC | SC_SCENE_LOCAL

datatype memory_visibility = PRIVATE_ROOT | RESTRICTED | SHAREABLE | PUBLIC_SEED

datatype memory_status = CANDIDATE | ACTIVE | DISPUTED | SUPERSEDED | RETIRED | TOMBSTONED

datatype authority_class =
    EXPLICIT_USER_CORRECTION | EXPLICIT_USER_STATEMENT | VERIFIED_PROJECT_SOURCE
  | ASSISTANT_OBSERVATION | ASSISTANT_INTERPRETATION | EXTERNAL_SOURCE | IMPORTED_LEGACY_MEMORY

datatype event_operation =
    OP_OBSERVED | OP_REMEMBERED | OP_CANDIDATE_PROMOTED | OP_CANDIDATE_EXPIRED | OP_REVISED
  | OP_LINKED | OP_CONFLICT_OPENED | OP_CONFLICT_RESOLVED | OP_SUPERSEDED | OP_RETIRED
  | OP_TOMBSTONED | OP_BRANCH_CREATED | OP_VISIBILITY_CHANGED | OP_EVIDENCE_ATTACHED
  | OP_EVIDENCE_REDACTED | OP_UNLINKED | OP_PAYLOAD_PURGE_COMPLETED

datatype link_type =
    SUPPORTS | CONTRADICTS | REFINES | CAUSED_BY | ASSOCIATED_WITH | SUPERSEDES | PART_OF
  | FORKED_FROM

datatype transport_kind =
    DIRECT_PRIVATE | SECURE_TUNNEL | RELAY | GITHUB_INGRESS | INTERNAL_SERVICE | ARCHIVE_RESTORE

datatype subject_kind =
    SUBJ_GLOBAL | SUBJ_PERSONA | SUBJ_RELATIONSHIP | SUBJ_PROJECT | SUBJ_EPISODE | SUBJ_SCENE
  | SUBJ_CONCEPT

subsection \<open>Wire values\<close>

fun memory_category_value :: "memory_category \<Rightarrow> string" where
  "memory_category_value STABLE_FACT = ''stable_fact''"
| "memory_category_value USER_PREFERENCE = ''user_preference''"
| "memory_category_value ASSISTANT_PREFERENCE_LIKE_PATTERN = ''assistant_preference_like_pattern''"
| "memory_category_value BOUNDARY_OR_PERMISSION = ''boundary_or_permission''"
| "memory_category_value INTERACTION_CONVENTION = ''interaction_convention''"
| "memory_category_value RELATIONSHIP_PATTERN = ''relationship_pattern''"
| "memory_category_value EMERGENT_TENDENCY = ''emergent_tendency''"
| "memory_category_value EPISODIC_ANCHOR = ''episodic_anchor''"
| "memory_category_value PROJECT_DECISION = ''project_decision''"
| "memory_category_value PROJECT_STATE = ''project_state''"
| "memory_category_value PROCEDURE = ''procedure''"
| "memory_category_value OPEN_QUESTION = ''open_question''"
| "memory_category_value INTERPRETATION = ''interpretation''"
| "memory_category_value EXTERNAL_FACT = ''external_fact''"

fun ontological_status_value :: "ontological_status \<Rightarrow> string" where
  "ontological_status_value LITERAL_USER_FACT = ''literal_user_fact''"
| "ontological_status_value LITERAL_TECHNICAL_FACT = ''literal_technical_fact''"
| "ontological_status_value ASSISTANT_SELF_DESCRIPTION = ''assistant_self_description''"
| "ontological_status_value OBSERVED_ASSISTANT_BEHAVIOR = ''observed_assistant_behavior''"
| "ontological_status_value ONT_INTERACTION_CONVENTION = ''interaction_convention''"
| "ontological_status_value FICTIONAL_OR_ROLEPLAYED_SCENE = ''fictional_or_roleplayed_scene''"
| "ontological_status_value HYPOTHESIS = ''hypothesis''"
| "ontological_status_value UNCERTAIN = ''uncertain''"

fun memory_scope_value :: "memory_scope \<Rightarrow> string" where
  "memory_scope_value SC_GLOBAL = ''global''"
| "memory_scope_value SC_PERSONA = ''persona''"
| "memory_scope_value SC_RELATIONSHIP = ''relationship''"
| "memory_scope_value SC_PROJECT = ''project''"
| "memory_scope_value SC_EPISODIC = ''episodic''"
| "memory_scope_value SC_SCENE_LOCAL = ''scene_local''"

fun memory_visibility_value :: "memory_visibility \<Rightarrow> string" where
  "memory_visibility_value PRIVATE_ROOT = ''private_root''"
| "memory_visibility_value RESTRICTED = ''restricted''"
| "memory_visibility_value SHAREABLE = ''shareable''"
| "memory_visibility_value PUBLIC_SEED = ''public_seed''"

fun memory_status_value :: "memory_status \<Rightarrow> string" where
  "memory_status_value CANDIDATE = ''candidate''"
| "memory_status_value ACTIVE = ''active''"
| "memory_status_value DISPUTED = ''disputed''"
| "memory_status_value SUPERSEDED = ''superseded''"
| "memory_status_value RETIRED = ''retired''"
| "memory_status_value TOMBSTONED = ''tombstoned''"

fun authority_class_value :: "authority_class \<Rightarrow> string" where
  "authority_class_value EXPLICIT_USER_CORRECTION = ''explicit_user_correction''"
| "authority_class_value EXPLICIT_USER_STATEMENT = ''explicit_user_statement''"
| "authority_class_value VERIFIED_PROJECT_SOURCE = ''verified_project_source''"
| "authority_class_value ASSISTANT_OBSERVATION = ''assistant_observation''"
| "authority_class_value ASSISTANT_INTERPRETATION = ''assistant_interpretation''"
| "authority_class_value EXTERNAL_SOURCE = ''external_source''"
| "authority_class_value IMPORTED_LEGACY_MEMORY = ''imported_legacy_memory''"

fun event_operation_value :: "event_operation \<Rightarrow> string" where
  "event_operation_value OP_OBSERVED = ''observed''"
| "event_operation_value OP_REMEMBERED = ''remembered''"
| "event_operation_value OP_CANDIDATE_PROMOTED = ''candidate_promoted''"
| "event_operation_value OP_CANDIDATE_EXPIRED = ''candidate_expired''"
| "event_operation_value OP_REVISED = ''revised''"
| "event_operation_value OP_LINKED = ''linked''"
| "event_operation_value OP_CONFLICT_OPENED = ''conflict_opened''"
| "event_operation_value OP_CONFLICT_RESOLVED = ''conflict_resolved''"
| "event_operation_value OP_SUPERSEDED = ''superseded''"
| "event_operation_value OP_RETIRED = ''retired''"
| "event_operation_value OP_TOMBSTONED = ''tombstoned''"
| "event_operation_value OP_BRANCH_CREATED = ''branch_created''"
| "event_operation_value OP_VISIBILITY_CHANGED = ''visibility_changed''"
| "event_operation_value OP_EVIDENCE_ATTACHED = ''evidence_attached''"
| "event_operation_value OP_EVIDENCE_REDACTED = ''evidence_redacted''"
| "event_operation_value OP_UNLINKED = ''unlinked''"
| "event_operation_value OP_PAYLOAD_PURGE_COMPLETED = ''payload_purge_completed''"

fun link_type_value :: "link_type \<Rightarrow> string" where
  "link_type_value SUPPORTS = ''supports''"
| "link_type_value CONTRADICTS = ''contradicts''"
| "link_type_value REFINES = ''refines''"
| "link_type_value CAUSED_BY = ''caused_by''"
| "link_type_value ASSOCIATED_WITH = ''associated_with''"
| "link_type_value SUPERSEDES = ''supersedes''"
| "link_type_value PART_OF = ''part_of''"
| "link_type_value FORKED_FROM = ''forked_from''"

fun subject_kind_value :: "subject_kind \<Rightarrow> string" where
  "subject_kind_value SUBJ_GLOBAL = ''global''"
| "subject_kind_value SUBJ_PERSONA = ''persona''"
| "subject_kind_value SUBJ_RELATIONSHIP = ''relationship''"
| "subject_kind_value SUBJ_PROJECT = ''project''"
| "subject_kind_value SUBJ_EPISODE = ''episode''"
| "subject_kind_value SUBJ_SCENE = ''scene''"
| "subject_kind_value SUBJ_CONCEPT = ''concept''"

text \<open>
  A \<^verbatim>\<open>StrEnum\<close> is recovered from its wire value by searching its members; the interface says
  that the members are all listed and that no two share a value.
\<close>

fun enum_parse :: "('a \<Rightarrow> string) \<Rightarrow> 'a list \<Rightarrow> string \<Rightarrow> 'a option" where
  "enum_parse wire [] s = None"
| "enum_parse wire (m # ms) s = (if wire m = s then Some m else enum_parse wire ms s)"

definition enum_values :: "('a \<Rightarrow> string) \<Rightarrow> 'a list \<Rightarrow> string list" where
  "enum_values wire members = map wire members"

locale str_enum =
  fixes members :: "'a list"
    and wire :: "'a \<Rightarrow> string"
  assumes complete: "m \<in> set members"
    and distinct_values: "distinct (enum_values wire members)"
begin

lemma value_inj: "wire m = wire m' \<Longrightarrow> m = m'"
  using distinct_values complete by (auto simp: enum_values_def distinct_map inj_on_def)

lemma parse_sub: "m \<in> set ms \<Longrightarrow> enum_parse wire ms (wire m) = Some m"
  by (induction ms) (auto dest: value_inj)

lemma parse_value: "enum_parse wire members (wire m) = Some m"
  by (rule parse_sub) (rule complete)

lemma parse_only: "enum_parse wire ms s = Some m \<Longrightarrow> wire m = s"
  by (induction ms) (auto split: if_splits)

end

definition memory_categories :: "memory_category list" where
  "memory_categories =
    [STABLE_FACT, USER_PREFERENCE, ASSISTANT_PREFERENCE_LIKE_PATTERN, BOUNDARY_OR_PERMISSION,
     INTERACTION_CONVENTION, RELATIONSHIP_PATTERN, EMERGENT_TENDENCY, EPISODIC_ANCHOR,
     PROJECT_DECISION, PROJECT_STATE, PROCEDURE, OPEN_QUESTION, INTERPRETATION, EXTERNAL_FACT]"

definition ontological_statuses :: "ontological_status list" where
  "ontological_statuses =
    [LITERAL_USER_FACT, LITERAL_TECHNICAL_FACT, ASSISTANT_SELF_DESCRIPTION,
     OBSERVED_ASSISTANT_BEHAVIOR, ONT_INTERACTION_CONVENTION, FICTIONAL_OR_ROLEPLAYED_SCENE,
     HYPOTHESIS, UNCERTAIN]"

definition memory_scopes :: "memory_scope list" where
  "memory_scopes = [SC_GLOBAL, SC_PERSONA, SC_RELATIONSHIP, SC_PROJECT, SC_EPISODIC, SC_SCENE_LOCAL]"

definition event_operations :: "event_operation list" where
  "event_operations =
    [OP_OBSERVED, OP_REMEMBERED, OP_CANDIDATE_PROMOTED, OP_CANDIDATE_EXPIRED, OP_REVISED,
     OP_LINKED, OP_CONFLICT_OPENED, OP_CONFLICT_RESOLVED, OP_SUPERSEDED, OP_RETIRED,
     OP_TOMBSTONED, OP_BRANCH_CREATED, OP_VISIBILITY_CHANGED, OP_EVIDENCE_ATTACHED,
     OP_EVIDENCE_REDACTED, OP_UNLINKED, OP_PAYLOAD_PURGE_COMPLETED]"

interpretation category_enum: str_enum memory_categories memory_category_value
proof unfold_locales
  fix m show "m \<in> set memory_categories" by (cases m) (simp_all add: memory_categories_def)
qed (simp add: enum_values_def memory_categories_def)

interpretation ontology_enum: str_enum ontological_statuses ontological_status_value
proof unfold_locales
  fix m show "m \<in> set ontological_statuses" by (cases m) (simp_all add: ontological_statuses_def)
qed (simp add: enum_values_def ontological_statuses_def)

interpretation scope_enum: str_enum memory_scopes memory_scope_value
proof unfold_locales
  fix m show "m \<in> set memory_scopes" by (cases m) (simp_all add: memory_scopes_def)
qed (simp add: enum_values_def memory_scopes_def)

interpretation operation_enum: str_enum event_operations event_operation_value
proof unfold_locales
  fix m show "m \<in> set event_operations" by (cases m) (simp_all add: event_operations_def)
qed (simp add: enum_values_def event_operations_def)

definition memory_visibilities :: "memory_visibility list" where
  "memory_visibilities =
    [PRIVATE_ROOT, RESTRICTED, SHAREABLE, PUBLIC_SEED]"

definition memory_statuses :: "memory_status list" where
  "memory_statuses =
    [CANDIDATE, ACTIVE, DISPUTED, SUPERSEDED, RETIRED, TOMBSTONED]"

definition authority_classes :: "authority_class list" where
  "authority_classes =
    [EXPLICIT_USER_CORRECTION, EXPLICIT_USER_STATEMENT, VERIFIED_PROJECT_SOURCE, ASSISTANT_OBSERVATION,
     ASSISTANT_INTERPRETATION, EXTERNAL_SOURCE, IMPORTED_LEGACY_MEMORY]"

definition link_types :: "link_type list" where
  "link_types =
    [SUPPORTS, CONTRADICTS, REFINES, CAUSED_BY, ASSOCIATED_WITH, SUPERSEDES, PART_OF, FORKED_FROM]"

definition subject_kinds :: "subject_kind list" where
  "subject_kinds =
    [SUBJ_GLOBAL, SUBJ_PERSONA, SUBJ_RELATIONSHIP, SUBJ_PROJECT, SUBJ_EPISODE, SUBJ_SCENE, SUBJ_CONCEPT]"

interpretation visibility_enum: str_enum memory_visibilities memory_visibility_value
proof unfold_locales
  fix m show "m \<in> set memory_visibilities" by (cases m) (simp_all add: memory_visibilities_def)
qed (simp add: enum_values_def memory_visibilities_def)

interpretation status_enum: str_enum memory_statuses memory_status_value
proof unfold_locales
  fix m show "m \<in> set memory_statuses" by (cases m) (simp_all add: memory_statuses_def)
qed (simp add: enum_values_def memory_statuses_def)

interpretation authority_enum: str_enum authority_classes authority_class_value
proof unfold_locales
  fix m show "m \<in> set authority_classes" by (cases m) (simp_all add: authority_classes_def)
qed (simp add: enum_values_def authority_classes_def)

interpretation link_enum: str_enum link_types link_type_value
proof unfold_locales
  fix m show "m \<in> set link_types" by (cases m) (simp_all add: link_types_def)
qed (simp add: enum_values_def link_types_def)

interpretation subject_enum: str_enum subject_kinds subject_kind_value
proof unfold_locales
  fix m show "m \<in> set subject_kinds" by (cases m) (simp_all add: subject_kinds_def)
qed (simp add: enum_values_def subject_kinds_def)

subsection \<open>Category, ontology, scope and subject tables\<close>

fun CATEGORY_ONTOLOGY_COMPATIBILITY :: "memory_category \<Rightarrow> ontological_status list" where
  "CATEGORY_ONTOLOGY_COMPATIBILITY STABLE_FACT = [LITERAL_USER_FACT, LITERAL_TECHNICAL_FACT]"
| "CATEGORY_ONTOLOGY_COMPATIBILITY USER_PREFERENCE = [LITERAL_USER_FACT, UNCERTAIN]"
| "CATEGORY_ONTOLOGY_COMPATIBILITY ASSISTANT_PREFERENCE_LIKE_PATTERN =
     [ASSISTANT_SELF_DESCRIPTION, OBSERVED_ASSISTANT_BEHAVIOR, HYPOTHESIS, UNCERTAIN]"
| "CATEGORY_ONTOLOGY_COMPATIBILITY BOUNDARY_OR_PERMISSION =
     [LITERAL_USER_FACT, ONT_INTERACTION_CONVENTION, UNCERTAIN]"
| "CATEGORY_ONTOLOGY_COMPATIBILITY INTERACTION_CONVENTION =
     [ONT_INTERACTION_CONVENTION, LITERAL_USER_FACT, UNCERTAIN]"
| "CATEGORY_ONTOLOGY_COMPATIBILITY RELATIONSHIP_PATTERN =
     [OBSERVED_ASSISTANT_BEHAVIOR, ONT_INTERACTION_CONVENTION, HYPOTHESIS, UNCERTAIN]"
| "CATEGORY_ONTOLOGY_COMPATIBILITY EMERGENT_TENDENCY =
     [ASSISTANT_SELF_DESCRIPTION, OBSERVED_ASSISTANT_BEHAVIOR, HYPOTHESIS, UNCERTAIN]"
| "CATEGORY_ONTOLOGY_COMPATIBILITY EPISODIC_ANCHOR =
     filter (\<lambda>s. s \<noteq> HYPOTHESIS) ontological_statuses"
| "CATEGORY_ONTOLOGY_COMPATIBILITY PROJECT_DECISION = [LITERAL_TECHNICAL_FACT, UNCERTAIN]"
| "CATEGORY_ONTOLOGY_COMPATIBILITY PROJECT_STATE = [LITERAL_TECHNICAL_FACT, UNCERTAIN]"
| "CATEGORY_ONTOLOGY_COMPATIBILITY PROCEDURE =
     [LITERAL_TECHNICAL_FACT, ONT_INTERACTION_CONVENTION, UNCERTAIN]"
| "CATEGORY_ONTOLOGY_COMPATIBILITY OPEN_QUESTION = [HYPOTHESIS, UNCERTAIN]"
| "CATEGORY_ONTOLOGY_COMPATIBILITY INTERPRETATION = [HYPOTHESIS, UNCERTAIN]"
| "CATEGORY_ONTOLOGY_COMPATIBILITY EXTERNAL_FACT = [LITERAL_TECHNICAL_FACT, HYPOTHESIS, UNCERTAIN]"

definition validate_category_ontology :: "memory_category \<Rightarrow> ontological_status \<Rightarrow> unit result" where
  "validate_category_ontology category ontological_status =
     (if ontological_status \<notin> set (CATEGORY_ONTOLOGY_COMPATIBILITY category)
      then Inl (DomainConstraintError ''category_ontology_incompatible''
                  ''memory category and ontological status are incompatible'')
      else Inr ())"

text \<open>The \<^verbatim>\<open>expected_subject\<close> table that the after-image validators index by scope.\<close>

fun expected_subject :: "memory_scope \<Rightarrow> subject_kind" where
  "expected_subject SC_GLOBAL = SUBJ_GLOBAL"
| "expected_subject SC_PERSONA = SUBJ_PERSONA"
| "expected_subject SC_RELATIONSHIP = SUBJ_RELATIONSHIP"
| "expected_subject SC_PROJECT = SUBJ_PROJECT"
| "expected_subject SC_EPISODIC = SUBJ_EPISODE"
| "expected_subject SC_SCENE_LOCAL = SUBJ_SCENE"

text \<open>
  \<^verbatim>\<open>_BRANCH_VISIBILITIES\<close>: what a branch with a given ceiling may hold. The visibilities are
  linearly ordered from the most private to the most public, and a ceiling allows exactly the
  visibilities below it.
\<close>

fun BRANCH_VISIBILITIES :: "memory_visibility \<Rightarrow> memory_visibility list" where
  "BRANCH_VISIBILITIES PRIVATE_ROOT = [PRIVATE_ROOT]"
| "BRANCH_VISIBILITIES RESTRICTED = [PRIVATE_ROOT, RESTRICTED]"
| "BRANCH_VISIBILITIES SHAREABLE = [PRIVATE_ROOT, RESTRICTED, SHAREABLE]"
| "BRANCH_VISIBILITIES PUBLIC_SEED = [PRIVATE_ROOT, RESTRICTED, SHAREABLE, PUBLIC_SEED]"

fun visibility_rank :: "memory_visibility \<Rightarrow> nat" where
  "visibility_rank PRIVATE_ROOT = 0"
| "visibility_rank RESTRICTED = 1"
| "visibility_rank SHAREABLE = 2"
| "visibility_rank PUBLIC_SEED = 3"

lemma visibility_rank_inj: "visibility_rank v = visibility_rank w \<Longrightarrow> v = w"
  by (cases v; cases w) simp_all

instantiation memory_visibility :: linorder
begin

definition less_eq_memory_visibility :: "memory_visibility \<Rightarrow> memory_visibility \<Rightarrow> bool" where
  "less_eq_memory_visibility v w \<longleftrightarrow> visibility_rank v \<le> visibility_rank w"

definition less_memory_visibility :: "memory_visibility \<Rightarrow> memory_visibility \<Rightarrow> bool" where
  "less_memory_visibility v w \<longleftrightarrow> visibility_rank v < visibility_rank w"

instance
  by standard (auto simp: less_eq_memory_visibility_def less_memory_visibility_def
      intro: visibility_rank_inj)

end

lemma BRANCH_VISIBILITIES_iff: "v \<in> set (BRANCH_VISIBILITIES c) \<longleftrightarrow> v \<le> c"
  by (cases c; cases v) (simp_all add: less_eq_memory_visibility_def)

end
