(* ===== verification/Canonical_JSON.thy ===== *)
theory Canonical_JSON
  imports Values Enums
begin

text \<open>
  The ScaleVault normalisation profile of \<^verbatim>\<open>domain/canonical_json.py\<close>. Python values are a
  datatype with one constructor per case the profile distinguishes; a mapping or a sequence
  carries the identity (\<^verbatim>\<open>id\<close>) that the cycle check uses. The \<^verbatim>\<open>rfc8785\<close> package, SHA-256
  and the conversion of a decimal to a binary64 float are fields of the record \<open>codec\<close>, an
  argument of every definition that uses them. A finite float is the decimal that its \<^verbatim>\<open>repr\<close>
  denotes, which determines it.
\<close>

datatype pyfloat = FFinite decimal | FInf bool | FNaN

datatype json =
    JNull
  | JBool bool
  | JInt int
  | JFloat pyfloat
  | JStr pystr
  | JArr "json list"
  | JObj "(pystr \<times> json) list"

datatype pyvalue =
    PyNone
  | PyBool bool
  | PyUUID uuid
  | PyDateTime py_datetime
  | PyStrEnum pystr
  | PyStr pystr
  | PyInt int
  | PyDecimal decimal
  | PyFloat pyfloat
  | PyMapping nat "(pyvalue \<times> pyvalue) list"
  | PySequence nat "pyvalue list"
  | PyOther

record codec =
  rfc8785_dumps :: "json \<Rightarrow> bytes option"
  sha256 :: "bytes \<Rightarrow> bytes"
  decimal_to_float :: "decimal \<Rightarrow> pyfloat"

definition MAX_CANONICAL_JSON_DEPTH :: int where
  "MAX_CANONICAL_JSON_DEPTH = 64"

definition MAX_IJSON_INTEGER :: int where
  "MAX_IJSON_INTEGER = 2 ^ 53 - 1"

definition surrogate :: "nat \<Rightarrow> bool" where
  "surrogate c \<longleftrightarrow> 0xD800 \<le> c \<and> c \<le> 0xDFFF"

definition validate_string :: "pystr \<Rightarrow> pystr result" where
  "validate_string s =
     (if list_ex surrogate s
      then Inl (CanonicalJsonError ''JSON strings cannot contain lone surrogate code points'')
      else Inr s)"

definition normalize_integer :: "int \<Rightarrow> int result" where
  "normalize_integer i =
     (if \<not> (- MAX_IJSON_INTEGER \<le> i \<and> i \<le> MAX_IJSON_INTEGER)
      then Inl (CanonicalJsonError ''integer is outside the I-JSON interoperable range'')
      else Inr i)"

text \<open>\<^verbatim>\<open>Decimal.normalize\<close> first rounds to the 28 digits of the default context.\<close>

fun ndigits :: "nat \<Rightarrow> nat" where
  "ndigits n = (if n < 10 then 1 else Suc (ndigits (n div 10)))"

declare ndigits.simps [simp del]

fun dec_context28 :: "decimal \<Rightarrow> decimal" where
  "dec_context28 (Dec s c e) =
     (if ndigits c \<le> 28 then Dec s c e
      else let k = ndigits c - 28 in Dec s (round_half_even c (10 ^ k)) (e + int k))"
| "dec_context28 d = d"

fun dec_integral :: "decimal \<Rightarrow> int option" where
  "dec_integral (Dec s c e) =
     (let i = (if 0 \<le> e then Some (int c * 10 ^ nat e)
               else if c mod 10 ^ nat (- e) = 0 then Some (int (c div 10 ^ nat (- e)))
               else None)
      in map_option (\<lambda>v. if s then - v else v) i)"
| "dec_integral d = None"

definition normalize_decimal :: "'z codec_scheme \<Rightarrow> decimal \<Rightarrow> json result" where
  "normalize_decimal L d =
     (if \<not> dec_is_finite d then Inl (CanonicalJsonError ''JSON numbers must be finite'')
      else case dec_integral d of
             Some i \<Rightarrow> rbind (normalize_integer i) (\<lambda>i. Inr (JInt i))
           | None \<Rightarrow>
               (case decimal_to_float L d of
                  FFinite r \<Rightarrow>
                    if dec_value r \<noteq> dec_value (dec_normalize (dec_context28 d))
                    then Inl (CanonicalJsonError
                                ''decimal cannot be represented as an interoperable JSON number'')
                    else Inr (JFloat (FFinite r))
                | _ \<Rightarrow> Inl (CanonicalJsonError
                             ''decimal cannot be represented as an interoperable JSON number'')))"

definition key_of :: "pyvalue \<Rightarrow> pystr result" where
  "key_of k =
     (case k of PyStr s \<Rightarrow> Inr s | PyStrEnum s \<Rightarrow> Inr s
      | _ \<Rightarrow> Inl (CanonicalJsonError ''JSON object names must be strings''))"

fun normalize :: "'z codec_scheme \<Rightarrow> int \<Rightarrow> nat list \<Rightarrow> int \<Rightarrow> pyvalue \<Rightarrow> json result"
  and normalize_items :: "'z codec_scheme \<Rightarrow> int \<Rightarrow> nat list \<Rightarrow> int \<Rightarrow> (pyvalue \<times> pyvalue) list \<Rightarrow>
        (pystr \<times> json) list result"
  and normalize_children :: "'z codec_scheme \<Rightarrow> int \<Rightarrow> nat list \<Rightarrow> int \<Rightarrow> pyvalue list \<Rightarrow> json list result"
where
  "normalize L max_depth active depth item =
     (if depth > max_depth
      then Inl (CanonicalJsonError ''JSON value exceeds the maximum nesting depth'')
      else case item of
        PyNone \<Rightarrow> Inr JNull
      | PyBool b \<Rightarrow> Inr (JBool b)
      | PyUUID u \<Rightarrow> Inr (JStr (lit (uuid_str u)))
      | PyDateTime t \<Rightarrow> rbind (format_utc_datetime t) (\<lambda>s. Inr (JStr (lit s)))
      | PyStrEnum s \<Rightarrow> rbind (validate_string s) (\<lambda>s. Inr (JStr s))
      | PyStr s \<Rightarrow> rbind (validate_string s) (\<lambda>s. Inr (JStr s))
      | PyInt i \<Rightarrow> rbind (normalize_integer i) (\<lambda>i. Inr (JInt i))
      | PyDecimal d \<Rightarrow> normalize_decimal L d
      | PyFloat f \<Rightarrow>
          (case f of FFinite d \<Rightarrow> Inr (JFloat f)
           | _ \<Rightarrow> Inl (CanonicalJsonError ''JSON numbers must be finite''))
      | PyMapping identity items \<Rightarrow>
          if identity \<in> set active
          then Inl (CanonicalJsonError ''cyclic objects are not valid JSON'')
          else rbind (normalize_items L max_depth (identity # active) (depth + 1) items)
                 (\<lambda>ps. Inr (JObj ps))
      | PySequence identity children \<Rightarrow>
          if identity \<in> set active
          then Inl (CanonicalJsonError ''cyclic arrays are not valid JSON'')
          else rbind (normalize_children L max_depth (identity # active) (depth + 1) children)
                 (\<lambda>js. Inr (JArr js))
      | PyOther \<Rightarrow> Inl (CanonicalJsonError ''value is not supported by the canonical JSON profile''))"
| "normalize_items L max_depth active depth [] = Inr []"
| "normalize_items L max_depth active depth ((key, child) # items) =
     rbind (key_of key) (\<lambda>k.
     rbind (normalize L max_depth active depth child) (\<lambda>j.
     rbind (validate_string k) (\<lambda>k.
     rbind (normalize_items L max_depth active depth items) (\<lambda>ps. Inr ((k, j) # ps)))))"
| "normalize_children L max_depth active depth [] = Inr []"
| "normalize_children L max_depth active depth (child # children) =
     rbind (normalize L max_depth active depth child) (\<lambda>j.
     rbind (normalize_children L max_depth active depth children) (\<lambda>js. Inr (j # js)))"

declare normalize.simps [simp del]

definition normalize_json_value :: "'z codec_scheme \<Rightarrow> int \<Rightarrow> pyvalue \<Rightarrow> json result" where
  "normalize_json_value L max_depth v =
     (if max_depth < 0 then Inl (ValueError ''max_depth must be a non-negative integer'')
      else normalize L max_depth [] 0 v)"

definition canonical_json_bytes :: "'z codec_scheme \<Rightarrow> pyvalue \<Rightarrow> bytes result" where
  "canonical_json_bytes L v =
     rbind (normalize_json_value L MAX_CANONICAL_JSON_DEPTH v) (\<lambda>normalized.
       case rfc8785_dumps L normalized of
         None \<Rightarrow> Inl (CanonicalJsonError ''RFC 8785 canonicalization failed'')
       | Some b \<Rightarrow> Inr b)"

definition sha256_digest :: "'z codec_scheme \<Rightarrow> bytes \<Rightarrow> bytes" where
  "sha256_digest L b = sha256 L b"

definition sha256_hexdigest :: "'z codec_scheme \<Rightarrow> bytes \<Rightarrow> string" where
  "sha256_hexdigest L b = bytes_hex (sha256 L b)"

definition canonical_payload_hash :: "'z codec_scheme \<Rightarrow> pyvalue \<Rightarrow> bytes result" where
  "canonical_payload_hash L payload =
     rbind (canonical_json_bytes L payload) (\<lambda>b. Inr (sha256_digest L b))"

text \<open>
  What normalisation guarantees: interoperable integers, finite floats, no lone surrogates, and
  a nesting depth within the bound. A normalised value is itself a Python value
  (\<open>py_of_json\<close>, which gives nested containers distinct identities).
\<close>

fun ijson :: "json \<Rightarrow> bool" where
  "ijson JNull = True"
| "ijson (JBool b) = True"
| "ijson (JInt i) = (- MAX_IJSON_INTEGER \<le> i \<and> i \<le> MAX_IJSON_INTEGER)"
| "ijson (JFloat f) = (case f of FFinite d \<Rightarrow> True | _ \<Rightarrow> False)"
| "ijson (JStr s) = (\<not> list_ex surrogate s)"
| "ijson (JArr js) = list_all ijson js"
| "ijson (JObj ps) = list_all (\<lambda>(k, j). \<not> list_ex surrogate k \<and> ijson j) ps"

fun within_depth :: "int \<Rightarrow> json \<Rightarrow> bool" where
  "within_depth n (JArr js) = (0 \<le> n \<and> list_all (within_depth (n - 1)) js)"
| "within_depth n (JObj ps) = (0 \<le> n \<and> list_all (\<lambda>(k, j). within_depth (n - 1) j) ps)"
| "within_depth n j = (0 \<le> n)"

fun py_of_json :: "nat \<Rightarrow> json \<Rightarrow> pyvalue" where
  "py_of_json n JNull = PyNone"
| "py_of_json n (JBool b) = PyBool b"
| "py_of_json n (JInt i) = PyInt i"
| "py_of_json n (JFloat f) = PyFloat f"
| "py_of_json n (JStr s) = PyStr s"
| "py_of_json n (JArr js) = PySequence n (map (py_of_json (Suc n)) js)"
| "py_of_json n (JObj ps) = PyMapping n (map (\<lambda>(k, j). (PyStr k, py_of_json (Suc n) j)) ps)"

lemma validate_string_ok [ok_simps]:
  "validate_string s = Inr t \<longleftrightarrow> t = s \<and> \<not> list_ex surrogate s"
  by (auto simp: validate_string_def)

lemma normalize_integer_ok [ok_simps]:
  "normalize_integer i = Inr k \<longleftrightarrow> k = i \<and> - MAX_IJSON_INTEGER \<le> i \<and> i \<le> MAX_IJSON_INTEGER"
  by (auto simp: normalize_integer_def)

lemma lit_no_surrogate: "\<not> list_ex surrogate (lit s)"
proof -
  have "of_char c < (256::nat)" for c by simp
  moreover have "(256::nat) < 0xD800" by simp
  ultimately have "\<not> surrogate (of_char c)" for c
    unfolding surrogate_def by (meson leD less_trans)
  then show ?thesis by (auto simp: lit_def list_ex_iff)
qed

lemma normalize_decimal_ijson:
  "normalize_decimal L d = Inr j \<Longrightarrow> 0 \<le> n \<Longrightarrow> ijson j \<and> within_depth n j"
  by (auto simp: normalize_decimal_def ok_simps split: if_splits option.splits pyfloat.splits)

lemma normalize_mapping_ok:
  "normalize L m active d (PyMapping i items) = Inr j \<longleftrightarrow>
     d \<le> m \<and> i \<notin> set active \<and>
     (\<exists>ps. normalize_items L m (i # active) (d + 1) items = Inr ps \<and> j = JObj ps)"
  by (auto simp: normalize.simps[of L m active d "PyMapping i items"] ok_simps)

lemma normalize_sequence_ok:
  "normalize L m active d (PySequence i vs) = Inr j \<longleftrightarrow>
     d \<le> m \<and> i \<notin> set active \<and>
     (\<exists>js. normalize_children L m (i # active) (d + 1) vs = Inr js \<and> j = JArr js)"
  by (auto simp: normalize.simps[of L m active d "PySequence i vs"] ok_simps)

fun is_container :: "pyvalue \<Rightarrow> bool" where
  "is_container (PyMapping i items) = True"
| "is_container (PySequence i vs) = True"
| "is_container v = False"

lemma normalize_scalar_ijson:
  assumes "normalize L m active d v = Inr j" "\<not> is_container v"
  shows "ijson j \<and> within_depth (m - d) j"
  using assms normalize_decimal_ijson[of L _ j "m - d"]
  by (cases v) (auto simp: normalize.simps[of L m active d] ok_simps lit_no_surrogate
      split: if_splits pyfloat.splits)

lemma normalize_ijson:
  "normalize L m active d v = Inr j \<Longrightarrow> ijson j \<and> within_depth (m - d) j"
  "normalize_items L m active d items = Inr ps \<Longrightarrow>
     list_all (\<lambda>(k, j). \<not> list_ex surrogate k \<and> ijson j \<and> within_depth (m - d) j) ps"
  "normalize_children L m active d vs = Inr js \<Longrightarrow>
     list_all (\<lambda>j. ijson j \<and> within_depth (m - d) j) js"
proof (induction L m active d v and L m active d items and L m active d vs
    arbitrary: j and ps and js
    rule: normalize_normalize_items_normalize_children.induct)
  case (1 L m active d v)
  show ?case
  proof (cases v)
    case (PyMapping i items)
    then obtain ps where ps: "d \<le> m" "i \<notin> set active" "j = JObj ps"
        "normalize_items L m (i # active) (d + 1) items = Inr ps"
      using 1(3) by (auto simp: normalize_mapping_ok)
    then have "list_all (\<lambda>(k, j). \<not> list_ex surrogate k \<and> ijson j \<and> within_depth (m - d - 1) j) ps"
      using 1(1)[OF _ PyMapping, of ps] by (simp add: algebra_simps)
    with ps show ?thesis by (auto simp: list_all_iff)
  next
    case (PySequence i vs)
    then obtain js where js: "d \<le> m" "i \<notin> set active" "j = JArr js"
        "normalize_children L m (i # active) (d + 1) vs = Inr js"
      using 1(3) by (auto simp: normalize_sequence_ok)
    then have "list_all (\<lambda>j. ijson j \<and> within_depth (m - d - 1) j) js"
      using 1(2)[OF _ PySequence, of js] by (simp add: algebra_simps)
    with js show ?thesis by (auto simp: list_all_iff)
  qed (rule normalize_scalar_ijson[OF 1(3)]; simp)+
qed (auto simp: ok_simps)

lemma within_depth_nonneg: "within_depth n j \<Longrightarrow> 0 \<le> n"
  by (cases j) auto

lemma normalize_py_of_json:
  "ijson j \<Longrightarrow> within_depth (m - d) j \<Longrightarrow> \<forall>i \<in> set active. i < n \<Longrightarrow>
     normalize L m active d (py_of_json n j) = Inr j"
proof (induction j arbitrary: d active n)
  case (JArr js)
  have step: "normalize L m (n # active) (d + 1) (py_of_json (Suc n) j) = Inr j"
    if "j \<in> set js" for j
    using JArr that by (intro JArr.IH) (auto simp: list_all_iff algebra_simps less_Suc_eq)
  have "normalize_children L m (n # active) (d + 1) (map (py_of_json (Suc n)) ks) = Inr ks"
    if "set ks \<subseteq> set js" for ks
    using that by (induction ks) (auto simp: step)
  with JArr.prems show ?case
    by (auto simp: normalize_sequence_ok)
next
  case (JObj ps)
  have step: "normalize L m (n # active) (d + 1) (py_of_json (Suc n) j) = Inr j"
    if "(k, j) \<in> set ps" for k j
    using JObj that
    by (intro JObj.IH[of "(k, j)"]) (auto simp: list_all_iff algebra_simps less_Suc_eq)
  have "normalize_items L m (n # active) (d + 1)
          (map (\<lambda>(k, j). (PyStr k, py_of_json (Suc n) j)) qs) = Inr qs"
    if "set qs \<subseteq> set ps" for qs
    using that JObj.prems(1)
    by (induction qs) (auto simp: step key_of_def validate_string_def list_all_iff)
  with JObj.prems show ?case
    by (auto simp: normalize_mapping_ok)
next
  case (JFloat f)
  then show ?case by (cases f) (auto simp: normalize.simps[of L m active d])
qed (auto simp: normalize.simps validate_string_def normalize_integer_def)

lemma normalize_json_value_again:
  assumes "normalize_json_value L m v = Inr j"
  shows "normalize_json_value L m (py_of_json 0 j) = Inr j"
proof -
  have j: "ijson j" "within_depth (m - 0) j"
    using assms normalize_ijson(1)[of L m "[]" 0 v j]
    by (auto simp: normalize_json_value_def ok_simps)
  then have "normalize L m [] 0 (py_of_json 0 j) = Inr j"
    by (intro normalize_py_of_json) auto
  with within_depth_nonneg[OF j(2)] show ?thesis
    by (auto simp: normalize_json_value_def)
qed

lemma canonical_json_bytes_normalized:
  "normalize_json_value L MAX_CANONICAL_JSON_DEPTH v = Inr j \<Longrightarrow>
     canonical_json_bytes L (py_of_json 0 j) = canonical_json_bytes L v"
  by (simp add: canonical_json_bytes_def normalize_json_value_again)

text \<open>
  C38. Whatever Python value is normalised, a result is interoperable JSON (integers within
  plus or minus 2^53 - 1, finite numbers, no lone surrogate in any string or object name), is
  nested at most as deep as the limit, and normalising it again gives it back unchanged, so the
  canonical bytes and hash of a stored normal form are those of the original value.
\<close>

theorem normalize_json_value_canonical:
  assumes "normalize_json_value L m v = Inr j"
  shows "ijson j \<and> within_depth m j \<and> normalize_json_value L m (py_of_json 0 j) = Inr j"
  using assms normalize_ijson(1)[of L m "[]" 0 v j]
  by (auto simp: normalize_json_value_again, auto simp: normalize_json_value_def ok_simps)

definition sample_codec :: codec where
  "sample_codec = \<lparr> rfc8785_dumps = (\<lambda>_. Some []), sha256 = id,
     decimal_to_float = (\<lambda>d. FFinite (dec_normalize d)) \<rparr>"

theorem normalize_json_value_canonical_witness:
  "normalize_json_value sample_codec 2
     (PyMapping 7 [(PyStr (lit ''k''), PySequence 8 [PyInt 3, PyDecimal (Dec False 30 (- 1)), PyNone])])
     = Inr (JObj [(lit ''k'', JArr [JInt 3, JInt 3, JNull])])
   \<and> ijson (JObj [(lit ''k'', JArr [JInt 3, JInt 3, JNull])])
   \<and> within_depth 2 (JObj [(lit ''k'', JArr [JInt 3, JInt 3, JNull])])"
proof -
  have n: "normalize_json_value sample_codec 2
     (PyMapping 7 [(PyStr (lit ''k''), PySequence 8 [PyInt 3, PyDecimal (Dec False 30 (- 1)), PyNone])])
     = Inr (JObj [(lit ''k'', JArr [JInt 3, JInt 3, JNull])])"
    by (simp add: normalize_json_value_def normalize.simps key_of_def validate_string_def
        normalize_integer_def normalize_decimal_def MAX_IJSON_INTEGER_def lit_no_surrogate)
  show ?thesis using n normalize_json_value_canonical[OF n] by simp
qed

end
