(* ===== verification/States.thy ===== *)
theory States
  imports Canonical_JSON
begin

text \<open>
  The after-image models of \<^verbatim>\<open>domain/events.py\<close>: memories (with the v2 candidate deadline and
  the v3 sealed envelope), evidence, links, conflicts and branches. Each model is a record whose
  timestamps are a type parameter: \<open>py_datetime\<close> for the values that the validation library has
  read from a payload, \<open>utc\<close> for a validated model. The validators are the field constraints,
  field validators and model validators of the classes, in the order of the source; the dumps are
  \<^verbatim>\<open>model_dump\<close>.
\<close>

subsection \<open>Field constraints\<close>

text \<open>A sequence of guarded raises: the first violated condition is the exception.\<close>

fun reject_first :: "(bool \<times> string) list \<Rightarrow> unit result" where
  "reject_first [] = Inr ()"
| "reject_first ((bad, message) # rest) =
     (if bad then Inl (ValueError message) else reject_first rest)"

lemma reject_first_ok [ok_simps]:
  "reject_first [] = Inr u \<longleftrightarrow> True"
  "reject_first ((bad, message) # rest) = Inr u \<longleftrightarrow> \<not> bad \<and> reject_first rest = Inr u"
  by simp_all

definition safe_positive :: "int \<Rightarrow> bool" where
  "safe_positive i \<longleftrightarrow> 1 \<le> i \<and> i \<le> 2 ^ 53 - 1"

definition str_between :: "nat \<Rightarrow> nat \<Rightarrow> pystr \<Rightarrow> bool" where
  "str_between lo hi s \<longleftrightarrow> lo \<le> length s \<and> length s \<le> hi"

definition opt_all :: "('a \<Rightarrow> bool) \<Rightarrow> 'a option \<Rightarrow> bool" where
  "opt_all P x \<longleftrightarrow> (case x of None \<Rightarrow> True | Some y \<Rightarrow> P y)"

lemma opt_all_simps [simp]: "opt_all P None" "opt_all P (Some x) \<longleftrightarrow> P x"
  by (simp_all add: opt_all_def)

definition utc_field :: "string \<Rightarrow> py_datetime \<Rightarrow> utc result" where
  "utc_field field_name dt =
     (case normalize_utc_datetime dt of
        Inl e \<Rightarrow> if is_value_error e then Inl (ValueError (field_name @ '' must be timezone-aware''))
                 else Inl e
      | Inr t \<Rightarrow> Inr t)"

definition utc_field_opt :: "string \<Rightarrow> py_datetime option \<Rightarrow> utc option result" where
  "utc_field_opt field_name x =
     (case x of None \<Rightarrow> Inr None
      | Some dt \<Rightarrow> rbind (utc_field field_name dt) (\<lambda>t. Inr (Some t)))"

definition uuid7_field :: "string \<Rightarrow> uuid option \<Rightarrow> unit result" where
  "uuid7_field field_name x =
     (case x of None \<Rightarrow> Inr () | Some u \<Rightarrow> rbind (require_uuid7 u field_name) (\<lambda>_. Inr ()))"

fun uuid7_fields :: "(string \<times> uuid option) list \<Rightarrow> unit result" where
  "uuid7_fields [] = Inr ()"
| "uuid7_fields ((field_name, u) # rest) = rbind (uuid7_field field_name u) (\<lambda>_. uuid7_fields rest)"

fun lower_snake :: "string \<Rightarrow> bool" where
  "lower_snake [] = False"
| "lower_snake (c # cs) \<longleftrightarrow>
     c \<in> set ''abcdefghijklmnopqrstuvwxyz'' \<and>
     list_all (\<lambda>d. d \<in> set ''abcdefghijklmnopqrstuvwxyz0123456789_'') cs"

definition py_isspace :: "nat \<Rightarrow> bool" where
  "py_isspace c \<longleftrightarrow> 9 \<le> c \<and> c \<le> 13 \<or> 28 \<le> c \<and> c \<le> 32 \<or> c \<in> {0x85, 0xA0, 0x1680} \<or>
     0x2000 \<le> c \<and> c \<le> 0x200A \<or> c \<in> {0x2028, 0x2029, 0x202F, 0x205F, 0x3000}"

definition utf8_size :: "pystr \<Rightarrow> nat" where
  "utf8_size s =
     sum_list (map (\<lambda>c. if c < 0x80 then 1 else if c < 0x800 then 2 else if c < 0x10000 then 3 else 4) s)"

subsection \<open>Records\<close>

type_synonym json_object = "(pystr, json) dict"

datatype content_protection = PLAINTEXT | ENVELOPE_ENCRYPTED | CRYPTOGRAPHICALLY_ERASED

record sealed_envelope =
  se_contract_version :: string
  se_envelope_version :: int
  se_algorithm :: string
  se_content_key_id :: uuid
  se_nonce :: string
  se_ciphertext :: string
  se_aad_sha256 :: string
  se_safe_summary :: pystr

text \<open>The class of a memory model, with the fields that only the v2 and v3 classes have.\<close>

datatype 't state_class =
    MemoryStateV1
  | MemoryStateV2 "'t option"
  | MemoryStateV3 "'t option" sealed_envelope

record 't memory_state =
  m_memory_id :: uuid
  m_tenant_id :: uuid
  m_lineage_id :: uuid
  m_branch_id :: uuid
  m_subject_id :: uuid
  m_subject_kind :: subject_kind
  m_revision :: int
  m_category :: memory_category
  m_ontological_status :: ontological_status
  m_scope :: memory_scope
  m_visibility :: memory_visibility
  m_status :: memory_status
  m_statement :: "pystr option"
  m_reason_to_remember :: "pystr option"
  m_interpretation_limits :: "pystr list"
  m_confidence :: decimal
  m_salience :: decimal
  m_durability :: decimal
  m_sensitivity :: int
  m_authority_class :: authority_class
  m_valid_from :: "'t option"
  m_valid_to :: "'t option"
  m_observed_at :: "'t option"
  m_origin_session_id :: "uuid option"
  m_publication_approved_at :: "'t option"
  m_publication_approved_by_actor_id :: "uuid option"
  m_content_protection :: content_protection
  m_content_key_id :: "uuid option"
  m_created_at :: 't
  m_updated_at :: 't
  m_fingerprint_version :: int
  m_normalized_fingerprint :: "string option"
  m_metadata :: json_object
  m_class :: "'t state_class"

record 't evidence_state =
  ev_evidence_id :: uuid
  ev_tenant_id :: uuid
  ev_lineage_id :: uuid
  ev_branch_id :: uuid
  ev_memory_id :: uuid
  ev_source_type :: pystr
  ev_source_reference :: json_object
  ev_excerpt :: "pystr option"
  ev_occurred_at :: "'t option"
  ev_content_sha256 :: "string option"
  ev_trust_classification :: pystr
  ev_status :: string
  ev_created_at :: 't
  ev_metadata :: json_object

datatype link_status = LINK_ACTIVE | LINK_UNLINKED

record 't link_state =
  ln_link_id :: uuid
  ln_tenant_id :: uuid
  ln_lineage_id :: uuid
  ln_branch_id :: uuid
  ln_source_memory_id :: uuid
  ln_target_memory_id :: uuid
  ln_link_type :: link_type
  ln_status :: link_status
  ln_created_at :: 't
  ln_unlinked_at :: "'t option"
  ln_metadata :: json_object

record 't conflict_member_state =
  cm_conflict_id :: uuid
  cm_memory_id :: uuid
  cm_disposition :: pystr
  cm_joined_at :: 't

datatype conflict_status = CONFLICT_OPEN | CONFLICT_RESOLVED

record 't conflict_state =
  cf_conflict_id :: uuid
  cf_tenant_id :: uuid
  cf_lineage_id :: uuid
  cf_branch_id :: uuid
  cf_subject_id :: uuid
  cf_status :: conflict_status
  cf_reason :: pystr
  cf_resolution_kind :: "pystr option"
  cf_resolution_rationale :: "pystr option"
  cf_opened_at :: 't
  cf_resolved_at :: "'t option"
  cf_metadata :: json_object

record 't branch_state =
  br_branch_id :: uuid
  br_tenant_id :: uuid
  br_lineage_id :: uuid
  br_parent_branch_id :: "uuid option"
  br_fork_event_sequence :: "int option"
  br_name :: pystr
  br_visibility_ceiling :: memory_visibility
  br_created_at :: 't
  br_sealed_at :: "'t option"

type_synonym memory = "utc memory_state"
type_synonym evidence_item = "utc evidence_state"
type_synonym link = "utc link_state"
type_synonym conflict_member = "utc conflict_member_state"
type_synonym conflict = "utc conflict_state"
type_synonym branch = "utc branch_state"

definition is_v3 :: "'t memory_state \<Rightarrow> bool" where
  "is_v3 m = (case m_class m of MemoryStateV3 _ _ \<Rightarrow> True | _ \<Rightarrow> False)"

definition sealed_content :: "'t memory_state \<Rightarrow> sealed_envelope option" where
  "sealed_content m = (case m_class m of MemoryStateV3 _ s \<Rightarrow> Some s | _ \<Rightarrow> None)"

definition candidate_expires_at :: "'t memory_state \<Rightarrow> 't option" where
  "candidate_expires_at m =
     (case m_class m of MemoryStateV1 \<Rightarrow> None | MemoryStateV2 x \<Rightarrow> x | MemoryStateV3 x _ \<Rightarrow> x)"

subsection \<open>Memory validators\<close>

definition memory_field_constraints :: "'t memory_state \<Rightarrow> unit result" where
  "memory_field_constraints m = reject_first
     [(\<not> safe_positive (m_revision m), ''revision''),
      (\<not> opt_all (str_between 0 8192) (m_statement m), ''statement''),
      (\<not> opt_all (str_between 0 4096) (m_reason_to_remember m), ''reason_to_remember''),
      (\<not> list_all (str_between 1 1024) (m_interpretation_limits m)
         \<or> 32 < length (m_interpretation_limits m), ''interpretation_limits''),
      (\<not> (0 \<le> m_sensitivity m \<and> m_sensitivity m \<le> 4), ''sensitivity''),
      (\<not> safe_positive (m_fingerprint_version m), ''fingerprint_version''),
      (\<not> opt_all hex_digest_ok (m_normalized_fingerprint m), ''normalized_fingerprint'')]"

definition memory_uuid7_fields :: "'t memory_state \<Rightarrow> unit result" where
  "memory_uuid7_fields m = uuid7_fields
     [(''memory_id'', Some (m_memory_id m)), (''tenant_id'', Some (m_tenant_id m)),
      (''lineage_id'', Some (m_lineage_id m)), (''branch_id'', Some (m_branch_id m)),
      (''subject_id'', Some (m_subject_id m)), (''origin_session_id'', m_origin_session_id m),
      (''publication_approved_by_actor_id'', m_publication_approved_by_actor_id m),
      (''content_key_id'', m_content_key_id m)]"

definition normalize_candidate_expiry :: "py_datetime state_class \<Rightarrow> utc state_class result" where
  "normalize_candidate_expiry c =
     (case c of
        MemoryStateV1 \<Rightarrow> Inr MemoryStateV1
      | MemoryStateV2 x \<Rightarrow>
          rbind (utc_field_opt ''candidate_expires_at'' x) (\<lambda>t. Inr (MemoryStateV2 t))
      | MemoryStateV3 x s \<Rightarrow>
          rbind (utc_field_opt ''candidate_expires_at'' x) (\<lambda>t. Inr (MemoryStateV3 t s)))"

definition memory_normalize :: "py_datetime memory_state \<Rightarrow> memory result" where
  "memory_normalize m =
     rbind (normalize_unit_score (m_confidence m)) (\<lambda>confidence.
     rbind (normalize_unit_score (m_salience m)) (\<lambda>salience.
     rbind (normalize_unit_score (m_durability m)) (\<lambda>durability.
     rbind (utc_field_opt ''valid_from'' (m_valid_from m)) (\<lambda>valid_from.
     rbind (utc_field_opt ''valid_to'' (m_valid_to m)) (\<lambda>valid_to.
     rbind (utc_field_opt ''observed_at'' (m_observed_at m)) (\<lambda>observed_at.
     rbind (utc_field_opt ''publication_approved_at'' (m_publication_approved_at m))
       (\<lambda>publication_approved_at.
     rbind (utc_field ''created_at'' (m_created_at m)) (\<lambda>created_at.
     rbind (utc_field ''updated_at'' (m_updated_at m)) (\<lambda>updated_at.
     rbind (normalize_candidate_expiry (m_class m)) (\<lambda>cls.
       Inr \<lparr>
         m_memory_id = m_memory_id m, m_tenant_id = m_tenant_id m, m_lineage_id = m_lineage_id m,
         m_branch_id = m_branch_id m, m_subject_id = m_subject_id m,
         m_subject_kind = m_subject_kind m, m_revision = m_revision m, m_category = m_category m,
         m_ontological_status = m_ontological_status m, m_scope = m_scope m,
         m_visibility = m_visibility m, m_status = m_status m, m_statement = m_statement m,
         m_reason_to_remember = m_reason_to_remember m,
         m_interpretation_limits = m_interpretation_limits m, m_confidence = confidence,
         m_salience = salience, m_durability = durability, m_sensitivity = m_sensitivity m,
         m_authority_class = m_authority_class m, m_valid_from = valid_from,
         m_valid_to = valid_to, m_observed_at = observed_at,
         m_origin_session_id = m_origin_session_id m,
         m_publication_approved_at = publication_approved_at,
         m_publication_approved_by_actor_id = m_publication_approved_by_actor_id m,
         m_content_protection = m_content_protection m, m_content_key_id = m_content_key_id m,
         m_created_at = created_at, m_updated_at = updated_at,
         m_fingerprint_version = m_fingerprint_version m,
         m_normalized_fingerprint = m_normalized_fingerprint m, m_metadata = m_metadata m,
         m_class = cls \<rparr>))))))))))"

text \<open>The part of the state validators that the v1 and the v3 class share.\<close>

definition scope_shape :: "'t memory_state \<Rightarrow> unit result" where
  "scope_shape m = reject_first
     [(m_subject_kind m \<noteq> expected_subject (m_scope m), ''memory scope does not match subject kind''),
      (m_scope m = SC_GLOBAL \<and> m_ontological_status m = FICTIONAL_OR_ROLEPLAYED_SCENE,
         ''global memory cannot represent a roleplayed scene''),
      (m_scope m = SC_EPISODIC \<and> m_origin_session_id m = None
         \<and> m_authority_class m \<noteq> IMPORTED_LEGACY_MEMORY,
         ''episodic memory requires an origin session or imported provenance''),
      (m_scope m = SC_SCENE_LOCAL \<and> m_origin_session_id m = None,
         ''scene-local memory requires an origin session''),
      (m_scope m = SC_SCENE_LOCAL \<and> m_visibility m \<in> {SHAREABLE, PUBLIC_SEED},
         ''scene-local visibility exceeds its structural boundary'')]"

definition empty_text :: "pystr option \<Rightarrow> bool" where
  "empty_text x = (case x of None \<Rightarrow> True | Some s \<Rightarrow> s = [])"

definition validity_inverted :: "memory \<Rightarrow> bool" where
  "validity_inverted m =
     (case (m_valid_from m, m_valid_to m) of (Some f, Some t) \<Rightarrow> t < f | _ \<Rightarrow> False)"

definition validate_state_shape :: "memory \<Rightarrow> unit result" where
  "validate_state_shape m =
     rbind (reject_first
       [(validity_inverted m, ''valid_to must not precede valid_from''),
        (m_updated_at m < m_created_at m, ''updated_at must not precede created_at'')]) (\<lambda>_.
     rbind (validate_category_ontology (m_category m) (m_ontological_status m)) (\<lambda>_.
     rbind (scope_shape m) (\<lambda>_.
     let tombstoned = (m_status m = TOMBSTONED) in
     reject_first
       [(m_visibility m = PUBLIC_SEED \<and> (m_status m \<noteq> ACTIVE \<or> m_sensitivity m \<noteq> 0),
           ''public-seed memory must be active and non-sensitive''),
        (m_visibility m = PUBLIC_SEED \<and> m_publication_approved_at m = None,
           ''public-seed memory requires publication approval''),
        (m_visibility m = SHAREABLE \<and> 1 < m_sensitivity m,
           ''shareable memory sensitivity cannot exceed one''),
        (tombstoned \<and> (m_statement m \<noteq> None \<or> m_reason_to_remember m \<noteq> None),
           ''tombstoned memory content must be sanitized''),
        (tombstoned \<and> (m_interpretation_limits m \<noteq> [] \<or> m_normalized_fingerprint m \<noteq> None),
           ''tombstoned memory derivatives must be sanitized''),
        (\<not> tombstoned \<and> (empty_text (m_statement m) \<or> empty_text (m_reason_to_remember m)),
           ''non-tombstoned memories require statement and reason''),
        ((m_publication_approved_at m = None) \<noteq> (m_publication_approved_by_actor_id m = None),
           ''publication approval time and actor must be supplied together''),
        (m_content_protection m = PLAINTEXT \<and> m_content_key_id m \<noteq> None,
           ''plaintext memory cannot reference a content key''),
        (m_content_protection m \<noteq> PLAINTEXT \<and> m_content_key_id m = None,
           ''protected memory requires content-key metadata''),
        (m_content_protection m = CRYPTOGRAPHICALLY_ERASED \<and> \<not> tombstoned,
           ''cryptographic erasure requires a tombstoned memory''),
        (32 < length (m_interpretation_limits m)
           \<or> card (set (m_interpretation_limits m)) \<noteq> length (m_interpretation_limits m),
           ''interpretation limits must contain at most 32 unique entries''),
        (128 < length (m_metadata m), ''memory metadata cannot exceed 128 properties'')])))"

definition validate_candidate_expiry :: "memory \<Rightarrow> unit result" where
  "validate_candidate_expiry m =
     (let deadline = candidate_expires_at m in
      if m_class m = MemoryStateV1 then Inr ()
      else reject_first
       [(m_status m = CANDIDATE \<and> deadline = None,
           ''candidate memories require an expiry deadline in v2''),
        (m_status m = CANDIDATE \<and> (case deadline of None \<Rightarrow> False | Some t \<Rightarrow> t \<le> m_created_at m),
           ''candidate expiry deadline must follow memory creation''),
        (m_status m \<noteq> CANDIDATE \<and> deadline \<noteq> None,
           ''only candidate memories may have a candidate expiry deadline'')])"

fun b64_pattern :: "string \<Rightarrow> bool" where
  "b64_pattern [] = True"
| "b64_pattern (a # b # c # d # rest) \<longleftrightarrow>
     b64_val a \<noteq> None \<and> b64_val b \<noteq> None \<and>
     (b64_val c \<noteq> None \<and> b64_val d \<noteq> None \<and> b64_pattern rest \<or>
      rest = [] \<and> d = CHR ''='' \<and> (c = CHR ''='' \<or> b64_val c \<noteq> None))"
| "b64_pattern _ = False"

definition validate_sealed_envelope :: "sealed_envelope \<Rightarrow> unit result" where
  "validate_sealed_envelope s =
     rbind (reject_first
       [(se_contract_version s \<noteq> ''scalevault.sealed-content-envelope.v1'', ''contract_version''),
        (se_envelope_version s \<noteq> 1, ''envelope_version''),
        (se_algorithm s \<noteq> ''AES-256-GCM'', ''algorithm''),
        (\<not> b64_pattern (se_nonce s), ''nonce''),
        (\<not> b64_pattern (se_ciphertext s), ''ciphertext''),
        (\<not> hex_digest_ok (se_aad_sha256 s), ''aad_sha256''),
        (\<not> str_between 1 1024 (se_safe_summary s), ''safe_summary'')]) (\<lambda>_.
     rbind (uuid7_fields [(''content_key_id'', Some (se_content_key_id s))]) (\<lambda>_.
     case (b64decode (se_nonce s), b64decode (se_ciphertext s)) of
       (Inr nonce, Inr ciphertext) \<Rightarrow> reject_first
         [(b64encode nonce \<noteq> se_nonce s \<or> length nonce \<noteq> 12, ''sealed envelope nonce is invalid''),
          (b64encode ciphertext \<noteq> se_ciphertext s
             \<or> \<not> (17 \<le> length ciphertext \<and> length ciphertext \<le> 716816),
             ''sealed envelope ciphertext is invalid''),
          (list_all py_isspace (se_safe_summary s) \<or> list_ex surrogate (se_safe_summary s)
             \<or> 4096 < utf8_size (se_safe_summary s),
             ''sealed envelope safe summary is invalid'')]
     | _ \<Rightarrow> Inl (ValueError ''sealed envelope encoding is invalid'')))"

definition memory_v3_field_types :: "memory \<Rightarrow> unit result" where
  "memory_v3_field_types m = reject_first
     [(m_statement m \<noteq> None, ''statement''),
      (m_reason_to_remember m \<noteq> None, ''reason_to_remember''),
      (m_interpretation_limits m \<noteq> [], ''interpretation_limits''),
      (m_normalized_fingerprint m \<noteq> None, ''normalized_fingerprint''),
      (m_content_protection m = PLAINTEXT, ''content_protection''),
      (m_content_key_id m = None, ''content_key_id'')]"

definition validate_state_shape_v3 :: "memory \<Rightarrow> sealed_envelope \<Rightarrow> unit result" where
  "validate_state_shape_v3 m sealed =
     rbind (reject_first
       [(m_updated_at m < m_created_at m, ''updated_at must not precede created_at''),
        (validity_inverted m, ''valid_to must not precede valid_from'')]) (\<lambda>_.
     rbind (validate_category_ontology (m_category m) (m_ontological_status m)) (\<lambda>_.
     rbind (scope_shape m) (\<lambda>_.
     reject_first
       [(m_visibility m = PUBLIC_SEED, ''sealed memory cannot be a public seed''),
        (m_visibility m = SHAREABLE \<and> 1 < m_sensitivity m,
           ''shareable memory sensitivity cannot exceed one''),
        (m_content_protection m = CRYPTOGRAPHICALLY_ERASED \<and> m_status m \<noteq> TOMBSTONED,
           ''cryptographic erasure requires a tombstoned memory''),
        (m_content_key_id m \<noteq> Some (se_content_key_id sealed),
           ''sealed envelope content key differs from memory''),
        (m_interpretation_limits m \<noteq> [] \<or> m_normalized_fingerprint m \<noteq> None \<or> m_metadata m \<noteq> [],
           ''sealed memory plaintext derivatives must be absent''),
        ((m_publication_approved_at m = None) \<noteq> (m_publication_approved_by_actor_id m = None),
           ''publication approval time and actor must be supplied together'')])))"

definition memory_model_validators :: "memory \<Rightarrow> unit result" where
  "memory_model_validators m =
     (case m_class m of
        MemoryStateV3 _ sealed \<Rightarrow>
          rbind (memory_v3_field_types m) (\<lambda>_.
          rbind (validate_sealed_envelope sealed) (\<lambda>_.
          rbind (validate_state_shape_v3 m sealed) (\<lambda>_. validate_candidate_expiry m)))
      | _ \<Rightarrow> rbind (validate_state_shape m) (\<lambda>_. validate_candidate_expiry m))"

definition validate_memory :: "py_datetime memory_state \<Rightarrow> memory result" where
  "validate_memory raw =
     rbind (memory_field_constraints raw) (\<lambda>_.
     rbind (memory_uuid7_fields raw) (\<lambda>_.
     rbind (memory_normalize raw) (\<lambda>m.
     rbind (memory_model_validators m) (\<lambda>_. Inr m))))"

text \<open>What every validated memory satisfies.\<close>

definition valid_memory :: "memory \<Rightarrow> bool" where
  "valid_memory m \<longleftrightarrow>
     is_ok (memory_field_constraints m) \<and> is_ok (memory_uuid7_fields m) \<and>
     is_ok (memory_model_validators m) \<and>
     unit_score (m_confidence m) \<and> unit_score (m_salience m) \<and> unit_score (m_durability m)"

lemma normalize_candidate_expiry_class:
  "normalize_candidate_expiry c = Inr c' \<Longrightarrow> map_state_class (\<lambda>_. ()) c' = map_state_class (\<lambda>_. ()) c"
  by (cases c) (auto simp: normalize_candidate_expiry_def ok_simps utc_field_opt_def
      split: option.splits)

lemma memory_normalize_keeps:
  assumes "memory_normalize raw = Inr m"
  shows "memory_field_constraints m = memory_field_constraints raw"
    and "memory_uuid7_fields m = memory_uuid7_fields raw"
    and "normalize_unit_score (m_confidence raw) = Inr (m_confidence m)"
    and "normalize_unit_score (m_salience raw) = Inr (m_salience m)"
    and "normalize_unit_score (m_durability raw) = Inr (m_durability m)"
    and "normalize_candidate_expiry (m_class raw) = Inr (m_class m)"
  using assms unfolding memory_normalize_def rbind_eq_Inr sum.inject
  by (elim exE conjE, hypsubst,
      simp add: memory_field_constraints_def memory_uuid7_fields_def)+

lemma validate_memory_valid:
  assumes "validate_memory raw = Inr m"
  shows "valid_memory m"
proof -
  from assms have n: "memory_normalize raw = Inr m"
    and "is_ok (memory_field_constraints raw)" "is_ok (memory_uuid7_fields raw)"
      "is_ok (memory_model_validators m)"
    by (auto simp: validate_memory_def ok_simps)
  then show ?thesis
    using memory_normalize_keeps(1,2)[OF n]
      memory_normalize_keeps(3-5)[OF n, THEN normalized_score_value]
    by (simp add: valid_memory_def)
qed

text \<open>A tombstone carries no semantic content, whatever its class.\<close>

lemma valid_tombstone_sanitized:
  assumes "valid_memory m" "m_status m = TOMBSTONED"
  shows "m_statement m = None \<and> m_reason_to_remember m = None \<and>
    m_interpretation_limits m = [] \<and> m_normalized_fingerprint m = None"
proof (cases "m_class m")
  case (MemoryStateV3 x s)
  with assms(1) have "memory_v3_field_types m = Inr ()"
    by (auto simp: valid_memory_def memory_model_validators_def is_ok_iff rbind_eq_Inr)
  then show ?thesis by (simp add: memory_v3_field_types_def ok_simps)
qed (use assms in \<open>simp_all add: valid_memory_def memory_model_validators_def
    validate_state_shape_def is_ok_iff ok_simps Let_def\<close>)

subsection \<open>Evidence, link, conflict and branch validators\<close>

definition validate_evidence :: "py_datetime evidence_state \<Rightarrow> evidence_item result" where
  "validate_evidence x =
     rbind (reject_first
       [(\<not> str_between 1 64 (ev_source_type x), ''source_type''),
        (\<not> opt_all (str_between 1 4096) (ev_excerpt x), ''excerpt''),
        (\<not> opt_all hex_digest_ok (ev_content_sha256 x), ''content_sha256''),
        (\<not> str_between 1 64 (ev_trust_classification x), ''trust_classification''),
        (ev_status x \<noteq> ''active'', ''status'')]) (\<lambda>_.
     rbind (uuid7_fields
       [(''evidence_id'', Some (ev_evidence_id x)), (''tenant_id'', Some (ev_tenant_id x)),
        (''lineage_id'', Some (ev_lineage_id x)), (''branch_id'', Some (ev_branch_id x)),
        (''memory_id'', Some (ev_memory_id x))]) (\<lambda>_.
     rbind (utc_field_opt ''occurred_at'' (ev_occurred_at x)) (\<lambda>occurred_at.
     rbind (utc_field ''created_at'' (ev_created_at x)) (\<lambda>created_at.
     rbind (reject_first
       [(64 < length (ev_source_reference x),
           ''evidence source reference cannot exceed 64 properties''),
        (128 < length (ev_metadata x), ''evidence metadata cannot exceed 128 properties'')]) (\<lambda>_.
       Inr \<lparr>
         ev_evidence_id = ev_evidence_id x, ev_tenant_id = ev_tenant_id x,
         ev_lineage_id = ev_lineage_id x, ev_branch_id = ev_branch_id x,
         ev_memory_id = ev_memory_id x, ev_source_type = ev_source_type x,
         ev_source_reference = ev_source_reference x, ev_excerpt = ev_excerpt x,
         ev_occurred_at = occurred_at, ev_content_sha256 = ev_content_sha256 x,
         ev_trust_classification = ev_trust_classification x, ev_status = ev_status x,
         ev_created_at = created_at, ev_metadata = ev_metadata x \<rparr>)))))"

definition validate_link :: "py_datetime link_state \<Rightarrow> link result" where
  "validate_link x =
     rbind (uuid7_fields
       [(''link_id'', Some (ln_link_id x)), (''tenant_id'', Some (ln_tenant_id x)),
        (''lineage_id'', Some (ln_lineage_id x)), (''branch_id'', Some (ln_branch_id x)),
        (''source_memory_id'', Some (ln_source_memory_id x)),
        (''target_memory_id'', Some (ln_target_memory_id x))]) (\<lambda>_.
     rbind (utc_field ''created_at'' (ln_created_at x)) (\<lambda>created_at.
     rbind (utc_field_opt ''unlinked_at'' (ln_unlinked_at x)) (\<lambda>unlinked_at.
     rbind (reject_first
       [(ln_source_memory_id x = ln_target_memory_id x, ''memory links cannot be self-referential''),
        ((ln_status x = LINK_UNLINKED) \<noteq> (unlinked_at \<noteq> None),
           ''unlinked status and timestamp must agree''),
        (128 < length (ln_metadata x), ''link metadata cannot exceed 128 properties'')]) (\<lambda>_.
       Inr \<lparr>
         ln_link_id = ln_link_id x, ln_tenant_id = ln_tenant_id x,
         ln_lineage_id = ln_lineage_id x, ln_branch_id = ln_branch_id x,
         ln_source_memory_id = ln_source_memory_id x,
         ln_target_memory_id = ln_target_memory_id x, ln_link_type = ln_link_type x,
         ln_status = ln_status x, ln_created_at = created_at, ln_unlinked_at = unlinked_at,
         ln_metadata = ln_metadata x \<rparr>))))"

definition validate_conflict_member ::
    "py_datetime conflict_member_state \<Rightarrow> conflict_member result" where
  "validate_conflict_member x =
     rbind (reject_first [(\<not> str_between 1 64 (cm_disposition x), ''disposition'')]) (\<lambda>_.
     rbind (uuid7_fields [(''conflict_id'', Some (cm_conflict_id x)),
       (''memory_id'', Some (cm_memory_id x))]) (\<lambda>_.
     rbind (utc_field ''joined_at'' (cm_joined_at x)) (\<lambda>joined_at.
       Inr \<lparr>
         cm_conflict_id = cm_conflict_id x, cm_memory_id = cm_memory_id x,
         cm_disposition = cm_disposition x, cm_joined_at = joined_at \<rparr>)))"

definition validate_conflict :: "py_datetime conflict_state \<Rightarrow> conflict result" where
  "validate_conflict x =
     rbind (reject_first
       [(\<not> str_between 1 4096 (cf_reason x), ''reason''),
        (\<not> opt_all (str_between 1 64) (cf_resolution_kind x), ''resolution_kind''),
        (\<not> opt_all (str_between 1 4096) (cf_resolution_rationale x), ''resolution_rationale'')]) (\<lambda>_.
     rbind (uuid7_fields
       [(''conflict_id'', Some (cf_conflict_id x)), (''tenant_id'', Some (cf_tenant_id x)),
        (''lineage_id'', Some (cf_lineage_id x)), (''branch_id'', Some (cf_branch_id x)),
        (''subject_id'', Some (cf_subject_id x))]) (\<lambda>_.
     rbind (utc_field ''opened_at'' (cf_opened_at x)) (\<lambda>opened_at.
     rbind (utc_field_opt ''resolved_at'' (cf_resolved_at x)) (\<lambda>resolved_at.
     rbind (reject_first
       [(cf_status x = CONFLICT_RESOLVED \<and> (resolved_at = None \<or> empty_text (cf_resolution_kind x)),
           ''resolved conflicts require resolution details''),
        (cf_status x = CONFLICT_OPEN \<and> (resolved_at \<noteq> None \<or> cf_resolution_kind x \<noteq> None
             \<or> cf_resolution_rationale x \<noteq> None),
           ''open conflicts cannot contain resolution details''),
        (128 < length (cf_metadata x), ''conflict metadata cannot exceed 128 properties'')]) (\<lambda>_.
       Inr \<lparr>
         cf_conflict_id = cf_conflict_id x, cf_tenant_id = cf_tenant_id x,
         cf_lineage_id = cf_lineage_id x, cf_branch_id = cf_branch_id x,
         cf_subject_id = cf_subject_id x, cf_status = cf_status x, cf_reason = cf_reason x,
         cf_resolution_kind = cf_resolution_kind x,
         cf_resolution_rationale = cf_resolution_rationale x, cf_opened_at = opened_at,
         cf_resolved_at = resolved_at, cf_metadata = cf_metadata x \<rparr>)))))"

definition validate_branch :: "py_datetime branch_state \<Rightarrow> branch result" where
  "validate_branch x =
     rbind (reject_first
       [(\<not> opt_all safe_positive (br_fork_event_sequence x), ''fork_event_sequence''),
        (\<not> str_between 1 255 (br_name x), ''name'')]) (\<lambda>_.
     rbind (uuid7_fields
       [(''branch_id'', Some (br_branch_id x)), (''tenant_id'', Some (br_tenant_id x)),
        (''lineage_id'', Some (br_lineage_id x)), (''parent_branch_id'', br_parent_branch_id x)]) (\<lambda>_.
     rbind (utc_field ''created_at'' (br_created_at x)) (\<lambda>created_at.
     rbind (utc_field_opt ''sealed_at'' (br_sealed_at x)) (\<lambda>sealed_at.
     rbind (reject_first
       [((br_parent_branch_id x = None) \<noteq> (br_fork_event_sequence x = None),
           ''parent branch and fork sequence must be supplied together''),
        (br_parent_branch_id x = Some (br_branch_id x), ''a branch cannot parent itself'')]) (\<lambda>_.
       Inr \<lparr>
         br_branch_id = br_branch_id x, br_tenant_id = br_tenant_id x,
         br_lineage_id = br_lineage_id x, br_parent_branch_id = br_parent_branch_id x,
         br_fork_event_sequence = br_fork_event_sequence x, br_name = br_name x,
         br_visibility_ceiling = br_visibility_ceiling x, br_created_at = created_at,
         br_sealed_at = sealed_at \<rparr>)))))"

subsection \<open>Dumps\<close>

definition py_object :: "nat \<Rightarrow> (string \<times> pyvalue) list \<Rightarrow> pyvalue" where
  "py_object n items = PyMapping n (map (\<lambda>(k, v). (PyStr (lit k), v)) items)"

definition py_opt :: "('a \<Rightarrow> pyvalue) \<Rightarrow> 'a option \<Rightarrow> pyvalue" where
  "py_opt f x = (case x of None \<Rightarrow> PyNone | Some y \<Rightarrow> f y)"

definition py_utc :: "utc \<Rightarrow> pyvalue" where
  "py_utc t = PyDateTime \<lparr> dt_local = t, dt_utcoffset = Some 0 \<rparr>"

definition py_text :: "string \<Rightarrow> pyvalue" where
  "py_text s = PyStr (lit s)"

definition py_enum :: "string \<Rightarrow> pyvalue" where
  "py_enum s = PyStrEnum (lit s)"

definition content_protection_value :: "content_protection \<Rightarrow> string" where
  "content_protection_value p =
     (case p of PLAINTEXT \<Rightarrow> ''plaintext'' | ENVELOPE_ENCRYPTED \<Rightarrow> ''envelope_encrypted''
      | CRYPTOGRAPHICALLY_ERASED \<Rightarrow> ''cryptographically_erased'')"

definition sealed_envelope_dump :: "nat \<Rightarrow> sealed_envelope \<Rightarrow> pyvalue" where
  "sealed_envelope_dump n s = py_object n
     [(''contract_version'', py_text (se_contract_version s)),
      (''envelope_version'', PyInt (se_envelope_version s)),
      (''algorithm'', py_text (se_algorithm s)),
      (''content_key_id'', PyUUID (se_content_key_id s)),
      (''nonce'', py_text (se_nonce s)), (''ciphertext'', py_text (se_ciphertext s)),
      (''aad_sha256'', py_text (se_aad_sha256 s)), (''safe_summary'', PyStr (se_safe_summary s))]"

definition memory_dump :: "nat \<Rightarrow> memory \<Rightarrow> pyvalue" where
  "memory_dump n m = py_object n
     ([(''memory_id'', PyUUID (m_memory_id m)), (''tenant_id'', PyUUID (m_tenant_id m)),
       (''lineage_id'', PyUUID (m_lineage_id m)), (''branch_id'', PyUUID (m_branch_id m)),
       (''subject_id'', PyUUID (m_subject_id m)),
       (''subject_kind'', py_enum (subject_kind_value (m_subject_kind m))),
       (''revision'', PyInt (m_revision m)),
       (''category'', py_enum (memory_category_value (m_category m))),
       (''ontological_status'', py_enum (ontological_status_value (m_ontological_status m))),
       (''scope'', py_enum (memory_scope_value (m_scope m))),
       (''visibility'', py_enum (memory_visibility_value (m_visibility m))),
       (''status'', py_enum (memory_status_value (m_status m))),
       (''statement'', py_opt PyStr (m_statement m)),
       (''reason_to_remember'', py_opt PyStr (m_reason_to_remember m)),
       (''interpretation_limits'', PySequence (Suc n) (map PyStr (m_interpretation_limits m))),
       (''confidence'', PyDecimal (m_confidence m)), (''salience'', PyDecimal (m_salience m)),
       (''durability'', PyDecimal (m_durability m)), (''sensitivity'', PyInt (m_sensitivity m)),
       (''authority_class'', py_enum (authority_class_value (m_authority_class m))),
       (''valid_from'', py_opt py_utc (m_valid_from m)), (''valid_to'', py_opt py_utc (m_valid_to m)),
       (''observed_at'', py_opt py_utc (m_observed_at m)),
       (''origin_session_id'', py_opt PyUUID (m_origin_session_id m)),
       (''publication_approved_at'', py_opt py_utc (m_publication_approved_at m)),
       (''publication_approved_by_actor_id'', py_opt PyUUID (m_publication_approved_by_actor_id m)),
       (''content_protection'', py_text (content_protection_value (m_content_protection m))),
       (''content_key_id'', py_opt PyUUID (m_content_key_id m)),
       (''created_at'', py_utc (m_created_at m)), (''updated_at'', py_utc (m_updated_at m)),
       (''fingerprint_version'', PyInt (m_fingerprint_version m)),
       (''normalized_fingerprint'', py_opt py_text (m_normalized_fingerprint m)),
       (''metadata'', py_of_json (Suc n) (JObj (m_metadata m)))]
      @ (case m_class m of
           MemoryStateV1 \<Rightarrow> []
         | MemoryStateV2 x \<Rightarrow> [(''candidate_expires_at'', py_opt py_utc x)]
         | MemoryStateV3 x s \<Rightarrow>
             [(''candidate_expires_at'', py_opt py_utc x),
              (''sealed_content'', sealed_envelope_dump (Suc n) s)]))"

definition evidence_dump :: "nat \<Rightarrow> evidence_item \<Rightarrow> pyvalue" where
  "evidence_dump n x = py_object n
     [(''evidence_id'', PyUUID (ev_evidence_id x)), (''tenant_id'', PyUUID (ev_tenant_id x)),
      (''lineage_id'', PyUUID (ev_lineage_id x)), (''branch_id'', PyUUID (ev_branch_id x)),
      (''memory_id'', PyUUID (ev_memory_id x)), (''source_type'', PyStr (ev_source_type x)),
      (''source_reference'', py_of_json (Suc n) (JObj (ev_source_reference x))),
      (''excerpt'', py_opt PyStr (ev_excerpt x)), (''occurred_at'', py_opt py_utc (ev_occurred_at x)),
      (''content_sha256'', py_opt py_text (ev_content_sha256 x)),
      (''trust_classification'', PyStr (ev_trust_classification x)),
      (''status'', py_text (ev_status x)), (''created_at'', py_utc (ev_created_at x)),
      (''metadata'', py_of_json (Suc n) (JObj (ev_metadata x)))]"

definition link_dump :: "nat \<Rightarrow> link \<Rightarrow> pyvalue" where
  "link_dump n x = py_object n
     [(''link_id'', PyUUID (ln_link_id x)), (''tenant_id'', PyUUID (ln_tenant_id x)),
      (''lineage_id'', PyUUID (ln_lineage_id x)), (''branch_id'', PyUUID (ln_branch_id x)),
      (''source_memory_id'', PyUUID (ln_source_memory_id x)),
      (''target_memory_id'', PyUUID (ln_target_memory_id x)),
      (''link_type'', py_enum (link_type_value (ln_link_type x))),
      (''status'', py_text (if ln_status x = LINK_ACTIVE then ''active'' else ''unlinked'')),
      (''created_at'', py_utc (ln_created_at x)), (''unlinked_at'', py_opt py_utc (ln_unlinked_at x)),
      (''metadata'', py_of_json (Suc n) (JObj (ln_metadata x)))]"

definition conflict_member_dump :: "nat \<Rightarrow> conflict_member \<Rightarrow> pyvalue" where
  "conflict_member_dump n x = py_object n
     [(''conflict_id'', PyUUID (cm_conflict_id x)), (''memory_id'', PyUUID (cm_memory_id x)),
      (''disposition'', PyStr (cm_disposition x)), (''joined_at'', py_utc (cm_joined_at x))]"

definition conflict_dump :: "nat \<Rightarrow> conflict \<Rightarrow> pyvalue" where
  "conflict_dump n x = py_object n
     [(''conflict_id'', PyUUID (cf_conflict_id x)), (''tenant_id'', PyUUID (cf_tenant_id x)),
      (''lineage_id'', PyUUID (cf_lineage_id x)), (''branch_id'', PyUUID (cf_branch_id x)),
      (''subject_id'', PyUUID (cf_subject_id x)),
      (''status'', py_text (if cf_status x = CONFLICT_OPEN then ''open'' else ''resolved'')),
      (''reason'', PyStr (cf_reason x)),
      (''resolution_kind'', py_opt PyStr (cf_resolution_kind x)),
      (''resolution_rationale'', py_opt PyStr (cf_resolution_rationale x)),
      (''opened_at'', py_utc (cf_opened_at x)), (''resolved_at'', py_opt py_utc (cf_resolved_at x)),
      (''metadata'', py_of_json (Suc n) (JObj (cf_metadata x)))]"

definition branch_dump :: "nat \<Rightarrow> branch \<Rightarrow> pyvalue" where
  "branch_dump n x = py_object n
     [(''branch_id'', PyUUID (br_branch_id x)), (''tenant_id'', PyUUID (br_tenant_id x)),
      (''lineage_id'', PyUUID (br_lineage_id x)),
      (''parent_branch_id'', py_opt PyUUID (br_parent_branch_id x)),
      (''fork_event_sequence'', py_opt PyInt (br_fork_event_sequence x)),
      (''name'', PyStr (br_name x)),
      (''visibility_ceiling'', py_enum (memory_visibility_value (br_visibility_ceiling x))),
      (''created_at'', py_utc (br_created_at x)), (''sealed_at'', py_opt py_utc (br_sealed_at x))]"

subsection \<open>Normal forms of dumped values\<close>

lemma validate_string_lit [simp]: "validate_string (lit s) = Inr (lit s)"
  by (simp add: validate_string_def lit_no_surrogate)

lemma normalize_leaves [simp]:
  assumes "d \<le> m"
  shows "normalize L m active d (PyUUID u) = Inr (JStr (lit (uuid_str u)))"
    and "normalize L m active d (py_text s) = Inr (JStr (lit s))"
    and "normalize L m active d (py_enum s) = Inr (JStr (lit s))"
    and "normalize L m active d (PyStr p) = rbind (validate_string p) (\<lambda>s. Inr (JStr s))"
    and "normalize L m active d (PyInt i) = rbind (normalize_integer i) (\<lambda>i. Inr (JInt i))"
    and "normalize L m active d (PyDecimal x) = normalize_decimal L x"
    and "normalize L m active d PyNone = Inr JNull"
  using assms by (simp_all add: normalize.simps py_text_def py_enum_def)

lemma normalize_py_object [simp]:
  assumes "d \<le> m" "n \<notin> set active"
  shows "normalize L m active d (py_object n items) =
    rbind (normalize_items L m (n # active) (d + 1) (map (\<lambda>(k, v). (PyStr (lit k), v)) items))
      (\<lambda>ps. Inr (JObj ps))"
  using assms by (simp add: normalize.simps py_object_def)

end
