(* ===== verification/Events.thy ===== *)
theory Events
  imports States
begin

text \<open>
  Operation payloads and the event envelope of \<^verbatim>\<open>domain/events.py\<close>. A payload is a datatype with
  one constructor per payload class; \<open>payload_model\<close> names the classes that \<^verbatim>\<open>PAYLOAD_MODELS\<close>
  selects. Reading the fields of a model out of a JSON object is the validation library's work:
  it is the field \<open>pydantic_fields\<close> of the record \<open>library\<close>, which answers \<open>None\<close> when a field is
  missing, unknown or of the wrong type. Everything that the source declares on top of the field
  types (bounds, patterns, validators) is defined here and in \<open>States\<close>.
\<close>

subsection \<open>Payloads\<close>

datatype forget_mode = LOGICAL | HARD

record 't affected_memory =
  am_previous_revision :: int
  am_memory :: "'t memory_state"

datatype 't operation_payload =
    MemoryCreatedPayload "'t memory_state" "'t evidence_state list"
  | MemoryTransitionPayload int "'t memory_state"
  | CandidateLifecyclePayload int "'t memory_state" uuid string "'t evidence_state list"
  | SupersededPayload int "'t memory_state" "'t link_state"
  | TombstonedPayload int "'t memory_state" forget_mode
  | EvidenceAttachedPayload "'t evidence_state"
  | EvidenceRedactedPayload uuid uuid 't string
  | LinkedPayload "'t link_state"
  | UnlinkedPayload "'t link_state"
  | ConflictOpenedPayload "'t conflict_state" "'t conflict_member_state list" "'t affected_memory list"
  | ConflictResolvedPayload "'t conflict_state" "'t conflict_member_state list" "'t affected_memory list"
  | BranchCreatedPayload "'t branch_state"
  | PayloadPurgeCompletedPayload int "'t memory_state" uuid 't string

datatype payload_model =
    PM_MemoryCreated | PM_MemoryCreatedV2 | PM_MemoryCreatedV3 | PM_MemoryTransition
  | PM_CandidateLifecycle | PM_Superseded | PM_Tombstoned | PM_TombstonedV3 | PM_EvidenceAttached
  | PM_EvidenceRedacted | PM_Linked | PM_Unlinked | PM_ConflictOpened | PM_ConflictResolved
  | PM_BranchCreated | PM_PayloadPurgeCompleted | PM_PayloadPurgeCompletedV3

record library = codec +
  pydantic_fields :: "payload_model \<Rightarrow> json_object \<Rightarrow> py_datetime operation_payload option"

definition state_version :: "'t memory_state \<Rightarrow> nat" where
  "state_version m =
     (case m_class m of MemoryStateV1 \<Rightarrow> 1 | MemoryStateV2 _ \<Rightarrow> 2 | MemoryStateV3 _ _ \<Rightarrow> 3)"

text \<open>Which payloads are instances of a model class: the memory field's class included.\<close>

fun instance_of :: "payload_model \<Rightarrow> 't operation_payload \<Rightarrow> bool" where
  "instance_of model (MemoryCreatedPayload m evs) =
     (model = PM_MemoryCreated \<and> state_version m = 1 \<or>
      model = PM_MemoryCreatedV2 \<and> state_version m = 2 \<or>
      model = PM_MemoryCreatedV3 \<and> state_version m = 3 \<and> evs = [])"
| "instance_of model (MemoryTransitionPayload r m) =
     (model = PM_MemoryTransition \<and> state_version m = 1)"
| "instance_of model (CandidateLifecyclePayload r m d c evs) =
     (model = PM_CandidateLifecycle \<and> state_version m = 2)"
| "instance_of model (SupersededPayload r m l) = (model = PM_Superseded \<and> state_version m = 1)"
| "instance_of model (TombstonedPayload r m f) =
     (model = PM_Tombstoned \<and> state_version m = 1 \<or> model = PM_TombstonedV3 \<and> state_version m = 3)"
| "instance_of model (EvidenceAttachedPayload e) = (model = PM_EvidenceAttached)"
| "instance_of model (EvidenceRedactedPayload e m t c) = (model = PM_EvidenceRedacted)"
| "instance_of model (LinkedPayload l) = (model = PM_Linked)"
| "instance_of model (UnlinkedPayload l) = (model = PM_Unlinked)"
| "instance_of model (ConflictOpenedPayload c ms as) =
     (model = PM_ConflictOpened \<and> list_all (\<lambda>a. state_version (am_memory a) = 1) as)"
| "instance_of model (ConflictResolvedPayload c ms as) =
     (model = PM_ConflictResolved \<and> list_all (\<lambda>a. state_version (am_memory a) = 1) as)"
| "instance_of model (BranchCreatedPayload b) = (model = PM_BranchCreated)"
| "instance_of model (PayloadPurgeCompletedPayload r m k t s) =
     (model = PM_PayloadPurgeCompleted \<and> state_version m = 1 \<or>
      model = PM_PayloadPurgeCompletedV3 \<and> state_version m = 3)"

definition validate_transition :: "int \<Rightarrow> py_datetime memory_state \<Rightarrow> memory result" where
  "validate_transition previous_revision m =
     rbind (reject_first [(\<not> safe_positive previous_revision, ''previous_revision'')]) (\<lambda>_.
       validate_memory m)"

definition validate_affected :: "py_datetime affected_memory \<Rightarrow> utc affected_memory result" where
  "validate_affected a =
     rbind (validate_transition (am_previous_revision a) (am_memory a)) (\<lambda>m.
       Inr \<lparr> am_previous_revision = am_previous_revision a, am_memory = m \<rparr>)"

definition validate_conflict_members :: "conflict \<Rightarrow> conflict_member list \<Rightarrow> unit result" where
  "validate_conflict_members c members =
     (let ids = map cm_memory_id members in reject_first
       [(length ids < 2 \<or> card (set ids) \<noteq> length ids, ''conflicts require at least two unique members''),
        (list_ex (\<lambda>x. cm_conflict_id x \<noteq> cf_conflict_id c) members,
           ''conflict members must reference their conflict'')])"

definition validate_conflict_payload ::
    "py_datetime conflict_state \<Rightarrow> py_datetime conflict_member_state list \<Rightarrow>
     py_datetime affected_memory list \<Rightarrow>
     (conflict \<times> conflict_member list \<times> utc affected_memory list) result" where
  "validate_conflict_payload c ms as =
     rbind (validate_conflict c) (\<lambda>c.
     rbind (traverse validate_conflict_member ms) (\<lambda>ms.
     rbind (traverse validate_affected as) (\<lambda>as.
     rbind (validate_conflict_members c ms) (\<lambda>_. Inr (c, ms, as)))))"

fun validate_payload :: "py_datetime operation_payload \<Rightarrow> utc operation_payload result" where
  "validate_payload (MemoryCreatedPayload m evs) =
     rbind (validate_memory m) (\<lambda>m.
     rbind (traverse validate_evidence evs) (\<lambda>evs. Inr (MemoryCreatedPayload m evs)))"
| "validate_payload (MemoryTransitionPayload r m) =
     rbind (validate_transition r m) (\<lambda>m. Inr (MemoryTransitionPayload r m))"
| "validate_payload (CandidateLifecyclePayload r m d c evs) =
     rbind (validate_transition r m) (\<lambda>m.
     rbind (uuid7_fields [(''selection_decision_id'', Some d)]) (\<lambda>_.
     rbind (reject_first [(\<not> lower_snake c \<or> 64 < length c, ''policy_rule_code''),
       (32 < length evs, ''evidence'')]) (\<lambda>_.
     rbind (traverse validate_evidence evs) (\<lambda>evs.
     rbind (reject_first [(card (set (map ev_evidence_id evs)) \<noteq> length evs,
       ''candidate lifecycle evidence IDs must be unique'')]) (\<lambda>_.
       Inr (CandidateLifecyclePayload r m d c evs))))))"
| "validate_payload (SupersededPayload r m l) =
     rbind (validate_transition r m) (\<lambda>m.
     rbind (validate_link l) (\<lambda>l. Inr (SupersededPayload r m l)))"
| "validate_payload (TombstonedPayload r m f) =
     rbind (validate_transition r m) (\<lambda>m. Inr (TombstonedPayload r m f))"
| "validate_payload (EvidenceAttachedPayload e) =
     rbind (validate_evidence e) (\<lambda>e. Inr (EvidenceAttachedPayload e))"
| "validate_payload (EvidenceRedactedPayload e m t c) =
     rbind (uuid7_fields [(''evidence_id'', Some e), (''memory_id'', Some m)]) (\<lambda>_.
     rbind (utc_field ''redacted_at'' t) (\<lambda>t.
     rbind (reject_first [(\<not> lower_snake c \<or> 64 < length c, ''reason_code'')]) (\<lambda>_.
       Inr (EvidenceRedactedPayload e m t c))))"
| "validate_payload (LinkedPayload l) = rbind (validate_link l) (\<lambda>l. Inr (LinkedPayload l))"
| "validate_payload (UnlinkedPayload l) = rbind (validate_link l) (\<lambda>l. Inr (UnlinkedPayload l))"
| "validate_payload (ConflictOpenedPayload c ms as) =
     rbind (validate_conflict_payload c ms as) (\<lambda>(c, ms, as). Inr (ConflictOpenedPayload c ms as))"
| "validate_payload (ConflictResolvedPayload c ms as) =
     rbind (validate_conflict_payload c ms as) (\<lambda>(c, ms, as). Inr (ConflictResolvedPayload c ms as))"
| "validate_payload (BranchCreatedPayload b) =
     rbind (validate_branch b) (\<lambda>b. Inr (BranchCreatedPayload b))"
| "validate_payload (PayloadPurgeCompletedPayload r m k t s) =
     rbind (validate_transition r m) (\<lambda>m.
     rbind (uuid7_fields [(''content_key_id'', Some k)]) (\<lambda>_.
     rbind (utc_field ''key_destroyed_at'' t) (\<lambda>t.
     rbind (reject_first [(\<not> hex_digest_ok s, ''destruction_receipt_sha256'')]) (\<lambda>_.
       Inr (PayloadPurgeCompletedPayload r m k t s)))))"

definition model_validate ::
    "'z library_scheme \<Rightarrow> payload_model \<Rightarrow> json_object \<Rightarrow> utc operation_payload result" where
  "model_validate L model obj =
     (case pydantic_fields L model obj of
        None \<Rightarrow> Inl (ValidationError (ValueError ''fields''))
      | Some raw \<Rightarrow>
          if \<not> instance_of model raw then Inl (ValidationError (ValueError ''fields''))
          else validated (validate_payload raw))"

definition forget_mode_value :: "forget_mode \<Rightarrow> string" where
  "forget_mode_value f = (case f of LOGICAL \<Rightarrow> ''logical'' | HARD \<Rightarrow> ''hard'')"

definition affected_dump :: "nat \<Rightarrow> utc affected_memory \<Rightarrow> pyvalue" where
  "affected_dump n a = py_object n
     [(''previous_revision'', PyInt (am_previous_revision a)),
      (''memory'', memory_dump (Suc n) (am_memory a))]"

definition conflict_payload_dump ::
    "conflict \<Rightarrow> conflict_member list \<Rightarrow> utc affected_memory list \<Rightarrow> pyvalue" where
  "conflict_payload_dump c ms as = py_object 0
     [(''conflict'', conflict_dump 1 c),
      (''members'', PySequence 1 (map (conflict_member_dump 2) ms)),
      (''affected_memories'', PySequence 1 (map (affected_dump 2) as))]"

fun payload_dump :: "utc operation_payload \<Rightarrow> pyvalue" where
  "payload_dump (MemoryCreatedPayload m evs) = py_object 0
     [(''memory'', memory_dump 1 m), (''evidence'', PySequence 1 (map (evidence_dump 2) evs))]"
| "payload_dump (MemoryTransitionPayload r m) = py_object 0
     [(''previous_revision'', PyInt r), (''memory'', memory_dump 1 m)]"
| "payload_dump (CandidateLifecyclePayload r m d c evs) = py_object 0
     [(''previous_revision'', PyInt r), (''memory'', memory_dump 1 m),
      (''selection_decision_id'', PyUUID d), (''policy_rule_code'', py_text c),
      (''evidence'', PySequence 1 (map (evidence_dump 2) evs))]"
| "payload_dump (SupersededPayload r m l) = py_object 0
     [(''previous_revision'', PyInt r), (''memory'', memory_dump 1 m), (''link'', link_dump 1 l)]"
| "payload_dump (TombstonedPayload r m f) = py_object 0
     [(''previous_revision'', PyInt r), (''memory'', memory_dump 1 m),
      (''forget_mode'', py_text (forget_mode_value f))]"
| "payload_dump (EvidenceAttachedPayload e) = py_object 0 [(''evidence'', evidence_dump 1 e)]"
| "payload_dump (EvidenceRedactedPayload e m t c) = py_object 0
     [(''evidence_id'', PyUUID e), (''memory_id'', PyUUID m), (''redacted_at'', py_utc t),
      (''reason_code'', py_text c)]"
| "payload_dump (LinkedPayload l) = py_object 0 [(''link'', link_dump 1 l)]"
| "payload_dump (UnlinkedPayload l) = py_object 0 [(''link'', link_dump 1 l)]"
| "payload_dump (ConflictOpenedPayload c ms as) = conflict_payload_dump c ms as"
| "payload_dump (ConflictResolvedPayload c ms as) = conflict_payload_dump c ms as"
| "payload_dump (BranchCreatedPayload b) = py_object 0 [(''branch'', branch_dump 1 b)]"
| "payload_dump (PayloadPurgeCompletedPayload r m k t s) = py_object 0
     [(''previous_revision'', PyInt r), (''memory'', memory_dump 1 m),
      (''content_key_id'', PyUUID k), (''key_destroyed_at'', py_utc t),
      (''destruction_receipt_sha256'', py_text s)]"

definition canonical_value :: "'z codec_scheme \<Rightarrow> pyvalue \<Rightarrow> json result" where
  "canonical_value L dump = normalize_json_value L MAX_CANONICAL_JSON_DEPTH dump"

definition PAYLOAD_MODELS :: "((event_operation \<times> int \<times> int) \<times> payload_model) list" where
  "PAYLOAD_MODELS =
     [((OP_OBSERVED, 1, 1), PM_MemoryCreated),
      ((OP_OBSERVED, 2, 2), PM_MemoryCreatedV2),
      ((OP_OBSERVED, 3, 3), PM_MemoryCreatedV3),
      ((OP_REMEMBERED, 1, 1), PM_MemoryCreated),
      ((OP_REMEMBERED, 2, 2), PM_MemoryCreatedV2),
      ((OP_REMEMBERED, 3, 3), PM_MemoryCreatedV3),
      ((OP_CANDIDATE_PROMOTED, 2, 2), PM_CandidateLifecycle),
      ((OP_CANDIDATE_EXPIRED, 2, 2), PM_CandidateLifecycle),
      ((OP_REVISED, 1, 1), PM_MemoryTransition),
      ((OP_LINKED, 1, 1), PM_Linked),
      ((OP_EVIDENCE_ATTACHED, 1, 1), PM_EvidenceAttached),
      ((OP_EVIDENCE_REDACTED, 1, 1), PM_EvidenceRedacted),
      ((OP_UNLINKED, 1, 1), PM_Unlinked),
      ((OP_CONFLICT_OPENED, 1, 1), PM_ConflictOpened),
      ((OP_CONFLICT_RESOLVED, 1, 1), PM_ConflictResolved),
      ((OP_SUPERSEDED, 1, 1), PM_Superseded),
      ((OP_RETIRED, 1, 1), PM_MemoryTransition),
      ((OP_TOMBSTONED, 1, 1), PM_Tombstoned),
      ((OP_TOMBSTONED, 3, 3), PM_TombstonedV3),
      ((OP_BRANCH_CREATED, 1, 1), PM_BranchCreated),
      ((OP_VISIBILITY_CHANGED, 1, 1), PM_MemoryTransition),
      ((OP_PAYLOAD_PURGE_COMPLETED, 1, 1), PM_PayloadPurgeCompleted),
      ((OP_PAYLOAD_PURGE_COMPLETED, 3, 3), PM_PayloadPurgeCompletedV3)]"

subsection \<open>The event envelope\<close>

record 't memory_event =
  e_schema_version :: int
  e_payload_version :: int
  e_sequence :: int
  e_event_id :: uuid
  e_tenant_id :: uuid
  e_lineage_id :: uuid
  e_branch_id :: uuid
  e_actor_id :: uuid
  e_client_id :: uuid
  e_transport_binding_id :: uuid
  e_session_id :: "uuid option"
  e_ingress_id :: "uuid option"
  e_operation :: event_operation
  e_memory_id :: "uuid option"
  e_expected_revision :: "int option"
  e_causation_event_id :: "uuid option"
  e_correlation_id :: uuid
  e_idempotency_key :: pystr
  e_policy_version :: int
  e_normalization_version :: int
  e_payload :: json_object
  e_payload_canonical :: string
  e_payload_sha256 :: string
  e_command_sha256 :: string
  e_created_at :: 't

type_synonym event = "utc memory_event"

definition CREATE_OPERATIONS :: "event_operation list" where
  "CREATE_OPERATIONS = [OP_OBSERVED, OP_REMEMBERED]"

definition TRANSITION_OPERATIONS :: "event_operation list" where
  "TRANSITION_OPERATIONS =
     [OP_CANDIDATE_PROMOTED, OP_CANDIDATE_EXPIRED, OP_REVISED, OP_SUPERSEDED, OP_RETIRED,
      OP_TOMBSTONED, OP_VISIBILITY_CHANGED, OP_PAYLOAD_PURGE_COMPLETED]"

definition EVIDENCE_OPERATIONS :: "event_operation list" where
  "EVIDENCE_OPERATIONS = [OP_EVIDENCE_ATTACHED, OP_EVIDENCE_REDACTED]"

definition AGGREGATE_OPERATIONS :: "event_operation list" where
  "AGGREGATE_OPERATIONS =
     [OP_LINKED, OP_UNLINKED, OP_CONFLICT_OPENED, OP_CONFLICT_RESOLVED, OP_BRANCH_CREATED]"

definition validate_event_envelope_shape :: "'t memory_event \<Rightarrow> unit result" where
  "validate_event_envelope_shape e =
     (let op = e_operation e;
          valid =
            (if op \<in> set CREATE_OPERATIONS
             then e_memory_id e \<noteq> None \<and> e_expected_revision e = None
             else if op \<in> set TRANSITION_OPERATIONS
             then e_memory_id e \<noteq> None \<and> e_expected_revision e \<noteq> None
             else if op \<in> set EVIDENCE_OPERATIONS
             then e_memory_id e \<noteq> None \<and> e_expected_revision e = None
             else if op \<in> set AGGREGATE_OPERATIONS
             then e_memory_id e = None \<and> e_expected_revision e = None
             else False)
      in if \<not> valid
         then Inl (EventContractError
                (''invalid envelope target shape for operation '' @ event_operation_value op))
         else Inr ())"

definition typed_payload :: "'z library_scheme \<Rightarrow> 't memory_event \<Rightarrow> utc operation_payload result" where
  "typed_payload L e =
     (case map_of PAYLOAD_MODELS (e_operation e, e_schema_version e, e_payload_version e) of
        Some model \<Rightarrow>
          if e_schema_version e \<notin> {1, 2, 3} \<or> e_payload_version e \<notin> {1, 2, 3}
          then Inl (EventContractError (''unsupported event payload: ''
                 @ event_operation_value (e_operation e) @ '' v'' @ int_str (e_payload_version e)))
          else model_validate L model (e_payload e)
      | None \<Rightarrow> Inl (EventContractError (''unsupported event payload: ''
                 @ event_operation_value (e_operation e) @ '' v'' @ int_str (e_payload_version e))))"

definition command_object ::
    "uuid \<Rightarrow> uuid \<Rightarrow> uuid \<Rightarrow> uuid \<Rightarrow> uuid \<Rightarrow> event_operation \<Rightarrow> int \<Rightarrow> uuid option \<Rightarrow> int option \<Rightarrow>
     uuid option \<Rightarrow> json_object \<Rightarrow> pyvalue" where
  "command_object tenant_id lineage_id branch_id actor_id client_id op payload_version memory_id
       expected_revision causation_event_id payload = py_object 0
     [(''tenant_id'', PyUUID tenant_id), (''lineage_id'', PyUUID lineage_id),
      (''branch_id'', PyUUID branch_id), (''actor_id'', PyUUID actor_id),
      (''client_id'', PyUUID client_id), (''operation'', py_text (event_operation_value op)),
      (''payload_version'', PyInt payload_version), (''memory_id'', py_opt PyUUID memory_id),
      (''expected_revision'', py_opt PyInt expected_revision),
      (''causation_event_id'', py_opt PyUUID causation_event_id),
      (''payload'', py_of_json 1 (JObj payload))]"

definition command_material :: "'t memory_event \<Rightarrow> pyvalue" where
  "command_material e =
     command_object (e_tenant_id e) (e_lineage_id e) (e_branch_id e) (e_actor_id e) (e_client_id e)
       (e_operation e) (e_payload_version e) (e_memory_id e) (e_expected_revision e)
       (e_causation_event_id e) (e_payload e)"

definition verify_hashes :: "'z library_scheme \<Rightarrow> 't memory_event \<Rightarrow> unit result" where
  "verify_hashes L e =
     rbind (typed_payload L e) (\<lambda>typed.
     rbind (canonical_value L (payload_dump typed)) (\<lambda>payload_value.
     rbind (canonical_json_bytes L (py_of_json 0 payload_value)) (\<lambda>canonical.
     case b64decode (e_payload_canonical e) of
       Inl _ \<Rightarrow> Inl (EventContractError ''payload_canonical is not valid base64'')
     | Inr recorded \<Rightarrow>
         if recorded \<noteq> canonical
         then Inl (EventContractError ''payload canonical bytes do not match parsed payload'')
         else if sha256_hexdigest L canonical \<noteq> e_payload_sha256 e
         then Inl (EventContractError ''payload SHA-256 mismatch'')
         else rbind (normalize_json_value L MAX_CANONICAL_JSON_DEPTH (command_material e)) (\<lambda>material.
              rbind (canonical_json_bytes L (py_of_json 0 material)) (\<lambda>command.
                if sha256_hexdigest L command \<noteq> e_command_sha256 e
                then Inl (EventContractError ''command SHA-256 mismatch'')
                else Inr ())))))"

definition event_hash_fields ::
    "'z codec_scheme \<Rightarrow> event_operation \<Rightarrow> utc operation_payload \<Rightarrow> uuid \<Rightarrow> uuid \<Rightarrow> uuid \<Rightarrow> uuid \<Rightarrow> uuid \<Rightarrow>
     uuid option \<Rightarrow> int option \<Rightarrow> uuid option \<Rightarrow> int \<Rightarrow>
     (json_object \<times> string \<times> string \<times> string) result" where
  "event_hash_fields L op payload tenant_id lineage_id branch_id actor_id client_id memory_id
       expected_revision causation_event_id payload_version =
     rbind (canonical_value L (payload_dump payload)) (\<lambda>payload_value.
     case payload_value of
       JObj obj \<Rightarrow>
         rbind (canonical_json_bytes L (py_of_json 0 payload_value)) (\<lambda>payload_bytes.
         rbind (normalize_json_value L MAX_CANONICAL_JSON_DEPTH
                  (command_object tenant_id lineage_id branch_id actor_id client_id op payload_version
                     memory_id expected_revision causation_event_id obj)) (\<lambda>material.
         rbind (canonical_json_bytes L (py_of_json 0 material)) (\<lambda>command_bytes.
           Inr (obj, b64encode payload_bytes, sha256_hexdigest L payload_bytes,
                sha256_hexdigest L command_bytes))))
     | _ \<Rightarrow> Inl (EventContractError ''event payload must normalize to an object''))"

definition event_field_constraints :: "'t memory_event \<Rightarrow> unit result" where
  "event_field_constraints e = reject_first
     [(e_schema_version e \<notin> {1, 2, 3}, ''schema_version''),
      (e_payload_version e \<notin> {1, 2, 3}, ''payload_version''),
      (\<not> safe_positive (e_sequence e), ''sequence''),
      (\<not> opt_all safe_positive (e_expected_revision e), ''expected_revision''),
      (\<not> str_between 1 255 (e_idempotency_key e), ''idempotency_key''),
      (\<not> safe_positive (e_policy_version e), ''policy_version''),
      (\<not> safe_positive (e_normalization_version e), ''normalization_version''),
      (\<not> (4 \<le> length (e_payload_canonical e) \<and> length (e_payload_canonical e) \<le> 1398104),
         ''payload_canonical''),
      (\<not> hex_digest_ok (e_payload_sha256 e), ''payload_sha256''),
      (\<not> hex_digest_ok (e_command_sha256 e), ''command_sha256'')]"

definition event_uuid7_fields :: "'t memory_event \<Rightarrow> unit result" where
  "event_uuid7_fields e = uuid7_fields
     [(''event_id'', Some (e_event_id e)), (''tenant_id'', Some (e_tenant_id e)),
      (''lineage_id'', Some (e_lineage_id e)), (''branch_id'', Some (e_branch_id e)),
      (''actor_id'', Some (e_actor_id e)), (''client_id'', Some (e_client_id e)),
      (''transport_binding_id'', Some (e_transport_binding_id e)), (''session_id'', e_session_id e),
      (''ingress_id'', e_ingress_id e), (''memory_id'', e_memory_id e),
      (''causation_event_id'', e_causation_event_id e), (''correlation_id'', Some (e_correlation_id e))]"

definition event_normalize :: "py_datetime memory_event \<Rightarrow> event result" where
  "event_normalize e =
     rbind (utc_field ''created_at'' (e_created_at e)) (\<lambda>created_at.
       Inr \<lparr>
         e_schema_version = e_schema_version e, e_payload_version = e_payload_version e,
         e_sequence = e_sequence e, e_event_id = e_event_id e, e_tenant_id = e_tenant_id e,
         e_lineage_id = e_lineage_id e, e_branch_id = e_branch_id e, e_actor_id = e_actor_id e,
         e_client_id = e_client_id e, e_transport_binding_id = e_transport_binding_id e,
         e_session_id = e_session_id e, e_ingress_id = e_ingress_id e,
         e_operation = e_operation e, e_memory_id = e_memory_id e,
         e_expected_revision = e_expected_revision e,
         e_causation_event_id = e_causation_event_id e, e_correlation_id = e_correlation_id e,
         e_idempotency_key = e_idempotency_key e, e_policy_version = e_policy_version e,
         e_normalization_version = e_normalization_version e, e_payload = e_payload e,
         e_payload_canonical = e_payload_canonical e, e_payload_sha256 = e_payload_sha256 e,
         e_command_sha256 = e_command_sha256 e, e_created_at = created_at \<rparr>)"

definition validate_memory_event :: "'z library_scheme \<Rightarrow> py_datetime memory_event \<Rightarrow> event result" where
  "validate_memory_event L raw = validated (
     rbind (event_field_constraints raw) (\<lambda>_.
     rbind (event_uuid7_fields raw) (\<lambda>_.
     rbind (event_normalize raw) (\<lambda>e.
     rbind (validate_event_envelope_shape e) (\<lambda>_.
     rbind (typed_payload L e) (\<lambda>_.
     rbind (verify_hashes L e) (\<lambda>_. Inr e)))))))"

subsection \<open>What a typed payload guarantees\<close>

text \<open>The operations a payload class serves, and the validated parts of a payload.\<close>

fun payload_operations :: "'t operation_payload \<Rightarrow> event_operation list" where
  "payload_operations (MemoryCreatedPayload m evs) = [OP_OBSERVED, OP_REMEMBERED]"
| "payload_operations (MemoryTransitionPayload r m) = [OP_REVISED, OP_RETIRED, OP_VISIBILITY_CHANGED]"
| "payload_operations (CandidateLifecyclePayload r m d c evs) = [OP_CANDIDATE_PROMOTED, OP_CANDIDATE_EXPIRED]"
| "payload_operations (SupersededPayload r m l) = [OP_SUPERSEDED]"
| "payload_operations (TombstonedPayload r m f) = [OP_TOMBSTONED]"
| "payload_operations (EvidenceAttachedPayload e) = [OP_EVIDENCE_ATTACHED]"
| "payload_operations (EvidenceRedactedPayload e m t c) = [OP_EVIDENCE_REDACTED]"
| "payload_operations (LinkedPayload l) = [OP_LINKED]"
| "payload_operations (UnlinkedPayload l) = [OP_UNLINKED]"
| "payload_operations (ConflictOpenedPayload c ms as) = [OP_CONFLICT_OPENED]"
| "payload_operations (ConflictResolvedPayload c ms as) = [OP_CONFLICT_RESOLVED]"
| "payload_operations (BranchCreatedPayload b) = [OP_BRANCH_CREATED]"
| "payload_operations (PayloadPurgeCompletedPayload r m k t s) = [OP_PAYLOAD_PURGE_COMPLETED]"

fun payload_memories :: "'t operation_payload \<Rightarrow> 't memory_state list" where
  "payload_memories (MemoryCreatedPayload m evs) = [m]"
| "payload_memories (MemoryTransitionPayload r m) = [m]"
| "payload_memories (CandidateLifecyclePayload r m d c evs) = [m]"
| "payload_memories (SupersededPayload r m l) = [m]"
| "payload_memories (TombstonedPayload r m f) = [m]"
| "payload_memories (PayloadPurgeCompletedPayload r m k t s) = [m]"
| "payload_memories (ConflictOpenedPayload c ms as) = map am_memory as"
| "payload_memories (ConflictResolvedPayload c ms as) = map am_memory as"
| "payload_memories _ = []"

definition valid_link :: "link \<Rightarrow> bool" where
  "valid_link l \<longleftrightarrow> ln_source_memory_id l \<noteq> ln_target_memory_id l \<and>
     (ln_status l = LINK_UNLINKED \<longleftrightarrow> ln_unlinked_at l \<noteq> None)"

definition valid_branch :: "branch \<Rightarrow> bool" where
  "valid_branch b \<longleftrightarrow>
     (br_parent_branch_id b = None \<longleftrightarrow> br_fork_event_sequence b = None) \<and>
     br_parent_branch_id b \<noteq> Some (br_branch_id b) \<and> opt_all safe_positive (br_fork_event_sequence b)"

definition valid_members :: "conflict \<Rightarrow> conflict_member list \<Rightarrow> bool" where
  "valid_members c ms \<longleftrightarrow> 2 \<le> length ms \<and> distinct (map cm_memory_id ms) \<and>
     (\<forall>x \<in> set ms. cm_conflict_id x = cf_conflict_id c)"

definition valid_conflict :: "conflict \<Rightarrow> bool" where
  "valid_conflict c \<longleftrightarrow> (cf_status c = CONFLICT_RESOLVED \<longleftrightarrow> cf_resolved_at c \<noteq> None)"

fun valid_children :: "utc operation_payload \<Rightarrow> bool" where
  "valid_children (LinkedPayload l) = valid_link l"
| "valid_children (UnlinkedPayload l) = valid_link l"
| "valid_children (SupersededPayload r m l) = valid_link l"
| "valid_children (ConflictOpenedPayload c ms as) = (valid_conflict c \<and> valid_members c ms)"
| "valid_children (ConflictResolvedPayload c ms as) = (valid_conflict c \<and> valid_members c ms)"
| "valid_children (BranchCreatedPayload b) = valid_branch b"
| "valid_children _ = True"

lemma validate_link_valid: "validate_link raw = Inr l \<Longrightarrow> valid_link l"
  by (auto simp: validate_link_def ok_simps valid_link_def)

lemma validate_branch_valid: "validate_branch raw = Inr b \<Longrightarrow> valid_branch b"
  by (auto simp: validate_branch_def ok_simps valid_branch_def)

lemma validate_conflict_valid: "validate_conflict raw = Inr c \<Longrightarrow> valid_conflict c"
  by (cases "cf_status raw") (auto simp: validate_conflict_def ok_simps valid_conflict_def)

lemma validate_conflict_members_valid:
  "validate_conflict_members c ms = Inr u \<Longrightarrow> valid_members c ms"
  by (auto simp: validate_conflict_members_def valid_members_def ok_simps Let_def list_ex_iff
      card_set_eq_length_iff[symmetric])

lemma state_version_normalize:
  assumes "validate_memory raw = Inr m"
  shows "state_version m = state_version raw"
proof -
  from assms have "memory_normalize raw = Inr m" by (auto simp: validate_memory_def ok_simps)
  then have "map_state_class (\<lambda>_. ()) (m_class m) = map_state_class (\<lambda>_. ()) (m_class raw)"
    by (intro normalize_candidate_expiry_class memory_normalize_keeps(6))
  then show ?thesis
    by (cases "m_class m"; cases "m_class raw") (auto simp: state_version_def)
qed

lemma validate_memory_ok:
  "validate_memory raw = Inr m \<Longrightarrow> valid_memory m \<and> state_version m = state_version raw"
  by (simp add: validate_memory_valid state_version_normalize)

lemma validate_transition_ok:
  "validate_transition r raw = Inr m \<Longrightarrow>
     safe_positive r \<and> valid_memory m \<and> state_version m = state_version raw"
  by (auto simp: validate_transition_def ok_simps dest: validate_memory_ok)

lemma traverse_affected:
  "traverse validate_affected as = Inr bs \<Longrightarrow>
     list_all (\<lambda>b. valid_memory (am_memory b)) bs \<and>
     (list_all (\<lambda>a. state_version (am_memory a) = v) as \<longrightarrow>
      list_all (\<lambda>b. state_version (am_memory b) = v) bs)"
proof (induction as arbitrary: bs)
  case (Cons a as)
  then obtain m bs' where "validate_transition (am_previous_revision a) (am_memory a) = Inr m"
      "traverse validate_affected as = Inr bs'"
      "bs = \<lparr> am_previous_revision = am_previous_revision a, am_memory = m \<rparr> # bs'"
    by (auto simp: ok_simps validate_affected_def[of a])
  with Cons.IH[of bs'] show ?case
    by (auto dest: validate_transition_ok)
qed simp

lemma validate_conflict_payload_valid:
  "validate_conflict_payload c ms as = Inr (c', ms', as') \<Longrightarrow>
     valid_conflict c' \<and> valid_members c' ms' \<and> list_all (\<lambda>b. valid_memory (am_memory b)) as' \<and>
     (list_all (\<lambda>a. state_version (am_memory a) = v) as \<longrightarrow>
      list_all (\<lambda>b. state_version (am_memory b) = v) as')"
  by (auto simp: validate_conflict_payload_def ok_simps
      dest: validate_conflict_valid validate_conflict_members_valid traverse_affected)

lemma traverse_eq_Nil [simp]: "traverse f xs = Inr [] \<longleftrightarrow> xs = []"
  by (cases xs) (auto simp: ok_simps)

lemmas validated_parts = validate_transition_ok validate_memory_ok validate_link_valid validate_branch_valid

lemma validate_payload_valid:
  assumes "validate_payload raw = Inr p"
  shows "list_all valid_memory (payload_memories p) \<and> valid_children p \<and>
    (instance_of model raw \<longrightarrow> instance_of model p)"
proof (cases raw)
  case (ConflictOpenedPayload c ms as)
  then obtain c' ms' as' where "validate_conflict_payload c ms as = Inr (c', ms', as')"
      "p = ConflictOpenedPayload c' ms' as'"
    using assms by (auto simp: ok_simps)
  with ConflictOpenedPayload show ?thesis
    using validate_conflict_payload_valid[of c ms as c' ms' as' 1] by (auto simp: list_all_iff)
next
  case (ConflictResolvedPayload c ms as)
  then obtain c' ms' as' where "validate_conflict_payload c ms as = Inr (c', ms', as')"
      "p = ConflictResolvedPayload c' ms' as'"
    using assms by (auto simp: ok_simps)
  with ConflictResolvedPayload show ?thesis
    using validate_conflict_payload_valid[of c ms as c' ms' as' 1] by (auto simp: list_all_iff)
qed (use assms in \<open>auto simp: ok_simps dest!: validated_parts\<close>)

fun model_operations :: "payload_model \<Rightarrow> event_operation list" where
  "model_operations PM_MemoryTransition = [OP_REVISED, OP_RETIRED, OP_VISIBILITY_CHANGED]"
| "model_operations PM_CandidateLifecycle = [OP_CANDIDATE_PROMOTED, OP_CANDIDATE_EXPIRED]"
| "model_operations PM_Superseded = [OP_SUPERSEDED]"
| "model_operations PM_Tombstoned = [OP_TOMBSTONED]"
| "model_operations PM_TombstonedV3 = [OP_TOMBSTONED]"
| "model_operations PM_EvidenceAttached = [OP_EVIDENCE_ATTACHED]"
| "model_operations PM_EvidenceRedacted = [OP_EVIDENCE_REDACTED]"
| "model_operations PM_Linked = [OP_LINKED]"
| "model_operations PM_Unlinked = [OP_UNLINKED]"
| "model_operations PM_ConflictOpened = [OP_CONFLICT_OPENED]"
| "model_operations PM_ConflictResolved = [OP_CONFLICT_RESOLVED]"
| "model_operations PM_BranchCreated = [OP_BRANCH_CREATED]"
| "model_operations PM_PayloadPurgeCompleted = [OP_PAYLOAD_PURGE_COMPLETED]"
| "model_operations PM_PayloadPurgeCompletedV3 = [OP_PAYLOAD_PURGE_COMPLETED]"
| "model_operations _ = [OP_OBSERVED, OP_REMEMBERED]"

lemma PAYLOAD_MODELS_operations:
  "map_of PAYLOAD_MODELS (op, sv, pv) = Some model \<Longrightarrow> op \<in> set (model_operations model)"
  by (drule map_of_SomeD) (auto simp: PAYLOAD_MODELS_def)

lemma PAYLOAD_MODELS_V3:
  "map_of PAYLOAD_MODELS (op, sv, pv) = Some PM_MemoryCreatedV3 \<Longrightarrow> sv = 3 \<and> pv = 3"
  by (drule map_of_SomeD) (auto simp: PAYLOAD_MODELS_def)

lemma instance_of_operations:
  "instance_of model p \<Longrightarrow> set (model_operations model) \<subseteq> set (payload_operations p)"
  by (cases p) auto

lemma typed_payload_instance:
  assumes "typed_payload L e = Inr p"
  obtains model where
    "map_of PAYLOAD_MODELS (e_operation e, e_schema_version e, e_payload_version e) = Some model"
    "instance_of model p" "list_all valid_memory (payload_memories p)" "valid_children p"
proof -
  from assms obtain model raw where
    "map_of PAYLOAD_MODELS (e_operation e, e_schema_version e, e_payload_version e) = Some model"
    "instance_of model raw" "validate_payload raw = Inr p"
    by (auto simp: typed_payload_def model_validate_def ok_simps split: option.splits if_splits)
  with that validate_payload_valid[of raw p model] show ?thesis by blast
qed

lemma typed_payload_operations:
  "typed_payload L e = Inr p \<Longrightarrow> e_operation e \<in> set (payload_operations p)"
  by (elim typed_payload_instance) (use PAYLOAD_MODELS_operations instance_of_operations in blast)

lemma typed_payload_memories:
  "typed_payload L e = Inr p \<Longrightarrow> m \<in> set (payload_memories p) \<Longrightarrow> valid_memory m"
  by (elim typed_payload_instance) (simp add: list_all_iff)

lemma typed_payload_children: "typed_payload L e = Inr p \<Longrightarrow> valid_children p"
  by (elim typed_payload_instance)

subsection \<open>Hashes of the envelope\<close>

lemma canonical_value_object:
  "canonical_value L (payload_dump p) = Inr j \<Longrightarrow> \<exists>obj. j = JObj obj"
  by (cases p)
    (auto simp: canonical_value_def normalize_json_value_def py_object_def conflict_payload_dump_def
      normalize_mapping_ok ok_simps)

lemma verify_hashes_ok:
  "verify_hashes L e = Inr u \<longleftrightarrow>
     (\<exists>p b c. typed_payload L e = Inr p \<and>
        canonical_json_bytes L (payload_dump p) = Inr b \<and> b64decode (e_payload_canonical e) = Inr b \<and>
        sha256_hexdigest L b = e_payload_sha256 e \<and>
        canonical_json_bytes L (command_material e) = Inr c \<and>
        sha256_hexdigest L c = e_command_sha256 e)" (is "?l \<longleftrightarrow> ?r")
proof
  assume ?l
  then obtain p j b k c where 1: "typed_payload L e = Inr p"
      "normalize_json_value L MAX_CANONICAL_JSON_DEPTH (payload_dump p) = Inr j"
      "canonical_json_bytes L (py_of_json 0 j) = Inr b" "b64decode (e_payload_canonical e) = Inr b"
      "sha256_hexdigest L b = e_payload_sha256 e"
      "normalize_json_value L MAX_CANONICAL_JSON_DEPTH (command_material e) = Inr k"
      "canonical_json_bytes L (py_of_json 0 k) = Inr c" "sha256_hexdigest L c = e_command_sha256 e"
    by (auto simp: verify_hashes_def ok_simps canonical_value_def)
  then show ?r by (auto simp: canonical_json_bytes_normalized)
next
  assume ?r
  then obtain p b c where 1: "typed_payload L e = Inr p"
      "canonical_json_bytes L (payload_dump p) = Inr b" "b64decode (e_payload_canonical e) = Inr b"
      "sha256_hexdigest L b = e_payload_sha256 e"
      "canonical_json_bytes L (command_material e) = Inr c" "sha256_hexdigest L c = e_command_sha256 e"
    by blast
  from 1(2) obtain j where j: "normalize_json_value L MAX_CANONICAL_JSON_DEPTH (payload_dump p) = Inr j"
    by (auto simp: canonical_json_bytes_def ok_simps)
  from 1(5) obtain k where k: "normalize_json_value L MAX_CANONICAL_JSON_DEPTH (command_material e) = Inr k"
    by (auto simp: canonical_json_bytes_def ok_simps)
  show ?l using 1 j k canonical_json_bytes_normalized[OF j] canonical_json_bytes_normalized[OF k]
    by (simp add: verify_hashes_def canonical_value_def)
qed

lemma event_hash_fields_ok:
  assumes "event_hash_fields L op p t l b a c m r cause pv = Inr (obj, canon, ph, ch)"
  shows "\<exists>bs cs. canonical_json_bytes L (payload_dump p) = Inr bs \<and> canon = b64encode bs \<and>
     ph = sha256_hexdigest L bs \<and>
     canonical_json_bytes L (command_object t l b a c op pv m r cause obj) = Inr cs \<and>
     ch = sha256_hexdigest L cs"
proof -
  obtain j where j: "canonical_value L (payload_dump p) = Inr j"
    using assms by (auto simp: event_hash_fields_def rbind_eq_Inr)
  with canonical_value_object obtain o' where o': "j = JObj o'" by blast
  with assms j obtain bs k cs where 1: "canonical_json_bytes L (py_of_json 0 j) = Inr bs"
      "normalize_json_value L MAX_CANONICAL_JSON_DEPTH (command_object t l b a c op pv m r cause o') = Inr k"
      "canonical_json_bytes L (py_of_json 0 k) = Inr cs"
      "obj = o'" "canon = b64encode bs" "ph = sha256_hexdigest L bs" "ch = sha256_hexdigest L cs"
    by (auto simp: event_hash_fields_def ok_simps)
  with j show ?thesis
    by (auto simp: canonical_json_bytes_normalized canonical_value_def)
qed

text \<open>
  The hash fields that the node computes for a new event are the ones that validation and
  replay recompute: an event whose payload, canonical bytes and digests come from
  \<open>event_hash_fields\<close> for the same envelope, and whose payload object reads back as the same typed
  payload, passes \<open>verify_hashes\<close>.
\<close>

theorem event_hash_fields_verify:
  assumes "event_hash_fields L (e_operation e) p (e_tenant_id e) (e_lineage_id e) (e_branch_id e)
      (e_actor_id e) (e_client_id e) (e_memory_id e) (e_expected_revision e)
      (e_causation_event_id e) (e_payload_version e)
    = Inr (e_payload e, e_payload_canonical e, e_payload_sha256 e, e_command_sha256 e)"
    and "typed_payload L e = Inr p"
  shows "verify_hashes L e = Inr ()"
  using event_hash_fields_ok[OF assms(1)] assms(2)
  by (auto simp: verify_hashes_ok command_material_def b64.dec_enc)

text \<open>
  The digests bind the recorded content. If two events both pass \<open>verify_hashes\<close> and record the
  same payload and command digests, then the bytes they record are the canonical bytes of their
  typed payloads, and both these bytes and the canonical bytes of their command material have equal
  SHA-256 values: the two events carry the same content unless a pair is a SHA-256 collision.
\<close>

theorem verify_hashes_binding:
  assumes "verify_hashes L e1 = Inr ()" "verify_hashes L e2 = Inr ()"
    and "e_payload_sha256 e1 = e_payload_sha256 e2" "e_command_sha256 e1 = e_command_sha256 e2"
  shows "\<exists>p1 p2 b1 b2 c1 c2. typed_payload L e1 = Inr p1 \<and> typed_payload L e2 = Inr p2 \<and>
     canonical_json_bytes L (payload_dump p1) = Inr b1 \<and>
     canonical_json_bytes L (payload_dump p2) = Inr b2 \<and>
     b64decode (e_payload_canonical e1) = Inr b1 \<and> b64decode (e_payload_canonical e2) = Inr b2 \<and>
     canonical_json_bytes L (command_material e1) = Inr c1 \<and>
     canonical_json_bytes L (command_material e2) = Inr c2 \<and>
     sha256 L b1 = sha256 L b2 \<and> sha256 L c1 = sha256 L c2"
  using assms
  unfolding verify_hashes_ok sha256_hexdigest_def by (metis hex.enc_inj)

end
