(* ===== verification/Folding.thy ===== *)
theory Folding
  imports Events
begin

text \<open>
  The deterministic fold of accepted events of \<^verbatim>\<open>domain/folding.py\<close>. The projection is a record
  of dictionaries; every helper of the source that mutates its local copies of them returns the
  new dictionaries, and a raise is an exception value, which discards them. The names of the
  definitions are those of the source without the leading underscore.
\<close>

type_synonym scope_key = "uuid \<times> uuid \<times> uuid"

type_synonym memories = "(uuid, memory) dict"
type_synonym evidences = "(uuid, evidence_item) dict"
type_synonym links = "(uuid, link) dict"
type_synonym conflicts = "(uuid, conflict) dict"
type_synonym conflict_members = "(uuid \<times> uuid, conflict_member) dict"
type_synonym branches = "(uuid, branch) dict"

record projection_state =
  p_sequence :: int
  p_memories :: memories
  p_evidence :: evidences
  p_links :: links
  p_conflicts :: conflicts
  p_conflict_members :: conflict_members
  p_branches :: branches
  p_event_scopes :: "(uuid, scope_key) dict"
  p_sequence_scopes :: "(int, scope_key) dict"

definition empty_projection :: projection_state where
  "empty_projection = \<lparr> p_sequence = 0, p_memories = [], p_evidence = [], p_links = [],
     p_conflicts = [], p_conflict_members = [], p_branches = [], p_event_scopes = [],
     p_sequence_scopes = [] \<rparr>"

subsection \<open>Checks\<close>

definition fold_fail :: "event \<Rightarrow> string \<Rightarrow> string \<Rightarrow> exn" where
  "fold_fail e code detail = FoldError code (e_sequence e) detail"

definition event_scope :: "event \<Rightarrow> scope_key" where
  "event_scope e = (e_tenant_id e, e_lineage_id e, e_branch_id e)"

definition validate_branch_visibility :: "event \<Rightarrow> branch \<Rightarrow> utc operation_payload \<Rightarrow> unit result" where
  "validate_branch_visibility e b payload =
     (let allowed = BRANCH_VISIBILITIES (br_visibility_ceiling b)
      in if list_ex (\<lambda>m. m_visibility m \<notin> set allowed) (payload_memories payload)
         then Inl (fold_fail e ''branch_visibility_forbidden'' ''memory exceeds branch visibility'')
         else Inr ())"

definition check_scoped_after_image :: "event \<Rightarrow> scope_key \<Rightarrow> unit result" where
  "check_scoped_after_image e actual =
     (if actual \<noteq> event_scope e
      then Inl (fold_fail e ''scope_mismatch'' ''after-image ownership differs from event'')
      else Inr ())"

definition memory_scope_key :: "memory \<Rightarrow> scope_key" where
  "memory_scope_key m = (m_tenant_id m, m_lineage_id m, m_branch_id m)"

definition evidence_scope_key :: "evidence_item \<Rightarrow> scope_key" where
  "evidence_scope_key x = (ev_tenant_id x, ev_lineage_id x, ev_branch_id x)"

definition link_scope_key :: "link \<Rightarrow> scope_key" where
  "link_scope_key x = (ln_tenant_id x, ln_lineage_id x, ln_branch_id x)"

definition conflict_scope_key :: "conflict \<Rightarrow> scope_key" where
  "conflict_scope_key x = (cf_tenant_id x, cf_lineage_id x, cf_branch_id x)"

definition branch_scope_key :: "branch \<Rightarrow> scope_key" where
  "branch_scope_key x = (br_tenant_id x, br_lineage_id x, br_branch_id x)"

definition sealed_aad :: "event \<Rightarrow> memory \<Rightarrow> pyvalue" where
  "sealed_aad e m = py_object 0
     [(''aad_contract'', py_text ''scalevault.sealed-content-aad.v1''),
      (''algorithm'', py_text ''AES-256-GCM''),
      (''branch_id'', PyUUID (e_branch_id e)),
      (''content_key_id'', py_opt PyUUID (m_content_key_id m)),
      (''event_id'', PyUUID (e_event_id e)),
      (''lineage_id'', PyUUID (e_lineage_id e)),
      (''memory_id'', PyUUID (m_memory_id m)),
      (''payload_version'', PyInt (e_payload_version e)),
      (''revision'', PyInt (m_revision m)),
      (''schema_version'', PyInt (e_schema_version e)),
      (''tenant_id'', PyUUID (e_tenant_id e))]"

definition check_target :: "'z library_scheme \<Rightarrow> event \<Rightarrow> memory \<Rightarrow> unit result" where
  "check_target L e m =
     rbind (check_scoped_after_image e (memory_scope_key m)) (\<lambda>_.
     if e_memory_id e \<noteq> Some (m_memory_id m)
     then Inl (fold_fail e ''memory_mismatch'' ''envelope and payload memory IDs differ'')
     else case sealed_content m of
       None \<Rightarrow> Inr ()
     | Some sealed \<Rightarrow>
         if m_content_protection m = ENVELOPE_ENCRYPTED
            \<and> e_operation e \<in> {OP_OBSERVED, OP_REMEMBERED}
         then (if e_schema_version e \<noteq> 3 \<or> e_payload_version e \<noteq> 3
               then Inl (fold_fail e ''invalid_sealed_contract'' ''sealed memory requires event v3'')
               else rbind (canonical_json_bytes L (sealed_aad e m)) (\<lambda>aad.
                 if bytes_hex (sha256_digest L aad) \<noteq> se_aad_sha256 sealed
                 then Inl (fold_fail e ''invalid_sealed_binding'' ''sealed memory AAD binding differs'')
                 else Inr ()))
         else Inr ())"

fun check_unchanged :: "event \<Rightarrow> string \<Rightarrow> (string \<times> bool) list \<Rightarrow> unit result" where
  "check_unchanged e kind [] = Inr ()"
| "check_unchanged e kind ((name, changed) # rest) =
     (if changed then Inl (fold_fail e ''identity_changed'' (kind @ '' '' @ name @ '' cannot change''))
      else check_unchanged e kind rest)"

lemma check_unchanged_ok [ok_simps]:
  "check_unchanged e kind [] = Inr u"
  "check_unchanged e kind ((name, changed) # rest) = Inr u \<longleftrightarrow>
     \<not> changed \<and> check_unchanged e kind rest = Inr u"
  by simp_all

definition check_sealed_identity :: "event \<Rightarrow> memory \<Rightarrow> memory \<Rightarrow> unit result" where
  "check_sealed_identity e current after =
     (if is_v3 current \<or> is_v3 after
      then (if \<not> is_v3 current \<or> \<not> is_v3 after
            then Inl (fold_fail e ''sealed_identity_changed'' ''sealed memory contract cannot change'')
            else if e_operation e \<notin> {OP_TOMBSTONED, OP_PAYLOAD_PURGE_COMPLETED}
            then Inl (fold_fail e ''unsupported_sealed_transition'' ''sealed memory transition is unsupported'')
            else if m_content_key_id after \<noteq> m_content_key_id current
                    \<or> sealed_content after \<noteq> sealed_content current
            then Inl (fold_fail e ''sealed_identity_changed''
                        ''sealed envelope and content-key identity are immutable'')
            else Inr ())
      else Inr ())"

definition check_revision :: "bool \<Rightarrow> event \<Rightarrow> memory \<Rightarrow> int \<Rightarrow> memory \<Rightarrow> unit result" where
  "check_revision check_envelope e current previous_revision after =
     (if check_envelope \<and> e_expected_revision e \<noteq> Some previous_revision
      then Inl (fold_fail e ''expected_revision_mismatch'' ''envelope and payload differ'')
      else if m_revision current \<noteq> previous_revision
      then Inl (fold_fail e ''stale_event_revision'' ''projection revision differs from event'')
      else if m_revision after \<noteq> previous_revision + 1
      then Inl (fold_fail e ''invalid_revision'' ''after-image revision must increment exactly once'')
      else if m_memory_id after \<noteq> m_memory_id current
      then Inl (fold_fail e ''identity_changed'' ''memory ID cannot change'')
      else rbind (check_unchanged e ''memory''
             [(''tenant_id'', m_tenant_id after \<noteq> m_tenant_id current),
              (''lineage_id'', m_lineage_id after \<noteq> m_lineage_id current),
              (''branch_id'', m_branch_id after \<noteq> m_branch_id current),
              (''subject_id'', m_subject_id after \<noteq> m_subject_id current),
              (''created_at'', m_created_at after \<noteq> m_created_at current)]) (\<lambda>_.
           rbind (check_sealed_identity e current after) (\<lambda>_.
           if m_updated_at after \<noteq> e_created_at e
           then Inl (fold_fail e ''timestamp_mismatch'' ''after-image update time must equal event time'')
           else Inr ())))"

fun REVISED_TRANSITIONS :: "memory_status \<Rightarrow> memory_status list" where
  "REVISED_TRANSITIONS CANDIDATE = [CANDIDATE, ACTIVE, DISPUTED]"
| "REVISED_TRANSITIONS ACTIVE = [ACTIVE, DISPUTED]"
| "REVISED_TRANSITIONS DISPUTED = [DISPUTED, ACTIVE]"
| "REVISED_TRANSITIONS _ = []"

definition check_revised_lifecycle :: "event \<Rightarrow> memory \<Rightarrow> memory \<Rightarrow> unit result" where
  "check_revised_lifecycle e current after =
     (if m_status after \<notin> set (REVISED_TRANSITIONS (m_status current))
      then Inl (fold_fail e ''invalid_lifecycle'' ''revised event has an invalid status transition'')
      else Inr ())"

definition check_candidate_lifecycle :: "event \<Rightarrow> memory \<Rightarrow> memory \<Rightarrow> memory_status \<Rightarrow> unit result" where
  "check_candidate_lifecycle e current after required_status =
     (if m_status current \<noteq> CANDIDATE
      then Inl (fold_fail e ''invalid_lifecycle'' ''candidate lifecycle requires a candidate memory'')
      else if m_status after \<noteq> required_status
      then Inl (fold_fail e ''invalid_lifecycle''
                  (''candidate lifecycle requires '' @ memory_status_value required_status))
      else if candidate_expires_at after \<noteq> None
      then Inl (fold_fail e ''invalid_lifecycle'' ''candidate lifecycle must clear the expiry deadline'')
      else Inr ())"

subsection \<open>Memories and evidence\<close>

definition replace_memory ::
    "'z library_scheme \<Rightarrow> event \<Rightarrow> memory_status option \<Rightarrow> bool \<Rightarrow> memories \<Rightarrow> int \<Rightarrow> memory \<Rightarrow> memories result" where
  "replace_memory L e required_status preserve_status memories previous_revision after =
     rbind (check_target L e after) (\<lambda>_.
     case dict_get memories (m_memory_id after) of
       None \<Rightarrow> Inl (fold_fail e ''missing_memory'' ''target memory does not exist'')
     | Some current \<Rightarrow>
         rbind (check_revision True e current previous_revision after) (\<lambda>_.
         if (case required_status of None \<Rightarrow> False | Some s \<Rightarrow> m_status after \<noteq> s)
         then Inl (fold_fail e ''invalid_lifecycle''
                     (''operation requires '' @ memory_status_value (the required_status)))
         else if preserve_status \<and> m_status after \<noteq> m_status current
         then Inl (fold_fail e ''invalid_lifecycle'' ''operation must preserve memory status'')
         else Inr (dict_set (m_memory_id after) after memories)))"

definition add_created_evidence :: "event \<Rightarrow> uuid \<Rightarrow> evidences \<Rightarrow> evidence_item \<Rightarrow> evidences result" where
  "add_created_evidence e memory_id evidence item =
     rbind (check_scoped_after_image e (evidence_scope_key item)) (\<lambda>_.
     if ev_memory_id item \<noteq> memory_id
     then Inl (fold_fail e ''evidence_memory_mismatch'' ''evidence belongs to another memory'')
     else if dict_has evidence (ev_evidence_id item)
     then Inl (fold_fail e ''duplicate_evidence'' ''evidence ID already exists'')
     else if ev_created_at item \<noteq> e_created_at e
     then Inl (fold_fail e ''timestamp_mismatch'' ''evidence creation time must equal event time'')
     else Inr (dict_set (ev_evidence_id item) item evidence))"

definition create_memory ::
    "'z library_scheme \<Rightarrow> event \<Rightarrow> memory \<Rightarrow> evidence_item list \<Rightarrow> memories \<Rightarrow> evidences \<Rightarrow>
     (memories \<times> evidences) result" where
  "create_memory L e m items memories evidence =
     rbind (check_target L e m) (\<lambda>_.
     if e_expected_revision e \<noteq> None
     then Inl (fold_fail e ''unexpected_revision'' ''create events cannot expect a revision'')
     else if dict_has memories (m_memory_id m)
     then Inl (fold_fail e ''duplicate_memory'' ''memory ID already exists'')
     else if m_revision m \<noteq> 1
     then Inl (fold_fail e ''invalid_revision'' ''new memory revision must be one'')
     else if m_created_at m \<noteq> e_created_at e \<or> m_updated_at m \<noteq> e_created_at e
     then Inl (fold_fail e ''timestamp_mismatch'' ''new memory timestamps must equal event time'')
     else if e_operation e = OP_OBSERVED \<and> m_status m \<noteq> CANDIDATE
     then Inl (fold_fail e ''invalid_lifecycle'' ''observed memories must be candidates'')
     else if e_operation e = OP_REMEMBERED \<and> m_status m \<notin> {CANDIDATE, ACTIVE}
     then Inl (fold_fail e ''invalid_lifecycle'' ''remembered memory has invalid initial status'')
     else rbind (replay (add_created_evidence e (m_memory_id m)) evidence items) (\<lambda>evidence'.
            Inr (dict_set (m_memory_id m) m memories, evidence')))"

definition attach_evidence ::
    "event \<Rightarrow> memories \<Rightarrow> evidences \<Rightarrow> evidence_item \<Rightarrow> evidences result" where
  "attach_evidence e memories evidence item =
     rbind (check_scoped_after_image e (evidence_scope_key item)) (\<lambda>_.
     if Some (ev_memory_id item) \<noteq> e_memory_id e
     then Inl (fold_fail e ''evidence_memory_mismatch'' ''evidence belongs to another memory'')
     else case dict_get memories (ev_memory_id item) of
       None \<Rightarrow> Inl (fold_fail e ''missing_memory'' ''evidence target does not exist'')
     | Some target \<Rightarrow>
         if m_status target \<notin> {CANDIDATE, ACTIVE, DISPUTED}
         then Inl (fold_fail e ''invalid_lifecycle'' ''terminal memory cannot accept evidence'')
         else if ev_status item \<noteq> ''active''
         then Inl (fold_fail e ''invalid_evidence_state'' ''attached evidence must be active'')
         else if ev_created_at item \<noteq> e_created_at e
         then Inl (fold_fail e ''timestamp_mismatch'' ''evidence creation time must equal event time'')
         else if dict_has evidence (ev_evidence_id item)
         then Inl (fold_fail e ''duplicate_evidence'' ''evidence ID already exists'')
         else Inr (dict_set (ev_evidence_id item) item evidence))"

definition attach_candidate_lifecycle_evidence ::
    "event \<Rightarrow> evidence_item list \<Rightarrow> memories \<Rightarrow> evidences \<Rightarrow> evidences result" where
  "attach_candidate_lifecycle_evidence e items memories evidence =
     (if e_operation e = OP_CANDIDATE_EXPIRED \<and> items \<noteq> []
      then Inl (fold_fail e ''invalid_lifecycle'' ''candidate expiry cannot attach evidence'')
      else replay (attach_evidence e memories) evidence items)"

definition redact_evidence ::
    "event \<Rightarrow> uuid \<Rightarrow> uuid \<Rightarrow> utc \<Rightarrow> evidences \<Rightarrow> evidences result" where
  "redact_evidence e evidence_id memory_id redacted_at evidence =
     (case dict_get evidence evidence_id of
        None \<Rightarrow> Inl (fold_fail e ''missing_evidence'' ''redacted evidence does not exist'')
      | Some current \<Rightarrow>
          if e_memory_id e \<noteq> Some memory_id \<or> ev_memory_id current \<noteq> memory_id
          then Inl (fold_fail e ''evidence_memory_mismatch'' ''evidence belongs to another memory'')
          else if redacted_at \<noteq> e_created_at e
          then Inl (fold_fail e ''timestamp_mismatch'' ''redaction time must equal event time'')
          else Inr (dict_del evidence_id evidence))"

subsection \<open>Links\<close>

definition add_link :: "event \<Rightarrow> link \<Rightarrow> memories \<Rightarrow> links \<Rightarrow> links result" where
  "add_link e item memories links =
     rbind (check_scoped_after_image e (link_scope_key item)) (\<lambda>_.
     if dict_has links (ln_link_id item)
     then Inl (fold_fail e ''duplicate_link'' ''link ID already exists'')
     else if ln_status item \<noteq> LINK_ACTIVE
     then Inl (fold_fail e ''invalid_link_state'' ''new link must be active'')
     else if ln_created_at item \<noteq> e_created_at e
     then Inl (fold_fail e ''timestamp_mismatch'' ''link creation time must equal event time'')
     else if \<not> dict_has memories (ln_source_memory_id item)
             \<or> \<not> dict_has memories (ln_target_memory_id item)
     then Inl (fold_fail e ''missing_link_endpoint'' ''link endpoint does not exist'')
     else Inr (dict_set (ln_link_id item) item links))"

definition unlink :: "event \<Rightarrow> link \<Rightarrow> links \<Rightarrow> links result" where
  "unlink e item links =
     rbind (check_scoped_after_image e (link_scope_key item)) (\<lambda>_.
     case dict_get links (ln_link_id item) of
       None \<Rightarrow> Inl (fold_fail e ''missing_link'' ''unlinked relationship does not exist'')
     | Some current \<Rightarrow>
         if ln_status current \<noteq> LINK_ACTIVE \<or> ln_status item \<noteq> LINK_UNLINKED
         then Inl (fold_fail e ''invalid_link_state'' ''link must transition active to unlinked'')
         else if ln_unlinked_at item \<noteq> Some (e_created_at e)
         then Inl (fold_fail e ''timestamp_mismatch'' ''unlink time must equal event time'')
         else rbind (check_unchanged e ''link''
                [(''link_id'', ln_link_id item \<noteq> ln_link_id current),
                 (''tenant_id'', ln_tenant_id item \<noteq> ln_tenant_id current),
                 (''lineage_id'', ln_lineage_id item \<noteq> ln_lineage_id current),
                 (''branch_id'', ln_branch_id item \<noteq> ln_branch_id current),
                 (''source_memory_id'', ln_source_memory_id item \<noteq> ln_source_memory_id current),
                 (''target_memory_id'', ln_target_memory_id item \<noteq> ln_target_memory_id current),
                 (''link_type'', ln_link_type item \<noteq> ln_link_type current),
                 (''created_at'', ln_created_at item \<noteq> ln_created_at current)]) (\<lambda>_.
              Inr (dict_set (ln_link_id item) item links)))"

subsection \<open>Conflicts\<close>

definition check_affected_lifecycle :: "event \<Rightarrow> bool \<Rightarrow> memory \<Rightarrow> memory \<Rightarrow> unit result" where
  "check_affected_lifecycle e opening current after =
     (if opening
      then (if m_status current \<notin> {CANDIDATE, ACTIVE}
            then Inl (fold_fail e ''invalid_lifecycle'' ''only current claims can enter conflict'')
            else if m_status after \<noteq> DISPUTED
            then Inl (fold_fail e ''invalid_lifecycle'' ''opened conflict members must be disputed'')
            else Inr ())
      else (if m_status current \<noteq> DISPUTED
            then Inl (fold_fail e ''invalid_lifecycle'' ''resolved conflict members must be disputed'')
            else if m_status after \<notin> {ACTIVE, SUPERSEDED, RETIRED}
            then Inl (fold_fail e ''invalid_lifecycle'' ''invalid resolved member status'')
            else Inr ()))"

fun apply_affected_memories ::
    "event \<Rightarrow> bool \<Rightarrow> uuid list \<Rightarrow> memories \<Rightarrow> utc affected_memory list \<Rightarrow> (uuid list \<times> memories) result" where
  "apply_affected_memories e opening ids memories [] = Inr (ids, memories)"
| "apply_affected_memories e opening ids memories (change # affected) =
     (let after = am_memory change in
      if m_memory_id after \<in> set ids
      then Inl (fold_fail e ''duplicate_conflict_member'' ''memory appears twice in transition'')
      else rbind (check_scoped_after_image e (memory_scope_key after)) (\<lambda>_.
        case dict_get memories (m_memory_id after) of
          None \<Rightarrow> Inl (fold_fail e ''missing_memory'' ''conflict member does not exist'')
        | Some current \<Rightarrow>
            rbind (check_revision False e current (am_previous_revision change) after) (\<lambda>_.
            rbind (check_affected_lifecycle e opening current after) (\<lambda>_.
              apply_affected_memories e opening (m_memory_id after # ids)
                (dict_set (m_memory_id after) after memories) affected))))"

definition add_conflict_member :: "event \<Rightarrow> conflict_members \<Rightarrow> conflict_member \<Rightarrow> conflict_members result" where
  "add_conflict_member e conflict_members x =
     (let key = (cm_conflict_id x, cm_memory_id x)
      in if dict_has conflict_members key
         then Inl (fold_fail e ''duplicate_conflict_member'' ''conflict membership already exists'')
         else Inr (dict_set key x conflict_members))"

definition open_conflict ::
    "event \<Rightarrow> conflict \<Rightarrow> conflict_member list \<Rightarrow> utc affected_memory list \<Rightarrow> memories \<Rightarrow> conflicts \<Rightarrow>
     conflict_members \<Rightarrow> (memories \<times> conflicts \<times> conflict_members) result" where
  "open_conflict e c members affected memories conflicts conflict_members =
     rbind (check_scoped_after_image e (conflict_scope_key c)) (\<lambda>_.
     if dict_has conflicts (cf_conflict_id c)
     then Inl (fold_fail e ''duplicate_conflict'' ''conflict ID already exists'')
     else if cf_status c \<noteq> CONFLICT_OPEN
     then Inl (fold_fail e ''invalid_conflict_state'' ''new conflict must be open'')
     else if cf_opened_at c \<noteq> e_created_at e
     then Inl (fold_fail e ''timestamp_mismatch'' ''conflict open time must equal event time'')
     else rbind (apply_affected_memories e True [] memories affected) (\<lambda>(affected_ids, memories).
       let member_ids = map cm_memory_id members in
       if list_ex (\<lambda>x. cm_joined_at x \<noteq> e_created_at e) members
       then Inl (fold_fail e ''timestamp_mismatch'' ''conflict join time must equal event time'')
       else if set affected_ids \<noteq> set member_ids
       then Inl (fold_fail e ''conflict_member_mismatch'' ''members and transitions differ'')
       else if list_ex (\<lambda>i. \<not> dict_has memories i) member_ids then Inl (KeyError ''memories'')
       else if list_ex (\<lambda>i. m_subject_id (the (dict_get memories i)) \<noteq> cf_subject_id c) member_ids
       then Inl (fold_fail e ''conflict_subject_mismatch'' ''members do not share conflict subject'')
       else rbind (replay (add_conflict_member e) conflict_members members) (\<lambda>conflict_members.
              Inr (memories, dict_set (cf_conflict_id c) c conflicts, conflict_members))))"

definition member_ids_of :: "conflict_members \<Rightarrow> uuid \<Rightarrow> uuid list" where
  "member_ids_of conflict_members conflict_id =
     map snd (filter (\<lambda>(c, m). c = conflict_id) (map fst conflict_members))"

fun check_join_times :: "event \<Rightarrow> conflict_members \<Rightarrow> conflict_member list \<Rightarrow> unit result" where
  "check_join_times e conflict_members [] = Inr ()"
| "check_join_times e conflict_members (x # xs) =
     (case dict_get conflict_members (cm_conflict_id x, cm_memory_id x) of
        None \<Rightarrow> Inl (KeyError ''conflict_members'')
      | Some old_member \<Rightarrow>
          if cm_joined_at x \<noteq> cm_joined_at old_member
          then Inl (fold_fail e ''identity_changed'' ''conflict member join time cannot change'')
          else check_join_times e conflict_members xs)"

definition put_members :: "conflict_member list \<Rightarrow> conflict_members \<Rightarrow> conflict_members" where
  "put_members members d = fold (\<lambda>x. dict_set (cm_conflict_id x, cm_memory_id x) x) members d"

definition resolve_conflict ::
    "event \<Rightarrow> conflict \<Rightarrow> conflict_member list \<Rightarrow> utc affected_memory list \<Rightarrow> memories \<Rightarrow> conflicts \<Rightarrow>
     conflict_members \<Rightarrow> (memories \<times> conflicts \<times> conflict_members) result" where
  "resolve_conflict e c members affected memories conflicts conflict_members =
     rbind (check_scoped_after_image e (conflict_scope_key c)) (\<lambda>_.
     case dict_get conflicts (cf_conflict_id c) of
       None \<Rightarrow> Inl (fold_fail e ''missing_conflict'' ''resolved conflict does not exist'')
     | Some current \<Rightarrow>
       if cf_status current \<noteq> CONFLICT_OPEN \<or> cf_status c \<noteq> CONFLICT_RESOLVED
       then Inl (fold_fail e ''invalid_conflict_state'' ''conflict must transition open to resolved'')
       else if cf_resolved_at c \<noteq> Some (e_created_at e)
       then Inl (fold_fail e ''timestamp_mismatch'' ''conflict resolution time must equal event time'')
       else rbind (check_unchanged e ''conflict''
              [(''conflict_id'', cf_conflict_id c \<noteq> cf_conflict_id current),
               (''tenant_id'', cf_tenant_id c \<noteq> cf_tenant_id current),
               (''lineage_id'', cf_lineage_id c \<noteq> cf_lineage_id current),
               (''branch_id'', cf_branch_id c \<noteq> cf_branch_id current),
               (''subject_id'', cf_subject_id c \<noteq> cf_subject_id current),
               (''reason'', cf_reason c \<noteq> cf_reason current),
               (''opened_at'', cf_opened_at c \<noteq> cf_opened_at current)]) (\<lambda>_.
       if set (member_ids_of conflict_members (cf_conflict_id c)) \<noteq> set (map cm_memory_id members)
       then Inl (fold_fail e ''conflict_member_mismatch'' ''resolution cannot change membership'')
       else rbind (check_join_times e conflict_members members) (\<lambda>_.
       rbind (apply_affected_memories e False [] memories affected) (\<lambda>(affected_ids, memories).
       if set affected_ids \<noteq> set (map cm_memory_id members)
       then Inl (fold_fail e ''conflict_member_mismatch'' ''members and transitions differ'')
       else Inr (memories, dict_set (cf_conflict_id c) c conflicts,
              put_members members
                (filter (\<lambda>(key, x). fst key \<noteq> cf_conflict_id c) conflict_members))))))"

subsection \<open>Branches\<close>

definition check_fork :: "event \<Rightarrow> branch \<Rightarrow> branches \<Rightarrow> (int, scope_key) dict \<Rightarrow> unit result" where
  "check_fork e b branches sequence_scopes =
     (case br_parent_branch_id b of
        None \<Rightarrow> Inr ()
      | Some parent_branch_id \<Rightarrow>
          (case dict_get branches parent_branch_id of
             None \<Rightarrow> Inl (fold_fail e ''missing_parent_branch'' ''parent branch does not exist'')
           | Some parent \<Rightarrow>
               if br_tenant_id parent \<noteq> br_tenant_id b \<or> br_lineage_id parent \<noteq> br_lineage_id b
               then Inl (fold_fail e ''branch_scope_mismatch'' ''parent crosses tenant or lineage'')
               else if dict_get sequence_scopes (case br_fork_event_sequence b of None \<Rightarrow> 0 | Some i \<Rightarrow> i)
                       \<noteq> Some (br_tenant_id b, br_lineage_id b, parent_branch_id)
               then Inl (fold_fail e ''invalid_fork_sequence'' ''fork event is not on the parent branch'')
               else Inr ()))"

definition create_branch ::
    "event \<Rightarrow> branch \<Rightarrow> branches \<Rightarrow> (int, scope_key) dict \<Rightarrow> branches result" where
  "create_branch e b branches sequence_scopes =
     rbind (check_scoped_after_image e (branch_scope_key b)) (\<lambda>_.
     if br_branch_id b \<noteq> e_branch_id e
     then Inl (fold_fail e ''branch_mismatch'' ''envelope and payload branch IDs differ'')
     else if dict_has branches (br_branch_id b)
     then Inl (fold_fail e ''duplicate_branch'' ''branch ID already exists'')
     else if br_created_at b \<noteq> e_created_at e
     then Inl (fold_fail e ''timestamp_mismatch'' ''branch creation time must equal event time'')
     else rbind (check_fork e b branches sequence_scopes) (\<lambda>_.
            Inr (dict_set (br_branch_id b) b branches)))"

subsection \<open>Operations\<close>

definition fold_candidate ::
    "'z library_scheme \<Rightarrow> event \<Rightarrow> memory_status \<Rightarrow> int \<Rightarrow> memory \<Rightarrow> evidence_item list \<Rightarrow> projection_state \<Rightarrow>
     projection_state result" where
  "fold_candidate L e required_status previous_revision m items s =
     rbind (replace_memory L e None False (p_memories s) previous_revision m) (\<lambda>memories.
     case dict_get (p_memories s) (m_memory_id m) of
       None \<Rightarrow> Inl AssertionError
     | Some current \<Rightarrow>
         rbind (check_candidate_lifecycle e current m required_status) (\<lambda>_.
         rbind (attach_candidate_lifecycle_evidence e items memories (p_evidence s)) (\<lambda>evidence.
           Inr (s\<lparr> p_memories := memories, p_evidence := evidence \<rparr>))))"

definition fold_revised ::
    "'z library_scheme \<Rightarrow> event \<Rightarrow> int \<Rightarrow> memory \<Rightarrow> projection_state \<Rightarrow> projection_state result" where
  "fold_revised L e previous_revision m s =
     rbind (replace_memory L e None False (p_memories s) previous_revision m) (\<lambda>memories.
     case dict_get (p_memories s) (m_memory_id m) of
       None \<Rightarrow> Inl AssertionError
     | Some current \<Rightarrow>
         rbind (check_revised_lifecycle e current m) (\<lambda>_. Inr (s\<lparr> p_memories := memories \<rparr>)))"

definition fold_visibility_changed ::
    "'z library_scheme \<Rightarrow> event \<Rightarrow> int \<Rightarrow> memory \<Rightarrow> projection_state \<Rightarrow> projection_state result" where
  "fold_visibility_changed L e previous_revision m s =
     rbind (replace_memory L e None True (p_memories s) previous_revision m) (\<lambda>memories.
     case dict_get (p_memories s) (m_memory_id m) of
       None \<Rightarrow> Inl AssertionError
     | Some current \<Rightarrow>
         if m_status current = TOMBSTONED
         then Inl (fold_fail e ''invalid_lifecycle'' ''tombstone is terminal'')
         else if m_visibility m = m_visibility current
         then Inl (fold_fail e ''unchanged_visibility'' ''visibility did not change'')
         else Inr (s\<lparr> p_memories := memories \<rparr>))"

definition check_not_terminal :: "event \<Rightarrow> string \<Rightarrow> memory option \<Rightarrow> unit result" where
  "check_not_terminal e detail current =
     (case current of
        None \<Rightarrow> Inr ()
      | Some m \<Rightarrow>
          if m_status m \<notin> {CANDIDATE, ACTIVE, DISPUTED}
          then Inl (fold_fail e ''invalid_lifecycle'' detail) else Inr ())"

definition fold_retired ::
    "'z library_scheme \<Rightarrow> event \<Rightarrow> int \<Rightarrow> memory \<Rightarrow> projection_state \<Rightarrow> projection_state result" where
  "fold_retired L e previous_revision m s =
     rbind (check_not_terminal e ''terminal memory cannot be retired''
              (dict_get (p_memories s) (m_memory_id m))) (\<lambda>_.
     rbind (replace_memory L e (Some RETIRED) False (p_memories s) previous_revision m) (\<lambda>memories.
       Inr (s\<lparr> p_memories := memories \<rparr>)))"

definition fold_superseded ::
    "'z library_scheme \<Rightarrow> event \<Rightarrow> int \<Rightarrow> memory \<Rightarrow> link \<Rightarrow> projection_state \<Rightarrow> projection_state result" where
  "fold_superseded L e previous_revision m l s =
     rbind (check_not_terminal e ''terminal memory cannot be superseded''
              (dict_get (p_memories s) (m_memory_id m))) (\<lambda>_.
     rbind (replace_memory L e (Some SUPERSEDED) False (p_memories s) previous_revision m) (\<lambda>memories.
     rbind (add_link e l memories (p_links s)) (\<lambda>links.
       Inr (s\<lparr> p_memories := memories, p_links := links \<rparr>))))"

definition fold_tombstoned ::
    "'z library_scheme \<Rightarrow> event \<Rightarrow> int \<Rightarrow> memory \<Rightarrow> forget_mode \<Rightarrow> projection_state \<Rightarrow> projection_state result" where
  "fold_tombstoned L e previous_revision m forget_mode s =
     (let current = dict_get (p_memories s) (m_memory_id m) in
      if (case current of None \<Rightarrow> False | Some c \<Rightarrow> m_status c = TOMBSTONED)
      then Inl (fold_fail e ''invalid_lifecycle'' ''tombstone is terminal'')
      else if forget_mode = HARD \<and>
        (case current of None \<Rightarrow> True
         | Some c \<Rightarrow> m_content_protection c \<noteq> ENVELOPE_ENCRYPTED
             \<or> m_content_protection m \<noteq> ENVELOPE_ENCRYPTED
             \<or> m_content_key_id m \<noteq> m_content_key_id c)
      then Inl (fold_fail e ''hard_forget_unprotected''
                  ''hard forget requires stable envelope-encryption metadata'')
      else rbind (replace_memory L e (Some TOMBSTONED) False (p_memories s) previous_revision m) (\<lambda>memories.
        case find (\<lambda>(evidence_id, item). ev_memory_id item = m_memory_id m) (p_evidence s) of
          Some (evidence_id, item) \<Rightarrow>
            Inl (fold_fail e ''unsanitized_tombstone'' (''active evidence remains for '' @ uuid_str evidence_id))
        | None \<Rightarrow> Inr (s\<lparr> p_memories := memories \<rparr>)))"

definition fold_purge_completed ::
    "'z library_scheme \<Rightarrow> event \<Rightarrow> int \<Rightarrow> memory \<Rightarrow> uuid \<Rightarrow> utc \<Rightarrow> projection_state \<Rightarrow> projection_state result" where
  "fold_purge_completed L e previous_revision m content_key_id key_destroyed_at s =
     (case dict_get (p_memories s) (m_memory_id m) of
        None \<Rightarrow> Inl (fold_fail e ''invalid_lifecycle'' ''purge completion requires a tombstone'')
      | Some current \<Rightarrow>
          if m_status current \<noteq> TOMBSTONED
          then Inl (fold_fail e ''invalid_lifecycle'' ''purge completion requires a tombstone'')
          else if m_content_protection current \<noteq> ENVELOPE_ENCRYPTED
          then Inl (fold_fail e ''invalid_purge'' ''purge requires protected content'')
          else if m_content_protection m \<noteq> CRYPTOGRAPHICALLY_ERASED
          then Inl (fold_fail e ''invalid_purge'' ''purge must record cryptographic erasure'')
          else if m_content_key_id m \<noteq> Some content_key_id
          then Inl (fold_fail e ''invalid_purge'' ''purge content-key identity differs'')
          else if key_destroyed_at \<noteq> e_created_at e
          then Inl (fold_fail e ''timestamp_mismatch'' ''key destruction time must equal event time'')
          else rbind (replace_memory L e (Some TOMBSTONED) False (p_memories s) previous_revision m) (\<lambda>memories.
                 Inr (s\<lparr> p_memories := memories \<rparr>)))"

text \<open>\<^verbatim>\<open>isinstance (payload, MemoryTransitionPayload)\<close>, subclasses included.\<close>

fun as_transition :: "utc operation_payload \<Rightarrow> (int \<times> memory) option" where
  "as_transition (MemoryTransitionPayload r m) = Some (r, m)"
| "as_transition (CandidateLifecyclePayload r m d c evs) = Some (r, m)"
| "as_transition (SupersededPayload r m l) = Some (r, m)"
| "as_transition (TombstonedPayload r m f) = Some (r, m)"
| "as_transition (PayloadPurgeCompletedPayload r m k t h) = Some (r, m)"
| "as_transition _ = None"

definition fold_operation ::
    "'z library_scheme \<Rightarrow> event \<Rightarrow> utc operation_payload \<Rightarrow> projection_state \<Rightarrow> projection_state result" where
  "fold_operation L e payload s =
     (let transition = (\<lambda>f. case as_transition payload of
             Some (r, m) \<Rightarrow> f r m | None \<Rightarrow> Inl AssertionError);
          created = (case payload of
             MemoryCreatedPayload m evs \<Rightarrow>
               rbind (create_memory L e m evs (p_memories s) (p_evidence s)) (\<lambda>(memories, evidence).
                 Inr (s\<lparr> p_memories := memories, p_evidence := evidence \<rparr>))
           | _ \<Rightarrow> Inl AssertionError)
      in case e_operation e of
        OP_OBSERVED \<Rightarrow> created
      | OP_REMEMBERED \<Rightarrow> created
      | OP_CANDIDATE_PROMOTED \<Rightarrow>
          (case payload of CandidateLifecyclePayload r m d c evs \<Rightarrow> fold_candidate L e ACTIVE r m evs s
           | _ \<Rightarrow> Inl AssertionError)
      | OP_CANDIDATE_EXPIRED \<Rightarrow>
          (case payload of CandidateLifecyclePayload r m d c evs \<Rightarrow> fold_candidate L e RETIRED r m evs s
           | _ \<Rightarrow> Inl AssertionError)
      | OP_REVISED \<Rightarrow> transition (\<lambda>r m. fold_revised L e r m s)
      | OP_VISIBILITY_CHANGED \<Rightarrow> transition (\<lambda>r m. fold_visibility_changed L e r m s)
      | OP_RETIRED \<Rightarrow> transition (\<lambda>r m. fold_retired L e r m s)
      | OP_SUPERSEDED \<Rightarrow>
          (case payload of SupersededPayload r m l \<Rightarrow> fold_superseded L e r m l s
           | _ \<Rightarrow> Inl AssertionError)
      | OP_TOMBSTONED \<Rightarrow>
          (case payload of TombstonedPayload r m f \<Rightarrow> fold_tombstoned L e r m f s
           | _ \<Rightarrow> Inl AssertionError)
      | OP_EVIDENCE_ATTACHED \<Rightarrow>
          (case payload of EvidenceAttachedPayload item \<Rightarrow>
             rbind (attach_evidence e (p_memories s) (p_evidence s) item) (\<lambda>evidence.
               Inr (s\<lparr> p_evidence := evidence \<rparr>))
           | _ \<Rightarrow> Inl AssertionError)
      | OP_EVIDENCE_REDACTED \<Rightarrow>
          (case payload of EvidenceRedactedPayload evidence_id memory_id redacted_at code \<Rightarrow>
             rbind (redact_evidence e evidence_id memory_id redacted_at (p_evidence s)) (\<lambda>evidence.
               Inr (s\<lparr> p_evidence := evidence \<rparr>))
           | _ \<Rightarrow> Inl AssertionError)
      | OP_LINKED \<Rightarrow>
          (case payload of LinkedPayload l \<Rightarrow>
             rbind (add_link e l (p_memories s) (p_links s)) (\<lambda>links. Inr (s\<lparr> p_links := links \<rparr>))
           | _ \<Rightarrow> Inl AssertionError)
      | OP_UNLINKED \<Rightarrow>
          (case payload of UnlinkedPayload l \<Rightarrow>
             rbind (unlink e l (p_links s)) (\<lambda>links. Inr (s\<lparr> p_links := links \<rparr>))
           | _ \<Rightarrow> Inl AssertionError)
      | OP_CONFLICT_OPENED \<Rightarrow>
          (case payload of ConflictOpenedPayload c ms as \<Rightarrow>
             rbind (open_conflict e c ms as (p_memories s) (p_conflicts s) (p_conflict_members s))
               (\<lambda>(memories, conflicts, conflict_members).
                 Inr (s\<lparr> p_memories := memories, p_conflicts := conflicts,
                        p_conflict_members := conflict_members \<rparr>))
           | _ \<Rightarrow> Inl AssertionError)
      | OP_CONFLICT_RESOLVED \<Rightarrow>
          (case payload of ConflictResolvedPayload c ms as \<Rightarrow>
             rbind (resolve_conflict e c ms as (p_memories s) (p_conflicts s) (p_conflict_members s))
               (\<lambda>(memories, conflicts, conflict_members).
                 Inr (s\<lparr> p_memories := memories, p_conflicts := conflicts,
                        p_conflict_members := conflict_members \<rparr>))
           | _ \<Rightarrow> Inl AssertionError)
      | OP_BRANCH_CREATED \<Rightarrow>
          (case payload of BranchCreatedPayload b \<Rightarrow>
             rbind (create_branch e b (p_branches s) (p_sequence_scopes s)) (\<lambda>branches.
               Inr (s\<lparr> p_branches := branches \<rparr>))
           | _ \<Rightarrow> Inl AssertionError)
      | OP_PAYLOAD_PURGE_COMPLETED \<Rightarrow>
          (case payload of PayloadPurgeCompletedPayload r m k t h \<Rightarrow> fold_purge_completed L e r m k t s
           | _ \<Rightarrow> Inl AssertionError))"

subsection \<open>The fold\<close>

definition check_sequence :: "bool \<Rightarrow> projection_state \<Rightarrow> event \<Rightarrow> unit result" where
  "check_sequence require_contiguous_sequence s e =
     (if require_contiguous_sequence \<and> e_sequence e \<noteq> p_sequence s + 1
      then Inl (fold_fail e ''sequence_gap'' (''expected sequence '' @ int_str (p_sequence s + 1)))
      else if \<not> require_contiguous_sequence \<and> e_sequence e \<le> p_sequence s
      then Inl (fold_fail e ''sequence_not_increasing'' ''tenant replay sequence must increase'')
      else Inr ())"

definition check_envelope :: "event \<Rightarrow> unit result" where
  "check_envelope e =
     (case validate_event_envelope_shape e of
        Inl (EventContractError message) \<Rightarrow> Inl (fold_fail e ''invalid_envelope'' message)
      | r \<Rightarrow> r)"

definition check_event_branch :: "projection_state \<Rightarrow> event \<Rightarrow> unit result" where
  "check_event_branch s e =
     (if e_operation e = OP_BRANCH_CREATED then Inr ()
      else case dict_get (p_branches s) (e_branch_id e) of
        None \<Rightarrow> Inl (fold_fail e ''missing_branch'' ''event branch does not exist'')
      | Some b \<Rightarrow>
          if (br_tenant_id b, br_lineage_id b) \<noteq> (e_tenant_id e, e_lineage_id e)
          then Inl (fold_fail e ''branch_scope_mismatch'' ''event branch crosses tenant or lineage'')
          else Inr ())"

definition check_causation :: "projection_state \<Rightarrow> event \<Rightarrow> unit result" where
  "check_causation s e =
     (case e_causation_event_id e of
        None \<Rightarrow> Inr ()
      | Some cause \<Rightarrow>
          (case dict_get (p_event_scopes s) cause of
             None \<Rightarrow> Inl (fold_fail e ''missing_causation'' ''causation event is not earlier in the stream'')
           | Some (tenant_id, lineage_id, branch_id) \<Rightarrow>
               if (tenant_id, lineage_id) \<noteq> (e_tenant_id e, e_lineage_id e)
               then Inl (fold_fail e ''causation_scope_mismatch'' ''causation crosses tenant or lineage'')
               else Inr ()))"

definition check_payload_visibility ::
    "projection_state \<Rightarrow> event \<Rightarrow> utc operation_payload \<Rightarrow> unit result" where
  "check_payload_visibility s e payload =
     (if e_operation e = OP_BRANCH_CREATED then Inr ()
      else case dict_get (p_branches s) (e_branch_id e) of
        None \<Rightarrow> Inl (KeyError ''branches'')
      | Some b \<Rightarrow> validate_branch_visibility e b payload)"

definition mk_projection :: "projection_state \<Rightarrow> projection_state result" where
  "mk_projection s =
     (if p_sequence s < 0 then Inl (ValueError ''projection sequence cannot be negative'') else Inr s)"

definition fold_event_with ::
    "'z library_scheme \<Rightarrow> bool \<Rightarrow> projection_state \<Rightarrow> event \<Rightarrow> projection_state result" where
  "fold_event_with L require_contiguous_sequence s e =
     rbind (check_sequence require_contiguous_sequence s e) (\<lambda>_.
     rbind (check_envelope e) (\<lambda>_.
     rbind (verify_hashes L e) (\<lambda>_.
     if dict_has (p_event_scopes s) (e_event_id e)
     then Inl (fold_fail e ''duplicate_event'' ''event ID already exists'')
     else rbind (check_event_branch s e) (\<lambda>_.
     rbind (check_causation s e) (\<lambda>_.
     rbind (typed_payload L e) (\<lambda>payload.
     rbind (check_payload_visibility s e payload) (\<lambda>_.
     rbind (fold_operation L e payload s) (\<lambda>s'.
       mk_projection (s'\<lparr> p_sequence := e_sequence e,
         p_event_scopes := dict_set (e_event_id e) (event_scope e) (p_event_scopes s),
         p_sequence_scopes := dict_set (e_sequence e) (event_scope e) (p_sequence_scopes s) \<rparr>)))))))))"

definition fold_event :: "'z library_scheme \<Rightarrow> projection_state \<Rightarrow> event \<Rightarrow> projection_state result" where
  "fold_event L s e = fold_event_with L True s e"

definition rebuild :: "'z library_scheme \<Rightarrow> event list \<Rightarrow> projection_state result" where
  "rebuild L events = replay (fold_event L) empty_projection events"

record tenant_replay_state =
  tr_tenant_id :: uuid
  tr_projection :: projection_state

definition has_foreign_row :: "uuid \<Rightarrow> projection_state \<Rightarrow> bool" where
  "has_foreign_row t s \<longleftrightarrow>
     list_ex (\<lambda>(k, x). m_tenant_id x \<noteq> t) (p_memories s)
     \<or> list_ex (\<lambda>(k, x). ev_tenant_id x \<noteq> t) (p_evidence s)
     \<or> list_ex (\<lambda>(k, x). ln_tenant_id x \<noteq> t) (p_links s)
     \<or> list_ex (\<lambda>(k, x). cf_tenant_id x \<noteq> t) (p_conflicts s)
     \<or> list_ex (\<lambda>(k, x). br_tenant_id x \<noteq> t) (p_branches s)"

definition mk_tenant_replay_state :: "uuid \<Rightarrow> projection_state \<Rightarrow> tenant_replay_state result" where
  "mk_tenant_replay_state t s =
     rbind (require_uuid7 t ''tenant_id'') (\<lambda>_.
     if has_foreign_row t s
     then Inl (ValueError ''tenant replay projection contains another tenant'')
     else if list_ex (\<lambda>(k, sc). fst sc \<noteq> t) (p_event_scopes s)
     then Inl (ValueError ''tenant replay event history contains another tenant'')
     else if list_ex (\<lambda>(k, sc). fst sc \<noteq> t) (p_sequence_scopes s)
     then Inl (ValueError ''tenant replay sequence history contains another tenant'')
     else Inr \<lparr> tr_tenant_id = t, tr_projection = s \<rparr>)"

definition fold_tenant_event ::
    "'z library_scheme \<Rightarrow> tenant_replay_state \<Rightarrow> event \<Rightarrow> tenant_replay_state result" where
  "fold_tenant_event L s e =
     (if e_tenant_id e \<noteq> tr_tenant_id s
      then Inl (fold_fail e ''tenant_scope_mismatch'' ''event is outside tenant replay scope'')
      else rbind (fold_event_with L False (tr_projection s) e) (\<lambda>projection.
             mk_tenant_replay_state (tr_tenant_id s) projection))"

definition rebuild_tenant :: "'z library_scheme \<Rightarrow> uuid \<Rightarrow> event list \<Rightarrow> tenant_replay_state result" where
  "rebuild_tenant L tenant_id events =
     rbind (mk_tenant_replay_state tenant_id empty_projection) (\<lambda>s. replay (fold_tenant_event L) s events)"

end
