(* ===== verification/Fold_Steps.thy ===== *)
theory Fold_Steps
  imports Folding
begin

text \<open>
  What one successful fold step did: for every helper of the fold the facts that its success
  establishes, and the lifecycle of a memory as an abstract step relation, which the fold of any
  event follows on every memory of the projection.
\<close>

subsection \<open>The memory lifecycle\<close>

inductive status_edge :: "event_operation \<Rightarrow> memory_status \<Rightarrow> memory_status \<Rightarrow> bool" where
  promoted: "status_edge OP_CANDIDATE_PROMOTED CANDIDATE ACTIVE"
| expired: "status_edge OP_CANDIDATE_EXPIRED CANDIDATE RETIRED"
| revised: "t \<in> set (REVISED_TRANSITIONS s) \<Longrightarrow> status_edge OP_REVISED s t"
| visibility: "s \<noteq> TOMBSTONED \<Longrightarrow> status_edge OP_VISIBILITY_CHANGED s s"
| retired: "s \<in> {CANDIDATE, ACTIVE, DISPUTED} \<Longrightarrow> status_edge OP_RETIRED s RETIRED"
| superseded: "s \<in> {CANDIDATE, ACTIVE, DISPUTED} \<Longrightarrow> status_edge OP_SUPERSEDED s SUPERSEDED"
| tombstoned: "s \<noteq> TOMBSTONED \<Longrightarrow> status_edge OP_TOMBSTONED s TOMBSTONED"
| purged: "status_edge OP_PAYLOAD_PURGE_COMPLETED TOMBSTONED TOMBSTONED"
| opened: "s \<in> {CANDIDATE, ACTIVE} \<Longrightarrow> status_edge OP_CONFLICT_OPENED s DISPUTED"
| resolved: "t \<in> {ACTIVE, SUPERSEDED, RETIRED} \<Longrightarrow> status_edge OP_CONFLICT_RESOLVED DISPUTED t"

inductive_cases status_edgeE: "status_edge op s t"

definition revises :: "event \<Rightarrow> memory \<Rightarrow> memory \<Rightarrow> bool" where
  "revises e current after \<longleftrightarrow>
     m_revision after = m_revision current + 1 \<and> m_memory_id after = m_memory_id current \<and>
     memory_scope_key after = memory_scope_key current \<and> memory_scope_key after = event_scope e \<and>
     m_subject_id after = m_subject_id current \<and> m_created_at after = m_created_at current \<and>
     m_updated_at after = e_created_at e \<and> is_v3 after = is_v3 current \<and>
     (is_v3 current \<longrightarrow> e_operation e \<in> {OP_TOMBSTONED, OP_PAYLOAD_PURGE_COMPLETED} \<and>
        m_content_key_id after = m_content_key_id current \<and>
        sealed_content after = sealed_content current)"

definition creates :: "event \<Rightarrow> memory \<Rightarrow> bool" where
  "creates e m \<longleftrightarrow> m_revision m = 1 \<and> memory_scope_key m = event_scope e \<and>
     e_memory_id e = Some (m_memory_id m) \<and> m_created_at m = e_created_at e \<and>
     m_updated_at m = e_created_at e \<and>
     (e_operation e = OP_OBSERVED \<and> m_status m = CANDIDATE \<or>
      e_operation e = OP_REMEMBERED \<and> m_status m \<in> {CANDIDATE, ACTIVE})"

text \<open>How one event may change what the projection holds under one memory identifier.\<close>

inductive memory_change :: "event \<Rightarrow> memory option \<Rightarrow> memory option \<Rightarrow> bool" for e where
  same: "memory_change e x x"
| created: "creates e m \<Longrightarrow> valid_memory m \<Longrightarrow> memory_change e None (Some m)"
| stepped: "revises e m m' \<Longrightarrow> status_edge (e_operation e) (m_status m) (m_status m') \<Longrightarrow>
     valid_memory m' \<Longrightarrow> memory_change e (Some m) (Some m')"

inductive_cases memory_change_SomeE: "memory_change e (Some m) x"
inductive_cases memory_change_NoneE: "memory_change e None x"

subsection \<open>Success of the helpers\<close>

lemma check_scoped_after_image_ok [ok_simps]:
  "check_scoped_after_image e k = Inr u \<longleftrightarrow> k = event_scope e"
  by (simp add: check_scoped_after_image_def)

lemma check_target_ok:
  "check_target L e m = Inr u \<Longrightarrow>
     memory_scope_key m = event_scope e \<and> e_memory_id e = Some (m_memory_id m)"
  by (simp add: check_target_def ok_simps)

lemma check_sealed_identity_ok:
  "check_sealed_identity e current after = Inr u \<Longrightarrow> is_v3 after = is_v3 current \<and>
     (is_v3 current \<longrightarrow> e_operation e \<in> {OP_TOMBSTONED, OP_PAYLOAD_PURGE_COMPLETED} \<and>
        m_content_key_id after = m_content_key_id current \<and>
        sealed_content after = sealed_content current)"
  by (auto simp: check_sealed_identity_def split: if_splits)

lemma check_revision_ok:
  "check_revision ce e current r after = Inr u \<Longrightarrow> memory_scope_key after = event_scope e \<Longrightarrow>
     revises e current after \<and> r = m_revision current \<and> (ce \<longrightarrow> e_expected_revision e = Some r)"
  by (auto simp: check_revision_def ok_simps revises_def memory_scope_key_def
      dest: check_sealed_identity_ok)

lemma replace_memory_ok:
  assumes "replace_memory L e req pres memories r after = Inr memories'"
  obtains current where "dict_get memories (m_memory_id after) = Some current"
    "memories' = dict_set (m_memory_id after) after memories" "revises e current after"
    "r = m_revision current" "e_expected_revision e = Some r" "e_memory_id e = Some (m_memory_id after)"
    "\<And>st. req = Some st \<Longrightarrow> m_status after = st" "pres \<Longrightarrow> m_status after = m_status current"
proof -
  from assms obtain current where c: "check_target L e after = Inr ()"
      "dict_get memories (m_memory_id after) = Some current"
      "check_revision True e current r after = Inr ()"
      "memories' = dict_set (m_memory_id after) after memories"
      "\<not> (case req of None \<Rightarrow> False | Some s \<Rightarrow> m_status after \<noteq> s)"
      "\<not> (pres \<and> m_status after \<noteq> m_status current)"
    by (auto simp: replace_memory_def ok_simps)
  from check_target_ok[OF c(1)] check_revision_ok[OF c(3)] c show ?thesis
    by (intro that[of current]) auto
qed

lemma create_memory_ok:
  assumes "create_memory L e m items memories evidence = Inr (memories', evidence')"
    and "e_operation e \<in> {OP_OBSERVED, OP_REMEMBERED}"
  shows "creates e m \<and> dict_get memories (m_memory_id m) = None \<and>
    memories' = dict_set (m_memory_id m) m memories \<and>
    replay (add_created_evidence e (m_memory_id m)) evidence items = Inr evidence'"
  using assms check_target_ok[of L e m]
  by (auto simp: create_memory_def ok_simps creates_def)

lemma memory_change_put:
  "memory_change e (dict_get memories k) (Some m) \<Longrightarrow>
   memory_change e (dict_get memories i) (dict_get (dict_set k m memories) i)"
  by (cases "i = k") (auto simp: dict_simps intro: memory_change.same)

subsection \<open>Every operation follows the lifecycle\<close>

lemma replace_memory_change:
  assumes "replace_memory L e req pres memories r after = Inr memories'" "valid_memory after"
    and "\<And>current. dict_get memories (m_memory_id after) = Some current \<Longrightarrow>
      (\<And>st. req = Some st \<Longrightarrow> m_status after = st) \<Longrightarrow> (pres \<Longrightarrow> m_status after = m_status current) \<Longrightarrow>
      status_edge (e_operation e) (m_status current) (m_status after)"
  shows "memory_change e (dict_get memories i) (dict_get memories' i)"
  using assms(1)
proof (rule replace_memory_ok)
  fix current
  assume *: "dict_get memories (m_memory_id after) = Some current"
    "memories' = dict_set (m_memory_id after) after memories" "revises e current after"
    "\<And>st. req = Some st \<Longrightarrow> m_status after = st" "pres \<Longrightarrow> m_status after = m_status current"
  then have "memory_change e (dict_get memories (m_memory_id after)) (Some after)"
    using assms(2,3) by (auto intro: memory_change.stepped)
  with * show ?thesis by (simp add: memory_change_put)
qed

lemma affected_lifecycle_edge:
  "check_affected_lifecycle e opening current after = Inr u \<Longrightarrow>
     e_operation e = (if opening then OP_CONFLICT_OPENED else OP_CONFLICT_RESOLVED) \<Longrightarrow>
     status_edge (e_operation e) (m_status current) (m_status after)"
  by (auto simp: check_affected_lifecycle_def ok_simps intro: status_edge.opened status_edge.resolved
      split: if_splits)

lemma apply_affected_ok:
  assumes "apply_affected_memories e opening ids memories chs = Inr (ids', memories')"
    and "\<forall>a \<in> set chs. valid_memory (am_memory a)"
    and "e_operation e = (if opening then OP_CONFLICT_OPENED else OP_CONFLICT_RESOLVED)"
  shows "set ids' = set ids \<union> m_memory_id ` am_memory ` set chs \<and>
    (\<forall>i. (i \<in> set ids \<longrightarrow> dict_get memories' i = dict_get memories i) \<and>
      memory_change e (dict_get memories i) (dict_get memories' i) \<and>
      (i \<in> set ids' \<and> i \<notin> set ids \<longrightarrow> (\<exists>m. dict_get memories' i = Some m \<and> m_memory_id m = i \<and> m \<in> am_memory ` set chs)) \<and>
      (i \<notin> set ids' \<longrightarrow> dict_get memories' i = dict_get memories i))"
  using assms
proof (induction chs arbitrary: ids memories)
  case Nil
  then show ?case by (auto intro: memory_change.same)
next
  case (Cons change affected)
  let ?after = "am_memory change"
  let ?i = "m_memory_id ?after"
  from Cons.prems(1) obtain current where c: "?i \<notin> set ids" "memory_scope_key ?after = event_scope e"
      "dict_get memories ?i = Some current"
      "check_revision False e current (am_previous_revision change) ?after = Inr ()"
      "check_affected_lifecycle e opening current ?after = Inr ()"
      "apply_affected_memories e opening (?i # ids) (dict_set ?i ?after memories) affected = Inr (ids', memories')"
    by (auto simp: ok_simps Let_def)
  have IH: "set ids' = insert ?i (set ids) \<union> m_memory_id ` am_memory ` set affected \<and>
    (\<forall>i. (i \<in> insert ?i (set ids) \<longrightarrow> dict_get memories' i = dict_get (dict_set ?i ?after memories) i) \<and>
      memory_change e (dict_get (dict_set ?i ?after memories) i) (dict_get memories' i) \<and>
      (i \<in> set ids' \<and> i \<notin> insert ?i (set ids) \<longrightarrow>
         (\<exists>m. dict_get memories' i = Some m \<and> m_memory_id m = i \<and> m \<in> am_memory ` set affected)) \<and>
      (i \<notin> set ids' \<longrightarrow> dict_get memories' i = dict_get (dict_set ?i ?after memories) i))"
    using Cons.IH[OF c(6)] Cons.prems(2,3) unfolding list.simps(15) by blast
  have step: "memory_change e (Some current) (Some ?after)"
    using check_revision_ok[OF c(4,2)] affected_lifecycle_edge[OF c(5)] Cons.prems(2,3)
    by (auto intro: memory_change.stepped)
  from IH c(1,3) step show ?case
    by (auto simp: dict_simps split: if_splits) blast
qed

lemma open_conflict_ok:
  assumes "open_conflict e c ms chs memories conflicts members = Inr (memories', conflicts', members')"
  obtains ids where "conflict_scope_key c = event_scope e" "dict_get conflicts (cf_conflict_id c) = None"
    "cf_status c = CONFLICT_OPEN" "cf_opened_at c = e_created_at e"
    "apply_affected_memories e True [] memories chs = Inr (ids, memories')"
    "set ids = set (map cm_memory_id ms)" "\<forall>x \<in> set ms. cm_joined_at x = e_created_at e"
    "\<forall>x \<in> set ms. \<exists>m. dict_get memories' (cm_memory_id x) = Some m \<and> m_subject_id m = cf_subject_id c"
    "conflicts' = dict_set (cf_conflict_id c) c conflicts"
    "replay (add_conflict_member e) members ms = Inr members'"
  using assms
  by (auto simp: open_conflict_def ok_simps Let_def list_ex_iff split: prod.splits intro!: that)
    (metis option.sel)

lemma resolve_conflict_ok:
  assumes "resolve_conflict e c ms chs memories conflicts members = Inr (memories', conflicts', members')"
  obtains ids current where "conflict_scope_key c = event_scope e"
    "dict_get conflicts (cf_conflict_id c) = Some current" "cf_status current = CONFLICT_OPEN"
    "cf_status c = CONFLICT_RESOLVED" "cf_resolved_at c = Some (e_created_at e)"
    "cf_subject_id c = cf_subject_id current" "cf_opened_at c = cf_opened_at current"
    "cf_reason c = cf_reason current" "conflict_scope_key c = conflict_scope_key current"
    "set (member_ids_of members (cf_conflict_id c)) = set (map cm_memory_id ms)"
    "check_join_times e members ms = Inr ()"
    "apply_affected_memories e False [] memories chs = Inr (ids, memories')"
    "set ids = set (map cm_memory_id ms)"
    "conflicts' = dict_set (cf_conflict_id c) c conflicts"
    "members' = put_members ms (filter (\<lambda>(key, x). fst key \<noteq> cf_conflict_id c) members)"
  using assms
  by (auto simp: resolve_conflict_def ok_simps Let_def conflict_scope_key_def split: prod.splits intro!: that)

lemma affected_after_image:
  assumes "apply_affected_memories e opening [] memories chs = Inr (ids, memories')"
    and "\<forall>a \<in> set chs. valid_memory (am_memory a)"
    and "e_operation e = (if opening then OP_CONFLICT_OPENED else OP_CONFLICT_RESOLVED)"
    and "dict_get memories' i = Some m" "dict_get memories i \<noteq> Some m"
  shows "m \<in> am_memory ` set chs \<and> i = m_memory_id m"
proof -
  from apply_affected_ok[OF assms(1-3)] assms(4,5) have "i \<in> set ids" by metis
  then obtain m' where "dict_get memories' i = Some m'" "m_memory_id m' = i" "m' \<in> am_memory ` set chs"
    using apply_affected_ok[OF assms(1-3)] by force
  with assms(4) show ?thesis by simp
qed

subsection \<open>The effect of one operation\<close>

text \<open>
  The eight transitions of a single memory share one shape: the after-image replaces the current
  memory along an edge of the lifecycle; a promotion may attach evidence and a supersession adds
  a link, both against the updated memories; a tombstone leaves no evidence of its memory.
\<close>

definition transition_effect ::
    "event \<Rightarrow> memory \<Rightarrow> evidence_item list \<Rightarrow> link list \<Rightarrow> projection_state \<Rightarrow> projection_state \<Rightarrow> bool" where
  "transition_effect e m items new_links s s' \<longleftrightarrow>
     (\<exists>current memories evidence links.
        dict_get (p_memories s) (m_memory_id m) = Some current \<and> revises e current m \<and>
        e_expected_revision e = Some (m_revision current) \<and> e_memory_id e = Some (m_memory_id m) \<and>
        status_edge (e_operation e) (m_status current) (m_status m) \<and>
        memories = dict_set (m_memory_id m) m (p_memories s) \<and>
        replay (attach_evidence e memories) (p_evidence s) items = Inr evidence \<and>
        replay (\<lambda>ls l. add_link e l memories ls) (p_links s) new_links = Inr links \<and>
        (m_status m = TOMBSTONED \<and> m_status current \<noteq> TOMBSTONED \<longrightarrow>
           (\<forall>(k, x) \<in> set (p_evidence s). ev_memory_id x \<noteq> m_memory_id m)) \<and>
        s' = s\<lparr> p_memories := memories, p_evidence := evidence, p_links := links \<rparr>)"

lemma transition_effect_parts:
  "transition_effect e m items new_links s s' \<Longrightarrow>
     p_memories s' = dict_set (m_memory_id m) m (p_memories s) \<and>
     replay (attach_evidence e (p_memories s')) (p_evidence s) items = Inr (p_evidence s') \<and>
     replay (\<lambda>ls l. add_link e l (p_memories s') ls) (p_links s) new_links = Inr (p_links s') \<and>
     p_conflicts s' = p_conflicts s \<and> p_conflict_members s' = p_conflict_members s \<and>
     p_branches s' = p_branches s"
  unfolding transition_effect_def by (elim exE conjE) simp

lemma transition_effectI:
  assumes "replace_memory L e req pres (p_memories s) r m = Inr memories"
    and "\<And>current. dict_get (p_memories s) (m_memory_id m) = Some current \<Longrightarrow>
      (\<And>st. req = Some st \<Longrightarrow> m_status m = st) \<Longrightarrow> (pres \<Longrightarrow> m_status m = m_status current) \<Longrightarrow>
      status_edge (e_operation e) (m_status current) (m_status m)"
    and "replay (attach_evidence e memories) (p_evidence s) items = Inr evidence"
    and "replay (\<lambda>ls l. add_link e l memories ls) (p_links s) new_links = Inr links"
    and "\<And>current. dict_get (p_memories s) (m_memory_id m) = Some current \<Longrightarrow>
      m_status m = TOMBSTONED \<Longrightarrow> m_status current \<noteq> TOMBSTONED \<Longrightarrow>
      (\<forall>(k, x) \<in> set (p_evidence s). ev_memory_id x \<noteq> m_memory_id m)"
  shows "transition_effect e m items new_links s
    (s\<lparr> p_memories := memories, p_evidence := evidence, p_links := links \<rparr>)"
proof (rule replace_memory_ok[OF assms(1)])
  fix current
  assume c: "dict_get (p_memories s) (m_memory_id m) = Some current"
    "memories = dict_set (m_memory_id m) m (p_memories s)" "revises e current m"
    "r = m_revision current" "e_expected_revision e = Some r" "e_memory_id e = Some (m_memory_id m)"
    "\<And>st. req = Some st \<Longrightarrow> m_status m = st" "pres \<Longrightarrow> m_status m = m_status current"
  have edge: "status_edge (e_operation e) (m_status current) (m_status m)"
    using assms(2)[OF c(1) c(7,8)] .
  show ?thesis
    unfolding transition_effect_def
    by (rule exI[of _ current], rule exI[of _ memories], rule exI[of _ evidence], rule exI[of _ links])
      (use c edge assms(3,4) assms(5)[OF c(1)] in auto)
qed

lemma fold_candidate_effect:
  assumes "fold_candidate L e st r m items s = Inr s'"
    and "e_operation e = OP_CANDIDATE_PROMOTED \<and> st = ACTIVE \<or> e_operation e = OP_CANDIDATE_EXPIRED \<and> st = RETIRED"
  shows "transition_effect e m items [] s s'"
proof -
  from assms(1) obtain memories current evidence where
    1: "replace_memory L e None False (p_memories s) r m = Inr memories"
      "dict_get (p_memories s) (m_memory_id m) = Some current"
      "check_candidate_lifecycle e current m st = Inr ()"
      "attach_candidate_lifecycle_evidence e items memories (p_evidence s) = Inr evidence"
      "s' = s\<lparr> p_memories := memories, p_evidence := evidence \<rparr>"
    by (auto simp: fold_candidate_def ok_simps)
  from 1(3) assms(2) have edge: "status_edge (e_operation e) (m_status current) (m_status m)"
      "m_status m \<noteq> TOMBSTONED"
    by (auto simp: check_candidate_lifecycle_def ok_simps intro: status_edge.promoted status_edge.expired)
  from 1(4) have "replay (attach_evidence e memories) (p_evidence s) items = Inr evidence"
    by (auto simp: attach_candidate_lifecycle_evidence_def ok_simps)
  with 1 edge transition_effectI[OF 1(1), of items evidence "[]" "p_links s"] show ?thesis by simp
qed

lemma fold_revised_effect:
  assumes "fold_revised L e r m s = Inr s'" and "e_operation e = OP_REVISED"
  shows "transition_effect e m [] [] s s'"
proof -
  from assms(1) obtain memories current where
    1: "replace_memory L e None False (p_memories s) r m = Inr memories"
      "dict_get (p_memories s) (m_memory_id m) = Some current"
      "m_status m \<in> set (REVISED_TRANSITIONS (m_status current))" "s' = s\<lparr> p_memories := memories \<rparr>"
    by (auto simp: fold_revised_def check_revised_lifecycle_def ok_simps)
  moreover have "m_status m \<noteq> TOMBSTONED" using 1(3) by (cases "m_status current") auto
  ultimately show ?thesis
    using transition_effectI[OF 1(1), of "[]" "p_evidence s" "[]" "p_links s"] assms(2)
    by (simp add: status_edge.revised)
qed

lemma fold_visibility_changed_effect:
  assumes "fold_visibility_changed L e r m s = Inr s'" and "e_operation e = OP_VISIBILITY_CHANGED"
  shows "transition_effect e m [] [] s s'"
proof -
  from assms(1) obtain memories current where
    1: "replace_memory L e None True (p_memories s) r m = Inr memories"
      "dict_get (p_memories s) (m_memory_id m) = Some current"
      "m_status current \<noteq> TOMBSTONED" "s' = s\<lparr> p_memories := memories \<rparr>"
    by (auto simp: fold_visibility_changed_def ok_simps)
  then have "m_status m = m_status current"
    by (auto elim: replace_memory_ok)
  with 1 show ?thesis
    using transition_effectI[OF 1(1), of "[]" "p_evidence s" "[]" "p_links s"] assms(2)
    by (simp add: status_edge.visibility)
qed

lemma check_not_terminal_ok:
  "check_not_terminal e d (Some m) = Inr u \<longleftrightarrow> m_status m \<in> {CANDIDATE, ACTIVE, DISPUTED}"
  by (simp add: check_not_terminal_def)

lemma fold_retired_effect:
  assumes "fold_retired L e r m s = Inr s'" and "e_operation e = OP_RETIRED"
  shows "transition_effect e m [] [] s s'"
proof -
  from assms(1) obtain memories where
    1: "replace_memory L e (Some RETIRED) False (p_memories s) r m = Inr memories"
      "check_not_terminal e ''terminal memory cannot be retired'' (dict_get (p_memories s) (m_memory_id m)) = Inr ()"
      "s' = s\<lparr> p_memories := memories \<rparr>"
    by (auto simp: fold_retired_def ok_simps)
  then have "m_status m = RETIRED"
    by (auto elim: replace_memory_ok)
  moreover have "status_edge OP_RETIRED (m_status current) RETIRED"
    if "dict_get (p_memories s) (m_memory_id m) = Some current" for current
    using 1(2) that by (auto simp: check_not_terminal_ok intro: status_edge.retired)
  ultimately show ?thesis
    using transition_effectI[OF 1(1), of "[]" "p_evidence s" "[]" "p_links s"] assms(2) 1
    by auto
qed

lemma fold_superseded_effect:
  assumes "fold_superseded L e r m l s = Inr s'" and "e_operation e = OP_SUPERSEDED"
  shows "transition_effect e m [] [l] s s'"
proof -
  from assms(1) obtain memories links where
    1: "replace_memory L e (Some SUPERSEDED) False (p_memories s) r m = Inr memories"
      "check_not_terminal e ''terminal memory cannot be superseded'' (dict_get (p_memories s) (m_memory_id m)) = Inr ()"
      "add_link e l memories (p_links s) = Inr links" "s' = s\<lparr> p_memories := memories, p_links := links \<rparr>"
    by (auto simp: fold_superseded_def ok_simps)
  then have "m_status m = SUPERSEDED"
    by (auto elim: replace_memory_ok)
  moreover have "status_edge OP_SUPERSEDED (m_status current) SUPERSEDED"
    if "dict_get (p_memories s) (m_memory_id m) = Some current" for current
    using 1(2) that by (auto simp: check_not_terminal_ok intro: status_edge.superseded)
  ultimately show ?thesis
    using transition_effectI[OF 1(1), of "[]" "p_evidence s" "[l]" links] assms(2) 1
    by auto
qed

lemma not_Some_pair: "(\<forall>a b. x \<noteq> Some (a, b)) \<longleftrightarrow> x = None"
  by (cases x) auto

lemma not_Some_triple: "(\<forall>a b c. x \<noteq> Some (a, b, c)) \<longleftrightarrow> x = None"
  by (cases x) auto

lemma fold_tombstoned_effect:
  assumes "fold_tombstoned L e r m f s = Inr s'" and "e_operation e = OP_TOMBSTONED"
  shows "transition_effect e m [] [] s s'"
proof -
  from assms(1) obtain memories where
    1: "replace_memory L e (Some TOMBSTONED) False (p_memories s) r m = Inr memories"
      "\<not> (case dict_get (p_memories s) (m_memory_id m) of None \<Rightarrow> False | Some c \<Rightarrow> m_status c = TOMBSTONED)"
      "find (\<lambda>(evidence_id, item). ev_memory_id item = m_memory_id m) (p_evidence s) = None"
      "s' = s\<lparr> p_memories := memories \<rparr>"
    by (auto simp: fold_tombstoned_def ok_simps Let_def not_Some_pair split: option.splits if_splits)
  then have "m_status m = TOMBSTONED"
    by (auto elim: replace_memory_ok)
  moreover have "status_edge OP_TOMBSTONED (m_status current) TOMBSTONED"
    if "dict_get (p_memories s) (m_memory_id m) = Some current" for current
    using 1(2) that by (auto intro: status_edge.tombstoned)
  moreover have "\<forall>(k, x) \<in> set (p_evidence s). ev_memory_id x \<noteq> m_memory_id m"
    using 1(3) by (auto simp: find_None_iff)
  ultimately show ?thesis
    using transition_effectI[OF 1(1), of "[]" "p_evidence s" "[]" "p_links s"] assms(2) 1(4)
    by simp
qed

lemma fold_purge_completed_effect:
  assumes "fold_purge_completed L e r m k t s = Inr s'" and "e_operation e = OP_PAYLOAD_PURGE_COMPLETED"
  shows "transition_effect e m [] [] s s'"
proof -
  from assms(1) obtain memories current where
    1: "replace_memory L e (Some TOMBSTONED) False (p_memories s) r m = Inr memories"
      "dict_get (p_memories s) (m_memory_id m) = Some current" "m_status current = TOMBSTONED"
      "s' = s\<lparr> p_memories := memories \<rparr>"
    by (auto simp: fold_purge_completed_def ok_simps)
  then have "m_status m = TOMBSTONED"
    by (auto elim: replace_memory_ok)
  with 1 show ?thesis
    using transition_effectI[OF 1(1), of "[]" "p_evidence s" "[]" "p_links s"] assms(2)
    by (auto intro: status_edge.purged)
qed

lemmas transition_effects =
  fold_candidate_effect fold_revised_effect fold_visibility_changed_effect fold_retired_effect
  fold_superseded_effect fold_tombstoned_effect fold_purge_completed_effect

fun payload_items :: "utc operation_payload \<Rightarrow> evidence_item list" where
  "payload_items (CandidateLifecyclePayload r m d c evs) = evs"
| "payload_items _ = []"

fun payload_links :: "utc operation_payload \<Rightarrow> link list" where
  "payload_links (SupersededPayload r m l) = [l]"
| "payload_links _ = []"

lemma fold_operationE:
  assumes "fold_operation L e p s = Inr s'" "e_operation e \<in> set (payload_operations p)"
  obtains
    (created) m items evidence where "p = MemoryCreatedPayload m items" "creates e m"
      "dict_get (p_memories s) (m_memory_id m) = None"
      "replay (add_created_evidence e (m_memory_id m)) (p_evidence s) items = Inr evidence"
      "s' = s\<lparr> p_memories := dict_set (m_memory_id m) m (p_memories s), p_evidence := evidence \<rparr>"
  | (transition) r m where "as_transition p = Some (r, m)"
      "transition_effect e m (payload_items p) (payload_links p) s s'"
  | (attached) item evidence where "p = EvidenceAttachedPayload item"
      "attach_evidence e (p_memories s) (p_evidence s) item = Inr evidence" "s' = s\<lparr> p_evidence := evidence \<rparr>"
  | (redacted) i m t c evidence where "p = EvidenceRedactedPayload i m t c"
      "redact_evidence e i m t (p_evidence s) = Inr evidence" "s' = s\<lparr> p_evidence := evidence \<rparr>"
  | (linked) l links where "p = LinkedPayload l"
      "add_link e l (p_memories s) (p_links s) = Inr links" "s' = s\<lparr> p_links := links \<rparr>"
  | (unlinked) l links where "p = UnlinkedPayload l"
      "unlink e l (p_links s) = Inr links" "s' = s\<lparr> p_links := links \<rparr>"
  | (opened) c ms chs memories conflicts members where "p = ConflictOpenedPayload c ms chs"
      "e_operation e = OP_CONFLICT_OPENED"
      "open_conflict e c ms chs (p_memories s) (p_conflicts s) (p_conflict_members s)
         = Inr (memories, conflicts, members)"
      "s' = s\<lparr> p_memories := memories, p_conflicts := conflicts, p_conflict_members := members \<rparr>"
  | (resolved) c ms chs memories conflicts members where "p = ConflictResolvedPayload c ms chs"
      "e_operation e = OP_CONFLICT_RESOLVED"
      "resolve_conflict e c ms chs (p_memories s) (p_conflicts s) (p_conflict_members s)
         = Inr (memories, conflicts, members)"
      "s' = s\<lparr> p_memories := memories, p_conflicts := conflicts, p_conflict_members := members \<rparr>"
  | (branched) b branches where "p = BranchCreatedPayload b" "e_operation e = OP_BRANCH_CREATED"
      "create_branch e b (p_branches s) (p_sequence_scopes s) = Inr branches"
      "s' = s\<lparr> p_branches := branches \<rparr>"
proof (cases p)
  case (MemoryCreatedPayload m items)
  with assms obtain memories evidence where
      "create_memory L e m items (p_memories s) (p_evidence s) = Inr (memories, evidence)"
      "s' = s\<lparr> p_memories := memories, p_evidence := evidence \<rparr>"
    by (auto simp: fold_operation_def ok_simps Let_def)
  with create_memory_ok[of L e m items] MemoryCreatedPayload assms(2) created show ?thesis by auto
next
  case (MemoryTransitionPayload r m)
  with assms have "transition_effect e m [] [] s s'"
    by (auto simp: fold_operation_def Let_def intro: transition_effects)
  with MemoryTransitionPayload show ?thesis by (intro transition[of r m]) auto
next
  case (CandidateLifecyclePayload r m d c items)
  with assms have "transition_effect e m items [] s s'"
    by (auto simp: fold_operation_def Let_def intro: transition_effects)
  with CandidateLifecyclePayload show ?thesis by (intro transition[of r m]) auto
qed (use assms that in \<open>auto simp: fold_operation_def ok_simps Let_def dest: transition_effects\<close>)

subsection \<open>One fold step\<close>

lemma fold_event_with_ok:
  assumes "fold_event_with L contiguous s e = Inr s'"
  obtains p s1 where "typed_payload L e = Inr p" "verify_hashes L e = Inr ()"
    "dict_get (p_event_scopes s) (e_event_id e) = None" "check_event_branch s e = Inr ()"
    "check_causation s e = Inr ()" "check_payload_visibility s e p = Inr ()"
    "fold_operation L e p s = Inr s1" "e_operation e \<in> set (payload_operations p)"
    "contiguous \<Longrightarrow> e_sequence e = p_sequence s + 1"
    "\<not> contiguous \<Longrightarrow> p_sequence s < e_sequence e" "0 \<le> e_sequence e"
    "s' = s1\<lparr> p_sequence := e_sequence e,
       p_event_scopes := dict_set (e_event_id e) (event_scope e) (p_event_scopes s),
       p_sequence_scopes := dict_set (e_sequence e) (event_scope e) (p_sequence_scopes s) \<rparr>"
proof -
  from assms obtain p s1 where 1: "check_sequence contiguous s e = Inr ()"
      "verify_hashes L e = Inr ()" "dict_get (p_event_scopes s) (e_event_id e) = None"
      "check_event_branch s e = Inr ()" "check_causation s e = Inr ()" "typed_payload L e = Inr p"
      "check_payload_visibility s e p = Inr ()" "fold_operation L e p s = Inr s1" "0 \<le> e_sequence e"
      "s' = s1\<lparr> p_sequence := e_sequence e,
         p_event_scopes := dict_set (e_event_id e) (event_scope e) (p_event_scopes s),
         p_sequence_scopes := dict_set (e_sequence e) (event_scope e) (p_sequence_scopes s) \<rparr>"
    by (auto simp: fold_event_with_def mk_projection_def ok_simps not_Some_triple)
  moreover from 1(1) have "contiguous \<Longrightarrow> e_sequence e = p_sequence s + 1"
      "\<not> contiguous \<Longrightarrow> p_sequence s < e_sequence e"
    by (auto simp: check_sequence_def ok_simps)
  ultimately show ?thesis using that typed_payload_operations by blast
qed

lemma transition_effect_change:
  assumes "transition_effect e m items ls s s'" "valid_memory m"
  shows "memory_change e (dict_get (p_memories s) i) (dict_get (p_memories s') i)"
  using assms by (auto simp: transition_effect_def intro!: memory_change_put memory_change.stepped)

lemma as_transition_memories: "as_transition p = Some (r, m) \<Longrightarrow> payload_memories p = [m]"
  by (cases p) auto

lemma fold_operation_change:
  assumes "fold_operation L e p s = Inr s'" "typed_payload L e = Inr p"
  shows "memory_change e (dict_get (p_memories s) i) (dict_get (p_memories s') i)"
  using assms(1) typed_payload_operations[OF assms(2)]
proof (cases rule: fold_operationE)
  case (created m items evidence)
  with typed_payload_memories[OF assms(2), of m] show ?thesis
    by (auto intro!: memory_change_put memory_change.created)
next
  case (transition r m)
  with typed_payload_memories[OF assms(2), of m] show ?thesis
    by (auto intro: transition_effect_change simp: as_transition_memories)
next
  case (opened c ms chs memories conflicts members)
  have "\<forall>a \<in> set chs. valid_memory (am_memory a)"
    using typed_payload_memories[OF assms(2)] opened(1) by auto
  with opened show ?thesis
    by (auto elim!: open_conflict_ok dest: apply_affected_ok)
next
  case (resolved c ms chs memories conflicts members)
  have "\<forall>a \<in> set chs. valid_memory (am_memory a)"
    using typed_payload_memories[OF assms(2)] resolved(1) by auto
  with resolved show ?thesis
    by (auto elim!: resolve_conflict_ok dest: apply_affected_ok)
qed (auto intro: memory_change.same)

text \<open>The central step lemma: an accepted event changes a memory only along the lifecycle.\<close>

lemma fold_event_change:
  assumes "fold_event_with L contiguous s e = Inr s'"
  shows "memory_change e (dict_get (p_memories s) i) (dict_get (p_memories s') i)"
  using assms by (rule fold_event_with_ok) (auto dest: fold_operation_change)

text \<open>Which dictionaries an operation leaves alone.\<close>

lemma fold_operation_frame:
  assumes "fold_operation L e p s = Inr s'" "e_operation e \<in> set (payload_operations p)"
  shows "p_sequence s' = p_sequence s \<and> p_event_scopes s' = p_event_scopes s \<and>
     p_sequence_scopes s' = p_sequence_scopes s \<and>
     (e_operation e \<noteq> OP_BRANCH_CREATED \<longrightarrow> p_branches s' = p_branches s)"
  using assms by (cases rule: fold_operationE) (auto simp: transition_effect_def)

end
