(* ===== verification/Fold_Invariants.thy ===== *)
theory Fold_Invariants
  imports Fold_Steps
begin

text \<open>
  The invariant of the projection, one part per dictionary, and its preservation by every fold
  step: memories are validated after-images that live on an existing branch of their own tenant
  and lineage below its visibility ceiling; evidence belongs to a memory that is not a tombstone;
  links join existing memories; conflict members belong to recorded conflicts; branches have
  existing parents and no cycle; the recorded history is as long as the sequence says.
\<close>

subsection \<open>The invariant\<close>

definition on_branch :: "branches \<Rightarrow> memory \<Rightarrow> bool" where
  "on_branch branches m \<longleftrightarrow>
     (\<exists>b. dict_get branches (m_branch_id m) = Some b \<and> br_tenant_id b = m_tenant_id m \<and>
        br_lineage_id b = m_lineage_id m \<and> m_visibility m \<le> br_visibility_ceiling b)"

definition memory_inv :: "projection_state \<Rightarrow> bool" where
  "memory_inv s \<longleftrightarrow>
     (\<forall>i m. dict_get (p_memories s) i = Some m \<longrightarrow>
        m_memory_id m = i \<and> valid_memory m \<and> 1 \<le> m_revision m \<and> on_branch (p_branches s) m)"

definition evidence_inv :: "projection_state \<Rightarrow> bool" where
  "evidence_inv s \<longleftrightarrow>
     (\<forall>i x. dict_get (p_evidence s) i = Some x \<longrightarrow>
        ev_evidence_id x = i \<and>
        (\<exists>m. dict_get (p_memories s) (ev_memory_id x) = Some m \<and> m_status m \<noteq> TOMBSTONED))"

definition link_inv :: "projection_state \<Rightarrow> bool" where
  "link_inv s \<longleftrightarrow>
     (\<forall>i l. dict_get (p_links s) i = Some l \<longrightarrow>
        ln_link_id l = i \<and> valid_link l \<and>
        dict_has (p_memories s) (ln_source_memory_id l) \<and> dict_has (p_memories s) (ln_target_memory_id l))"

definition branch_inv :: "projection_state \<Rightarrow> bool" where
  "branch_inv s \<longleftrightarrow>
     (\<forall>i b. dict_get (p_branches s) i = Some b \<longrightarrow>
        br_branch_id b = i \<and> valid_branch b \<and>
        (\<forall>j. br_parent_branch_id b = Some j \<longrightarrow>
           (\<exists>p. dict_get (p_branches s) j = Some p \<and> br_tenant_id p = br_tenant_id b \<and>
              br_lineage_id p = br_lineage_id b)))"

definition parent_edges :: "branches \<Rightarrow> (uuid \<times> uuid) set" where
  "parent_edges branches =
     {(i, j). \<exists>b. dict_get branches i = Some b \<and> br_parent_branch_id b = Some j}"

definition conflict_inv :: "projection_state \<Rightarrow> bool" where
  "conflict_inv s \<longleftrightarrow>
     (\<forall>i c. dict_get (p_conflicts s) i = Some c \<longrightarrow> cf_conflict_id c = i \<and> valid_conflict c) \<and>
     (\<forall>i j x. dict_get (p_conflict_members s) (i, j) = Some x \<longrightarrow>
        cm_conflict_id x = i \<and> cm_memory_id x = j \<and>
        (\<exists>c m. dict_get (p_conflicts s) i = Some c \<and> dict_get (p_memories s) j = Some m \<and>
           m_subject_id m = cf_subject_id c)) \<and>
     (\<forall>i. dict_has (p_conflicts s) i \<longrightarrow>
        (\<exists>j k. j \<noteq> k \<and> dict_has (p_conflict_members s) (i, j) \<and> dict_has (p_conflict_members s) (i, k)))"

definition history_inv :: "projection_state \<Rightarrow> bool" where
  "history_inv s \<longleftrightarrow> 0 \<le> p_sequence s \<and>
     (\<forall>k \<in> dom (dict_get (p_sequence_scopes s)). 1 \<le> k \<and> k \<le> p_sequence s) \<and>
     card (dom (dict_get (p_event_scopes s))) = card (dom (dict_get (p_sequence_scopes s)))"

definition projection_inv :: "projection_state \<Rightarrow> bool" where
  "projection_inv s \<longleftrightarrow> memory_inv s \<and> evidence_inv s \<and> link_inv s \<and> branch_inv s \<and>
     acyclic (parent_edges (p_branches s)) \<and> conflict_inv s \<and> history_inv s"

lemma projection_inv_empty: "projection_inv empty_projection"
  by (auto simp: projection_inv_def empty_projection_def memory_inv_def evidence_inv_def link_inv_def
      branch_inv_def parent_edges_def conflict_inv_def history_inv_def acyclic_def)

subsection \<open>Memories\<close>

lemma check_event_branch_ok:
  "check_event_branch s e = Inr u \<Longrightarrow> e_operation e \<noteq> OP_BRANCH_CREATED \<Longrightarrow>
     \<exists>b. dict_get (p_branches s) (e_branch_id e) = Some b \<and> br_tenant_id b = e_tenant_id e \<and>
       br_lineage_id b = e_lineage_id e"
  by (auto simp: check_event_branch_def ok_simps)

lemma check_payload_visibility_ok:
  "check_payload_visibility s e p = Inr u \<Longrightarrow> e_operation e \<noteq> OP_BRANCH_CREATED \<Longrightarrow>
     \<exists>b. dict_get (p_branches s) (e_branch_id e) = Some b \<and>
       (\<forall>m \<in> set (payload_memories p). m_visibility m \<le> br_visibility_ceiling b)"
  by (auto simp: check_payload_visibility_def validate_branch_visibility_def ok_simps Let_def
      list_ex_iff BRANCH_VISIBILITIES_iff)

text \<open>A changed memory is one of the after-images of the payload.\<close>

lemma fold_operation_after_image:
  assumes "fold_operation L e p s = Inr s'" "typed_payload L e = Inr p"
    and "dict_get (p_memories s') i = Some m" "dict_get (p_memories s) i \<noteq> Some m"
  shows "m \<in> set (payload_memories p) \<and> i = m_memory_id m"
  using assms(1) typed_payload_operations[OF assms(2)]
proof (cases rule: fold_operationE)
  case (transition r n)
  with assms(3,4) show ?thesis
    by (auto simp: transition_effect_def as_transition_memories dict_simps split: if_splits)
next
  case (opened c ms chs memories conflicts members)
  then obtain ids where ids: "apply_affected_memories e True [] (p_memories s) chs = Inr (ids, memories)"
    by (auto elim: open_conflict_ok)
  have valid: "\<forall>a \<in> set chs. valid_memory (am_memory a)"
    using typed_payload_memories[OF assms(2)] opened(1) by auto
  with affected_after_image[OF ids] opened assms(3,4) show ?thesis by simp
next
  case (resolved c ms chs memories conflicts members)
  then obtain ids where ids: "apply_affected_memories e False [] (p_memories s) chs = Inr (ids, memories)"
    by (auto elim: resolve_conflict_ok)
  have valid: "\<forall>a \<in> set chs. valid_memory (am_memory a)"
    using typed_payload_memories[OF assms(2)] resolved(1) by auto
  with affected_after_image[OF ids] resolved assms(3,4) show ?thesis by simp
qed (use assms(3,4) in \<open>auto simp: dict_simps split: if_splits\<close>)

lemma create_branch_ok:
  assumes "create_branch e b branches scopes = Inr branches'"
  shows "branch_scope_key b = event_scope e \<and> br_branch_id b = e_branch_id e \<and>
    dict_get branches (br_branch_id b) = None \<and> br_created_at b = e_created_at e \<and>
    branches' = dict_set (br_branch_id b) b branches \<and>
    (\<forall>j. br_parent_branch_id b = Some j \<longrightarrow>
       (\<exists>p. dict_get branches j = Some p \<and> br_tenant_id p = br_tenant_id b \<and>
          br_lineage_id p = br_lineage_id b \<and>
          dict_get scopes (case br_fork_event_sequence b of None \<Rightarrow> 0 | Some i \<Rightarrow> i)
            = Some (br_tenant_id b, br_lineage_id b, j)))"
  using assms by (auto simp: create_branch_def check_fork_def ok_simps split: option.splits)

lemma fold_operation_branches:
  assumes "fold_operation L e p s = Inr s'" "e_operation e \<in> set (payload_operations p)"
    and "dict_get (p_branches s) i = Some b"
  shows "dict_get (p_branches s') i = Some b"
  using assms(1,2)
  by (cases rule: fold_operationE)
    (use assms(3) in \<open>auto simp: transition_effect_def dict_simps dest!: create_branch_ok\<close>)

lemma on_branch_mono:
  "on_branch branches m \<Longrightarrow> (\<And>i b. dict_get branches i = Some b \<Longrightarrow> dict_get branches' i = Some b) \<Longrightarrow>
   on_branch branches' m"
  unfolding on_branch_def by blast

lemma changed_memory_scope:
  "memory_change e x (Some m) \<Longrightarrow> x \<noteq> Some m \<Longrightarrow> memory_scope_key m = event_scope e"
  by (cases x) (auto elim!: memory_change_SomeE memory_change_NoneE simp: creates_def revises_def)

lemma changed_memory_revision:
  "memory_change e x (Some m) \<Longrightarrow> (\<And>m'. x = Some m' \<Longrightarrow> 1 \<le> m_revision m') \<Longrightarrow> 1 \<le> m_revision m"
  by (cases x) (auto elim!: memory_change_SomeE memory_change_NoneE simp: creates_def revises_def)

lemma branch_payload_memories:
  "e_operation e = OP_BRANCH_CREATED \<Longrightarrow> e_operation e \<in> set (payload_operations p) \<Longrightarrow> payload_memories p = []"
  by (cases p) auto

lemma fold_memory_inv:
  assumes "memory_inv s" "fold_event_with L contiguous s e = Inr s'"
  shows "memory_inv s'"
  unfolding memory_inv_def
proof (intro allI impI)
  fix i m assume m: "dict_get (p_memories s') i = Some m"
  from assms(2) show "m_memory_id m = i \<and> valid_memory m \<and> 1 \<le> m_revision m \<and> on_branch (p_branches s') m"
  proof (rule fold_event_with_ok)
    fix p s1
    assume f: "typed_payload L e = Inr p" "check_event_branch s e = Inr ()"
      "check_payload_visibility s e p = Inr ()" "fold_operation L e p s = Inr s1"
      "e_operation e \<in> set (payload_operations p)"
      "s' = s1\<lparr> p_sequence := e_sequence e,
         p_event_scopes := dict_set (e_event_id e) (event_scope e) (p_event_scopes s),
         p_sequence_scopes := dict_set (e_sequence e) (event_scope e) (p_sequence_scopes s) \<rparr>"
    have mono: "dict_get (p_branches s) j = Some b \<Longrightarrow> dict_get (p_branches s') j = Some b" for j b
      using fold_operation_branches[OF f(4,5)] f(6) by simp
    show ?thesis
    proof (cases "dict_get (p_memories s) i = Some m")
      case True
      with assms(1) have "m_memory_id m = i" "valid_memory m" "1 \<le> m_revision m"
          "on_branch (p_branches s) m"
        by (auto simp: memory_inv_def)
      with mono on_branch_mono[of "p_branches s" m "p_branches s'"] show ?thesis by blast
    next
      case False
      have c: "memory_change e (dict_get (p_memories s) i) (Some m)"
        using fold_operation_change[OF f(4,1), of i] m f(6) by simp
      have a: "m \<in> set (payload_memories p)" "m_memory_id m = i"
        using fold_operation_after_image[OF f(4,1), of i m] m False f(6) by auto
      with f(5) have "e_operation e \<noteq> OP_BRANCH_CREATED"
        using branch_payload_memories[of e p] by auto
      then obtain b where "dict_get (p_branches s) (e_branch_id e) = Some b"
          "br_tenant_id b = e_tenant_id e" "br_lineage_id b = e_lineage_id e"
          "m_visibility m \<le> br_visibility_ceiling b"
        using check_event_branch_ok[OF f(2)] check_payload_visibility_ok[OF f(3)] a(1) by auto
      moreover have "memory_scope_key m = event_scope e"
        using changed_memory_scope[OF c False] .
      ultimately have "on_branch (p_branches s') m"
        using mono by (auto simp: on_branch_def memory_scope_key_def event_scope_def)
      moreover have "1 \<le> m_revision m"
        using changed_memory_revision[OF c] assms(1) by (auto simp: memory_inv_def)
      ultimately show ?thesis
        using a typed_payload_memories[OF f(1)] by auto
    qed
  qed
qed

subsection \<open>Evidence\<close>

lemma add_created_evidence_ok:
  "add_created_evidence e i evidence x = Inr evidence' \<Longrightarrow>
     evidence_scope_key x = event_scope e \<and> ev_memory_id x = i \<and> ev_created_at x = e_created_at e \<and>
     dict_get evidence (ev_evidence_id x) = None \<and> evidence' = dict_set (ev_evidence_id x) x evidence"
  by (auto simp: add_created_evidence_def ok_simps)

lemma attach_evidence_ok:
  "attach_evidence e memories evidence x = Inr evidence' \<Longrightarrow>
     evidence_scope_key x = event_scope e \<and> e_memory_id e = Some (ev_memory_id x) \<and>
     ev_created_at x = e_created_at e \<and>
     (\<exists>m. dict_get memories (ev_memory_id x) = Some m \<and> m_status m \<in> {CANDIDATE, ACTIVE, DISPUTED}) \<and>
     dict_get evidence (ev_evidence_id x) = None \<and> evidence' = dict_set (ev_evidence_id x) x evidence"
  by (auto simp: attach_evidence_def ok_simps)

text \<open>Every stored item was there before, or was added under its own identifier.\<close>

definition evidence_adds :: "(evidence_item \<Rightarrow> bool) \<Rightarrow> evidences \<Rightarrow> evidences \<Rightarrow> bool" where
  "evidence_adds P d d' \<longleftrightarrow>
     (\<forall>i x. dict_get d' i = Some x \<longrightarrow> dict_get d i = Some x \<or> ev_evidence_id x = i \<and> P x)"

lemma evidence_adds_refl: "evidence_adds P d d"
  by (simp add: evidence_adds_def)

lemma evidence_adds_trans: "evidence_adds P a b \<Longrightarrow> evidence_adds P b c \<Longrightarrow> evidence_adds P a c"
  unfolding evidence_adds_def by blast

lemma evidence_adds_put: "P x \<Longrightarrow> evidence_adds P d (dict_set (ev_evidence_id x) x d)"
  by (auto simp: evidence_adds_def dict_simps split: if_splits)

definition created_item :: "event \<Rightarrow> uuid \<Rightarrow> evidence_item \<Rightarrow> bool" where
  "created_item e i x \<longleftrightarrow> evidence_scope_key x = event_scope e \<and> ev_memory_id x = i"

definition attached_item :: "event \<Rightarrow> memories \<Rightarrow> evidence_item \<Rightarrow> bool" where
  "attached_item e memories x \<longleftrightarrow> evidence_scope_key x = event_scope e \<and>
     e_memory_id e = Some (ev_memory_id x) \<and>
     (\<exists>m. dict_get memories (ev_memory_id x) = Some m \<and> m_status m \<in> {CANDIDATE, ACTIVE, DISPUTED})"

interpretation created_evidence:
  replay_relation "add_created_evidence e i" "\<lambda>_. True" "evidence_adds (created_item e i)" for e i
  by unfold_locales
    (auto intro: evidence_adds_refl evidence_adds_trans evidence_adds_put simp: created_item_def
      dest!: add_created_evidence_ok)

interpretation attached_evidence:
  replay_relation "attach_evidence e memories" "\<lambda>_. True" "evidence_adds (attached_item e memories)"
    for e memories
  by unfold_locales
    (auto intro: evidence_adds_refl evidence_adds_trans evidence_adds_put simp: attached_item_def
      dest!: attach_evidence_ok)

lemma redact_evidence_ok:
  "redact_evidence e i m t evidence = Inr evidence' \<Longrightarrow> evidence' = dict_del i evidence \<and> t = e_created_at e \<and>
     (\<exists>x. dict_get evidence i = Some x \<and> ev_memory_id x = m \<and> e_memory_id e = Some m)"
  by (auto simp: redact_evidence_def ok_simps)

lemma REVISED_not_tombstoned: "TOMBSTONED \<notin> set (REVISED_TRANSITIONS s)"
  by (cases s) auto

lemma status_edge_tombstoned:
  "status_edge op s TOMBSTONED \<Longrightarrow> s \<noteq> TOMBSTONED \<Longrightarrow> op = OP_TOMBSTONED"
  by (erule status_edgeE) (auto simp: REVISED_not_tombstoned)

lemma memory_change_live:
  assumes "memory_change e (Some m) x" "m_status m \<noteq> TOMBSTONED" "e_operation e \<noteq> OP_TOMBSTONED"
  shows "\<exists>m'. x = Some m' \<and> m_status m' \<noteq> TOMBSTONED"
  using assms status_edge_tombstoned[of "e_operation e" "m_status m"]
  by (auto elim!: memory_change_SomeE)

definition live_in :: "memories \<Rightarrow> evidence_item \<Rightarrow> bool" where
  "live_in memories x \<longleftrightarrow> (\<exists>m. dict_get memories (ev_memory_id x) = Some m \<and> m_status m \<noteq> TOMBSTONED)"

lemma evidence_inv_live:
  "evidence_inv s \<longleftrightarrow>
     (\<forall>i x. dict_get (p_evidence s) i = Some x \<longrightarrow> ev_evidence_id x = i \<and> live_in (p_memories s) x)"
  by (simp add: evidence_inv_def live_in_def)

lemma evidence_inv_adds:
  assumes "evidence_adds P (p_evidence s) (p_evidence s')"
    and "\<And>x. P x \<Longrightarrow> live_in (p_memories s') x"
    and "\<And>i x. dict_get (p_evidence s) i = Some x \<Longrightarrow> ev_evidence_id x = i \<and> live_in (p_memories s') x"
  shows "evidence_inv s'"
  using assms unfolding evidence_inv_live evidence_adds_def by blast

lemma attached_item_live: "attached_item e memories x \<Longrightarrow> live_in memories x"
  by (auto simp: attached_item_def live_in_def)

lemma fold_evidence_inv:
  assumes "evidence_inv s" "fold_operation L e p s = Inr s'" "typed_payload L e = Inr p"
  shows "evidence_inv s'"
proof -
  have keys: "ev_evidence_id x = i" "live_in (p_memories s) x"
    if "dict_get (p_evidence s) i = Some x" for i x
    using assms(1) that by (auto simp: evidence_inv_live)
  have old: "live_in (p_memories s') x"
    if "dict_get (p_evidence s) i = Some x" "e_operation e \<noteq> OP_TOMBSTONED" for i x
  proof -
    from keys(2)[OF that(1)] obtain m where "dict_get (p_memories s) (ev_memory_id x) = Some m"
        "m_status m \<noteq> TOMBSTONED"
      by (auto simp: live_in_def)
    with fold_operation_change[OF assms(2,3), of "ev_memory_id x"] memory_change_live[OF _ _ that(2)]
    show ?thesis by (auto simp: live_in_def)
  qed
  note ops = typed_payload_operations[OF assms(3)]
  from assms(2) ops show ?thesis
  proof (cases rule: fold_operationE)
    case (created m items evidence)
    have "m_status m \<noteq> TOMBSTONED" "e_operation e \<noteq> OP_TOMBSTONED"
      using created(2) by (auto simp: creates_def)
    then show ?thesis
      using created_evidence.replay_rel[OF TrueI created(4)] old keys created(5)
      by (intro evidence_inv_adds[of "created_item e (m_memory_id m)" s])
        (auto simp: created_item_def live_in_def dict_simps)
  next
    case (transition r m)
    then obtain current memories evidence links where t:
        "dict_get (p_memories s) (m_memory_id m) = Some current"
        "replay (attach_evidence e memories) (p_evidence s) (payload_items p) = Inr evidence"
        "m_status m = TOMBSTONED \<and> m_status current \<noteq> TOMBSTONED \<longrightarrow>
           (\<forall>(k, x) \<in> set (p_evidence s). ev_memory_id x \<noteq> m_memory_id m)"
        "memories = dict_set (m_memory_id m) m (p_memories s)"
        "s' = s\<lparr> p_memories := memories, p_evidence := evidence, p_links := links \<rparr>"
      by (auto simp: transition_effect_def)
    have "live_in memories x" if "dict_get (p_evidence s) i = Some x" for i x
      using keys(2)[OF that] map_of_SomeD[OF that] t(1,3,4)
      by (auto simp: live_in_def dict_simps)
    with attached_evidence.replay_rel[OF TrueI t(2)] keys(1) t(5) show ?thesis
      by (intro evidence_inv_adds[of "attached_item e memories" s]) (auto simp: attached_item_live)
  next
    case (attached item evidence)
    with ops have "e_operation e \<noteq> OP_TOMBSTONED" by auto
    with attached_evidence.step_rel[OF TrueI attached(2)] old keys(1) attached(3) show ?thesis
      by (intro evidence_inv_adds[of "attached_item e (p_memories s)" s]) (auto simp: attached_item_live)
  next
    case (redacted i m t c evidence)
    with ops have "e_operation e \<noteq> OP_TOMBSTONED" by auto
    with old keys(1) redacted(3) redact_evidence_ok[OF redacted(2)] show ?thesis
      by (auto simp: evidence_inv_live dict_simps split: if_splits)
  qed (use old keys(1) ops in \<open>auto simp: evidence_inv_live\<close>)
qed

subsection \<open>Links\<close>

lemma memory_change_keeps: "memory_change e x y \<Longrightarrow> x \<noteq> None \<Longrightarrow> y \<noteq> None"
  by (cases x) (auto elim: memory_change_SomeE)

lemma add_link_ok:
  "add_link e l memories links = Inr links' \<Longrightarrow>
     link_scope_key l = event_scope e \<and> dict_get links (ln_link_id l) = None \<and>
     ln_status l = LINK_ACTIVE \<and> ln_created_at l = e_created_at e \<and>
     dict_has memories (ln_source_memory_id l) \<and> dict_has memories (ln_target_memory_id l) \<and>
     links' = dict_set (ln_link_id l) l links"
  by (auto simp: add_link_def ok_simps)

lemma unlink_ok:
  "unlink e l links = Inr links' \<Longrightarrow>
     link_scope_key l = event_scope e \<and> links' = dict_set (ln_link_id l) l links \<and>
     (\<exists>c. dict_get links (ln_link_id l) = Some c \<and> ln_status c = LINK_ACTIVE \<and>
        ln_status l = LINK_UNLINKED \<and> ln_unlinked_at l = Some (e_created_at e) \<and>
        link_scope_key l = link_scope_key c \<and> ln_source_memory_id l = ln_source_memory_id c \<and>
        ln_target_memory_id l = ln_target_memory_id c \<and> ln_link_type l = ln_link_type c \<and>
        ln_created_at l = ln_created_at c)"
  by (auto simp: unlink_def ok_simps link_scope_key_def)

definition link_ok :: "memories \<Rightarrow> link \<Rightarrow> bool" where
  "link_ok memories l \<longleftrightarrow> valid_link l \<and>
     dict_has memories (ln_source_memory_id l) \<and> dict_has memories (ln_target_memory_id l)"

lemma link_inv_ok:
  "link_inv s \<longleftrightarrow> (\<forall>i l. dict_get (p_links s) i = Some l \<longrightarrow> ln_link_id l = i \<and> link_ok (p_memories s) l)"
  by (auto simp: link_inv_def link_ok_def)

lemma link_inv_put:
  assumes "\<And>i l. dict_get (p_links s) i = Some l \<Longrightarrow> ln_link_id l = i \<and> link_ok (p_memories s') l"
    and "p_links s' = dict_set (ln_link_id l) l (p_links s)" "link_ok (p_memories s') l"
  shows "link_inv s'"
  using assms by (auto simp: link_inv_ok dict_simps split: if_splits)

lemma fold_link_inv:
  assumes "link_inv s" "fold_operation L e p s = Inr s'" "typed_payload L e = Inr p"
  shows "link_inv s'"
proof -
  have keeps: "dict_has (p_memories s') i" if "dict_has (p_memories s) i" for i
    using memory_change_keeps[OF fold_operation_change[OF assms(2,3), of i] that] .
  have old: "ln_link_id l = i \<and> link_ok (p_memories s') l" if "dict_get (p_links s) i = Some l" for i l
    using assms(1) that keeps unfolding link_inv_ok link_ok_def by blast
  note children = typed_payload_children[OF assms(3)]
  from assms(2) typed_payload_operations[OF assms(3)] show ?thesis
  proof (cases rule: fold_operationE)
    case (transition r m)
    then show ?thesis
    proof (cases p)
      case (SupersededPayload r' m' l)
      with transition have "add_link e l (p_memories s') (p_links s) = Inr (p_links s')"
        by (auto simp: transition_effect_def ok_simps)
      with children SupersededPayload old show ?thesis
        by (intro link_inv_put[of s s' l]) (auto dest!: add_link_ok simp: link_ok_def)
    qed (use old in \<open>auto simp: transition_effect_def link_inv_ok\<close>)
  next
    case (linked l links)
    with children old show ?thesis
      by (intro link_inv_put[of s s' l]) (auto dest!: add_link_ok simp: link_ok_def)
  next
    case (unlinked l links)
    then obtain c where "dict_get (p_links s) (ln_link_id l) = Some c"
        "ln_source_memory_id l = ln_source_memory_id c" "ln_target_memory_id l = ln_target_memory_id c"
        "links = dict_set (ln_link_id l) l (p_links s)"
      using unlink_ok by blast
    with children old[of "ln_link_id l" c] old unlinked show ?thesis
      by (intro link_inv_put[of s s' l]) (auto simp: link_ok_def)
  qed (use old in \<open>auto simp: link_inv_ok\<close>)
qed

subsection \<open>Branches\<close>

lemma parent_edges_put:
  assumes "dict_get branches (br_branch_id b) = None"
  shows "parent_edges (dict_set (br_branch_id b) b branches) =
    parent_edges branches \<union> (case br_parent_branch_id b of None \<Rightarrow> {} | Some j \<Rightarrow> {(br_branch_id b, j)})"
  using assms by (auto simp: parent_edges_def dict_simps split: option.splits if_splits)

lemma acyclic_parent_edges_put:
  assumes "acyclic (parent_edges branches)" "dict_get branches (br_branch_id b) = None"
    and targets: "\<forall>i c j. dict_get branches i = Some c \<longrightarrow> br_parent_branch_id c = Some j \<longrightarrow> dict_has branches j"
    and "br_parent_branch_id b \<noteq> Some (br_branch_id b)"
  shows "acyclic (parent_edges (dict_set (br_branch_id b) b branches))"
proof (cases "br_parent_branch_id b")
  case (Some j)
  have "(j, br_branch_id b) \<notin> (parent_edges branches)\<^sup>*"
  proof
    assume "(j, br_branch_id b) \<in> (parent_edges branches)\<^sup>*"
    then show False
    proof (cases rule: rtranclE)
      case base
      with assms(4) Some show ?thesis by simp
    next
      case (step i)
      then have "dict_has branches (br_branch_id b)"
        using targets by (auto simp: parent_edges_def)
      with assms(2) show ?thesis by simp
    qed
  qed
  with assms(1) Some show ?thesis
    by (simp add: parent_edges_put[OF assms(2)] acyclic_insert)
qed (use assms in \<open>simp add: parent_edges_put\<close>)

lemma fold_branch_inv:
  assumes "branch_inv s" "acyclic (parent_edges (p_branches s))"
    and "fold_operation L e p s = Inr s'" "typed_payload L e = Inr p"
  shows "branch_inv s' \<and> acyclic (parent_edges (p_branches s'))"
proof (cases "p_branches s' = p_branches s")
  case True
  with assms(1,2) show ?thesis by (simp add: branch_inv_def)
next
  case False
  from assms(3) typed_payload_operations[OF assms(4)] False obtain b where
    b: "p = BranchCreatedPayload b"
      "create_branch e b (p_branches s) (p_sequence_scopes s) = Inr (p_branches s')"
    by (cases rule: fold_operationE) (auto simp: transition_effect_def)
  note c = create_branch_ok[OF b(2)]
  have v: "valid_branch b" using typed_payload_children[OF assms(4)] b(1) by simp
  have "\<forall>i d j. dict_get (p_branches s) i = Some d \<longrightarrow> br_parent_branch_id d = Some j \<longrightarrow>
      dict_has (p_branches s) j"
    using assms(1) unfolding branch_inv_def by (metis option.distinct(1))
  moreover have "dict_get (p_branches s) (br_branch_id b) = None"
      "p_branches s' = dict_set (br_branch_id b) b (p_branches s)"
    using c by blast+
  ultimately have "acyclic (parent_edges (p_branches s'))"
    using acyclic_parent_edges_put[OF assms(2), of b] v by (simp add: valid_branch_def)
  moreover have "branch_inv s'"
    using assms(1) c v unfolding branch_inv_def
    by (auto simp: dict_simps split: if_splits) (metis option.distinct(1))+
  ultimately show ?thesis by blast
qed

subsection \<open>Conflicts\<close>

abbreviation member_key :: "conflict_member \<Rightarrow> uuid \<times> uuid" where
  "member_key x \<equiv> (cm_conflict_id x, cm_memory_id x)"

lemma member_ids_of_iff: "j \<in> set (member_ids_of d i) \<longleftrightarrow> dict_has d (i, j)"
  by (induction d) (auto simp: member_ids_of_def split: if_splits)

lemma map_of_filter_fst:
  "map_of (filter (\<lambda>(key, x). fst key \<noteq> c) d) k = (if fst k = c then None else map_of d k)"
  by (induction d) auto

lemma put_members_lookup:
  "dict_get (put_members ms d) k = Some x \<Longrightarrow> x \<in> set ms \<and> k = member_key x \<or> dict_get d k = Some x"
  by (induction ms arbitrary: d) (fastforce simp: put_members_def dict_simps split: if_splits)+

lemma put_members_keys:
  "dict_has (put_members ms d) k \<longleftrightarrow> k \<in> member_key ` set ms \<or> dict_has d k"
  by (induction ms arbitrary: d) (auto simp: put_members_def dict_simps)

lemma add_members_put:
  "replay (add_conflict_member e) d ms = Inr d' \<Longrightarrow> d' = put_members ms d \<and>
     (\<forall>k. dict_has d k \<longrightarrow> k \<notin> member_key ` set ms)"
proof (induction ms arbitrary: d)
  case (Cons x ms)
  then have "dict_get d (member_key x) = None"
      "replay (add_conflict_member e) (dict_set (member_key x) x d) ms = Inr d'"
    by (auto simp: add_conflict_member_def[of e d x] ok_simps Let_def)
  with Cons.IH[of "dict_set (member_key x) x d"] show ?case
    by (auto simp: put_members_def dict_simps split: if_splits)
qed (simp add: put_members_def)

lemma two_members:
  assumes "valid_members c ms"
  shows "\<exists>j k. j \<noteq> k \<and> (cf_conflict_id c, j) \<in> member_key ` set ms \<and> (cf_conflict_id c, k) \<in> member_key ` set ms"
proof -
  from assms obtain x y r where ms: "ms = x # y # r"
    by (cases ms rule: remdups_adj.cases) (auto simp: valid_members_def)
  with assms have "cm_memory_id x \<noteq> cm_memory_id y" "cm_conflict_id x = cf_conflict_id c"
      "cm_conflict_id y = cf_conflict_id c"
    by (auto simp: valid_members_def)
  with ms show ?thesis by (intro exI[of _ "cm_memory_id x"] exI[of _ "cm_memory_id y"]) auto
qed

lemma memory_change_subject:
  "memory_change e (Some m) x \<Longrightarrow> \<exists>m'. x = Some m' \<and> m_subject_id m' = m_subject_id m"
  by (auto elim!: memory_change_SomeE simp: revises_def)

text \<open>
  Both conflict operations record a conflict and put its members on top of memberships of other
  conflicts; the members' memories carry the subject of the conflict.
\<close>

lemma conflict_inv_record:
  assumes inv: "conflict_inv s"
    and ch: "\<And>i. memory_change e (dict_get (p_memories s) i) (dict_get (p_memories s') i)"
    and c: "p_conflicts s' = dict_set (cf_conflict_id c) c (p_conflicts s)" "valid_conflict c"
    and ms: "valid_members c ms" "p_conflict_members s' = put_members ms d"
    and d: "\<And>k. dict_get d k = (if fst k = cf_conflict_id c then None else dict_get (p_conflict_members s) k)"
    and subj: "\<forall>x \<in> set ms. \<exists>m. dict_get (p_memories s') (cm_memory_id x) = Some m \<and>
      m_subject_id m = cf_subject_id c"
  shows "conflict_inv s'"
proof -
  have old: "\<exists>b m. dict_get (p_conflicts s') i = Some b \<and> dict_get (p_memories s') j = Some m \<and>
      m_subject_id m = cf_subject_id b \<and> cm_conflict_id x = i \<and> cm_memory_id x = j"
    if "dict_get d (i, j) = Some x" for i j x
  proof -
    from that d[of "(i, j)"] have i: "i \<noteq> cf_conflict_id c"
        "dict_get (p_conflict_members s) (i, j) = Some x"
      by (auto split: if_splits)
    from inv i(2) obtain b m where "dict_get (p_conflicts s) i = Some b" "dict_get (p_memories s) j = Some m"
        "m_subject_id m = cf_subject_id b" "cm_conflict_id x = i" "cm_memory_id x = j"
      unfolding conflict_inv_def by blast
    with i(1) c(1) ch[of j] memory_change_subject[of e m] show ?thesis by (auto simp: dict_simps)
  qed
  have new: "\<exists>b m. dict_get (p_conflicts s') (cm_conflict_id x) = Some b \<and>
      dict_get (p_memories s') (cm_memory_id x) = Some m \<and> m_subject_id m = cf_subject_id b"
    if "x \<in> set ms" for x
    using that subj ms(1) c(1) by (auto simp: valid_members_def dict_simps)
  have two: "\<exists>j k. j \<noteq> k \<and> dict_has (p_conflict_members s') (i, j) \<and> dict_has (p_conflict_members s') (i, k)"
    if "dict_has (p_conflicts s') i" for i
  proof (cases "i = cf_conflict_id c")
    case True
    with two_members[OF ms(1)] show ?thesis unfolding ms(2) put_members_keys by blast
  next
    case False
    with that c(1) have "dict_has (p_conflicts s) i" by (auto simp: dict_simps)
    with inv obtain j k where "j \<noteq> k" "dict_has (p_conflict_members s) (i, j)"
        "dict_has (p_conflict_members s) (i, k)"
      unfolding conflict_inv_def by blast
    with False d show ?thesis unfolding ms(2) put_members_keys by auto
  qed
  show ?thesis unfolding conflict_inv_def
  proof (intro conjI allI impI)
    fix i b assume "dict_get (p_conflicts s') i = Some b"
    with inv c show "cf_conflict_id b = i" "valid_conflict b"
      by (auto simp: conflict_inv_def dict_simps split: if_splits)
  next
    fix i j x assume "dict_get (p_conflict_members s') (i, j) = Some x"
    then have "x \<in> set ms \<and> (i, j) = member_key x \<or> dict_get d (i, j) = Some x"
      unfolding ms(2) by (rule put_members_lookup)
    then show "cm_conflict_id x = i" "cm_memory_id x = j"
      "\<exists>c m. dict_get (p_conflicts s') i = Some c \<and> dict_get (p_memories s') j = Some m \<and>
         m_subject_id m = cf_subject_id c"
      using old new by blast+
  qed (use two in auto)
qed

lemma conflict_inv_member:
  assumes "conflict_inv s" "dict_get (p_conflict_members s) (i, j) = Some x"
  obtains c m where "cm_conflict_id x = i" "cm_memory_id x = j" "dict_get (p_conflicts s) i = Some c"
    "dict_get (p_memories s) j = Some m" "m_subject_id m = cf_subject_id c"
  using assms unfolding conflict_inv_def by blast

lemma member_conflict:
  assumes "conflict_inv s" "dict_get (p_conflicts s) i = None"
  shows "dict_get (p_conflict_members s) (i, j) = None"
  using assms by (cases "dict_get (p_conflict_members s) (i, j)") (auto elim: conflict_inv_member)

lemma conflict_inv_frame:
  assumes inv: "conflict_inv s"
    and ch: "\<And>i. memory_change e (dict_get (p_memories s) i) (dict_get (p_memories s') i)"
    and same: "p_conflicts s' = p_conflicts s" "p_conflict_members s' = p_conflict_members s"
  shows "conflict_inv s'"
proof -
  have "cm_conflict_id x = i \<and> cm_memory_id x = j \<and>
      (\<exists>c m. dict_get (p_conflicts s) i = Some c \<and> dict_get (p_memories s') j = Some m \<and>
         m_subject_id m = cf_subject_id c)"
    if "dict_get (p_conflict_members s) (i, j) = Some x" for i j x
  proof (rule conflict_inv_member[OF inv that])
    fix c m assume "cm_conflict_id x = i" "cm_memory_id x = j" "dict_get (p_conflicts s) i = Some c"
      "dict_get (p_memories s) j = Some m" "m_subject_id m = cf_subject_id c"
    with memory_change_subject[of e m] ch[of j] show ?thesis by auto
  qed
  with inv show ?thesis unfolding conflict_inv_def same by blast
qed

lemma fold_conflict_inv:
  assumes "conflict_inv s" "fold_operation L e p s = Inr s'" "typed_payload L e = Inr p"
  shows "conflict_inv s'"
proof -
  note ch = fold_operation_change[OF assms(2,3)]
  note children = typed_payload_children[OF assms(3)]
  from assms(2) typed_payload_operations[OF assms(3)] show ?thesis
  proof (cases rule: fold_operationE)
    case (opened c ms chs memories conflicts members)
    from opened(3) show ?thesis
    proof (rule open_conflict_ok)
      fix ids
      assume o: "dict_get (p_conflicts s) (cf_conflict_id c) = None"
        "\<forall>x \<in> set ms. \<exists>m. dict_get memories (cm_memory_id x) = Some m \<and> m_subject_id m = cf_subject_id c"
        "conflicts = dict_set (cf_conflict_id c) c (p_conflicts s)"
        "replay (add_conflict_member e) (p_conflict_members s) ms = Inr members"
      have "dict_get (p_conflict_members s) k =
          (if fst k = cf_conflict_id c then None else dict_get (p_conflict_members s) k)" for k
        using member_conflict[OF assms(1), of "fst k" "snd k"] o(1) by auto
      with assms(1) ch children opened o add_members_put[OF o(4)] show ?thesis
        by (intro conflict_inv_record[of s e s' c ms "p_conflict_members s"]) auto
    qed
  next
    case (resolved c ms chs memories conflicts members)
    from resolved(3) show ?thesis
    proof (rule resolve_conflict_ok)
      fix ids current
      assume r: "dict_get (p_conflicts s) (cf_conflict_id c) = Some current"
        "cf_subject_id c = cf_subject_id current"
        "set (member_ids_of (p_conflict_members s) (cf_conflict_id c)) = set (map cm_memory_id ms)"
        "conflicts = dict_set (cf_conflict_id c) c (p_conflicts s)"
        "members = put_members ms (filter (\<lambda>(key, x). fst key \<noteq> cf_conflict_id c) (p_conflict_members s))"
      have "\<exists>m. dict_get memories (cm_memory_id x) = Some m \<and> m_subject_id m = cf_subject_id c"
        if "x \<in> set ms" for x
      proof -
        from that r(3) have "dict_has (p_conflict_members s) (cf_conflict_id c, cm_memory_id x)"
          unfolding member_ids_of_iff[symmetric] by simp
        then obtain y where "dict_get (p_conflict_members s) (cf_conflict_id c, cm_memory_id x) = Some y"
          by blast
        from conflict_inv_member[OF assms(1) this] r(1) obtain m where
            "dict_get (p_memories s) (cm_memory_id x) = Some m" "m_subject_id m = cf_subject_id current"
          by auto
        with ch[of "cm_memory_id x"] memory_change_subject[of e m] r(2) resolved(4) show ?thesis by auto
      qed
      with assms(1) ch children resolved r show ?thesis
        by (intro conflict_inv_record[of s e s' c ms]) (auto simp: map_of_filter_fst)
    qed
  qed (rule conflict_inv_frame[OF assms(1) ch]; force simp: transition_effect_def)+
qed

subsection \<open>History\<close>

lemma finite_dom_dict: "finite (dom (dict_get d))"
  by (rule finite_dom_map_of)

lemma fold_history_inv:
  assumes "history_inv s" "fold_event_with L contiguous s e = Inr s'"
  shows "history_inv s'"
  using assms(2)
proof (rule fold_event_with_ok)
  fix p s1
  assume f: "dict_get (p_event_scopes s) (e_event_id e) = None"
    "contiguous \<Longrightarrow> e_sequence e = p_sequence s + 1" "\<not> contiguous \<Longrightarrow> p_sequence s < e_sequence e"
    "s' = s1\<lparr> p_sequence := e_sequence e,
       p_event_scopes := dict_set (e_event_id e) (event_scope e) (p_event_scopes s),
       p_sequence_scopes := dict_set (e_sequence e) (event_scope e) (p_sequence_scopes s) \<rparr>"
  have lt: "p_sequence s < e_sequence e" using f(2,3) by (cases contiguous) auto
  with assms(1) have "e_sequence e \<notin> dom (dict_get (p_sequence_scopes s))"
    unfolding history_inv_def by (meson leD)
  moreover have "e_event_id e \<notin> dom (dict_get (p_event_scopes s))" using f(1) by auto
  moreover have "dom ((dict_get (p_event_scopes s))(e_event_id e \<mapsto> event_scope e))
      = insert (e_event_id e) (dom (dict_get (p_event_scopes s)))"
    "dom ((dict_get (p_sequence_scopes s))(e_sequence e \<mapsto> event_scope e))
      = insert (e_sequence e) (dom (dict_get (p_sequence_scopes s)))"
    by auto
  ultimately show ?thesis
    using assms(1) lt f(4) by (simp add: history_inv_def dict_simps finite_dom_dict) force
qed

subsection \<open>The whole invariant\<close>

lemma fold_projection_inv:
  assumes "projection_inv s" "fold_event_with L contiguous s e = Inr s'"
  shows "projection_inv s'"
  using assms(2)
proof (rule fold_event_with_ok)
  fix p s1
  assume f: "typed_payload L e = Inr p" "fold_operation L e p s = Inr s1"
    "s' = s1\<lparr> p_sequence := e_sequence e,
       p_event_scopes := dict_set (e_event_id e) (event_scope e) (p_event_scopes s),
       p_sequence_scopes := dict_set (e_sequence e) (event_scope e) (p_sequence_scopes s) \<rparr>"
  have "evidence_inv s1" "link_inv s1" "branch_inv s1 \<and> acyclic (parent_edges (p_branches s1))"
      "conflict_inv s1"
    using assms(1) fold_evidence_inv[OF _ f(2,1)] fold_link_inv[OF _ f(2,1)]
      fold_branch_inv[OF _ _ f(2,1)] fold_conflict_inv[OF _ f(2,1)]
    by (auto simp: projection_inv_def)
  then have "evidence_inv s'" "link_inv s'" "branch_inv s'" "acyclic (parent_edges (p_branches s'))"
      "conflict_inv s'"
    by (auto simp: f(3) evidence_inv_def link_inv_def branch_inv_def conflict_inv_def)
  with assms fold_memory_inv[OF _ assms(2)] fold_history_inv[OF _ assms(2)] show ?thesis
    by (auto simp: projection_inv_def)
qed

interpretation fold_inv: replay_invariant "fold_event L" projection_inv for L :: "'z library_scheme"
  by unfold_locales (auto simp: fold_event_def dest: fold_projection_inv)

lemma rebuild_inv: "rebuild L es = Inr s \<Longrightarrow> projection_inv s"
  unfolding rebuild_def by (rule fold_inv.replay_inv[OF projection_inv_empty])

end
