(* ===== verification/Samples.thy ===== *)
theory Samples
  imports Folding
begin

text \<open>
  A concrete event stream on which the theorems about replay are instantiated: a branch is
  created, an encrypted memory is remembered on it, hard-forgotten and purged, and a second
  branch is forked. The library record is instantiated by functions that satisfy the interface:
  the serialiser writes fixed bytes, the digest is constant and the field reader knows the five
  payloads by their number.
\<close>

definition sid :: "nat \<Rightarrow> uuid" where
  "sid n = of_nat (0x70008000000000000000 + n)"

definition sample_raw :: "utc \<Rightarrow> py_datetime" where
  "sample_raw t = \<lparr> dt_local = t, dt_utcoffset = Some 0 \<rparr>"

definition sample_branch :: "nat \<Rightarrow> uuid option \<Rightarrow> int option \<Rightarrow> 't \<Rightarrow> 't branch_state" where
  "sample_branch n parent fork t =
     \<lparr> br_branch_id = sid n, br_tenant_id = sid 30, br_lineage_id = sid 2, br_parent_branch_id = parent,
       br_fork_event_sequence = fork, br_name = lit ''main'', br_visibility_ceiling = RESTRICTED,
       br_created_at = t, br_sealed_at = None \<rparr>"

definition sample_memory :: "'t \<Rightarrow> 't \<Rightarrow> int \<Rightarrow> memory_status \<Rightarrow> content_protection \<Rightarrow> 't memory_state" where
  "sample_memory created updated revision status protection =
     \<lparr> m_memory_id = sid 10, m_tenant_id = sid 30, m_lineage_id = sid 2, m_branch_id = sid 3,
       m_subject_id = sid 5, m_subject_kind = SUBJ_GLOBAL, m_revision = revision,
       m_category = USER_PREFERENCE, m_ontological_status = LITERAL_USER_FACT, m_scope = SC_GLOBAL,
       m_visibility = PRIVATE_ROOT, m_status = status,
       m_statement = (if status = TOMBSTONED then None else Some (lit ''tea'')),
       m_reason_to_remember = (if status = TOMBSTONED then None else Some (lit ''asked'')),
       m_interpretation_limits = [], m_confidence = Dec False 0 0, m_salience = Dec False 0 0,
       m_durability = Dec False 0 0, m_sensitivity = 0, m_authority_class = EXPLICIT_USER_STATEMENT,
       m_valid_from = None, m_valid_to = None, m_observed_at = None, m_origin_session_id = None,
       m_publication_approved_at = None, m_publication_approved_by_actor_id = None,
       m_content_protection = protection, m_content_key_id = Some (sid 20), m_created_at = created,
       m_updated_at = updated, m_fingerprint_version = 1, m_normalized_fingerprint = None,
       m_metadata = [], m_class = MemoryStateV1 \<rparr>"

definition sample_payload :: "(utc \<Rightarrow> 't) \<Rightarrow> nat \<Rightarrow> 't operation_payload" where
  "sample_payload stamp n =
     [BranchCreatedPayload (sample_branch 3 None None (stamp 1000)),
      MemoryCreatedPayload (sample_memory (stamp 2000) (stamp 2000) 1 ACTIVE ENVELOPE_ENCRYPTED) [],
      TombstonedPayload 1 (sample_memory (stamp 2000) (stamp 3000) 2 TOMBSTONED ENVELOPE_ENCRYPTED) HARD,
      PayloadPurgeCompletedPayload 2
        (sample_memory (stamp 2000) (stamp 4000) 3 TOMBSTONED CRYPTOGRAPHICALLY_ERASED)
        (sid 20) (stamp 4000) (replicate 64 CHR ''0''),
      BranchCreatedPayload (sample_branch 4 (Some (sid 3)) (Some 1) (stamp 5000))] ! n"

definition sample_library :: library where
  "sample_library =
     \<lparr> rfc8785_dumps = (\<lambda>_. Some [1, 2, 3]), sha256 = (\<lambda>_. replicate 32 0),
       decimal_to_float = (\<lambda>d. FFinite (dec_normalize d)),
       pydantic_fields = (\<lambda>model obj. case obj of
           [(k, JInt i)] \<Rightarrow> if 1 \<le> i \<and> i \<le> 5 then Some (sample_payload sample_raw (nat i - 1)) else None
         | _ \<Rightarrow> None) \<rparr>"

definition sample_event :: "int \<Rightarrow> event_operation \<Rightarrow> nat \<Rightarrow> uuid option \<Rightarrow> int option \<Rightarrow> event" where
  "sample_event n operation branch memory_id expected_revision =
     \<lparr> e_schema_version = 1, e_payload_version = 1, e_sequence = n, e_event_id = sid (nat (100 + n)),
       e_tenant_id = sid 30, e_lineage_id = sid 2, e_branch_id = sid branch, e_actor_id = sid 6,
       e_client_id = sid 7, e_transport_binding_id = sid 8, e_session_id = None, e_ingress_id = None,
       e_operation = operation, e_memory_id = memory_id, e_expected_revision = expected_revision,
       e_causation_event_id = None, e_correlation_id = sid 9, e_idempotency_key = lit ''k'',
       e_policy_version = 1, e_normalization_version = 1, e_payload = [(lit ''n'', JInt n)],
       e_payload_canonical = ''AQID'', e_payload_sha256 = replicate 64 CHR ''0'',
       e_command_sha256 = replicate 64 CHR ''0'', e_created_at = 1000 * n \<rparr>"

definition sample_events :: "event list" where
  "sample_events =
     [sample_event 1 OP_BRANCH_CREATED 3 None None,
      sample_event 2 OP_REMEMBERED 3 (Some (sid 10)) None,
      sample_event 3 OP_TOMBSTONED 3 (Some (sid 10)) (Some 1),
      sample_event 4 OP_PAYLOAD_PURGE_COMPLETED 3 (Some (sid 10)) (Some 2),
      sample_event 5 OP_BRANCH_CREATED 4 None None]"

subsection \<open>Evaluation\<close>

lemma sid_uuid7:
  "is_uuid7 (sid 30)" "is_uuid7 (sid 2)" "is_uuid7 (sid 3)" "is_uuid7 (sid 4)" "is_uuid7 (sid 5)"
  "is_uuid7 (sid 10)" "is_uuid7 (sid 20)"
  by (simp_all add: sid_def is_uuid7_def uuid_version_def uuid_variant_def)

lemma sid_eq [simp]: "n < 10000 \<Longrightarrow> k < 10000 \<Longrightarrow> sid n = sid k \<longleftrightarrow> n = k"
  by (simp add: sid_def word_of_nat_eq_iff take_bit_nat_eq_self)

lemma sample_time: "0 \<le> t \<Longrightarrow> t < 100000 \<Longrightarrow> utc_field n (sample_raw t) = Inr t"
  by (simp add: utc_field_def sample_raw_def normalize_utc_datetime_def MAX_DATETIME_def
      MICROSECONDS_PER_DAY_def)

lemma sample_score: "normalize_unit_score (Dec False 0 0) = Inr (Dec False 0 0)"
  by (simp add: normalize_unit_score_def scale10_def MAX_SCORE_DECIMAL_PLACES_def
        strip_zeros.simps Let_def)

lemma sample_memory_valid:
  assumes "0 \<le> c" "c \<le> u" "u < 100000" "1 \<le> r" "r < 100" "st \<in> {ACTIVE, TOMBSTONED}"
    "pr = ENVELOPE_ENCRYPTED \<or> pr = CRYPTOGRAPHICALLY_ERASED \<and> st = TOMBSTONED"
  shows "validate_memory (sample_memory (sample_raw c) (sample_raw u) r st pr) = Inr (sample_memory c u r st pr)"
  using assms
  by (auto simp: validate_memory_def sample_memory_def memory_field_constraints_def memory_uuid7_fields_def
      memory_normalize_def memory_model_validators_def validate_state_shape_def scope_shape_def
      validate_candidate_expiry_def normalize_candidate_expiry_def utc_field_opt_def uuid7_field_def
      sample_time sample_score sid_uuid7 require_uuid7_def safe_positive_def str_between_def
      validate_category_ontology_def validity_inverted_def empty_text_def Let_def lit_def)

lemma sample_branch_valid:
  assumes "0 \<le> t" "t < 100000" "n = 3 \<and> parent = None \<and> fork = None \<or>
    n = 4 \<and> parent = Some (sid 3) \<and> fork = Some 1"
  shows "validate_branch (sample_branch n parent fork (sample_raw t)) = Inr (sample_branch n parent fork t)"
  using assms
  by (auto simp: validate_branch_def sample_branch_def utc_field_opt_def uuid7_field_def sample_time
      sid_uuid7 require_uuid7_def safe_positive_def str_between_def opt_all_def lit_def)

lemma sample_fields:
  "1 \<le> n \<Longrightarrow> n \<le> 5 \<Longrightarrow>
   pydantic_fields sample_library model [(k, JInt n)] = Some (sample_payload sample_raw (nat n - 1))"
  by (simp add: sample_library_def)

lemma sample_models:
  "map_of PAYLOAD_MODELS (OP_BRANCH_CREATED, 1, 1) = Some PM_BranchCreated"
  "map_of PAYLOAD_MODELS (OP_REMEMBERED, 1, 1) = Some PM_MemoryCreated"
  "map_of PAYLOAD_MODELS (OP_TOMBSTONED, 1, 1) = Some PM_Tombstoned"
  "map_of PAYLOAD_MODELS (OP_PAYLOAD_PURGE_COMPLETED, 1, 1) = Some PM_PayloadPurgeCompleted"
  by (simp_all add: PAYLOAD_MODELS_def)

lemma sample_state_version [simp]: "state_version (sample_memory c u r st pr) = 1"
  by (simp add: state_version_def sample_memory_def)

lemma sample_event_select [simp]:
  "e_operation (sample_event n op b m r) = op" "e_schema_version (sample_event n op b m r) = 1"
  "e_payload_version (sample_event n op b m r) = 1" "e_sequence (sample_event n op b m r) = n"
  "e_payload (sample_event n op b m r) = [(lit ''n'', JInt n)]"
  "e_memory_id (sample_event n op b m r) = m" "e_expected_revision (sample_event n op b m r) = r"
  "e_tenant_id (sample_event n op b m r) = sid 30" "e_lineage_id (sample_event n op b m r) = sid 2"
  "e_branch_id (sample_event n op b m r) = sid b"
  "e_event_id (sample_event n op b m r) = sid (nat (100 + n))"
  "e_causation_event_id (sample_event n op b m r) = None"
  "e_created_at (sample_event n op b m r) = 1000 * n"
  "e_payload_canonical (sample_event n op b m r) = ''AQID''"
  "e_payload_sha256 (sample_event n op b m r) = replicate 64 CHR ''0''"
  "e_command_sha256 (sample_event n op b m r) = replicate 64 CHR ''0''"
  by (simp_all add: sample_event_def)

lemma sample_digest:
  "hex_digest_ok (replicate 64 CHR ''0'')" "bytes_hex (replicate 32 0) = replicate 64 CHR ''0''"
  "b64decode ''AQID'' = Inr [1, 2, 3]"
  by code_simp+

lemma sample_payload_validates:
  assumes "n < 5"
  shows "validate_payload (sample_payload sample_raw n) = Inr (sample_payload id n)"
proof -
  from assms have "n = 0 \<or> n = 1 \<or> n = 2 \<or> n = 3 \<or> n = 4" by linarith
  then show ?thesis
    by (elim disjE) (simp_all add: sample_payload_def sample_memory_valid sample_branch_valid
      uuid7_field_def sid_uuid7 require_uuid7_def sample_time validate_transition_def safe_positive_def
      sample_digest)
qed

lemma sample_typed_payload:
  "typed_payload sample_library (sample_event 1 OP_BRANCH_CREATED b m r) = Inr (sample_payload id 0)"
  "typed_payload sample_library (sample_event 2 OP_REMEMBERED b m r) = Inr (sample_payload id 1)"
  "typed_payload sample_library (sample_event 3 OP_TOMBSTONED b m r) = Inr (sample_payload id 2)"
  "typed_payload sample_library (sample_event 4 OP_PAYLOAD_PURGE_COMPLETED b m r) = Inr (sample_payload id 3)"
  "typed_payload sample_library (sample_event 5 OP_BRANCH_CREATED b m r) = Inr (sample_payload id 4)"
  by (simp_all add: typed_payload_def sample_models model_validate_def sample_fields
      sample_payload_validates validated_def) (simp_all add: sample_payload_def)

lemma sample_canonical:
  assumes "normalize_json_value sample_library MAX_CANONICAL_JSON_DEPTH v = Inr j"
  shows "canonical_json_bytes sample_library v = Inr [1, 2, 3]"
  using assms by (simp add: canonical_json_bytes_def sample_library_def)

lemma sample_integer: "0 \<le> i \<Longrightarrow> i < 100000 \<Longrightarrow> normalize_integer i = Inr i"
  by (simp add: normalize_integer_def MAX_IJSON_INTEGER_def)

lemma sample_decimal: "normalize_decimal L (Dec False 0 0) = Inr (JInt 0)"
  by code_simp

lemma sample_py_utc:
  "0 \<le> t \<Longrightarrow> t < 100000 \<Longrightarrow> d \<le> m \<Longrightarrow>
   normalize L m active d (py_utc t) = Inr (JStr (lit (format_utc t)))"
  by (simp add: py_utc_def normalize.simps format_utc_datetime_def normalize_utc_datetime_def
      MAX_DATETIME_def MICROSECONDS_PER_DAY_def)

lemma sample_memory_dump:
  assumes "0 \<le> c" "c < 100000" "0 \<le> u" "u < 100000" "1 \<le> r" "r < 100"
  shows "\<exists>j. normalize L 64 [0] 1 (memory_dump 1 (sample_memory c u r st pr)) = Inr j"
  using assms
  by (simp add: memory_dump_def sample_memory_def key_of_def py_opt_def sample_integer sample_decimal
      sample_py_utc normalize.simps[of _ _ _ _ "PyMapping _ _"] normalize.simps[of _ _ _ _ "PySequence _ _"])

lemma sample_branch_dump:
  assumes "0 \<le> t" "t < 100000" "opt_all (\<lambda>f. f = 1) fork"
  shows "\<exists>j. normalize L 64 [0] 1 (branch_dump 1 (sample_branch n parent fork t)) = Inr j"
  using assms
  by (cases parent; cases fork) (simp_all add: branch_dump_def sample_branch_def key_of_def py_opt_def
      sample_integer sample_py_utc opt_all_def)

lemma sample_payload_dump:
  assumes "n < 5"
  shows "\<exists>j. normalize_json_value L MAX_CANONICAL_JSON_DEPTH (payload_dump (sample_payload id n)) = Inr j"
proof -
  have m: "\<exists>j. normalize L 64 [0] 1 (memory_dump (Suc 0) (sample_memory 2000 u r st pr)) = Inr j"
    if "u \<in> {2000, 3000, 4000}" "r \<in> {1, 2, 3}" for u r st pr
    using sample_memory_dump[of 2000 u r L st pr] that by auto
  have b: "\<exists>j. normalize L 64 [0] 1 (branch_dump (Suc 0) (sample_branch k None None 1000)) = Inr j"
    "\<exists>j. normalize L 64 [0] 1 (branch_dump (Suc 0) (sample_branch k (Some p) (Some 1) 5000)) = Inr j" for k p
    using sample_branch_dump[of 1000 None L k None] sample_branch_dump[of 5000 "Some 1" L k "Some p"]
    by (simp_all add: opt_all_def)
  from assms have "n = 0 \<or> n = 1 \<or> n = 2 \<or> n = 3 \<or> n = 4" by linarith
  then show ?thesis using m[of 2000 1] m[of 3000 2] m[of 4000 3] b
    by (elim disjE) (auto simp: sample_payload_def normalize_json_value_def MAX_CANONICAL_JSON_DEPTH_def
        key_of_def sample_integer sample_py_utc normalize.simps[of _ _ _ _ "PySequence _ _"] ok_simps
        split: sum.splits)
qed

lemma sample_command:
  assumes "1 \<le> n" "n \<le> 5" "opt_all (\<lambda>i. 0 \<le> i \<and> i < 10) r"
  shows "\<exists>j. normalize_json_value L MAX_CANONICAL_JSON_DEPTH (command_material (sample_event n op b m r)) = Inr j"
  using assms
  by (cases m; cases r) (simp_all add: command_material_def command_object_def normalize_json_value_def
      MAX_CANONICAL_JSON_DEPTH_def key_of_def py_opt_def sample_integer opt_all_def
      normalize.simps[of _ _ _ _ "PyMapping _ _"])

lemma sample_verify:
  assumes "typed_payload sample_library (sample_event n op b m r) = Inr (sample_payload id k)" "k < 5"
    "1 \<le> n" "n \<le> 5" "opt_all (\<lambda>i. 0 \<le> i \<and> i < 10) r"
  shows "verify_hashes sample_library (sample_event n op b m r) = Inr ()"
proof -
  have "sha256_hexdigest sample_library x = replicate 64 CHR ''0''" for x
    unfolding sha256_hexdigest_def by (simp only: sample_library_def library.simps codec.simps sample_digest)
  then show ?thesis unfolding verify_hashes_ok
    using assms(1) sample_payload_dump[OF assms(2), of sample_library, THEN exE]
      sample_command[OF assms(3,4,5), of sample_library op b m, THEN exE] sample_canonical
    by (metis sample_event_select(14,15,16) sample_digest(3))
qed

subsection \<open>Replaying the stream\<close>

definition sample_scope :: "nat \<Rightarrow> scope_key" where
  "sample_scope b = (sid 30, sid 2, sid b)"

definition sample_projection :: "nat \<Rightarrow> projection_state" where
  "sample_projection n =
     \<lparr> p_sequence = int n,
       p_memories =
         (if n < 2 then []
          else [(sid 10, if n = 2 then sample_memory 2000 2000 1 ACTIVE ENVELOPE_ENCRYPTED
                else if n = 3 then sample_memory 2000 3000 2 TOMBSTONED ENVELOPE_ENCRYPTED
                else sample_memory 2000 4000 3 TOMBSTONED CRYPTOGRAPHICALLY_ERASED)]),
       p_evidence = [], p_links = [], p_conflicts = [], p_conflict_members = [],
       p_branches = take (if n = 0 then 0 else if n < 5 then 1 else 2)
         [(sid 3, sample_branch 3 None None 1000), (sid 4, sample_branch 4 (Some (sid 3)) (Some 1) 5000)],
       p_event_scopes = take n
         [(sid 101, sample_scope 3), (sid 102, sample_scope 3), (sid 103, sample_scope 3),
          (sid 104, sample_scope 3), (sid 105, sample_scope 4)],
       p_sequence_scopes = take n
         [(1, sample_scope 3), (2, sample_scope 3), (3, sample_scope 3), (4, sample_scope 3),
          (5, sample_scope 4)] \<rparr>"

lemma sample_verified:
  "verify_hashes sample_library (sample_event 1 OP_BRANCH_CREATED b m None) = Inr ()"
  "verify_hashes sample_library (sample_event 2 OP_REMEMBERED b m None) = Inr ()"
  "verify_hashes sample_library (sample_event 3 OP_TOMBSTONED b m (Some 1)) = Inr ()"
  "verify_hashes sample_library (sample_event 4 OP_PAYLOAD_PURGE_COMPLETED b m (Some 2)) = Inr ()"
  "verify_hashes sample_library (sample_event 5 OP_BRANCH_CREATED b m None) = Inr ()"
  by (rule sample_verify[OF sample_typed_payload(1)] sample_verify[OF sample_typed_payload(2)]
      sample_verify[OF sample_typed_payload(3)] sample_verify[OF sample_typed_payload(4)]
      sample_verify[OF sample_typed_payload(5)]; simp add: opt_all_def)+

lemma sample_memory_select [simp]:
  "m_memory_id (sample_memory c u r st pr) = sid 10" "m_tenant_id (sample_memory c u r st pr) = sid 30"
  "m_lineage_id (sample_memory c u r st pr) = sid 2" "m_branch_id (sample_memory c u r st pr) = sid 3"
  "m_revision (sample_memory c u r st pr) = r" "m_status (sample_memory c u r st pr) = st"
  "m_created_at (sample_memory c u r st pr) = c" "m_updated_at (sample_memory c u r st pr) = u"
  "m_content_protection (sample_memory c u r st pr) = pr"
  "m_content_key_id (sample_memory c u r st pr) = Some (sid 20)"
  "m_class (sample_memory c u r st pr) = MemoryStateV1"
  "m_visibility (sample_memory c u r st pr) = PRIVATE_ROOT"
  "m_subject_id (sample_memory c u r st pr) = sid 5"
  by (simp_all add: sample_memory_def)

lemma sample_branch_select [simp]:
  "br_branch_id (sample_branch n p f t) = sid n" "br_tenant_id (sample_branch n p f t) = sid 30"
  "br_lineage_id (sample_branch n p f t) = sid 2" "br_parent_branch_id (sample_branch n p f t) = p"
  "br_fork_event_sequence (sample_branch n p f t) = f" "br_created_at (sample_branch n p f t) = t"
  "br_visibility_ceiling (sample_branch n p f t) = RESTRICTED"
  by (simp_all add: sample_branch_def)

lemmas sample_fold_simps =
  fold_event_def fold_event_with_def check_sequence_def check_envelope_def check_event_branch_def
  check_causation_def check_payload_visibility_def mk_projection_def event_scope_def sample_scope_def
  validate_event_envelope_shape_def CREATE_OPERATIONS_def TRANSITION_OPERATIONS_def
  EVIDENCE_OPERATIONS_def AGGREGATE_OPERATIONS_def sample_typed_payload sample_verified fold_operation_def
  check_target_def check_scoped_after_image_def sealed_content_def is_v3_def
  memory_scope_key_def branch_scope_key_def validate_branch_visibility_def
  sample_projection_def sample_payload_def replace_memory_def check_revision_def
  check_sealed_identity_def

lemma sample_fold_1:
  "fold_event sample_library empty_projection (sample_event 1 OP_BRANCH_CREATED 3 None None)
     = Inr (sample_projection 1)"
  by (simp add: sample_fold_simps empty_projection_def create_branch_def check_fork_def)

lemma sample_fold_2:
  "fold_event sample_library (sample_projection 1) (sample_event 2 OP_REMEMBERED 3 (Some (sid 10)) None)
     = Inr (sample_projection 2)"
  by (simp add: sample_fold_simps create_memory_def)

lemma sample_fold_3:
  "fold_event sample_library (sample_projection 2) (sample_event 3 OP_TOMBSTONED 3 (Some (sid 10)) (Some 1))
     = Inr (sample_projection 3)"
  by (simp add: sample_fold_simps fold_tombstoned_def)

lemma sample_fold_4:
  "fold_event sample_library (sample_projection 3)
     (sample_event 4 OP_PAYLOAD_PURGE_COMPLETED 3 (Some (sid 10)) (Some 2)) = Inr (sample_projection 4)"
  by (simp add: sample_fold_simps fold_purge_completed_def)

lemma sample_fold_5:
  "fold_event sample_library (sample_projection 4) (sample_event 5 OP_BRANCH_CREATED 4 None None)
     = Inr (sample_projection 5)"
  by (simp add: sample_fold_simps create_branch_def check_fork_def)

lemma sample_rebuild:
  "rebuild sample_library (take 2 sample_events) = Inr (sample_projection 2)"
  "rebuild sample_library (take 3 sample_events) = Inr (sample_projection 3)"
  "rebuild sample_library (take 4 sample_events) = Inr (sample_projection 4)"
  "rebuild sample_library sample_events = Inr (sample_projection 5)"
  by (simp_all add: rebuild_def sample_events_def sample_fold_1 sample_fold_2 sample_fold_3
      sample_fold_4 sample_fold_5 del: One_nat_def)

lemma sample_dict:
  "dict_get (p_memories (sample_projection 4)) (sid 10) =
     Some (sample_memory 2000 4000 3 TOMBSTONED CRYPTOGRAPHICALLY_ERASED)"
  "dict_get (p_memories (sample_projection 3)) (sid 10) =
     Some (sample_memory 2000 3000 2 TOMBSTONED ENVELOPE_ENCRYPTED)"
  by (simp_all add: sample_projection_def)

text \<open>
  An event that carries the object the hash fields were computed for. Its reader answers the one
  typed payload for every object.
\<close>

definition sample_hash_library :: library where
  "sample_hash_library = sample_library\<lparr> pydantic_fields := (\<lambda>_ _. Some (sample_payload sample_raw 0)) \<rparr>"

definition sample_hash_object :: json_object where
  "sample_hash_object =
     [(lit ''branch'', JObj
        [(lit ''branch_id'', JStr (lit (uuid_str (sid 3)))), (lit ''tenant_id'', JStr (lit (uuid_str (sid 30)))),
         (lit ''lineage_id'', JStr (lit (uuid_str (sid 2)))), (lit ''parent_branch_id'', JNull),
         (lit ''fork_event_sequence'', JNull), (lit ''name'', JStr (lit ''main'')),
         (lit ''visibility_ceiling'', JStr (lit (memory_visibility_value RESTRICTED))),
         (lit ''created_at'', JStr (lit (format_utc 1000))), (lit ''sealed_at'', JNull)])]"

definition sample_hash_event :: event where
  "sample_hash_event = (sample_event 1 OP_BRANCH_CREATED 3 None None)\<lparr> e_payload := sample_hash_object \<rparr>"

lemma sample_hash_value:
  "canonical_value sample_hash_library (payload_dump (sample_payload id 0)) = Inr (JObj sample_hash_object)"
  by (simp add: canonical_value_def sample_payload_def sample_hash_object_def normalize_json_value_def
      MAX_CANONICAL_JSON_DEPTH_def key_of_def branch_dump_def sample_branch_def py_opt_def sample_py_utc)

lemma sample_hash_command:
  "\<exists>j. normalize_json_value L MAX_CANONICAL_JSON_DEPTH (command_material sample_hash_event) = Inr j"
  by (simp add: command_material_def command_object_def sample_hash_event_def sample_hash_object_def
      normalize_json_value_def MAX_CANONICAL_JSON_DEPTH_def key_of_def py_opt_def sample_integer
      normalize.simps[of _ _ _ _ "PyMapping _ _"])

lemma sample_hash_bytes:
  assumes "normalize_json_value sample_hash_library MAX_CANONICAL_JSON_DEPTH v = Inr j"
  shows "canonical_json_bytes sample_hash_library v = Inr [1, 2, 3]"
  using assms by (simp add: canonical_json_bytes_def sample_hash_library_def sample_library_def)

lemma sample_hash_fields:
  "event_hash_fields sample_hash_library (e_operation sample_hash_event) (sample_payload id 0)
     (e_tenant_id sample_hash_event) (e_lineage_id sample_hash_event) (e_branch_id sample_hash_event)
     (e_actor_id sample_hash_event) (e_client_id sample_hash_event) (e_memory_id sample_hash_event)
     (e_expected_revision sample_hash_event) (e_causation_event_id sample_hash_event)
     (e_payload_version sample_hash_event)
   = Inr (e_payload sample_hash_event, e_payload_canonical sample_hash_event,
       e_payload_sha256 sample_hash_event, e_command_sha256 sample_hash_event)"
proof -
  obtain j where j: "normalize_json_value sample_hash_library MAX_CANONICAL_JSON_DEPTH
      (command_material sample_hash_event) = Inr j"
    using sample_hash_command by blast
  have d: "sha256_hexdigest sample_hash_library x = replicate 64 CHR ''0''" for x
    unfolding sha256_hexdigest_def
    by (simp only: sample_hash_library_def sample_library_def library.simps codec.simps sample_digest)
  have b: "b64encode [1, 2, 3] = ''AQID''" by code_simp
  have p: "e_payload sample_hash_event = sample_hash_object"
    by (simp add: sample_hash_event_def)
  show ?thesis
    using j sample_hash_bytes[OF j] sample_hash_value canonical_json_bytes_normalized[OF j]
      canonical_json_bytes_normalized[OF sample_hash_value[unfolded canonical_value_def]]
      sample_hash_bytes[OF sample_hash_value[unfolded canonical_value_def]]
    by (simp add: event_hash_fields_def command_material_def p d b)
      (simp add: sample_hash_event_def b[simplified])
qed

lemma sample_hash_typed: "typed_payload sample_hash_library sample_hash_event = Inr (sample_payload id 0)"
  by (simp add: typed_payload_def sample_hash_event_def sample_hash_library_def sample_models
      model_validate_def sample_payload_validates validated_def) (simp add: sample_payload_def)

theorem event_hash_fields_verify_witness:
  "verify_hashes sample_hash_library sample_hash_event = Inr ()"
  by (rule event_hash_fields_verify[OF sample_hash_fields sample_hash_typed])

theorem verify_hashes_binding_witness:
  "\<exists>p1 p2 b1 b2 c1 c2. typed_payload sample_library (sample_events ! 0) = Inr p1 \<and>
     typed_payload sample_library (sample_events ! 0) = Inr p2 \<and>
     canonical_json_bytes sample_library (payload_dump p1) = Inr b1 \<and>
     canonical_json_bytes sample_library (payload_dump p2) = Inr b2 \<and>
     b64decode (e_payload_canonical (sample_events ! 0)) = Inr b1 \<and>
     b64decode (e_payload_canonical (sample_events ! 0)) = Inr b2 \<and>
     canonical_json_bytes sample_library (command_material (sample_events ! 0)) = Inr c1 \<and>
     canonical_json_bytes sample_library (command_material (sample_events ! 0)) = Inr c2 \<and>
     sha256 sample_library b1 = sha256 sample_library b2 \<and>
     sha256 sample_library c1 = sha256 sample_library c2"
  by (rule verify_hashes_binding) (simp_all add: sample_events_def sample_verified)

end
