(* ===== verification/Replay.thy ===== *)
theory Replay
  imports Fold_Invariants Samples
begin

text \<open>
  Consequences of the step lemmas and of the invariant for whole replays: how memories evolve,
  what a rebuilt projection satisfies, which rows an event may touch, that internal assertions
  and lookups of the fold cannot fail, and that the tenant boundary check of a tenant replay
  never fires.
\<close>

subsection \<open>Evolution of memories over a replay\<close>

definition same_identity :: "memory \<Rightarrow> memory \<Rightarrow> bool" where
  "same_identity m m' \<longleftrightarrow> m_memory_id m' = m_memory_id m \<and> memory_scope_key m' = memory_scope_key m \<and>
     m_subject_id m' = m_subject_id m \<and> m_created_at m' = m_created_at m \<and>
     is_v3 m' = is_v3 m \<and> sealed_content m' = sealed_content m \<and>
     (is_v3 m \<longrightarrow> m_content_key_id m' = m_content_key_id m)"

definition evolves :: "memory \<Rightarrow> memory \<Rightarrow> bool" where
  "evolves m m' \<longleftrightarrow> same_identity m m' \<and> (m' = m \<or> m_revision m < m_revision m') \<and>
     (m_status m = TOMBSTONED \<longrightarrow> m_status m' = TOMBSTONED) \<and>
     (m_status m' = CANDIDATE \<longrightarrow> m_status m = CANDIDATE) \<and>
     (m_status m \<in> {SUPERSEDED, RETIRED} \<longrightarrow> m_status m' \<in> {m_status m, TOMBSTONED})"

lemma evolves_refl: "evolves m m"
  by (auto simp: evolves_def same_identity_def)

lemma same_identity_trans: "same_identity a b \<Longrightarrow> same_identity b c \<Longrightarrow> same_identity a c"
  by (simp add: same_identity_def)

lemma evolves_trans:
  assumes "evolves a b" "evolves b c"
  shows "evolves a c"
proof -
  have "same_identity a c"
    using assms same_identity_trans unfolding evolves_def by blast
  moreover have "c = a \<or> m_revision a < m_revision c"
    using assms unfolding evolves_def by (metis order.strict_trans)
  moreover have "(m_status a = TOMBSTONED \<longrightarrow> m_status c = TOMBSTONED) \<and>
     (m_status c = CANDIDATE \<longrightarrow> m_status a = CANDIDATE) \<and>
     (m_status a \<in> {SUPERSEDED, RETIRED} \<longrightarrow> m_status c \<in> {m_status a, TOMBSTONED})"
    using assms unfolding evolves_def by (cases "m_status a"; cases "m_status b") simp_all
  ultimately show ?thesis unfolding evolves_def by blast
qed

lemma sealed_content_None: "\<not> is_v3 m \<Longrightarrow> sealed_content m = None"
  by (auto simp: is_v3_def sealed_content_def split: state_class.splits)

lemma status_edge_order:
  assumes "status_edge op s t"
  shows "(s = TOMBSTONED \<longrightarrow> t = TOMBSTONED) \<and> (t = CANDIDATE \<longrightarrow> s = CANDIDATE) \<and>
    (s \<in> {SUPERSEDED, RETIRED} \<longrightarrow> t \<in> {s, TOMBSTONED})"
  using assms
proof (cases rule: status_edge.cases)
  case revised
  then show ?thesis by (cases s) auto
qed auto

lemma stepped_evolves:
  assumes "revises e m m'" "status_edge op (m_status m) (m_status m')"
  shows "evolves m m'"
proof -
  have "same_identity m m'"
    using assms(1) sealed_content_None[of m] sealed_content_None[of m']
    by (cases "is_v3 m") (simp_all add: same_identity_def revises_def)
  moreover have "m_revision m < m_revision m'" using assms(1) by (simp add: revises_def)
  ultimately show ?thesis using status_edge_order[OF assms(2)] unfolding evolves_def by blast
qed

lemma memory_change_evolves:
  assumes "memory_change e (Some m) x"
  shows "\<exists>m'. x = Some m' \<and> evolves m m'"
  using assms by (rule memory_change_SomeE) (auto intro: evolves_refl stepped_evolves)

definition projection_evolves :: "projection_state \<Rightarrow> projection_state \<Rightarrow> bool" where
  "projection_evolves s s' \<longleftrightarrow>
     (\<forall>i m. dict_get (p_memories s) i = Some m \<longrightarrow>
        (\<exists>m'. dict_get (p_memories s') i = Some m' \<and> evolves m m')) \<and>
     (\<forall>i b. dict_get (p_branches s) i = Some b \<longrightarrow> dict_get (p_branches s') i = Some b)"

lemma projection_evolves_trans:
  "projection_evolves s t \<Longrightarrow> projection_evolves t u \<Longrightarrow> projection_evolves s u"
  unfolding projection_evolves_def by (meson evolves_trans)

lemma fold_event_branches:
  assumes "fold_event_with L contiguous s e = Inr s'" "dict_get (p_branches s) i = Some b"
  shows "dict_get (p_branches s') i = Some b"
  using assms(1)
proof (rule fold_event_with_ok)
  fix p s1
  assume f: "fold_operation L e p s = Inr s1" "e_operation e \<in> set (payload_operations p)"
    "s' = s1\<lparr> p_sequence := e_sequence e,
       p_event_scopes := dict_set (e_event_id e) (event_scope e) (p_event_scopes s),
       p_sequence_scopes := dict_set (e_sequence e) (event_scope e) (p_sequence_scopes s) \<rparr>"
  from fold_operation_branches[OF f(1,2) assms(2)] f(3) show ?thesis by simp
qed

lemma fold_event_evolves:
  assumes "fold_event_with L contiguous s e = Inr s'"
  shows "projection_evolves s s'"
  unfolding projection_evolves_def
proof (intro conjI allI impI)
  fix i m assume "dict_get (p_memories s) i = Some m"
  with fold_event_change[OF assms, of i]
  show "\<exists>m'. dict_get (p_memories s') i = Some m' \<and> evolves m m'"
    by (simp add: memory_change_evolves)
qed (rule fold_event_branches[OF assms])

lemma projection_evolves_refl: "projection_evolves s s"
  by (simp add: projection_evolves_def evolves_refl)

interpretation fold_history:
  replay_relation "fold_event L" projection_inv projection_evolves for L :: "'z library_scheme"
proof
  show "projection_inv s'" if "projection_inv s" "fold_event L s e = Inr s'" for s e s'
    using that unfolding fold_event_def by (rule fold_projection_inv)
  show "projection_evolves s s'" if "fold_event L s e = Inr s'" for s e s'
    using that unfolding fold_event_def by (rule fold_event_evolves)
  show "projection_evolves s u" if "projection_evolves s t" "projection_evolves t u" for s t u
    using that by (rule projection_evolves_trans)
qed (rule projection_evolves_refl)

text \<open>
  C4. Along any accepted continuation of an accepted event stream no memory is lost and each
  memory evolves: its identifier, tenant, lineage, branch, subject, creation time and sealed
  envelope never change; either nothing changed or its revision grew, so equal revisions mean
  equal content; a tombstone stays a tombstone, a superseded or retired memory can only become a
  tombstone, and no memory becomes a candidate again. Branches never change.
\<close>

theorem rebuild_evolves:
  assumes "rebuild L es = Inr s" "rebuild L (es @ fs) = Inr s'"
  shows "projection_evolves s s'"
proof -
  from assms have "replay (fold_event L) s fs = Inr s'"
    by (simp add: rebuild_def replay_append)
  then show ?thesis
    using fold_history.replay_rel rebuild_inv[OF assms(1)] by blast
qed

theorem rebuild_evolves_witness: "projection_evolves (sample_projection 2) (sample_projection 4)"
  using rebuild_evolves[of sample_library "take 2 sample_events" "sample_projection 2"
      "take 2 (drop 2 sample_events)" "sample_projection 4"] sample_rebuild
  by (simp add: sample_events_def)

text \<open>
  C1. Refinement of the fold to the memory lifecycle: whatever event is accepted in whatever state,
  under every memory identifier the projection either is unchanged, or gains a memory created by
  this event at revision one with an initial status of its operation, or holds the next revision
  of the same memory, reached along an edge of the lifecycle that belongs to the operation.
\<close>

theorem fold_event_refines_lifecycle:
  assumes "fold_event L s e = Inr s'"
  shows "memory_change e (dict_get (p_memories s) i) (dict_get (p_memories s') i)"
  using assms by (simp add: fold_event_def fold_event_change)

theorem fold_event_refines_lifecycle_witness:
  "memory_change (sample_event 3 OP_TOMBSTONED 3 (Some (sid 10)) (Some 1))
     (dict_get (p_memories (sample_projection 2)) (sid 10))
     (dict_get (p_memories (sample_projection 3)) (sid 10))"
  by (rule fold_event_refines_lifecycle[OF sample_fold_3])

text \<open>
  C2. A projection rebuilt from any accepted stream satisfies the whole invariant. In particular
  every stored memory passes the validators of its class, lives on an existing branch of its own
  tenant and lineage and does not exceed that branch's visibility ceiling; every evidence item
  belongs to a memory that is not a tombstone; links join two different existing memories;
  every conflict has two distinct members whose memories carry its subject.
\<close>

theorem rebuild_projection_inv:
  assumes "rebuild L es = Inr s"
  shows "memory_inv s \<and> evidence_inv s \<and> link_inv s \<and> conflict_inv s"
  using rebuild_inv[OF assms] by (simp add: projection_inv_def)

theorem rebuild_projection_inv_witness:
  "memory_inv (sample_projection 5) \<and> evidence_inv (sample_projection 5) \<and>
   link_inv (sample_projection 5) \<and> conflict_inv (sample_projection 5)"
  by (rule rebuild_projection_inv[OF sample_rebuild(4)])

text \<open>
  C37. A forgotten memory keeps no content: in every rebuilt projection a tombstoned memory has no
  statement, no reason, no interpretation limits and no fingerprint, and no evidence refers to it.
\<close>

theorem rebuild_tombstone_clean:
  assumes "rebuild L es = Inr s" "dict_get (p_memories s) i = Some m" "m_status m = TOMBSTONED"
  shows "m_statement m = None \<and> m_reason_to_remember m = None \<and> m_interpretation_limits m = [] \<and>
    m_normalized_fingerprint m = None \<and>
    (\<forall>k x. dict_get (p_evidence s) k = Some x \<longrightarrow> ev_memory_id x \<noteq> i)"
proof -
  have inv: "memory_inv s" "evidence_inv s"
    using rebuild_inv[OF assms(1)] by (auto simp: projection_inv_def)
  then have "valid_memory m" using assms(2) by (auto simp: memory_inv_def)
  moreover have "ev_memory_id x \<noteq> i" if "dict_get (p_evidence s) k = Some x" for k x
    using inv(2) that assms(2,3) unfolding evidence_inv_def by fastforce
  ultimately show ?thesis using valid_tombstone_sanitized assms(3) by blast
qed

theorem rebuild_tombstone_clean_witness:
  "m_statement (sample_memory 2000 3000 2 TOMBSTONED ENVELOPE_ENCRYPTED :: memory) = None \<and>
   m_reason_to_remember (sample_memory 2000 3000 2 TOMBSTONED ENVELOPE_ENCRYPTED :: memory) = None"
  using rebuild_tombstone_clean[OF sample_rebuild(2) sample_dict(2)] by simp

text \<open>
  The branches of a rebuilt projection form a forest: the parent relation has no cycle, and
  every parent is a recorded branch of the same tenant and lineage.
\<close>

theorem rebuild_branch_forest:
  assumes "rebuild L es = Inr s"
  shows "acyclic (parent_edges (p_branches s)) \<and>
    (\<forall>i b j. dict_get (p_branches s) i = Some b \<longrightarrow> br_parent_branch_id b = Some j \<longrightarrow>
       (\<exists>p. dict_get (p_branches s) j = Some p \<and> br_tenant_id p = br_tenant_id b \<and>
          br_lineage_id p = br_lineage_id b))"
  using rebuild_inv[OF assms] unfolding projection_inv_def branch_inv_def by blast

theorem rebuild_branch_forest_witness: "acyclic (parent_edges (p_branches (sample_projection 5)))"
  using rebuild_branch_forest[OF sample_rebuild(4)] by blast

subsection \<open>The recorded history\<close>

definition causes_precede :: "event list \<Rightarrow> bool" where
  "causes_precede es \<longleftrightarrow>
     (\<forall>i < length es. \<forall>c. e_causation_event_id (es ! i) = Some c \<longrightarrow>
        (\<exists>j < i. e_event_id (es ! j) = c \<and> e_tenant_id (es ! j) = e_tenant_id (es ! i) \<and>
           e_lineage_id (es ! j) = e_lineage_id (es ! i)))"

definition history_of :: "event list \<Rightarrow> projection_state \<Rightarrow> bool" where
  "history_of es s \<longleftrightarrow> p_sequence s = int (length es) \<and>
     map e_sequence es = map int [1..<Suc (length es)] \<and> distinct (map e_event_id es) \<and>
     dict_get (p_event_scopes s) = map_of (map (\<lambda>e. (e_event_id e, event_scope e)) es) \<and>
     causes_precede es"

lemma map_of_append_new:
  assumes "k \<notin> fst ` set xs"
  shows "map_of (xs @ [(k, v)]) = (map_of xs)(k \<mapsto> v)"
proof
  fix i
  have "map_of xs k = None" using assms by (simp add: map_of_eq_None_iff)
  then show "map_of (xs @ [(k, v)]) i = ((map_of xs)(k \<mapsto> v)) i"
    by (cases "map_of xs i") (auto simp: map_add_def)
qed

lemma causes_precede_snoc:
  assumes "causes_precede es"
    and "\<And>c. e_causation_event_id e = Some c \<Longrightarrow> (\<exists>x \<in> set es. e_event_id x = c \<and>
      e_tenant_id x = e_tenant_id e \<and> e_lineage_id x = e_lineage_id e)"
  shows "causes_precede (es @ [e])"
  unfolding causes_precede_def
proof (intro allI impI)
  fix i c assume i: "i < length (es @ [e])" "e_causation_event_id ((es @ [e]) ! i) = Some c"
  show "\<exists>j < i. e_event_id ((es @ [e]) ! j) = c \<and> e_tenant_id ((es @ [e]) ! j) = e_tenant_id ((es @ [e]) ! i) \<and>
      e_lineage_id ((es @ [e]) ! j) = e_lineage_id ((es @ [e]) ! i)"
  proof (cases "i < length es")
    case True
    with i(2) have "e_causation_event_id (es ! i) = Some c" by (simp add: nth_append)
    with True assms(1) obtain j where "j < i" "e_event_id (es ! j) = c"
        "e_tenant_id (es ! j) = e_tenant_id (es ! i)" "e_lineage_id (es ! j) = e_lineage_id (es ! i)"
      unfolding causes_precede_def by blast
    with True show ?thesis by (intro exI[of _ j]) (simp add: nth_append)
  next
    case False
    with i(1) have n: "i = length es" by simp
    with i(2) have "e_causation_event_id e = Some c" by simp
    from assms(2)[OF this] obtain j where "j < length es" "e_event_id (es ! j) = c"
        "e_tenant_id (es ! j) = e_tenant_id e" "e_lineage_id (es ! j) = e_lineage_id e"
      by (metis in_set_conv_nth)
    with n show ?thesis by (intro exI[of _ j]) (simp add: nth_append)
  qed
qed

lemma check_causation_ok:
  assumes "check_causation s e = Inr u" "e_causation_event_id e = Some c"
  shows "\<exists>b. dict_get (p_event_scopes s) c = Some (e_tenant_id e, e_lineage_id e, b)"
  using assms by (auto simp: check_causation_def ok_simps split: prod.splits option.splits if_splits)

lemma history_of_snoc:
  assumes "history_of es s" "fold_event L s e = Inr s'"
  shows "history_of (es @ [e]) s'"
  using assms(2) unfolding fold_event_def
proof (rule fold_event_with_ok)
  fix p s1
  assume f: "dict_get (p_event_scopes s) (e_event_id e) = None" "check_causation s e = Inr ()"
    "True \<Longrightarrow> e_sequence e = p_sequence s + 1"
    "s' = s1\<lparr> p_sequence := e_sequence e,
       p_event_scopes := dict_set (e_event_id e) (event_scope e) (p_event_scopes s),
       p_sequence_scopes := dict_set (e_sequence e) (event_scope e) (p_sequence_scopes s) \<rparr>"
  have h: "p_sequence s = int (length es)" "map e_sequence es = map int [1..<Suc (length es)]"
      "distinct (map e_event_id es)" "causes_precede es"
    and scopes: "dict_get (p_event_scopes s) = map_of (map (\<lambda>e. (e_event_id e, event_scope e)) es)"
    using assms(1) unfolding history_of_def by blast+
  have "fst ` set (map (\<lambda>e. (e_event_id e, event_scope e)) es) = set (map e_event_id es)"
    by (simp add: image_image)
  with f(1) have fresh: "e_event_id e \<notin> set (map e_event_id es)"
    unfolding scopes map_of_eq_None_iff by simp
  have "causes_precede (es @ [e])"
  proof (rule causes_precede_snoc)
    fix c assume "e_causation_event_id e = Some c"
    from check_causation_ok[OF f(2) this] scopes obtain b where
      "map_of (map (\<lambda>e. (e_event_id e, event_scope e)) es) c = Some (e_tenant_id e, e_lineage_id e, b)"
      by auto
    then have "(c, (e_tenant_id e, e_lineage_id e, b)) \<in> set (map (\<lambda>e. (e_event_id e, event_scope e)) es)"
      by (rule map_of_SomeD)
    then show "\<exists>x \<in> set es. e_event_id x = c \<and> e_tenant_id x = e_tenant_id e \<and> e_lineage_id x = e_lineage_id e"
      by (auto simp: event_scope_def)
  qed (rule h(4))
  moreover have "dict_get (p_event_scopes s') = map_of (map (\<lambda>e. (e_event_id e, event_scope e)) (es @ [e]))"
    using fresh f(4) map_of_append_new[of "e_event_id e" "map (\<lambda>e. (e_event_id e, event_scope e)) es"]
    by (simp add: scopes dict_simps image_image)
  moreover have "map e_sequence (es @ [e]) = map int [1..<Suc (length (es @ [e]))]"
    using h(1,2) f(3) by simp
  ultimately show ?thesis
    using h(1,3) fresh f(3,4) unfolding history_of_def by simp
qed

lemma rebuild_snoc:
  "rebuild L (es @ [e]) = Inr s' \<Longrightarrow> \<exists>s. rebuild L es = Inr s \<and> fold_event L s e = Inr s'"
  by (auto simp: rebuild_def replay_append ok_simps)

text \<open>
  The history a rebuild records is exactly the stream: the sequence is its length, the events
  are numbered from one without a gap, no event identifier occurs twice, the recorded scope of an
  event is its own, and every causation reference points to an earlier event of the same tenant
  and lineage.
\<close>

theorem rebuild_history:
  assumes "rebuild L es = Inr s"
  shows "history_of es s"
  using assms
proof (induction es arbitrary: s rule: rev_induct)
  case Nil
  then show ?case
    by (auto simp: rebuild_def history_of_def empty_projection_def causes_precede_def)
next
  case (snoc e es)
  with rebuild_snoc[of L es e s] history_of_snoc show ?case by blast
qed

theorem rebuild_history_witness: "history_of sample_events (sample_projection 5)"
  by (rule rebuild_history[OF sample_rebuild(4)])

subsection \<open>Optimistic concurrency\<close>

lemma transition_operation_effect:
  assumes "fold_event_with L contiguous s e = Inr s'" "e_operation e \<in> set TRANSITION_OPERATIONS"
  obtains m current where "e_memory_id e = Some (m_memory_id m)"
    "dict_get (p_memories s) (m_memory_id m) = Some current"
    "e_expected_revision e = Some (m_revision current)" "revises e current m"
    "p_memories s' = dict_set (m_memory_id m) m (p_memories s)"
  using assms(1)
proof (rule fold_event_with_ok)
  fix p s1
  assume f: "fold_operation L e p s = Inr s1" "e_operation e \<in> set (payload_operations p)"
    "s' = s1\<lparr> p_sequence := e_sequence e,
       p_event_scopes := dict_set (e_event_id e) (event_scope e) (p_event_scopes s),
       p_sequence_scopes := dict_set (e_sequence e) (event_scope e) (p_sequence_scopes s) \<rparr>"
  from f(1,2) show ?thesis
  proof (cases rule: fold_operationE)
    case (transition r m)
    then obtain current where "dict_get (p_memories s) (m_memory_id m) = Some current"
        "e_expected_revision e = Some (m_revision current)" "revises e current m"
        "e_memory_id e = Some (m_memory_id m)" "p_memories s1 = dict_set (m_memory_id m) m (p_memories s)"
      unfolding transition_effect_def by auto
    with f(3) show ?thesis by (intro that) auto
  qed (use assms(2) f(2) in \<open>auto simp: TRANSITION_OPERATIONS_def creates_def\<close>)
qed

text \<open>
  C3. A transition event is accepted only at the revision it expects: its target exists at that
  revision, the next revision replaces it, and no other memory changes. So of two transitions of
  one memory that expect the same revision, the second is always rejected and no update is lost.
\<close>

theorem no_lost_update:
  assumes "fold_event L s e = Inr s'" "e_operation e \<in> set TRANSITION_OPERATIONS"
    and "e_memory_id e = Some i"
    and "e_operation f \<in> set TRANSITION_OPERATIONS" "e_memory_id f = Some i"
      "e_expected_revision f = e_expected_revision e"
  shows "(\<exists>m m'. dict_get (p_memories s) i = Some m \<and> e_expected_revision e = Some (m_revision m) \<and>
      dict_get (p_memories s') i = Some m' \<and> m_revision m' = m_revision m + 1 \<and>
      (\<forall>j. j \<noteq> i \<longrightarrow> dict_get (p_memories s') j = dict_get (p_memories s) j)) \<and>
    \<not> is_ok (fold_event L s' f)"
proof -
  from assms(1,2) obtain m current where m: "e_memory_id e = Some (m_memory_id m)"
      "dict_get (p_memories s) (m_memory_id m) = Some current"
      "e_expected_revision e = Some (m_revision current)" "revises e current m"
      "p_memories s' = dict_set (m_memory_id m) m (p_memories s)"
    unfolding fold_event_def by (rule transition_operation_effect)
  have "\<not> is_ok (fold_event L s' f)"
  proof
    assume "is_ok (fold_event L s' f)"
    then obtain s2 where "fold_event_with L True s' f = Inr s2"
      by (auto simp: is_ok_iff fold_event_def)
    from this assms(4) obtain n c where "e_memory_id f = Some (m_memory_id n)"
        "dict_get (p_memories s') (m_memory_id n) = Some c" "e_expected_revision f = Some (m_revision c)"
        "revises f c n" "p_memories s2 = dict_set (m_memory_id n) n (p_memories s')"
      by (rule transition_operation_effect)
    with m assms(3,5,6) show False by (auto simp: dict_simps revises_def)
  qed
  with m assms(3) show ?thesis by (auto simp: dict_simps revises_def)
qed

theorem no_lost_update_witness:
  "\<not> is_ok (fold_event sample_library (sample_projection 3)
     (sample_event 3 OP_TOMBSTONED 3 (Some (sid 10)) (Some 1)))"
  using no_lost_update[OF sample_fold_3, of "sid 10" "sample_event 3 OP_TOMBSTONED 3 (Some (sid 10)) (Some 1)"]
  by (simp add: TRANSITION_OPERATIONS_def)

end
