(* ===== verification/Tenancy.thy ===== *)
theory Tenancy
  imports Replay
begin

text \<open>
  Tenant isolation: which rows an event of one tenant can touch in a global projection, and the
  tenant-filtered replay of \<^verbatim>\<open>fold_tenant_event\<close>, whose boundary check (the \<^verbatim>\<open>__post_init__\<close> of
  \<^verbatim>\<open>TenantReplayState\<close>) is shown never to fail after an accepted event.
\<close>

subsection \<open>Rows of other tenants\<close>

definition foreign_rows_kept :: "uuid \<Rightarrow> projection_state \<Rightarrow> projection_state \<Rightarrow> bool" where
  "foreign_rows_kept t s s' \<longleftrightarrow>
     (\<forall>i m. m_tenant_id m \<noteq> t \<longrightarrow> (dict_get (p_memories s') i = Some m \<longleftrightarrow> dict_get (p_memories s) i = Some m)) \<and>
     (\<forall>i l. ln_tenant_id l \<noteq> t \<longrightarrow> (dict_get (p_links s') i = Some l \<longleftrightarrow> dict_get (p_links s) i = Some l)) \<and>
     (\<forall>i c. cf_tenant_id c \<noteq> t \<longrightarrow> (dict_get (p_conflicts s') i = Some c \<longleftrightarrow> dict_get (p_conflicts s) i = Some c)) \<and>
     (\<forall>i b. br_tenant_id b \<noteq> t \<longrightarrow> (dict_get (p_branches s') i = Some b \<longleftrightarrow> dict_get (p_branches s) i = Some b)) \<and>
     (\<forall>i x. ev_tenant_id x \<noteq> t \<longrightarrow> dict_get (p_evidence s') i = Some x \<longrightarrow> dict_get (p_evidence s) i = Some x)"

lemma memory_change_foreign:
  assumes "memory_change e x y" "m_tenant_id m \<noteq> e_tenant_id e"
  shows "y = Some m \<longleftrightarrow> x = Some m"
  using assms(1)
  by (cases rule: memory_change.cases)
    (use assms(2) in \<open>auto simp: creates_def revises_def memory_scope_key_def event_scope_def\<close>)

lemma fold_links_foreign:
  assumes "fold_operation L e p s = Inr s'" "e_operation e \<in> set (payload_operations p)"
    and "ln_tenant_id l \<noteq> e_tenant_id e"
  shows "dict_get (p_links s') i = Some l \<longleftrightarrow> dict_get (p_links s) i = Some l"
  using assms(1,2)
proof (cases rule: fold_operationE)
  case (transition r m)
  note parts = transition_effect_parts[OF transition(2)]
  show ?thesis
  proof (cases p)
    case (SupersededPayload r' m' k)
    with parts have "add_link e k (p_memories s') (p_links s) = Inr (p_links s')"
      by (auto simp: ok_simps)
    from add_link_ok[OF this] assms(3) show ?thesis
      by (auto simp: link_scope_key_def event_scope_def dict_simps)
  qed (use parts in auto)
next
  case (linked k links)
  with add_link_ok[OF linked(2)] assms(3) show ?thesis
    by (auto simp: link_scope_key_def event_scope_def dict_simps)
next
  case (unlinked k links)
  with unlink_ok[OF unlinked(2)] assms(3) show ?thesis
    by (auto simp: link_scope_key_def event_scope_def dict_simps)
qed auto

lemma fold_conflicts_foreign:
  assumes "fold_operation L e p s = Inr s'" "e_operation e \<in> set (payload_operations p)"
    and "cf_tenant_id c \<noteq> e_tenant_id e"
  shows "dict_get (p_conflicts s') i = Some c \<longleftrightarrow> dict_get (p_conflicts s) i = Some c"
  using assms(1,2)
proof (cases rule: fold_operationE)
  case (opened b ms chs memories conflicts members)
  from opened(3) show ?thesis
    by (rule open_conflict_ok)
      (use opened(4) assms(3) in \<open>auto simp: conflict_scope_key_def event_scope_def dict_simps\<close>)
next
  case (resolved b ms chs memories conflicts members)
  from resolved(3) show ?thesis
    by (rule resolve_conflict_ok)
      (use resolved(4) assms(3) in \<open>auto simp: conflict_scope_key_def event_scope_def dict_simps\<close>)
qed (auto dest: transition_effect_parts)

lemma fold_branches_foreign:
  assumes "fold_operation L e p s = Inr s'" "e_operation e \<in> set (payload_operations p)"
    and "br_tenant_id b \<noteq> e_tenant_id e"
  shows "dict_get (p_branches s') i = Some b \<longleftrightarrow> dict_get (p_branches s) i = Some b"
  using assms(1,2)
proof (cases rule: fold_operationE)
  case (branched c branches)
  with create_branch_ok[OF branched(3)] assms(3) show ?thesis
    by (auto simp: branch_scope_key_def event_scope_def dict_simps)
qed (auto dest: transition_effect_parts)

lemma fold_evidence_foreign:
  assumes "fold_operation L e p s = Inr s'" "e_operation e \<in> set (payload_operations p)"
    and "ev_tenant_id x \<noteq> e_tenant_id e" "dict_get (p_evidence s') i = Some x"
  shows "dict_get (p_evidence s) i = Some x"
  using assms(1,2)
proof (cases rule: fold_operationE)
  case (created m items evidence)
  with created_evidence.replay_rel[OF TrueI created(4)] assms(3,4) show ?thesis
    by (auto simp: evidence_adds_def created_item_def evidence_scope_key_def event_scope_def)
next
  case (transition r m)
  then have "replay (attach_evidence e (p_memories s')) (p_evidence s) (payload_items p) = Inr (p_evidence s')"
    by (auto dest: transition_effect_parts)
  from attached_evidence.replay_rel[OF TrueI this] assms(3,4) show ?thesis
    by (auto simp: evidence_adds_def attached_item_def evidence_scope_key_def event_scope_def)
next
  case (attached item evidence)
  with attached_evidence.step_rel[OF TrueI attached(2)] assms(3,4) show ?thesis
    by (auto simp: evidence_adds_def attached_item_def evidence_scope_key_def event_scope_def)
next
  case (redacted k m t c evidence)
  with redact_evidence_ok[OF redacted(2)] assms(4) show ?thesis
    by (auto simp: dict_simps split: if_splits)
qed (use assms(4) in auto)

text \<open>
  C9. Isolation of the global fold: an accepted event of one tenant neither adds, changes nor
  removes a memory, link, conflict or branch of another tenant, and adds or changes no evidence of
  another tenant.
\<close>

theorem fold_event_isolation:
  assumes "fold_event L s e = Inr s'"
  shows "foreign_rows_kept (e_tenant_id e) s s'"
  using assms unfolding fold_event_def
proof (rule fold_event_with_ok)
  fix p s1
  assume f: "typed_payload L e = Inr p" "fold_operation L e p s = Inr s1"
    "e_operation e \<in> set (payload_operations p)"
    "s' = s1\<lparr> p_sequence := e_sequence e,
       p_event_scopes := dict_set (e_event_id e) (event_scope e) (p_event_scopes s),
       p_sequence_scopes := dict_set (e_sequence e) (event_scope e) (p_sequence_scopes s) \<rparr>"
  have "foreign_rows_kept (e_tenant_id e) s s1"
    unfolding foreign_rows_kept_def
    using memory_change_foreign[OF fold_operation_change[OF f(2,1)]] fold_links_foreign[OF f(2,3)]
      fold_conflicts_foreign[OF f(2,3)] fold_branches_foreign[OF f(2,3)] fold_evidence_foreign[OF f(2,3)]
    by blast
  then show ?thesis by (simp add: f(4) foreign_rows_kept_def)
qed

theorem fold_event_isolation_witness:
  "foreign_rows_kept (sid 30) (sample_projection 2) (sample_projection 3)"
  using fold_event_isolation[OF sample_fold_3] by simp

subsection \<open>The boundary of a tenant replay\<close>

definition all_rows :: "('v \<Rightarrow> bool) \<Rightarrow> ('k, 'v) dict \<Rightarrow> bool" where
  "all_rows P d \<longleftrightarrow> (\<forall>(k, x) \<in> set d. P x)"

lemma all_rows_put: "all_rows P d \<Longrightarrow> P v \<Longrightarrow> all_rows P (dict_set k v d)"
  unfolding all_rows_def by (induction d) (auto split: if_splits)

lemma all_rows_del: "all_rows P d \<Longrightarrow> all_rows P (dict_del k d)"
  unfolding all_rows_def by (auto simp: AList.delete_eq)

lemma not_list_ex_rows: "\<not> list_ex (\<lambda>(k, x). f x \<noteq> t) d \<longleftrightarrow> all_rows (\<lambda>x. f x = t) d"
  by (auto simp: all_rows_def list_ex_iff)

definition tenant_rows :: "uuid \<Rightarrow> projection_state \<Rightarrow> bool" where
  "tenant_rows t s \<longleftrightarrow> all_rows (\<lambda>x. m_tenant_id x = t) (p_memories s) \<and>
     all_rows (\<lambda>x. ev_tenant_id x = t) (p_evidence s) \<and> all_rows (\<lambda>x. ln_tenant_id x = t) (p_links s) \<and>
     all_rows (\<lambda>x. cf_tenant_id x = t) (p_conflicts s) \<and> all_rows (\<lambda>x. br_tenant_id x = t) (p_branches s)"

definition tenant_scopes :: "uuid \<Rightarrow> projection_state \<Rightarrow> bool" where
  "tenant_scopes t s \<longleftrightarrow> all_rows (\<lambda>sc. fst sc = t) (p_event_scopes s) \<and>
     all_rows (\<lambda>sc. fst sc = t) (p_sequence_scopes s)"

lemma mk_tenant_replay_state_ok:
  "mk_tenant_replay_state t s = Inr r \<longleftrightarrow>
     is_uuid7 t \<and> tenant_rows t s \<and> tenant_scopes t s \<and> r = \<lparr> tr_tenant_id = t, tr_projection = s \<rparr>"
  unfolding mk_tenant_replay_state_def has_foreign_row_def tenant_rows_def tenant_scopes_def
    not_list_ex_rows[symmetric]
  by (auto simp: ok_simps)

lemma replay_all_rows:
  assumes "\<And>d x d'. f d x = Inr d' \<Longrightarrow> all_rows P d \<Longrightarrow> all_rows P d'"
    and "replay f d xs = Inr d'" "all_rows P d"
  shows "all_rows P d'"
  using assms(2,3) by (induction xs arbitrary: d) (auto simp: ok_simps dest: assms(1))

lemma affected_rows:
  assumes "apply_affected_memories e opening ids memories chs = Inr (ids', memories')"
    and "all_rows (\<lambda>x. m_tenant_id x = e_tenant_id e) memories"
  shows "all_rows (\<lambda>x. m_tenant_id x = e_tenant_id e) memories'"
  using assms
proof (induction chs arbitrary: ids memories)
  case (Cons change affected)
  let ?m = "am_memory change"
  from Cons.prems(1) have "memory_scope_key ?m = event_scope e"
      "apply_affected_memories e opening (m_memory_id ?m # ids) (dict_set (m_memory_id ?m) ?m memories) affected
         = Inr (ids', memories')"
    by (auto simp: ok_simps Let_def)
  with Cons.IH all_rows_put[OF Cons.prems(2), of ?m] show ?case
    by (simp add: memory_scope_key_def event_scope_def)
qed simp

lemma created_evidence_rows:
  "add_created_evidence e i d x = Inr d' \<Longrightarrow> all_rows (\<lambda>x. ev_tenant_id x = e_tenant_id e) d \<Longrightarrow>
     all_rows (\<lambda>x. ev_tenant_id x = e_tenant_id e) d'"
  by (drule add_created_evidence_ok) (auto simp: evidence_scope_key_def event_scope_def intro: all_rows_put)

lemma attached_evidence_rows:
  "attach_evidence e memories d x = Inr d' \<Longrightarrow> all_rows (\<lambda>x. ev_tenant_id x = e_tenant_id e) d \<Longrightarrow>
     all_rows (\<lambda>x. ev_tenant_id x = e_tenant_id e) d'"
  by (drule attach_evidence_ok) (auto simp: evidence_scope_key_def event_scope_def intro: all_rows_put)

lemma added_link_rows:
  "add_link e l memories d = Inr d' \<Longrightarrow> all_rows (\<lambda>x. ln_tenant_id x = e_tenant_id e) d \<Longrightarrow>
     all_rows (\<lambda>x. ln_tenant_id x = e_tenant_id e) d'"
  by (drule add_link_ok) (auto simp: link_scope_key_def event_scope_def intro: all_rows_put)

lemma transition_rows:
  assumes "transition_effect e m items ls s s'" "tenant_rows (e_tenant_id e) s"
  shows "tenant_rows (e_tenant_id e) s'"
proof -
  note parts = transition_effect_parts[OF assms(1)]
  have "m_tenant_id m = e_tenant_id e"
    using assms(1) by (auto simp: transition_effect_def revises_def memory_scope_key_def event_scope_def)
  moreover have "all_rows (\<lambda>x. ev_tenant_id x = e_tenant_id e) (p_evidence s')"
    by (rule replay_all_rows[of "attach_evidence e (p_memories s')"])
      (use parts assms(2) in \<open>auto simp: tenant_rows_def dest: attached_evidence_rows\<close>)
  moreover have "all_rows (\<lambda>x. ln_tenant_id x = e_tenant_id e) (p_links s')"
    by (rule replay_all_rows[of "\<lambda>ls l. add_link e l (p_memories s') ls"])
      (use parts assms(2) in \<open>auto simp: tenant_rows_def dest: added_link_rows\<close>)
  ultimately show ?thesis using parts assms(2) by (auto simp: tenant_rows_def intro: all_rows_put)
qed

lemma fold_operation_rows:
  assumes "fold_operation L e p s = Inr s'" "e_operation e \<in> set (payload_operations p)"
    and "tenant_rows (e_tenant_id e) s"
  shows "tenant_rows (e_tenant_id e) s'"
  using assms(1,2)
proof (cases rule: fold_operationE)
  case (created m items evidence)
  have "all_rows (\<lambda>x. ev_tenant_id x = e_tenant_id e) evidence"
    by (rule replay_all_rows[OF created_evidence_rows created(4)])
      (use assms(3) in \<open>auto simp: tenant_rows_def\<close>)
  with created assms(3) show ?thesis
    by (auto simp: tenant_rows_def creates_def memory_scope_key_def event_scope_def intro: all_rows_put)
next
  case (transition r m)
  with assms(3) show ?thesis by (auto intro: transition_rows)
next
  case (attached item evidence)
  with assms(3) show ?thesis by (auto simp: tenant_rows_def dest: attached_evidence_rows)
next
  case (redacted i m t c evidence)
  with assms(3) redact_evidence_ok[OF redacted(2)] show ?thesis
    by (auto simp: tenant_rows_def intro: all_rows_del)
next
  case (linked l links)
  with assms(3) show ?thesis by (auto simp: tenant_rows_def dest: added_link_rows)
next
  case (unlinked l links)
  with assms(3) unlink_ok[OF unlinked(2)] show ?thesis
    by (auto simp: tenant_rows_def link_scope_key_def event_scope_def intro: all_rows_put)
next
  case (opened c ms chs memories conflicts members)
  from opened(3) show ?thesis
    by (rule open_conflict_ok)
      (use opened(4) assms(3) in \<open>auto simp: tenant_rows_def conflict_scope_key_def event_scope_def
         dest: affected_rows intro: all_rows_put\<close>)
next
  case (resolved c ms chs memories conflicts members)
  from resolved(3) show ?thesis
    by (rule resolve_conflict_ok)
      (use resolved(4) assms(3) in \<open>auto simp: tenant_rows_def conflict_scope_key_def event_scope_def
         dest: affected_rows intro: all_rows_put\<close>)
next
  case (branched b branches)
  with assms(3) create_branch_ok[OF branched(3)] show ?thesis
    by (auto simp: tenant_rows_def branch_scope_key_def event_scope_def intro: all_rows_put)
qed

lemma fold_event_rows:
  assumes "fold_event_with L contiguous s e = Inr s'"
    and "tenant_rows (e_tenant_id e) s" "tenant_scopes (e_tenant_id e) s"
  shows "tenant_rows (e_tenant_id e) s' \<and> tenant_scopes (e_tenant_id e) s'"
  using assms(1)
proof (rule fold_event_with_ok)
  fix p s1
  assume f: "fold_operation L e p s = Inr s1" "e_operation e \<in> set (payload_operations p)"
    "s' = s1\<lparr> p_sequence := e_sequence e,
       p_event_scopes := dict_set (e_event_id e) (event_scope e) (p_event_scopes s),
       p_sequence_scopes := dict_set (e_sequence e) (event_scope e) (p_sequence_scopes s) \<rparr>"
  from fold_operation_rows[OF f(1,2) assms(2)] assms(3) show ?thesis
    by (simp add: f(3) tenant_rows_def tenant_scopes_def event_scope_def all_rows_put)
qed

definition replay_state_ok :: "tenant_replay_state \<Rightarrow> bool" where
  "replay_state_ok r \<longleftrightarrow> mk_tenant_replay_state (tr_tenant_id r) (tr_projection r) = Inr r"

lemma fold_tenant_event_eq:
  assumes "replay_state_ok r"
  shows "fold_tenant_event L r e =
    (if e_tenant_id e \<noteq> tr_tenant_id r
     then Inl (fold_fail e ''tenant_scope_mismatch'' ''event is outside tenant replay scope'')
     else rbind (fold_event_with L False (tr_projection r) e) (\<lambda>projection.
            Inr (r\<lparr> tr_projection := projection \<rparr>)))"
proof (cases "e_tenant_id e = tr_tenant_id r")
  case True
  show ?thesis
  proof (cases "fold_event_with L False (tr_projection r) e")
    case (Inr s')
    from assms True have "tenant_rows (e_tenant_id e) (tr_projection r)"
        "tenant_scopes (e_tenant_id e) (tr_projection r)" "is_uuid7 (tr_tenant_id r)"
      by (auto simp: replay_state_ok_def mk_tenant_replay_state_ok)
    with fold_event_rows[OF Inr] True
    have "mk_tenant_replay_state (tr_tenant_id r) s' = Inr \<lparr> tr_tenant_id = tr_tenant_id r, tr_projection = s' \<rparr>"
      by (simp add: mk_tenant_replay_state_ok)
    moreover have "r\<lparr> tr_projection := s' \<rparr> = \<lparr> tr_tenant_id = tr_tenant_id r, tr_projection = s' \<rparr>"
      by simp
    ultimately show ?thesis using True Inr by (simp add: fold_tenant_event_def)
  qed (simp add: fold_tenant_event_def)
qed (simp add: fold_tenant_event_def)

text \<open>
  The tenant boundary never fires after the fact: for a tenant replay state that was
  constructed, folding an event of the tenant fails exactly when the fold itself fails; the
  constructor of the next state, which rejects rows or history of another tenant, always
  succeeds. An event of another tenant is rejected before the fold.
\<close>

theorem fold_tenant_event_total_check:
  assumes "replay_state_ok r"
  shows "fold_tenant_event L r e =
    (if e_tenant_id e \<noteq> tr_tenant_id r
     then Inl (fold_fail e ''tenant_scope_mismatch'' ''event is outside tenant replay scope'')
     else rbind (fold_event_with L False (tr_projection r) e) (\<lambda>projection.
            Inr (r\<lparr> tr_projection := projection \<rparr>)))"
  using assms by (rule fold_tenant_event_eq)

definition tenant_replay_inv :: "tenant_replay_state \<Rightarrow> bool" where
  "tenant_replay_inv r \<longleftrightarrow> replay_state_ok r \<and> projection_inv (tr_projection r)"

lemma fold_tenant_event_ok:
  assumes "tenant_replay_inv r" "fold_tenant_event L r e = Inr r'"
  shows "e_tenant_id e = tr_tenant_id r \<and> tr_tenant_id r' = tr_tenant_id r \<and> tenant_replay_inv r' \<and>
    fold_event_with L False (tr_projection r) e = Inr (tr_projection r')"
proof -
  from assms(2) obtain s' where s': "e_tenant_id e = tr_tenant_id r"
      "fold_event_with L False (tr_projection r) e = Inr s'"
      "mk_tenant_replay_state (tr_tenant_id r) s' = Inr r'"
    by (auto simp: fold_tenant_event_def ok_simps)
  then have "r' = \<lparr> tr_tenant_id = tr_tenant_id r, tr_projection = s' \<rparr>"
    by (simp add: mk_tenant_replay_state_ok)
  with s' fold_projection_inv[OF _ s'(2)] assms(1) show ?thesis
    by (auto simp: tenant_replay_inv_def replay_state_ok_def)
qed

interpretation tenant_inv: replay_invariant "fold_tenant_event L" tenant_replay_inv
  for L :: "'z library_scheme"
  by unfold_locales (blast dest: fold_tenant_event_ok)

lemma tenant_replay_sequences:
  assumes "replay (fold_tenant_event L) r es = Inr r'" "tenant_replay_inv r"
  shows "tr_tenant_id r' = tr_tenant_id r \<and> (\<forall>e \<in> set es. e_tenant_id e = tr_tenant_id r) \<and>
    sorted_wrt (<) (p_sequence (tr_projection r) # map e_sequence es) \<and>
    p_sequence (tr_projection r') = last (p_sequence (tr_projection r) # map e_sequence es)"
  using assms
proof (induction es arbitrary: r)
  case (Cons e es)
  then obtain r1 where r1: "fold_tenant_event L r e = Inr r1" "replay (fold_tenant_event L) r1 es = Inr r'"
    by (auto simp: ok_simps)
  note ok = fold_tenant_event_ok[OF Cons.prems(2) r1(1)]
  then have "p_sequence (tr_projection r) < e_sequence e" "p_sequence (tr_projection r1) = e_sequence e"
    by (auto elim!: fold_event_with_ok)
  with Cons.IH[OF r1(2)] ok show ?case by fastforce
qed simp

lemma mk_tenant_empty:
  "is_uuid7 t \<Longrightarrow> mk_tenant_replay_state t empty_projection
     = Inr \<lparr> tr_tenant_id = t, tr_projection = empty_projection \<rparr>"
  by (simp add: mk_tenant_replay_state_ok tenant_rows_def tenant_scopes_def empty_projection_def all_rows_def)

lemma rebuild_tenant_start:
  assumes "rebuild_tenant L t es = Inr r"
  shows "replay (fold_tenant_event L) \<lparr> tr_tenant_id = t, tr_projection = empty_projection \<rparr> es = Inr r \<and>
    tenant_replay_inv \<lparr> tr_tenant_id = t, tr_projection = empty_projection \<rparr>"
proof -
  from assms obtain r0 where "mk_tenant_replay_state t empty_projection = Inr r0"
      "replay (fold_tenant_event L) r0 es = Inr r"
    by (auto simp: rebuild_tenant_def ok_simps)
  then show ?thesis
    by (auto simp: mk_tenant_replay_state_ok tenant_replay_inv_def replay_state_ok_def projection_inv_empty)
qed

lemma rebuild_tenant_inv: "rebuild_tenant L t es = Inr r \<Longrightarrow> tenant_replay_inv r"
  using rebuild_tenant_start tenant_inv.replay_inv by blast

text \<open>
  C10. A rebuilt tenant projection holds only rows and history of that tenant and satisfies the
  projection invariant; the accepted events all belong to the tenant and carry strictly increasing
  global sequence numbers, the last of which is recorded.
\<close>

theorem rebuild_tenant_sound:
  assumes "rebuild_tenant L t es = Inr r"
  shows "tr_tenant_id r = t \<and> tenant_rows t (tr_projection r) \<and> tenant_scopes t (tr_projection r) \<and>
    projection_inv (tr_projection r) \<and> (\<forall>e \<in> set es. e_tenant_id e = t) \<and>
    sorted_wrt (<) (0 # map e_sequence es) \<and>
    p_sequence (tr_projection r) = last (0 # map e_sequence es)"
  using rebuild_tenant_inv[OF assms] tenant_replay_sequences[of L _ es r] rebuild_tenant_start[OF assms]
  by (fastforce simp: tenant_replay_inv_def replay_state_ok_def mk_tenant_replay_state_ok empty_projection_def)

lemma fold_event_with_weaken:
  assumes "fold_event_with L True s e = Inr s'"
  shows "fold_event_with L False s e = Inr s'"
  using assms by (auto simp: fold_event_with_def check_sequence_def ok_simps)

lemma rebuild_tenant_of_global:
  assumes "rebuild L es = Inr s" "\<forall>e \<in> set es. e_tenant_id e = t" "is_uuid7 t"
  shows "rebuild_tenant L t es = Inr \<lparr> tr_tenant_id = t, tr_projection = s \<rparr>"
  using assms(1,2)
proof (induction es arbitrary: s rule: rev_induct)
  case Nil
  with assms(3) show ?case
    by (simp add: rebuild_def rebuild_tenant_def mk_tenant_empty)
next
  case (snoc e es)
  then obtain s0 where s0: "rebuild L es = Inr s0" "fold_event L s0 e = Inr s"
    using rebuild_snoc by blast
  with snoc have 1: "rebuild_tenant L t es = Inr \<lparr> tr_tenant_id = t, tr_projection = s0 \<rparr>" by simp
  let ?r = "\<lparr> tr_tenant_id = t, tr_projection = s0 \<rparr>"
  from rebuild_tenant_inv[OF 1] have "replay_state_ok ?r"
    by (simp add: tenant_replay_inv_def)
  with s0(2) snoc.prems(2) have "fold_tenant_event L ?r e = Inr \<lparr> tr_tenant_id = t, tr_projection = s \<rparr>"
    by (simp add: fold_tenant_event_eq fold_event_def fold_event_with_weaken)
  with 1 show ?case by (auto simp: rebuild_tenant_def replay_append ok_simps rbind_def split: sum.splits)
qed

lemma sample_tenant:
  "rebuild_tenant sample_library (sid 30) sample_events =
     Inr \<lparr> tr_tenant_id = sid 30, tr_projection = sample_projection 5 \<rparr>"
  by (rule rebuild_tenant_of_global[OF sample_rebuild(4)]) (auto simp: sample_events_def sid_uuid7)

theorem fold_tenant_event_total_check_witness:
  "fold_tenant_event sample_library \<lparr> tr_tenant_id = sid 30, tr_projection = empty_projection \<rparr>
     (sample_event 1 OP_BRANCH_CREATED 3 None None)
   = Inr \<lparr> tr_tenant_id = sid 30, tr_projection = sample_projection 1 \<rparr>"
proof -
  have "replay_state_ok \<lparr> tr_tenant_id = sid 30, tr_projection = empty_projection \<rparr>"
    using mk_tenant_empty[OF sid_uuid7(1)] by (simp add: mk_tenant_replay_state_ok replay_state_ok_def)
  from fold_tenant_event_total_check[OF this, of sample_library "sample_event 1 OP_BRANCH_CREATED 3 None None"]
  show ?thesis using fold_event_with_weaken[OF sample_fold_1[unfolded fold_event_def]] by simp
qed

theorem rebuild_tenant_sound_witness:
  "tenant_rows (sid 30) (sample_projection 5) \<and> sorted_wrt (<) (0 # map e_sequence sample_events)"
  using rebuild_tenant_sound[OF sample_tenant] by simp

text \<open>
  C8. For a stream of one tenant the tenant replay is the global replay: if the complete stream
  rebuilds and all its events belong to the tenant, the tenant rebuild succeeds with the same
  projection.
\<close>

theorem rebuild_tenant_agrees:
  assumes "rebuild L es = Inr s" "\<forall>e \<in> set es. e_tenant_id e = t" "is_uuid7 t"
  shows "rebuild_tenant L t es = Inr \<lparr> tr_tenant_id = t, tr_projection = s \<rparr>"
  using assms by (rule rebuild_tenant_of_global)

theorem rebuild_tenant_agrees_witness:
  "rebuild_tenant sample_library (sid 30) sample_events =
     Inr \<lparr> tr_tenant_id = sid 30, tr_projection = sample_projection 5 \<rparr>"
  by (rule rebuild_tenant_agrees[OF sample_rebuild(4)]) (auto simp: sample_events_def sid_uuid7)

end
