(* ===== verification/Fold_Safety.thy ===== *)
theory Fold_Safety
  imports Tenancy
begin

text \<open>
  Safety of the fold: an event that passes its own hash verification can only be accepted or be
  rejected with a fold error of its own sequence number (or with the serialiser's error while the
  binding of a sealed memory is recomputed), never by an internal assertion, a failed dictionary
  lookup or the constructor of the next projection; and a cryptographically erased memory is
  final.
\<close>

named_theorems wb_intros \<open>well-behaved results\<close>

definition well_behaved :: "event \<Rightarrow> 'a result \<Rightarrow> bool" where
  "well_behaved e r = (case r of
       Inr _ \<Rightarrow> True
     | Inl x \<Rightarrow> (\<exists>code detail. x = FoldError code (e_sequence e) detail) \<or> (\<exists>m. x = CanonicalJsonError m))"

lemma well_behaved_Inr [wb_intros]: "well_behaved e (Inr x)"
  by (simp add: well_behaved_def)

lemma well_behaved_fail [wb_intros]: "well_behaved e (Inl (fold_fail e code detail))"
  by (simp add: well_behaved_def fold_fail_def)

lemma well_behaved_rbind [wb_intros]:
  "well_behaved e r \<Longrightarrow> (\<And>x. r = Inr x \<Longrightarrow> well_behaved e (f x)) \<Longrightarrow> well_behaved e (rbind r f)"
  by (cases r) (auto simp: well_behaved_def)

lemma well_behaved_if [wb_intros]:
  "(c \<Longrightarrow> well_behaved e a) \<Longrightarrow> (\<not> c \<Longrightarrow> well_behaved e b) \<Longrightarrow> well_behaved e (if c then a else b)"
  by simp

lemma well_behaved_option [wb_intros]:
  "(x = None \<Longrightarrow> well_behaved e a) \<Longrightarrow> (\<And>y. x = Some y \<Longrightarrow> well_behaved e (f y)) \<Longrightarrow>
   well_behaved e (case x of None \<Rightarrow> a | Some y \<Rightarrow> f y)"
  by (cases x) auto

lemma well_behaved_replay:
  "(\<And>d x. well_behaved e (f d x)) \<Longrightarrow> well_behaved e (replay f d xs)"
  by (induction xs arbitrary: d) (auto intro: wb_intros)

subsection \<open>Helpers\<close>

lemma wb_scoped [wb_intros]: "well_behaved e (check_scoped_after_image e k)"
  unfolding check_scoped_after_image_def by (intro wb_intros)

lemma wb_canonical:
  assumes "normalize_json_value L MAX_CANONICAL_JSON_DEPTH v = Inr j"
  shows "well_behaved e (canonical_json_bytes L v)"
  using assms by (auto simp: canonical_json_bytes_def well_behaved_def split: option.splits)

lemma sealed_aad_normalizes:
  assumes "valid_memory m" "e_schema_version e = 3" "e_payload_version e = 3"
  shows "\<exists>j. normalize_json_value L MAX_CANONICAL_JSON_DEPTH (sealed_aad e m) = Inr j"
proof -
  have "safe_positive (m_revision m)"
    using assms(1) by (auto simp: valid_memory_def memory_field_constraints_def ok_simps is_ok_iff)
  then have "normalize_integer (m_revision m) = Inr (m_revision m)"
    by (simp add: normalize_integer_def safe_positive_def MAX_IJSON_INTEGER_def)
  moreover have "normalize_integer 3 = Inr 3"
    by (simp add: normalize_integer_def MAX_IJSON_INTEGER_def)
  ultimately show ?thesis using assms(2,3)
    by (cases "m_content_key_id m")
      (simp_all add: sealed_aad_def py_object_def normalize_json_value_def MAX_CANONICAL_JSON_DEPTH_def
        py_opt_def key_of_def normalize.simps[of _ _ _ _ "PyMapping _ _"]
        normalize.simps[of _ _ _ _ "PyInt _"] normalize.simps[of _ _ _ _ "PyNone"])
qed

lemma wb_target: "valid_memory m \<Longrightarrow> well_behaved e (check_target L e m)"
  unfolding check_target_def
  by (intro wb_intros) (auto dest: sealed_aad_normalizes[of m e L] intro: wb_canonical)

lemma wb_unchanged [wb_intros]: "well_behaved e (check_unchanged e kind xs)"
  by (induction xs) (auto intro: wb_intros)

lemma wb_revision [wb_intros]: "well_behaved e (check_revision ce e current r after)"
  unfolding check_revision_def check_sealed_identity_def by (intro wb_intros)

lemma wb_replace [wb_intros]:
  "valid_memory after \<Longrightarrow> well_behaved e (replace_memory L e req pres memories r after)"
  unfolding replace_memory_def by (intro wb_intros wb_target)

lemma wb_attach [wb_intros]: "well_behaved e (attach_evidence e memories d x)"
  unfolding attach_evidence_def by (intro wb_intros)

lemma wb_created [wb_intros]: "well_behaved e (add_created_evidence e i d x)"
  unfolding add_created_evidence_def by (intro wb_intros)

lemma wb_create_memory [wb_intros]:
  "valid_memory m \<Longrightarrow> well_behaved e (create_memory L e m items memories evidence)"
  unfolding create_memory_def by (intro wb_intros wb_target well_behaved_replay)

lemma wb_add_link [wb_intros]: "well_behaved e (add_link e l memories links)"
  unfolding add_link_def by (intro wb_intros)

lemma wb_affected_lifecycle [wb_intros]: "well_behaved e (check_affected_lifecycle e opening current after)"
  unfolding check_affected_lifecycle_def by (intro wb_intros)

lemma wb_affected [wb_intros]: "well_behaved e (apply_affected_memories e opening ids memories chs)"
proof (induction chs arbitrary: ids memories)
  case (Cons change affected)
  show ?case unfolding apply_affected_memories.simps Let_def
    by (intro wb_intros Cons.IH)
qed (simp add: wb_intros)

lemma wb_add_member: "well_behaved e (add_conflict_member e d x)"
  unfolding add_conflict_member_def Let_def by (intro wb_intros)

subsection \<open>Operations\<close>

lemma replace_memory_target:
  "replace_memory L e req pres memories r m = Inr x \<Longrightarrow> dict_get memories (m_memory_id m) \<noteq> None"
  by (auto elim: replace_memory_ok)

lemma wb_transitions:
  assumes "valid_memory m"
  shows "well_behaved e (fold_candidate L e st r m items s)" "well_behaved e (fold_revised L e r m s)"
    "well_behaved e (fold_visibility_changed L e r m s)" "well_behaved e (fold_retired L e r m s)"
    "well_behaved e (fold_superseded L e r m l s)" "well_behaved e (fold_tombstoned L e r m f s)"
    "well_behaved e (fold_purge_completed L e r m k t s)"
proof -
  note replace = wb_replace[OF assms]
  show "well_behaved e (fold_candidate L e st r m items s)"
    unfolding fold_candidate_def check_candidate_lifecycle_def attach_candidate_lifecycle_evidence_def
    by (intro wb_intros replace well_behaved_replay) (auto dest: replace_memory_target)
  show "well_behaved e (fold_revised L e r m s)"
    unfolding fold_revised_def check_revised_lifecycle_def
    by (intro wb_intros replace) (auto dest: replace_memory_target)
  show "well_behaved e (fold_visibility_changed L e r m s)"
    unfolding fold_visibility_changed_def
    by (intro wb_intros replace) (auto dest: replace_memory_target)
  show "well_behaved e (fold_retired L e r m s)"
    unfolding fold_retired_def check_not_terminal_def by (intro wb_intros replace)
  show "well_behaved e (fold_superseded L e r m l s)"
    unfolding fold_superseded_def check_not_terminal_def by (intro wb_intros replace)
  show "well_behaved e (fold_tombstoned L e r m f s)"
    unfolding fold_tombstoned_def Let_def
    by (intro wb_intros replace) (auto split: option.splits intro: wb_intros)
  show "well_behaved e (fold_purge_completed L e r m k t s)"
    unfolding fold_purge_completed_def by (intro wb_intros replace)
qed

lemma wb_open_conflict:
  assumes "\<forall>a \<in> set chs. valid_memory (am_memory a)" "e_operation e = OP_CONFLICT_OPENED"
  shows "well_behaved e (open_conflict e c ms chs memories conflicts members)"
proof -
  have no_key: "\<not> list_ex (\<lambda>i. \<not> dict_has memories' i) (map cm_memory_id ms)"
    if "apply_affected_memories e True [] memories chs = Inr (ids, memories')"
      "set ids = set (map cm_memory_id ms)" for ids memories'
  proof -
    have "\<exists>m. dict_get memories' i = Some m" if "i \<in> set ids" for i
      using apply_affected_ok[OF \<open>apply_affected_memories e True [] memories chs = Inr (ids, memories')\<close>
          assms(1)] assms(2) that by auto
    with that(2) show ?thesis by (auto simp: list_ex_iff)
  qed
  show ?thesis
    unfolding open_conflict_def
    by (intro wb_intros)
      (auto simp: Let_def intro!: wb_intros well_behaved_replay wb_add_member dest: no_key split: prod.splits)
qed

lemma check_join_times_wb:
  assumes "\<forall>x \<in> set xs. dict_has members (cm_conflict_id x, cm_memory_id x)"
  shows "well_behaved e (check_join_times e members xs)"
  using assms by (induction xs) (auto intro!: wb_intros)

lemma wb_resolve_conflict:
  assumes "valid_members c ms"
  shows "well_behaved e (resolve_conflict e c ms chs memories conflicts members)"
proof -
  have "\<forall>x \<in> set ms. dict_has members (cm_conflict_id x, cm_memory_id x)"
    if "set (member_ids_of members (cf_conflict_id c)) = set (map cm_memory_id ms)"
  proof
    fix x assume x: "x \<in> set ms"
    then have "cm_memory_id x \<in> set (member_ids_of members (cf_conflict_id c))"
      using that by simp
    with x assms show "dict_has members (cm_conflict_id x, cm_memory_id x)"
      unfolding member_ids_of_iff valid_members_def by auto
  qed
  then show ?thesis
    unfolding resolve_conflict_def
    by (intro wb_intros) (auto intro!: wb_intros check_join_times_wb split: prod.splits)
qed

lemma wb_redact: "well_behaved e (redact_evidence e i m t evidence)"
  unfolding redact_evidence_def by (intro wb_intros)

lemma wb_unlink: "well_behaved e (unlink e l links)"
  unfolding unlink_def by (intro wb_intros)

lemma wb_create_branch: "well_behaved e (create_branch e b branches scopes)"
  unfolding create_branch_def check_fork_def by (intro wb_intros)

lemma well_behaved_rbind_Inr: "well_behaved e r \<Longrightarrow> well_behaved e (rbind r (\<lambda>x. Inr (f x)))"
  by (intro wb_intros)

lemma well_behaved_rbind_pair:
  "well_behaved e r \<Longrightarrow> well_behaved e (rbind r (\<lambda>(a, b). Inr (f a b)))"
  "well_behaved e r' \<Longrightarrow> well_behaved e (rbind r' (\<lambda>(a, b, c). Inr (g a b c)))"
  by (auto intro!: well_behaved_rbind well_behaved_Inr split: prod.splits)

lemma wb_operation:
  assumes "typed_payload L e = Inr p"
  shows "well_behaved e (fold_operation L e p s)"
proof -
  note ops = typed_payload_operations[OF assms]
  note children = typed_payload_children[OF assms]
  have valid: "\<And>m. m \<in> set (payload_memories p) \<Longrightarrow> valid_memory m"
    using typed_payload_memories[OF assms] by blast
  show ?thesis
  proof (cases p)
    case (ConflictOpenedPayload c ms chs)
    with ops have op: "e_operation e = OP_CONFLICT_OPENED" by simp
    have "\<forall>a \<in> set chs. valid_memory (am_memory a)" using valid ConflictOpenedPayload by simp
    from wb_open_conflict[OF this op] op ConflictOpenedPayload show ?thesis
      by (simp add: fold_operation_def well_behaved_rbind_pair)
  next
    case (ConflictResolvedPayload c ms chs)
    with children ops show ?thesis
      by (simp add: fold_operation_def well_behaved_rbind_pair wb_resolve_conflict)
  qed (use ops valid in \<open>auto simp: fold_operation_def Let_def wb_transitions wb_redact wb_unlink
         wb_create_branch wb_attach wb_add_link wb_create_memory well_behaved_rbind_Inr well_behaved_rbind_pair\<close>)
qed

lemma wb_envelope: "well_behaved e (check_envelope e)"
  by (auto simp: check_envelope_def validate_event_envelope_shape_def Let_def well_behaved_def fold_fail_def)

lemma wb_causation: "well_behaved e (check_causation s e)"
  unfolding check_causation_def by (auto split: option.splits prod.splits intro: wb_intros)

lemma wb_event_branch: "well_behaved e (check_event_branch s e)"
  unfolding check_event_branch_def by (intro wb_intros)

lemma wb_payload_visibility:
  assumes "check_event_branch s e = Inr ()"
  shows "well_behaved e (check_payload_visibility s e p)"
  using assms unfolding check_payload_visibility_def validate_branch_visibility_def Let_def
  by (intro wb_intros) (auto simp: check_event_branch_def split: if_splits)

lemma wb_mk_projection:
  assumes "0 \<le> p_sequence s" "check_sequence contiguous s e = Inr u"
  shows "well_behaved e (mk_projection (s'\<lparr> p_sequence := e_sequence e, p_event_scopes := a, p_sequence_scopes := b \<rparr>))"
  using assms by (auto simp: mk_projection_def check_sequence_def well_behaved_def ok_simps)

text \<open>
  C6. The fold has no internal failure. From any projection with a non-negative sequence, an event
  whose recorded hashes verify is either accepted or rejected with a fold error that carries its
  own sequence number, or with the serialiser's error for the binding of a sealed memory. No
  assertion, no dictionary lookup and no constructor check inside the fold can fail.
\<close>

theorem fold_event_no_internal_error:
  assumes "verify_hashes L e = Inr ()" "0 \<le> p_sequence s"
  shows "(\<exists>s'. fold_event L s e = Inr s') \<or>
    (\<exists>code detail. fold_event L s e = Inl (FoldError code (e_sequence e) detail)) \<or>
    (\<exists>message. fold_event L s e = Inl (CanonicalJsonError message))"
proof -
  from assms(1) obtain p where p: "typed_payload L e = Inr p"
    by (auto simp: verify_hashes_ok)
  have "well_behaved e (fold_event L s e)"
    unfolding fold_event_def fold_event_with_def assms(1) p rbind_simps
  proof (intro wb_intros wb_envelope wb_causation wb_event_branch wb_operation[OF p])
    show "well_behaved e (check_sequence True s e)"
      unfolding check_sequence_def by (intro wb_intros)
  qed (use assms(2) in \<open>auto intro: wb_payload_visibility wb_mk_projection\<close>)
  then show ?thesis by (cases "fold_event L s e") (auto simp: well_behaved_def)
qed

theorem fold_event_no_internal_error_witness:
  "(\<exists>s'. fold_event sample_library empty_projection (sample_event 2 OP_REMEMBERED 3 (Some (sid 10)) None) = Inr s') \<or>
   (\<exists>code detail. fold_event sample_library empty_projection
      (sample_event 2 OP_REMEMBERED 3 (Some (sid 10)) None) = Inl (FoldError code 2 detail)) \<or>
   (\<exists>message. fold_event sample_library empty_projection
      (sample_event 2 OP_REMEMBERED 3 (Some (sid 10)) None) = Inl (CanonicalJsonError message))"
  using fold_event_no_internal_error[OF sample_verified(2), of empty_projection 3 "Some (sid 10)"]
  by (simp add: empty_projection_def)

subsection \<open>Erasure is final\<close>

lemma valid_erased_tombstoned:
  assumes "valid_memory m" "m_content_protection m = CRYPTOGRAPHICALLY_ERASED"
  shows "m_status m = TOMBSTONED"
proof (cases "m_class m")
  case (MemoryStateV3 x sealed)
  with assms(1) have "validate_state_shape_v3 m sealed = Inr ()"
    by (auto simp: valid_memory_def memory_model_validators_def is_ok_iff rbind_eq_Inr)
  with assms(2) show ?thesis by (simp add: validate_state_shape_v3_def ok_simps)
qed (use assms in \<open>simp_all add: valid_memory_def memory_model_validators_def
    validate_state_shape_def is_ok_iff ok_simps Let_def\<close>)

lemma status_edge_from_tombstone: "status_edge op TOMBSTONED t \<Longrightarrow> op = OP_PAYLOAD_PURGE_COMPLETED"
  by (erule status_edgeE) auto

lemma purge_current:
  "fold_purge_completed L e r m k t s = Inr s' \<Longrightarrow>
     \<exists>c. dict_get (p_memories s) (m_memory_id m) = Some c \<and> m_content_protection c = ENVELOPE_ENCRYPTED \<and>
       m_content_protection m = CRYPTOGRAPHICALLY_ERASED \<and> m_content_key_id m = Some k"
  by (auto simp: fold_purge_completed_def ok_simps)

lemma purge_operation:
  assumes "fold_operation L e p s = Inr s'" "e_operation e = OP_PAYLOAD_PURGE_COMPLETED"
    "e_operation e \<in> set (payload_operations p)"
  obtains r m k t h where "p = PayloadPurgeCompletedPayload r m k t h"
    "fold_purge_completed L e r m k t s = Inr s'"
  using assms by (cases p) (auto simp: fold_operation_def Let_def)

text \<open>
  C7. Cryptographic erasure is final: once a rebuilt projection records a memory as
  cryptographically erased, no accepted event ever changes that memory again.
\<close>

theorem erased_memory_final:
  assumes "rebuild L es = Inr s" "dict_get (p_memories s) i = Some m"
    and "m_content_protection m = CRYPTOGRAPHICALLY_ERASED" "fold_event L s e = Inr s'"
  shows "dict_get (p_memories s') i = Some m"
proof (rule ccontr)
  assume changed: "dict_get (p_memories s') i \<noteq> Some m"
  have "memory_inv s" using rebuild_inv[OF assms(1)] by (simp add: projection_inv_def)
  with assms(2,3) have m: "m_status m = TOMBSTONED" "m_memory_id m = i"
    by (auto simp: memory_inv_def intro: valid_erased_tombstoned)
  from assms(4) show False unfolding fold_event_def
  proof (rule fold_event_with_ok)
    fix p s1
    assume f: "typed_payload L e = Inr p" "fold_operation L e p s = Inr s1"
      "e_operation e \<in> set (payload_operations p)"
      "s' = s1\<lparr> p_sequence := e_sequence e,
         p_event_scopes := dict_set (e_event_id e) (event_scope e) (p_event_scopes s),
         p_sequence_scopes := dict_set (e_sequence e) (event_scope e) (p_sequence_scopes s) \<rparr>"
    from fold_operation_change[OF f(2,1), of i] assms(2) changed f(4) obtain m' where
      m': "dict_get (p_memories s1) i = Some m'" "status_edge (e_operation e) TOMBSTONED (m_status m')"
      using m by (auto elim!: memory_change_SomeE)
    from m'(2) have "e_operation e = OP_PAYLOAD_PURGE_COMPLETED" by (rule status_edge_from_tombstone)
    from purge_operation[OF f(2) this f(3)] obtain r n k t h where
      "p = PayloadPurgeCompletedPayload r n k t h" "fold_purge_completed L e r n k t s = Inr s1" .
    moreover have "m' \<in> set (payload_memories p) \<and> i = m_memory_id m'"
      using fold_operation_after_image[OF f(2,1) m'(1)] assms(2) changed f(4) m'(1) by auto
    ultimately show False using purge_current[of L e r n k t s s1] assms(2,3) by auto
  qed
qed

theorem erased_memory_final_witness:
  "dict_get (p_memories (sample_projection 5)) (sid 10) =
     Some (sample_memory 2000 4000 3 TOMBSTONED CRYPTOGRAPHICALLY_ERASED)"
  by (rule erased_memory_final[OF sample_rebuild(3) sample_dict(1) _ sample_fold_5]) simp

end
