(* ===== verification/Constraints.thy ===== *)
theory Constraints
  imports States
begin

text \<open>
  The structural constraints of \<^verbatim>\<open>domain/constraints.py\<close> on a memory after-image together with
  the facts an accepting component supplies (matching session and anchor, import provenance,
  approval, branch ceiling, transport). The checks that only test the Python type of a field are
  the types of the record.
\<close>

fun SCOPED_SUBJECT_KINDS :: "memory_scope \<Rightarrow> subject_kind option" where
  "SCOPED_SUBJECT_KINDS SC_PERSONA = Some SUBJ_PERSONA"
| "SCOPED_SUBJECT_KINDS SC_RELATIONSHIP = Some SUBJ_RELATIONSHIP"
| "SCOPED_SUBJECT_KINDS SC_PROJECT = Some SUBJ_PROJECT"
| "SCOPED_SUBJECT_KINDS SC_EPISODIC = Some SUBJ_EPISODE"
| "SCOPED_SUBJECT_KINDS _ = None"

record memory_constraint_context =
  cc_category :: memory_category
  cc_ontological_status :: ontological_status
  cc_scope :: memory_scope
  cc_visibility :: memory_visibility
  cc_status :: memory_status
  cc_sensitivity :: int
  cc_subject_kind :: subject_kind
  cc_origin_session_id :: "uuid option"
  cc_origin_session_matches :: bool
  cc_structural_anchor_matches :: bool
  cc_imported_provenance :: bool
  cc_publication_approved :: bool
  cc_branch_allows_visibility :: bool
  cc_transport_kind :: transport_kind

definition constraint_rules :: "memory_constraint_context \<Rightarrow> (bool \<times> string \<times> string) list" where
  "constraint_rules c =
     (let expected_subject_kind = SCOPED_SUBJECT_KINDS (cc_scope c) in
     [(cc_sensitivity c < 0 \<or> 4 < cc_sensitivity c,
         ''sensitivity_out_of_range'', ''memory sensitivity must be between zero and four''),
      (\<not> cc_branch_allows_visibility c,
         ''branch_visibility_forbidden'', ''branch does not allow the requested visibility''),
      (cc_scope c = SC_GLOBAL \<and> cc_subject_kind c \<noteq> SUBJ_GLOBAL,
         ''scope_subject_mismatch'', ''global memory requires a global subject''),
      (cc_scope c = SC_GLOBAL \<and> cc_ontological_status c = FICTIONAL_OR_ROLEPLAYED_SCENE,
         ''global_roleplay_forbidden'', ''global memory cannot describe a fictional or roleplayed scene''),
      (expected_subject_kind \<noteq> None \<and> Some (cc_subject_kind c) \<noteq> expected_subject_kind,
         ''scope_subject_mismatch'', ''memory scope does not match its typed subject''),
      (expected_subject_kind \<noteq> None \<and> \<not> cc_structural_anchor_matches c,
         ''scope_anchor_mismatch'', ''memory scope does not match its structural anchor''),
      (cc_scope c = SC_EPISODIC \<and>
         \<not> (cc_origin_session_id c \<noteq> None \<and> cc_origin_session_matches c \<or> cc_imported_provenance c),
         ''episodic_origin_missing'',
         ''episodic memory requires a matching origin session or import provenance''),
      (cc_scope c = SC_SCENE_LOCAL \<and> cc_subject_kind c \<noteq> SUBJ_SCENE,
         ''scope_subject_mismatch'', ''scene-local memory requires a scene subject''),
      (cc_scope c = SC_SCENE_LOCAL \<and> \<not> cc_structural_anchor_matches c,
         ''scope_anchor_mismatch'', ''scene-local memory does not match its structural anchor''),
      (cc_scope c = SC_SCENE_LOCAL \<and> (cc_origin_session_id c = None \<or> \<not> cc_origin_session_matches c),
         ''scene_origin_mismatch'', ''scene-local memory requires its matching origin session''),
      (cc_scope c = SC_SCENE_LOCAL \<and> cc_visibility c \<in> {SHAREABLE, PUBLIC_SEED},
         ''scene_visibility_forbidden'', ''scene-local memory cannot be shareable or public seed''),
      (cc_visibility c = SHAREABLE \<and> 1 < cc_sensitivity c,
         ''shareable_sensitive'', ''shareable memory cannot have sensitivity above one''),
      (cc_visibility c = PUBLIC_SEED \<and> cc_status c \<noteq> ACTIVE,
         ''public_seed_not_active'', ''public seed memory must be active''),
      (cc_visibility c = PUBLIC_SEED \<and> cc_sensitivity c \<noteq> 0,
         ''public_seed_sensitive'', ''public seed memory must have zero sensitivity''),
      (cc_visibility c = PUBLIC_SEED \<and> \<not> cc_publication_approved c,
         ''public_seed_unapproved'', ''public seed memory requires explicit publication approval''),
      (cc_transport_kind c = GITHUB_INGRESS \<and> cc_scope c \<in> {SC_GLOBAL, SC_SCENE_LOCAL},
         ''github_scope_forbidden'', ''GitHub ingress cannot create global or scene-local memory''),
      (cc_transport_kind c = RELAY \<and> cc_sensitivity c = 4,
         ''relay_sensitivity_forbidden'', ''relay transport cannot carry sensitivity-four memory'')])"

fun reject_first_rule :: "(bool \<times> string \<times> string) list \<Rightarrow> unit result" where
  "reject_first_rule [] = Inr ()"
| "reject_first_rule ((violated, code, message) # rules) =
     (if violated then Inl (DomainConstraintError code message) else reject_first_rule rules)"

definition validate_memory_constraints :: "memory_constraint_context \<Rightarrow> unit result" where
  "validate_memory_constraints c =
     (if (case cc_origin_session_id c of None \<Rightarrow> False | Some s \<Rightarrow> \<not> is_uuid7 s)
      then Inl (DomainConstraintError ''invalid_origin_session'' ''origin session must be an RFC 9562 UUIDv7'')
      else rbind (validate_category_ontology (cc_category c) (cc_ontological_status c)) (\<lambda>_.
        reject_first_rule (constraint_rules c)))"

lemma reject_first_rule_ok [ok_simps]:
  "reject_first_rule rules = Inr u \<longleftrightarrow> list_all (\<lambda>(violated, _). \<not> violated) rules"
  by (induction rules) (auto simp: ok_simps)

lemma reject_first_rule_append:
  "reject_first_rule (xs @ ys) = rbind (reject_first_rule xs) (\<lambda>_. reject_first_rule ys)"
  by (induction xs) auto

end
