(* ===== verification/Policy_Contracts.thy ===== *)
theory Policy_Contracts
  imports States "HOL-Library.List_Lexorder" "HOL-Library.Char_ord"
begin

text \<open>
  The contracts of \<^verbatim>\<open>policy/contracts.py\<close>: the closed vocabularies of the selection policy, the
  request, rule, guardrail, profile, decision and lifecycle models, and for every model the
  checks that its declaration and its validators make. A frozen set field is a set, a tuple field
  a list.
\<close>

subsection \<open>Vocabularies\<close>

datatype selection_basis =
    ROUTINE_BANTER | SB_EXPLICIT_USER_CORRECTION | SB_EXPLICIT_USER_PREFERENCE
  | SB_EXPLICIT_USER_PERMISSION | SB_VERIFIED_PROJECT_DECISION | SB_ASSISTANT_OBSERVATION
  | SB_ASSISTANT_INTERPRETATION | IMPORTED_LEGACY | SB_MEANINGFUL_EPISODIC_ANCHOR
  | SB_EXPLICIT_USER_REQUEST

datatype content_signal = ROLEPLAYED_SCENE | ASSISTANT_PREFERENCE_LIKE | SUBJECTIVE_EXPERIENCE_CLAIM

datatype epistemic_qualifier =
    ROLEPLAY_NOT_LITERAL | ASSISTANT_PATTERN_NOT_SUBJECTIVE_EXPERIENCE
  | SINGLE_EPISODE_NOT_STABLE_PATTERN | SUBJECTIVE_EXPERIENCE_UNRESOLVED | IMPORTED_SOURCE_UNRECONCILED

datatype evidence_kind =
    USER_STATEMENT | USER_CORRECTION | USER_CONFIRMATION | PROJECT_SOURCE
  | EK_ASSISTANT_OBSERVATION | IMPORT_MANIFEST | CONVERSATION_EPISODE

datatype evidence_trust = TRUSTED | CORROBORATED | UNVERIFIED

datatype policy_outcome = OUT_OMIT | OUT_REJECT | OUT_CANDIDATE | OUT_ACTIVE

datatype lifecycle_action = NO_OP | PROMOTE | RETIRE

datatype lifecycle_reason_code =
    NOT_CANDIDATE | POLICY_PROFILE_MISMATCH | TRUSTED_USER_CONFIRMATION | INDEPENDENT_OBSERVATIONS
  | PROTECTED_CANDIDATE | INSUFFICIENT_EVIDENCE | EXPIRY_NOT_DUE | LR_CANDIDATE_EXPIRED

datatype policy_reason_code =
    NO_MATCHING_RULE | ROUTINE_BANTER_OMITTED | PR_EXPLICIT_USER_CORRECTION | PR_EXPLICIT_USER_PREFERENCE
  | PR_EXPLICIT_USER_PERMISSION | PR_VERIFIED_PROJECT_DECISION | ASSISTANT_OBSERVATION_CANDIDATE
  | ASSISTANT_INTERPRETATION_CANDIDATE | IMPORTED_LEGACY_CANDIDATE | PR_MEANINGFUL_EPISODIC_ANCHOR
  | PR_EXPLICIT_USER_REQUEST | REASON_REQUIRED | EVIDENCE_REQUIRED | AUTHORITY_NOT_ESTABLISHED
  | BASIS_CATEGORY_INCOMPATIBLE | CATEGORY_ONTOLOGY_INCOMPATIBLE | ROLEPLAY_LITERALIZATION
  | ROLEPLAY_SCOPE_FORBIDDEN | ROLEPLAY_VISIBILITY_FORBIDDEN | EPISTEMIC_QUALIFICATION_REQUIRED
  | SENTIENCE_OVERCLAIM

fun epistemic_qualifier_value :: "epistemic_qualifier \<Rightarrow> string" where
  "epistemic_qualifier_value ROLEPLAY_NOT_LITERAL = ''roleplay_not_literal''"
| "epistemic_qualifier_value ASSISTANT_PATTERN_NOT_SUBJECTIVE_EXPERIENCE =
     ''assistant_pattern_not_subjective_experience''"
| "epistemic_qualifier_value SINGLE_EPISODE_NOT_STABLE_PATTERN = ''single_episode_not_stable_pattern''"
| "epistemic_qualifier_value SUBJECTIVE_EXPERIENCE_UNRESOLVED = ''subjective_experience_unresolved''"
| "epistemic_qualifier_value IMPORTED_SOURCE_UNRECONCILED = ''imported_source_unreconciled''"

definition selection_bases :: "selection_basis list" where
  "selection_bases =
     [ROUTINE_BANTER, SB_EXPLICIT_USER_CORRECTION, SB_EXPLICIT_USER_PREFERENCE,
      SB_EXPLICIT_USER_PERMISSION, SB_VERIFIED_PROJECT_DECISION, SB_ASSISTANT_OBSERVATION,
      SB_ASSISTANT_INTERPRETATION, IMPORTED_LEGACY, SB_MEANINGFUL_EPISODIC_ANCHOR,
      SB_EXPLICIT_USER_REQUEST]"

definition content_signals_all :: "content_signal list" where
  "content_signals_all = [ROLEPLAYED_SCENE, ASSISTANT_PREFERENCE_LIKE, SUBJECTIVE_EXPERIENCE_CLAIM]"

subsection \<open>Requests\<close>

definition blank :: "pystr \<Rightarrow> bool" where
  "blank s \<longleftrightarrow> list_all py_isspace s"

definition rule_identifier :: "string \<Rightarrow> bool" where
  "rule_identifier s \<longleftrightarrow> length s \<le> 128 \<and>
     (case s of [] \<Rightarrow> False
      | c # cs \<Rightarrow> c \<in> set ''abcdefghijklmnopqrstuvwxyz'' \<and>
          list_all (\<lambda>d. d \<in> set ''abcdefghijklmnopqrstuvwxyz0123456789_.-'') cs)"

record evidence_summary =
  es_evidence_key :: pystr
  es_kind :: evidence_kind
  es_trust :: evidence_trust

definition validate_evidence_summary :: "evidence_summary \<Rightarrow> unit result" where
  "validate_evidence_summary x = reject_first
     [(\<not> str_between 1 255 (es_evidence_key x), ''evidence_key''),
      (blank (es_evidence_key x), ''evidence key cannot be blank'')]"

record nomination_evidence_reference =
  nr_evidence_key :: pystr
  nr_opaque_reference :: pystr

definition validate_evidence_reference :: "nomination_evidence_reference \<Rightarrow> unit result" where
  "validate_evidence_reference x = reject_first
     [(\<not> str_between 1 255 (nr_evidence_key x), ''evidence_key''),
      (blank (nr_evidence_key x), ''nomination evidence values cannot be blank''),
      (\<not> str_between 1 2048 (nr_opaque_reference x), ''opaque_reference''),
      (blank (nr_opaque_reference x), ''nomination evidence values cannot be blank'')]"

record 't nomination_proposal =
  np_subject_id :: uuid
  np_subject_kind :: subject_kind
  np_category :: memory_category
  np_ontological_status :: ontological_status
  np_scope :: memory_scope
  np_visibility :: memory_visibility
  np_statement :: pystr
  np_reason_to_remember :: pystr
  np_interpretation_limits :: "pystr list"
  np_confidence :: decimal
  np_salience :: decimal
  np_durability :: decimal
  np_sensitivity :: int
  np_valid_from :: "'t option"
  np_valid_to :: "'t option"
  np_observed_at :: "'t option"
  np_origin_session_id :: "uuid option"
  np_metadata :: json_object
  np_selection_basis :: selection_basis
  np_epistemic_qualifiers :: "epistemic_qualifier list"
  np_evidence_references :: "nomination_evidence_reference list"

definition nomination_field_constraints :: "'t nomination_proposal \<Rightarrow> unit result" where
  "nomination_field_constraints x = reject_first
     [(\<not> str_between 1 8192 (np_statement x), ''statement''),
      (\<not> str_between 1 4096 (np_reason_to_remember x), ''reason_to_remember''),
      (32 < length (np_interpretation_limits x)
         \<or> \<not> list_all (str_between 1 1024) (np_interpretation_limits x), ''interpretation_limits''),
      (np_sensitivity x < 0 \<or> 4 < np_sensitivity x, ''sensitivity''),
      (128 < length (np_metadata x), ''metadata''),
      (16 < length (np_epistemic_qualifiers x), ''epistemic_qualifiers''),
      (64 < length (np_evidence_references x), ''evidence_references''),
      (blank (np_statement x) \<or> blank (np_reason_to_remember x), ''nomination content cannot be blank''),
      (list_ex blank (np_interpretation_limits x), ''interpretation limits cannot be blank''),
      (\<not> distinct (np_interpretation_limits x), ''interpretation limits must be unique'')]"

definition nomination_normalize :: "py_datetime nomination_proposal \<Rightarrow> utc nomination_proposal result" where
  "nomination_normalize x =
     rbind (normalize_unit_score (np_confidence x)) (\<lambda>confidence.
     rbind (normalize_unit_score (np_salience x)) (\<lambda>salience.
     rbind (normalize_unit_score (np_durability x)) (\<lambda>durability.
     rbind (utc_field_opt ''valid_from'' (np_valid_from x)) (\<lambda>valid_from.
     rbind (utc_field_opt ''valid_to'' (np_valid_to x)) (\<lambda>valid_to.
     rbind (utc_field_opt ''observed_at'' (np_observed_at x)) (\<lambda>observed_at.
     Inr \<lparr> np_subject_id = np_subject_id x, np_subject_kind = np_subject_kind x,
       np_category = np_category x, np_ontological_status = np_ontological_status x,
       np_scope = np_scope x, np_visibility = np_visibility x, np_statement = np_statement x,
       np_reason_to_remember = np_reason_to_remember x,
       np_interpretation_limits = np_interpretation_limits x, np_confidence = confidence,
       np_salience = salience, np_durability = durability, np_sensitivity = np_sensitivity x,
       np_valid_from = valid_from, np_valid_to = valid_to, np_observed_at = observed_at,
       np_origin_session_id = np_origin_session_id x, np_metadata = np_metadata x,
       np_selection_basis = np_selection_basis x,
       np_epistemic_qualifiers = np_epistemic_qualifiers x,
       np_evidence_references = np_evidence_references x \<rparr>))))))"

definition validate_nomination ::
    "'z codec_scheme \<Rightarrow> py_datetime nomination_proposal \<Rightarrow> utc nomination_proposal result" where
  "validate_nomination L raw =
     rbind (nomination_field_constraints raw) (\<lambda>_.
     rbind (uuid7_field ''subject_id'' (Some (np_subject_id raw))) (\<lambda>_.
     rbind (uuid7_field ''origin_session_id'' (np_origin_session_id raw)) (\<lambda>_.
     rbind (traverse validate_evidence_reference (np_evidence_references raw)) (\<lambda>_.
     rbind (nomination_normalize raw) (\<lambda>x.
     rbind (reject_first
       [(case (np_valid_from x, np_valid_to x) of (Some f, Some t) \<Rightarrow> t < f | _ \<Rightarrow> False,
           ''valid_to must not precede valid_from''),
        (\<not> distinct (np_epistemic_qualifiers x), ''epistemic qualifiers must be unique''),
        (\<not> distinct (map nr_evidence_key (np_evidence_references x)),
           ''nomination evidence keys must be unique'')]) (\<lambda>_.
     rbind (canonical_json_bytes L (py_of_json 0 (JObj (np_metadata x)))) (\<lambda>metadata.
       if 65536 < length metadata
       then Inl (ValueError ''nomination metadata exceeds 65536 canonical bytes'')
       else Inr x)))))))"

record selection_request =
  sr_basis :: selection_basis
  sr_category :: memory_category
  sr_ontological_status :: ontological_status
  sr_scope :: memory_scope
  sr_visibility :: memory_visibility
  sr_effective_authority_class :: authority_class
  sr_content_signals :: "content_signal set"
  sr_epistemic_qualifiers :: "epistemic_qualifier set"
  sr_reason_to_remember :: "pystr option"
  sr_interpretation_limits :: "pystr list"
  sr_evidence :: "evidence_summary list"

definition validate_selection_request :: "selection_request \<Rightarrow> unit result" where
  "validate_selection_request x =
     rbind (reject_first
       [(8 < card (sr_content_signals x), ''content_signals''),
        (16 < card (sr_epistemic_qualifiers x), ''epistemic_qualifiers''),
        (\<not> opt_all (str_between 1 4096) (sr_reason_to_remember x), ''reason_to_remember''),
        (\<not> opt_all (\<lambda>s. \<not> blank s) (sr_reason_to_remember x), ''reason to remember cannot be blank''),
        (32 < length (sr_interpretation_limits x)
           \<or> \<not> list_all (str_between 1 1024) (sr_interpretation_limits x), ''interpretation_limits''),
        (list_ex blank (sr_interpretation_limits x), ''interpretation limits cannot be blank''),
        (\<not> distinct (sr_interpretation_limits x), ''interpretation limits must be unique''),
        (64 < length (sr_evidence x), ''evidence'')]) (\<lambda>_.
     rbind (traverse validate_evidence_summary (sr_evidence x)) (\<lambda>_.
       reject_first
         [(\<not> distinct (map es_evidence_key (sr_evidence x)), ''evidence keys must be unique'')]))"

subsection \<open>Rules and the profile\<close>

record evidence_requirement =
  eq_kinds :: "evidence_kind list"
  eq_trusts :: "evidence_trust list"
  eq_minimum :: int

definition validate_evidence_requirement :: "evidence_requirement \<Rightarrow> unit result" where
  "validate_evidence_requirement x = reject_first
     [(eq_kinds x = [] \<or> 8 < length (eq_kinds x), ''kinds''),
      (eq_trusts x = [] \<or> 3 < length (eq_trusts x), ''trusts''),
      (eq_minimum x < 1 \<or> 64 < eq_minimum x, ''minimum''),
      (\<not> distinct (eq_kinds x), ''evidence requirement kinds must be unique''),
      (\<not> distinct (eq_trusts x), ''evidence requirement trusts must be unique'')]"

record basis_rule =
  ru_rule_id :: string
  ru_basis :: selection_basis
  ru_outcome :: policy_outcome
  ru_reason_code :: policy_reason_code
  ru_allowed_categories :: "memory_category list"
  ru_required_authority :: "authority_class option"
  ru_evidence_requirement :: "evidence_requirement option"
  ru_required_qualifiers :: "epistemic_qualifier list"
  ru_requires_interpretation_limits :: bool
  ru_candidate_ttl_days :: "int option"

definition validate_basis_rule :: "basis_rule \<Rightarrow> unit result" where
  "validate_basis_rule x =
     rbind (case ru_evidence_requirement x of None \<Rightarrow> Inr () | Some q \<Rightarrow> validate_evidence_requirement q) (\<lambda>_.
     reject_first
       [(\<not> rule_identifier (ru_rule_id x), ''rule_id''),
        (ru_outcome x = OUT_REJECT, ''outcome''),
        (16 < length (ru_allowed_categories x), ''allowed_categories''),
        (16 < length (ru_required_qualifiers x), ''required_qualifiers''),
        (\<not> opt_all (\<lambda>d. 1 \<le> d \<and> d \<le> 3650) (ru_candidate_ttl_days x), ''candidate_ttl_days''),
        (\<not> distinct (ru_allowed_categories x), ''basis-rule allowed categories must be unique''),
        (\<not> distinct (ru_required_qualifiers x), ''basis-rule required qualifiers must be unique''),
        ((ru_outcome x = OUT_CANDIDATE) \<noteq> (ru_candidate_ttl_days x \<noteq> None),
           ''candidate rules require a TTL and non-candidate rules forbid one'')])"

record signal_guardrail =
  gr_rule_id :: string
  gr_signal :: content_signal
  gr_allowed_categories :: "memory_category list"
  gr_allowed_ontologies :: "ontological_status list"
  gr_allowed_scopes :: "memory_scope list"
  gr_allowed_visibilities :: "memory_visibility list"
  gr_required_qualifiers :: "epistemic_qualifier list"
  gr_requires_interpretation_limits :: bool
  gr_force_candidate :: bool
  gr_forced_candidate_ttl_days :: "int option"
  gr_violation_code :: policy_reason_code

definition validate_signal_guardrail :: "signal_guardrail \<Rightarrow> unit result" where
  "validate_signal_guardrail x = reject_first
     [(\<not> rule_identifier (gr_rule_id x), ''rule_id''),
      (gr_allowed_categories x = [] \<or> 16 < length (gr_allowed_categories x), ''allowed_categories''),
      (gr_allowed_ontologies x = [] \<or> 8 < length (gr_allowed_ontologies x), ''allowed_ontologies''),
      (gr_allowed_scopes x = [] \<or> 6 < length (gr_allowed_scopes x), ''allowed_scopes''),
      (gr_allowed_visibilities x = [] \<or> 4 < length (gr_allowed_visibilities x), ''allowed_visibilities''),
      (gr_required_qualifiers x = [] \<or> 16 < length (gr_required_qualifiers x), ''required_qualifiers''),
      (\<not> opt_all (\<lambda>d. 1 \<le> d \<and> d \<le> 3650) (gr_forced_candidate_ttl_days x),
         ''forced_candidate_ttl_days''),
      (\<not> distinct (gr_allowed_categories x), ''guardrail categories must be unique''),
      (\<not> distinct (gr_allowed_ontologies x), ''guardrail ontologies must be unique''),
      (\<not> distinct (gr_allowed_scopes x), ''guardrail scopes must be unique''),
      (\<not> distinct (gr_allowed_visibilities x), ''guardrail visibilities must be unique''),
      (\<not> distinct (gr_required_qualifiers x), ''guardrail qualifiers must be unique''),
      (gr_force_candidate x \<noteq> (gr_forced_candidate_ttl_days x \<noteq> None),
         ''candidate-forcing guardrails require exactly one TTL'')]"

datatype policy_phase = STRUCTURAL | HARD_GUARDRAIL | EVIDENCE | BASIS | QUALIFICATION

record selection_policy_profile =
  pf_policy_id :: string
  pf_profile_version :: string
  pf_precedence :: "policy_phase list"
  pf_default_outcome :: policy_outcome
  pf_default_reason_code :: policy_reason_code
  pf_basis_rules :: "basis_rule list"
  pf_signal_guardrails :: "signal_guardrail list"

definition profile_rule_ids :: "selection_policy_profile \<Rightarrow> string list" where
  "profile_rule_ids x = map ru_rule_id (pf_basis_rules x) @ map gr_rule_id (pf_signal_guardrails x)"

definition validate_profile :: "selection_policy_profile \<Rightarrow> unit result" where
  "validate_profile x =
     rbind (traverse validate_basis_rule (pf_basis_rules x)) (\<lambda>_.
     rbind (traverse validate_signal_guardrail (pf_signal_guardrails x)) (\<lambda>_.
     let bases = map ru_basis (pf_basis_rules x); signals = map gr_signal (pf_signal_guardrails x) in
     reject_first
       [(pf_policy_id x \<noteq> ''scalevault-memory-selection'', ''policy_id''),
        (pf_profile_version x \<noteq> ''selection-v1'', ''profile_version''),
        (pf_default_outcome x \<noteq> OUT_REJECT, ''default_outcome''),
        (pf_default_reason_code x \<noteq> NO_MATCHING_RULE, ''default_reason_code''),
        (pf_basis_rules x = [] \<or> 32 < length (pf_basis_rules x), ''basis_rules''),
        (pf_signal_guardrails x = [] \<or> 16 < length (pf_signal_guardrails x), ''signal_guardrails''),
        (pf_precedence x \<noteq> [STRUCTURAL, HARD_GUARDRAIL, EVIDENCE, BASIS, QUALIFICATION],
           ''selection policy precedence must match the v1 deterministic order''),
        (\<not> distinct bases \<or> set bases \<noteq> set selection_bases,
           ''selection policy must define every basis exactly once''),
        (\<not> distinct signals \<or> set signals \<noteq> set content_signals_all,
           ''selection policy must define every content signal exactly once''),
        (\<not> distinct (profile_rule_ids x), ''selection policy rule identifiers must be unique'')]))"

record loaded_selection_policy =
  lp_profile :: selection_policy_profile
  lp_canonical_bytes :: bytes
  lp_sha256_hex :: string

subsection \<open>Decisions\<close>

record policy_decision =
  pd_profile_version :: string
  pd_profile_sha256 :: string
  pd_outcome :: policy_outcome
  pd_reason_codes :: "policy_reason_code list"
  pd_matched_rule_ids :: "string list"
  pd_required_qualifiers :: "epistemic_qualifier list"
  pd_candidate_ttl_days :: "int option"

definition validate_decision :: "policy_decision \<Rightarrow> policy_decision result" where
  "validate_decision x =
     rbind (reject_first
       [(pd_profile_version x \<noteq> ''selection-v1'', ''profile_version''),
        (\<not> hex_digest_ok (pd_profile_sha256 x), ''profile_sha256''),
        (pd_reason_codes x = [] \<or> 8 < length (pd_reason_codes x), ''reason_codes''),
        (16 < length (pd_matched_rule_ids x), ''matched_rule_ids''),
        (16 < length (pd_required_qualifiers x), ''required_qualifiers''),
        (\<not> opt_all (\<lambda>d. 1 \<le> d \<and> d \<le> 3650) (pd_candidate_ttl_days x), ''candidate_ttl_days''),
        (\<not> distinct (pd_reason_codes x), ''policy decision reason codes must be unique''),
        (\<not> distinct (pd_matched_rule_ids x), ''policy decision rule identifiers must be unique''),
        (\<not> distinct (pd_required_qualifiers x), ''policy decision qualifiers must be unique''),
        ((pd_outcome x = OUT_CANDIDATE) \<noteq> (pd_candidate_ttl_days x \<noteq> None),
           ''candidate decisions require a TTL and other outcomes forbid one'')]) (\<lambda>_. Inr x)"

record candidate_lifecycle_state =
  cl_status :: memory_status
  cl_selection_basis :: selection_basis
  cl_content_signals :: "content_signal set"
  cl_evidence :: "evidence_summary list"
  cl_policy_profile_version :: string
  cl_policy_profile_sha256 :: string

fun profile_version_pattern :: "string \<Rightarrow> bool" where
  "profile_version_pattern s \<longleftrightarrow> length s \<le> 64 \<and> take 11 s = ''selection-v'' \<and>
     (case drop 11 s of [] \<Rightarrow> False
      | c # cs \<Rightarrow> c \<in> set ''123456789'' \<and> list_all (\<lambda>d. d \<in> set ''0123456789'') cs)"

definition validate_candidate_state :: "candidate_lifecycle_state \<Rightarrow> unit result" where
  "validate_candidate_state x =
     rbind (traverse validate_evidence_summary (cl_evidence x)) (\<lambda>_.
     reject_first
       [(8 < card (cl_content_signals x), ''content_signals''),
        (64 < length (cl_evidence x), ''evidence''),
        (\<not> profile_version_pattern (cl_policy_profile_version x), ''policy_profile_version''),
        (\<not> hex_digest_ok (cl_policy_profile_sha256 x), ''policy_profile_sha256''),
        (\<not> distinct (map es_evidence_key (cl_evidence x)),
           ''candidate lifecycle evidence keys must be unique'')])"

record expiry_evaluation =
  xe_candidate :: candidate_lifecycle_state
  xe_deadline :: utc
  xe_evaluated_at :: utc

definition validate_expiry_evaluation ::
    "candidate_lifecycle_state \<Rightarrow> py_datetime \<Rightarrow> py_datetime \<Rightarrow> expiry_evaluation result" where
  "validate_expiry_evaluation candidate deadline evaluated_at =
     rbind (validate_candidate_state candidate) (\<lambda>_.
     rbind (normalize_utc_datetime deadline) (\<lambda>deadline.
     rbind (normalize_utc_datetime evaluated_at) (\<lambda>evaluated_at.
       Inr \<lparr> xe_candidate = candidate, xe_deadline = deadline, xe_evaluated_at = evaluated_at \<rparr>)))"

record lifecycle_decision =
  ld_action :: lifecycle_action
  ld_reason_code :: lifecycle_reason_code
  ld_policy_profile_version :: string
  ld_policy_profile_sha256 :: string

lemma epistemic_qualifier_value_inj: "inj epistemic_qualifier_value"
proof (rule injI)
  fix x y assume "epistemic_qualifier_value x = epistemic_qualifier_value y"
  then show "x = y" by (cases x; cases y) simp_all
qed

end
