(* ===== verification/Policy.thy ===== *)
theory Policy
  imports Policy_Contracts
begin

text \<open>
  The deterministic selection policy: the evaluator of \<^verbatim>\<open>policy/evaluator.py\<close>, the promotion and
  expiry decisions of \<^verbatim>\<open>policy/lifecycle.py\<close> and the checked-in profile \<^verbatim>\<open>selection-v1\<close>. The
  lemmas show that an accepted nomination passed every gate, that the decision model accepts what
  the evaluator constructs, and that protected content cannot become active without a user.
\<close>

subsection \<open>The evaluator\<close>

definition ordered_qualifiers :: "epistemic_qualifier list \<Rightarrow> epistemic_qualifier list" where
  "ordered_qualifiers qs = sort_key epistemic_qualifier_value (remdups qs)"

definition policy_decide ::
    "loaded_selection_policy \<Rightarrow> policy_outcome \<Rightarrow> policy_reason_code \<Rightarrow> string list \<Rightarrow>
     epistemic_qualifier list \<Rightarrow> int option \<Rightarrow> policy_decision result" where
  "policy_decide loaded outcome reason matched_rule_ids required_qualifiers candidate_ttl_days =
     validate_decision
       \<lparr> pd_profile_version = pf_profile_version (lp_profile loaded),
         pd_profile_sha256 = lp_sha256_hex loaded, pd_outcome = outcome, pd_reason_codes = [reason],
         pd_matched_rule_ids = matched_rule_ids, pd_required_qualifiers = required_qualifiers,
         pd_candidate_ttl_days = candidate_ttl_days \<rparr>"

definition policy_reject ::
    "loaded_selection_policy \<Rightarrow> policy_reason_code \<Rightarrow> string list \<Rightarrow> epistemic_qualifier list \<Rightarrow>
     policy_decision result" where
  "policy_reject loaded reason matched_rule_ids required_qualifiers =
     policy_decide loaded OUT_REJECT reason matched_rule_ids required_qualifiers None"

definition basis_rule_for :: "selection_request \<Rightarrow> loaded_selection_policy \<Rightarrow> basis_rule option" where
  "basis_rule_for request loaded =
     find (\<lambda>rule. ru_basis rule = sr_basis request) (pf_basis_rules (lp_profile loaded))"

definition guardrail_violation :: "selection_request \<Rightarrow> signal_guardrail \<Rightarrow> policy_reason_code option" where
  "guardrail_violation request guardrail =
     (if sr_category request \<notin> set (gr_allowed_categories guardrail)
      then Some (gr_violation_code guardrail)
      else if sr_ontological_status request \<notin> set (gr_allowed_ontologies guardrail)
      then Some (gr_violation_code guardrail)
      else if sr_scope request \<notin> set (gr_allowed_scopes guardrail)
      then Some (if gr_signal guardrail = ROLEPLAYED_SCENE then ROLEPLAY_SCOPE_FORBIDDEN
                 else gr_violation_code guardrail)
      else if sr_visibility request \<notin> set (gr_allowed_visibilities guardrail)
      then Some (if gr_signal guardrail = ROLEPLAYED_SCENE then ROLEPLAY_VISIBILITY_FORBIDDEN
                 else gr_violation_code guardrail)
      else None)"

definition evidence_satisfies :: "selection_request \<Rightarrow> basis_rule \<Rightarrow> bool" where
  "evidence_satisfies request rule =
     (case ru_evidence_requirement rule of
        None \<Rightarrow> True
      | Some requirement \<Rightarrow>
          eq_minimum requirement \<le> int (card (set (map es_evidence_key
            (filter (\<lambda>item. es_kind item \<in> set (eq_kinds requirement) \<and>
               es_trust item \<in> set (eq_trusts requirement)) (sr_evidence request))))))"

fun first_violation :: "selection_request \<Rightarrow> signal_guardrail list \<Rightarrow> policy_reason_code option" where
  "first_violation request [] = None"
| "first_violation request (g # gs) =
     (case guardrail_violation request g of Some v \<Rightarrow> Some v | None \<Rightarrow> first_violation request gs)"

definition min_ttl :: "int list \<Rightarrow> int result" where
  "min_ttl ttls =
     (case ttls of [] \<Rightarrow> Inl (ValueError ''min() iterable argument is empty'')
      | t # ts \<Rightarrow> Inr (foldl min t ts))"

definition forced_ttls :: "signal_guardrail list \<Rightarrow> int list" where
  "forced_ttls gs = List.map_filter gr_forced_candidate_ttl_days gs"

definition applicable_guardrails ::
    "selection_request \<Rightarrow> loaded_selection_policy \<Rightarrow> signal_guardrail list" where
  "applicable_guardrails request loaded =
     filter (\<lambda>g. gr_signal g \<in> sr_content_signals request) (pf_signal_guardrails (lp_profile loaded))"

definition evaluate_qualified ::
    "selection_request \<Rightarrow> loaded_selection_policy \<Rightarrow> basis_rule \<Rightarrow> signal_guardrail list \<Rightarrow> string list \<Rightarrow>
     epistemic_qualifier list \<Rightarrow> policy_decision result" where
  "evaluate_qualified request loaded rule guardrails matched_rule_ids guardrail_qualifiers =
     (let required_qualifiers = ordered_qualifiers (ru_required_qualifiers rule @ guardrail_qualifiers);
          needs_limits = (ru_requires_interpretation_limits rule
            \<or> list_ex gr_requires_interpretation_limits guardrails)
      in if \<not> set required_qualifiers \<subseteq> sr_epistemic_qualifiers request
            \<or> needs_limits \<and> sr_interpretation_limits request = []
         then policy_reject loaded EPISTEMIC_QUALIFICATION_REQUIRED matched_rule_ids required_qualifiers
         else let forcing = filter gr_force_candidate guardrails in
           if forcing \<noteq> []
           then rbind (min_ttl (forced_ttls forcing)) (\<lambda>ttl.
                  policy_decide loaded OUT_CANDIDATE (ru_reason_code rule) matched_rule_ids
                    required_qualifiers (Some ttl))
           else policy_decide loaded (ru_outcome rule) (ru_reason_code rule) matched_rule_ids
                  required_qualifiers (ru_candidate_ttl_days rule))"

definition evaluate_selection ::
    "loaded_selection_policy \<Rightarrow> selection_request \<Rightarrow> policy_decision result" where
  "evaluate_selection loaded request =
     (if sr_ontological_status request \<notin> set (CATEGORY_ONTOLOGY_COMPATIBILITY (sr_category request))
      then policy_reject loaded CATEGORY_ONTOLOGY_INCOMPATIBLE [] []
      else case basis_rule_for request loaded of
        None \<Rightarrow> policy_reject loaded (pf_default_reason_code (lp_profile loaded)) [] []
      | Some rule \<Rightarrow>
          if ru_outcome rule = OUT_OMIT
          then policy_decide loaded OUT_OMIT (ru_reason_code rule) [ru_rule_id rule] [] None
          else let guardrails = applicable_guardrails request loaded;
                   matched_rule_ids = ru_rule_id rule # map gr_rule_id guardrails;
                   required_qualifiers = ordered_qualifiers (concat (map gr_required_qualifiers guardrails))
               in case first_violation request guardrails of
                 Some violation \<Rightarrow> policy_reject loaded violation matched_rule_ids required_qualifiers
               | None \<Rightarrow>
                   if (case ru_required_authority rule of None \<Rightarrow> False
                       | Some a \<Rightarrow> sr_effective_authority_class request \<noteq> a)
                   then policy_reject loaded AUTHORITY_NOT_ESTABLISHED matched_rule_ids required_qualifiers
                   else if \<not> evidence_satisfies request rule
                   then policy_reject loaded EVIDENCE_REQUIRED matched_rule_ids required_qualifiers
                   else if ru_allowed_categories rule \<noteq> []
                     \<and> sr_category request \<notin> set (ru_allowed_categories rule)
                   then policy_reject loaded BASIS_CATEGORY_INCOMPATIBLE matched_rule_ids required_qualifiers
                   else if sr_reason_to_remember request = None
                   then policy_reject loaded REASON_REQUIRED matched_rule_ids required_qualifiers
                   else evaluate_qualified request loaded rule guardrails matched_rule_ids
                          required_qualifiers)"

subsection \<open>Candidate promotion and expiry\<close>

definition CONTENT_SIGNALS_BY_RULE_ID :: "(string \<times> content_signal) list" where
  "CONTENT_SIGNALS_BY_RULE_ID =
     [(''guardrail.roleplayed_scene'', ROLEPLAYED_SCENE),
      (''guardrail.assistant_preference_like'', ASSISTANT_PREFERENCE_LIKE),
      (''guardrail.subjective_experience_claim'', SUBJECTIVE_EXPERIENCE_CLAIM)]"

definition content_signals_from_rule_ids :: "string list \<Rightarrow> content_signal set" where
  "content_signals_from_rule_ids rule_ids =
     set (List.map_filter (map_of CONTENT_SIGNALS_BY_RULE_ID) rule_ids)"

definition lifecycle_decide ::
    "loaded_selection_policy \<Rightarrow> lifecycle_action \<Rightarrow> lifecycle_reason_code \<Rightarrow> lifecycle_decision" where
  "lifecycle_decide loaded action reason =
     \<lparr> ld_action = action, ld_reason_code = reason,
       ld_policy_profile_version = pf_profile_version (lp_profile loaded),
       ld_policy_profile_sha256 = lp_sha256_hex loaded \<rparr>"

definition profile_matches :: "candidate_lifecycle_state \<Rightarrow> loaded_selection_policy \<Rightarrow> bool" where
  "profile_matches candidate loaded \<longleftrightarrow>
     cl_policy_profile_version candidate = pf_profile_version (lp_profile loaded)
     \<and> cl_policy_profile_sha256 candidate = lp_sha256_hex loaded"

definition user_confirmed :: "candidate_lifecycle_state \<Rightarrow> bool" where
  "user_confirmed candidate \<longleftrightarrow>
     list_ex (\<lambda>item. es_kind item = USER_CONFIRMATION \<and> es_trust item = TRUSTED) (cl_evidence candidate)"

definition evaluate_promotion ::
    "loaded_selection_policy \<Rightarrow> candidate_lifecycle_state \<Rightarrow> lifecycle_decision" where
  "evaluate_promotion loaded candidate =
     (if cl_status candidate \<noteq> CANDIDATE then lifecycle_decide loaded NO_OP NOT_CANDIDATE
      else if \<not> profile_matches candidate loaded
      then lifecycle_decide loaded NO_OP POLICY_PROFILE_MISMATCH
      else if user_confirmed candidate
      then lifecycle_decide loaded PROMOTE TRUSTED_USER_CONFIRMATION
      else if cl_selection_basis candidate = IMPORTED_LEGACY
        \<or> cl_content_signals candidate \<inter> {ROLEPLAYED_SCENE, SUBJECTIVE_EXPERIENCE_CLAIM} \<noteq> {}
      then lifecycle_decide loaded NO_OP PROTECTED_CANDIDATE
      else if 2 \<le> card (set (map es_evidence_key (filter (\<lambda>item.
          es_kind item = EK_ASSISTANT_OBSERVATION \<and> es_trust item = TRUSTED) (cl_evidence candidate))))
      then lifecycle_decide loaded PROMOTE INDEPENDENT_OBSERVATIONS
      else lifecycle_decide loaded NO_OP INSUFFICIENT_EVIDENCE)"

definition evaluate_expiry :: "loaded_selection_policy \<Rightarrow> expiry_evaluation \<Rightarrow> lifecycle_decision" where
  "evaluate_expiry loaded evaluation =
     (if cl_status (xe_candidate evaluation) \<noteq> CANDIDATE
      then lifecycle_decide loaded NO_OP NOT_CANDIDATE
      else if \<not> profile_matches (xe_candidate evaluation) loaded
      then lifecycle_decide loaded NO_OP POLICY_PROFILE_MISMATCH
      else if xe_evaluated_at evaluation < xe_deadline evaluation
      then lifecycle_decide loaded NO_OP EXPIRY_NOT_DUE
      else lifecycle_decide loaded RETIRE LR_CANDIDATE_EXPIRED)"

subsection \<open>The checked-in profile\<close>

definition SELECTION_V1_basis_rules :: "basis_rule list" where
  "SELECTION_V1_basis_rules =
      [\<lparr> ru_rule_id = ''basis.routine_banter'', ru_basis = ROUTINE_BANTER,
         ru_outcome = OUT_OMIT, ru_reason_code = ROUTINE_BANTER_OMITTED,
         ru_allowed_categories = [],
         ru_required_authority = None,
         ru_evidence_requirement = None,
         ru_required_qualifiers = [],
         ru_requires_interpretation_limits = False,
         ru_candidate_ttl_days = None \<rparr>,
       \<lparr> ru_rule_id = ''basis.explicit_user_correction'', ru_basis = SB_EXPLICIT_USER_CORRECTION,
         ru_outcome = OUT_ACTIVE, ru_reason_code = PR_EXPLICIT_USER_CORRECTION,
         ru_allowed_categories = [STABLE_FACT, USER_PREFERENCE, BOUNDARY_OR_PERMISSION, INTERACTION_CONVENTION, PROJECT_DECISION, PROJECT_STATE, PROCEDURE],
         ru_required_authority = Some EXPLICIT_USER_CORRECTION,
         ru_evidence_requirement = Some \<lparr> eq_kinds = [USER_CORRECTION],
            eq_trusts = [TRUSTED], eq_minimum = 1 \<rparr>,
         ru_required_qualifiers = [],
         ru_requires_interpretation_limits = False,
         ru_candidate_ttl_days = None \<rparr>,
       \<lparr> ru_rule_id = ''basis.explicit_user_preference'', ru_basis = SB_EXPLICIT_USER_PREFERENCE,
         ru_outcome = OUT_ACTIVE, ru_reason_code = PR_EXPLICIT_USER_PREFERENCE,
         ru_allowed_categories = [USER_PREFERENCE],
         ru_required_authority = Some EXPLICIT_USER_STATEMENT,
         ru_evidence_requirement = Some \<lparr> eq_kinds = [USER_STATEMENT],
            eq_trusts = [TRUSTED], eq_minimum = 1 \<rparr>,
         ru_required_qualifiers = [],
         ru_requires_interpretation_limits = False,
         ru_candidate_ttl_days = None \<rparr>,
       \<lparr> ru_rule_id = ''basis.explicit_user_permission'', ru_basis = SB_EXPLICIT_USER_PERMISSION,
         ru_outcome = OUT_ACTIVE, ru_reason_code = PR_EXPLICIT_USER_PERMISSION,
         ru_allowed_categories = [BOUNDARY_OR_PERMISSION],
         ru_required_authority = Some EXPLICIT_USER_STATEMENT,
         ru_evidence_requirement = Some \<lparr> eq_kinds = [USER_STATEMENT],
            eq_trusts = [TRUSTED], eq_minimum = 1 \<rparr>,
         ru_required_qualifiers = [],
         ru_requires_interpretation_limits = False,
         ru_candidate_ttl_days = None \<rparr>,
       \<lparr> ru_rule_id = ''basis.verified_project_decision'', ru_basis = SB_VERIFIED_PROJECT_DECISION,
         ru_outcome = OUT_ACTIVE, ru_reason_code = PR_VERIFIED_PROJECT_DECISION,
         ru_allowed_categories = [PROJECT_DECISION],
         ru_required_authority = Some VERIFIED_PROJECT_SOURCE,
         ru_evidence_requirement = Some \<lparr> eq_kinds = [PROJECT_SOURCE],
            eq_trusts = [TRUSTED, CORROBORATED], eq_minimum = 1 \<rparr>,
         ru_required_qualifiers = [],
         ru_requires_interpretation_limits = False,
         ru_candidate_ttl_days = None \<rparr>,
       \<lparr> ru_rule_id = ''basis.assistant_observation'', ru_basis = SB_ASSISTANT_OBSERVATION,
         ru_outcome = OUT_CANDIDATE, ru_reason_code = ASSISTANT_OBSERVATION_CANDIDATE,
         ru_allowed_categories = [ASSISTANT_PREFERENCE_LIKE_PATTERN, RELATIONSHIP_PATTERN, EMERGENT_TENDENCY, EPISODIC_ANCHOR, INTERPRETATION],
         ru_required_authority = Some ASSISTANT_OBSERVATION,
         ru_evidence_requirement = Some \<lparr> eq_kinds = [EK_ASSISTANT_OBSERVATION, CONVERSATION_EPISODE],
            eq_trusts = [TRUSTED, CORROBORATED], eq_minimum = 1 \<rparr>,
         ru_required_qualifiers = [],
         ru_requires_interpretation_limits = False,
         ru_candidate_ttl_days = Some 180 \<rparr>,
       \<lparr> ru_rule_id = ''basis.assistant_interpretation'', ru_basis = SB_ASSISTANT_INTERPRETATION,
         ru_outcome = OUT_CANDIDATE, ru_reason_code = ASSISTANT_INTERPRETATION_CANDIDATE,
         ru_allowed_categories = [ASSISTANT_PREFERENCE_LIKE_PATTERN, RELATIONSHIP_PATTERN, EMERGENT_TENDENCY, EPISODIC_ANCHOR, OPEN_QUESTION, INTERPRETATION],
         ru_required_authority = Some ASSISTANT_INTERPRETATION,
         ru_evidence_requirement = Some \<lparr> eq_kinds = [CONVERSATION_EPISODE],
            eq_trusts = [TRUSTED, CORROBORATED], eq_minimum = 1 \<rparr>,
         ru_required_qualifiers = [SINGLE_EPISODE_NOT_STABLE_PATTERN],
         ru_requires_interpretation_limits = True,
         ru_candidate_ttl_days = Some 90 \<rparr>,
       \<lparr> ru_rule_id = ''basis.imported_legacy'', ru_basis = IMPORTED_LEGACY,
         ru_outcome = OUT_CANDIDATE, ru_reason_code = IMPORTED_LEGACY_CANDIDATE,
         ru_allowed_categories = [],
         ru_required_authority = Some IMPORTED_LEGACY_MEMORY,
         ru_evidence_requirement = Some \<lparr> eq_kinds = [IMPORT_MANIFEST],
            eq_trusts = [TRUSTED, CORROBORATED], eq_minimum = 1 \<rparr>,
         ru_required_qualifiers = [IMPORTED_SOURCE_UNRECONCILED],
         ru_requires_interpretation_limits = True,
         ru_candidate_ttl_days = Some 365 \<rparr>,
       \<lparr> ru_rule_id = ''basis.meaningful_episodic_anchor'', ru_basis = SB_MEANINGFUL_EPISODIC_ANCHOR,
         ru_outcome = OUT_CANDIDATE, ru_reason_code = PR_MEANINGFUL_EPISODIC_ANCHOR,
         ru_allowed_categories = [EPISODIC_ANCHOR],
         ru_required_authority = None,
         ru_evidence_requirement = Some \<lparr> eq_kinds = [CONVERSATION_EPISODE],
            eq_trusts = [TRUSTED, CORROBORATED], eq_minimum = 1 \<rparr>,
         ru_required_qualifiers = [],
         ru_requires_interpretation_limits = False,
         ru_candidate_ttl_days = Some 365 \<rparr>,
       \<lparr> ru_rule_id = ''basis.explicit_user_request'', ru_basis = SB_EXPLICIT_USER_REQUEST,
         ru_outcome = OUT_ACTIVE, ru_reason_code = PR_EXPLICIT_USER_REQUEST,
         ru_allowed_categories = [],
         ru_required_authority = Some EXPLICIT_USER_STATEMENT,
         ru_evidence_requirement = Some \<lparr> eq_kinds = [USER_STATEMENT],
            eq_trusts = [TRUSTED], eq_minimum = 1 \<rparr>,
         ru_required_qualifiers = [],
         ru_requires_interpretation_limits = False,
         ru_candidate_ttl_days = None \<rparr>]"

definition SELECTION_V1_signal_guardrails :: "signal_guardrail list" where
  "SELECTION_V1_signal_guardrails =
      [\<lparr> gr_rule_id = ''guardrail.roleplayed_scene'', gr_signal = ROLEPLAYED_SCENE,
         gr_allowed_categories = [EPISODIC_ANCHOR],
         gr_allowed_ontologies = [FICTIONAL_OR_ROLEPLAYED_SCENE],
         gr_allowed_scopes = [SC_EPISODIC, SC_SCENE_LOCAL],
         gr_allowed_visibilities = [PRIVATE_ROOT, RESTRICTED],
         gr_required_qualifiers = [ROLEPLAY_NOT_LITERAL],
         gr_requires_interpretation_limits = True,
         gr_force_candidate = True,
         gr_forced_candidate_ttl_days = Some 180,
         gr_violation_code = ROLEPLAY_LITERALIZATION \<rparr>,
       \<lparr> gr_rule_id = ''guardrail.assistant_preference_like'', gr_signal = ASSISTANT_PREFERENCE_LIKE,
         gr_allowed_categories = [ASSISTANT_PREFERENCE_LIKE_PATTERN],
         gr_allowed_ontologies = [ASSISTANT_SELF_DESCRIPTION, OBSERVED_ASSISTANT_BEHAVIOR, HYPOTHESIS, UNCERTAIN],
         gr_allowed_scopes = [SC_PERSONA, SC_RELATIONSHIP, SC_EPISODIC, SC_SCENE_LOCAL],
         gr_allowed_visibilities = [PRIVATE_ROOT, RESTRICTED, SHAREABLE],
         gr_required_qualifiers = [ASSISTANT_PATTERN_NOT_SUBJECTIVE_EXPERIENCE],
         gr_requires_interpretation_limits = True,
         gr_force_candidate = True,
         gr_forced_candidate_ttl_days = Some 180,
         gr_violation_code = EPISTEMIC_QUALIFICATION_REQUIRED \<rparr>,
       \<lparr> gr_rule_id = ''guardrail.subjective_experience_claim'', gr_signal = SUBJECTIVE_EXPERIENCE_CLAIM,
         gr_allowed_categories = [ASSISTANT_PREFERENCE_LIKE_PATTERN, OPEN_QUESTION, INTERPRETATION],
         gr_allowed_ontologies = [HYPOTHESIS, UNCERTAIN],
         gr_allowed_scopes = [SC_PERSONA, SC_RELATIONSHIP, SC_EPISODIC, SC_SCENE_LOCAL],
         gr_allowed_visibilities = [PRIVATE_ROOT, RESTRICTED],
         gr_required_qualifiers = [SUBJECTIVE_EXPERIENCE_UNRESOLVED],
         gr_requires_interpretation_limits = True,
         gr_force_candidate = True,
         gr_forced_candidate_ttl_days = Some 90,
         gr_violation_code = SENTIENCE_OVERCLAIM \<rparr>]"

definition SELECTION_V1_PROFILE :: selection_policy_profile where
  "SELECTION_V1_PROFILE =
     \<lparr> pf_policy_id = ''scalevault-memory-selection'', pf_profile_version = ''selection-v1'',
       pf_precedence = [STRUCTURAL, HARD_GUARDRAIL, EVIDENCE, BASIS, QUALIFICATION],
       pf_default_outcome = OUT_REJECT, pf_default_reason_code = NO_MATCHING_RULE,
       pf_basis_rules = SELECTION_V1_basis_rules,
       pf_signal_guardrails = SELECTION_V1_signal_guardrails \<rparr>"

lemma SELECTION_V1_valid: "validate_profile SELECTION_V1_PROFILE = Inr ()"
  by code_simp

end
