(* ===== verification/Policy_Safety.thy ===== *)
theory Policy_Safety
  imports Policy
begin

text \<open>
  What the selection policy guarantees. For every valid profile the evaluator returns a decision
  that its own model accepts; an accepted decision passed every gate of its rule and of every
  guardrail that applies; and for the checked-in profile content becomes active only on explicit
  user or verified project evidence, while flagged content stays a candidate that only a user
  can promote.
\<close>

subsection \<open>Decisions are always valid\<close>

lemma set_ordered_qualifiers [simp]: "set (ordered_qualifiers qs) = set qs"
  by (simp add: ordered_qualifiers_def)

lemma distinct_ordered_qualifiers [simp]: "distinct (ordered_qualifiers qs)"
  by (simp add: ordered_qualifiers_def)

lemma qualifier_UNIV:
  "(UNIV :: epistemic_qualifier set) = {ROLEPLAY_NOT_LITERAL, ASSISTANT_PATTERN_NOT_SUBJECTIVE_EXPERIENCE,
     SINGLE_EPISODE_NOT_STABLE_PATTERN, SUBJECTIVE_EXPERIENCE_UNRESOLVED, IMPORTED_SOURCE_UNRECONCILED}"
  using epistemic_qualifier.exhaust by blast

lemma length_ordered_qualifiers: "length (ordered_qualifiers qs) \<le> 5"
proof -
  have "length (ordered_qualifiers qs) = card (set (ordered_qualifiers qs))"
    by (rule distinct_card[symmetric]) simp
  also have "\<dots> \<le> card (UNIV :: epistemic_qualifier set)"
    by (rule card_mono) (simp_all add: qualifier_UNIV[symmetric], simp add: qualifier_UNIV)
  also have "\<dots> = 5" by (simp add: qualifier_UNIV)
  finally show ?thesis .
qed

definition valid_policy :: "loaded_selection_policy \<Rightarrow> bool" where
  "valid_policy loaded \<longleftrightarrow> validate_profile (lp_profile loaded) = Inr () \<and> hex_digest_ok (lp_sha256_hex loaded)"

lemma traverse_all_ok: "traverse f xs = Inr (ys :: unit list) \<Longrightarrow> x \<in> set xs \<Longrightarrow> f x = Inr ()"
  by (induction xs arbitrary: ys) (auto simp: ok_simps)

lemma valid_policyD:
  assumes "valid_policy loaded"
  shows "pf_profile_version (lp_profile loaded) = ''selection-v1''" "hex_digest_ok (lp_sha256_hex loaded)"
    and "distinct (profile_rule_ids (lp_profile loaded))"
    and "distinct (map gr_signal (pf_signal_guardrails (lp_profile loaded)))"
    and "set (map ru_basis (pf_basis_rules (lp_profile loaded))) = set selection_bases"
    and "set (map gr_signal (pf_signal_guardrails (lp_profile loaded))) = set content_signals_all"
    and "rule \<in> set (pf_basis_rules (lp_profile loaded)) \<Longrightarrow> validate_basis_rule rule = Inr ()"
    and "g \<in> set (pf_signal_guardrails (lp_profile loaded)) \<Longrightarrow> validate_signal_guardrail g = Inr ()"
  using assms unfolding valid_policy_def validate_profile_def Let_def
  by (auto simp: ok_simps dest: traverse_all_ok)

lemma applicable_few:
  assumes "valid_policy loaded"
  shows "length (applicable_guardrails request loaded) \<le> 3"
proof -
  have "length (pf_signal_guardrails (lp_profile loaded))
      = card (set (map gr_signal (pf_signal_guardrails (lp_profile loaded))))"
    using valid_policyD(4)[OF assms] by (metis distinct_card length_map)
  also have "\<dots> = 3" unfolding valid_policyD(6)[OF assms] by (simp add: content_signals_all_def)
  finally show ?thesis unfolding applicable_guardrails_def by (metis length_filter_le)
qed

lemma distinct_sublist_ids:
  assumes "distinct (map f xs @ map g ys)" "x \<in> set xs"
  shows "distinct (f x # map g (filter P ys))"
  using assms by (auto simp: distinct_map intro: inj_on_subset)

lemma matched_ids_ok:
  assumes "valid_policy loaded" "basis_rule_for request loaded = Some rule"
  shows "distinct (ru_rule_id rule # map gr_rule_id (applicable_guardrails request loaded))"
    and "length (ru_rule_id rule # map gr_rule_id (applicable_guardrails request loaded)) \<le> 4"
proof -
  have "rule \<in> set (pf_basis_rules (lp_profile loaded))"
    using assms(2) by (auto simp: basis_rule_for_def find_Some_iff)
  then show "distinct (ru_rule_id rule # map gr_rule_id (applicable_guardrails request loaded))"
    using valid_policyD(3)[OF assms(1)] unfolding profile_rule_ids_def applicable_guardrails_def
    by (intro distinct_sublist_ids)
  show "length (ru_rule_id rule # map gr_rule_id (applicable_guardrails request loaded)) \<le> 4"
    using applicable_few[OF assms(1), of request] by simp
qed

lemma policy_decide_total:
  assumes "valid_policy loaded" "distinct ids" "length ids \<le> 4" "distinct qs" "length qs \<le> 5"
    and "(outcome = OUT_CANDIDATE) = (ttl \<noteq> None)" "opt_all (\<lambda>d. 1 \<le> d \<and> d \<le> 3650) ttl"
  shows "is_ok (policy_decide loaded outcome reason ids qs ttl)"
  using assms valid_policyD(1,2)[OF assms(1)]
  by (simp add: policy_decide_def validate_decision_def is_ok_iff)

lemma policy_decide_fields:
  assumes "policy_decide loaded outcome reason ids qs ttl = Inr d"
  shows "pd_outcome d = outcome" "pd_matched_rule_ids d = ids" "pd_required_qualifiers d = qs"
    "pd_candidate_ttl_days d = ttl" "pd_reason_codes d = [reason]"
  using assms by (auto simp: policy_decide_def validate_decision_def rbind_eq_Inr)

lemma policy_reject_total:
  assumes "valid_policy loaded" "distinct ids" "length ids \<le> 4" "distinct qs" "length qs \<le> 5"
  shows "is_ok (policy_reject loaded reason ids qs)"
  unfolding policy_reject_def using assms by (intro policy_decide_total) simp_all

lemma foldl_min_in: "foldl min (t::int) ts \<in> set (t # ts)"
  by (induction ts arbitrary: t) (auto simp: min_def)

lemma foldl_min_le: "x \<in> set (t # ts) \<Longrightarrow> foldl min (t::int) ts \<le> x"
proof (induction ts arbitrary: t x)
  case (Cons u us)
  have "foldl min (min t u) us \<le> min t u" using Cons.IH[of "min t u"] by simp
  moreover have "x \<in> set us \<Longrightarrow> foldl min (min t u) us \<le> x" using Cons.IH[of x] by simp
  ultimately show ?case using Cons.prems by auto
qed simp

lemma min_ttl_ok: "min_ttl ts = Inr t \<Longrightarrow> t \<in> set ts \<and> (\<forall>x \<in> set ts. t \<le> x)"
  unfolding min_ttl_def using foldl_min_in foldl_min_le by (fastforce split: list.splits)

lemma min_ttl_total: "ts \<noteq> [] \<Longrightarrow> is_ok (min_ttl ts)"
  by (cases ts) (simp_all add: min_ttl_def)

lemma set_forced_ttls: "t \<in> set (forced_ttls gs) \<longleftrightarrow> (\<exists>g \<in> set gs. gr_forced_candidate_ttl_days g = Some t)"
  by (auto simp: forced_ttls_def List.map_filter_def image_iff)

lemma valid_guardrail_ttl:
  assumes "validate_signal_guardrail g = Inr ()" "gr_force_candidate g"
  obtains t where "gr_forced_candidate_ttl_days g = Some t" "1 \<le> t" "t \<le> 3650"
  using assms by (auto simp: validate_signal_guardrail_def ok_simps)

lemma evaluate_qualified_total:
  assumes v: "valid_policy loaded" and r: "basis_rule_for request loaded = Some rule"
    and o: "ru_outcome rule \<noteq> OUT_OMIT"
    and ids: "distinct ids" "length ids \<le> 4"
  shows "is_ok (evaluate_qualified request loaded rule (applicable_guardrails request loaded) ids qs)"
proof -
  let ?forcing = "filter gr_force_candidate (applicable_guardrails request loaded)"
  have g: "g \<in> set ?forcing \<Longrightarrow> validate_signal_guardrail g = Inr () \<and> gr_force_candidate g" for g
    using valid_policyD(8)[OF v] by (auto simp: applicable_guardrails_def)
  have rule: "validate_basis_rule rule = Inr ()"
    using r valid_policyD(7)[OF v] by (auto simp: basis_rule_for_def find_Some_iff)
  have ttl: "is_ok (min_ttl (forced_ttls ?forcing))" if "?forcing \<noteq> []"
  proof (rule min_ttl_total)
    from that obtain x where "x \<in> set ?forcing" by (metis last_in_set)
    with g[of x] show "forced_ttls ?forcing \<noteq> []"
      by (metis valid_guardrail_ttl set_forced_ttls empty_iff empty_set)
  qed
  have bound: "1 \<le> t \<and> t \<le> 3650" if "min_ttl (forced_ttls ?forcing) = Inr t" for t
    using min_ttl_ok[OF that] g by (metis set_forced_ttls valid_guardrail_ttl option.inject)
  show ?thesis
    unfolding evaluate_qualified_def Let_def
  proof (split if_split, intro conjI impI)
    show "is_ok (policy_reject loaded EPISTEMIC_QUALIFICATION_REQUIRED ids
        (ordered_qualifiers (ru_required_qualifiers rule @ qs)))"
      by (intro policy_reject_total v ids length_ordered_qualifiers) simp
  next
    show "is_ok (if ?forcing \<noteq> [] then rbind (min_ttl (forced_ttls ?forcing))
        (\<lambda>ttl. policy_decide loaded OUT_CANDIDATE (ru_reason_code rule) ids
           (ordered_qualifiers (ru_required_qualifiers rule @ qs)) (Some ttl))
        else policy_decide loaded (ru_outcome rule) (ru_reason_code rule) ids
           (ordered_qualifiers (ru_required_qualifiers rule @ qs)) (ru_candidate_ttl_days rule))"
    proof (split if_split, intro conjI impI)
      assume "?forcing \<noteq> []"
      with ttl obtain t where t: "min_ttl (forced_ttls ?forcing) = Inr t" by (auto simp: is_ok_iff)
      show "is_ok (rbind (min_ttl (forced_ttls ?forcing))
          (\<lambda>ttl. policy_decide loaded OUT_CANDIDATE (ru_reason_code rule) ids
             (ordered_qualifiers (ru_required_qualifiers rule @ qs)) (Some ttl)))"
        unfolding t rbind_simps using bound[OF t]
        by (intro policy_decide_total v ids length_ordered_qualifiers) simp_all
    next
      show "is_ok (policy_decide loaded (ru_outcome rule) (ru_reason_code rule) ids
           (ordered_qualifiers (ru_required_qualifiers rule @ qs)) (ru_candidate_ttl_days rule))"
        using rule by (intro policy_decide_total v ids length_ordered_qualifiers)
          (simp_all add: validate_basis_rule_def ok_simps)
    qed
  qed
qed

text \<open>
  C35. The evaluator is total. For every profile that its model accepts and every request, the
  evaluation returns a decision: the matched rule identifiers are unique and few enough, the
  minimum over the forced lifetimes is never taken of an empty sequence, the lifetime is in range
  and is present exactly for a candidate, so no check of the decision model fails.
\<close>

theorem evaluate_selection_total:
  assumes "valid_policy loaded"
  shows "\<exists>d. evaluate_selection loaded request = Inr d"
proof -
  note total = policy_reject_total[OF assms] policy_decide_total[OF assms] length_ordered_qualifiers
  have "is_ok (evaluate_selection loaded request)"
  proof (cases "basis_rule_for request loaded")
    case None
    then show ?thesis by (simp add: evaluate_selection_def total(1))
  next
    case (Some rule)
    note ids = matched_ids_ok[OF assms Some]
    have "is_ok (policy_decide loaded OUT_OMIT (ru_reason_code rule) [ru_rule_id rule] [] None)"
      by (intro total(2)) simp_all
    moreover have "is_ok (policy_reject loaded reason
        (ru_rule_id rule # map gr_rule_id (applicable_guardrails request loaded))
        (ordered_qualifiers qs))" for reason qs
      by (intro total(1,3) ids) simp
    ultimately show ?thesis
      using evaluate_qualified_total[OF assms Some _ ids]
      by (simp add: evaluate_selection_def Some Let_def total(1) split: option.split)
  qed
  then show ?thesis by (simp add: is_ok_iff)
qed

subsection \<open>Accepted decisions passed every gate\<close>

definition accepted :: "policy_decision \<Rightarrow> bool" where
  "accepted d \<longleftrightarrow> pd_outcome d = OUT_ACTIVE \<or> pd_outcome d = OUT_CANDIDATE"

definition guardrail_passed :: "selection_request \<Rightarrow> signal_guardrail \<Rightarrow> bool" where
  "guardrail_passed request g \<longleftrightarrow> guardrail_violation request g = None \<and>
     set (gr_required_qualifiers g) \<subseteq> sr_epistemic_qualifiers request \<and>
     (gr_requires_interpretation_limits g \<longrightarrow> sr_interpretation_limits request \<noteq> [])"

definition rule_passed :: "selection_request \<Rightarrow> basis_rule \<Rightarrow> bool" where
  "rule_passed request rule \<longleftrightarrow> ru_basis rule = sr_basis request \<and>
     opt_all (\<lambda>a. sr_effective_authority_class request = a) (ru_required_authority rule) \<and>
     evidence_satisfies request rule \<and>
     (ru_allowed_categories rule = [] \<or> sr_category request \<in> set (ru_allowed_categories rule)) \<and>
     set (ru_required_qualifiers rule) \<subseteq> sr_epistemic_qualifiers request \<and>
     (ru_requires_interpretation_limits rule \<longrightarrow> sr_interpretation_limits request \<noteq> [])"

lemma first_violation_None: "first_violation request gs = None \<longleftrightarrow> (\<forall>g \<in> set gs. guardrail_violation request g = None)"
  by (induction gs) (auto split: option.split)

lemma not_accepted_reject: "policy_reject loaded reason ids qs = Inr d \<Longrightarrow> \<not> accepted d"
  by (auto simp: policy_reject_def accepted_def dest: policy_decide_fields(1))

lemma if_reject_accepted:
  "(if c then policy_reject loaded reason ids qs else x) = Inr d \<Longrightarrow> accepted d \<Longrightarrow> \<not> c \<and> x = Inr d"
  by (auto dest: not_accepted_reject split: if_splits)

lemma case_reject_accepted:
  "(case v of None \<Rightarrow> x | Some w \<Rightarrow> policy_reject loaded w ids qs) = Inr d \<Longrightarrow> accepted d \<Longrightarrow>
    v = None \<and> x = Inr d"
  by (auto dest: not_accepted_reject split: option.splits)

lemma evaluate_qualified_accepted:
  assumes "evaluate_qualified request loaded rule gs ids qs = Inr d" "accepted d"
  shows "set (ru_required_qualifiers rule @ qs) \<subseteq> sr_epistemic_qualifiers request"
    and "ru_requires_interpretation_limits rule \<or> list_ex gr_requires_interpretation_limits gs \<Longrightarrow>
      sr_interpretation_limits request \<noteq> []"
    and "pd_matched_rule_ids d = ids"
    and "filter gr_force_candidate gs = [] \<Longrightarrow>
      pd_outcome d = ru_outcome rule \<and> pd_candidate_ttl_days d = ru_candidate_ttl_days rule"
    and "filter gr_force_candidate gs \<noteq> [] \<Longrightarrow> pd_outcome d = OUT_CANDIDATE \<and>
      (\<exists>t. pd_candidate_ttl_days d = Some t \<and> min_ttl (forced_ttls (filter gr_force_candidate gs)) = Inr t)"
  using assms unfolding evaluate_qualified_def Let_def
  by (auto simp: ok_simps dest: not_accepted_reject policy_decide_fields split: if_splits)

lemma evaluate_selection_accepted:
  assumes "evaluate_selection loaded request = Inr d" "accepted d"
  obtains rule where "basis_rule_for request loaded = Some rule" "ru_outcome rule \<noteq> OUT_OMIT"
    "sr_ontological_status request \<in> set (CATEGORY_ONTOLOGY_COMPATIBILITY (sr_category request))"
    "first_violation request (applicable_guardrails request loaded) = None"
    "opt_all (\<lambda>a. sr_effective_authority_class request = a) (ru_required_authority rule)"
    "evidence_satisfies request rule"
    "ru_allowed_categories rule = [] \<or> sr_category request \<in> set (ru_allowed_categories rule)"
    "sr_reason_to_remember request \<noteq> None"
    "evaluate_qualified request loaded rule (applicable_guardrails request loaded)
       (ru_rule_id rule # map gr_rule_id (applicable_guardrails request loaded))
       (ordered_qualifiers (concat (map gr_required_qualifiers (applicable_guardrails request loaded))))
     = Inr d"
proof -
  note e = if_reject_accepted[OF assms(1)[unfolded evaluate_selection_def] assms(2)]
  from e assms(2) obtain rule where r: "basis_rule_for request loaded = Some rule"
    by (auto dest: not_accepted_reject split: option.splits)
  have o: "ru_outcome rule \<noteq> OUT_OMIT"
  proof
    assume "ru_outcome rule = OUT_OMIT"
    with e r have "policy_decide loaded OUT_OMIT (ru_reason_code rule) [ru_rule_id rule] [] None = Inr d"
      by simp
    from policy_decide_fields(1)[OF this] assms(2) show False by (simp add: accepted_def)
  qed
  note v = case_reject_accepted[OF conjunct2[OF e, unfolded r Let_def option.case if_not_P[OF o]] assms(2)]
  note a = if_reject_accepted[OF conjunct2[OF v] assms(2)]
  note b = if_reject_accepted[OF conjunct2[OF a] assms(2)]
  note c = if_reject_accepted[OF conjunct2[OF b] assms(2)]
  note f = if_reject_accepted[OF conjunct2[OF c] assms(2)]
  show ?thesis
  proof (rule that[OF r o])
    show "opt_all (\<lambda>a. sr_effective_authority_class request = a) (ru_required_authority rule)"
      using a by (simp add: opt_all_def split: option.splits)
  qed (use e v b c f in blast)+
qed

lemma evaluate_selection_gates:
  assumes "evaluate_selection loaded request = Inr d" "accepted d"
  shows "\<exists>rule \<in> set (pf_basis_rules (lp_profile loaded)). rule_passed request rule \<and>
    sr_ontological_status request \<in> set (CATEGORY_ONTOLOGY_COMPATIBILITY (sr_category request)) \<and>
    sr_reason_to_remember request \<noteq> None \<and>
    (\<forall>g \<in> set (applicable_guardrails request loaded). guardrail_passed request g) \<and>
    (pd_outcome d = OUT_ACTIVE \<longrightarrow> ru_outcome rule = OUT_ACTIVE \<and>
       (\<forall>g \<in> set (applicable_guardrails request loaded). \<not> gr_force_candidate g)) \<and>
    (\<forall>g t u. g \<in> set (applicable_guardrails request loaded) \<longrightarrow> gr_force_candidate g \<longrightarrow>
       gr_forced_candidate_ttl_days g = Some t \<longrightarrow> pd_candidate_ttl_days d = Some u \<longrightarrow> u \<le> t)"
  using assms
proof (rule evaluate_selection_accepted)
  fix rule
  let ?gs = "applicable_guardrails request loaded"
  assume r: "basis_rule_for request loaded = Some rule" and o: "ru_outcome rule \<noteq> OUT_OMIT"
    and ont: "sr_ontological_status request \<in> set (CATEGORY_ONTOLOGY_COMPATIBILITY (sr_category request))"
    and v: "first_violation request ?gs = None"
    and a: "opt_all (\<lambda>a. sr_effective_authority_class request = a) (ru_required_authority rule)"
    and ev: "evidence_satisfies request rule"
    and cat: "ru_allowed_categories rule = [] \<or> sr_category request \<in> set (ru_allowed_categories rule)"
    and why: "sr_reason_to_remember request \<noteq> None"
    and q: "evaluate_qualified request loaded rule ?gs (ru_rule_id rule # map gr_rule_id ?gs)
       (ordered_qualifiers (concat (map gr_required_qualifiers ?gs))) = Inr d"
  note quals = evaluate_qualified_accepted[OF q assms(2)]
  have basis: "ru_basis rule = sr_basis request"
    using r by (auto simp: basis_rule_for_def find_Some_iff)
  have "rule_passed request rule"
    unfolding rule_passed_def using basis a ev cat quals(1,2) by simp
  moreover have "guardrail_passed request g" if g: "g \<in> set ?gs" for g
  proof -
    have "set (gr_required_qualifiers g) \<subseteq> sr_epistemic_qualifiers request"
      using quals(1) g by auto
    moreover have "list_ex gr_requires_interpretation_limits ?gs" if "gr_requires_interpretation_limits g"
      using that g by (auto simp: list_ex_iff)
    ultimately show ?thesis
      unfolding guardrail_passed_def using v g quals(2) first_violation_None by blast
  qed
  moreover have "ru_outcome rule = OUT_ACTIVE \<and> (\<forall>g \<in> set ?gs. \<not> gr_force_candidate g)"
    if "pd_outcome d = OUT_ACTIVE"
  proof -
    have "filter gr_force_candidate ?gs = []" using that quals(5) by (metis policy_outcome.distinct(11))
    with that quals(4) show ?thesis unfolding filter_empty_conv by simp
  qed
  moreover have "u \<le> t" if "g \<in> set ?gs" "gr_force_candidate g" "gr_forced_candidate_ttl_days g = Some t"
    "pd_candidate_ttl_days d = Some u" for g t u
  proof -
    from that(1,2) have "filter gr_force_candidate ?gs \<noteq> []" by (auto simp: filter_empty_conv)
    with quals(5) that(4) have "min_ttl (forced_ttls (filter gr_force_candidate ?gs)) = Inr u" by auto
    from min_ttl_ok[OF this] that(1-3) show ?thesis by (auto simp: set_forced_ttls)
  qed
  moreover have "rule \<in> set (pf_basis_rules (lp_profile loaded))"
    using r by (auto simp: basis_rule_for_def find_Some_iff)
  ultimately show ?thesis using ont why by blast
qed


subsection \<open>The checked-in profile\<close>

lemma v1_basis_rule:
  assumes "rule \<in> set SELECTION_V1_basis_rules"
  shows "map_of CONTENT_SIGNALS_BY_RULE_ID (ru_rule_id rule) = None"
    and "ru_outcome rule = OUT_ACTIVE \<Longrightarrow> \<exists>a q. ru_required_authority rule = Some a \<and>
      a \<in> {EXPLICIT_USER_CORRECTION, EXPLICIT_USER_STATEMENT, VERIFIED_PROJECT_SOURCE} \<and>
      ru_evidence_requirement rule = Some q \<and> eq_minimum q = 1 \<and>
      (set (eq_kinds q) \<subseteq> {USER_STATEMENT, USER_CORRECTION} \<and> eq_trusts q = [TRUSTED] \<or>
       eq_kinds q = [PROJECT_SOURCE] \<and> eq_trusts q = [TRUSTED, CORROBORATED])"
  using assms unfolding SELECTION_V1_basis_rules_def
  by (simp_all add: CONTENT_SIGNALS_BY_RULE_ID_def, auto)

lemma v1_guardrails_cover:
  "\<exists>g \<in> set SELECTION_V1_signal_guardrails. gr_signal g = s \<and> gr_force_candidate g"
  by (cases s) (simp_all add: SELECTION_V1_signal_guardrails_def)

lemma v1_profile [simp]:
  "pf_basis_rules SELECTION_V1_PROFILE = SELECTION_V1_basis_rules"
  "pf_signal_guardrails SELECTION_V1_PROFILE = SELECTION_V1_signal_guardrails"
  by (simp_all add: SELECTION_V1_PROFILE_def)

lemma evidence_satisfies_item:
  assumes "evidence_satisfies request rule" "ru_evidence_requirement rule = Some q" "1 \<le> eq_minimum q"
  obtains x where "x \<in> set (sr_evidence request)" "es_kind x \<in> set (eq_kinds q)" "es_trust x \<in> set (eq_trusts q)"
proof -
  have "filter (\<lambda>item. es_kind item \<in> set (eq_kinds q) \<and> es_trust item \<in> set (eq_trusts q))
      (sr_evidence request) \<noteq> []"
    using assms unfolding evidence_satisfies_def by fastforce
  with that show ?thesis by (auto simp: filter_empty_conv)
qed

text \<open>
  C33. Under the checked-in profile a nomination becomes active only on explicit grounds: it
  carries no content signal, its effective authority is an explicit user correction or statement
  or a verified project source, and it brings trusted user evidence or trusted or corroborated
  project evidence. Assistant observations, interpretations and imports never become active at
  selection.
\<close>

theorem selection_v1_active_grounded:
  assumes "lp_profile loaded = SELECTION_V1_PROFILE" "evaluate_selection loaded request = Inr d"
    and "pd_outcome d = OUT_ACTIVE"
  shows "sr_content_signals request = {} \<and>
    sr_effective_authority_class request
      \<in> {EXPLICIT_USER_CORRECTION, EXPLICIT_USER_STATEMENT, VERIFIED_PROJECT_SOURCE} \<and>
    (\<exists>x \<in> set (sr_evidence request). es_trust x = TRUSTED \<and> es_kind x \<in> {USER_STATEMENT, USER_CORRECTION} \<or>
       es_trust x \<in> {TRUSTED, CORROBORATED} \<and> es_kind x = PROJECT_SOURCE)"
proof -
  have "accepted d" using assms(3) by (simp add: accepted_def)
  from evaluate_selection_gates[OF assms(2) this] assms(1,3) obtain rule where
    rule: "rule \<in> set SELECTION_V1_basis_rules" "rule_passed request rule" "ru_outcome rule = OUT_ACTIVE"
    and g: "\<forall>g \<in> set (applicable_guardrails request loaded). \<not> gr_force_candidate g"
    by auto
  have "s \<notin> sr_content_signals request" for s
    using g v1_guardrails_cover[of s] assms(1) unfolding applicable_guardrails_def by auto
  then have "sr_content_signals request = {}" by auto
  moreover obtain a q where q: "ru_required_authority rule = Some a"
    "a \<in> {EXPLICIT_USER_CORRECTION, EXPLICIT_USER_STATEMENT, VERIFIED_PROJECT_SOURCE}"
    "ru_evidence_requirement rule = Some q" "eq_minimum q = 1"
    "set (eq_kinds q) \<subseteq> {USER_STATEMENT, USER_CORRECTION} \<and> eq_trusts q = [TRUSTED] \<or>
       eq_kinds q = [PROJECT_SOURCE] \<and> eq_trusts q = [TRUSTED, CORROBORATED]"
    using v1_basis_rule(2)[OF rule(1,3)] by blast
  moreover have "evidence_satisfies request rule" "sr_effective_authority_class request = a"
    using rule(2) q(1) by (simp_all add: rule_passed_def)
  moreover from this(1) q(3) obtain x where "x \<in> set (sr_evidence request)"
    "es_kind x \<in> set (eq_kinds q)" "es_trust x \<in> set (eq_trusts q)"
    by (rule evidence_satisfies_item) (simp add: q(4))
  ultimately show ?thesis by auto
qed

lemma v1_signals_roundtrip:
  assumes "lp_profile loaded = SELECTION_V1_PROFILE" "evaluate_selection loaded request = Inr d" "accepted d"
  shows "content_signals_from_rule_ids (pd_matched_rule_ids d) = sr_content_signals request"
  using assms(2,3)
proof (rule evaluate_selection_accepted)
  fix rule
  let ?gs = "applicable_guardrails request loaded"
  assume r: "basis_rule_for request loaded = Some rule"
    and q: "evaluate_qualified request loaded rule ?gs (ru_rule_id rule # map gr_rule_id ?gs)
       (ordered_qualifiers (concat (map gr_required_qualifiers ?gs))) = Inr d"
  have "rule \<in> set SELECTION_V1_basis_rules"
    using r assms(1) by (auto simp: basis_rule_for_def find_Some_iff)
  then have none: "map_of CONTENT_SIGNALS_BY_RULE_ID (ru_rule_id rule) = None" by (rule v1_basis_rule)
  have each: "\<forall>g \<in> set SELECTION_V1_signal_guardrails. map_of CONTENT_SIGNALS_BY_RULE_ID (gr_rule_id g) = Some (gr_signal g)"
    by (simp add: SELECTION_V1_signal_guardrails_def CONTENT_SIGNALS_BY_RULE_ID_def)
  have "content_signals_from_rule_ids (pd_matched_rule_ids d) = gr_signal ` set ?gs"
    unfolding evaluate_qualified_accepted(3)[OF q assms(3)] content_signals_from_rule_ids_def
    using none each assms(1) by (force simp: List.map_filter_def applicable_guardrails_def image_iff)
  also have "\<dots> = sr_content_signals request"
  proof (intro equalityI subsetI)
    fix s assume "s \<in> sr_content_signals request"
    with v1_guardrails_cover[of s] assms(1) show "s \<in> gr_signal ` set ?gs"
      by (auto simp: applicable_guardrails_def)
  qed (auto simp: applicable_guardrails_def)
  finally show ?thesis .
qed

subsection \<open>Promotion and expiry\<close>

text \<open>
  What selection flags, promotion protects. The decision ledger keeps rule identifiers only;
  for an accepted decision of the checked-in profile the signals reconstructed from them are
  exactly the signals of the request, and a candidate that carries the roleplay or the subjective
  experience signal is promoted only on a trusted user confirmation.
\<close>

theorem flagged_candidate_needs_user:
  assumes "lp_profile loaded = SELECTION_V1_PROFILE" "evaluate_selection loaded request = Inr d" "accepted d"
    and "cl_content_signals candidate = content_signals_from_rule_ids (pd_matched_rule_ids d)"
  shows "cl_content_signals candidate = sr_content_signals request \<and>
    (sr_content_signals request \<inter> {ROLEPLAYED_SCENE, SUBJECTIVE_EXPERIENCE_CLAIM} \<noteq> {} \<and>
     ld_action (evaluate_promotion loaded candidate) = PROMOTE \<longrightarrow> user_confirmed candidate)"
  using v1_signals_roundtrip[OF assms(1-3)] assms(4)
  by (auto simp: evaluate_promotion_def lifecycle_decide_def split: if_splits)

lemma two_keys: "2 \<le> card (set (map f xs)) \<longleftrightarrow> (\<exists>x \<in> set xs. \<exists>y \<in> set xs. f x \<noteq> f y)"
proof -
  have "2 \<le> card (set (map f xs)) \<longleftrightarrow> \<not> card (set (map f xs)) \<le> Suc 0" by linarith
  then show ?thesis by (simp add: card_le_Suc0_iff_eq)
qed

text \<open>
  A candidate is promoted or retired only while it is a candidate under the policy that
  selected it. Promotion needs a trusted user confirmation or, for unprotected content, two
  trusted observations under different keys; the expiry decision is to retire exactly from the
  deadline on.
\<close>

theorem lifecycle_decisions_exact:
  "(ld_action (evaluate_promotion loaded c) = PROMOTE \<longleftrightarrow>
      cl_status c = CANDIDATE \<and> profile_matches c loaded \<and>
      (user_confirmed c \<or>
       cl_selection_basis c \<noteq> IMPORTED_LEGACY \<and> ROLEPLAYED_SCENE \<notin> cl_content_signals c \<and>
       SUBJECTIVE_EXPERIENCE_CLAIM \<notin> cl_content_signals c \<and>
       (\<exists>x \<in> set (cl_evidence c). \<exists>y \<in> set (cl_evidence c). es_evidence_key x \<noteq> es_evidence_key y \<and>
          es_kind x = EK_ASSISTANT_OBSERVATION \<and> es_trust x = TRUSTED \<and>
          es_kind y = EK_ASSISTANT_OBSERVATION \<and> es_trust y = TRUSTED))) \<and>
   (ld_action (evaluate_expiry loaded x) = RETIRE \<longleftrightarrow>
      cl_status (xe_candidate x) = CANDIDATE \<and> profile_matches (xe_candidate x) loaded \<and>
      xe_deadline x \<le> xe_evaluated_at x)"
proof -
  let ?obs = "filter (\<lambda>item. es_kind item = EK_ASSISTANT_OBSERVATION \<and> es_trust item = TRUSTED) (cl_evidence c)"
  have two: "2 \<le> card (set (map es_evidence_key ?obs)) \<longleftrightarrow>
      (\<exists>x \<in> set ?obs. \<exists>y \<in> set ?obs. es_evidence_key x \<noteq> es_evidence_key y)"
    by (rule two_keys)
  have "ld_action (evaluate_promotion loaded c) = PROMOTE \<longleftrightarrow>
      cl_status c = CANDIDATE \<and> profile_matches c loaded \<and>
      (user_confirmed c \<or>
       cl_selection_basis c \<noteq> IMPORTED_LEGACY \<and> ROLEPLAYED_SCENE \<notin> cl_content_signals c \<and>
       SUBJECTIVE_EXPERIENCE_CLAIM \<notin> cl_content_signals c \<and> 2 \<le> card (set (map es_evidence_key ?obs)))"
    by (simp add: evaluate_promotion_def lifecycle_decide_def)
  then show ?thesis unfolding two
    by (auto simp: evaluate_expiry_def lifecycle_decide_def)
qed

subsection \<open>A roleplayed scene and an explicit preference\<close>

definition sample_policy :: loaded_selection_policy where
  "sample_policy = \<lparr> lp_profile = SELECTION_V1_PROFILE, lp_canonical_bytes = [],
     lp_sha256_hex = replicate 64 CHR ''0'' \<rparr>"

definition sample_scene :: selection_request where
  "sample_scene =
     \<lparr> sr_basis = SB_MEANINGFUL_EPISODIC_ANCHOR, sr_category = EPISODIC_ANCHOR,
       sr_ontological_status = FICTIONAL_OR_ROLEPLAYED_SCENE, sr_scope = SC_EPISODIC,
       sr_visibility = PRIVATE_ROOT, sr_effective_authority_class = ASSISTANT_OBSERVATION,
       sr_content_signals = {ROLEPLAYED_SCENE}, sr_epistemic_qualifiers = {ROLEPLAY_NOT_LITERAL},
       sr_reason_to_remember = Some (lit ''anchor''), sr_interpretation_limits = [lit ''fiction''],
       sr_evidence = [\<lparr> es_evidence_key = lit ''e1'', es_kind = CONVERSATION_EPISODE, es_trust = TRUSTED \<rparr>] \<rparr>"

definition sample_preference :: selection_request where
  "sample_preference = sample_scene
     \<lparr> sr_basis := SB_EXPLICIT_USER_PREFERENCE, sr_category := USER_PREFERENCE,
       sr_ontological_status := LITERAL_USER_FACT, sr_scope := SC_GLOBAL,
       sr_effective_authority_class := EXPLICIT_USER_STATEMENT, sr_content_signals := {},
       sr_evidence := [\<lparr> es_evidence_key = lit ''e1'', es_kind = USER_STATEMENT, es_trust = TRUSTED \<rparr>] \<rparr>"

definition sample_scene_decision :: policy_decision where
  "sample_scene_decision =
     \<lparr> pd_profile_version = ''selection-v1'', pd_profile_sha256 = replicate 64 CHR ''0'',
       pd_outcome = OUT_CANDIDATE, pd_reason_codes = [PR_MEANINGFUL_EPISODIC_ANCHOR],
       pd_matched_rule_ids = [''basis.meaningful_episodic_anchor'', ''guardrail.roleplayed_scene''],
       pd_required_qualifiers = [ROLEPLAY_NOT_LITERAL], pd_candidate_ttl_days = Some 180 \<rparr>"

lemma sample_scene_evaluates: "evaluate_selection sample_policy sample_scene = Inr sample_scene_decision"
  by code_simp

lemma sample_preference_evaluates:
  "evaluate_selection sample_policy sample_preference = Inr (sample_scene_decision
     \<lparr> pd_outcome := OUT_ACTIVE, pd_reason_codes := [PR_EXPLICIT_USER_PREFERENCE],
       pd_matched_rule_ids := [''basis.explicit_user_preference''], pd_required_qualifiers := [],
       pd_candidate_ttl_days := None \<rparr>)"
  by code_simp

lemma sample_policy_valid: "valid_policy sample_policy"
proof -
  have "hex_digest_ok (replicate 64 CHR ''0'')" by code_simp
  then show ?thesis by (simp add: valid_policy_def sample_policy_def SELECTION_V1_valid)
qed

theorem evaluate_selection_total_witness: "\<exists>d. evaluate_selection sample_policy sample_scene = Inr d"
  by (rule evaluate_selection_total[OF sample_policy_valid])


theorem selection_v1_active_grounded_witness:
  "sr_effective_authority_class sample_preference
     \<in> {EXPLICIT_USER_CORRECTION, EXPLICIT_USER_STATEMENT, VERIFIED_PROJECT_SOURCE}"
  using selection_v1_active_grounded[OF _ sample_preference_evaluates]
  by (simp add: sample_policy_def)

definition sample_candidate :: candidate_lifecycle_state where
  "sample_candidate =
     \<lparr> cl_status = CANDIDATE, cl_selection_basis = SB_MEANINGFUL_EPISODIC_ANCHOR,
       cl_content_signals = content_signals_from_rule_ids (pd_matched_rule_ids sample_scene_decision),
       cl_evidence = [\<lparr> es_evidence_key = lit ''c1'', es_kind = USER_CONFIRMATION, es_trust = TRUSTED \<rparr>],
       cl_policy_profile_version = ''selection-v1'', cl_policy_profile_sha256 = replicate 64 CHR ''0'' \<rparr>"

theorem flagged_candidate_needs_user_witness:
  "ld_action (evaluate_promotion sample_policy sample_candidate) = PROMOTE \<and>
   cl_content_signals sample_candidate = {ROLEPLAYED_SCENE} \<and> user_confirmed sample_candidate"
proof -
  have p: "ld_action (evaluate_promotion sample_policy sample_candidate) = PROMOTE" by code_simp
  have a: "lp_profile sample_policy = SELECTION_V1_PROFILE" "accepted sample_scene_decision"
    "sr_content_signals sample_scene = {ROLEPLAYED_SCENE}"
    "cl_content_signals sample_candidate = content_signals_from_rule_ids (pd_matched_rule_ids sample_scene_decision)"
    by (simp_all add: sample_policy_def accepted_def sample_scene_decision_def sample_scene_def sample_candidate_def)
  show ?thesis
    using flagged_candidate_needs_user[OF a(1) sample_scene_evaluates a(2,4)] p unfolding a(3) by simp
qed

end
