(* ===== verification/Fingerprints.thy ===== *)
theory Fingerprints
  imports States "HOL-Library.List_Lexorder"
begin

text \<open>
  Exact-memory fingerprints (\<^verbatim>\<open>domain/fingerprints.py\<close>): the text normalisation, the canonical
  preimage, the digest and the advisory lock input. The lemmas show that the normalisation is a
  projection onto texts without redundant presentation, that the fingerprint depends on nothing
  but the normalised claim, and that it identifies the claim.
\<close>

definition FINGERPRINT_VERSION :: int where
  "FINGERPRINT_VERSION = 1"

subsection \<open>Text\<close>

fun replace_crlf :: "pystr \<Rightarrow> pystr" where
  "replace_crlf (c # d # s) =
     (if c = 13 \<and> d = 10 then 10 # replace_crlf s else c # replace_crlf (d # s))"
| "replace_crlf s = s"

definition replace_cr :: "pystr \<Rightarrow> pystr" where
  "replace_cr s = map (\<lambda>c. if c = 13 then 10 else c) s"

definition horizontal :: "nat \<Rightarrow> bool" where
  "horizontal c \<longleftrightarrow> c = 32 \<or> c = 9"

definition strippable :: "nat \<Rightarrow> bool" where
  "strippable c \<longleftrightarrow> c = 32 \<or> c = 9 \<or> c = 13 \<or> c = 10"

function collapse_horizontal :: "pystr \<Rightarrow> pystr" where
  "collapse_horizontal [] = []"
| "collapse_horizontal (c # s) =
     (if horizontal c then 32 # collapse_horizontal (dropWhile horizontal s)
      else c # collapse_horizontal s)"
  by pat_completeness auto

termination
  by (relation "measure length") (auto simp: le_imp_less_Suc length_dropWhile_le)

definition strip_chars :: "(nat \<Rightarrow> bool) \<Rightarrow> pystr \<Rightarrow> pystr" where
  "strip_chars P s = rev (dropWhile P (rev (dropWhile P s)))"

definition normalized_text :: "pystr \<Rightarrow> pystr" where
  "normalized_text value = strip_chars strippable (collapse_horizontal (replace_cr (replace_crlf value)))"

definition normalize_fingerprint_text :: "pystr \<Rightarrow> string \<Rightarrow> pystr result" where
  "normalize_fingerprint_text value field_name =
     (if normalized_text value = [] then Inl (DomainValidationError (field_name @ '' must not be blank''))
      else Inr (normalized_text value))"

subsection \<open>The fingerprint\<close>

record exact_memory_fingerprint_record =
  fp_sha256_hex :: string
  fp_canonical_lock_input :: bytes

definition normalized_interpretation_limits :: "pystr list \<Rightarrow> pystr list result" where
  "normalized_interpretation_limits limits =
     rbind (traverse (\<lambda>limit. normalize_fingerprint_text limit ''interpretation limit'') limits) (\<lambda>ls.
       if 32 < length (remdups ls)
       then Inl (DomainValidationError ''interpretation_limits cannot exceed 32 entries'')
       else Inr (sort (remdups ls)))"

definition fingerprint_material ::
    "pystr \<Rightarrow> memory_category \<Rightarrow> ontological_status \<Rightarrow> memory_scope \<Rightarrow> pystr list \<Rightarrow> pyvalue" where
  "fingerprint_material statement category ontological_status scope limits = py_object 0
     [(''fingerprint_version'', PyInt FINGERPRINT_VERSION), (''statement'', PyStr statement),
      (''category'', py_text (memory_category_value category)),
      (''ontological_status'', py_text (ontological_status_value ontological_status)),
      (''scope'', py_text (memory_scope_value scope)),
      (''interpretation_limits'', PySequence 1 (map PyStr limits))]"

definition fingerprint_preimage ::
    "'z codec_scheme \<Rightarrow> pystr \<Rightarrow> memory_category \<Rightarrow> ontological_status \<Rightarrow> memory_scope \<Rightarrow> pystr list \<Rightarrow>
     bytes result" where
  "fingerprint_preimage L statement category ontological_status scope interpretation_limits =
     rbind (normalize_fingerprint_text statement ''statement'') (\<lambda>text.
     rbind (normalized_interpretation_limits interpretation_limits) (\<lambda>limits.
       canonical_json_bytes L (fingerprint_material text category ontological_status scope limits)))"

definition exact_memory_fingerprint ::
    "'z codec_scheme \<Rightarrow> pystr \<Rightarrow> memory_category \<Rightarrow> ontological_status \<Rightarrow> memory_scope \<Rightarrow> pystr list \<Rightarrow>
     exact_memory_fingerprint_record result" where
  "exact_memory_fingerprint L statement category ontological_status scope interpretation_limits =
     rbind (fingerprint_preimage L statement category ontological_status scope interpretation_limits) (\<lambda>preimage.
     let digest = sha256_hexdigest L preimage in
     rbind (canonical_json_bytes L (py_object 0
        [(''fingerprint_version'', PyInt FINGERPRINT_VERSION),
         (''normalized_fingerprint'', py_text digest)])) (\<lambda>lock_input.
       Inr \<lparr> fp_sha256_hex = digest, fp_canonical_lock_input = lock_input \<rparr>))"

definition advisory_lock_input ::
    "'z codec_scheme \<Rightarrow> uuid \<Rightarrow> uuid \<Rightarrow> uuid \<Rightarrow> uuid \<Rightarrow> string \<Rightarrow> bytes result" where
  "advisory_lock_input L tenant_id lineage_id branch_id subject_id digest =
     (if \<not> hex_digest_ok digest
      then Inl (DomainValidationError ''normalized fingerprint must be lowercase SHA-256 hexadecimal'')
      else rbind (require_uuid7 tenant_id ''tenant_id'') (\<lambda>tenant_id.
           rbind (require_uuid7 lineage_id ''lineage_id'') (\<lambda>lineage_id.
           rbind (require_uuid7 branch_id ''branch_id'') (\<lambda>branch_id.
           rbind (require_uuid7 subject_id ''subject_id'') (\<lambda>subject_id.
             canonical_json_bytes L (py_object 0
               [(''tenant_id'', py_text (uuid_str tenant_id)),
                (''lineage_id'', py_text (uuid_str lineage_id)),
                (''branch_id'', py_text (uuid_str branch_id)),
                (''subject_id'', py_text (uuid_str subject_id)),
                (''normalized_fingerprint'', py_text digest)]))))))"

subsection \<open>Normalised texts\<close>

text \<open>No carriage return and no tab, and every space follows a character other than a space.\<close>

fun collapsed :: "pystr \<Rightarrow> bool" where
  "collapsed (c # d # s) \<longleftrightarrow> c \<noteq> 13 \<and> c \<noteq> 9 \<and> \<not> (c = 32 \<and> d = 32) \<and> collapsed (d # s)"
| "collapsed [c] \<longleftrightarrow> c \<noteq> 13 \<and> c \<noteq> 9"
| "collapsed [] \<longleftrightarrow> True"

definition presentation_free :: "pystr \<Rightarrow> bool" where
  "presentation_free s \<longleftrightarrow> collapsed s \<and> (s \<noteq> [] \<longrightarrow> \<not> strippable (hd s) \<and> \<not> strippable (last s))"

lemma replace_crlf_id: "13 \<notin> set s \<Longrightarrow> replace_crlf s = s"
  by (induction s rule: replace_crlf.induct) auto

lemma replace_cr_id: "13 \<notin> set s \<Longrightarrow> replace_cr s = s"
  unfolding replace_cr_def by (induction s) auto

lemma set_replace_cr: "13 \<notin> set (replace_cr s)"
  by (auto simp: replace_cr_def)

lemma collapsed_no_cr: "collapsed s \<Longrightarrow> 13 \<notin> set s \<and> 9 \<notin> set s"
  by (induction s rule: collapsed.induct) auto

lemma collapse_collapsed: "13 \<notin> set s \<Longrightarrow> collapsed (collapse_horizontal s)"
proof (induction s rule: collapse_horizontal.induct)
  case (2 c s)
  show ?case
  proof (cases "horizontal c")
    case True
    let ?r = "dropWhile horizontal s"
    have "13 \<notin> set ?r" using 2(3) by (auto dest: set_dropWhileD)
    then have r: "collapsed (collapse_horizontal ?r)" using 2(1) True by simp
    have "collapse_horizontal ?r = [] \<or> hd (collapse_horizontal ?r) \<noteq> 32"
    proof (cases ?r)
      case (Cons d t)
      with hd_dropWhile[of horizontal s] have "\<not> horizontal d" by simp
      then show ?thesis unfolding Cons by (simp add: horizontal_def)
    next
      case Nil
      show ?thesis unfolding Nil by simp
    qed
    with r True show ?thesis by (cases "collapse_horizontal ?r") (auto simp: horizontal_def)
  next
    case False
    with 2 have "collapsed (collapse_horizontal s)" by simp
    with False 2(3) show ?thesis by (cases "collapse_horizontal s") (auto simp: horizontal_def)
  qed
qed simp

lemma collapse_id: "collapsed s \<Longrightarrow> collapse_horizontal s = s"
proof (induction s rule: collapsed.induct)
  case (1 c d s)
  then show ?case by (cases "c = 32") (auto simp: horizontal_def dropWhile_eq_self_iff)
qed (auto simp: horizontal_def)

lemma collapsed_append: "collapsed (s @ t) \<Longrightarrow> collapsed s \<and> collapsed t"
proof (induction s rule: collapsed.induct)
  case (2 c)
  then show ?case by (cases t) auto
qed auto

lemma strip_chars_parts: "\<exists>a b. s = a @ strip_chars P s @ b"
proof -
  have "s = takeWhile P s @ dropWhile P s" by simp
  moreover have "dropWhile P s = strip_chars P s @ rev (takeWhile P (rev (dropWhile P s)))"
    unfolding strip_chars_def by (metis rev_append rev_rev_ident takeWhile_dropWhile_id)
  ultimately show ?thesis by metis
qed

lemma strip_chars_ends:
  assumes "strip_chars P s \<noteq> []"
  shows "\<not> P (hd (strip_chars P s))" "\<not> P (last (strip_chars P s))"
proof -
  have ne: "dropWhile P (rev (dropWhile P s)) \<noteq> []" using assms by (simp add: strip_chars_def)
  then show "\<not> P (last (strip_chars P s))"
    by (simp add: strip_chars_def last_rev hd_dropWhile)
  from ne have "dropWhile P s \<noteq> []" by (metis dropWhile.simps(1) rev.simps(1))
  then have 1: "\<not> P (hd (dropWhile P s))" by (rule hd_dropWhile)
  have "last (dropWhile P (rev (dropWhile P s))) = last (rev (dropWhile P s))"
    using ne by (metis dropWhile_append last_appendR takeWhile_dropWhile_id)
  then show "\<not> P (hd (strip_chars P s))"
    using 1 ne by (simp add: strip_chars_def hd_rev last_rev)
qed

lemma strip_chars_id:
  assumes "s \<noteq> [] \<Longrightarrow> \<not> P (hd s) \<and> \<not> P (last s)"
  shows "strip_chars P s = s"
proof (cases "s = []")
  case False
  with assms have "dropWhile P s = s" "dropWhile P (rev s) = rev s"
    by (simp_all add: dropWhile_eq_self_iff hd_rev)
  then show ?thesis by (simp add: strip_chars_def)
qed (simp add: strip_chars_def)

lemma normalized_text_free: "presentation_free (normalized_text s)"
proof -
  let ?c = "collapse_horizontal (replace_cr (replace_crlf s))"
  have "collapsed ?c" by (simp add: collapse_collapsed set_replace_cr)
  then have "collapsed (normalized_text s)"
    unfolding normalized_text_def using strip_chars_parts[of ?c strippable] collapsed_append by metis
  then show ?thesis
    unfolding presentation_free_def using strip_chars_ends[of strippable ?c] by (simp add: normalized_text_def)
qed

lemma normalized_text_id: "presentation_free s \<Longrightarrow> normalized_text s = s"
  unfolding normalized_text_def presentation_free_def
  by (simp add: replace_crlf_id replace_cr_id collapse_id collapsed_no_cr strip_chars_id)

text \<open>
  The normalisation of a text is idempotent and reaches exactly the texts without redundant
  presentation: no carriage return, no tab, no two adjacent spaces, no white space at either end.
  A text that is already of that form is returned unchanged, non-ASCII code points included.
\<close>

theorem normalize_fingerprint_text_projection:
  "(normalize_fingerprint_text s field_name = Inr t \<longrightarrow>
      presentation_free t \<and> t \<noteq> [] \<and> normalize_fingerprint_text t field_name = Inr t) \<and>
   (presentation_free s \<and> s \<noteq> [] \<longrightarrow> normalize_fingerprint_text s field_name = Inr s)"
  using normalized_text_free normalized_text_id
  by (auto simp: normalize_fingerprint_text_def split: if_splits)

theorem normalize_fingerprint_text_projection_witness:
  "normalize_fingerprint_text [32, 97, 9, 32, 98, 13, 10, 99, 10] ''statement'' = Inr [97, 32, 98, 10, 99] \<and>
   presentation_free [97, 32, 98, 10, 99] \<and>
   normalize_fingerprint_text [97, 32, 98, 10, 99] ''statement'' = Inr [97, 32, 98, 10, 99]"
proof -
  have "normalize_fingerprint_text [32, 97, 9, 32, 98, 13, 10, 99, 10] ''statement'' = Inr [97, 32, 98, 10, 99]"
    by (simp add: normalize_fingerprint_text_def normalized_text_def replace_cr_def strip_chars_def
        horizontal_def strippable_def)
  with normalize_fingerprint_text_projection[of "[32, 97, 9, 32, 98, 13, 10, 99, 10]" "''statement''" "[97, 32, 98, 10, 99]"]
  show ?thesis by blast
qed

subsection \<open>The fingerprint identifies the claim\<close>

type_synonym claim = "pystr \<times> memory_category \<times> ontological_status \<times> memory_scope \<times> pystr set"

definition claim_of ::
    "pystr \<Rightarrow> memory_category \<Rightarrow> ontological_status \<Rightarrow> memory_scope \<Rightarrow> pystr list \<Rightarrow> claim" where
  "claim_of statement category ontological_status scope limits =
     (normalized_text statement, category, ontological_status, scope, normalized_text ` set limits)"

lemma sort_remdups_set: "set xs = set ys \<Longrightarrow> sort (remdups xs) = sort (remdups (ys :: pystr list))"
  by (metis sorted_list_of_set_sort_remdups)

lemma traverse_text:
  "traverse (\<lambda>x. normalize_fingerprint_text x n) xs = Inr ys \<longleftrightarrow>
     ys = map normalized_text xs \<and> [] \<notin> normalized_text ` set xs"
  by (induction xs arbitrary: ys) (auto simp: normalize_fingerprint_text_def ok_simps)

lemma traverse_text_fails:
  "[] \<in> normalized_text ` set xs \<Longrightarrow>
   traverse (\<lambda>x. normalize_fingerprint_text x n) xs = Inl (DomainValidationError (n @ '' must not be blank''))"
  by (induction xs) (auto simp: normalize_fingerprint_text_def)

lemma normalized_interpretation_limits_eq:
  "normalized_interpretation_limits limits =
     (if [] \<in> normalized_text ` set limits
      then Inl (DomainValidationError ''interpretation limit must not be blank'')
      else if 32 < card (normalized_text ` set limits)
      then Inl (DomainValidationError ''interpretation_limits cannot exceed 32 entries'')
      else Inr (sort (remdups (map normalized_text limits))))"
proof (cases "[] \<in> normalized_text ` set limits")
  case False
  then have "traverse (\<lambda>x. normalize_fingerprint_text x ''interpretation limit'') limits
      = Inr (map normalized_text limits)"
    by (simp add: traverse_text)
  moreover have "length (remdups (map normalized_text limits)) = card (normalized_text ` set limits)"
    by (metis length_remdups_card_conv set_map)
  ultimately show ?thesis using False by (simp add: normalized_interpretation_limits_def)
qed (simp add: normalized_interpretation_limits_def traverse_text_fails)

lemma normalized_limits_cong:
  assumes "normalized_text ` set ls = normalized_text ` set ms"
  shows "normalized_interpretation_limits ls = normalized_interpretation_limits ms"
  unfolding normalized_interpretation_limits_eq assms
  using sort_remdups_set[of "map normalized_text ls" "map normalized_text ms"] assms by simp

lemma fingerprint_preimage_claim:
  assumes "claim_of s c o' sc ls = claim_of s' c' o'' sc' ms"
  shows "fingerprint_preimage L s c o' sc ls = fingerprint_preimage L s' c' o'' sc' ms"
proof -
  from assms have eq: "normalized_text s = normalized_text s'" "c = c'" "o' = o''" "sc = sc'"
    "normalized_text ` set ls = normalized_text ` set ms"
    by (auto simp: claim_of_def)
  show ?thesis
    unfolding fingerprint_preimage_def normalize_fingerprint_text_def normalized_limits_cong[OF eq(5)] eq(1-4) ..
qed

definition claim_json ::
    "pystr \<Rightarrow> memory_category \<Rightarrow> ontological_status \<Rightarrow> memory_scope \<Rightarrow> pystr list \<Rightarrow> json" where
  "claim_json statement category ontological_status scope limits = JObj
     [(lit ''fingerprint_version'', JInt 1), (lit ''statement'', JStr statement),
      (lit ''category'', JStr (lit (memory_category_value category))),
      (lit ''ontological_status'', JStr (lit (ontological_status_value ontological_status))),
      (lit ''scope'', JStr (lit (memory_scope_value scope))),
      (lit ''interpretation_limits'', JArr (map JStr limits))]"

definition claim_objects :: "json set" where
  "claim_objects = {claim_json t c o' sc ls | t c o' sc ls. True}"

text \<open>
  What the identification relies on: the canonical form of RFC 8785 determines the JSON value it
  was made from, within a set of values of one shape.
\<close>

definition serialises_faithfully :: "'z codec_scheme \<Rightarrow> json set \<Rightarrow> bool" where
  "serialises_faithfully L values \<longleftrightarrow> inj_on (rfc8785_dumps L) {x \<in> values. rfc8785_dumps L x \<noteq> None}"

lemma serialises_faithfullyD:
  "serialises_faithfully L values \<Longrightarrow> x \<in> values \<Longrightarrow> y \<in> values \<Longrightarrow>
   rfc8785_dumps L x = Some b \<Longrightarrow> rfc8785_dumps L y = Some b \<Longrightarrow> x = y"
  by (auto simp: serialises_faithfully_def inj_on_def)

lemma lit_eq [simp]: "lit s = lit t \<longleftrightarrow> s = t"
  by (auto simp: lit_def inj_map_eq_map inj_on_def)

lemma claim_json_in: "claim_json t c o' sc ls \<in> claim_objects"
  unfolding claim_objects_def by blast

lemma claim_json_eq:
  "claim_json t c o' sc ls = claim_json t' c' o'' sc' ls' \<longleftrightarrow>
     t = t' \<and> c = c' \<and> o' = o'' \<and> sc = sc' \<and> ls = ls'"
  using category_enum.value_inj ontology_enum.value_inj scope_enum.value_inj
  by (auto simp: claim_json_def inj_map_eq_map inj_on_def)

lemma validated_string: "validate_string s = Inr t \<Longrightarrow> t = s"
  by (auto simp: validate_string_def split: if_splits)

lemma normalize_strings_ok:
  "normalize_children L m active d (map PyStr ls) = Inr js \<Longrightarrow> d \<le> m \<Longrightarrow> js = map JStr ls"
  by (induction ls arbitrary: js) (auto simp: ok_simps dest: validated_string)

lemma fingerprint_material_bytes:
  assumes "canonical_json_bytes L (fingerprint_material t c o' sc ls) = Inr b"
  shows "rfc8785_dumps L (claim_json t c o' sc ls) = Some b"
proof -
  from assms obtain j where j: "normalize L 64 [] 0 (fingerprint_material t c o' sc ls) = Inr j"
      "rfc8785_dumps L j = Some b"
    by (auto simp: canonical_json_bytes_def normalize_json_value_def MAX_CANONICAL_JSON_DEPTH_def
        ok_simps split: option.splits)
  from j(1) have "j = claim_json t c o' sc ls"
    by (auto simp: fingerprint_material_def key_of_def ok_simps claim_json_def normalize_integer_def
        MAX_IJSON_INTEGER_def FINGERPRINT_VERSION_def normalize.simps[of _ _ _ _ "PySequence _ _"]
        dest!: validated_string dest: normalize_strings_ok split: if_splits)
  with j(2) show ?thesis by simp
qed

lemma fingerprint_preimage_ok:
  assumes "fingerprint_preimage L s c o' sc ls = Inr b"
  obtains ms where "rfc8785_dumps L (claim_json (normalized_text s) c o' sc ms) = Some b"
    "set ms = normalized_text ` set ls"
proof -
  from assms have "canonical_json_bytes L (fingerprint_material (normalized_text s) c o' sc
      (sort (remdups (map normalized_text ls)))) = Inr b"
    by (auto simp: fingerprint_preimage_def normalize_fingerprint_text_def
        normalized_interpretation_limits_eq ok_simps split: if_splits)
  from fingerprint_material_bytes[OF this] show ?thesis by (rule that) simp
qed

lemma exact_fingerprint_ok:
  assumes "exact_memory_fingerprint L s c o' sc ls = Inr f"
  obtains b where "fingerprint_preimage L s c o' sc ls = Inr b" "fp_sha256_hex f = sha256_hexdigest L b"
  using assms by (auto simp: exact_memory_fingerprint_def Let_def ok_simps)

text \<open>
  C36. The fingerprint is the identity of the claim: two memories have the same fingerprint exactly
  when their normalised statements, category, ontological status and scope agree and their
  interpretation limits are the same set of normalised texts. Order, repetition and presentation
  never matter. From right to left this holds outright; from left to right it relies on the
  serialiser being faithful and on the digest not colliding on the two preimages.
\<close>

theorem exact_fingerprint_identifies:
  assumes "exact_memory_fingerprint L s c o' sc ls = Inr f"
    and "exact_memory_fingerprint L s' c' o'' sc' ms = Inr g"
    and "serialises_faithfully L claim_objects"
    and "\<And>b b'. fingerprint_preimage L s c o' sc ls = Inr b \<Longrightarrow>
      fingerprint_preimage L s' c' o'' sc' ms = Inr b' \<Longrightarrow> sha256 L b = sha256 L b' \<Longrightarrow> b = b'"
  shows "fp_sha256_hex f = fp_sha256_hex g \<longleftrightarrow> claim_of s c o' sc ls = claim_of s' c' o'' sc' ms"
proof
  obtain b where b: "fingerprint_preimage L s c o' sc ls = Inr b" "fp_sha256_hex f = sha256_hexdigest L b"
    using assms(1) by (rule exact_fingerprint_ok)
  obtain b' where b': "fingerprint_preimage L s' c' o'' sc' ms = Inr b'"
      "fp_sha256_hex g = sha256_hexdigest L b'"
    using assms(2) by (rule exact_fingerprint_ok)
  {
    assume "claim_of s c o' sc ls = claim_of s' c' o'' sc' ms"
    from fingerprint_preimage_claim[OF this, of L] b b' show "fp_sha256_hex f = fp_sha256_hex g" by simp
  next
    assume "fp_sha256_hex f = fp_sha256_hex g"
    then have "sha256 L b = sha256 L b'" using b(2) b'(2) hex.enc_inj by (auto simp: sha256_hexdigest_def)
    then have "b = b'" by (rule assms(4)[OF b(1) b'(1)])
    obtain xs where xs: "rfc8785_dumps L (claim_json (normalized_text s) c o' sc xs) = Some b"
        "set xs = normalized_text ` set ls"
      using b(1) by (rule fingerprint_preimage_ok)
    obtain ys where ys: "rfc8785_dumps L (claim_json (normalized_text s') c' o'' sc' ys) = Some b'"
        "set ys = normalized_text ` set ms"
      using b'(1) by (rule fingerprint_preimage_ok)
    have "claim_json (normalized_text s) c o' sc xs = claim_json (normalized_text s') c' o'' sc' ys"
      using assms(3) _ _ xs(1) ys(1)[folded \<open>b = b'\<close>]
      by (rule serialises_faithfullyD) (rule claim_json_in)+
    then show "claim_of s c o' sc ls = claim_of s' c' o'' sc' ms"
      using xs(2) ys(2) by (auto simp: claim_json_eq claim_of_def)
  }
qed

text \<open>A serialiser that knows two claims and the lock tokens, and a digest that tells them apart.\<close>

definition sample_fingerprint_codec :: codec where
  "sample_fingerprint_codec =
     \<lparr> rfc8785_dumps = (\<lambda>j.
         if j = claim_json [97] STABLE_FACT LITERAL_USER_FACT SC_GLOBAL [[98]] then Some [1]
         else if j = claim_json [99] STABLE_FACT LITERAL_USER_FACT SC_GLOBAL [] then Some [2]
         else (case j of JObj [_, _] \<Rightarrow> Some [3] | _ \<Rightarrow> None)),
       sha256 = (\<lambda>b. b @ replicate 31 0), decimal_to_float = (\<lambda>d. FFinite d) \<rparr>"

lemma sample_dumps_claim:
  "rfc8785_dumps sample_fingerprint_codec (claim_json t c o' sc ls) =
     (if t = [97] \<and> c = STABLE_FACT \<and> o' = LITERAL_USER_FACT \<and> sc = SC_GLOBAL \<and> ls = [[98]] then Some [1]
      else if t = [99] \<and> c = STABLE_FACT \<and> o' = LITERAL_USER_FACT \<and> sc = SC_GLOBAL \<and> ls = [] then Some [2]
      else None)"
  by (simp add: sample_fingerprint_codec_def claim_json_eq) (simp add: claim_json_def)

lemma sample_codec_faithful: "serialises_faithfully sample_fingerprint_codec claim_objects"
  unfolding serialises_faithfully_def claim_objects_def
  by (rule inj_onI) (auto simp: sample_dumps_claim split: if_splits)

lemma sample_material:
  "canonical_json_bytes sample_fingerprint_codec
     (fingerprint_material [97] STABLE_FACT LITERAL_USER_FACT SC_GLOBAL [[98]]) = Inr [1]"
proof -
  have "normalize_json_value sample_fingerprint_codec MAX_CANONICAL_JSON_DEPTH
      (fingerprint_material [97] STABLE_FACT LITERAL_USER_FACT SC_GLOBAL [[98]])
    = Inr (claim_json [97] STABLE_FACT LITERAL_USER_FACT SC_GLOBAL [[98]])"
    by (simp add: normalize_json_value_def MAX_CANONICAL_JSON_DEPTH_def fingerprint_material_def
        key_of_def normalize_integer_def MAX_IJSON_INTEGER_def FINGERPRINT_VERSION_def claim_json_def
        normalize.simps[of _ _ _ _ "PySequence _ _"] validate_string_def[of "[_]"] surrogate_def)
  then show ?thesis by (simp add: canonical_json_bytes_def sample_dumps_claim)
qed

lemma sample_preimages:
  "fingerprint_preimage sample_fingerprint_codec [32, 97] STABLE_FACT LITERAL_USER_FACT SC_GLOBAL [[98, 9], [98]]
     = Inr [1]"
  "fingerprint_preimage sample_fingerprint_codec [97] STABLE_FACT LITERAL_USER_FACT SC_GLOBAL [[98]] = Inr [1]"
  by (simp_all add: fingerprint_preimage_def normalize_fingerprint_text_def normalized_text_def
      replace_cr_def strip_chars_def horizontal_def strippable_def normalized_interpretation_limits_eq
      sample_material)

definition sample_fingerprint :: exact_memory_fingerprint_record where
  "sample_fingerprint =
     \<lparr> fp_sha256_hex = sha256_hexdigest sample_fingerprint_codec [1], fp_canonical_lock_input = [3] \<rparr>"

lemma sample_lock_token:
  "canonical_json_bytes sample_fingerprint_codec (py_object 0
     [(''fingerprint_version'', PyInt FINGERPRINT_VERSION), (''normalized_fingerprint'', py_text d)]) = Inr [3]"
  by (simp add: canonical_json_bytes_def normalize_json_value_def MAX_CANONICAL_JSON_DEPTH_def key_of_def
      normalize_integer_def MAX_IJSON_INTEGER_def FINGERPRINT_VERSION_def sample_fingerprint_codec_def
      claim_json_def)

lemma sample_fingerprints:
  "exact_memory_fingerprint sample_fingerprint_codec [32, 97] STABLE_FACT LITERAL_USER_FACT SC_GLOBAL
     [[98, 9], [98]] = Inr sample_fingerprint"
  "exact_memory_fingerprint sample_fingerprint_codec [97] STABLE_FACT LITERAL_USER_FACT SC_GLOBAL [[98]]
     = Inr sample_fingerprint"
  unfolding exact_memory_fingerprint_def sample_preimages rbind_simps Let_def sample_lock_token
  by (simp_all only: sample_fingerprint_def)

theorem exact_fingerprint_identifies_witness:
  "claim_of [32, 97] STABLE_FACT LITERAL_USER_FACT SC_GLOBAL [[98, 9], [98]] =
   claim_of [97] STABLE_FACT LITERAL_USER_FACT SC_GLOBAL [[98]]"
  using exact_fingerprint_identifies[OF sample_fingerprints sample_codec_faithful] sample_preimages
  by simp

end
