(* ===== verification/Byte_Codes.thy ===== *)
theory Byte_Codes
  imports States
begin

text \<open>
  Byte encodings that delimit themselves: fixed-width big-endian lengths (\<^verbatim>\<open>int.to_bytes\<close>),
  length-framed byte strings, and UTF-8. The contract is that what follows an encoded value never
  changes where the value ends; it is stated as a locale, interpreted on each encoding, and gives
  that a sequence of encoded values determines the values. Lock keys and deduplication keys rest
  on it.
\<close>

locale prefix_code =
  fixes enc :: "'a \<Rightarrow> bytes"
    and dom :: "'a \<Rightarrow> bool"
  assumes enc_prefix: "dom x \<Longrightarrow> dom y \<Longrightarrow> enc x @ r = enc y @ s \<Longrightarrow> x = y \<and> r = s"
    and enc_nonempty: "dom x \<Longrightarrow> enc x \<noteq> []"
begin

lemma code_inj: "dom x \<Longrightarrow> dom y \<Longrightarrow> enc x = enc y \<Longrightarrow> x = y"
  using enc_prefix[of x y "[]" "[]"] by simp

lemma concat_prefix:
  "list_all dom xs \<Longrightarrow> list_all dom ys \<Longrightarrow> length xs = length ys \<Longrightarrow>
   concat (map enc xs) @ r = concat (map enc ys) @ s \<Longrightarrow> xs = ys \<and> r = s"
proof (induction xs arbitrary: ys)
  case (Cons x xs)
  then obtain y ys' where ys: "ys = y # ys'" by (cases ys) auto
  with Cons.prems have "enc x @ concat (map enc xs) @ r = enc y @ concat (map enc ys') @ s" by simp
  with Cons.prems ys have "x = y \<and> concat (map enc xs) @ r = concat (map enc ys') @ s"
    by (intro enc_prefix) auto
  with Cons ys show ?case by auto
qed simp

lemma concat_inj:
  "list_all dom xs \<Longrightarrow> list_all dom ys \<Longrightarrow> concat (map enc xs) = concat (map enc ys) \<Longrightarrow> xs = ys"
proof (induction xs arbitrary: ys)
  case Nil
  then show ?case by (cases ys) (auto dest: enc_nonempty)
next
  case (Cons x xs)
  then obtain y ys' where ys: "ys = y # ys'" by (cases ys) (auto dest: enc_nonempty)
  with Cons.prems have "enc x @ concat (map enc xs) = enc y @ concat (map enc ys')" by simp
  with Cons.prems ys have "x = y \<and> concat (map enc xs) = concat (map enc ys')"
    by (intro enc_prefix) auto
  with Cons ys show ?case by auto
qed

end

subsection \<open>Big-endian integers\<close>

definition be_bytes :: "nat \<Rightarrow> nat \<Rightarrow> bytes" where
  "be_bytes k n = map (\<lambda>i. of_nat (n div 256 ^ (k - 1 - i) mod 256)) [0..<k]"

definition to_bytes_big :: "nat \<Rightarrow> nat \<Rightarrow> bytes result" where
  "to_bytes_big n k = (if n < 256 ^ k then Inr (be_bytes k n) else Inl (OverflowError ''int too big to convert''))"

lemma length_be_bytes [simp]: "length (be_bytes k n) = k"
  by (simp add: be_bytes_def)

lemma be_bytes_value: "n < 256 ^ k \<Longrightarrow> of_digits 256 (map unat (be_bytes k n)) = n"
  using of_digits_map[of n 256 k] by (simp add: be_bytes_def comp_def unat_of_nat)

lemma be_bytes_inj: "m < 256 ^ k \<Longrightarrow> n < 256 ^ k \<Longrightarrow> be_bytes k m = be_bytes k n \<Longrightarrow> m = n"
  by (metis be_bytes_value)

lemma uuid_bytes_be: "uuid_bytes u = be_bytes 16 (unat u)"
  by (simp add: uuid_bytes_def be_bytes_def)

lemma length_uuid_bytes [simp]: "length (uuid_bytes u) = 16"
  by (simp add: uuid_bytes_be)

lemma uuid_bytes_inj: "uuid_bytes u = uuid_bytes v \<longleftrightarrow> u = v"
proof
  assume "uuid_bytes u = uuid_bytes v"
  moreover have "unat u < 256 ^ 16" "unat v < 256 ^ 16"
    using unsigned_less[of u] unsigned_less[of v] by simp_all
  ultimately have "unat u = unat v" unfolding uuid_bytes_be by (intro be_bytes_inj)
  then show "u = v" by (rule unsigned_word_eqI)
qed simp

text \<open>Reading eight bytes as a signed integer, as \<^verbatim>\<open>int.from_bytes(_, "big", signed=True)\<close>.\<close>

definition from_bytes_signed :: "bytes \<Rightarrow> int" where
  "from_bytes_signed bs =
     (let n = int (of_digits 256 (map unat bs))
      in if bs \<noteq> [] \<and> 128 \<le> unat (hd bs) then n - 256 ^ length bs else n)"

lemma of_digits_bound: "list_all (\<lambda>d. d < base) ds \<Longrightarrow> of_digits base ds < base ^ length ds"
proof (induction ds)
  case (Cons d ds)
  then have "of_digits base ds < base ^ length ds" "d + 1 \<le> base" by auto
  then have "d * base ^ length ds + of_digits base ds < (d + 1) * base ^ length ds" by simp
  also have "\<dots> \<le> base * base ^ length ds" using \<open>d + 1 \<le> base\<close> by (rule mult_le_mono1)
  finally show ?case by simp
qed simp

lemma of_digits_bytes: "of_digits 256 (map unat (bs :: bytes)) < 256 ^ length bs"
  using of_digits_bound[of 256 "map unat bs"] by (simp add: list_all_iff unat_byte)

lemma from_bytes_signed_range:
  assumes "length bs = Suc k"
  shows "- (128 * 256 ^ k) \<le> from_bytes_signed bs \<and> from_bytes_signed bs < 128 * 256 ^ k"
proof -
  obtain b ds where bs: "bs = b # ds" "length ds = k" using assms by (cases bs) auto
  define n where "n = unat b"
  let ?d = "of_digits 256 (map unat ds)"
  have d: "int ?d < 256 ^ k"
    using of_digits_bytes[of ds] bs(2) by (metis of_nat_less_iff of_nat_numeral of_nat_power)
  have f: "from_bytes_signed bs =
      (if 128 \<le> n then int n * 256 ^ k + int ?d - 256 * 256 ^ k else int n * 256 ^ k + int ?d)"
    unfolding from_bytes_signed_def n_def bs(1) using bs(2) by (simp add: Let_def)
  have "n < 256" unfolding n_def by (rule unat_byte)
  show ?thesis
  proof (cases "128 \<le> n")
    case True
    then have "128 * 256 ^ k \<le> int n * (256 :: int) ^ k" "int n * (256 :: int) ^ k \<le> 255 * 256 ^ k"
      using \<open>n < 256\<close> by simp_all
    then show ?thesis using d unfolding f if_P[OF True] by linarith
  next
    case False
    then have "int n * (256 :: int) ^ k \<le> 127 * 256 ^ k" "0 \<le> int n * (256 :: int) ^ k" by simp_all
    then show ?thesis using d unfolding f if_not_P[OF False] by linarith
  qed
qed

lemma from_bytes_signed_64:
  "length bs = 8 \<Longrightarrow> - (2 ^ 63) \<le> from_bytes_signed bs \<and> from_bytes_signed bs < 2 ^ 63"
  using from_bytes_signed_range[of bs 7] by simp

subsection \<open>Length-framed byte strings\<close>

definition framed :: "bytes \<Rightarrow> bytes result" where
  "framed value = rbind (to_bytes_big (length value) 4) (\<lambda>n. Inr (n @ value))"

definition frame :: "nat \<Rightarrow> bytes \<Rightarrow> bytes" where
  "frame k value = be_bytes k (length value) @ value"

lemma framed_eq: "length value < 256 ^ 4 \<Longrightarrow> framed value = Inr (frame 4 value)"
  by (simp add: framed_def to_bytes_big_def frame_def)

lemma frame_prefix:
  assumes "length x < 256 ^ k" "length y < 256 ^ k" "frame k x @ r = frame k y @ s"
  shows "x = y \<and> r = s"
proof -
  have eq: "be_bytes k (length x) @ x @ r = be_bytes k (length y) @ y @ s"
    using assms(3) by (simp add: frame_def)
  then have "be_bytes k (length x) = be_bytes k (length y)" "x @ r = y @ s" by simp_all
  then have "length x = length y" using assms(1,2) be_bytes_inj by blast
  with \<open>x @ r = y @ s\<close> show ?thesis by simp
qed

interpretation fr4: prefix_code "frame 4" "\<lambda>x. length x < 256 ^ 4"
proof
  show "x = y \<and> r = s" if "length x < 256 ^ 4" "length y < 256 ^ 4" "frame 4 x @ r = frame 4 y @ s" for x y r s
    using that by (rule frame_prefix)
  show "frame 4 x \<noteq> []" if "length x < 256 ^ 4" for x
    by (metis append_is_Nil_conv frame_def length_be_bytes list.size(3) zero_neq_numeral)
qed

text \<open>A named field: a name framed in two bytes and a value framed in four.\<close>

definition field_code :: "bytes \<times> bytes \<Rightarrow> bytes" where
  "field_code f = frame 2 (fst f) @ frame 4 (snd f)"

definition field_fits :: "bytes \<times> bytes \<Rightarrow> bool" where
  "field_fits f \<longleftrightarrow> length (fst f) < 256 ^ 2 \<and> length (snd f) < 256 ^ 4"

interpretation fld: prefix_code field_code field_fits
proof
  show "x = y \<and> r = s" if "field_fits x" "field_fits y" "field_code x @ r = field_code y @ s" for x y r s
  proof -
    have eq: "frame 2 (fst x) @ (frame 4 (snd x) @ r) = frame 2 (fst y) @ (frame 4 (snd y) @ s)"
      using that(3) by (simp add: field_code_def)
    have f: "fst x = fst y \<and> frame 4 (snd x) @ r = frame 4 (snd y) @ s"
      using frame_prefix[OF _ _ eq] that(1,2) by (simp add: field_fits_def)
    have "snd x = snd y \<and> r = s"
      using frame_prefix[OF _ _ conjunct2[OF f]] that(1,2) by (simp add: field_fits_def)
    with f show ?thesis by (simp add: prod_eq_iff)
  qed
  show "field_code x \<noteq> []" if "field_fits x" for x
    by (metis append_is_Nil_conv field_code_def frame_def length_be_bytes list.size(3) zero_neq_numeral)
qed

subsection \<open>UTF-8\<close>

definition utf8_units :: "nat \<Rightarrow> nat list" where
  "utf8_units c =
     (if c < 0x80 then [c]
      else if c < 0x800 then [0xC0 + c div 64, 0x80 + c mod 64]
      else if c < 0x10000 then [0xE0 + c div 4096, 0x80 + c div 64 mod 64, 0x80 + c mod 64]
      else [0xF0 + c div 262144, 0x80 + c div 4096 mod 64, 0x80 + c div 64 mod 64, 0x80 + c mod 64])"

definition utf8_char :: "nat \<Rightarrow> bytes" where
  "utf8_char c = map of_nat (utf8_units c)"

definition utf8_encode :: "pystr \<Rightarrow> bytes result" where
  "utf8_encode s =
     (if list_ex surrogate s then Inl (ValueError ''surrogates not allowed'')
      else Inr (concat (map utf8_char s)))"

abbreviation code_point :: "nat \<Rightarrow> bool" where
  "code_point c \<equiv> c < 0x110000"

text \<open>The first byte tells how many bytes a character takes.\<close>

fun utf8_width :: "nat \<Rightarrow> nat" where
  "utf8_width b = (if b < 0x80 then 1 else if b < 0xE0 then 2 else if b < 0xF0 then 3 else 4)"

fun utf8_value :: "nat list \<Rightarrow> nat" where
  "utf8_value [a] = a"
| "utf8_value [a, b] = (a - 0xC0) * 64 + (b - 0x80)"
| "utf8_value [a, b, c] = (a - 0xE0) * 4096 + (b - 0x80) * 64 + (c - 0x80)"
| "utf8_value [a, b, c, d] = (a - 0xF0) * 262144 + (b - 0x80) * 4096 + (c - 0x80) * 64 + (d - 0x80)"
| "utf8_value _ = 0"

lemma utf8_units_bound: "code_point c \<Longrightarrow> list_all (\<lambda>b. b < 256) (utf8_units c)"
  by (auto simp: utf8_units_def less_mult_imp_div_less)

lemma utf8_char_units: "code_point c \<Longrightarrow> map unat (utf8_char c) = utf8_units c"
  using utf8_units_bound[of c] by (auto simp: utf8_char_def unat_of_nat list_all_iff intro!: map_idI)

lemma utf8_units_value: "utf8_value (utf8_units c) = c"
proof -
  have d: "c div 4096 = c div 64 div 64" "c div 262144 = c div 64 div 64 div 64"
    by (simp_all add: div_mult2_eq[symmetric])
  have e: "c div 64 div 64 * 4096 + c div 64 mod 64 * 64 + c mod 64 = c"
    "c div 64 div 64 div 64 * 262144 + c div 64 div 64 mod 64 * 4096 + c div 64 mod 64 * 64 + c mod 64 = c"
    using div_mult_mod_eq[of c 64] div_mult_mod_eq[of "c div 64" 64] div_mult_mod_eq[of "c div 64 div 64" 64]
    by linarith+
  then show ?thesis by (simp add: utf8_units_def d)
qed

lemma utf8_units_width: "code_point c \<Longrightarrow> length (utf8_units c) = utf8_width (hd (utf8_units c))"
  by (auto simp: utf8_units_def less_mult_imp_div_less)

lemma utf8_char_width: "code_point c \<Longrightarrow> length (utf8_char c) = utf8_width (unat (hd (utf8_char c)))"
proof -
  assume c: "code_point c"
  have "utf8_char c \<noteq> []" by (simp add: utf8_char_def utf8_units_def)
  then have "unat (hd (utf8_char c)) = hd (utf8_units c)"
    using utf8_char_units[OF c] by (metis hd_map)
  then show ?thesis using utf8_units_width[OF c] by (simp add: utf8_char_def del: utf8_width.simps)
qed

lemma utf8_char_value: "code_point c \<Longrightarrow> utf8_value (map unat (utf8_char c)) = c"
  by (simp add: utf8_char_units utf8_units_value)

interpretation u8: prefix_code utf8_char code_point
proof
  have ne: "utf8_char c \<noteq> []" for c by (simp add: utf8_char_def utf8_units_def)
  then show "utf8_char c \<noteq> []" for c .
  show "x = y \<and> r = s" if "code_point x" "code_point y" "utf8_char x @ r = utf8_char y @ s" for x y r s
  proof -
    have "hd (utf8_char x) = hd (utf8_char y)" using that(3) ne by (metis hd_append2)
    then have "length (utf8_char x) = length (utf8_char y)"
      using that(1,2) by (simp only: utf8_char_width)
    then have "utf8_char x = utf8_char y" "r = s" using that(3) by simp_all
    then show ?thesis using that(1,2) by (metis utf8_char_value)
  qed
qed

lemma utf8_encode_inj:
  "utf8_encode s = Inr b \<Longrightarrow> utf8_encode t = Inr b \<Longrightarrow> list_all code_point s \<Longrightarrow> list_all code_point t \<Longrightarrow> s = t"
  by (auto simp: utf8_encode_def split: if_splits intro: u8.concat_inj)

lemma length_utf8_encode: "utf8_encode s = Inr b \<Longrightarrow> length b = utf8_size s"
proof -
  have "length (concat (map utf8_char s)) = utf8_size s"
    by (induction s) (auto simp: utf8_size_def utf8_char_def utf8_units_def)
  then show "utf8_encode s = Inr b \<Longrightarrow> length b = utf8_size s"
    by (auto simp: utf8_encode_def split: if_splits)
qed

lemma utf8_size_le: "utf8_size s \<le> 4 * length s"
  by (induction s) (auto simp: utf8_size_def)

end
