(* ===== verification/Locks.thy ===== *)
theory Locks
  imports Byte_Codes
begin

text \<open>
  Advisory locks (\<^verbatim>\<open>storage/locks.py\<close>): the derivation of lock keys from command and aggregate
  identities, the acquisition order, and the retry loop of a serialisable transaction
  (\<^verbatim>\<open>storage/transactions.py\<close>). BLAKE2b is a parameter of the keys. The lemmas show that the
  hashed bytes determine the identity they stand for, that every key fits PostgreSQL's key space,
  that commands which take their locks in this order cannot deadlock, and that the retry loop is
  bounded. The lock table of PostgreSQL is a step relation on the transactions' held and awaited
  keys.
\<close>

named_theorems lock_defs \<open>definitions of the lock protocol\<close>

subsection \<open>Keys\<close>

definition AGGREGATE_LOCK_DOMAIN :: string where
  "AGGREGATE_LOCK_DOMAIN = ''sv-aggregate-v1''"

definition IDEMPOTENCY_LOCK_DOMAIN :: string where
  "IDEMPOTENCY_LOCK_DOMAIN = ''sv-idempotency1''"

datatype fingerprint_input = FingerprintHex string | FingerprintBytes bytes

fun fingerprint_bytes :: "fingerprint_input \<Rightarrow> bytes result" where
  "fingerprint_bytes (FingerprintHex s) =
     (if length s \<noteq> 64 \<or> list_ex (\<lambda>c. \<not> is_hex c) s
      then Inl (ValueError ''normalized_fingerprint must be exactly 64 lowercase hex characters'')
      else bytes_fromhex s)"
| "fingerprint_bytes (FingerprintBytes b) =
     (if length b = 32 then Inr b else Inl (ValueError ''normalized_fingerprint must be exactly 32 bytes''))"

definition framed_identifier :: "string \<Rightarrow> uuid \<Rightarrow> bytes result" where
  "framed_identifier field_name identifier =
     rbind (require_uuid7 identifier field_name) (\<lambda>u. framed (uuid_bytes u))"

definition advisory_lock_material ::
    "uuid \<Rightarrow> uuid \<Rightarrow> uuid \<Rightarrow> uuid \<Rightarrow> fingerprint_input \<Rightarrow> bytes result" where
  "advisory_lock_material tenant_id lineage_id branch_id subject_id normalized_fingerprint =
     rbind (fingerprint_bytes normalized_fingerprint) (\<lambda>fingerprint.
     rbind (traverse (framed_identifier ''advisory lock identifier'')
              [tenant_id, lineage_id, branch_id, subject_id]) (\<lambda>frames.
     rbind (framed fingerprint) (\<lambda>last.
       Inr (concat frames @ last))))"

definition advisory_lock_key ::
    "(string \<Rightarrow> bytes \<Rightarrow> bytes) \<Rightarrow> uuid \<Rightarrow> uuid \<Rightarrow> uuid \<Rightarrow> uuid \<Rightarrow> fingerprint_input \<Rightarrow> int result" where
  "advisory_lock_key blake2b tenant_id lineage_id branch_id subject_id normalized_fingerprint =
     rbind (advisory_lock_material tenant_id lineage_id branch_id subject_id normalized_fingerprint)
       (\<lambda>material. Inr (from_bytes_signed (blake2b AGGREGATE_LOCK_DOMAIN material)))"

definition idempotency_lock_material :: "uuid \<Rightarrow> uuid \<Rightarrow> pystr \<Rightarrow> bytes result" where
  "idempotency_lock_material tenant_id client_id idempotency_key =
     (if \<not> (1 \<le> length idempotency_key \<and> length idempotency_key \<le> 255)
      then Inl (ValueError ''idempotency_key must contain between 1 and 255 characters'')
      else rbind (traverse (framed_identifier ''idempotency lock identifier'') [tenant_id, client_id]) (\<lambda>frames.
           rbind (utf8_encode idempotency_key) (\<lambda>text.
           rbind (framed text) (\<lambda>last.
             Inr (concat frames @ last)))))"

definition idempotency_advisory_lock_key ::
    "(string \<Rightarrow> bytes \<Rightarrow> bytes) \<Rightarrow> uuid \<Rightarrow> uuid \<Rightarrow> pystr \<Rightarrow> int result" where
  "idempotency_advisory_lock_key blake2b tenant_id client_id idempotency_key =
     rbind (idempotency_lock_material tenant_id client_id idempotency_key)
       (\<lambda>material. Inr (from_bytes_signed (blake2b IDEMPOTENCY_LOCK_DOMAIN material)))"

subsection \<open>Acquisition\<close>

definition bigint :: "int \<Rightarrow> bool" where
  "bigint key \<longleftrightarrow> \<not> (key < - (2 ^ 63) \<or> 2 ^ 63 \<le> key)"

definition ordered_lock_keys :: "int list \<Rightarrow> int list result" where
  "ordered_lock_keys keys =
     (let unique = remdups keys
      in if list_ex (\<lambda>key. key < - (2 ^ 63) \<or> 2 ^ 63 \<le> key) unique
         then Inl (ValueError ''advisory lock key must fit a signed 64-bit integer'')
         else Inr (sort unique))"

text \<open>Acquiring a lock issues one statement; the result is the keys of the statements issued.\<close>

definition acquire_advisory_xact_lock :: "int \<Rightarrow> int list result" where
  "acquire_advisory_xact_lock key =
     (if key < - (2 ^ 63) \<or> 2 ^ 63 \<le> key
      then Inl (ValueError ''advisory lock key must fit a signed 64-bit integer'')
      else Inr [key])"

definition acquire_advisory_xact_locks :: "int list \<Rightarrow> int list result" where
  "acquire_advisory_xact_locks keys =
     rbind (ordered_lock_keys keys) (\<lambda>ordered.
     rbind (traverse acquire_advisory_xact_lock ordered) (\<lambda>issued. Inr (concat issued)))"

text \<open>
  A command takes the lock of its idempotency scope before it reads anything that the lock
  protects, and then the locks of the aggregates it touches.
\<close>

definition command_locks :: "int \<Rightarrow> int list \<Rightarrow> int list result" where
  "command_locks idempotency_lock aggregate_locks =
     rbind (acquire_advisory_xact_lock idempotency_lock) (\<lambda>first.
     rbind (acquire_advisory_xact_locks aggregate_locks) (\<lambda>rest.
       Inr (first @ rest)))"

subsection \<open>What the keys are derived from\<close>

lemma framed_identifier_ok: "framed_identifier n u = Inr b \<longleftrightarrow> is_uuid7 u \<and> b = frame 4 (uuid_bytes u)"
  by (auto simp: framed_identifier_def framed_eq require_uuid7_def ok_simps split: if_splits)

lemma fingerprint_bytes_length: "fingerprint_bytes f = Inr b \<Longrightarrow> length b = 32"
proof -
  have hex: "bytes_fromhex s = Inr b \<Longrightarrow> 2 * length b = length s" for s
    by (induction s arbitrary: b rule: bytes_fromhex.induct) (auto simp: ok_simps split: option.splits)
  show "fingerprint_bytes f = Inr b \<Longrightarrow> length b = 32"
    by (cases f) (auto simp: ok_simps dest!: hex)
qed

lemma advisory_lock_material_ok:
  assumes "advisory_lock_material t l b s f = Inr m"
  obtains d where "fingerprint_bytes f = Inr d" "length d = 32"
    "m = concat (map (frame 4) [uuid_bytes t, uuid_bytes l, uuid_bytes b, uuid_bytes s, d])"
proof -
  from assms obtain d where d: "fingerprint_bytes f = Inr d"
    and m: "rbind (framed d) (\<lambda>last. Inr (frame 4 (uuid_bytes t) @ frame 4 (uuid_bytes l) @
        frame 4 (uuid_bytes b) @ frame 4 (uuid_bytes s) @ last)) = Inr m"
    by (auto simp: advisory_lock_material_def ok_simps framed_identifier_ok)
  have l: "length d = 32" using d by (rule fingerprint_bytes_length)
  with m d show ?thesis by (intro that) (auto simp: framed_eq)
qed

lemma idempotency_lock_material_ok:
  assumes "idempotency_lock_material t c k = Inr m"
  obtains d where "utf8_encode k = Inr d" "length d < 256 ^ 4"
    "m = concat (map (frame 4) [uuid_bytes t, uuid_bytes c, d])"
proof -
  from assms obtain d where d: "utf8_encode k = Inr d" "length k \<le> 255"
    and m: "rbind (framed d) (\<lambda>last. Inr (frame 4 (uuid_bytes t) @ frame 4 (uuid_bytes c) @ last)) = Inr m"
    by (auto simp: idempotency_lock_material_def ok_simps framed_identifier_ok)
  have l: "length d < 256 ^ 4"
    using length_utf8_encode[OF d(1)] utf8_size_le[of k] d(2) by simp
  with m d(1) show ?thesis by (intro that) (auto simp: framed_eq)
qed

lemma framed_lists_inj:
  "list_all (\<lambda>x. length x < 256 ^ 4) xs \<Longrightarrow> list_all (\<lambda>x. length x < 256 ^ 4) ys \<Longrightarrow>
   concat (map (frame 4) xs) = concat (map (frame 4) ys) \<Longrightarrow> xs = ys"
  by (rule fr4.concat_inj)

text \<open>
  The bytes hashed into a lock key determine what the key stands for: two aggregate keys
  hash the same bytes only for the same tenant, lineage, branch, subject and fingerprint, and two
  idempotency keys only for the same tenant, client and key text. With an eight-byte digest every
  derived key lies in PostgreSQL's signed 64-bit key space, so acquiring it never raises.
\<close>

theorem lock_keys_unambiguous:
  assumes "\<And>p m. length (blake2b p m) = 8"
    and "advisory_lock_material t l b s f = Inr m" "advisory_lock_material t' l' b' s' f' = Inr m'"
    and "idempotency_lock_material u c k = Inr n" "idempotency_lock_material u' c' k' = Inr n'"
    and "list_all code_point k" "list_all code_point k'"
  shows "(m = m' \<longleftrightarrow>
      t = t' \<and> l = l' \<and> b = b' \<and> s = s' \<and> fingerprint_bytes f = fingerprint_bytes f') \<and>
    (n = n' \<longleftrightarrow> u = u' \<and> c = c' \<and> k = k') \<and>
    (\<exists>x y. advisory_lock_key blake2b t l b s f = Inr x \<and> idempotency_advisory_lock_key blake2b u c k = Inr y \<and>
       is_ok (command_locks y [x]))"
proof -
  obtain d where d: "fingerprint_bytes f = Inr d" "length d = 32"
      "m = concat (map (frame 4) [uuid_bytes t, uuid_bytes l, uuid_bytes b, uuid_bytes s, d])"
    using assms(2) by (rule advisory_lock_material_ok)
  obtain d' where d': "fingerprint_bytes f' = Inr d'" "length d' = 32"
      "m' = concat (map (frame 4) [uuid_bytes t', uuid_bytes l', uuid_bytes b', uuid_bytes s', d'])"
    using assms(3) by (rule advisory_lock_material_ok)
  obtain e where e: "utf8_encode k = Inr e" "length e < 256 ^ 4"
      "n = concat (map (frame 4) [uuid_bytes u, uuid_bytes c, e])"
    using assms(4) by (rule idempotency_lock_material_ok)
  obtain e' where e': "utf8_encode k' = Inr e'" "length e' < 256 ^ 4"
      "n' = concat (map (frame 4) [uuid_bytes u', uuid_bytes c', e'])"
    using assms(5) by (rule idempotency_lock_material_ok)
  have "m = m' \<Longrightarrow> [uuid_bytes t, uuid_bytes l, uuid_bytes b, uuid_bytes s, d] =
      [uuid_bytes t', uuid_bytes l', uuid_bytes b', uuid_bytes s', d']"
    using d(2,3) d'(2,3) by (intro framed_lists_inj) simp_all
  moreover have "n = n' \<Longrightarrow> [uuid_bytes u, uuid_bytes c, e] = [uuid_bytes u', uuid_bytes c', e']"
    using e(2,3) e'(2,3) by (intro framed_lists_inj) simp_all
  moreover have "e = e' \<Longrightarrow> k = k'"
    using e(1) e'(1) assms(6,7) by (auto intro: utf8_encode_inj)
  moreover have "bigint (from_bytes_signed (blake2b p x))" for p x
    using from_bytes_signed_64[OF assms(1)] by (simp add: bigint_def not_less not_le)
  ultimately show ?thesis
    using d d' e e' assms(2,4)
    by (auto simp: uuid_bytes_inj advisory_lock_key_def idempotency_advisory_lock_key_def command_locks_def
        acquire_advisory_xact_locks_def acquire_advisory_xact_lock_def ordered_lock_keys_def bigint_def)
qed

definition sample_digest8 :: "string \<Rightarrow> bytes \<Rightarrow> bytes" where
  "sample_digest8 p m = be_bytes 8 (length p + length m)"

definition sample_lock_id :: uuid where
  "sample_lock_id = word_of_int (uuid7_layout 0 0)"

lemma sample_lock_id_uuid7: "is_uuid7 sample_lock_id"
  unfolding sample_lock_id_def by (rule layout_is_uuid7) simp_all

lemma sample_materials:
  "\<exists>m. advisory_lock_material sample_lock_id sample_lock_id sample_lock_id sample_lock_id
     (FingerprintBytes (replicate 32 0)) = Inr m"
  "\<exists>n. idempotency_lock_material sample_lock_id sample_lock_id [107] = Inr n"
proof -
  note sample_lock_id_uuid7 [simp]
  have f: "framed_identifier x sample_lock_id = Inr (frame 4 (uuid_bytes sample_lock_id))" for x
    by (simp add: framed_identifier_ok)
  show "\<exists>m. advisory_lock_material sample_lock_id sample_lock_id sample_lock_id sample_lock_id
     (FingerprintBytes (replicate 32 0)) = Inr m"
    by (simp add: advisory_lock_material_def f framed_eq)
  show "\<exists>n. idempotency_lock_material sample_lock_id sample_lock_id [107] = Inr n"
    by (simp add: idempotency_lock_material_def f framed_eq utf8_encode_def surrogate_def utf8_char_def
        utf8_units_def)
qed

theorem lock_keys_unambiguous_witness:
  "\<exists>x y. advisory_lock_key sample_digest8 sample_lock_id sample_lock_id sample_lock_id sample_lock_id
       (FingerprintBytes (replicate 32 0)) = Inr x \<and>
     idempotency_advisory_lock_key sample_digest8 sample_lock_id sample_lock_id [107] = Inr y \<and>
     is_ok (command_locks y [x])"
proof -
  obtain m n where
    m: "advisory_lock_material sample_lock_id sample_lock_id sample_lock_id sample_lock_id
       (FingerprintBytes (replicate 32 0)) = Inr m"
    and n: "idempotency_lock_material sample_lock_id sample_lock_id [107] = Inr n"
    using sample_materials by blast
  have "\<And>p m. length (sample_digest8 p m) = 8" by (simp add: sample_digest8_def)
  from lock_keys_unambiguous[of sample_digest8, OF this m m n n] show ?thesis by simp
qed

subsection \<open>Deadlock freedom\<close>

text \<open>
  PostgreSQL's lock table: every transaction holds some keys and still asks for others, in order.
  It acquires the next key when no other transaction holds it, and gives all keys back when it
  ends.
\<close>

type_synonym lock_tx = "int list \<times> int list"

definition lock_free :: "lock_tx list \<Rightarrow> nat \<Rightarrow> int \<Rightarrow> bool" where
  "lock_free txs i k \<longleftrightarrow> (\<forall>j < length txs. j \<noteq> i \<longrightarrow> k \<notin> set (fst (txs ! j)))"

inductive lock_step :: "lock_tx list \<Rightarrow> lock_tx list \<Rightarrow> bool" where
  acquire: "i < length txs \<Longrightarrow> txs ! i = (held, k # pending) \<Longrightarrow> lock_free txs i k \<Longrightarrow>
     lock_step txs (txs[i := (k # held, pending)])"
| finish: "i < length txs \<Longrightarrow> txs ! i = (held, []) \<Longrightarrow> held \<noteq> [] \<Longrightarrow> lock_step txs (txs[i := ([], [])])"

inductive lock_run :: "lock_tx list \<Rightarrow> lock_tx list \<Rightarrow> bool" where
  start: "lock_run txs txs"
| step: "lock_run txs txs' \<Longrightarrow> lock_step txs' txs'' \<Longrightarrow> lock_run txs txs''"
| abort: "lock_run txs txs' \<Longrightarrow> i < length txs' \<Longrightarrow> lock_run txs (txs'[i := ([], [])])"

definition finished :: "lock_tx list \<Rightarrow> bool" where
  "finished txs \<longleftrightarrow> list_all (\<lambda>tx. tx = ([], [])) txs"

definition lock_work :: "lock_tx list \<Rightarrow> nat" where
  "lock_work txs = sum_list (map (\<lambda>tx. 2 * length (snd tx) + (if fst tx = [] then 0 else 1)) txs)"

text \<open>Idempotency locks come before aggregate locks, aggregate locks in numeric order.\<close>

definition lock_before :: "int set \<Rightarrow> int \<Rightarrow> int \<Rightarrow> bool" where
  "lock_before I x y \<longleftrightarrow> x \<in> I \<and> y \<notin> I \<or> x \<notin> I \<and> y \<notin> I \<and> x < y"

definition tx_ordered :: "int set \<Rightarrow> lock_tx \<Rightarrow> bool" where
  "tx_ordered I tx \<longleftrightarrow> sorted_wrt (lock_before I) (rev (fst tx) @ snd tx)"

lemma lock_before_trans: "lock_before I x y \<Longrightarrow> lock_before I y z \<Longrightarrow> lock_before I x z"
  by (auto simp: lock_before_def)

lemma lock_before_irrefl: "\<not> lock_before I x x"
  by (auto simp: lock_before_def)

lemma command_locks_ordered:
  assumes "command_locks k ks = Inr plan" "k \<in> I" "set ks \<inter> I = {}"
  shows "tx_ordered I ([], plan)"
proof -
  have issued: "traverse acquire_advisory_xact_lock xs = Inr ys \<Longrightarrow> concat ys = xs" for xs ys
    by (induction xs arbitrary: ys) (auto simp: acquire_advisory_xact_lock_def ok_simps split: if_splits)
  from assms(1) have plan: "plan = k # sort (remdups ks)"
    by (auto simp: command_locks_def acquire_advisory_xact_lock_def acquire_advisory_xact_locks_def
        ordered_lock_keys_def ok_simps Let_def dest!: issued split: if_splits)
  have "sorted_wrt (<) (sort (remdups ks))" by (simp add: strict_sorted_iff)
  then have "sorted_wrt (lock_before I) (sort (remdups ks))"
    by (rule sorted_wrt_mono_rel[rotated]) (use assms(3) in \<open>auto simp: lock_before_def\<close>)
  then show ?thesis using assms(2,3) by (auto simp: plan tx_ordered_def lock_before_def)
qed

lemma lock_step_ordered: "lock_step txs txs' \<Longrightarrow> list_all (tx_ordered I) txs \<Longrightarrow> list_all (tx_ordered I) txs'"
proof (induction rule: lock_step.induct)
  case (acquire i txs held k pending)
  then have "tx_ordered I (held, k # pending)" by (metis list_all_length)
  then have "tx_ordered I (k # held, pending)" by (simp add: tx_ordered_def)
  with acquire show ?case by (auto simp: list_all_length nth_list_update)
next
  case (finish i txs held)
  then show ?case by (auto simp: list_all_length nth_list_update tx_ordered_def)
qed

lemma lock_run_ordered: "lock_run txs txs' \<Longrightarrow> list_all (tx_ordered I) txs \<Longrightarrow> list_all (tx_ordered I) txs'"
  by (induction rule: lock_run.induct)
    (auto dest: lock_step_ordered, auto simp: list_all_length nth_list_update tx_ordered_def)

lemma lock_step_work: "lock_step txs txs' \<Longrightarrow> lock_work txs' < lock_work txs"
proof -
  let ?w = "\<lambda>tx :: lock_tx. 2 * length (snd tx) + (if fst tx = [] then 0 else 1 :: nat)"
  have upd: "sum_list (map ?w (xs[i := x])) < sum_list (map ?w xs)"
    if "i < length xs" "?w x < ?w (xs ! i)" for xs :: "lock_tx list" and i x
    using that
  proof (induction xs arbitrary: i)
    case (Cons y ys)
    then show ?case by (cases i) auto
  qed simp
  assume "lock_step txs txs'"
  then show ?thesis unfolding lock_work_def by cases (auto intro!: upd)
qed

lemma exists_last_waiting:
  assumes "finite S" "S \<noteq> {}" "S \<inter> I = {}"
  shows "\<exists>k \<in> S. \<forall>k' \<in> S. \<not> lock_before I k k'"
proof (rule bexI)
  show "Max S \<in> S" using assms(1,2) by (rule Max_in)
  then show "\<forall>k' \<in> S. \<not> lock_before I (Max S) k'"
    using Max_ge[OF assms(1)] assms(3) by (auto simp: lock_before_def not_less)
qed

lemma ordered_progress:
  assumes "list_all (tx_ordered I) txs" "\<not> finished txs"
  shows "\<exists>txs'. lock_step txs txs'"
proof (rule ccontr)
  assume stuck: "\<not> ?thesis"
  have waits: "\<exists>j. j < length txs \<and> snd (txs ! j) \<noteq> [] \<and> lock_before I k (hd (snd (txs ! j)))"
    if "i < length txs" "snd (txs ! i) = k # ks" for i k ks
  proof -
    have "\<not> lock_free txs i k" using stuck that acquire[of i txs "fst (txs ! i)" k ks] by (metis prod.collapse)
    then obtain j where j: "j < length txs" "k \<in> set (fst (txs ! j))" by (auto simp: lock_free_def)
    then have "snd (txs ! j) \<noteq> []"
      using stuck finish[of j txs "fst (txs ! j)"] by (metis empty_iff list.set(1) prod.collapse)
    then obtain k' ks' where s: "snd (txs ! j) = k' # ks'" by (cases "snd (txs ! j)") auto
    have "tx_ordered I (txs ! j)" using assms(1) j(1) by (simp add: list_all_length)
    then have "lock_before I k k'" using j(2) s by (auto simp: tx_ordered_def sorted_wrt_append)
    with j(1) s show ?thesis by auto
  qed
  define W where "W = {k. \<exists>i < length txs. snd (txs ! i) \<noteq> [] \<and> k = hd (snd (txs ! i))}"
  have up: "\<exists>k' \<in> W. lock_before I k k'" if "k \<in> W" for k
  proof -
    from that obtain i ks where i: "i < length txs" "snd (txs ! i) = k # ks"
      unfolding W_def by (auto simp: neq_Nil_conv)
    show ?thesis using waits[OF i] unfolding W_def by blast
  qed
  obtain tx where tx: "tx \<in> set txs" "tx \<noteq> ([], [])" using assms(2) by (auto simp: finished_def list_all_iff)
  then obtain i where i: "i < length txs" "txs ! i \<noteq> ([], [])" by (metis in_set_conv_nth)
  have "snd (txs ! i) \<noteq> []" using stuck i finish[of i txs "fst (txs ! i)"] by (metis prod.collapse)
  then have "W \<noteq> {}" using i(1) unfolding W_def by blast
  have past: "lock_before I k k' \<Longrightarrow> k' \<notin> I" for k k' by (auto simp: lock_before_def)
  have "W - I \<noteq> {}" using up past \<open>W \<noteq> {}\<close> by blast
  moreover have "finite W" unfolding W_def by simp
  ultimately obtain k where k: "k \<in> W - I" "\<forall>k' \<in> W - I. \<not> lock_before I k k'"
    using exists_last_waiting[of "W - I" I] by blast
  obtain k' where "k' \<in> W" "lock_before I k k'" using up k(1) by blast
  with k(2) past show False by blast
qed



subsection \<open>Retries\<close>

text \<open>
  The outcome of the n-th attempt and the n-th jitter are arguments; delays are exact rationals.
  Besides the outcome the loop returns the delays it slept.
\<close>

definition retry_after_ms :: "rat \<Rightarrow> int" where
  "retry_after_ms max_delay =
     (let (n, d) = quotient_of (max_delay * 1000) in int (round_half_even (nat n) (nat d)))"

fun retry_attempts ::
    "nat \<Rightarrow> rat \<Rightarrow> rat \<Rightarrow> (nat \<Rightarrow> 'a result) \<Rightarrow> (nat \<Rightarrow> rat) \<Rightarrow> nat list \<Rightarrow> 'a result \<times> rat list" where
  "retry_attempts max_attempts base_delay max_delay operation jitter [] = (Inl AssertionError, [])"
| "retry_attempts max_attempts base_delay max_delay operation jitter (attempt # attempts) =
     (case operation attempt of
        Inl (DBAPIError sqlstate) \<Rightarrow>
          if sqlstate \<noteq> Some ''40001'' then (Inl (DBAPIError sqlstate), [])
          else if attempt = max_attempts
          then (Inl (SerializableTransactionError (int attempt) (retry_after_ms max_delay)), [])
          else let jitter_fraction = jitter attempt in
               if \<not> (0 \<le> jitter_fraction \<and> jitter_fraction \<le> 1)
               then (Inl (ValueError ''jitter must return a value between zero and one''), [])
               else let ceiling = min max_delay (base_delay * 2 ^ (attempt - 1));
                        (outcome, slept) = retry_attempts max_attempts base_delay max_delay operation jitter attempts
                    in (outcome, ceiling * jitter_fraction # slept)
      | outcome \<Rightarrow> (outcome, []))"

definition run_serializable_transaction ::
    "int \<Rightarrow> rat \<Rightarrow> rat \<Rightarrow> (nat \<Rightarrow> 'a result) \<Rightarrow> (nat \<Rightarrow> rat) \<Rightarrow> 'a result \<times> rat list" where
  "run_serializable_transaction max_attempts base_delay max_delay operation jitter =
     (if max_attempts < 1 then (Inl (ValueError ''max_attempts must be at least one''), [])
      else if base_delay < 0 \<or> max_delay < 0 \<or> max_delay < base_delay
      then (Inl (ValueError ''retry delays must satisfy 0 <= base_delay <= max_delay''), [])
      else retry_attempts (nat max_attempts) base_delay max_delay operation jitter
             [1..<Suc (nat max_attempts)])"

abbreviation serialization_failure :: exn where
  "serialization_failure \<equiv> DBAPIError (Some ''40001'')"

lemma retry_stops:
  "operation k \<noteq> Inl serialization_failure \<Longrightarrow>
   retry_attempts n base delay operation jitter (k # ks) = (operation k, [])"
  by (auto split: sum.splits exn.splits)

lemma retry_attempts_outcome:
  assumes "\<And>a. 0 \<le> jitter a \<and> jitter a \<le> 1" "0 \<le> base" "base \<le> delay" "k \<le> n" "1 \<le> k"
    and "retry_attempts n base delay operation jitter [k..<Suc n] = (r, slept)"
  shows "\<exists>a. k \<le> a \<and> a \<le> n \<and> length slept = a - k \<and> (\<forall>b. k \<le> b \<longrightarrow> b < a \<longrightarrow> operation b = Inl serialization_failure) \<and>
    (operation a \<noteq> Inl serialization_failure \<and> r = operation a \<or>
     operation a = Inl serialization_failure \<and> a = n \<and>
       r = Inl (SerializableTransactionError (int n) (retry_after_ms delay))) \<and>
    (\<forall>d \<in> set slept. 0 \<le> d \<and> d \<le> delay)"
  using assms(4-)
proof (induction "n - k" arbitrary: k r slept)
  case 0
  then have "k = n" by simp
  then have "retry_attempts n base delay operation jitter (n # []) = (r, slept)"
    using 0 by (simp add: upt_rec)
  then show ?case
    using \<open>k = n\<close> by (cases "operation n = Inl serialization_failure")
      (auto simp: retry_stops simp del: retry_attempts.simps(2), auto)
next
  case (Suc d)
  let ?rest = "retry_attempts n base delay operation jitter [Suc k..<Suc n]"
  have k: "[k..<Suc n] = k # [Suc k..<Suc n]" "k < n" using Suc(2) by (simp_all add: upt_rec)
  show ?case
  proof (cases "operation k = Inl serialization_failure")
    case False
    then have "r = operation k" "slept = []"
      using Suc.prems(3) unfolding k(1) retry_stops[of operation k, OF False] by simp_all
    with False k(2) show ?thesis by (intro exI[of _ k]) auto
  next
    case True
    have d: "d = n - Suc k" using Suc(2) by simp
    obtain r' slept' where rest: "?rest = (r', slept')" by fastforce
    have r: "r = r'" "slept = min delay (base * 2 ^ (k - 1)) * jitter k # slept'"
      using Suc.prems(3) True assms(1)[of k] k(2) rest unfolding k(1) by auto
    have c: "0 \<le> min delay (base * 2 ^ (k - 1))" "min delay (base * 2 ^ (k - 1)) \<le> delay"
      using assms(2,3) by simp_all
    have "min delay (base * 2 ^ (k - 1)) * jitter k \<le> min delay (base * 2 ^ (k - 1)) * 1"
      using c(1) assms(1)[of k] by (intro mult_left_mono) auto
    then have s: "0 \<le> min delay (base * 2 ^ (k - 1)) * jitter k" "min delay (base * 2 ^ (k - 1)) * jitter k \<le> delay"
      using c assms(1)[of k] by (simp, linarith)
    obtain a where a: "Suc k \<le> a" "a \<le> n" "length slept' = a - Suc k"
      "\<forall>b. Suc k \<le> b \<longrightarrow> b < a \<longrightarrow> operation b = Inl serialization_failure"
      "operation a \<noteq> Inl serialization_failure \<and> r' = operation a \<or>
       operation a = Inl serialization_failure \<and> a = n \<and>
         r' = Inl (SerializableTransactionError (int n) (retry_after_ms delay))"
      "\<forall>d \<in> set slept'. 0 \<le> d \<and> d \<le> delay"
      using Suc(1)[OF d _ _ rest] k(2) by auto
    have "\<forall>b. k \<le> b \<longrightarrow> b < a \<longrightarrow> operation b = Inl serialization_failure"
      using a(4) True by (metis Suc_leI le_neq_implies_less)
    with a r s k(2) show ?thesis by (intro exI[of _ a]) auto
  qed
qed

text \<open>
  C32. A serialisable transaction is attempted at least once and at most the configured number of
  times. Only serialisation failures are retried: the result is the outcome of the first attempt
  that does not fail this way, unchanged, or the exhaustion error when all attempts do. The loop
  sleeps once between two attempts, never longer than the maximal delay.
\<close>

theorem run_serializable_transaction_bounded:
  assumes "1 \<le> max_attempts" "0 \<le> base_delay" "base_delay \<le> max_delay"
    and "\<And>a. 0 \<le> jitter a \<and> jitter a \<le> 1"
    and "run_serializable_transaction max_attempts base_delay max_delay operation jitter = (r, slept)"
  shows "\<exists>a. 1 \<le> a \<and> a \<le> nat max_attempts \<and> length slept = a - 1 \<and>
    (\<forall>b. 1 \<le> b \<longrightarrow> b < a \<longrightarrow> operation b = Inl serialization_failure) \<and>
    (operation a \<noteq> Inl serialization_failure \<and> r = operation a \<or>
     operation a = Inl serialization_failure \<and> a = nat max_attempts \<and>
       r = Inl (SerializableTransactionError max_attempts (retry_after_ms max_delay))) \<and>
    (\<forall>d \<in> set slept. 0 \<le> d \<and> d \<le> max_delay)"
proof -
  have "retry_attempts (nat max_attempts) base_delay max_delay operation jitter [1..<Suc (nat max_attempts)] = (r, slept)"
    using assms(1,2,3,5) by (simp add: run_serializable_transaction_def)
  from retry_attempts_outcome[OF assms(4,2,3) _ _ this] assms(1) show ?thesis by simp
qed

theorem run_serializable_transaction_bounded_witness:
  "run_serializable_transaction 4 (1/40) (1/10) (\<lambda>n. if n < 3 then Inl serialization_failure else Inr n) (\<lambda>n. 1)
     = (Inr 3, [1/40, 1/20])"
proof -
  let ?op = "\<lambda>n. if n < 3 then Inl serialization_failure else Inr n"
  obtain r slept where r: "run_serializable_transaction 4 (1/40) (1/10) ?op (\<lambda>n. 1) = (r, slept)"
    by fastforce
  obtain a where a: "1 \<le> a" "length slept = a - 1"
      "\<forall>b. 1 \<le> b \<longrightarrow> b < a \<longrightarrow> ?op b = Inl serialization_failure"
      "?op a \<noteq> Inl serialization_failure \<and> r = ?op a \<or> ?op a = Inl serialization_failure \<and> a = nat 4"
    using run_serializable_transaction_bounded[OF _ _ _ _ r] by auto
  then have "a = 3" by (auto split: if_splits)
  with a(4) have "r = Inr 3" by simp
  moreover have "snd (run_serializable_transaction 4 (1/40) (1/10) ?op (\<lambda>n. 1)) = [1/40, 1/20]"
    by (simp add: run_serializable_transaction_def upt_rec eval_nat_numeral)
  ultimately show ?thesis using r by simp
qed

end
