(* ===== verification/Outbox.thy ===== *)
theory Outbox
  imports Byte_Codes "HOL-Library.List_Lexorder"
begin

text \<open>
  The transactional outbox (\<^verbatim>\<open>storage/outbox.py\<close>): content-free job references, the
  deduplication key of a job and the insertion of a job into the outbox table. The table's own
  constraints (\<^verbatim>\<open>storage/models/operations.py\<close>) are checked by the database on insertion and
  modelled with it. The lemmas show that the deduplication key identifies the job and that a job
  payload holds nothing but identifiers and numbers.
\<close>

subsection \<open>References\<close>

datatype outbox_reference = RefUUID uuid | RefInt int | RefUUIDs "uuid list"

type_synonym outbox_references = "(pystr, outbox_reference) dict"

definition REFERENCE_SUFFIXES :: "string list" where
  "REFERENCE_SUFFIXES = [''_id'', ''_ids'', ''_version'', ''_sequence'']"

definition ends_with :: "pystr \<Rightarrow> string \<Rightarrow> bool" where
  "ends_with key suffix \<longleftrightarrow>
     length suffix \<le> length key \<and> drop (length key - length suffix) key = lit suffix"

fun join_commas :: "string list \<Rightarrow> string" where
  "join_commas [] = ''''"
| "join_commas [x] = x"
| "join_commas (x # y # ys) = x @ '','' @ join_commas (y # ys)"

definition ascii_bytes :: "string \<Rightarrow> bytes" where
  "ascii_bytes s = map (\<lambda>c. of_nat (of_char c)) s"

fun reference_bytes :: "pystr \<Rightarrow> outbox_reference \<Rightarrow> bytes result" where
  "reference_bytes key (RefUUID u) = Inr (ascii_bytes (''uuid:'' @ uuid_str u))"
| "reference_bytes key (RefInt i) =
     (if 0 \<le> i then Inr (ascii_bytes (''int:'' @ int_str i))
      else Inl (TypeError ''outbox references must be UUIDs, non-negative integers, or UUID tuples''))"
| "reference_bytes key (RefUUIDs us) =
     (if ends_with key ''_ids'' then Inr (ascii_bytes (''uuids:'' @ join_commas (map uuid_str us)))
      else Inl (TypeError ''outbox references must be UUIDs, non-negative integers, or UUID tuples''))"

fun reference_payload :: "outbox_reference \<Rightarrow> json" where
  "reference_payload (RefUUIDs us) = JArr (map (\<lambda>u. JStr (lit (uuid_str u))) us)"
| "reference_payload (RefUUID u) = JStr (lit (uuid_str u))"
| "reference_payload (RefInt i) = JInt i"

definition validate_outbox_reference :: "outbox_references \<Rightarrow> pystr \<Rightarrow> (pystr \<times> json) result" where
  "validate_outbox_reference references key =
     (if key = [] \<or> \<not> list_all (\<lambda>c. c < 128) key \<or> \<not> list_ex (ends_with key) REFERENCE_SUFFIXES
      then Inl (ValueError ''outbox reference names must identify an ID, version, or sequence'')
      else case dict_get references key of
        None \<Rightarrow> Inl (KeyError ''references'')
      | Some v \<Rightarrow> rbind (reference_bytes key v) (\<lambda>_. Inr (key, reference_payload v)))"

definition validate_outbox_references :: "outbox_references \<Rightarrow> json_object result" where
  "validate_outbox_references references =
     traverse (validate_outbox_reference references) (sort (map fst references))"

subsection \<open>Deduplication\<close>

definition field_bytes :: "bytes \<times> bytes \<Rightarrow> bytes result" where
  "field_bytes f =
     rbind (to_bytes_big (length (fst f)) 2) (\<lambda>m.
     rbind (to_bytes_big (length (snd f)) 4) (\<lambda>n.
       Inr (m @ fst f @ n @ snd f)))"

definition reference_field :: "outbox_references \<Rightarrow> pystr \<Rightarrow> (bytes \<times> bytes) result" where
  "reference_field references key =
     (case dict_get references key of
        None \<Rightarrow> Inl (KeyError ''references'')
      | Some v \<Rightarrow> rbind (reference_bytes key v) (\<lambda>b. Inr (map of_nat key, b)))"

definition outbox_fields ::
    "uuid \<Rightarrow> pystr \<Rightarrow> pystr \<Rightarrow> uuid option \<Rightarrow> outbox_references \<Rightarrow> (bytes \<times> bytes) list result" where
  "outbox_fields tenant_id job_type aggregate_type aggregate_id references =
     rbind (utf8_encode job_type) (\<lambda>job.
     rbind (utf8_encode aggregate_type) (\<lambda>aggregate.
     rbind (traverse (reference_field references) (sort (map fst references))) (\<lambda>refs.
       Inr ([(ascii_bytes ''tenant_id'', uuid_bytes tenant_id), (ascii_bytes ''job_type'', job),
             (ascii_bytes ''aggregate_type'', aggregate),
             (ascii_bytes ''aggregate_id'', case aggregate_id of None \<Rightarrow> [] | Some a \<Rightarrow> uuid_bytes a)] @ refs))))"

definition deduplication_material ::
    "uuid \<Rightarrow> pystr \<Rightarrow> pystr \<Rightarrow> uuid option \<Rightarrow> outbox_references \<Rightarrow> bytes result" where
  "deduplication_material tenant_id job_type aggregate_type aggregate_id references =
     (if job_type = [] \<or> aggregate_type = []
      then Inl (ValueError ''job_type and aggregate_type must not be empty'')
      else rbind (validate_outbox_references references) (\<lambda>_.
           rbind (outbox_fields tenant_id job_type aggregate_type aggregate_id references) (\<lambda>fs.
           rbind (traverse field_bytes fs) (\<lambda>parts. Inr (concat parts)))))"

definition outbox_deduplication_key ::
    "'z codec_scheme \<Rightarrow> uuid \<Rightarrow> pystr \<Rightarrow> pystr \<Rightarrow> uuid option \<Rightarrow> outbox_references \<Rightarrow> string result" where
  "outbox_deduplication_key L tenant_id job_type aggregate_type aggregate_id references =
     rbind (deduplication_material tenant_id job_type aggregate_type aggregate_id references)
       (\<lambda>material. Inr (''v1:'' @ sha256_hexdigest L material))"

subsection \<open>The outbox table\<close>

datatype outbox_state = OJ_PENDING | OJ_LEASED | OJ_SUCCEEDED | OJ_FAILED | OJ_DEAD

record outbox_job =
  oj_job_id :: int
  oj_job_uuid :: uuid
  oj_tenant_id :: uuid
  oj_job_type :: pystr
  oj_deduplication_key :: string
  oj_aggregate_type :: pystr
  oj_aggregate_id :: "uuid option"
  oj_payload :: json_object
  oj_state :: outbox_state
  oj_priority :: int
  oj_available_at :: utc
  oj_lease_owner :: "string option"
  oj_lease_expires_at :: "utc option"
  oj_attempt_count :: int
  oj_max_attempts :: int
  oj_last_error_code :: "string option"
  oj_last_error_summary :: "string option"
  oj_created_at :: utc
  oj_updated_at :: utc
  oj_completed_at :: "utc option"

definition OUTBOX_JOB_TYPES :: "string list" where
  "OUTBOX_JOB_TYPES =
     [''embed_memory'', ''check_duplicates'', ''rebuild_projection'', ''propose_consolidation'',
      ''export_git_batch'', ''expire_candidate'', ''purge_payload'', ''ingest_github_proposal'',
      ''refresh_ingress_status'', ''notify_relay_health'']"

text \<open>The check constraints of one row, and the unique constraints between two rows.\<close>

definition outbox_row_check :: "outbox_job \<Rightarrow> bool" where
  "outbox_row_check job \<longleftrightarrow>
     oj_job_type job \<in> set (map lit OUTBOX_JOB_TYPES) \<and>
     0 \<le> oj_attempt_count job \<and> 1 \<le> oj_max_attempts job \<and> oj_max_attempts job \<le> 100 \<and>
     oj_attempt_count job \<le> oj_max_attempts job \<and>
     (oj_state job = OJ_LEASED \<and> oj_lease_owner job \<noteq> None \<and> oj_lease_expires_at job \<noteq> None \<or>
      oj_state job \<noteq> OJ_LEASED \<and> oj_lease_owner job = None \<and> oj_lease_expires_at job = None) \<and>
     (oj_completed_at job = None \<or> oj_state job \<in> {OJ_SUCCEEDED, OJ_DEAD}) \<and>
     1 \<le> length (oj_deduplication_key job) \<and> length (oj_deduplication_key job) \<le> 255 \<and>
     is_uuid7 (oj_job_uuid job)"

definition outbox_rows_clash :: "outbox_job \<Rightarrow> outbox_job \<Rightarrow> bool" where
  "outbox_rows_clash a b \<longleftrightarrow>
     oj_tenant_id a = oj_tenant_id b \<and>
     (oj_job_uuid a = oj_job_uuid b \<or>
      oj_job_type a = oj_job_type b \<and> oj_deduplication_key a = oj_deduplication_key b)"

record outbox_table =
  ob_next_job_id :: int
  ob_rows :: "outbox_job list"

text \<open>
  Insertion of a flushed row: the database draws the next job identifier and rejects a row whose
  texts exceed their columns (SQLSTATE 22001), that violates a check (23514) or that clashes with
  a stored one (23505).
\<close>

definition insert_outbox_row :: "outbox_job \<Rightarrow> outbox_table \<Rightarrow> (outbox_job \<times> outbox_table) result" where
  "insert_outbox_row job table =
     (let row = job\<lparr> oj_job_id := ob_next_job_id table \<rparr> in
      if 32 < length (oj_job_type row) \<or> 64 < length (oj_aggregate_type row) then Inl (DBAPIError (Some ''22001''))
      else if \<not> outbox_row_check row then Inl (DBAPIError (Some ''23514''))
      else if list_ex (outbox_rows_clash row) (ob_rows table) then Inl (DBAPIError (Some ''23505''))
      else Inr (row, \<lparr> ob_next_job_id = ob_next_job_id table + 1, ob_rows = ob_rows table @ [row] \<rparr>))"

text \<open>
  Columns that the code leaves out get their declared defaults; \<^verbatim>\<open>CURRENT_TIMESTAMP\<close> is the
  argument \<^verbatim>\<open>now\<close>, and \<^verbatim>\<open>fresh_uuid\<close> is the value of \<^verbatim>\<open>new_uuid7()\<close>.
\<close>

definition enqueue_outbox_job ::
    "'z codec_scheme \<Rightarrow> utc \<Rightarrow> uuid \<Rightarrow> uuid \<Rightarrow> pystr \<Rightarrow> pystr \<Rightarrow> uuid option \<Rightarrow> outbox_references \<Rightarrow> int \<Rightarrow> int \<Rightarrow>
     utc option \<Rightarrow> uuid option \<Rightarrow> outbox_table \<Rightarrow> (outbox_job \<times> outbox_table) result" where
  "enqueue_outbox_job L now fresh_uuid tenant_id job_type aggregate_type aggregate_id references
       priority max_attempts available_at job_uuid table =
     (if \<not> (- (2 ^ 15) \<le> priority \<and> priority < 2 ^ 15)
      then Inl (ValueError ''priority must fit a signed 16-bit integer'')
      else if \<not> (1 \<le> max_attempts \<and> max_attempts \<le> 100)
      then Inl (ValueError ''max_attempts must be between 1 and 100'')
      else rbind (validate_outbox_references references) (\<lambda>payload.
           rbind (outbox_deduplication_key L tenant_id job_type aggregate_type aggregate_id references) (\<lambda>key.
             insert_outbox_row
               \<lparr> oj_job_id = 0,
                 oj_job_uuid = (case job_uuid of Some u \<Rightarrow> u | None \<Rightarrow> fresh_uuid),
                 oj_tenant_id = tenant_id, oj_job_type = job_type, oj_deduplication_key = key,
                 oj_aggregate_type = aggregate_type, oj_aggregate_id = aggregate_id,
                 oj_payload = payload, oj_state = OJ_PENDING, oj_priority = priority,
                 oj_available_at = (case available_at of Some t \<Rightarrow> t | None \<Rightarrow> now),
                 oj_lease_owner = None, oj_lease_expires_at = None, oj_attempt_count = 0,
                 oj_max_attempts = max_attempts, oj_last_error_code = None, oj_last_error_summary = None,
                 oj_created_at = now, oj_updated_at = now, oj_completed_at = None \<rparr> table)))"

subsection \<open>What the deduplication key identifies\<close>

lemma ascii_bytes_inj: "ascii_bytes s = ascii_bytes t \<longleftrightarrow> s = t"
proof -
  have "unat (of_nat (of_char c) :: 8 word) = (of_char c :: nat)" for c :: char
    using of_char_of[of "of_char c :: nat"] by (simp add: unat_of_nat of_char_mod_256)
  then have "map unat (ascii_bytes s) = map of_char s" for s by (simp add: ascii_bytes_def comp_def)
  then have "ascii_bytes s = ascii_bytes t \<Longrightarrow> map (of_char :: char \<Rightarrow> nat) s = map of_char t" by metis
  then show ?thesis by (auto dest!: map_injective[OF _ inj_of_char])
qed

lemma uuid_bytes_nonempty [simp]: "uuid_bytes u \<noteq> []" "[] \<noteq> uuid_bytes u"
  using length_uuid_bytes[of u] by (metis list.size(3) zero_neq_numeral)+

lemma length_uuid_str: "length (uuid_str u) = 36"
  by (simp add: uuid_str_def Let_def uuid_hex_facts)

lemma uuid_str_prefix: "uuid_str u @ r = uuid_str v @ s \<longleftrightarrow> u = v \<and> r = s"
  by (auto simp: length_uuid_str dest: uuid_text.enc_inj)

lemma join_uuids_inj: "join_commas (map uuid_str us) = join_commas (map uuid_str vs) \<Longrightarrow> us = vs"
proof (induction us arbitrary: vs)
  case Nil
  have ne: "uuid_str v \<noteq> []" for v using length_uuid_str[of v] by auto
  then have "join_commas (uuid_str v # xs) \<noteq> []" for v xs by (cases xs) auto
  with Nil show ?case by (cases vs) (auto dest: sym)
next
  case (Cons u us)
  have parts: "join_commas (map uuid_str (w # ws)) = uuid_str w @ (case ws of [] \<Rightarrow> [] | _ \<Rightarrow> '','' @ join_commas (map uuid_str ws))"
    for w ws by (cases ws) auto
  have "join_commas (map uuid_str (u # us)) \<noteq> []" unfolding parts using length_uuid_str[of u] by auto
  then obtain v vs' where vs: "vs = v # vs'" using Cons.prems by (cases vs) auto
  have "uuid_str u @ (case us of [] \<Rightarrow> [] | _ \<Rightarrow> '','' @ join_commas (map uuid_str us)) =
      uuid_str v @ (case vs' of [] \<Rightarrow> [] | _ \<Rightarrow> '','' @ join_commas (map uuid_str vs'))"
    using Cons.prems unfolding vs parts .
  then have "u = v" "(case us of [] \<Rightarrow> [] | _ \<Rightarrow> '','' @ join_commas (map uuid_str us)) =
      (case vs' of [] \<Rightarrow> [] | _ \<Rightarrow> '','' @ join_commas (map uuid_str vs'))"
    by (auto simp: uuid_str_prefix)
  moreover from this(2) have "us = vs'"
    using Cons.IH[of vs'] by (auto split: list.splits)
  ultimately show ?case by (simp add: vs)
qed

lemma reference_bytes_inj: "reference_bytes k v = Inr b \<Longrightarrow> reference_bytes k w = Inr b \<Longrightarrow> v = w"
  by (cases v; cases w)
    (auto simp: ascii_bytes_inj int_str_def nat_str_inj uuid_text.enc_eq_iff split: if_splits
      dest!: join_uuids_inj)

lemma field_bytes_ok: "field_bytes f = Inr b \<longleftrightarrow> field_fits f \<and> b = field_code f"
  by (auto simp: field_bytes_def to_bytes_big_def field_fits_def field_code_def frame_def ok_simps)

lemma field_parts: "traverse field_bytes fs = Inr ps \<Longrightarrow> list_all field_fits fs \<and> ps = map field_code fs"
  by (induction fs arbitrary: ps) (auto simp: ok_simps field_bytes_ok)

lemma deduplication_material_ok:
  assumes "deduplication_material t j a i refs = Inr m"
  obtains fs payload where "outbox_fields t j a i refs = Inr fs" "list_all field_fits fs"
    "m = concat (map field_code fs)" "validate_outbox_references refs = Inr payload"
  using assms by (auto simp: deduplication_material_def ok_simps dest!: field_parts split: if_splits)

text \<open>The reference fields, in key order, determine the references.\<close>

lemma reference_field_ok:
  "reference_field refs k = Inr f \<longleftrightarrow>
   (\<exists>v b. dict_get refs k = Some v \<and> reference_bytes k v = Inr b \<and> f = (map of_nat k, b))"
  by (auto simp: reference_field_def ok_simps)

lemma ascii_key_inj:
  assumes "map of_nat k = (map of_nat l :: bytes)" "list_all (\<lambda>c. c < 128) k" "list_all (\<lambda>c. c < 128) l"
  shows "k = l"
proof -
  have "map unat (map of_nat k :: bytes) = k" if "list_all (\<lambda>c. c < 128) k" for k
    using that by (induction k) (auto simp: unat_of_nat)
  with assms show ?thesis by metis
qed

lemma validated_keys:
  "validate_outbox_references refs = Inr p \<Longrightarrow> (k, v) \<in> set refs \<Longrightarrow> list_all (\<lambda>c. c < 128) k"
proof -
  assume v: "validate_outbox_references refs = Inr p" "(k, v) \<in> set refs"
  have "k \<in> set (sort (map fst refs))" using v(2) by force
  with v(1) have "\<exists>q. validate_outbox_reference refs k = Inr q"
    unfolding validate_outbox_references_def by (blast dest: traverse_member)
  then show ?thesis by (auto simp: validate_outbox_reference_def ok_simps split: if_splits)
qed

lemma reference_fields_determine:
  assumes "traverse (reference_field refs) ks = Inr fs" "traverse (reference_field refs') ks' = Inr fs"
    and "\<And>k. k \<in> set ks \<union> set ks' \<Longrightarrow> list_all (\<lambda>c. c < 128) k"
  shows "ks = ks' \<and> (\<forall>k \<in> set ks. dict_get refs k = dict_get refs' k)"
  using assms
proof (induction ks arbitrary: ks' fs)
  case Nil
  then show ?case by (cases ks') (auto simp: ok_simps)
next
  case (Cons k ks)
  then obtain f gs where f: "fs = f # gs" "reference_field refs k = Inr f" "traverse (reference_field refs) ks = Inr gs"
    by (auto simp: ok_simps)
  with Cons.prems obtain k' ls where ks': "ks' = k' # ls" "reference_field refs' k' = Inr f"
      "traverse (reference_field refs') ls = Inr gs"
    by (cases ks') (auto simp: ok_simps)
  obtain v v' b where v: "dict_get refs k = Some v" "reference_bytes k v = Inr b"
      "dict_get refs' k' = Some v'" "reference_bytes k' v' = Inr b" "map of_nat k = (map of_nat k' :: bytes)"
    using f(2) ks'(2) by (auto simp: reference_field_ok)
  have "k = k'" using v(5) Cons.prems(3) ks'(1) by (intro ascii_key_inj) auto
  moreover have "v = v'" using v \<open>k = k'\<close> by (auto intro: reference_bytes_inj)
  ultimately show ?case using Cons.IH[OF f(3) ks'(3)] Cons.prems(3) ks'(1) v by auto
qed

lemma same_references:
  assumes "distinct (map fst refs)" "distinct (map fst refs')" "dict_get refs = dict_get refs'"
  shows "sort (map fst refs) = sort (map fst refs')"
proof -
  have "set (map fst refs) = set (map fst refs')" using assms(3) by (metis dom_map_of_conv_image_fst set_map)
  with assms show ?thesis by (metis set_eq_iff_mset_eq_distinct sorted_list_of_multiset_mset)
qed

lemma outbox_fields_inj:
  assumes "outbox_fields t j a i refs = Inr fs" "outbox_fields t' j' a' i' refs' = Inr fs"
    and "validate_outbox_references refs = Inr p" "validate_outbox_references refs' = Inr p'"
    and "list_all code_point (j @ a)" "list_all code_point (j' @ a')"
    and "distinct (map fst refs)" "distinct (map fst refs')"
  shows "t = t' \<and> j = j' \<and> a = a' \<and> i = i' \<and> dict_get refs = dict_get refs'"
proof -
  obtain x y rs where f: "utf8_encode j = Inr x" "utf8_encode a = Inr y" "utf8_encode j' = Inr x"
      "utf8_encode a' = Inr y" "traverse (reference_field refs) (sort (map fst refs)) = Inr rs"
      "traverse (reference_field refs') (sort (map fst refs')) = Inr rs" "t = t'"
      "(case i of None \<Rightarrow> [] | Some a \<Rightarrow> uuid_bytes a) = (case i' of None \<Rightarrow> [] | Some a \<Rightarrow> uuid_bytes a)"
    using assms(1,2) by (auto simp: outbox_fields_def ok_simps uuid_bytes_inj)
  have "list_all (\<lambda>c. c < 128) k" if "k \<in> set (sort (map fst refs)) \<union> set (sort (map fst refs'))" for k
    using that assms(3,4) validated_keys by fastforce
  from reference_fields_determine[OF f(5,6) this]
  have keys: "sort (map fst refs) = sort (map fst refs')" "\<And>k. k \<in> fst ` set refs \<Longrightarrow> dict_get refs k = dict_get refs' k"
    by auto
  then have "fst ` set refs = fst ` set refs'" by (metis set_map set_sort)
  then have "dict_get refs k = dict_get refs' k" for k
    using keys(2)[of k] by (cases "k \<in> fst ` set refs") (simp_all, metis map_of_eq_None_iff)
  moreover have "i = i'"
    using f(8) by (auto simp: uuid_bytes_inj split: option.splits)
  moreover have "j = j'" "a = a'" using f(1-4) assms(5,6) by (auto intro: utf8_encode_inj)
  ultimately show ?thesis using f(7) by (auto simp: fun_eq_iff)
qed

text \<open>
  The deduplication key of an outbox job identifies the job: two keys agree exactly when
  tenant, job type, aggregate and all references agree, the order in which references were given
  aside. It rests on the digest not colliding on the two hashed byte strings.
\<close>

theorem outbox_deduplication_identifies:
  assumes "outbox_deduplication_key L t j a i refs = Inr k" "outbox_deduplication_key L t' j' a' i' refs' = Inr k'"
    and "\<And>m m'. deduplication_material t j a i refs = Inr m \<Longrightarrow>
      deduplication_material t' j' a' i' refs' = Inr m' \<Longrightarrow> sha256 L m = sha256 L m' \<Longrightarrow> m = m'"
    and "list_all code_point (j @ a)" "list_all code_point (j' @ a')"
    and "distinct (map fst refs)" "distinct (map fst refs')"
  shows "k = k' \<longleftrightarrow> t = t' \<and> j = j' \<and> a = a' \<and> i = i' \<and> dict_get refs = dict_get refs'"
proof -
  obtain m m' where m: "deduplication_material t j a i refs = Inr m" "k = ''v1:'' @ bytes_hex (sha256 L m)"
      "deduplication_material t' j' a' i' refs' = Inr m'" "k' = ''v1:'' @ bytes_hex (sha256 L m')"
    using assms(1,2) by (auto simp: outbox_deduplication_key_def sha256_hexdigest_def ok_simps)
  obtain fs p where fs: "outbox_fields t j a i refs = Inr fs" "list_all field_fits fs"
      "m = concat (map field_code fs)" "validate_outbox_references refs = Inr p"
    using m(1) by (rule deduplication_material_ok)
  obtain gs q where gs: "outbox_fields t' j' a' i' refs' = Inr gs" "list_all field_fits gs"
      "m' = concat (map field_code gs)" "validate_outbox_references refs' = Inr q"
    using m(3) by (rule deduplication_material_ok)
  show ?thesis
  proof
    assume "k = k'"
    then have "m = m'" using m assms(3) by (auto dest: hex.enc_inj)
    then have "fs = gs" using fs(2,3) gs(2,3) fld.concat_inj by blast
    with outbox_fields_inj[OF fs(1) _ fs(4) gs(4) assms(4-7)] gs(1)
    show "t = t' \<and> j = j' \<and> a = a' \<and> i = i' \<and> dict_get refs = dict_get refs'" by blast
  next
    assume eq: "t = t' \<and> j = j' \<and> a = a' \<and> i = i' \<and> dict_get refs = dict_get refs'"
    then have "sort (map fst refs) = sort (map fst refs')" using same_references assms(6,7) by blast
    moreover have "reference_field refs = reference_field refs'"
      using eq by (simp add: reference_field_def fun_eq_iff)
    ultimately have "outbox_fields t j a i refs = outbox_fields t' j' a' i' refs'"
      using eq by (simp add: outbox_fields_def)
    then have "fs = gs" using fs(1) gs(1) by simp
    then show "k = k'" using m fs(3) gs(3) by simp
  qed
qed

definition sample_outbox_codec :: codec where
  "sample_outbox_codec =
     \<lparr> rfc8785_dumps = (\<lambda>j. None), sha256 = (\<lambda>b. b), decimal_to_float = (\<lambda>d. FFinite d) \<rparr>"

definition sample_references :: outbox_references where
  "sample_references = [([97, 95, 105, 100], RefUUID 7), ([98, 95, 105, 100], RefInt 3)]"

lemma length_ascii_bytes [simp]: "length (ascii_bytes s) = length s"
  by (simp add: ascii_bytes_def)

lemma sample_reference_keys:
  assumes "r \<in> {sample_references, rev sample_references}"
  shows "sort (map fst r) = [[97, 95, 105, 100], [98, 95, 105, 100]]"
    and "dict_get r [97, 95, 105, 100] = Some (RefUUID 7)" "dict_get r [98, 95, 105, 100] = Some (RefInt 3)"
  using assms by (auto simp: sample_references_def)

lemma sample_key_suffix: "list_ex (ends_with (c # [95, 105, 100])) REFERENCE_SUFFIXES"
  by (simp add: REFERENCE_SUFFIXES_def ends_with_def lit_def)

lemma sample_material_ok:
  assumes "r \<in> {sample_references, rev sample_references}"
  shows "\<exists>k. outbox_deduplication_key sample_outbox_codec 5 [106] [109] None r = Inr k"
proof -
  note r = sample_reference_keys[OF assms]
  have "\<exists>p. validate_outbox_references r = Inr p"
    by (simp add: validate_outbox_references_def r validate_outbox_reference_def sample_key_suffix)
  moreover have "utf8_encode [106] = Inr [106]" "utf8_encode [109] = Inr [109]"
    by (simp_all add: utf8_encode_def surrogate_def utf8_char_def utf8_units_def)
  ultimately show ?thesis
    by (auto simp: outbox_deduplication_key_def deduplication_material_def outbox_fields_def reference_field_def r
        field_bytes_def to_bytes_big_def length_uuid_str int_str_def nat_str.simps)
qed

theorem outbox_deduplication_identifies_witness:
  "outbox_deduplication_key sample_outbox_codec 5 [106] [109] None sample_references =
   outbox_deduplication_key sample_outbox_codec 5 [106] [109] None (rev sample_references)"
proof -
  obtain k k' where
    k: "outbox_deduplication_key sample_outbox_codec 5 [106] [109] None sample_references = Inr k"
    "outbox_deduplication_key sample_outbox_codec 5 [106] [109] None (rev sample_references) = Inr k'"
    using sample_material_ok by blast
  have refs: "distinct (map fst sample_references)" "distinct (map fst (rev sample_references))"
    "dict_get sample_references = dict_get (rev sample_references)"
    by (auto simp: sample_references_def fun_eq_iff)
  have "sha256 sample_outbox_codec m = sha256 sample_outbox_codec m' \<Longrightarrow> m = m'" for m m'
    by (simp add: sample_outbox_codec_def)
  then have "k = k'"
    using outbox_deduplication_identifies[OF k _ _ _ refs(1,2)] refs(3) by simp
  with k show ?thesis by simp
qed

end
