(* ===== verification/Outbox_Worker.thy ===== *)
theory Outbox_Worker
  imports Outbox "HOL-Library.Product_Lexorder"
begin

text \<open>
  Claiming and completing outbox jobs (\<^verbatim>\<open>storage/outbox_worker.py\<close>): leases, heartbeats,
  acknowledgement, failure and the recovery of expired leases, on the outbox table. A statement
  that skips locked rows sees the rows that no concurrent transaction has locked; these are an
  argument. The lemmas show that every reachable table satisfies the table's constraints, that
  each job follows its life cycle with a bounded number of claims, that a lost lease is lost for
  good, and that claims are served in order.
\<close>

subsection \<open>Leases\<close>

definition SAFE_ERROR_SUMMARIES :: "(string \<times> string) list" where
  "SAFE_ERROR_SUMMARIES =
     [(''dependency_unavailable'', ''A required local dependency is unavailable.''),
      (''embedding_failed'', ''The local embedding operation failed.''),
      (''internal_error'', ''The worker could not complete the operation.''),
      (''invalid_job'', ''The queued operation is invalid.''),
      (''lease_expired'', ''The previous worker lease expired.''),
      (''model_unavailable'', ''The configured local embedding model is unavailable.'')]"

definition alphanumeric :: "char \<Rightarrow> bool" where
  "alphanumeric c \<longleftrightarrow>
     c \<in> set ''ABCDEFGHIJKLMNOPQRSTUVWXYZabcdefghijklmnopqrstuvwxyz0123456789''"

fun owner_pattern :: "string \<Rightarrow> bool" where
  "owner_pattern [] = False"
| "owner_pattern (c # s) \<longleftrightarrow>
     alphanumeric c \<and> length s \<le> 74 \<and> list_all (\<lambda>d. alphanumeric d \<or> d \<in> set ''_.:-'') s"

definition validate_owner :: "string \<Rightarrow> unit result" where
  "validate_owner worker_owner =
     (if \<not> owner_pattern worker_owner
      then Inl (ValueError ''worker owner must be a bounded opaque identifier'') else Inr ())"

definition validate_timing :: "int \<Rightarrow> int \<Rightarrow> unit result" where
  "validate_timing batch_size lease_seconds =
     (if \<not> (1 \<le> batch_size \<and> batch_size \<le> 100)
      then Inl (ValueError ''batch_size must be between 1 and 100'')
      else if \<not> (5 \<le> lease_seconds \<and> lease_seconds \<le> 3600)
      then Inl (ValueError ''lease_seconds must be between 5 and 3600'') else Inr ())"

record claimed_outbox_job =
  cj_job_id :: int
  cj_job_uuid :: uuid
  cj_tenant_id :: uuid
  cj_job_type :: pystr
  cj_aggregate_type :: pystr
  cj_aggregate_id :: "uuid option"
  cj_payload :: json_object
  cj_attempt_count :: int
  cj_max_attempts :: int
  cj_lease_token :: string

definition now_or :: "utc option \<Rightarrow> utc \<Rightarrow> utc" where
  "now_or now clock = (case now of Some t \<Rightarrow> t | None \<Rightarrow> clock)"

text \<open>Writing changed rows back by primary key.\<close>

definition write_rows :: "outbox_job list \<Rightarrow> outbox_table \<Rightarrow> outbox_table" where
  "write_rows changed table = table\<lparr> ob_rows :=
     map (\<lambda>row. case find (\<lambda>r. oj_job_id r = oj_job_id row) changed of Some r \<Rightarrow> r | None \<Rightarrow> row)
       (ob_rows table) \<rparr>"

subsection \<open>Claiming\<close>

definition claimable :: "uuid \<Rightarrow> pystr list \<Rightarrow> utc \<Rightarrow> outbox_job \<Rightarrow> bool" where
  "claimable tenant_id job_types claimed_at job \<longleftrightarrow>
     oj_tenant_id job = tenant_id \<and> oj_state job = OJ_PENDING \<and> oj_available_at job \<le> claimed_at \<and>
     oj_attempt_count job < oj_max_attempts job \<and> oj_job_type job \<in> set job_types"

definition claim_order :: "outbox_job \<Rightarrow> int \<times> int" where
  "claim_order job = (oj_available_at job, oj_job_id job)"

definition select_claims :: "uuid \<Rightarrow> pystr list \<Rightarrow> utc \<Rightarrow> int \<Rightarrow> int set \<Rightarrow> outbox_table \<Rightarrow> outbox_job list" where
  "select_claims tenant_id job_types claimed_at batch_size locked table =
     take (nat batch_size) (sort_key claim_order
       (filter (\<lambda>job. claimable tenant_id job_types claimed_at job \<and> oj_job_id job \<notin> locked) (ob_rows table)))"

definition lease_token :: "string \<Rightarrow> uuid \<Rightarrow> string" where
  "lease_token worker_owner u = worker_owner @ '':'' @ uuid_str u"

definition lease_row :: "string \<Rightarrow> utc \<Rightarrow> utc \<Rightarrow> outbox_job \<Rightarrow> outbox_job" where
  "lease_row token expires_at claimed_at row =
     row\<lparr> oj_state := OJ_LEASED, oj_lease_owner := Some token, oj_lease_expires_at := Some expires_at,
          oj_attempt_count := oj_attempt_count row + 1, oj_updated_at := claimed_at \<rparr>"

definition claimed_of :: "outbox_job \<Rightarrow> string \<Rightarrow> claimed_outbox_job" where
  "claimed_of row token =
     \<lparr> cj_job_id = oj_job_id row, cj_job_uuid = oj_job_uuid row, cj_tenant_id = oj_tenant_id row,
       cj_job_type = oj_job_type row, cj_aggregate_type = oj_aggregate_type row,
       cj_aggregate_id = oj_aggregate_id row, cj_payload = oj_payload row,
       cj_attempt_count = oj_attempt_count row, cj_max_attempts = oj_max_attempts row,
       cj_lease_token = token \<rparr>"

definition claim_outbox_jobs ::
    "bool \<Rightarrow> utc \<Rightarrow> (nat \<Rightarrow> uuid) \<Rightarrow> int set \<Rightarrow> uuid \<Rightarrow> string \<Rightarrow> pystr list \<Rightarrow> int \<Rightarrow> int \<Rightarrow> utc option \<Rightarrow>
     outbox_table \<Rightarrow> (claimed_outbox_job list \<times> outbox_table) result" where
  "claim_outbox_jobs in_transaction clock fresh locked tenant_id worker_owner job_types batch_size
       lease_seconds now table =
     (if \<not> in_transaction then Inl (OutboxWorkerError ''active_transaction_required'')
      else rbind (validate_owner worker_owner) (\<lambda>_.
           rbind (validate_timing batch_size lease_seconds) (\<lambda>_.
           if job_types = [] \<or> length (remdups job_types) \<noteq> length job_types
           then Inl (ValueError ''job_types must be a non-empty unique tuple'')
           else let claimed_at = now_or now clock;
                    rows = select_claims tenant_id job_types claimed_at batch_size locked table
                in rbind (utc_plus_seconds claimed_at lease_seconds) (\<lambda>expires_at.
                   let leased = map (\<lambda>(i, row). let token = lease_token worker_owner (fresh i)
                                     in (lease_row token expires_at claimed_at row, token)) (enumerate 0 rows)
                   in Inr (map (\<lambda>(row, token). claimed_of row token) leased,
                           write_rows (map fst leased) table)))))"

subsection \<open>Heartbeat, acknowledgement and failure\<close>

definition holds_lease :: "uuid \<Rightarrow> int \<Rightarrow> string \<Rightarrow> utc \<Rightarrow> outbox_job \<Rightarrow> bool" where
  "holds_lease tenant_id job_id token t job \<longleftrightarrow>
     oj_tenant_id job = tenant_id \<and> oj_job_id job = job_id \<and> oj_state job = OJ_LEASED \<and>
     oj_lease_owner job = Some token \<and> (case oj_lease_expires_at job of None \<Rightarrow> False | Some e \<Rightarrow> t < e)"

text \<open>An update statement with the lease as its condition, and the count of rows it changed.\<close>

definition update_leased ::
    "uuid \<Rightarrow> int \<Rightarrow> string \<Rightarrow> utc \<Rightarrow> (outbox_job \<Rightarrow> outbox_job) \<Rightarrow> outbox_table \<Rightarrow> nat \<times> outbox_table" where
  "update_leased tenant_id job_id token t f table =
     (length (filter (holds_lease tenant_id job_id token t) (ob_rows table)),
      table\<lparr> ob_rows := map (\<lambda>job. if holds_lease tenant_id job_id token t job then f job else job) (ob_rows table) \<rparr>)"

definition heartbeat_outbox_job ::
    "utc \<Rightarrow> uuid \<Rightarrow> int \<Rightarrow> string \<Rightarrow> int \<Rightarrow> utc option \<Rightarrow> outbox_table \<Rightarrow> outbox_table result" where
  "heartbeat_outbox_job clock tenant_id job_id token lease_seconds now table =
     rbind (validate_timing 1 lease_seconds) (\<lambda>_.
     let heartbeat_at = now_or now clock in
     rbind (utc_plus_seconds heartbeat_at lease_seconds) (\<lambda>expires_at.
     let (rowcount, table') = update_leased tenant_id job_id token heartbeat_at
           (\<lambda>job. job\<lparr> oj_lease_expires_at := Some expires_at, oj_updated_at := heartbeat_at \<rparr>) table
     in if rowcount \<noteq> 1 then Inl (LeaseLostError ''outbox_lease_lost'') else Inr table'))"

definition acknowledge_outbox_job ::
    "utc \<Rightarrow> uuid \<Rightarrow> int \<Rightarrow> string \<Rightarrow> utc option \<Rightarrow> outbox_table \<Rightarrow> outbox_table result" where
  "acknowledge_outbox_job clock tenant_id job_id token now table =
     (let completed_at = now_or now clock;
          (rowcount, table') = update_leased tenant_id job_id token completed_at
            (\<lambda>job. job\<lparr> oj_state := OJ_SUCCEEDED, oj_lease_owner := None, oj_lease_expires_at := None,
               oj_last_error_code := None, oj_last_error_summary := None,
               oj_completed_at := Some completed_at, oj_updated_at := completed_at \<rparr>) table
      in if rowcount \<noteq> 1 then Inl (LeaseLostError ''outbox_lease_lost'') else Inr table')"

definition release_row :: "bool \<Rightarrow> string \<Rightarrow> string \<Rightarrow> utc \<Rightarrow> utc \<Rightarrow> outbox_job \<Rightarrow> outbox_job" where
  "release_row terminal error_code summary released_at available_at row =
     row\<lparr> oj_state := (if terminal then OJ_DEAD else OJ_PENDING), oj_lease_owner := None,
          oj_lease_expires_at := None, oj_last_error_code := Some error_code,
          oj_last_error_summary := Some summary,
          oj_completed_at := (if terminal then Some released_at else None),
          oj_available_at := available_at, oj_updated_at := released_at \<rparr>"

definition fail_outbox_job ::
    "utc \<Rightarrow> uuid \<Rightarrow> int \<Rightarrow> string \<Rightarrow> string \<Rightarrow> bool \<Rightarrow> int \<Rightarrow> utc option \<Rightarrow> outbox_table \<Rightarrow>
     (outbox_state \<times> outbox_table) result" where
  "fail_outbox_job clock tenant_id job_id token error_code retryable retry_delay_seconds now table =
     (case map_of SAFE_ERROR_SUMMARIES error_code of
        None \<Rightarrow> Inl (ValueError ''error_code is not allowlisted'')
      | Some summary \<Rightarrow>
          if \<not> (0 \<le> retry_delay_seconds \<and> retry_delay_seconds \<le> 86400)
          then Inl (ValueError ''retry_delay_seconds must be between zero and one day'')
          else let failed_at = now_or now clock in
               case find (holds_lease tenant_id job_id token failed_at) (ob_rows table) of
                 None \<Rightarrow> Inl (LeaseLostError ''outbox_lease_lost'')
               | Some row \<Rightarrow>
                   let terminal = (\<not> retryable \<or> oj_max_attempts row \<le> oj_attempt_count row) in
                   rbind (utc_plus_seconds failed_at retry_delay_seconds) (\<lambda>available_at.
                     let row' = release_row terminal error_code summary failed_at available_at row
                     in Inr (oj_state row', write_rows [row'] table)))"

subsection \<open>Recovery of expired leases\<close>

definition expired :: "uuid \<Rightarrow> pystr list \<Rightarrow> utc \<Rightarrow> outbox_job \<Rightarrow> bool" where
  "expired tenant_id job_types t job \<longleftrightarrow>
     oj_tenant_id job = tenant_id \<and> oj_state job = OJ_LEASED \<and> oj_job_type job \<in> set job_types \<and>
     (case oj_lease_expires_at job of None \<Rightarrow> False | Some e \<Rightarrow> e \<le> t)"

definition recover_expired_outbox_leases ::
    "utc \<Rightarrow> int set \<Rightarrow> uuid \<Rightarrow> pystr list \<Rightarrow> int \<Rightarrow> int \<Rightarrow> utc option \<Rightarrow> outbox_table \<Rightarrow>
     ((nat \<times> nat) \<times> outbox_table) result" where
  "recover_expired_outbox_leases clock locked tenant_id job_types batch_size retry_delay_seconds now table =
     (if \<not> (1 \<le> batch_size \<and> batch_size \<le> 1000)
      then Inl (ValueError ''batch_size must be between 1 and 1000'')
      else if \<not> (0 \<le> retry_delay_seconds \<and> retry_delay_seconds \<le> 86400)
      then Inl (ValueError ''retry_delay_seconds must be between zero and one day'')
      else if job_types = [] then Inl (ValueError ''job_types must not be empty'')
      else let recovered_at = now_or now clock;
               rows = take (nat batch_size) (sort_key (\<lambda>job. (the (oj_lease_expires_at job), oj_job_id job))
                 (filter (\<lambda>job. expired tenant_id job_types recovered_at job \<and> oj_job_id job \<notin> locked) (ob_rows table)));
               exhausted = (\<lambda>row. oj_max_attempts row \<le> oj_attempt_count row)
           in if rows = [] then Inr ((0, 0), table)
              else rbind (utc_plus_seconds recovered_at retry_delay_seconds) (\<lambda>available_at.
                Inr ((length (filter (\<lambda>row. \<not> exhausted row) rows), length (filter exhausted rows)),
                  write_rows (map (\<lambda>row. release_row (exhausted row) ''lease_expired''
                    (the (map_of SAFE_ERROR_SUMMARIES ''lease_expired'')) recovered_at available_at row) rows) table)))"

subsection \<open>The life cycle of a job\<close>

text \<open>
  What an operation may do to one job: the identity stays, and the state moves along the edges of
  the life cycle. The first argument holds the lease tokens the operation hands out.
\<close>

definition same_job :: "outbox_job \<Rightarrow> outbox_job \<Rightarrow> bool" where
  "same_job r r' \<longleftrightarrow>
     oj_job_id r' = oj_job_id r \<and> oj_job_uuid r' = oj_job_uuid r \<and> oj_tenant_id r' = oj_tenant_id r \<and>
     oj_job_type r' = oj_job_type r \<and> oj_deduplication_key r' = oj_deduplication_key r \<and>
     oj_aggregate_type r' = oj_aggregate_type r \<and> oj_aggregate_id r' = oj_aggregate_id r \<and>
     oj_payload r' = oj_payload r \<and> oj_max_attempts r' = oj_max_attempts r"

inductive job_step :: "string set \<Rightarrow> outbox_job \<Rightarrow> outbox_job \<Rightarrow> bool" for N where
  claimed: "same_job r r' \<Longrightarrow> oj_state r = OJ_PENDING \<Longrightarrow> oj_attempt_count r < oj_max_attempts r \<Longrightarrow>
     oj_state r' = OJ_LEASED \<Longrightarrow> oj_attempt_count r' = oj_attempt_count r + 1 \<Longrightarrow> oj_lease_owner r' = Some token \<Longrightarrow>
     token \<in> N \<Longrightarrow> oj_lease_expires_at r' \<noteq> None \<Longrightarrow> oj_completed_at r' = oj_completed_at r \<Longrightarrow> job_step N r r'"
| extended: "same_job r r' \<Longrightarrow> oj_state r = OJ_LEASED \<Longrightarrow> oj_state r' = OJ_LEASED \<Longrightarrow>
     oj_attempt_count r' = oj_attempt_count r \<Longrightarrow> oj_lease_owner r' = oj_lease_owner r \<Longrightarrow>
     oj_lease_expires_at r' \<noteq> None \<Longrightarrow> oj_completed_at r' = oj_completed_at r \<Longrightarrow> job_step N r r'"
| completed: "same_job r r' \<Longrightarrow> oj_state r = OJ_LEASED \<Longrightarrow> oj_state r' \<in> {OJ_SUCCEEDED, OJ_DEAD} \<Longrightarrow>
     oj_attempt_count r' = oj_attempt_count r \<Longrightarrow> oj_lease_owner r' = None \<Longrightarrow> oj_lease_expires_at r' = None \<Longrightarrow>
     oj_completed_at r' \<noteq> None \<Longrightarrow> job_step N r r'"
| retried: "same_job r r' \<Longrightarrow> oj_state r = OJ_LEASED \<Longrightarrow> oj_state r' = OJ_PENDING \<Longrightarrow>
     oj_attempt_count r' = oj_attempt_count r \<Longrightarrow> oj_attempt_count r < oj_max_attempts r \<Longrightarrow>
     oj_lease_owner r' = None \<Longrightarrow> oj_lease_expires_at r' = None \<Longrightarrow> oj_completed_at r' = None \<Longrightarrow> job_step N r r'"

inductive_cases job_stepE: "job_step N r r'"

definition row_change :: "string set \<Rightarrow> outbox_job \<Rightarrow> outbox_job \<Rightarrow> bool" where
  "row_change N r r' \<longleftrightarrow> r' = r \<or> job_step N r r'"

lemma job_step_same: "job_step N r r' \<Longrightarrow> same_job r r'"
  by (auto elim: job_stepE)

lemma release_step:
  "oj_state r = OJ_LEASED \<Longrightarrow> oj_max_attempts r \<le> oj_attempt_count r \<longrightarrow> terminal \<Longrightarrow>
   job_step N r (release_row terminal code summary t u r)"
  by (cases terminal) (auto simp: release_row_def same_job_def intro: job_step.completed job_step.retried)

subsection \<open>Effects of the operations\<close>

definition job_ids :: "outbox_table \<Rightarrow> int list" where
  "job_ids table = map oj_job_id (ob_rows table)"

text \<open>Rows are written back in place: a changed row replaces the row with its identifier.\<close>

lemma write_rows_find:
  "ob_rows (write_rows changed table) =
     map (\<lambda>r. case find (\<lambda>c. oj_job_id c = oj_job_id r) changed of Some c \<Rightarrow> c | None \<Rightarrow> r) (ob_rows table)"
  "ob_next_job_id (write_rows changed table) = ob_next_job_id table"
  by (simp_all add: write_rows_def)

lemma write_rows_change:
  assumes "distinct (job_ids table)"
    and "\<And>c. c \<in> set changed \<Longrightarrow> \<exists>r \<in> set (ob_rows table). job_step N r c"
  shows "list_all2 (row_change N) (ob_rows table) (ob_rows (write_rows changed table))"
proof -
  have "row_change N r (case find (\<lambda>c. oj_job_id c = oj_job_id r) changed of Some c \<Rightarrow> c | None \<Rightarrow> r)"
    if r: "r \<in> set (ob_rows table)" for r
  proof (cases "find (\<lambda>c. oj_job_id c = oj_job_id r) changed")
    case (Some c)
    then have c: "c \<in> set changed" "oj_job_id c = oj_job_id r" by (auto simp: find_Some_iff)
    obtain r' where r': "r' \<in> set (ob_rows table)" "job_step N r' c" using assms(2) c(1) by blast
    then have "oj_job_id r' = oj_job_id r" using c(2) by (auto dest!: job_step_same simp: same_job_def)
    then have "r' = r" using assms(1) r r'(1) by (auto simp: job_ids_def distinct_map dest: inj_onD)
    with r' Some show ?thesis by (simp add: row_change_def)
  qed (simp add: row_change_def)
  then show ?thesis by (simp add: write_rows_find list_all2_conv_all_nth)
qed

lemma select_claims_member:
  "r \<in> set (select_claims tenant types at' n locked table) \<Longrightarrow>
   r \<in> set (ob_rows table) \<and> claimable tenant types at' r \<and> oj_job_id r \<notin> locked"
  unfolding select_claims_def by (auto dest: in_set_takeD)

lemma claim_outbox_jobs_ok:
  assumes "claim_outbox_jobs tx clock fresh locked tenant owner types n secs now table = Inr (claimed, table')"
  obtains expires leased where
    "leased = map (\<lambda>(i, row). (lease_row (lease_token owner (fresh i)) expires (now_or now clock) row,
         lease_token owner (fresh i)))
       (enumerate 0 (select_claims tenant types (now_or now clock) n locked table))"
    "claimed = map (\<lambda>(row, token). claimed_of row token) leased"
    "table' = write_rows (map fst leased) table" "1 \<le> n" "n \<le> 100"
  using assms that unfolding claim_outbox_jobs_def validate_timing_def Let_def
  by (auto simp: ok_simps split: if_splits)

lemma lease_row_step:
  "claimable tenant types t r \<Longrightarrow> token \<in> N \<Longrightarrow> job_step N r (lease_row token expires t' r)"
  by (rule job_step.claimed[of _ _ token]) (auto simp: lease_row_def same_job_def claimable_def)

lemma claim_change:
  assumes "claim_outbox_jobs tx clock fresh locked tenant owner types n secs now table = Inr (claimed, table')"
    and "distinct (job_ids table)"
  shows "list_all2 (row_change (lease_token owner ` fresh ` {..<length claimed})) (ob_rows table) (ob_rows table') \<and>
    ob_next_job_id table' = ob_next_job_id table"
proof -
  let ?sel = "select_claims tenant types (now_or now clock) n locked table"
  obtain expires leased where
    l: "leased = map (\<lambda>(i, row). (lease_row (lease_token owner (fresh i)) expires (now_or now clock) row,
         lease_token owner (fresh i))) (enumerate 0 ?sel)"
    and c: "claimed = map (\<lambda>(row, token). claimed_of row token) leased" "table' = write_rows (map fst leased) table"
    using assms(1) by (rule claim_outbox_jobs_ok)
  have "length claimed = length ?sel" by (simp add: c(1) l)
  then have "\<exists>r \<in> set (ob_rows table). job_step (lease_token owner ` fresh ` {..<length claimed}) r x"
    if "x \<in> set (map fst leased)" for x
  proof -
    from that obtain i where i: "i < length ?sel"
      "x = lease_row (lease_token owner (fresh i)) expires (now_or now clock) (?sel ! i)"
      unfolding l by (auto simp: in_set_enumerate_eq)
    have "?sel ! i \<in> set ?sel" using i(1) by simp
    from select_claims_member[OF this] i \<open>length claimed = _\<close> show ?thesis
      by (intro bexI[of _ "?sel ! i"]) (auto intro: lease_row_step)
  qed
  then have "list_all2 (row_change (lease_token owner ` fresh ` {..<length claimed})) (ob_rows table) (ob_rows table')"
    unfolding c(2) by (rule write_rows_change[OF assms(2)])
  then show ?thesis by (simp add: c(2) write_rows_find)
qed

lemma update_leased_change:
  assumes "\<And>r. oj_state r = OJ_LEASED \<Longrightarrow> oj_lease_owner r = Some token \<Longrightarrow> job_step N r (f r)"
  shows "list_all2 (row_change N) (ob_rows table) (ob_rows (snd (update_leased tenant i token t f table)))"
  using assms by (auto simp: update_leased_def list_all2_conv_all_nth row_change_def holds_lease_def)

lemma update_leased_next [simp]:
  "ob_next_job_id (snd (update_leased tenant i token t f table)) = ob_next_job_id table"
  by (simp add: update_leased_def)

lemma heartbeat_change:
  assumes "heartbeat_outbox_job clock tenant i token secs now table = Inr table'"
  shows "list_all2 (row_change {}) (ob_rows table) (ob_rows table') \<and> ob_next_job_id table' = ob_next_job_id table"
proof -
  from assms obtain expires where "table' = snd (update_leased tenant i token (now_or now clock)
      (\<lambda>job. job\<lparr> oj_lease_expires_at := Some expires, oj_updated_at := now_or now clock \<rparr>) table)"
    by (auto simp: heartbeat_outbox_job_def ok_simps Let_def case_prod_beta split: if_splits)
  moreover have "job_step {} r (r\<lparr> oj_lease_expires_at := Some e, oj_updated_at := u \<rparr>)"
    if "oj_state r = OJ_LEASED" for r e u
    using that by (intro job_step.extended) (simp_all add: same_job_def)
  ultimately show ?thesis by (simp add: update_leased_change)
qed

lemma acknowledge_change:
  assumes "acknowledge_outbox_job clock tenant i token now table = Inr table'"
  shows "list_all2 (row_change {}) (ob_rows table) (ob_rows table') \<and> ob_next_job_id table' = ob_next_job_id table"
proof -
  from assms have "table' = snd (update_leased tenant i token (now_or now clock)
      (\<lambda>job. job\<lparr> oj_state := OJ_SUCCEEDED, oj_lease_owner := None, oj_lease_expires_at := None,
         oj_last_error_code := None, oj_last_error_summary := None,
         oj_completed_at := Some (now_or now clock), oj_updated_at := now_or now clock \<rparr>) table)"
    by (auto simp: acknowledge_outbox_job_def ok_simps Let_def case_prod_beta split: if_splits)
  moreover have "job_step {} r (r\<lparr> oj_state := OJ_SUCCEEDED, oj_lease_owner := None, oj_lease_expires_at := None,
      oj_last_error_code := None, oj_last_error_summary := None, oj_completed_at := Some u, oj_updated_at := v \<rparr>)"
    if "oj_state r = OJ_LEASED" for r u v
    using that by (intro job_step.completed) (simp_all add: same_job_def)
  ultimately show ?thesis by (simp add: update_leased_change)
qed

lemma fail_ok:
  assumes "fail_outbox_job clock tenant i token code retryable delay now table = Inr (st, table')"
  obtains row summary u where "find (holds_lease tenant i token (now_or now clock)) (ob_rows table) = Some row"
    "table' = write_rows [release_row (\<not> retryable \<or> oj_max_attempts row \<le> oj_attempt_count row) code summary
       (now_or now clock) u row] table"
  using assms that by (auto simp: fail_outbox_job_def ok_simps Let_def split: if_splits option.splits)

lemma fail_change:
  assumes "fail_outbox_job clock tenant i token code retryable delay now table = Inr (st, table')"
    and "distinct (job_ids table)"
  shows "list_all2 (row_change {}) (ob_rows table) (ob_rows table') \<and> ob_next_job_id table' = ob_next_job_id table"
proof -
  obtain row summary u where r: "find (holds_lease tenant i token (now_or now clock)) (ob_rows table) = Some row"
    "table' = write_rows [release_row (\<not> retryable \<or> oj_max_attempts row \<le> oj_attempt_count row) code summary
       (now_or now clock) u row] table"
    using assms(1) by (rule fail_ok)
  then have "row \<in> set (ob_rows table)" "oj_state row = OJ_LEASED"
    by (auto simp: find_Some_iff holds_lease_def)
  then have "list_all2 (row_change {}) (ob_rows table) (ob_rows table')"
    unfolding r(2) by (intro write_rows_change[OF assms(2)]) (auto intro!: bexI[of _ row] release_step)
  then show ?thesis by (simp add: r(2) write_rows_find)
qed

lemma recover_change:
  assumes "recover_expired_outbox_leases clock locked tenant types n delay now table = Inr (counts, table')"
    and "distinct (job_ids table)"
  shows "list_all2 (row_change {}) (ob_rows table) (ob_rows table') \<and> ob_next_job_id table' = ob_next_job_id table"
proof -
  define rows where "rows = take (nat n) (sort_key (\<lambda>job. (the (oj_lease_expires_at job), oj_job_id job))
    (filter (\<lambda>job. expired tenant types (now_or now clock) job \<and> oj_job_id job \<notin> locked) (ob_rows table)))"
  have rows: "r \<in> set (ob_rows table) \<and> oj_state r = OJ_LEASED" if "r \<in> set rows" for r
    using that unfolding rows_def by (auto dest!: in_set_takeD simp: expired_def)
  have "table' = table \<or> (\<exists>u summary. table' = write_rows (map (\<lambda>row. release_row
      (oj_max_attempts row \<le> oj_attempt_count row) ''lease_expired'' summary (now_or now clock) u row) rows) table)"
    using assms(1) unfolding recover_expired_outbox_leases_def rows_def[symmetric]
    by (auto simp: Let_def ok_simps rows_def[symmetric] split: if_splits)
  then show ?thesis
  proof
    assume "table' = table"
    then show ?thesis by (simp add: list_all2_conv_all_nth row_change_def)
  next
    assume "\<exists>u summary. table' = write_rows (map (\<lambda>row. release_row
      (oj_max_attempts row \<le> oj_attempt_count row) ''lease_expired'' summary (now_or now clock) u row) rows) table"
    then obtain u summary where t: "table' = write_rows (map (\<lambda>row. release_row
      (oj_max_attempts row \<le> oj_attempt_count row) ''lease_expired'' summary (now_or now clock) u row) rows) table"
      by blast
    have "list_all2 (row_change {}) (ob_rows table) (ob_rows table')"
      unfolding t by (intro write_rows_change[OF assms(2)]) (auto dest!: rows intro!: bexI release_step)
    then show ?thesis by (simp add: t write_rows_find)
  qed
qed

lemma enqueue_ok:
  assumes "enqueue_outbox_job L now fresh tenant type agg agg_id refs priority limit at' uu table = Inr (row, table')"
  shows "ob_rows table' = ob_rows table @ [row] \<and> ob_next_job_id table' = ob_next_job_id table + 1 \<and>
    oj_job_id row = ob_next_job_id table \<and> outbox_row_check row \<and>
    \<not> list_ex (outbox_rows_clash row) (ob_rows table) \<and>
    oj_state row = OJ_PENDING \<and> oj_attempt_count row = 0 \<and> oj_lease_owner row = None \<and> oj_completed_at row = None"
  using assms by (auto simp: enqueue_outbox_job_def insert_outbox_row_def Let_def ok_simps split: if_splits)

subsection \<open>The queue as a system\<close>

text \<open>
  Every operation of the outbox, interleaved in any order and at any times. The identifiers from
  which lease tokens were built are recorded; a claim draws identifiers that were not drawn
  before.
\<close>

type_synonym outbox_system = "outbox_table \<times> uuid set"

inductive outbox_step :: "'z codec_scheme \<Rightarrow> outbox_system \<Rightarrow> outbox_system \<Rightarrow> bool" for L where
  enqueue: "enqueue_outbox_job L now fresh tenant type agg agg_id refs priority limit at' uu table = Inr (row, table') \<Longrightarrow>
     outbox_step L (table, used) (table', used)"
| claim: "claim_outbox_jobs tx clock draw locked tenant owner types n secs now table = Inr (claimed, table') \<Longrightarrow>
     inj_on draw {..<length claimed} \<Longrightarrow> draw ` {..<length claimed} \<inter> used = {} \<Longrightarrow> outbox_step L (table, used) (table', used \<union> draw ` {..<length claimed})"
| heartbeat: "heartbeat_outbox_job clock tenant i token secs now table = Inr table' \<Longrightarrow>
     outbox_step L (table, used) (table', used)"
| acknowledge: "acknowledge_outbox_job clock tenant i token now table = Inr table' \<Longrightarrow>
     outbox_step L (table, used) (table', used)"
| fail: "fail_outbox_job clock tenant i token code retryable delay now table = Inr (st, table') \<Longrightarrow>
     outbox_step L (table, used) (table', used)"
| recover: "recover_expired_outbox_leases clock locked tenant types n delay now table = Inr (counts, table') \<Longrightarrow>
     outbox_step L (table, used) (table', used)"

inductive outbox_run :: "'z codec_scheme \<Rightarrow> outbox_system \<Rightarrow> outbox_system \<Rightarrow> bool" for L where
  start: "outbox_run L s s"
| step: "outbox_run L s t \<Longrightarrow> outbox_step L t u \<Longrightarrow> outbox_run L s u"

definition empty_outbox :: outbox_system where
  "empty_outbox = (\<lparr> ob_next_job_id = 1, ob_rows = [] \<rparr>, {})"

definition job_ok :: "outbox_job \<Rightarrow> bool" where
  "job_ok r \<longleftrightarrow> outbox_row_check r \<and> oj_state r \<noteq> OJ_FAILED \<and>
     (oj_state r = OJ_PENDING \<longrightarrow> oj_attempt_count r < oj_max_attempts r) \<and>
     (oj_completed_at r \<noteq> None \<longleftrightarrow> oj_state r \<in> {OJ_SUCCEEDED, OJ_DEAD})"

definition tokens_from :: "uuid set \<Rightarrow> string set" where
  "tokens_from us = {lease_token owner u | owner u. u \<in> us}"

lemma tokens_from_mono: "us \<subseteq> vs \<Longrightarrow> tokens_from us \<subseteq> tokens_from vs"
  by (auto simp: tokens_from_def)

definition token_drawn :: "uuid set \<Rightarrow> outbox_job \<Rightarrow> bool" where
  "token_drawn used r \<longleftrightarrow> (\<forall>token. oj_lease_owner r = Some token \<longrightarrow> token \<in> tokens_from used)"

definition outbox_inv :: "outbox_system \<Rightarrow> bool" where
  "outbox_inv s \<longleftrightarrow>
     list_all job_ok (ob_rows (fst s)) \<and> distinct (job_ids (fst s)) \<and>
     list_all (\<lambda>i. i < ob_next_job_id (fst s)) (job_ids (fst s)) \<and>
     sorted_wrt (\<lambda>a b. \<not> outbox_rows_clash a b) (ob_rows (fst s)) \<and>
     list_all (token_drawn (snd s)) (ob_rows (fst s))"

lemma job_step_ok: "job_step N r r' \<Longrightarrow> job_ok r \<Longrightarrow> job_ok r'"
  by (erule job_stepE) (auto simp: job_ok_def outbox_row_check_def same_job_def)

lemma row_change_ok: "row_change N r r' \<Longrightarrow> job_ok r \<Longrightarrow> job_ok r'"
  by (auto simp: row_change_def job_step_ok)

lemma row_change_same: "row_change N r r' \<Longrightarrow> same_job r r'"
  by (cases "r' = r") (simp add: same_job_def, simp add: row_change_def job_step_same)

lemma list_all2_origin: "list_all2 P xs ys \<Longrightarrow> y \<in> set ys \<Longrightarrow> \<exists>x \<in> set xs. P x y"
  by (induction rule: list_all2_induct) auto

lemma changed_rows:
  assumes "list_all2 (row_change N) rows rows'"
  shows "map oj_job_id rows' = map oj_job_id rows"
    and "list_all job_ok rows \<Longrightarrow> list_all job_ok rows'"
    and "sorted_wrt (\<lambda>a b. \<not> outbox_rows_clash a b) rows \<Longrightarrow> sorted_wrt (\<lambda>a b. \<not> outbox_rows_clash a b) rows'"
    and "N \<subseteq> tokens_from used' \<Longrightarrow> used \<subseteq> used' \<Longrightarrow>
      list_all (token_drawn used) rows \<Longrightarrow> list_all (token_drawn used') rows'"
  using assms
proof (induction rule: list_all2_induct)
  case (Cons r rs r' rs')
  note change = Cons.hyps(1) and all = Cons.hyps(2)
  {
    case 1
    show ?case using Cons row_change_same[OF change] by (simp add: same_job_def)
  next
    case 2
    then show ?case using Cons row_change_ok[OF change] by simp
  next
    case 3
    have "\<not> outbox_rows_clash r' x'" if "x' \<in> set rs'" for x'
    proof -
      from that obtain x where "x \<in> set rs" "row_change N x x'"
        using list_all2_origin[OF all] by blast
      with 3 row_change_same[OF change] row_change_same[of N x x'] show ?thesis
        by (auto simp: outbox_rows_clash_def same_job_def)
    qed
    with 3 Cons show ?case by simp
  next
    case 4
    have "token_drawn used' r'" using change 4 tokens_from_mono[OF 4(2)]
      by (auto simp: row_change_def token_drawn_def elim!: job_stepE)
    with 4 Cons show ?case by simp
  }
qed simp_all

lemma outbox_inv_change:
  assumes "outbox_inv (table, used)" "list_all2 (row_change N) (ob_rows table) (ob_rows table')"
    and "ob_next_job_id table' = ob_next_job_id table" "used \<subseteq> used'"
    and "N \<subseteq> tokens_from used'"
  shows "outbox_inv (table', used')"
  using assms changed_rows[OF assms(2)] by (simp add: outbox_inv_def job_ids_def)

text \<open>One step changes rows along the life cycle or appends one new job.\<close>

definition new_job :: "outbox_table \<Rightarrow> outbox_job \<Rightarrow> bool" where
  "new_job table row \<longleftrightarrow>
     oj_job_id row = ob_next_job_id table \<and> outbox_row_check row \<and>
     \<not> list_ex (outbox_rows_clash row) (ob_rows table) \<and>
     oj_state row = OJ_PENDING \<and> oj_attempt_count row = 0 \<and> oj_lease_owner row = None \<and> oj_completed_at row = None"

definition outbox_effect :: "string set \<Rightarrow> outbox_table \<Rightarrow> outbox_table \<Rightarrow> bool" where
  "outbox_effect N table table' \<longleftrightarrow>
     list_all2 (row_change N) (ob_rows table) (ob_rows table') \<and> ob_next_job_id table' = ob_next_job_id table \<or>
     (\<exists>row. new_job table row \<and> ob_rows table' = ob_rows table @ [row] \<and>
        ob_next_job_id table' = ob_next_job_id table + 1)"

lemma outbox_step_effect:
  assumes "outbox_step L (table, used) (table', used')" "distinct (job_ids table)"
  shows "\<exists>N. outbox_effect N table table' \<and> used \<subseteq> used' \<and> N \<subseteq> tokens_from (used' - used)"
  using assms(1)
proof cases
  case (enqueue now fresh tenant type agg agg_id refs priority limit at' uu row)
  from enqueue_ok[OF enqueue(2)] enqueue(1) show ?thesis
    by (intro exI[of _ "{}"]) (auto simp: outbox_effect_def new_job_def)
next
  case (claim tx clock draw locked tenant owner types n secs now claimed)
  from claim_change[OF claim(2) assms(2)] claim(1,4) show ?thesis
    by (intro exI[of _ "lease_token owner ` draw ` {..<length claimed}"]) (auto simp: outbox_effect_def tokens_from_def)
next
  case (heartbeat clock tenant i token secs now)
  from heartbeat_change[OF heartbeat(2)] heartbeat(1) show ?thesis
    by (intro exI[of _ "{}"]) (auto simp: outbox_effect_def)
next
  case (acknowledge clock tenant i token now)
  from acknowledge_change[OF acknowledge(2)] acknowledge(1) show ?thesis
    by (intro exI[of _ "{}"]) (auto simp: outbox_effect_def)
next
  case (fail clock tenant i token code retryable delay now st)
  from fail_change[OF fail(2) assms(2)] fail(1) show ?thesis
    by (intro exI[of _ "{}"]) (auto simp: outbox_effect_def)
next
  case (recover clock locked tenant types n delay now counts)
  from recover_change[OF recover(2) assms(2)] recover(1) show ?thesis
    by (intro exI[of _ "{}"]) (auto simp: outbox_effect_def)
qed

lemma outbox_inv_append:
  assumes "outbox_inv (table, used)" "new_job table row" "used \<subseteq> used'"
    and "ob_rows table' = ob_rows table @ [row]" "ob_next_job_id table' = ob_next_job_id table + 1"
  shows "outbox_inv (table', used')"
proof -
  have "job_ok row" using assms(2) by (auto simp: new_job_def job_ok_def outbox_row_check_def)
  moreover have "\<not> outbox_rows_clash x row" if "x \<in> set (ob_rows table)" for x
    using that assms(2) by (auto simp: new_job_def list_ex_iff outbox_rows_clash_def)
  moreover have "list_all (token_drawn used') (ob_rows table)"
    using assms(1) tokens_from_mono[OF assms(3)] by (auto simp: outbox_inv_def list_all_iff token_drawn_def)
  ultimately show ?thesis
    using assms by (auto simp: outbox_inv_def new_job_def job_ids_def list_all_iff sorted_wrt_append token_drawn_def)
qed

lemma outbox_step_inv:
  assumes "outbox_step L s s'" "outbox_inv s"
  shows "outbox_inv s'"
proof -
  obtain table used table' used' where s: "s = (table, used)" "s' = (table', used')" by (cases s, cases s')
  note inv = assms(2)[unfolded s(1)]
  obtain N where N: "outbox_effect N table table'" "used \<subseteq> used'" "N \<subseteq> tokens_from (used' - used)"
    using outbox_step_effect[OF assms(1)[unfolded s]] inv by (auto simp: outbox_inv_def)
  have "N \<subseteq> tokens_from used'" using N(3) tokens_from_mono[of "used' - used" used'] by blast
  then show ?thesis
    unfolding s using N(1,2) outbox_inv_change[OF inv] outbox_inv_append[OF inv] unfolding outbox_effect_def by blast
qed

lemma outbox_run_inv: "outbox_run L s s' \<Longrightarrow> outbox_inv s \<Longrightarrow> outbox_inv s'"
  by (induction rule: outbox_run.induct) (auto intro: outbox_step_inv)

lemma empty_outbox_inv: "outbox_inv empty_outbox"
  by (simp add: outbox_inv_def empty_outbox_def job_ids_def)

subsection \<open>Properties of the queue\<close>

text \<open>
  C25. In every table that the operations can reach from the empty one, in any interleaving, all
  constraints of the table hold, so no update of a job is rejected by the database; the state
  failed never occurs; a pending job always has an attempt left, so no job is stuck.
\<close>

theorem outbox_constraints_hold:
  assumes "outbox_run L empty_outbox s"
  shows "list_all (\<lambda>r. outbox_row_check r \<and> oj_state r \<noteq> OJ_FAILED \<and>
      (oj_state r = OJ_PENDING \<longrightarrow> oj_attempt_count r < oj_max_attempts r)) (ob_rows (fst s)) \<and>
    distinct (job_ids (fst s)) \<and> sorted_wrt (\<lambda>a b. \<not> outbox_rows_clash a b) (ob_rows (fst s))"
  using outbox_run_inv[OF assms empty_outbox_inv] by (auto simp: outbox_inv_def job_ok_def list_all_iff)

lemma effect_keeps_job:
  assumes "outbox_effect N table table'" "r \<in> set (ob_rows table)"
  shows "\<exists>r' \<in> set (ob_rows table'). row_change N r r'"
proof -
  have "list_all2 P xs ys \<Longrightarrow> x \<in> set xs \<Longrightarrow> \<exists>y \<in> set ys. P x y" for P :: "outbox_job \<Rightarrow> outbox_job \<Rightarrow> bool" and xs ys x
    by (induction rule: list_all2_induct) auto
  with assms show ?thesis by (fastforce simp: outbox_effect_def row_change_def)
qed

definition job_progress :: "outbox_job \<Rightarrow> outbox_job \<Rightarrow> bool" where
  "job_progress r r' \<longleftrightarrow> same_job r r' \<and> oj_attempt_count r \<le> oj_attempt_count r' \<and>
     (oj_state r \<in> {OJ_SUCCEEDED, OJ_DEAD} \<longrightarrow> r' = r)"

lemma row_change_progress: "row_change N r r' \<Longrightarrow> job_progress r r'"
  using row_change_same[of N r r'] by (auto simp: job_progress_def row_change_def elim!: job_stepE)

lemma job_progress_trans: "job_progress r r' \<Longrightarrow> job_progress r' r'' \<Longrightarrow> job_progress r r''"
  by (auto simp: job_progress_def same_job_def)

lemma outbox_run_progress:
  "outbox_run L s s' \<Longrightarrow> outbox_inv s \<Longrightarrow> r \<in> set (ob_rows (fst s)) \<Longrightarrow>
   \<exists>r' \<in> set (ob_rows (fst s')). job_progress r r'"
proof (induction rule: outbox_run.induct)
  case (start s)
  then show ?case by (auto simp: job_progress_def same_job_def intro!: bexI[of _ r])
next
  case (step s t u)
  then obtain r' where r': "r' \<in> set (ob_rows (fst t))" "job_progress r r'" by blast
  have "outbox_inv t" using outbox_run_inv[OF step(1)] step.prems(1) by blast
  then obtain N where "outbox_effect N (fst t) (fst u)"
    using outbox_step_effect[of L "fst t" "snd t" "fst u" "snd u"] step(2) by (auto simp: outbox_inv_def)
  then obtain r'' where "r'' \<in> set (ob_rows (fst u))" "row_change N r' r''"
    using effect_keeps_job r'(1) by blast
  then show ?case using job_progress_trans[OF r'(2) row_change_progress] by blast
qed

text \<open>
  C26. No job is lost and no job runs forever: whatever happens after a reachable state, a job
  keeps its identity and payload, its number of claims never falls and never exceeds its limit,
  and once it has succeeded or is dead its row never changes again.
\<close>

theorem outbox_job_lifecycle:
  assumes "outbox_run L empty_outbox s" "outbox_run L s s'" "r \<in> set (ob_rows (fst s))"
  shows "\<exists>r' \<in> set (ob_rows (fst s')). same_job r r' \<and> oj_attempt_count r \<le> oj_attempt_count r' \<and>
    oj_attempt_count r' \<le> oj_max_attempts r \<and> (oj_state r \<in> {OJ_SUCCEEDED, OJ_DEAD} \<longrightarrow> r' = r)"
proof -
  have inv: "outbox_inv s" using assms(1) empty_outbox_inv by (rule outbox_run_inv)
  obtain r' where r': "r' \<in> set (ob_rows (fst s'))" "job_progress r r'"
    using outbox_run_progress[OF assms(2) inv assms(3)] by blast
  have "outbox_inv s'" using assms(2) inv by (rule outbox_run_inv)
  then have "outbox_row_check r'" using r'(1) by (auto simp: outbox_inv_def list_all_iff job_ok_def)
  with r' show ?thesis by (intro bexI[of _ r']) (auto simp: job_progress_def same_job_def outbox_row_check_def)
qed

subsection \<open>Leases\<close>

definition token_held :: "string \<Rightarrow> outbox_table \<Rightarrow> bool" where
  "token_held token table \<longleftrightarrow> (\<exists>r \<in> set (ob_rows table). oj_lease_owner r = Some token)"

lemma lease_token_inj: "lease_token owner u = lease_token owner' v \<Longrightarrow> u = v"
proof -
  assume "lease_token owner u = lease_token owner' v"
  then have "(owner @ '':'') @ uuid_str u = (owner' @ '':'') @ uuid_str v" by (simp add: lease_token_def)
  then have "uuid_str u = uuid_str v" by (subst (asm) append_eq_append_conv) (simp_all add: length_uuid_str)
  then show "u = v" by (rule uuid_text.enc_inj)
qed

lemma effect_tokens:
  assumes "outbox_effect N table table'" "token_held token table'"
  shows "token_held token table \<or> token \<in> N"
proof -
  obtain r' where r': "r' \<in> set (ob_rows table')" "oj_lease_owner r' = Some token"
    using assms(2) by (auto simp: token_held_def)
  have "\<exists>r \<in> set (ob_rows table). row_change N r r'"
    using assms(1) r' list_all2_origin[of "row_change N" "ob_rows table" "ob_rows table'" r']
    by (auto simp: outbox_effect_def new_job_def row_change_def)
  with r' show ?thesis by (auto simp: row_change_def token_held_def elim!: job_stepE)
qed

lemma lost_token_stays_lost:
  "outbox_run L s s' \<Longrightarrow> outbox_inv s \<Longrightarrow> token \<in> tokens_from (snd s) \<Longrightarrow> \<not> token_held token (fst s) \<Longrightarrow>
   token \<in> tokens_from (snd s') \<and> \<not> token_held token (fst s')"
proof (induction rule: outbox_run.induct)
  case (step s t u)
  then have t: "token \<in> tokens_from (snd t)" "\<not> token_held token (fst t)" by auto
  have "outbox_inv t" using outbox_run_inv[OF step(1)] step.prems(1) by blast
  then obtain N where N: "outbox_effect N (fst t) (fst u)" "snd t \<subseteq> snd u" "N \<subseteq> tokens_from (snd u - snd t)"
    using outbox_step_effect[of L "fst t" "snd t" "fst u" "snd u"] step(2) by (auto simp: outbox_inv_def)
  have "token \<notin> N" using t(1) N(3) by (auto simp: tokens_from_def dest: lease_token_inj)
  then show ?case using effect_tokens[OF N(1)] t tokens_from_mono[OF N(2)] by blast
qed simp

lemma leased_update_needs_token:
  "fst (update_leased tenant i token t f table) \<noteq> 0 \<Longrightarrow> token_held token table"
  by (auto simp: update_leased_def filter_empty_conv token_held_def holds_lease_def)

text \<open>
  C27. A lost lease is lost for good: once a lease token that was handed out is no longer on any
  job, because the job was finished, retried or recovered, a worker that still has the token can
  in no later state extend the lease, acknowledge the job or report a failure.
\<close>

theorem stale_lease_rejected:
  assumes "outbox_run L empty_outbox s" "outbox_run L s s'"
    and "u \<in> snd s" "\<not> token_held (lease_token owner u) (fst s)"
  shows "\<not> is_ok (heartbeat_outbox_job clock tenant i (lease_token owner u) secs now (fst s')) \<and>
    \<not> is_ok (acknowledge_outbox_job clock tenant i (lease_token owner u) now (fst s')) \<and>
    \<not> is_ok (fail_outbox_job clock tenant i (lease_token owner u) code retryable delay now (fst s'))"
proof -
  let ?token = "lease_token owner u"
  have "?token \<in> tokens_from (snd s)" using assms(3) by (auto simp: tokens_from_def)
  then have lost: "\<not> token_held ?token (fst s')"
    using lost_token_stays_lost[OF assms(2) outbox_run_inv[OF assms(1) empty_outbox_inv]] assms(4) by blast
  have none: "fst (update_leased tenant i ?token t f (fst s')) = 0" for t f
    using leased_update_needs_token lost by blast
  have "find (holds_lease tenant i ?token t) (ob_rows (fst s')) = None" for t
    using lost by (auto simp: find_None_iff token_held_def holds_lease_def)
  then show ?thesis
    using none by (auto simp: is_ok_iff heartbeat_outbox_job_def acknowledge_outbox_job_def fail_outbox_job_def
        ok_simps Let_def case_prod_beta split: if_splits option.splits)
qed

subsection \<open>Order of claims\<close>

text \<open>
  Claims are served in order: a claim takes at most its batch, and a job that it could take
  but did not take waits behind a full batch of jobs that became available earlier, or at the
  same time with a smaller identifier.
\<close>

theorem claim_in_order:
  assumes "claim_outbox_jobs tx clock fresh locked tenant owner types n secs now table = Inr (claimed, table')"
    and "r \<in> set (ob_rows table)" "claimable tenant types (now_or now clock) r" "oj_job_id r \<notin> locked"
  shows "length claimed \<le> nat n \<and> (oj_job_id r \<in> set (map cj_job_id claimed) \<or>
    length claimed = nat n \<and> (\<forall>c \<in> set claimed. \<exists>q \<in> set (ob_rows table).
      oj_job_id q = cj_job_id c \<and> claim_order q \<le> claim_order r))"
proof -
  let ?all = "sort_key claim_order
    (filter (\<lambda>job. claimable tenant types (now_or now clock) job \<and> oj_job_id job \<notin> locked) (ob_rows table))"
  let ?sel = "take (nat n) ?all"
  have sel: "select_claims tenant types (now_or now clock) n locked table = ?sel" by (simp add: select_claims_def)
  obtain expires leased where
    l: "leased = map (\<lambda>(i, row). (lease_row (lease_token owner (fresh i)) expires (now_or now clock) row,
         lease_token owner (fresh i))) (enumerate 0 ?sel)"
    and c: "claimed = map (\<lambda>(row, token). claimed_of row token) leased"
    using assms(1) unfolding sel[symmetric] by (rule claim_outbox_jobs_ok)
  have "map cj_job_id claimed = map (oj_job_id \<circ> snd) (enumerate 0 ?sel)"
    by (simp add: c l comp_def case_prod_beta claimed_of_def lease_row_def)
  also have "\<dots> = map oj_job_id (map snd (enumerate 0 ?sel))" by (simp only: map_map)
  finally have ids: "map cj_job_id claimed = map oj_job_id ?sel" by (simp only: map_snd_enumerate)
  have len: "length claimed = length ?sel" by (simp add: c l)
  have mem: "r \<in> set ?all" using assms(2-4) by simp
  show ?thesis
  proof (cases "r \<in> set ?sel")
    case True
    then have "oj_job_id r \<in> set (map cj_job_id claimed)" unfolding ids by simp
    then show ?thesis by (simp add: len)
  next
    case False
    then have drop: "r \<in> set (drop (nat n) ?all)" using mem by (metis Un_iff append_take_drop_id set_append)
    then have full: "length claimed = nat n" by (auto simp: len dest: length_pos_if_in_set)
    have "sorted (map claim_order (?sel @ drop (nat n) ?all))" by (simp only: append_take_drop_id sorted_sort_key)
    then have "\<forall>x \<in> set (map claim_order ?sel). \<forall>y \<in> set (map claim_order (drop (nat n) ?all)). x \<le> y"
      unfolding map_append sorted_append by blast
    then have le: "claim_order q \<le> claim_order r" if "q \<in> set ?sel" for q
      using that drop unfolding set_map by blast
    have "\<exists>q \<in> set (ob_rows table). oj_job_id q = cj_job_id c' \<and> claim_order q \<le> claim_order r"
      if "c' \<in> set claimed" for c'
    proof -
      have "cj_job_id c' \<in> set (map oj_job_id ?sel)" unfolding ids[symmetric] using that by simp
      then obtain q where q: "q \<in> set ?sel" "oj_job_id q = cj_job_id c'" unfolding set_map by fastforce
      then have "q \<in> set (ob_rows table)" by (auto dest!: in_set_takeD)
      with q le show ?thesis by blast
    qed
    with full show ?thesis by auto
  qed
qed

subsection \<open>A sample run\<close>

definition sample_queue_codec :: codec where
  "sample_queue_codec =
     \<lparr> rfc8785_dumps = (\<lambda>j. None), sha256 = (\<lambda>b. replicate 32 0), decimal_to_float = (\<lambda>d. FFinite d) \<rparr>"

definition sample_job_uuid :: uuid where
  "sample_job_uuid = word_of_int (uuid7_layout 0 0)"

lemma sample_job_uuid7: "is_uuid7 sample_job_uuid"
  unfolding sample_job_uuid_def by (rule layout_is_uuid7) simp_all

definition sample_job :: outbox_job where
  "sample_job =
     \<lparr> oj_job_id = 1, oj_job_uuid = sample_job_uuid, oj_tenant_id = 5, oj_job_type = lit ''embed_memory'',
       oj_deduplication_key = ''v1:'' @ bytes_hex (replicate 32 0), oj_aggregate_type = [109],
       oj_aggregate_id = None, oj_payload = [], oj_state = OJ_PENDING, oj_priority = 0,
       oj_available_at = 1000, oj_lease_owner = None, oj_lease_expires_at = None, oj_attempt_count = 0,
       oj_max_attempts = 8, oj_last_error_code = None, oj_last_error_summary = None,
       oj_created_at = 1000, oj_updated_at = 1000, oj_completed_at = None \<rparr>"

definition sample_queue :: "outbox_job \<Rightarrow> outbox_table" where
  "sample_queue job = \<lparr> ob_next_job_id = 2, ob_rows = [job] \<rparr>"

definition sample_leased :: outbox_job where
  "sample_leased = lease_row (lease_token ''w'' 9) 60002000 2000 sample_job"

definition sample_done :: outbox_job where
  "sample_done = sample_leased\<lparr> oj_state := OJ_SUCCEEDED, oj_lease_owner := None, oj_lease_expires_at := None,
     oj_last_error_code := None, oj_last_error_summary := None, oj_completed_at := Some 3000, oj_updated_at := 3000 \<rparr>"

lemma sample_enqueue:
  "enqueue_outbox_job sample_queue_codec 1000 sample_job_uuid 5 (lit ''embed_memory'') [109] None [] 0 8 None None
     (fst empty_outbox) = Inr (sample_job, sample_queue sample_job)"
proof -
  have "utf8_encode (lit ''embed_memory'') = Inr (concat (map utf8_char (lit ''embed_memory'')))"
    by (simp add: utf8_encode_def lit_no_surrogate)
  moreover have "utf8_encode [109] = Inr [109]"
    by (simp add: utf8_encode_def surrogate_def utf8_char_def utf8_units_def)
  moreover have "length (concat (map utf8_char (lit ''embed_memory''))) < 256 ^ 4"
    by (simp add: lit_def utf8_char_def utf8_units_def)
  moreover have "lit ''embed_memory'' \<noteq> []" "length (lit ''embed_memory'') = 12" by (simp_all add: lit_def)
  ultimately have "\<exists>m. deduplication_material 5 (lit ''embed_memory'') [109] None [] = Inr m"
    by (simp add: deduplication_material_def validate_outbox_references_def outbox_fields_def field_bytes_def
        to_bytes_big_def)
  then have "outbox_deduplication_key sample_queue_codec 5 (lit ''embed_memory'') [109] None []
      = Inr (''v1:'' @ bytes_hex (replicate 32 0))"
    by (auto simp: outbox_deduplication_key_def sha256_hexdigest_def sample_queue_codec_def)
  moreover have "outbox_row_check sample_job"
    by (simp add: outbox_row_check_def sample_job_def OUTBOX_JOB_TYPES_def sample_job_uuid7 length_bytes_hex)
  moreover have "length (lit ''embed_memory'') = 12" by (simp add: lit_def)
  ultimately show ?thesis
    by (simp add: enqueue_outbox_job_def validate_outbox_references_def insert_outbox_row_def empty_outbox_def
        sample_job_def sample_queue_def Let_def)
qed

lemma sample_claim:
  "claim_outbox_jobs True 2000 (\<lambda>i. 9) {} 5 ''w'' [lit ''embed_memory''] 1 60 None (sample_queue sample_job)
     = Inr ([claimed_of sample_leased (lease_token ''w'' 9)], sample_queue sample_leased)"
proof -
  have "select_claims 5 [lit ''embed_memory''] 2000 1 {} (sample_queue sample_job) = [sample_job]"
    by (simp add: select_claims_def sample_queue_def claimable_def sample_job_def)
  moreover have "utc_plus_seconds 2000 60 = Inr 60002000"
    by (simp add: utc_plus_seconds_def MAX_DATETIME_def MICROSECONDS_PER_DAY_def)
  moreover have "oj_job_id sample_leased = oj_job_id sample_job" by (simp add: sample_leased_def lease_row_def)
  ultimately show ?thesis
    by (simp add: claim_outbox_jobs_def validate_owner_def alphanumeric_def validate_timing_def now_or_def
        write_rows_def sample_queue_def sample_leased_def Let_def)
qed

lemma sample_acknowledge:
  "acknowledge_outbox_job 3000 5 1 (lease_token ''w'' 9) None (sample_queue sample_leased) = Inr (sample_queue sample_done)"
  by (simp add: acknowledge_outbox_job_def now_or_def update_leased_def holds_lease_def sample_queue_def
      sample_done_def sample_leased_def lease_row_def sample_job_def)

lemma sample_runs:
  "outbox_run sample_queue_codec empty_outbox (sample_queue sample_job, {})"
  "outbox_run sample_queue_codec (sample_queue sample_job, {}) (sample_queue sample_leased, {9})"
  "outbox_run sample_queue_codec (sample_queue sample_job, {}) (sample_queue sample_done, {9})"
proof -
  show "outbox_run sample_queue_codec empty_outbox (sample_queue sample_job, {})"
    using outbox_run.step[OF outbox_run.start outbox_step.enqueue[OF sample_enqueue, of "{}"]]
    by (simp add: empty_outbox_def)
  show c: "outbox_run sample_queue_codec (sample_queue sample_job, {}) (sample_queue sample_leased, {9})"
    using outbox_run.step[OF outbox_run.start outbox_step.claim[OF sample_claim, of "{}"]]
    by (simp add: lessThan_Suc)
  show "outbox_run sample_queue_codec (sample_queue sample_job, {}) (sample_queue sample_done, {9})"
    using outbox_run.step[OF c outbox_step.acknowledge[OF sample_acknowledge, of _ "{9}"]] by simp
qed

lemma outbox_run_trans: "outbox_run L s t \<Longrightarrow> outbox_run L t u \<Longrightarrow> outbox_run L s u"
  by (rotate_tac, induction rule: outbox_run.induct) (auto intro: outbox_run.step)

theorem outbox_constraints_hold_witness: "outbox_row_check sample_leased"
  using outbox_constraints_hold[OF outbox_run_trans[OF sample_runs(1,2)]] by (simp add: sample_queue_def)

theorem outbox_job_lifecycle_witness: "same_job sample_job sample_done \<and> oj_attempt_count sample_done \<le> 8"
  using outbox_job_lifecycle[OF sample_runs(1,3), of sample_job]
  by (simp add: sample_queue_def) (simp add: sample_job_def)

theorem stale_lease_rejected_witness:
  "\<not> is_ok (acknowledge_outbox_job 4000 5 1 (lease_token ''w'' 9) None (sample_queue sample_done))"
  using stale_lease_rejected[OF outbox_run_trans[OF sample_runs(1,3)] outbox_run.start, of 9 "''w''"]
  by (simp add: token_held_def sample_queue_def sample_done_def)

theorem claim_in_order_witness:
  "oj_job_id sample_job \<in> set (map cj_job_id [claimed_of sample_leased (lease_token ''w'' 9)])"
  using claim_in_order[OF sample_claim, of sample_job]
  by (simp add: sample_queue_def claimable_def now_or_def)
     (simp add: sample_job_def sample_leased_def lease_row_def claimed_of_def)

end
