(* ===== verification/Event_Store.thy ===== *)
theory Event_Store
  imports Events Constraints
begin

text \<open>
  The event store (\<^verbatim>\<open>storage/event_store.py\<close>): one append locks the sequence counter, builds
  and validates the event for the next sequence number, authorises it against the transport
  binding, checks the after-images and inserts the row. Reading the log back
  (\<^verbatim>\<open>event_row_to_domain\<close>, \<^verbatim>\<open>load_verified_events\<close> of \<^verbatim>\<open>storage/projector.py\<close>) is modelled
  with it. The tables are lists of rows; a failed append returns an exception, and the caller's
  rollback restores the tables. Columns of JSON type return the object they were given.
\<close>

subsection \<open>Tables\<close>

record event_row =
  er_sequence :: int
  er_event_id :: uuid
  er_tenant_id :: uuid
  er_lineage_id :: uuid
  er_branch_id :: uuid
  er_actor_id :: uuid
  er_client_id :: uuid
  er_transport_binding_id :: uuid
  er_session_id :: "uuid option"
  er_ingress_id :: "uuid option"
  er_operation :: string
  er_memory_id :: "uuid option"
  er_expected_revision :: "int option"
  er_causation_event_id :: "uuid option"
  er_correlation_id :: uuid
  er_idempotency_key :: pystr
  er_schema_version :: int
  er_payload_version :: int
  er_policy_version :: int
  er_normalization_version :: int
  er_payload :: json_object
  er_payload_canonical :: bytes
  er_payload_sha256 :: bytes
  er_command_sha256 :: bytes
  er_created_at :: utc

record transport_binding =
  tb_transport_binding_id :: uuid
  tb_tenant_id :: uuid
  tb_actor_id :: uuid
  tb_client_id :: uuid
  tb_installation_id :: "uuid option"
  tb_transport_kind :: string
  tb_authorized_operations :: json_object
  tb_valid_until :: "utc option"

record actor_row =
  ac_tenant_id :: uuid
  ac_actor_id :: uuid
  ac_revoked_at :: "utc option"

record client_row =
  cl_tenant_id :: uuid
  cl_client_id :: uuid
  cl_transport_kind :: string
  cl_revoked_at :: "utc option"

record installation_row =
  in_tenant_id :: uuid
  in_installation_id :: uuid
  in_revoked_at :: "utc option"

record ingress_item =
  ii_ingress_id :: uuid
  ii_tenant_id :: uuid
  ii_transport_binding_id :: uuid
  ii_installation_id :: uuid
  ii_actor_id :: uuid
  ii_client_id :: uuid
  ii_provider :: string
  ii_declared_idempotency_key :: "pystr option"
  ii_state :: string
  ii_result_event_id :: "uuid option"
  ii_result_memory_id :: "uuid option"
  ii_error_code :: "string option"
  ii_safe_diagnostic :: "string option"
  ii_validated_at :: "utc option"
  ii_processed_at :: "utc option"

record event_store =
  es_next_sequence :: "int option"
  es_events :: "event_row list"
  es_bindings :: "transport_binding list"
  es_actors :: "actor_row list"
  es_clients :: "client_row list"
  es_installations :: "installation_row list"
  es_ingress_items :: "ingress_item list"

subsection \<open>Building and validating an event\<close>

fun is_type_error :: "exn \<Rightarrow> bool" where
  "is_type_error (TypeError m) = True"
| "is_type_error e = False"

definition build_and_validate :: "'z library_scheme \<Rightarrow> (int \<Rightarrow> event result) \<Rightarrow> int \<Rightarrow> event result" where
  "build_and_validate L builder sequence =
     (case builder sequence of
        Inl _ \<Rightarrow> Inl (EventStoreError ''event_invalid'' ''event construction failed validation'')
      | Inr e \<Rightarrow>
          if e_sequence e \<noteq> sequence
          then Inl (EventStoreError ''event_sequence_mismatch'' ''event sequence does not match the allocation'')
          else case rbind (validate_event_envelope_shape e) (\<lambda>_.
                    rbind (typed_payload L e) (\<lambda>_. verify_hashes L e)) of
                 Inl err \<Rightarrow>
                   if is_value_error err \<and> err \<noteq> AssertionError \<or> is_type_error err
                   then Inl (EventStoreError ''event_invalid'' ''event failed canonical contract validation'')
                   else Inl err
               | Inr _ \<Rightarrow> Inr e)"

subsection \<open>Authorisation\<close>

fun json_string :: "json \<Rightarrow> pystr option" where
  "json_string (JStr s) = Some s"
| "json_string _ = None"

definition operation_is_authorized :: "transport_binding \<Rightarrow> event_operation \<Rightarrow> bool" where
  "operation_is_authorized binding op \<longleftrightarrow>
     set (map fst (tb_authorized_operations binding)) = {lit ''operations''} \<and>
     (case dict_get (tb_authorized_operations binding) (lit ''operations'') of
        Some (JArr values) \<Rightarrow>
          list_all (\<lambda>v. json_string v \<noteq> None) values \<and>
          list_ex (\<lambda>v. json_string v = Some (lit (event_operation_value op))) values
      | _ \<Rightarrow> False)"

definition after_images :: "'z library_scheme \<Rightarrow> event \<Rightarrow> memory list result" where
  "after_images L e = rbind (typed_payload L e) (\<lambda>payload. Inr (payload_memories payload))"

definition hex_code :: "nat \<Rightarrow> bool" where
  "hex_code c \<longleftrightarrow> c \<in> set (lit hex_alphabet)"

definition genesis_idempotency_key :: "pystr \<Rightarrow> bool" where
  "genesis_idempotency_key key \<longleftrightarrow>
     take 18 key = lit ''genesis-import-v1:'' \<and> length (drop 18 key) = 64 \<and> list_all hex_code (drop 18 key)"

definition manifest_evidence :: "evidence_item \<Rightarrow> bool" where
  "manifest_evidence item \<longleftrightarrow>
     ev_source_type item = lit ''import_manifest'' \<and> ev_trust_classification item = lit ''trusted'' \<and>
     ev_excerpt item = None \<and> ev_content_sha256 item = None \<and>
     set (map fst (ev_source_reference item)) = {lit ''evidence_key''} \<and>
     (case dict_get (ev_source_reference item) (lit ''evidence_key'') of
        Some (JStr s) \<Rightarrow> take 16 s = lit ''import-manifest:''
      | _ \<Rightarrow> False) \<and>
     ev_metadata item = []"

definition is_authorized_legacy_genesis_plaintext ::
    "transport_binding \<Rightarrow> event \<Rightarrow> utc operation_payload \<Rightarrow> memory \<Rightarrow> bool" where
  "is_authorized_legacy_genesis_plaintext binding e payload m \<longleftrightarrow>
     tb_transport_kind binding = ''internal_service'' \<and> e_schema_version e = 2 \<and> e_payload_version e = 2 \<and>
     e_policy_version e = 2 \<and> e_normalization_version e = 1 \<and> e_operation e = OP_OBSERVED \<and>
     e_session_id e = None \<and> e_ingress_id e = None \<and> genesis_idempotency_key (e_idempotency_key e) \<and>
     (case payload of
        MemoryCreatedPayload created evidence \<Rightarrow>
          state_version created = 2 \<and> created = m \<and> m_status m = CANDIDATE \<and>
          m_visibility m = PRIVATE_ROOT \<and> m_authority_class m = IMPORTED_LEGACY_MEMORY \<and>
          m_content_protection m = PLAINTEXT \<and> evidence \<noteq> [] \<and> list_all manifest_evidence evidence
      | _ \<Rightarrow> False)"

fun transport_kind_value :: "transport_kind \<Rightarrow> string" where
  "transport_kind_value DIRECT_PRIVATE = ''direct_private''"
| "transport_kind_value SECURE_TUNNEL = ''secure_tunnel''"
| "transport_kind_value RELAY = ''relay''"
| "transport_kind_value GITHUB_INGRESS = ''github_ingress''"
| "transport_kind_value INTERNAL_SERVICE = ''internal_service''"
| "transport_kind_value ARCHIVE_RESTORE = ''archive_restore''"

definition transport_kinds :: "transport_kind list" where
  "transport_kinds =
     [DIRECT_PRIVATE, SECURE_TUNNEL, RELAY, GITHUB_INGRESS, INTERNAL_SERVICE, ARCHIVE_RESTORE]"

definition constraint_context :: "transport_kind \<Rightarrow> memory \<Rightarrow> memory_constraint_context" where
  "constraint_context kind m =
     \<lparr> cc_category = m_category m, cc_ontological_status = m_ontological_status m, cc_scope = m_scope m,
       cc_visibility = m_visibility m, cc_status = m_status m, cc_sensitivity = m_sensitivity m,
       cc_subject_kind = m_subject_kind m, cc_origin_session_id = m_origin_session_id m,
       cc_origin_session_matches = (m_origin_session_id m \<noteq> None), cc_structural_anchor_matches = True,
       cc_imported_provenance = (m_authority_class m = IMPORTED_LEGACY_MEMORY),
       cc_publication_approved =
         (m_publication_approved_at m \<noteq> None \<and> m_publication_approved_by_actor_id m \<noteq> None),
       cc_branch_allows_visibility = True, cc_transport_kind = kind \<rparr>"

definition validate_after_image ::
    "bool \<Rightarrow> transport_binding \<Rightarrow> event \<Rightarrow> utc operation_payload \<Rightarrow> transport_kind \<Rightarrow> memory \<Rightarrow> unit result" where
  "validate_after_image legacy binding e payload kind m =
     (case validate_memory_constraints (constraint_context kind m) of
        Inl (DomainConstraintError code message) \<Rightarrow>
          Inl (EventStoreError code ''memory after-image violates accepted constraints'')
      | Inl err \<Rightarrow> Inl err
      | Inr _ \<Rightarrow>
          if m_sensitivity m = 4 \<and> \<not> is_v3 m
             \<and> \<not> (legacy \<and> is_authorized_legacy_genesis_plaintext binding e payload m)
          then Inl (EventStoreError ''sealed_content_required'' ''sensitivity-four writes require sealed content'')
          else Inr ())"

text \<open>The flag \<open>legacy\<close> is the capability for the frozen first import.\<close>

definition validate_after_image_constraints ::
    "'z library_scheme \<Rightarrow> bool \<Rightarrow> transport_binding \<Rightarrow> event \<Rightarrow> unit result" where
  "validate_after_image_constraints L legacy binding e =
     (case enum_parse transport_kind_value transport_kinds (tb_transport_kind binding) of
        None \<Rightarrow> Inl (EventStoreError ''binding_invalid'' ''transport binding is unavailable'')
      | Some kind \<Rightarrow>
          rbind (typed_payload L e) (\<lambda>payload.
          rbind (traverse (validate_after_image legacy binding e payload kind) (payload_memories payload)) (\<lambda>_.
            Inr ())))"

definition validate_transport ::
    "'z library_scheme \<Rightarrow> bool \<Rightarrow> transport_binding \<Rightarrow> event \<Rightarrow> unit result" where
  "validate_transport L legacy binding e =
     (if \<not> operation_is_authorized binding (e_operation e)
      then Inl (EventStoreError ''operation_not_authorized''
                  ''transport binding does not authorize the operation'')
      else rbind
        (if tb_transport_kind binding = ''github_ingress''
         then if e_operation e \<notin> {OP_OBSERVED, OP_REMEMBERED}
              then Inl (EventStoreError ''github_operation_forbidden'' ''GitHub ingress operation is not permitted'')
              else if e_ingress_id e = None
              then Inl (EventStoreError ''github_ingress_required''
                          ''GitHub ingress event requires ingress provenance'')
              else rbind (after_images L e) (\<lambda>images.
                if list_ex is_v3 images
                then Inl (EventStoreError ''github_sealed_content_forbidden''
                            ''GitHub ingress cannot write sealed content'')
                else Inr ())
         else if e_ingress_id e \<noteq> None
         then Inl (EventStoreError ''ingress_forbidden'' ''non-GitHub event cannot contain ingress provenance'')
         else Inr ())
        (\<lambda>_. validate_after_image_constraints L legacy binding e))"

definition ingress_unavailable :: exn where
  "ingress_unavailable = EventStoreError ''github_ingress_unavailable'' ''GitHub ingress item is unavailable''"

definition validate_ingress_item :: "ingress_item \<Rightarrow> transport_binding \<Rightarrow> event \<Rightarrow> unit result" where
  "validate_ingress_item ingress binding e =
     (if ii_state ingress \<noteq> ''validated'' \<or> ii_validated_at ingress = None \<or> ii_result_event_id ingress \<noteq> None
         \<or> ii_result_memory_id ingress \<noteq> None \<or> ii_error_code ingress \<noteq> None
         \<or> ii_safe_diagnostic ingress \<noteq> None \<or> ii_processed_at ingress \<noteq> None
      then Inl ingress_unavailable
      else if Some (ii_ingress_id ingress) \<noteq> e_ingress_id e \<or> ii_tenant_id ingress \<noteq> e_tenant_id e
         \<or> ii_transport_binding_id ingress \<noteq> e_transport_binding_id e
         \<or> Some (ii_installation_id ingress) \<noteq> tb_installation_id binding
         \<or> ii_actor_id ingress \<noteq> e_actor_id e \<or> ii_client_id ingress \<noteq> e_client_id e
         \<or> ii_provider ingress \<noteq> ''github''
         \<or> ii_declared_idempotency_key ingress \<noteq> Some (e_idempotency_key e)
      then Inl ingress_unavailable else Inr ())"

definition scalar_one_or_none :: "'a list \<Rightarrow> 'a option result" where
  "scalar_one_or_none rows =
     (case rows of [] \<Rightarrow> Inr None | [x] \<Rightarrow> Inr (Some x) | _ \<Rightarrow> Inl (DBAPIError None))"

definition lock_github_ingress ::
    "transport_binding \<Rightarrow> event \<Rightarrow> event_store \<Rightarrow> ingress_item option result" where
  "lock_github_ingress binding e store =
     (if tb_transport_kind binding \<noteq> ''github_ingress'' then Inr None
      else rbind (scalar_one_or_none (filter (\<lambda>i. ii_tenant_id i = e_tenant_id e
             \<and> Some (ii_ingress_id i) = e_ingress_id e) (es_ingress_items store))) (\<lambda>found.
        case found of
          None \<Rightarrow> Inl ingress_unavailable
        | Some ingress \<Rightarrow> rbind (validate_ingress_item ingress binding e) (\<lambda>_. Inr (Some ingress))))"

subsection \<open>Appending\<close>

definition event_row_of :: "event \<Rightarrow> event_row result" where
  "event_row_of e =
     rbind (b64decode (e_payload_canonical e)) (\<lambda>canonical.
     rbind (bytes_fromhex (e_payload_sha256 e)) (\<lambda>payload_sha.
     rbind (bytes_fromhex (e_command_sha256 e)) (\<lambda>command_sha.
       Inr \<lparr> er_sequence = e_sequence e, er_event_id = e_event_id e, er_tenant_id = e_tenant_id e,
         er_lineage_id = e_lineage_id e, er_branch_id = e_branch_id e, er_actor_id = e_actor_id e,
         er_client_id = e_client_id e, er_transport_binding_id = e_transport_binding_id e,
         er_session_id = e_session_id e, er_ingress_id = e_ingress_id e,
         er_operation = event_operation_value (e_operation e), er_memory_id = e_memory_id e,
         er_expected_revision = e_expected_revision e, er_causation_event_id = e_causation_event_id e,
         er_correlation_id = e_correlation_id e, er_idempotency_key = e_idempotency_key e,
         er_schema_version = e_schema_version e, er_payload_version = e_payload_version e,
         er_policy_version = e_policy_version e, er_normalization_version = e_normalization_version e,
         er_payload = e_payload e, er_payload_canonical = canonical, er_payload_sha256 = payload_sha,
         er_command_sha256 = command_sha, er_created_at = e_created_at e \<rparr>)))"

text \<open>
  The constraints of the event table that an event can still violate: the size of the canonical
  payload and the widths of the version columns (23514, 22003), the unique keys (23505) and the
  causation key (23503).
\<close>

definition event_rows_clash :: "event_row \<Rightarrow> event_row \<Rightarrow> bool" where
  "event_rows_clash a b \<longleftrightarrow>
     er_sequence a = er_sequence b \<or> er_event_id a = er_event_id b \<or>
     er_tenant_id a = er_tenant_id b \<and> er_client_id a = er_client_id b \<and>
       er_idempotency_key a = er_idempotency_key b"

definition insert_event_row :: "event_row \<Rightarrow> event_row list \<Rightarrow> event_row list result" where
  "insert_event_row row rows =
     (if 32767 < er_policy_version row \<or> 32767 < er_normalization_version row then Inl (DBAPIError (Some ''22003''))
      else if \<not> (2 \<le> length (er_payload_canonical row) \<and> length (er_payload_canonical row) \<le> 1048576)
      then Inl (DBAPIError (Some ''23514''))
      else if list_ex (event_rows_clash row) rows then Inl (DBAPIError (Some ''23505''))
      else if (case er_causation_event_id row of None \<Rightarrow> False
               | Some cause \<Rightarrow> \<not> list_ex (\<lambda>r. er_tenant_id r = er_tenant_id row
                   \<and> er_lineage_id r = er_lineage_id row \<and> er_event_id r = cause) rows)
      then Inl (DBAPIError (Some ''23503''))
      else Inr (rows @ [row]))"

text \<open>The binding together with the revocations of its actor, client and installation.\<close>

definition binding_identities ::
    "event \<Rightarrow> event_store \<Rightarrow> (transport_binding \<times> utc option \<times> utc option \<times> installation_row option) list" where
  "binding_identities e store =
     concat (map (\<lambda>b. concat (map (\<lambda>a. concat (map (\<lambda>c.
         let installations = filter (\<lambda>i. in_tenant_id i = tb_tenant_id b
               \<and> Some (in_installation_id i) = tb_installation_id b) (es_installations store)
         in if installations = [] then [(b, ac_revoked_at a, cl_revoked_at c, None)]
            else map (\<lambda>i. (b, ac_revoked_at a, cl_revoked_at c, Some i)) installations)
       (filter (\<lambda>c. cl_tenant_id c = tb_tenant_id b \<and> cl_client_id c = tb_client_id b
          \<and> cl_transport_kind c = tb_transport_kind b) (es_clients store))))
       (filter (\<lambda>a. ac_tenant_id a = tb_tenant_id b \<and> ac_actor_id a = tb_actor_id b) (es_actors store))))
     (filter (\<lambda>b. tb_tenant_id b = e_tenant_id e \<and> tb_transport_binding_id b = e_transport_binding_id e
        \<and> tb_actor_id b = e_actor_id e \<and> tb_client_id b = e_client_id e) (es_bindings store)))"

definition check_binding ::
    "utc \<Rightarrow> transport_binding \<Rightarrow> utc option \<Rightarrow> utc option \<Rightarrow> installation_row option \<Rightarrow> unit result" where
  "check_binding now binding actor_revoked_at client_revoked_at installation =
     (if actor_revoked_at \<noteq> None \<or> client_revoked_at \<noteq> None
      then Inl (EventStoreError ''binding_revoked'' ''transport binding is unavailable'')
      else if (case tb_valid_until binding of None \<Rightarrow> False | Some t \<Rightarrow> t \<le> now)
      then Inl (EventStoreError ''binding_expired'' ''transport binding is unavailable'')
      else if tb_installation_id binding \<noteq> None
      then (case installation of
              None \<Rightarrow> Inl (EventStoreError ''binding_installation_unavailable'' ''transport binding is unavailable'')
            | Some i \<Rightarrow>
                if in_revoked_at i \<noteq> None
                then Inl (EventStoreError ''binding_revoked'' ''transport binding is unavailable'')
                else Inr ())
      else if tb_transport_kind binding = ''relay''
      then Inl (EventStoreError ''binding_installation_unavailable'' ''transport binding is unavailable'')
      else Inr ())"

definition accept_ingress :: "utc \<Rightarrow> event \<Rightarrow> ingress_item \<Rightarrow> ingress_item \<Rightarrow> ingress_item" where
  "accept_ingress now e ingress i =
     (if ii_tenant_id i = ii_tenant_id ingress \<and> ii_ingress_id i = ii_ingress_id ingress
      then i\<lparr> ii_state := ''accepted'', ii_result_event_id := Some (e_event_id e),
              ii_result_memory_id := e_memory_id e, ii_processed_at := Some now \<rparr>
      else i)"

definition append_memory_event_unsafe ::
    "'z library_scheme \<Rightarrow> utc \<Rightarrow> bool \<Rightarrow> (int \<Rightarrow> event result) \<Rightarrow> event_store \<Rightarrow> (event \<times> event_store) result" where
  "append_memory_event_unsafe L now legacy builder store =
     (case es_next_sequence store of
        None \<Rightarrow> Inl (EventStoreError ''event_counter_unavailable'' ''event sequence allocator is unavailable'')
      | Some next_sequence \<Rightarrow>
          rbind (build_and_validate L builder next_sequence) (\<lambda>e.
          rbind (scalar_one_or_none (binding_identities e store)) (\<lambda>identity.
          case identity of
            None \<Rightarrow> Inl (EventStoreError ''binding_not_found'' ''transport binding is unavailable'')
          | Some (binding, actor_revoked_at, client_revoked_at, installation) \<Rightarrow>
              rbind (check_binding now binding actor_revoked_at client_revoked_at installation) (\<lambda>_.
              rbind (validate_transport L legacy binding e) (\<lambda>_.
              rbind (lock_github_ingress binding e store) (\<lambda>ingress.
              rbind (event_row_of e) (\<lambda>row.
              rbind (insert_event_row row (es_events store)) (\<lambda>events.
                Inr (e, store\<lparr> es_events := events, es_next_sequence := Some (next_sequence + 1),
                  es_ingress_items := (case ingress of
                     None \<Rightarrow> es_ingress_items store
                   | Some i \<Rightarrow> map (accept_ingress now e i) (es_ingress_items store)) \<rparr>))))))))) "

definition append_memory_event ::
    "'z library_scheme \<Rightarrow> utc \<Rightarrow> bool \<Rightarrow> (int \<Rightarrow> event result) \<Rightarrow> event_store \<Rightarrow> (event \<times> event_store) result" where
  "append_memory_event L now legacy builder store =
     (case append_memory_event_unsafe L now legacy builder store of
        Inl (DBAPIError sqlstate) \<Rightarrow>
          if sqlstate = Some ''40001'' then Inl (DBAPIError sqlstate)
          else Inl (EventStoreError ''event_store_unavailable'' ''event store operation failed'')
      | r \<Rightarrow> r)"

subsection \<open>Reading the log\<close>

definition raw_utc :: "utc \<Rightarrow> py_datetime" where
  "raw_utc t = \<lparr> dt_local = t, dt_utcoffset = Some 0 \<rparr>"

definition event_row_raw :: "event_row \<Rightarrow> event_operation \<Rightarrow> py_datetime memory_event" where
  "event_row_raw row op =
     \<lparr> e_schema_version = er_schema_version row, e_payload_version = er_payload_version row,
       e_sequence = er_sequence row, e_event_id = er_event_id row, e_tenant_id = er_tenant_id row,
       e_lineage_id = er_lineage_id row, e_branch_id = er_branch_id row, e_actor_id = er_actor_id row,
       e_client_id = er_client_id row, e_transport_binding_id = er_transport_binding_id row,
       e_session_id = er_session_id row, e_ingress_id = er_ingress_id row, e_operation = op,
       e_memory_id = er_memory_id row, e_expected_revision = er_expected_revision row,
       e_causation_event_id = er_causation_event_id row, e_correlation_id = er_correlation_id row,
       e_idempotency_key = er_idempotency_key row, e_policy_version = er_policy_version row,
       e_normalization_version = er_normalization_version row, e_payload = er_payload row,
       e_payload_canonical = b64encode (er_payload_canonical row),
       e_payload_sha256 = bytes_hex (er_payload_sha256 row),
       e_command_sha256 = bytes_hex (er_command_sha256 row), e_created_at = raw_utc (er_created_at row) \<rparr>"

definition event_row_to_domain :: "'z library_scheme \<Rightarrow> event_row \<Rightarrow> event result" where
  "event_row_to_domain L row =
     (case enum_parse event_operation_value event_operations (er_operation row) of
        None \<Rightarrow> Inl (ProjectionPersistenceError ''invalid_event'')
      | Some op \<Rightarrow>
          (case validate_memory_event L (event_row_raw row op) of
             Inl err \<Rightarrow>
               if is_value_error err \<and> err \<noteq> AssertionError \<or> is_type_error err
               then Inl (ProjectionPersistenceError ''invalid_event'') else Inl err
           | Inr e \<Rightarrow> Inr e))"

definition load_verified_events ::
    "'z library_scheme \<Rightarrow> uuid option \<Rightarrow> event_store \<Rightarrow> event list result" where
  "load_verified_events L tenant_id store =
     traverse (event_row_to_domain L) (sort_key er_sequence
       (filter (\<lambda>r. tenant_id = None \<or> tenant_id = Some (er_tenant_id r)) (es_events store)))"

end
