(* ===== verification/Event_Log.thy ===== *)
theory Event_Log
  imports Samples Event_Store
begin

text \<open>
  What the event store promises: the log reads back what was appended, an event is appended only
  through an authorised binding, a GitHub ingress item is consumed once, and the constraint check
  adds exactly the transport rules to the validation of the model.
\<close>

subsection \<open>The log reads back what was appended\<close>

text \<open>An event object exists only if its fields passed the model's validation.\<close>

definition constructed :: "'z library_scheme \<Rightarrow> event \<Rightarrow> bool" where
  "constructed L e \<longleftrightarrow> (\<exists>raw. validate_memory_event L raw = Inr e)"

text \<open>
  The stored event differs from the appended one at most in the base64 text of the canonical
  payload, which is encoded afresh from the same bytes.
\<close>

definition recoded :: "event \<Rightarrow> event" where
  "recoded e = (case b64decode (e_payload_canonical e) of
     Inl _ \<Rightarrow> e | Inr bytes \<Rightarrow> e\<lparr> e_payload_canonical := b64encode bytes \<rparr>)"

lemma b64_length: "b64decode s = Inr b \<Longrightarrow> length (b64encode b) = length s"
proof (induction s arbitrary: b rule: b64decode.induct)
  case (2 p q r t s)
  show ?case
  proof (cases "t = CHR ''=''")
    case True
    with 2 show ?thesis by (auto simp: b64_error_def split: if_splits option.splits)
  next
    case False
    with 2(2) obtain x y z w bs where "b64_val p = Some x" "b64_val q = Some y" "b64_val r = Some z"
        "b64_val t = Some w" and bs: "b64decode s = Inr bs"
        "b = of_nat (x * 4 + y div 16) # of_nat (y mod 16 * 16 + z div 4) # of_nat (z mod 4 * 64 + w) # bs"
      by (auto simp: ok_simps b64_error_def split: option.splits)
    with 2(1)[OF False] show ?thesis by simp
  qed
qed (auto simp: b64_error_def)

lemma hex_bytes_hex: "list_all is_hex s \<Longrightarrow> bytes_fromhex s = Inr b \<Longrightarrow> bytes_hex b = s"
proof (induction s arbitrary: b rule: bytes_fromhex.induct)
  case (3 c d s)
  then obtain h l bs where h: "index_of hex_alphabet c = Some h" "index_of hex_alphabet d = Some l"
      "bytes_fromhex s = Inr bs" "b = of_nat (16 * h + l) # bs"
    by (auto simp: ok_simps split: option.splits)
  have idx: "index_of xs x = Some n \<Longrightarrow> n < length xs \<and> xs ! n = x" for xs :: string and x n
    by (induction xs arbitrary: n) (auto split: if_splits)
  have "h < 16" "l < 16" "hex_digit h = c" "hex_digit l = d"
    using idx[OF h(1)] idx[OF h(2)] by (auto simp: hex_alphabet_facts hex_digit_def)
  moreover have "unat (of_nat (16 * h + l) :: 8 word) = 16 * h + l"
    using \<open>h < 16\<close> \<open>l < 16\<close> by (simp add: unat_of_nat del: of_nat_add of_nat_mult)
  moreover have "(16 * h + l) div 16 = h" "(16 * h + l) mod 16 = l" using \<open>l < 16\<close> by simp_all
  ultimately show ?case using 3(1)[OF _ _ _ _ h(3)] 3(2) h by (simp del: of_nat_add of_nat_mult)
qed auto

lemma utc_field_raw: "utc_field n dt = Inr t \<Longrightarrow> utc_field m (raw_utc t) = Inr t"
  by (auto simp: utc_field_def raw_utc_def normalize_utc_datetime_def Let_def split: sum.splits option.splits if_splits)

lemma normalize_fields:
  assumes "event_normalize raw = Inr e"
  shows "event_field_constraints e = event_field_constraints raw" "event_uuid7_fields e = event_uuid7_fields raw"
    "utc_field ''created_at'' (e_created_at raw) = Inr (e_created_at e)"
proof -
  obtain t where t: "utc_field ''created_at'' (e_created_at raw) = Inr t"
    using assms unfolding event_normalize_def rbind_eq_Inr by blast
  note e = assms[unfolded event_normalize_def t rbind_simps sum.inject, symmetric]
  show "event_field_constraints e = event_field_constraints raw" "event_uuid7_fields e = event_uuid7_fields raw"
    unfolding event_field_constraints_def event_uuid7_fields_def e memory_event.select_convs by (rule refl)+
  show "utc_field ''created_at'' (e_created_at raw) = Inr (e_created_at e)" by (simp add: t e)
qed

lemma validate_memory_event_iff:
  "validate_memory_event L raw = Inr e \<longleftrightarrow>
     event_field_constraints raw = Inr () \<and> event_uuid7_fields raw = Inr () \<and> event_normalize raw = Inr e \<and>
     validate_event_envelope_shape e = Inr () \<and> is_ok (typed_payload L e) \<and> verify_hashes L e = Inr ()"
  unfolding validate_memory_event_def validated_eq_Inr rbind_eq_Inr is_ok_iff by auto

lemma constructed_parts:
  assumes "constructed L e"
  shows "event_field_constraints e = Inr ()" "event_uuid7_fields e = Inr ()"
    "validate_event_envelope_shape e = Inr ()" "is_ok (typed_payload L e)" "verify_hashes L e = Inr ()"
    "utc_field n (raw_utc (e_created_at e)) = Inr (e_created_at e)"
proof -
  obtain raw where raw: "validate_memory_event L raw = Inr e" using assms by (auto simp: constructed_def)
  note v = raw[unfolded validate_memory_event_iff]
  then have n: "event_normalize raw = Inr e" by simp
  show "event_field_constraints e = Inr ()" "event_uuid7_fields e = Inr ()"
    using v normalize_fields(1,2)[OF n] by simp_all
  show "validate_event_envelope_shape e = Inr ()" "is_ok (typed_payload L e)" "verify_hashes L e = Inr ()"
    using v by simp_all
  show "utc_field n (raw_utc (e_created_at e)) = Inr (e_created_at e)"
    by (rule utc_field_raw[OF normalize_fields(3)[OF n]])
qed

lemma event_row_parts:
  assumes "event_row_of e = Inr row" "constructed L e"
  shows "b64decode (e_payload_canonical e) = Inr (er_payload_canonical row)"
    "bytes_hex (er_payload_sha256 row) = e_payload_sha256 e" "bytes_hex (er_command_sha256 row) = e_command_sha256 e"
proof -
  obtain c p d where parts: "b64decode (e_payload_canonical e) = Inr c" "bytes_fromhex (e_payload_sha256 e) = Inr p"
      "bytes_fromhex (e_command_sha256 e) = Inr d"
    using assms(1) unfolding event_row_of_def rbind_eq_Inr by blast
  note row = assms(1)[unfolded event_row_of_def parts rbind_simps sum.inject, symmetric]
  have hex: "list_all is_hex (e_payload_sha256 e)" "list_all is_hex (e_command_sha256 e)"
    using constructed_parts(1)[OF assms(2)] by (simp_all add: event_field_constraints_def hex_digest_ok_def ok_simps)
  show "b64decode (e_payload_canonical e) = Inr (er_payload_canonical row)" by (simp add: row parts)
  show "bytes_hex (er_payload_sha256 row) = e_payload_sha256 e" "bytes_hex (er_command_sha256 row) = e_command_sha256 e"
    using hex_bytes_hex[OF hex(1) parts(2)] hex_bytes_hex[OF hex(2) parts(3)] by (simp_all add: row)
qed

lemma recoded_eq:
  assumes "event_row_of e = Inr row" "constructed L e"
  shows "recoded e = e\<lparr> e_payload_canonical := b64encode (er_payload_canonical row) \<rparr>"
  by (simp add: recoded_def event_row_parts(1)[OF assms])

lemma event_row_fields:
  assumes "event_row_of e = Inr row"
  shows "event_row_raw row op =
     \<lparr> e_schema_version = e_schema_version e, e_payload_version = e_payload_version e,
       e_sequence = e_sequence e, e_event_id = e_event_id e, e_tenant_id = e_tenant_id e,
       e_lineage_id = e_lineage_id e, e_branch_id = e_branch_id e, e_actor_id = e_actor_id e,
       e_client_id = e_client_id e, e_transport_binding_id = e_transport_binding_id e,
       e_session_id = e_session_id e, e_ingress_id = e_ingress_id e, e_operation = op,
       e_memory_id = e_memory_id e, e_expected_revision = e_expected_revision e,
       e_causation_event_id = e_causation_event_id e, e_correlation_id = e_correlation_id e,
       e_idempotency_key = e_idempotency_key e, e_policy_version = e_policy_version e,
       e_normalization_version = e_normalization_version e, e_payload = e_payload e,
       e_payload_canonical = b64encode (er_payload_canonical row),
       e_payload_sha256 = bytes_hex (er_payload_sha256 row),
       e_command_sha256 = bytes_hex (er_command_sha256 row), e_created_at = raw_utc (e_created_at e) \<rparr>"
    and "er_operation row = event_operation_value (e_operation e)" and "er_sequence row = e_sequence e"
    and "er_event_id row = e_event_id e" and "er_tenant_id row = e_tenant_id e"
    and "er_client_id row = e_client_id e" and "er_idempotency_key row = e_idempotency_key e"
proof -
  obtain c p d where "b64decode (e_payload_canonical e) = Inr c" "bytes_fromhex (e_payload_sha256 e) = Inr p"
      "bytes_fromhex (e_command_sha256 e) = Inr d"
    using assms unfolding event_row_of_def rbind_eq_Inr by blast
  note row = assms[unfolded event_row_of_def this rbind_simps sum.inject, symmetric]
  show "er_operation row = event_operation_value (e_operation e)" "er_sequence row = e_sequence e"
    "er_event_id row = e_event_id e" "er_tenant_id row = e_tenant_id e"
    "er_client_id row = e_client_id e" "er_idempotency_key row = e_idempotency_key e"
    by (simp_all add: row)
  show "event_row_raw row op =
     \<lparr> e_schema_version = e_schema_version e, e_payload_version = e_payload_version e,
       e_sequence = e_sequence e, e_event_id = e_event_id e, e_tenant_id = e_tenant_id e,
       e_lineage_id = e_lineage_id e, e_branch_id = e_branch_id e, e_actor_id = e_actor_id e,
       e_client_id = e_client_id e, e_transport_binding_id = e_transport_binding_id e,
       e_session_id = e_session_id e, e_ingress_id = e_ingress_id e, e_operation = op,
       e_memory_id = e_memory_id e, e_expected_revision = e_expected_revision e,
       e_causation_event_id = e_causation_event_id e, e_correlation_id = e_correlation_id e,
       e_idempotency_key = e_idempotency_key e, e_policy_version = e_policy_version e,
       e_normalization_version = e_normalization_version e, e_payload = e_payload e,
       e_payload_canonical = b64encode (er_payload_canonical row),
       e_payload_sha256 = bytes_hex (er_payload_sha256 row),
       e_command_sha256 = bytes_hex (er_command_sha256 row), e_created_at = raw_utc (e_created_at e) \<rparr>"
    by (simp add: row event_row_raw_def)
qed

lemma recoded_normalized:
  assumes "event_row_of e = Inr row" "constructed L e"
  shows "event_normalize (event_row_raw row (e_operation e)) = Inr (recoded e)"
  unfolding event_row_fields(1)[OF assms(1)] event_row_parts(2,3)[OF assms] recoded_eq[OF assms] event_normalize_def
  by (simp add: constructed_parts(6)[OF assms(2)])

lemma recanonical_fields:
  fixes e :: "'t memory_event"
  shows "e_schema_version (e\<lparr> e_payload_canonical := c \<rparr>) = e_schema_version e"
    "e_payload_version (e\<lparr> e_payload_canonical := c \<rparr>) = e_payload_version e"
    "e_sequence (e\<lparr> e_payload_canonical := c \<rparr>) = e_sequence e"
    "e_event_id (e\<lparr> e_payload_canonical := c \<rparr>) = e_event_id e"
    "e_tenant_id (e\<lparr> e_payload_canonical := c \<rparr>) = e_tenant_id e"
    "e_lineage_id (e\<lparr> e_payload_canonical := c \<rparr>) = e_lineage_id e"
    "e_branch_id (e\<lparr> e_payload_canonical := c \<rparr>) = e_branch_id e"
    "e_actor_id (e\<lparr> e_payload_canonical := c \<rparr>) = e_actor_id e"
    "e_client_id (e\<lparr> e_payload_canonical := c \<rparr>) = e_client_id e"
    "e_transport_binding_id (e\<lparr> e_payload_canonical := c \<rparr>) = e_transport_binding_id e"
    "e_session_id (e\<lparr> e_payload_canonical := c \<rparr>) = e_session_id e"
    "e_ingress_id (e\<lparr> e_payload_canonical := c \<rparr>) = e_ingress_id e"
    "e_operation (e\<lparr> e_payload_canonical := c \<rparr>) = e_operation e"
    "e_memory_id (e\<lparr> e_payload_canonical := c \<rparr>) = e_memory_id e"
    "e_expected_revision (e\<lparr> e_payload_canonical := c \<rparr>) = e_expected_revision e"
    "e_causation_event_id (e\<lparr> e_payload_canonical := c \<rparr>) = e_causation_event_id e"
    "e_correlation_id (e\<lparr> e_payload_canonical := c \<rparr>) = e_correlation_id e"
    "e_idempotency_key (e\<lparr> e_payload_canonical := c \<rparr>) = e_idempotency_key e"
    "e_policy_version (e\<lparr> e_payload_canonical := c \<rparr>) = e_policy_version e"
    "e_normalization_version (e\<lparr> e_payload_canonical := c \<rparr>) = e_normalization_version e"
    "e_payload (e\<lparr> e_payload_canonical := c \<rparr>) = e_payload e"
    "e_payload_sha256 (e\<lparr> e_payload_canonical := c \<rparr>) = e_payload_sha256 e"
    "e_command_sha256 (e\<lparr> e_payload_canonical := c \<rparr>) = e_command_sha256 e"
    "e_created_at (e\<lparr> e_payload_canonical := c \<rparr>) = e_created_at e"
    "e_payload_canonical (e\<lparr> e_payload_canonical := c \<rparr>) = c"
  by simp_all

lemma recoded_valid:
  assumes "event_row_of e = Inr row" "constructed L e"
  shows "typed_payload L (recoded e) = typed_payload L e" "verify_hashes L (recoded e) = Inr ()"
    "validate_event_envelope_shape (recoded e) = Inr ()"
    "event_field_constraints (recoded e) = Inr ()" "event_uuid7_fields (recoded e) = Inr ()"
proof -
  note r = recoded_eq[OF assms] and v = constructed_parts[OF assms(2)] and p = event_row_parts[OF assms]
  note f = recanonical_fields
  show typed: "typed_payload L (recoded e) = typed_payload L e"
    unfolding typed_payload_def r f ..
  show "validate_event_envelope_shape (recoded e) = Inr ()"
    using v(3) unfolding validate_event_envelope_shape_def r f .
  show "event_uuid7_fields (recoded e) = Inr ()"
    using v(2) unfolding event_uuid7_fields_def r f .
  show "event_field_constraints (recoded e) = Inr ()"
    using v(1) unfolding event_field_constraints_def r f b64_length[OF p(1)] .
  have "command_material (recoded e) = command_material e" unfolding command_material_def r f ..
  with v(5) show "verify_hashes L (recoded e) = Inr ()"
    unfolding verify_hashes_def typed p(1) unfolding r f b64decode_encode by (simp only:)
qed

lemma event_row_roundtrip:
  assumes "event_row_of e = Inr row" "constructed L e"
  shows "event_row_to_domain L row = Inr (recoded e)"
proof -
  let ?raw = "event_row_raw row (e_operation e)"
  have n: "event_normalize ?raw = Inr (recoded e)" using assms by (rule recoded_normalized)
  note v = recoded_valid[OF assms]
  have "validate_memory_event L ?raw = Inr (recoded e)"
    unfolding validate_memory_event_iff v(1)
    using v(2-5) n normalize_fields(1,2)[OF n] constructed_parts(4)[OF assms(2)] by simp
  then show ?thesis
    by (simp add: event_row_to_domain_def operation_enum.parse_value event_row_fields(2)[OF assms(1)])
qed

text \<open>A successful append, step by step.\<close>

lemma append_memory_event_cases:
  assumes "append_memory_event L now legacy builder s = Inr (e, s')"
  obtains n binding a c inst ingress row rows where
    "es_next_sequence s = Some n" "build_and_validate L builder n = Inr e"
    "binding_identities e s = [(binding, a, c, inst)]" "check_binding now binding a c inst = Inr ()"
    "validate_transport L legacy binding e = Inr ()" "lock_github_ingress binding e s = Inr ingress"
    "event_row_of e = Inr row" "insert_event_row row (es_events s) = Inr rows"
    "s' = s\<lparr> es_events := rows, es_next_sequence := Some (n + 1),
            es_ingress_items := (case ingress of None \<Rightarrow> es_ingress_items s
              | Some i \<Rightarrow> map (accept_ingress now e i) (es_ingress_items s)) \<rparr>"
proof -
  have u: "append_memory_event_unsafe L now legacy builder s = Inr (e, s')"
    using assms by (auto simp: append_memory_event_def split: sum.splits exn.splits if_splits)
  then obtain n where n: "es_next_sequence s = Some n"
    by (cases "es_next_sequence s") (simp_all add: append_memory_event_unsafe_def)
  from u[unfolded append_memory_event_unsafe_def n option.case] show thesis
  proof (elim rbind_InrE)
    fix e' idn
    assume b: "build_and_validate L builder n = Inr e'" "scalar_one_or_none (binding_identities e' s) = Inr idn"
      and k: "(case idn of
            None \<Rightarrow> Inl (EventStoreError ''binding_not_found'' ''transport binding is unavailable'')
          | Some (binding, actor_revoked_at, client_revoked_at, installation) \<Rightarrow>
              rbind (check_binding now binding actor_revoked_at client_revoked_at installation) (\<lambda>_.
              rbind (validate_transport L legacy binding e') (\<lambda>_.
              rbind (lock_github_ingress binding e' s) (\<lambda>ingress.
              rbind (event_row_of e') (\<lambda>row.
              rbind (insert_event_row row (es_events s)) (\<lambda>events.
                Inr (e', s\<lparr> es_events := events, es_next_sequence := Some (n + 1),
                  es_ingress_items := (case ingress of
                     None \<Rightarrow> es_ingress_items s
                   | Some i \<Rightarrow> map (accept_ingress now e' i) (es_ingress_items s)) \<rparr>))))))) = Inr (e, s')"
    from k obtain binding a c inst where i: "idn = Some (binding, a, c, inst)"
      by (cases idn) (simp, metis prod_cases4)
    with b(2) have one: "binding_identities e' s = [(binding, a, c, inst)]"
      by (auto simp: scalar_one_or_none_def split: list.splits)
    from k[unfolded i option.case prod.case] show thesis
      unfolding sum.inject prod.inject
      by (elim rbind_InrE) (unfold sum.inject prod.inject, elim conjE, hypsubst, rule that[OF n], use b one in simp_all)
  qed
qed

lemma built_event: "build_and_validate L builder n = Inr e \<Longrightarrow> builder n = Inr e \<and> e_sequence e = n"
  by (auto simp: build_and_validate_def split: sum.splits if_splits)

lemma inserted_row:
  assumes "insert_event_row row rows = Inr rows'"
  shows "rows' = rows @ [row]" "r \<in> set rows \<Longrightarrow> \<not> event_rows_clash row r"
  using assms by (auto simp: insert_event_row_def list_ex_iff split: if_splits)

text \<open>
  The stores the appends of validated events reach from an empty log, whatever else happens to
  the identity tables in between.
\<close>

inductive event_log :: "'z library_scheme \<Rightarrow> event_store \<Rightarrow> event list \<Rightarrow> bool" for L where
  empty: "es_events s = [] \<Longrightarrow> es_next_sequence s = Some 1 \<Longrightarrow> event_log L s []"
| append: "event_log L s es \<Longrightarrow> append_memory_event L now legacy builder s = Inr (e, s') \<Longrightarrow>
    constructed L e \<Longrightarrow> event_log L s' (es @ [e])"
| other: "event_log L s es \<Longrightarrow> es_events s' = es_events s \<Longrightarrow> es_next_sequence s' = es_next_sequence s \<Longrightarrow>
    event_log L s' es"

definition event_key :: "event \<Rightarrow> uuid \<times> uuid \<times> pystr" where
  "event_key e = (e_tenant_id e, e_client_id e, e_idempotency_key e)"

lemma stored_clash:
  "event_row_of e = Inr r \<Longrightarrow> event_row_of e' = Inr r' \<Longrightarrow>
   event_rows_clash r r' \<longleftrightarrow> e_sequence e = e_sequence e' \<or> e_event_id e = e_event_id e' \<or> event_key e = event_key e'"
  by (auto simp: event_rows_clash_def event_key_def event_row_fields(3-7))

lemma append_memory_event_rows:
  assumes "append_memory_event L now legacy builder s = Inr (e, s')"
  obtains row where "es_next_sequence s = Some (e_sequence e)" "event_row_of e = Inr row"
    "es_events s' = es_events s @ [row]" "es_next_sequence s' = Some (e_sequence e + 1)"
    "\<forall>r \<in> set (es_events s). \<not> event_rows_clash row r"
  using assms
proof (rule append_memory_event_cases)
  fix n binding a c inst ingress row rows
  assume n: "es_next_sequence s = Some n" and b: "build_and_validate L builder n = Inr e"
    and row: "event_row_of e = Inr row" and ins: "insert_event_row row (es_events s) = Inr rows"
    and s': "s' = s\<lparr> es_events := rows, es_next_sequence := Some (n + 1),
            es_ingress_items := (case ingress of None \<Rightarrow> es_ingress_items s
              | Some i \<Rightarrow> map (accept_ingress now e i) (es_ingress_items s)) \<rparr>"
  have "e_sequence e = n" using built_event[OF b] ..
  then show thesis using that[OF _ row] inserted_row(2)[OF ins] n inserted_row(1)[OF ins] by (simp add: s')
qed

lemma list_all2_partner: "list_all2 P xs ys \<Longrightarrow> x \<in> set xs \<Longrightarrow> \<exists>y \<in> set ys. P x y"
  by (induction rule: list_all2_induct) auto

definition log_inv :: "'z library_scheme \<Rightarrow> event_store \<Rightarrow> event list \<Rightarrow> bool" where
  "log_inv L s es \<longleftrightarrow>
     list_all2 (\<lambda>e r. event_row_of e = Inr r \<and> constructed L e) es (es_events s)
     \<and> es_next_sequence s = Some (int (length es) + 1) \<and> map e_sequence es = [1..int (length es)]
     \<and> distinct (map e_event_id es) \<and> distinct (map event_key es)"

lemma log_inv_append:
  assumes inv: "log_inv L s es" and a: "append_memory_event L now legacy builder s = Inr (e, s')"
    and c: "constructed L e"
  shows "log_inv L s' (es @ [e])"
proof -
  note inv = inv[unfolded log_inv_def]
  obtain row where row: "es_next_sequence s = Some (e_sequence e)" "event_row_of e = Inr row"
    "es_events s' = es_events s @ [row]" "es_next_sequence s' = Some (e_sequence e + 1)"
    and free: "\<forall>r \<in> set (es_events s). \<not> event_rows_clash row r"
    using a by (rule append_memory_event_rows)
  have n: "e_sequence e = int (length es) + 1" using inv row(1) by simp
  have fresh: "e_event_id e \<noteq> e_event_id x \<and> event_key e \<noteq> event_key x" if x: "x \<in> set es" for x
    using list_all2_partner[OF conjunct1[OF inv] x] stored_clash[OF row(2)] free by blast
  have seq: "[1..int (length es) + 1] = [1..int (length es)] @ [int (length es) + 1]"
    using upto_rec2[of 1 "int (length es) + 1"] by simp
  have "list_all2 (\<lambda>e r. event_row_of e = Inr r \<and> constructed L e) (es @ [e]) (es_events s')"
    unfolding row(3) using inv row(2) c by (intro list_all2_appendI) simp_all
  moreover have "map e_sequence (es @ [e]) = [1..int (length (es @ [e]))]"
    using inv n seq by (simp add: add.commute)
  moreover have "e_event_id e \<notin> set (map e_event_id es)" "event_key e \<notin> set (map event_key es)"
    using fresh by fastforce+
  ultimately show ?thesis unfolding log_inv_def using inv row(4) n by simp
qed

lemma event_log_inv: "event_log L s es \<Longrightarrow> log_inv L s es"
  by (induction rule: event_log.induct) (auto simp: log_inv_def[of L _ "[]"] intro: log_inv_append, simp add: log_inv_def)

lemma traverse_stored:
  "list_all2 (\<lambda>e r. event_row_of e = Inr r \<and> constructed L e) es rows \<Longrightarrow>
   traverse (event_row_to_domain L) rows = Inr (map recoded es)"
  by (induction rule: list_all2_induct) (auto simp: event_row_roundtrip)

lemma stored_filter:
  "list_all2 (\<lambda>e r. event_row_of e = Inr r \<and> constructed L e) es rows \<Longrightarrow>
   list_all2 (\<lambda>e r. event_row_of e = Inr r \<and> constructed L e)
     (filter (\<lambda>e. p (e_tenant_id e)) es) (filter (\<lambda>r. p (er_tenant_id r)) rows)"
  by (induction rule: list_all2_induct) (auto simp: event_row_fields(5))

lemma stored_sequences:
  "list_all2 (\<lambda>e r. event_row_of e = Inr r \<and> constructed L e) es rows \<Longrightarrow> map er_sequence rows = map e_sequence es"
  by (induction rule: list_all2_induct) (auto simp: event_row_fields(3))

lemma load_stored:
  assumes "list_all2 (\<lambda>e r. event_row_of e = Inr r \<and> constructed L e) es (es_events s)" "sorted (map e_sequence es)"
  shows "load_verified_events L tenant s =
    Inr (map recoded (filter (\<lambda>e. tenant = None \<or> tenant = Some (e_tenant_id e)) es))"
proof -
  let ?rows = "filter (\<lambda>r. tenant = None \<or> tenant = Some (er_tenant_id r)) (es_events s)"
  note f = stored_filter[OF assms(1), of "\<lambda>t. tenant = None \<or> tenant = Some t"]
  have "sorted (map er_sequence ?rows)"
    unfolding stored_sequences[OF f] using assms(2) by (rule sorted_filter)
  then show ?thesis unfolding load_verified_events_def by (simp only: sort_key_sorted traverse_stored[OF f])
qed


subsection \<open>What an accepted event satisfies\<close>

text \<open>
  A validated memory passes every structural rule on its own; only the two transport rules can
  still refuse it.
\<close>

lemma valid_memory_context:
  assumes "valid_memory m"
  shows "(case m_origin_session_id m of None \<Rightarrow> True | Some s \<Rightarrow> is_uuid7 s)"
    "validate_category_ontology (m_category m) (m_ontological_status m) = Inr ()"
    "0 \<le> m_sensitivity m \<and> m_sensitivity m \<le> 4" "scope_shape m = Inr ()"
    "m_visibility m = SHAREABLE \<Longrightarrow> m_sensitivity m \<le> 1"
    "m_visibility m = PUBLIC_SEED \<Longrightarrow> m_status m = ACTIVE \<and> m_sensitivity m = 0
       \<and> m_publication_approved_at m \<noteq> None \<and> m_publication_approved_by_actor_id m \<noteq> None"
proof -
  have f: "memory_field_constraints m = Inr ()" "memory_uuid7_fields m = Inr ()" "memory_model_validators m = Inr ()"
    using assms by (auto simp: valid_memory_def is_ok_iff)
  show "(case m_origin_session_id m of None \<Rightarrow> True | Some s \<Rightarrow> is_uuid7 s)"
    using f(2) by (auto simp: memory_uuid7_fields_def uuid7_field_def require_uuid7_def ok_simps split: option.splits if_splits)
  show "0 \<le> m_sensitivity m \<and> m_sensitivity m \<le> 4"
    using f(1) by (auto simp: memory_field_constraints_def ok_simps)
  show "validate_category_ontology (m_category m) (m_ontological_status m) = Inr ()" "scope_shape m = Inr ()"
    using f(3) unfolding memory_model_validators_def
    by (cases "m_class m"; auto simp: validate_state_shape_def validate_state_shape_v3_def elim!: rbind_InrE)+
  show "m_visibility m = SHAREABLE \<Longrightarrow> m_sensitivity m \<le> 1"
    "m_visibility m = PUBLIC_SEED \<Longrightarrow> m_status m = ACTIVE \<and> m_sensitivity m = 0
       \<and> m_publication_approved_at m \<noteq> None \<and> m_publication_approved_by_actor_id m \<noteq> None"
    using f(3) unfolding memory_model_validators_def
    by (cases "m_class m"; auto simp: validate_state_shape_def validate_state_shape_v3_def Let_def ok_simps
          elim!: rbind_InrE)+
qed

lemma scope_rules:
  assumes "scope_shape m = Inr ()"
  shows "m_scope m = SC_GLOBAL \<Longrightarrow> m_subject_kind m = SUBJ_GLOBAL"
    "m_scope m = SC_GLOBAL \<Longrightarrow> m_ontological_status m \<noteq> FICTIONAL_OR_ROLEPLAYED_SCENE"
    "SCOPED_SUBJECT_KINDS (m_scope m) \<noteq> None \<Longrightarrow> Some (m_subject_kind m) = SCOPED_SUBJECT_KINDS (m_scope m)"
    "m_scope m = SC_EPISODIC \<Longrightarrow> m_origin_session_id m \<noteq> None \<or> m_authority_class m = IMPORTED_LEGACY_MEMORY"
    "m_scope m = SC_SCENE_LOCAL \<Longrightarrow> m_subject_kind m = SUBJ_SCENE \<and> m_origin_session_id m \<noteq> None
       \<and> m_visibility m \<notin> {SHAREABLE, PUBLIC_SEED}"
  using assms by (cases "m_scope m"; auto simp: scope_shape_def ok_simps)+

text \<open>
  C19. For a validated memory the constraint check of the event store agrees with the two
  transport rules: GitHub ingress may not write global or scene-local memory and the relay may
  not carry sensitivity four. Every other rule already follows from the model's validation.
\<close>

theorem after_image_constraints_exact:
  assumes "valid_memory m"
  shows "validate_memory_constraints (constraint_context kind m) = Inr () \<longleftrightarrow>
    \<not> (kind = GITHUB_INGRESS \<and> m_scope m \<in> {SC_GLOBAL, SC_SCENE_LOCAL})
    \<and> \<not> (kind = RELAY \<and> m_sensitivity m = 4)"
  using valid_memory_context[OF assms] scope_rules[OF valid_memory_context(4)[OF assms]]
  unfolding validate_memory_constraints_def constraint_context_def constraint_rules_def
  by (cases "m_origin_session_id m") (simp_all add: ok_simps Let_def, (safe; fastforce)+)

lemma binding_identities_member:
  assumes "(b, a, c, i) \<in> set (binding_identities e s)"
  shows "b \<in> set (es_bindings s)" "tb_tenant_id b = e_tenant_id e" "tb_transport_binding_id b = e_transport_binding_id e"
    "tb_actor_id b = e_actor_id e" "tb_client_id b = e_client_id e"
    "\<exists>x \<in> set (es_actors s). ac_tenant_id x = e_tenant_id e \<and> ac_actor_id x = e_actor_id e \<and> ac_revoked_at x = a"
    "\<exists>x \<in> set (es_clients s). cl_tenant_id x = e_tenant_id e \<and> cl_client_id x = e_client_id e \<and> cl_revoked_at x = c"
  using assms by (auto simp: binding_identities_def Let_def split: if_splits)

lemma check_binding_ok:
  "check_binding now b a c i = Inr () \<Longrightarrow>
   a = None \<and> c = None \<and> (case tb_valid_until b of None \<Rightarrow> True | Some t \<Rightarrow> now < t)"
  by (auto simp: check_binding_def split: if_splits option.splits)

lemma validate_transport_ok:
  assumes "validate_transport L legacy binding e = Inr ()"
  shows "operation_is_authorized binding (e_operation e)"
    "e_ingress_id e \<noteq> None \<longleftrightarrow> tb_transport_kind binding = ''github_ingress''"
    "validate_after_image_constraints L legacy binding e = Inr ()"
  using assms by (auto simp: validate_transport_def split: if_splits elim!: rbind_InrE)

lemma after_images_sealed:
  assumes "validate_after_image_constraints L legacy binding e = Inr ()"
  shows "\<exists>payload. typed_payload L e = Inr payload \<and> (\<forall>m \<in> set (payload_memories payload).
    m_sensitivity m = 4 \<longrightarrow> is_v3 m \<or> legacy \<and> is_authorized_legacy_genesis_plaintext binding e payload m)"
proof -
  obtain kind payload us where p: "typed_payload L e = Inr payload"
      "traverse (validate_after_image legacy binding e payload kind) (payload_memories payload) = Inr us"
    using assms by (auto simp: validate_after_image_constraints_def split: option.splits elim!: rbind_InrE)
  have "is_v3 m \<or> legacy \<and> is_authorized_legacy_genesis_plaintext binding e payload m"
    if "m \<in> set (payload_memories payload)" "m_sensitivity m = 4" for m
  proof -
    from traverse_member[OF p(2) that(1)] obtain u where "validate_after_image legacy binding e payload kind m = Inr u"
      by blast
    with that(2) show ?thesis by (auto simp: validate_after_image_def split: sum.splits exn.splits if_splits)
  qed
  with p(1) show ?thesis by blast
qed

text \<open>
  C17. An event enters the log only through a transport binding of its tenant, actor and client
  that lists its operation, has not expired and whose actor and client are not revoked; it names
  an ingress item exactly when the binding is the GitHub one; and every sensitivity-four memory
  it writes is sealed, the frozen first import apart.
\<close>

theorem append_memory_event_authorized:
  assumes "append_memory_event L now legacy builder s = Inr (e, s')"
  shows "\<exists>binding \<in> set (es_bindings s).
    tb_tenant_id binding = e_tenant_id e \<and> tb_transport_binding_id binding = e_transport_binding_id e
    \<and> tb_actor_id binding = e_actor_id e \<and> tb_client_id binding = e_client_id e
    \<and> operation_is_authorized binding (e_operation e)
    \<and> (case tb_valid_until binding of None \<Rightarrow> True | Some t \<Rightarrow> now < t)
    \<and> (\<exists>a \<in> set (es_actors s). ac_tenant_id a = e_tenant_id e \<and> ac_actor_id a = e_actor_id e
         \<and> ac_revoked_at a = None)
    \<and> (\<exists>c \<in> set (es_clients s). cl_tenant_id c = e_tenant_id e \<and> cl_client_id c = e_client_id e
         \<and> cl_revoked_at c = None)
    \<and> (e_ingress_id e \<noteq> None \<longleftrightarrow> tb_transport_kind binding = ''github_ingress'')
    \<and> (\<exists>payload. typed_payload L e = Inr payload \<and> (\<forall>m \<in> set (payload_memories payload).
         m_sensitivity m = 4 \<longrightarrow>
           is_v3 m \<or> legacy \<and> is_authorized_legacy_genesis_plaintext binding e payload m))"
  using assms
proof (rule append_memory_event_cases)
  fix n binding a c inst ingress row rows
  assume one: "binding_identities e s = [(binding, a, c, inst)]" and "check_binding now binding a c inst = Inr ()"
    and t: "validate_transport L legacy binding e = Inr ()"
  then have c: "a = None \<and> c = None \<and> (case tb_valid_until binding of None \<Rightarrow> True | Some t \<Rightarrow> now < t)"
    by (intro check_binding_ok)
  have "(binding, a, c, inst) \<in> set (binding_identities e s)" by (simp add: one)
  from binding_identities_member[OF this] c validate_transport_ok(1,2)[OF t]
    after_images_sealed[OF validate_transport_ok(3)[OF t]]
  show ?thesis by (intro bexI[of _ binding]) simp_all
qed

text \<open>An ingress item is accepted once.\<close>

lemma append_ingress:
  assumes "append_memory_event L now legacy builder s = Inr (e, s')" "e_ingress_id e = Some i"
  obtains item where "filter (\<lambda>x. ii_tenant_id x = e_tenant_id e \<and> ii_ingress_id x = i) (es_ingress_items s) = [item]"
    "ii_state item = ''validated''" "ii_declared_idempotency_key item = Some (e_idempotency_key e)"
    "es_ingress_items s' = map (accept_ingress now e item) (es_ingress_items s)"
  using assms(1)
proof (rule append_memory_event_cases)
  fix n binding a c inst ingress row rows
  assume t: "validate_transport L legacy binding e = Inr ()" and lock: "lock_github_ingress binding e s = Inr ingress"
    and s': "s' = s\<lparr> es_events := rows, es_next_sequence := Some (n + 1),
            es_ingress_items := (case ingress of None \<Rightarrow> es_ingress_items s
              | Some i \<Rightarrow> map (accept_ingress now e i) (es_ingress_items s)) \<rparr>"
  have "tb_transport_kind binding = ''github_ingress''" using validate_transport_ok(2)[OF t] assms(2) by simp
  with lock obtain item where f: "filter (\<lambda>x. ii_tenant_id x = e_tenant_id e \<and> Some (ii_ingress_id x) = e_ingress_id e)
        (es_ingress_items s) = [item]" and v: "validate_ingress_item item binding e = Inr ()" "ingress = Some item"
    by (auto simp: lock_github_ingress_def scalar_one_or_none_def split: option.splits list.splits elim!: rbind_InrE)
  show thesis
    by (rule that[OF f[unfolded assms(2) option.inject]])
      (use v in \<open>auto simp: validate_ingress_item_def s' split: if_splits\<close>)
qed

lemma accept_ingress_ids [simp]:
  "ii_tenant_id (accept_ingress now e item x) = ii_tenant_id x" "ii_ingress_id (accept_ingress now e item x) = ii_ingress_id x"
  by (simp_all add: accept_ingress_def)

lemma append_ingress_state:
  assumes "append_memory_event L now legacy builder s = Inr (e, s')" "e_ingress_id e = Some i"
    "filter (\<lambda>x. ii_tenant_id x = e_tenant_id e \<and> ii_ingress_id x = i) (es_ingress_items s) = [item]"
  shows "ii_state item = ''validated''"
  using assms(1,2) by (rule append_ingress) (use assms(3) in simp)

text \<open>
  C18. An accepted GitHub event consumes its ingress item: the item was unique, validated and
  declared the event's idempotency key; afterwards it is marked accepted with the event's id, and
  no append on the resulting tables accepts another event for it.
\<close>

theorem ingress_item_consumed:
  assumes "append_memory_event L now legacy builder s = Inr (e, s')" "e_ingress_id e = Some i"
  shows "(\<exists>item. filter (\<lambda>x. ii_tenant_id x = e_tenant_id e \<and> ii_ingress_id x = i) (es_ingress_items s) = [item]
      \<and> ii_state item = ''validated'' \<and> ii_declared_idempotency_key item = Some (e_idempotency_key e)
      \<and> filter (\<lambda>x. ii_tenant_id x = e_tenant_id e \<and> ii_ingress_id x = i) (es_ingress_items s') =
          [item\<lparr> ii_state := ''accepted'', ii_result_event_id := Some (e_event_id e),
                 ii_result_memory_id := e_memory_id e, ii_processed_at := Some now \<rparr>])
    \<and> \<not> (\<exists>now' legacy' builder' e2 s2. append_memory_event L now' legacy' builder' s' = Inr (e2, s2)
           \<and> e_tenant_id e2 = e_tenant_id e \<and> e_ingress_id e2 = Some i)"
proof -
  obtain item where item: "filter (\<lambda>x. ii_tenant_id x = e_tenant_id e \<and> ii_ingress_id x = i) (es_ingress_items s) = [item]"
    "ii_state item = ''validated''" "ii_declared_idempotency_key item = Some (e_idempotency_key e)"
    "es_ingress_items s' = map (accept_ingress now e item) (es_ingress_items s)"
    using assms by (rule append_ingress)
  have ids: "ii_tenant_id item = e_tenant_id e" "ii_ingress_id item = i"
    using arg_cong[OF item(1), of set] by auto
  let ?accepted = "item\<lparr> ii_state := ''accepted'', ii_result_event_id := Some (e_event_id e),
             ii_result_memory_id := e_memory_id e, ii_processed_at := Some now \<rparr>"
  have f: "filter (\<lambda>x. ii_tenant_id x = e_tenant_id e \<and> ii_ingress_id x = i) (es_ingress_items s') = [?accepted]"
    unfolding item(4) filter_map o_def accept_ingress_ids item(1) by (simp add: accept_ingress_def)
  have "\<not> (append_memory_event L now' legacy' builder' s' = Inr (e2, s2)
      \<and> e_tenant_id e2 = e_tenant_id e \<and> e_ingress_id e2 = Some i)" for now' legacy' builder' e2 s2
    using append_ingress_state[of L now' legacy' builder' s' e2 s2 i ?accepted] f by auto
  with item f show ?thesis by blast
qed

subsection \<open>A sample append\<close>

lemma constructedI:
  assumes "event_field_constraints e = Inr ()" "event_uuid7_fields e = Inr ()"
    "validate_event_envelope_shape e = Inr ()" "is_ok (typed_payload L e)" "verify_hashes L e = Inr ()"
    "utc_field ''created_at'' (raw_utc (e_created_at e)) = Inr (e_created_at e)"
  shows "constructed L e"
proof -
  let ?raw = "\<lparr> e_schema_version = e_schema_version e, e_payload_version = e_payload_version e,
       e_sequence = e_sequence e, e_event_id = e_event_id e, e_tenant_id = e_tenant_id e,
       e_lineage_id = e_lineage_id e, e_branch_id = e_branch_id e, e_actor_id = e_actor_id e,
       e_client_id = e_client_id e, e_transport_binding_id = e_transport_binding_id e,
       e_session_id = e_session_id e, e_ingress_id = e_ingress_id e, e_operation = e_operation e,
       e_memory_id = e_memory_id e, e_expected_revision = e_expected_revision e,
       e_causation_event_id = e_causation_event_id e, e_correlation_id = e_correlation_id e,
       e_idempotency_key = e_idempotency_key e, e_policy_version = e_policy_version e,
       e_normalization_version = e_normalization_version e, e_payload = e_payload e,
       e_payload_canonical = e_payload_canonical e, e_payload_sha256 = e_payload_sha256 e,
       e_command_sha256 = e_command_sha256 e, e_created_at = raw_utc (e_created_at e) \<rparr>"
  have n: "event_normalize ?raw = Inr e" by (simp add: event_normalize_def assms(6))
  have "validate_memory_event L ?raw = Inr e"
    unfolding validate_memory_event_iff using n normalize_fields(1,2)[OF n] assms(1-5) by simp
  then show ?thesis unfolding constructed_def by blast
qed

definition sample_binding :: "string \<Rightarrow> uuid option \<Rightarrow> transport_binding" where
  "sample_binding kind installation =
     \<lparr> tb_transport_binding_id = sid 8, tb_tenant_id = sid 30, tb_actor_id = sid 6, tb_client_id = sid 7,
       tb_installation_id = installation, tb_transport_kind = kind,
       tb_authorized_operations = [(lit ''operations'', JArr [JStr (lit ''branch_created''), JStr (lit ''remembered'')])],
       tb_valid_until = Some 9000 \<rparr>"

definition sample_store :: "string \<Rightarrow> uuid option \<Rightarrow> int \<Rightarrow> ingress_item list \<Rightarrow> event_store" where
  "sample_store kind installation n items =
     \<lparr> es_next_sequence = Some n, es_events = [], es_bindings = [sample_binding kind installation],
       es_actors = [\<lparr> ac_tenant_id = sid 30, ac_actor_id = sid 6, ac_revoked_at = None \<rparr>],
       es_clients = [\<lparr> cl_tenant_id = sid 30, cl_client_id = sid 7, cl_transport_kind = kind, cl_revoked_at = None \<rparr>],
       es_installations = (case installation of None \<Rightarrow> []
         | Some i \<Rightarrow> [\<lparr> in_tenant_id = sid 30, in_installation_id = i, in_revoked_at = None \<rparr>]),
       es_ingress_items = items \<rparr>"

definition sample_row :: "event \<Rightarrow> event_row" where
  "sample_row e = (case event_row_of e of Inr row \<Rightarrow> row)"

lemma sample_bytes: "bytes_fromhex (replicate 64 CHR ''0'') = Inr (replicate 32 0)"
  by code_simp

lemma sample_more_uuid7: "is_uuid7 (sid 6)" "is_uuid7 (sid 7)" "is_uuid7 (sid 8)" "is_uuid7 (sid 9)"
  "is_uuid7 (sid 40)" "is_uuid7 (sid 101)" "is_uuid7 (sid 102)"
  by (simp_all add: sid_def is_uuid7_def uuid_version_def uuid_variant_def)

lemma sample_select_more [simp]:
  "e_actor_id (sample_event n op b m r) = sid 6" "e_client_id (sample_event n op b m r) = sid 7"
  "e_transport_binding_id (sample_event n op b m r) = sid 8" "e_session_id (sample_event n op b m r) = None"
  "e_ingress_id (sample_event n op b m r) = None" "e_correlation_id (sample_event n op b m r) = sid 9"
  "e_idempotency_key (sample_event n op b m r) = lit ''k''"
  "e_policy_version (sample_event n op b m r) = 1" "e_normalization_version (sample_event n op b m r) = 1"
  by (simp_all add: sample_event_def)

lemma sample_insert:
  "event_row_of (sample_event n op b m r) = Inr (sample_row (sample_event n op b m r))"
  "insert_event_row (sample_row (sample_event n op b m r)) [] = Inr [sample_row (sample_event n op b m r)]"
  by (simp_all add: sample_row_def insert_event_row_def event_row_of_def sample_bytes sample_digest
      del: b64decode.simps)

lemma sample_shape:
  "validate_event_envelope_shape (sample_event 1 OP_BRANCH_CREATED 3 None None) = Inr ()"
  "validate_event_envelope_shape (sample_event 2 OP_REMEMBERED 3 (Some (sid 10)) None) = Inr ()"
  by (simp_all add: validate_event_envelope_shape_def CREATE_OPERATIONS_def TRANSITION_OPERATIONS_def
      EVIDENCE_OPERATIONS_def AGGREGATE_OPERATIONS_def)

lemma sample_built:
  "build_and_validate sample_library (\<lambda>_. Inr (sample_event 1 OP_BRANCH_CREATED 3 None None)) 1 =
     Inr (sample_event 1 OP_BRANCH_CREATED 3 None None)"
  "build_and_validate sample_library (\<lambda>_. Inr (sample_event 2 OP_REMEMBERED 3 (Some (sid 10)) None)) 2 =
     Inr (sample_event 2 OP_REMEMBERED 3 (Some (sid 10)) None)"
  by (simp_all add: build_and_validate_def sample_shape sample_typed_payload sample_verified)

lemma sample_identities:
  "e_tenant_id e = sid 30 \<Longrightarrow> e_transport_binding_id e = sid 8 \<Longrightarrow> e_actor_id e = sid 6 \<Longrightarrow> e_client_id e = sid 7 \<Longrightarrow>
   binding_identities e (sample_store kind None n items) = [(sample_binding kind None, None, None, None)]"
  "e_tenant_id e = sid 30 \<Longrightarrow> e_transport_binding_id e = sid 8 \<Longrightarrow> e_actor_id e = sid 6 \<Longrightarrow> e_client_id e = sid 7 \<Longrightarrow>
   binding_identities e (sample_store kind (Some i) n items) =
     [(sample_binding kind (Some i), None, None, Some \<lparr> in_tenant_id = sid 30, in_installation_id = i, in_revoked_at = None \<rparr>)]"
  by (simp_all add: binding_identities_def sample_store_def sample_binding_def)

lemma sample_authorized:
  "operation_is_authorized (sample_binding kind i) OP_BRANCH_CREATED"
  "operation_is_authorized (sample_binding kind i) OP_REMEMBERED"
  by (simp_all add: operation_is_authorized_def sample_binding_def)

lemma sample_binding_select [simp]:
  "tb_transport_kind (sample_binding kind i) = kind" "tb_installation_id (sample_binding kind i) = i"
  "tb_valid_until (sample_binding kind i) = Some 9000"
  by (simp_all add: sample_binding_def)

lemma sample_transport_kind:
  "enum_parse transport_kind_value transport_kinds ''direct_private'' = Some DIRECT_PRIVATE"
  "enum_parse transport_kind_value transport_kinds ''github_ingress'' = Some GITHUB_INGRESS"
  by code_simp+

lemma sample_after_image:
  "validate_after_image False b e p DIRECT_PRIVATE (sample_memory 2000 2000 1 ACTIVE ENVELOPE_ENCRYPTED) = Inr ()"
  by (simp add: validate_after_image_def validate_memory_constraints_def constraint_context_def
      constraint_rules_def sample_memory_def validate_category_ontology_def)

lemma sample_transport:
  "validate_transport sample_library False (sample_binding ''direct_private'' None)
     (sample_event 1 OP_BRANCH_CREATED 3 None None) = Inr ()"
  "validate_transport sample_library False (sample_binding ''direct_private'' None)
     (sample_event 2 OP_REMEMBERED 3 (Some (sid 10)) None) = Inr ()"
  by (simp_all add: validate_transport_def sample_authorized validate_after_image_constraints_def
      sample_transport_kind sample_typed_payload) (simp_all add: sample_payload_def sample_after_image)

lemma sample_append:
  "append_memory_event sample_library 8000 False (\<lambda>_. Inr (sample_event 1 OP_BRANCH_CREATED 3 None None))
     (sample_store ''direct_private'' None 1 []) =
   Inr (sample_event 1 OP_BRANCH_CREATED 3 None None, (sample_store ''direct_private'' None 2 [])
     \<lparr> es_events := [sample_row (sample_event 1 OP_BRANCH_CREATED 3 None None)] \<rparr>)"
  "append_memory_event sample_library 8000 False (\<lambda>_. Inr (sample_event 2 OP_REMEMBERED 3 (Some (sid 10)) None))
     (sample_store ''direct_private'' None 2 []) =
   Inr (sample_event 2 OP_REMEMBERED 3 (Some (sid 10)) None, (sample_store ''direct_private'' None 3 [])
     \<lparr> es_events := [sample_row (sample_event 2 OP_REMEMBERED 3 (Some (sid 10)) None)] \<rparr>)"
proof -
  have n: "es_next_sequence (sample_store k i n items) = Some n" "es_events (sample_store k i n items) = []" for k i n items
    by (simp_all add: sample_store_def)
  show "append_memory_event sample_library 8000 False (\<lambda>_. Inr (sample_event 1 OP_BRANCH_CREATED 3 None None))
     (sample_store ''direct_private'' None 1 []) =
   Inr (sample_event 1 OP_BRANCH_CREATED 3 None None, (sample_store ''direct_private'' None 2 [])
     \<lparr> es_events := [sample_row (sample_event 1 OP_BRANCH_CREATED 3 None None)] \<rparr>)"
    by (simp add: append_memory_event_def append_memory_event_unsafe_def n sample_built sample_identities
      scalar_one_or_none_def check_binding_def sample_transport sample_insert lock_github_ingress_def)
     (simp add: sample_store_def)
  show "append_memory_event sample_library 8000 False (\<lambda>_. Inr (sample_event 2 OP_REMEMBERED 3 (Some (sid 10)) None))
     (sample_store ''direct_private'' None 2 []) =
   Inr (sample_event 2 OP_REMEMBERED 3 (Some (sid 10)) None, (sample_store ''direct_private'' None 3 [])
     \<lparr> es_events := [sample_row (sample_event 2 OP_REMEMBERED 3 (Some (sid 10)) None)] \<rparr>)"
    by (simp add: append_memory_event_def append_memory_event_unsafe_def n sample_built sample_identities
      scalar_one_or_none_def check_binding_def sample_transport sample_insert lock_github_ingress_def)
     (simp add: sample_store_def)
qed

lemma sample_constructed: "constructed sample_library (sample_event 1 OP_BRANCH_CREATED 3 None None)"
proof (rule constructedI)
  show "utc_field ''created_at'' (raw_utc (e_created_at (sample_event 1 OP_BRANCH_CREATED 3 None None))) =
      Inr (e_created_at (sample_event 1 OP_BRANCH_CREATED 3 None None))"
    using sample_time[of 1000] by (simp add: raw_utc_def sample_raw_def)
qed (simp_all add: event_field_constraints_def event_uuid7_fields_def uuid7_field_def require_uuid7_def sid_uuid7
    sample_more_uuid7 sample_shape sample_typed_payload sample_verified sample_digest safe_positive_def opt_all_def
    str_between_def lit_def)

lemma sample_recoded: "recoded (sample_event n op b m r) = sample_event n op b m r"
proof -
  have "b64encode [1, 2, 3] = ''AQID''" by code_simp
  then show ?thesis by (simp add: recoded_def sample_digest del: b64decode.simps)
qed


theorem after_image_constraints_exact_witness:
  "validate_memory_constraints (constraint_context SECURE_TUNNEL (sample_memory 2000 2000 1 ACTIVE ENVELOPE_ENCRYPTED)) = Inr ()
   \<and> validate_memory_constraints (constraint_context GITHUB_INGRESS (sample_memory 2000 2000 1 ACTIVE ENVELOPE_ENCRYPTED)) \<noteq> Inr ()"
proof -
  have "valid_memory (sample_memory 2000 2000 1 ACTIVE ENVELOPE_ENCRYPTED)"
    using sample_memory_valid[of 2000 2000 1 ACTIVE ENVELOPE_ENCRYPTED] by (intro validate_memory_valid) simp
  from after_image_constraints_exact[OF this, of SECURE_TUNNEL] after_image_constraints_exact[OF this, of GITHUB_INGRESS]
  show ?thesis by (simp add: sample_memory_def)
qed

theorem append_memory_event_authorized_witness:
  "\<exists>binding \<in> set (es_bindings (sample_store ''direct_private'' None 2 [])). operation_is_authorized binding OP_REMEMBERED"
  using append_memory_event_authorized[OF sample_append(2)] by fastforce

text \<open>A GitHub event: the library reads every payload as one persona memory.\<close>

definition github_memory :: "'t \<Rightarrow> 't memory_state" where
  "github_memory t = (sample_memory t t 1 ACTIVE ENVELOPE_ENCRYPTED)\<lparr> m_scope := SC_PERSONA, m_subject_kind := SUBJ_PERSONA \<rparr>"

definition github_library :: library where
  "github_library = sample_library\<lparr> pydantic_fields := \<lambda>_ _. Some (MemoryCreatedPayload (github_memory (sample_raw 2000)) []) \<rparr>"

definition github_event :: event where
  "github_event = (sample_event 2 OP_REMEMBERED 3 (Some (sid 10)) None)\<lparr> e_ingress_id := Some (sid 40) \<rparr>"

definition github_item :: ingress_item where
  "github_item = \<lparr> ii_ingress_id = sid 40, ii_tenant_id = sid 30, ii_transport_binding_id = sid 8,
     ii_installation_id = sid 41, ii_actor_id = sid 6, ii_client_id = sid 7, ii_provider = ''github'',
     ii_declared_idempotency_key = Some (lit ''k''), ii_state = ''validated'', ii_result_event_id = None,
     ii_result_memory_id = None, ii_error_code = None, ii_safe_diagnostic = None, ii_validated_at = Some 7000,
     ii_processed_at = None \<rparr>"

lemma github_memory_valid: "validate_memory (github_memory (sample_raw 2000)) = Inr (github_memory 2000)"
  by (simp add: validate_memory_def github_memory_def sample_memory_def memory_field_constraints_def memory_uuid7_fields_def
      memory_normalize_def memory_model_validators_def validate_state_shape_def scope_shape_def
      validate_candidate_expiry_def normalize_candidate_expiry_def utc_field_opt_def uuid7_field_def
      sample_time sample_score sid_uuid7 require_uuid7_def safe_positive_def str_between_def
      validate_category_ontology_def validity_inverted_def empty_text_def Let_def lit_def opt_all_def)

lemma github_typed: "typed_payload github_library github_event = Inr (MemoryCreatedPayload (github_memory 2000) [])"
proof -
  have "state_version (github_memory (sample_raw 2000)) = 1" by (simp add: github_memory_def state_version_def sample_memory_def)
  then show ?thesis
    by (simp add: typed_payload_def sample_models model_validate_def github_event_def github_library_def
        github_memory_valid validated_def)
qed

lemma github_verify: "verify_hashes github_library github_event = Inr ()"
proof -
  have h: "sha256_hexdigest github_library x = replicate 64 CHR ''0''" for x
    unfolding sha256_hexdigest_def github_library_def
    by (simp only: sample_library_def library.simps codec.simps sample_digest)
  have c: "canonical_json_bytes github_library v = Inr [1, 2, 3]"
    if "\<exists>j. normalize_json_value github_library MAX_CANONICAL_JSON_DEPTH v = Inr j" for v
    using that by (auto simp: canonical_json_bytes_def github_library_def sample_library_def)
  have "\<exists>j. normalize_json_value github_library MAX_CANONICAL_JSON_DEPTH
      (payload_dump (MemoryCreatedPayload (github_memory 2000) [])) = Inr j"
    by (simp add: normalize_json_value_def MAX_CANONICAL_JSON_DEPTH_def memory_dump_def github_memory_def sample_memory_def
        key_of_def py_opt_def sample_integer sample_decimal sample_py_utc
        normalize.simps[of _ _ _ _ "PyMapping _ _"] normalize.simps[of _ _ _ _ "PySequence _ _"])
  moreover have "\<exists>j. normalize_json_value github_library MAX_CANONICAL_JSON_DEPTH (command_material github_event) = Inr j"
    by (simp add: command_material_def command_object_def normalize_json_value_def github_event_def
      MAX_CANONICAL_JSON_DEPTH_def key_of_def py_opt_def sample_integer normalize.simps[of _ _ _ _ "PyMapping _ _"])
  moreover have "e_payload_canonical github_event = ''AQID''" "e_payload_sha256 github_event = replicate 64 CHR ''0''"
    "e_command_sha256 github_event = replicate 64 CHR ''0''" by (simp_all add: github_event_def)
  ultimately show ?thesis unfolding verify_hashes_ok using c h github_typed sample_digest(3) by metis
qed

lemma github_transport:
  "validate_transport github_library False (sample_binding ''github_ingress'' (Some (sid 41))) github_event = Inr ()"
proof -
  have "validate_after_image False b e p GITHUB_INGRESS (github_memory 2000) = Inr ()" for b e p
    by (simp add: validate_after_image_def validate_memory_constraints_def constraint_context_def
      constraint_rules_def github_memory_def sample_memory_def validate_category_ontology_def)
  moreover have "\<not> is_v3 (github_memory 2000)" by (simp add: is_v3_def github_memory_def sample_memory_def)
  moreover have "e_operation github_event = OP_REMEMBERED" "e_ingress_id github_event = Some (sid 40)"
    by (simp_all add: github_event_def)
  ultimately show ?thesis
    by (simp add: validate_transport_def sample_authorized after_images_def validate_after_image_constraints_def
      sample_transport_kind github_typed)
qed

lemma github_append:
  "\<exists>s'. append_memory_event github_library 8000 False (\<lambda>_. Inr github_event)
     (sample_store ''github_ingress'' (Some (sid 41)) 2 [github_item]) = Inr (github_event, s')"
proof -
  let ?s = "sample_store ''github_ingress'' (Some (sid 41)) 2 [github_item]"
  have n: "es_next_sequence ?s = Some 2" "es_events ?s = []" by (simp_all add: sample_store_def)
  have b: "build_and_validate github_library (\<lambda>_. Inr github_event) 2 = Inr github_event"
  proof -
    have "validate_event_envelope_shape github_event = Inr ()" "e_sequence github_event = 2"
      by (simp_all add: validate_event_envelope_shape_def CREATE_OPERATIONS_def github_event_def)
    then show ?thesis using github_typed github_verify by (simp add: build_and_validate_def)
  qed
  have l: "lock_github_ingress (sample_binding ''github_ingress'' (Some (sid 41))) github_event ?s = Inr (Some github_item)"
    by (simp add: lock_github_ingress_def sample_store_def github_item_def github_event_def scalar_one_or_none_def
        validate_ingress_item_def)
  have r: "\<exists>row. event_row_of github_event = Inr row \<and> insert_event_row row [] = Inr [row]"
    by (simp add: github_event_def insert_event_row_def event_row_of_def sample_bytes sample_digest
      del: b64decode.simps)
  have "e_tenant_id github_event = sid 30" "e_transport_binding_id github_event = sid 8"
    "e_actor_id github_event = sid 6" "e_client_id github_event = sid 7" by (simp_all add: github_event_def)
  then show ?thesis using r l
    by (auto simp: append_memory_event_def append_memory_event_unsafe_def n b sample_identities
      scalar_one_or_none_def check_binding_def github_transport)
qed

theorem ingress_item_consumed_witness:
  "\<exists>s'. append_memory_event github_library 8000 False (\<lambda>_. Inr github_event)
       (sample_store ''github_ingress'' (Some (sid 41)) 2 [github_item]) = Inr (github_event, s')
     \<and> \<not> (\<exists>s2. append_memory_event github_library 8000 False (\<lambda>_. Inr github_event) s' = Inr (github_event, s2))"
proof -
  obtain s' where a: "append_memory_event github_library 8000 False (\<lambda>_. Inr github_event)
       (sample_store ''github_ingress'' (Some (sid 41)) 2 [github_item]) = Inr (github_event, s')"
    using github_append by blast
  have "e_ingress_id github_event = Some (sid 40)" by (simp add: github_event_def)
  with ingress_item_consumed[OF a this] a show ?thesis by blast
qed

end
