(* ===== verification/JSON_Reader.thy ===== *)
theory JSON_Reader
  imports Byte_Codes
begin

text \<open>
  Reading JSON text (\<^verbatim>\<open>parse_json_strict\<close> of \<^verbatim>\<open>domain/canonical_json.py\<close>): strict UTF-8 decoding
  and the scanner of Python's \<^verbatim>\<open>json\<close> module with the hooks the source installs (unique object
  names, no constants, integers as \<^verbatim>\<open>int\<close>, other numbers as \<^verbatim>\<open>Decimal\<close>), followed by the
  normalisation of the profile. A container is identified by the number of characters left at its
  first one. The scanner's calls are bounded by fuel; exhausting it stands for the interpreter's
  \<^verbatim>\<open>RecursionError\<close>, which the source maps to the same error as malformed text, and the fuel given
  to a document is never exhausted.
\<close>

subsection \<open>Decoding UTF-8\<close>

definition utf8_first :: "bytes \<Rightarrow> (nat \<times> bytes) option" where
  "utf8_first bs =
     (let w = utf8_width (unat (hd bs)); units = map unat (take w bs); c = utf8_value units
      in if bs \<noteq> [] \<and> utf8_units c = units \<and> code_point c \<and> \<not> surrogate c then Some (c, drop w bs) else None)"

lemma utf8_first_length: "utf8_first bs = Some (c, r) \<Longrightarrow> length r < length bs"
  by (auto simp: utf8_first_def Let_def split: if_splits)

function utf8_decode :: "bytes \<Rightarrow> pystr result" where
  "utf8_decode bs =
     (if bs = [] then Inr []
      else case utf8_first bs of
             None \<Rightarrow> Inl (ValueError ''invalid utf-8'')
           | Some (c, r) \<Rightarrow> rbind (utf8_decode r) (\<lambda>s. Inr (c # s)))"
  by auto
termination
  by (relation "measure length") (auto dest: utf8_first_length)

declare utf8_decode.simps [simp del]

subsection \<open>Scanning\<close>

definition json_invalid :: exn where
  "json_invalid = CanonicalJsonError ''JSON input is invalid''"

definition is_ws :: "nat \<Rightarrow> bool" where
  "is_ws c \<longleftrightarrow> c = 32 \<or> c = 9 \<or> c = 10 \<or> c = 13"

definition skip_ws :: "pystr \<Rightarrow> pystr" where
  "skip_ws s = dropWhile is_ws s"

definition hex_value :: "nat \<Rightarrow> nat option" where
  "hex_value c =
     (if 48 \<le> c \<and> c \<le> 57 then Some (c - 48)
      else if 97 \<le> c \<and> c \<le> 102 then Some (c - 87)
      else if 65 \<le> c \<and> c \<le> 70 then Some (c - 55) else None)"

fun hex4 :: "pystr \<Rightarrow> (nat \<times> pystr) option" where
  "hex4 (a # b # c # d # s) =
     (case (hex_value a, hex_value b, hex_value c, hex_value d) of
        (Some w, Some x, Some y, Some z) \<Rightarrow> Some (((w * 16 + x) * 16 + y) * 16 + z, s)
      | _ \<Rightarrow> None)"
| "hex4 _ = None"

lemma hex4_length: "hex4 s = Some (c, r) \<Longrightarrow> length s = length r + 4"
  by (induction s rule: hex4.induct) (auto split: option.splits)

text \<open>A high surrogate joins an escaped low surrogate that follows it.\<close>

definition join_surrogate :: "nat \<Rightarrow> pystr \<Rightarrow> nat \<times> pystr" where
  "join_surrogate c s =
     (if 0xD800 \<le> c \<and> c \<le> 0xDBFF \<and> take 2 s = [92, 117]
      then case hex4 (drop 2 s) of
             Some (d, r) \<Rightarrow>
               if 0xDC00 \<le> d \<and> d \<le> 0xDFFF then (0x10000 + (c - 0xD800) * 1024 + (d - 0xDC00), r) else (c, s)
           | None \<Rightarrow> (c, s)
      else (c, s))"

lemma join_surrogate_length: "join_surrogate c s = (d, r) \<Longrightarrow> length r \<le> length s"
  by (auto simp: join_surrogate_def dest!: hex4_length split: if_splits option.splits)

definition simple_escape :: "nat \<Rightarrow> nat option" where
  "simple_escape c =
     (if c = 34 \<or> c = 92 \<or> c = 47 then Some c
      else if c = 98 then Some 8 else if c = 102 then Some 12 else if c = 110 then Some 10
      else if c = 114 then Some 13 else if c = 116 then Some 9 else None)"

definition scan_escape :: "pystr \<Rightarrow> (nat \<times> pystr) option" where
  "scan_escape s =
     (case s of
        [] \<Rightarrow> None
      | e # r \<Rightarrow>
          if e = 117 then map_option (\<lambda>(c, r'). join_surrogate c r') (hex4 r)
          else map_option (\<lambda>c. (c, r)) (simple_escape e))"

lemma scan_escape_length: "scan_escape s = Some (c, r) \<Longrightarrow> length r < length s"
  by (auto simp: scan_escape_def dest!: hex4_length join_surrogate_length split: list.splits if_splits)

text \<open>The text of a string after its opening quote.\<close>

function scan_string :: "pystr \<Rightarrow> (pystr \<times> pystr) result" where
  "scan_string [] = Inl json_invalid"
| "scan_string (c # s) =
     (if c = 34 then Inr ([], s)
      else if c = 92
      then case scan_escape s of
             None \<Rightarrow> Inl json_invalid
           | Some (d, r) \<Rightarrow> rbind (scan_string r) (\<lambda>(t, r'). Inr (d # t, r'))
      else if c < 32 then Inl json_invalid
      else rbind (scan_string s) (\<lambda>(t, r'). Inr (c # t, r')))"
  by pat_completeness auto
termination
  by (relation "measure length") (auto dest: scan_escape_length)

definition is_digit :: "nat \<Rightarrow> bool" where
  "is_digit c \<longleftrightarrow> 48 \<le> c \<and> c \<le> 57"

definition digits_value :: "pystr \<Rightarrow> nat" where
  "digits_value ds = foldl (\<lambda>n c. 10 * n + (c - 48)) 0 ds"

definition int_part :: "pystr \<Rightarrow> (pystr \<times> pystr) option" where
  "int_part s =
     (case s of
        [] \<Rightarrow> None
      | c # r \<Rightarrow>
          if c = 48 then Some ([c], r)
          else if is_digit c then Some (takeWhile is_digit s, dropWhile is_digit s)
          else None)"

definition fraction_part :: "pystr \<Rightarrow> pystr \<times> pystr" where
  "fraction_part s =
     (case s of
        p # d # r \<Rightarrow>
          if p = 46 \<and> is_digit d then (takeWhile is_digit (d # r), dropWhile is_digit (d # r)) else ([], s)
      | _ \<Rightarrow> ([], s))"

text \<open>An exponent without digits is left unread.\<close>

definition exponent_part :: "pystr \<Rightarrow> int option \<times> pystr" where
  "exponent_part s =
     (case s of
        e # r \<Rightarrow>
          if e = 101 \<or> e = 69
          then let signed = (case r of c # _ \<Rightarrow> c = 43 \<or> c = 45 | [] \<Rightarrow> False);
                   negative = (case r of c # _ \<Rightarrow> c = 45 | [] \<Rightarrow> False);
                   body = (if signed then tl r else r);
                   ds = takeWhile is_digit body
               in if ds = [] then (None, s)
                  else (Some (if negative then - int (digits_value ds) else int (digits_value ds)),
                        dropWhile is_digit body)
          else (None, s)
      | [] \<Rightarrow> (None, s))"

definition INT_MAX_STR_DIGITS :: nat where
  "INT_MAX_STR_DIGITS = 4300"

definition DECIMAL_MAX_EMAX :: int where
  "DECIMAL_MAX_EMAX = 999999999999999999"

text \<open>
  \<^verbatim>\<open>Decimal(text)\<close> is exact; an exponent beyond the limits of the C implementation raises
  \<^verbatim>\<open>decimal.InvalidOperation\<close>.
\<close>

definition decimal_of_text :: "bool \<Rightarrow> pystr \<Rightarrow> pystr \<Rightarrow> int \<Rightarrow> decimal result" where
  "decimal_of_text negative whole fraction exponent =
     (let c = digits_value (whole @ fraction); e = exponent - int (length fraction);
          adjusted = e + int (ndigits c) - 1
      in if DECIMAL_MAX_EMAX < adjusted \<or> e < - (2 * DECIMAL_MAX_EMAX - 1) then Inl DecimalInvalidOperation
         else Inr (Dec negative c e))"

definition number_value :: "bool \<Rightarrow> pystr \<Rightarrow> pystr \<Rightarrow> (pyvalue \<times> pystr) result" where
  "number_value negative whole rest =
     (case fraction_part rest of (fraction, r) \<Rightarrow>
      case exponent_part r of (exponent, r') \<Rightarrow>
        if fraction = [] \<and> exponent = None
        then if INT_MAX_STR_DIGITS < length whole then Inl json_invalid
             else let n = int (digits_value whole) in Inr (PyInt (if negative then - n else n), r')
        else rbind (decimal_of_text negative whole fraction (case exponent of None \<Rightarrow> 0 | Some e \<Rightarrow> e))
               (\<lambda>d. Inr (PyDecimal d, r')))"

definition scan_number :: "pystr \<Rightarrow> (pyvalue \<times> pystr) result" where
  "scan_number s =
     (let negative = (s \<noteq> [] \<and> hd s = 45); body = (if negative then tl s else s)
      in case int_part body of
           None \<Rightarrow> Inl json_invalid
         | Some (whole, r) \<Rightarrow> number_value negative whole r)"

definition literal_prefix :: "string \<Rightarrow> pystr \<Rightarrow> bool" where
  "literal_prefix word s \<longleftrightarrow> take (length word) s = lit word"

definition not_finite :: exn where
  "not_finite = CanonicalJsonError ''JSON numbers must be finite''"

text \<open>The hook for objects rejects a repeated name once all members are read.\<close>

definition unique_object :: "nat \<Rightarrow> (pystr \<times> pyvalue) list \<Rightarrow> pyvalue result" where
  "unique_object identity pairs =
     (if distinct (map fst pairs) then Inr (PyMapping identity (map (\<lambda>(k, v). (PyStr k, v)) pairs))
      else Inl (CanonicalJsonError ''JSON object names must be unique''))"

definition next_char :: "pystr \<Rightarrow> nat option" where
  "next_char s = (case s of [] \<Rightarrow> None | c # _ \<Rightarrow> Some c)"

fun scan_once :: "nat \<Rightarrow> pystr \<Rightarrow> (pyvalue \<times> pystr) result"
  and scan_elements :: "nat \<Rightarrow> pystr \<Rightarrow> (pyvalue list \<times> pystr) result"
  and scan_members :: "nat \<Rightarrow> pystr \<Rightarrow> ((pystr \<times> pyvalue) list \<times> pystr) result"
where
  "scan_once 0 s = Inl json_invalid"
| "scan_once (Suc n) s =
     (case s of
        [] \<Rightarrow> Inl json_invalid
      | c # r \<Rightarrow>
          if c = 34 then rbind (scan_string r) (\<lambda>(t, r'). Inr (PyStr t, r'))
          else if c = 123
          then if next_char (skip_ws r) = Some 125
               then rbind (unique_object (length s) []) (\<lambda>v. Inr (v, tl (skip_ws r)))
               else rbind (scan_members n (skip_ws r)) (\<lambda>(pairs, r').
                      rbind (unique_object (length s) pairs) (\<lambda>v. Inr (v, r')))
          else if c = 91
          then if next_char (skip_ws r) = Some 93 then Inr (PySequence (length s) [], tl (skip_ws r))
               else rbind (scan_elements n (skip_ws r)) (\<lambda>(vs, r'). Inr (PySequence (length s) vs, r'))
          else if literal_prefix ''null'' s then Inr (PyNone, drop 4 s)
          else if literal_prefix ''true'' s then Inr (PyBool True, drop 4 s)
          else if literal_prefix ''false'' s then Inr (PyBool False, drop 5 s)
          else if literal_prefix ''NaN'' s \<or> literal_prefix ''Infinity'' s \<or> literal_prefix ''-Infinity'' s
          then Inl not_finite
          else scan_number s)"
| "scan_elements 0 s = Inl json_invalid"
| "scan_elements (Suc n) s =
     rbind (scan_once n s) (\<lambda>(v, r).
       if next_char (skip_ws r) = Some 93 then Inr ([v], tl (skip_ws r))
       else if next_char (skip_ws r) = Some 44
       then rbind (scan_elements n (skip_ws (tl (skip_ws r)))) (\<lambda>(vs, r'). Inr (v # vs, r'))
       else Inl json_invalid)"
| "scan_members 0 s = Inl json_invalid"
| "scan_members (Suc n) s =
     (if next_char s \<noteq> Some 34 then Inl json_invalid
      else rbind (scan_string (tl s)) (\<lambda>(k, r).
        if next_char (skip_ws r) \<noteq> Some 58 then Inl json_invalid
        else rbind (scan_once n (skip_ws (tl (skip_ws r)))) (\<lambda>(v, r).
          if next_char (skip_ws r) = Some 125 then Inr ([(k, v)], tl (skip_ws r))
          else if next_char (skip_ws r) = Some 44
          then rbind (scan_members n (skip_ws (tl (skip_ws r)))) (\<lambda>(ms, r'). Inr ((k, v) # ms, r'))
          else Inl json_invalid)))"

definition json_loads :: "pystr \<Rightarrow> pyvalue result" where
  "json_loads s =
     (if next_char s = Some 0xFEFF then Inl json_invalid
      else rbind (scan_once (2 * length s + 1) (skip_ws s)) (\<lambda>(v, r).
        if skip_ws r = [] then Inr v else Inl json_invalid))"

definition parse_json_text :: "'z codec_scheme \<Rightarrow> pystr \<Rightarrow> json result" where
  "parse_json_text L source =
     rbind (json_loads source) (\<lambda>v. normalize_json_value L MAX_CANONICAL_JSON_DEPTH v)"

definition parse_json_strict :: "'z codec_scheme \<Rightarrow> bytes \<Rightarrow> json result" where
  "parse_json_strict L document =
     (case utf8_decode document of
        Inl _ \<Rightarrow> Inl (CanonicalJsonError ''JSON input must be valid UTF-8'')
      | Inr source \<Rightarrow> parse_json_text L source)"

subsection \<open>The scanner makes progress and its fuel suffices\<close>

lemma skip_ws_length: "length (skip_ws s) \<le> length s"
  by (simp add: skip_ws_def length_dropWhile_le)

lemma next_char_tl: "next_char s = Some c \<Longrightarrow> s = c # tl s"
  by (auto simp: next_char_def split: list.splits)

lemma next_char_length: "next_char (skip_ws s) = Some c \<Longrightarrow> length (skip_ws (tl (skip_ws s))) < length s"
  using skip_ws_length[of s] skip_ws_length[of "tl (skip_ws s)"]
  by (cases "skip_ws s") (auto simp: next_char_def)

lemma scan_string_length: "scan_string s = Inr (t, r) \<Longrightarrow> length r < length s"
proof (induction s arbitrary: t r rule: scan_string.induct)
  case (2 c s)
  show ?case
  proof (cases "c = 92")
    case True
    then obtain d q t' where e: "scan_escape s = Some (d, q)" "scan_string q = Inr (t', r)"
      using 2(3) by (auto split: option.splits elim!: rbind_InrE)
    then show ?thesis using 2(1)[OF _ True e(1)[THEN sym, THEN sym] refl e(2)] True scan_escape_length[OF e(1)] by simp
  next
    case False
    then show ?thesis using 2(2,3) by (fastforce split: if_splits elim!: rbind_InrE)
  qed
qed simp

lemma int_part_length: "int_part s = Some (w, r) \<Longrightarrow> length r < length s"
  by (auto simp: int_part_def length_dropWhile_le less_Suc_eq_le split: list.splits if_splits)

lemma fraction_part_length: "fraction_part s = (f, r) \<Longrightarrow> length r \<le> length s"
  using length_dropWhile_le[of is_digit "tl (tl s)"] by (auto simp: fraction_part_def split: list.splits if_splits)

lemma exponent_part_length: "exponent_part s = (e, r) \<Longrightarrow> length r \<le> length s"
  using length_dropWhile_le[of is_digit "tl s"] length_dropWhile_le[of is_digit "tl (tl s)"]
  by (auto simp: exponent_part_def Let_def split: list.splits if_splits)

lemma scan_number_length: "scan_number s = Inr (v, r) \<Longrightarrow> length r < length s"
  by (auto simp: scan_number_def number_value_def Let_def dest!: int_part_length fraction_part_length exponent_part_length
      split: option.splits prod.splits if_splits elim!: rbind_InrE)

lemma scan_once_cons:
  "scan_once (Suc n) (c # r) =
     (if c = 34 then rbind (scan_string r) (\<lambda>(t, r'). Inr (PyStr t, r'))
      else if c = 123
      then if next_char (skip_ws r) = Some 125
           then rbind (unique_object (Suc (length r)) []) (\<lambda>v. Inr (v, tl (skip_ws r)))
           else rbind (scan_members n (skip_ws r)) (\<lambda>(pairs, r').
                  rbind (unique_object (Suc (length r)) pairs) (\<lambda>v. Inr (v, r')))
      else if c = 91
      then if next_char (skip_ws r) = Some 93 then Inr (PySequence (Suc (length r)) [], tl (skip_ws r))
           else rbind (scan_elements n (skip_ws r)) (\<lambda>(vs, r'). Inr (PySequence (Suc (length r)) vs, r'))
      else scan_once 1 (c # r))"
  by simp

lemma scan_leaf_length:
  "scan_once 1 (c # s) = Inr (v, r) \<Longrightarrow> c \<noteq> 34 \<Longrightarrow> c \<noteq> 123 \<Longrightarrow> c \<noteq> 91 \<Longrightarrow> length r < Suc (length s)"
  using scan_number_length[of "c # s" v r] by (auto split: if_splits)

lemma scan_length:
  "scan_once n s = Inr (v, r) \<Longrightarrow> length r < length s"
  "scan_elements n s = Inr (vs, r) \<Longrightarrow> length r < length s"
  "scan_members n s = Inr (ms, r) \<Longrightarrow> length r < length s"
proof (induction n arbitrary: s v vs ms r)
  case (Suc n)
  have tl: "length (tl (skip_ws q)) \<le> length q" "length (skip_ws (tl (skip_ws q))) \<le> length q" for q
    using skip_ws_length[of q] skip_ws_length[of "tl (skip_ws q)"] by simp_all
  { case 1
    then obtain c q where s: "s = c # q" by (cases s) auto
    note step = 1[unfolded s scan_once_cons]
    have sk: "length (skip_ws q) \<le> length q" by (rule skip_ws_length)
    consider "c = 34" | "c = 123" "next_char (skip_ws q) = Some 125" | "c = 123" "next_char (skip_ws q) \<noteq> Some 125"
      | "c = 91" "next_char (skip_ws q) = Some 93" | "c = 91" "next_char (skip_ws q) \<noteq> Some 93"
      | "c \<noteq> 34" "c \<noteq> 123" "c \<noteq> 91" by blast
    then show ?case
    proof cases
      case 1 with step show ?thesis by (auto simp: s dest!: scan_string_length elim!: rbind_InrE)
    next
      case 2 with step tl[of q] show ?thesis by (auto simp: s elim!: rbind_InrE)
    next
      case 3 with step sk show ?thesis by (auto simp: s dest!: Suc.IH(3) elim!: rbind_InrE)
    next
      case 4 with step tl[of q] show ?thesis by (auto simp: s)
    next
      case 5 with step sk show ?thesis by (auto simp: s dest!: Suc.IH(2) elim!: rbind_InrE)
    next
      case 6 with step show ?thesis using scan_leaf_length[of c q v r] by (simp add: s del: scan_once.simps)
    qed
  next
    case 2
    then obtain v q where q: "scan_once n s = Inr (v, q)" by (auto elim!: rbind_InrE)
    with 2 Suc.IH(1)[OF q] tl[of q] show ?case
      by (auto dest!: Suc.IH(2) split: if_splits elim!: rbind_InrE)
  next
    case 3
    then obtain k q where k: "scan_string (tl s) = Inr (k, q)" by (auto split: if_splits elim!: rbind_InrE)
    with 3 obtain v p where p: "scan_once n (skip_ws (tl (skip_ws q))) = Inr (v, p)"
      by (auto split: if_splits elim!: rbind_InrE)
    from 3 k p Suc.IH(1)[OF p] scan_string_length[OF k] tl[of q] tl[of p] show ?case
      by (auto dest!: Suc.IH(3) split: if_splits elim!: rbind_InrE)
  }
qed simp_all

lemma scan_fuel:
  "2 * length s + 1 \<le> m \<Longrightarrow> 2 * length s + 1 \<le> n \<Longrightarrow> scan_once m s = scan_once n s"
  "2 * length s + 2 \<le> m \<Longrightarrow> 2 * length s + 2 \<le> n \<Longrightarrow> scan_elements m s = scan_elements n s"
  "2 * length s + 2 \<le> m \<Longrightarrow> 2 * length s + 2 \<le> n \<Longrightarrow> scan_members m s = scan_members n s"
proof (induction m arbitrary: n s)
  case (Suc m)
  { case 1
    then obtain n' where n: "n = Suc n'" by (cases n) auto
    show ?case
    proof (cases s)
      case (Cons c q)
      have "2 * length (skip_ws q) + 2 \<le> m" "2 * length (skip_ws q) + 2 \<le> n'"
        using 1 skip_ws_length[of q] by (simp_all add: n Cons)
      from Suc.IH(2,3)[OF this] show ?thesis unfolding n Cons scan_once_cons by (simp only:)
    qed (simp add: n)
  next
    case 2
    then obtain n' where n: "n = Suc n'" by (cases n) auto
    have once: "scan_once m s = scan_once n' s" using 2 by (intro Suc.IH(1)) (simp_all add: n)
    have rest: "scan_elements m (skip_ws (tl (skip_ws q))) = scan_elements n' (skip_ws (tl (skip_ws q)))"
      if q: "scan_once n' s = Inr (v, q)" and c: "next_char (skip_ws q) = Some 44" for v q
    proof -
      have "length (skip_ws (tl (skip_ws q))) < length q" using c by (rule next_char_length)
      with scan_length(1)[OF q] 2 show ?thesis by (intro Suc.IH(2)) (simp_all add: n)
    qed
    show ?case
    proof (cases "scan_once n' s")
      case (Inr vq)
      obtain v q where vq: "vq = (v, q)" by force
      show ?thesis unfolding n scan_elements.simps once Inr[unfolded vq] rbind_simps prod.case
        by (intro if_cong refl) (simp only: rest[OF Inr[unfolded vq]])
    qed (simp add: n once)
  next
    case 3
    then obtain n' where n: "n = Suc n'" by (cases n) auto
    have once: "scan_once m (skip_ws (tl (skip_ws q))) = scan_once n' (skip_ws (tl (skip_ws q)))"
      if "scan_string (tl s) = Inr (k, q)" for k q
    proof -
      have "length (skip_ws (tl (skip_ws q))) \<le> length s"
        using skip_ws_length[of q] skip_ws_length[of "tl (skip_ws q)"] scan_string_length[OF that] by simp
      with 3 show ?thesis by (intro Suc.IH(1)) (simp_all add: n)
    qed
    have rest: "scan_members m (skip_ws (tl (skip_ws p))) = scan_members n' (skip_ws (tl (skip_ws p)))"
      if "scan_string (tl s) = Inr (k, q)" "scan_once n' (skip_ws (tl (skip_ws q))) = Inr (v, p)"
        "next_char (skip_ws p) = Some 44" for k q v p
    proof -
      have "length (skip_ws (tl (skip_ws p))) < length p" using that(3) by (rule next_char_length)
      moreover have "length p < length s"
        using skip_ws_length[of q] skip_ws_length[of "tl (skip_ws q)"] scan_string_length[OF that(1)]
          scan_length(1)[OF that(2)] by simp
      ultimately show ?thesis using 3 by (intro Suc.IH(3)) (simp_all add: n)
    qed
    show ?case
    proof (cases "scan_string (tl s)")
      case (Inr kq)
      obtain k q where kq: "kq = (k, q)" by force
      note str = Inr[unfolded kq]
      show ?thesis unfolding n scan_members.simps str rbind_simps prod.case once[OF str]
      proof (intro if_cong refl)
        show "rbind (scan_once n' (skip_ws (tl (skip_ws q)))) (\<lambda>(v, r).
          if next_char (skip_ws r) = Some 125 then Inr ([(k, v)], tl (skip_ws r))
          else if next_char (skip_ws r) = Some 44
          then rbind (scan_members m (skip_ws (tl (skip_ws r)))) (\<lambda>(ms, r'). Inr ((k, v) # ms, r'))
          else Inl json_invalid) = rbind (scan_once n' (skip_ws (tl (skip_ws q)))) (\<lambda>(v, r).
          if next_char (skip_ws r) = Some 125 then Inr ([(k, v)], tl (skip_ws r))
          else if next_char (skip_ws r) = Some 44
          then rbind (scan_members n' (skip_ws (tl (skip_ws r)))) (\<lambda>(ms, r'). Inr ((k, v) # ms, r'))
          else Inl json_invalid)"
        proof (cases "scan_once n' (skip_ws (tl (skip_ws q)))")
          case (Inr vp)
          obtain v p where vp: "vp = (v, p)" by force
          show ?thesis unfolding Inr[unfolded vp] rbind_simps prod.case
            by (intro if_cong refl) (simp only: rest[OF str Inr[unfolded vp]])
        qed simp
      qed
    qed (simp add: n)
  }
qed simp_all

text \<open>More fuel than a document is given does not change how it reads.\<close>

lemma json_loads_fuel:
  assumes "2 * length s + 1 \<le> n"
  shows "json_loads s =
    (if next_char s = Some 0xFEFF then Inl json_invalid
     else rbind (scan_once n (skip_ws s)) (\<lambda>(v, r). if skip_ws r = [] then Inr v else Inl json_invalid))"
proof -
  have "scan_once (2 * length s + 1) (skip_ws s) = scan_once n (skip_ws s)"
    using skip_ws_length[of s] assms by (intro scan_fuel(1)) simp_all
  then show ?thesis unfolding json_loads_def by (simp only:)
qed

end
