(* ===== verification/JSON_Text.thy ===== *)
theory JSON_Text
  imports JSON_Reader
begin

text \<open>
  What reading JSON text guarantees: every value reads back from its text, and a document either
  gives an interoperable value with distinct names or raises one of two exceptions.
\<close>

subsection \<open>Text of a JSON value\<close>

text \<open>
  The text RFC 8785 prescribes for a value without fractional numbers whose names are already in
  order: no white space, the short escapes where they exist, \<^verbatim>\<open>\u00xx\<close> for the other control
  characters and decimal integers.
\<close>

definition hex_code_point :: "nat \<Rightarrow> nat" where
  "hex_code_point n = (if n < 10 then 48 + n else 87 + n)"

definition escape_char :: "nat \<Rightarrow> pystr" where
  "escape_char c =
     (if c = 34 \<or> c = 92 then [92, c]
      else if c = 8 then [92, 98] else if c = 9 then [92, 116] else if c = 10 then [92, 110]
      else if c = 12 then [92, 102] else if c = 13 then [92, 114]
      else if c < 32 then [92, 117, 48, 48, hex_code_point (c div 16), hex_code_point (c mod 16)]
      else [c])"

definition string_text :: "pystr \<Rightarrow> pystr" where
  "string_text s = 34 # concat (map escape_char s) @ [34]"

fun with_commas :: "pystr list \<Rightarrow> pystr" where
  "with_commas [] = []"
| "with_commas (x # xs) = (if xs = [] then x else x @ 44 # with_commas xs)"

fun json_text :: "json \<Rightarrow> pystr" where
  "json_text JNull = lit ''null''"
| "json_text (JBool b) = (if b then lit ''true'' else lit ''false'')"
| "json_text (JInt i) = lit (int_str i)"
| "json_text (JFloat f) = []"
| "json_text (JStr s) = string_text s"
| "json_text (JArr js) = 91 # with_commas (map json_text js) @ [93]"
| "json_text (JObj ps) = 123 # with_commas (map (\<lambda>(k, j). string_text k @ 58 # json_text j) ps) @ [125]"

fun plain_json :: "json \<Rightarrow> bool" where
  "plain_json (JFloat f) = False"
| "plain_json (JArr js) = list_all plain_json js"
| "plain_json (JObj ps) = (distinct (map fst ps) \<and> list_all (\<lambda>(k, j). plain_json j) ps)"
| "plain_json _ = True"

definition stops :: "pystr \<Rightarrow> bool" where
  "stops r \<longleftrightarrow> (case r of [] \<Rightarrow> True | c # _ \<Rightarrow> c = 44 \<or> c = 93 \<or> c = 125)"

lemma hex_value_code: "n < 16 \<Longrightarrow> hex_value (hex_code_point n) = Some n"
  by (auto simp: hex_value_def hex_code_point_def)

lemma scan_escape_char:
  assumes "escape_char c \<noteq> [c]"
  shows "\<exists>e. escape_char c = 92 # e \<and> scan_escape (e @ r) = Some (c, r)"
proof -
  have u: "scan_escape (117 # 48 # 48 # hex_code_point (c div 16) # hex_code_point (c mod 16) # r) = Some (c, r)" if "c < 32"
  proof -
    have "c div 16 < 16" "c mod 16 < 16" "c div 16 * 16 + c mod 16 = c" using that by auto
    moreover have "hex_value 48 = Some 0" by (simp add: hex_value_def)
    ultimately show ?thesis using that by (simp add: scan_escape_def hex_value_code join_surrogate_def)
  qed
  show ?thesis
  proof (cases "c = 34 \<or> c = 92 \<or> c = 8 \<or> c = 9 \<or> c = 10 \<or> c = 12 \<or> c = 13")
    case True
    then show ?thesis by (auto simp: escape_char_def scan_escape_def simple_escape_def)
  next
    case False
    with assms have "c < 32" by (auto simp: escape_char_def split: if_splits)
    with False u[of] show ?thesis by (auto simp: escape_char_def)
  qed
qed

lemma scan_string_text: "scan_string (concat (map escape_char s) @ 34 # r) = Inr (s, r)"
proof (induction s)
  case (Cons c s)
  show ?case
  proof (cases "escape_char c = [c]")
    case True
    then have "c \<noteq> 34 \<and> c \<noteq> 92 \<and> \<not> c < 32" by (auto simp: escape_char_def split: if_splits)
    with True Cons show ?thesis by simp
  next
    case False
    from scan_escape_char[OF this, of "concat (map escape_char s) @ 34 # r"]
    obtain e where "escape_char c = 92 # e" "scan_escape (e @ concat (map escape_char s) @ 34 # r) =
        Some (c, concat (map escape_char s) @ 34 # r)" by blast
    with Cons show ?thesis by simp
  qed
qed simp

lemma digit_code: "of_char (digit_char n) = (48 + n mod 10 :: nat)"
proof -
  have "\<forall>k \<in> set [0..<10]. (of_char (''0123456789'' ! k) :: nat) = 48 + k" by code_simp
  moreover have "n mod 10 \<in> set [0..<10]" by simp
  ultimately show ?thesis unfolding digit_char_def by (rule bspec)
qed

lemma nat_str_digits: "list_all is_digit (lit (nat_str n)) \<and> nat_str n \<noteq> []"
proof (induction n rule: nat_str.induct)
  case (1 n)
  have "n mod 10 < 10" by simp
  then have "is_digit (48 + n mod 10)" by (simp add: is_digit_def)
  with 1 show ?case by (subst (1 2) nat_str.simps) (auto simp: lit_def digit_code)
qed

lemma nat_str_leading: "hd (lit (nat_str n)) = 48 \<longleftrightarrow> n = 0"
proof (induction n rule: nat_str.induct)
  case (1 n)
  show ?case
  proof (cases "n < 10")
    case True
    then show ?thesis by (subst nat_str.simps) (simp add: lit_def digit_code)
  next
    case False
    then have "hd (lit (nat_str n)) = hd (lit (nat_str (n div 10)))"
      using nat_str_digits[of "n div 10"] by (subst nat_str.simps) (simp add: lit_def hd_append)
    with 1 False show ?thesis by (simp add: div_eq_0_iff)
  qed
qed

lemma digits_value_str: "digits_value (lit (nat_str n)) = n"
proof -
  have "digits_value (lit s) = nat_value s" for s
    by (induction s rule: rev_induct) (auto simp: digits_value_def nat_value_def lit_def)
  then show ?thesis by (simp add: nat_value_str)
qed

lemma int_part_str:
  assumes "r = [] \<or> \<not> is_digit (hd r)"
  shows "int_part (lit (nat_str n) @ r) = Some (lit (nat_str n), r)"
proof -
  obtain c t where t: "lit (nat_str n) = c # t" using nat_str_digits[of n] by (cases "lit (nat_str n)") (auto simp: lit_def)
  have d: "is_digit c" "list_all is_digit t" using nat_str_digits[of n] by (simp_all add: t)
  have w: "takeWhile is_digit (t @ r) = t" "dropWhile is_digit (t @ r) = r"
    using assms d(2) by (cases r; simp add: takeWhile_append2 dropWhile_append2 list_all_iff)+
  show ?thesis
  proof (cases "c = 48")
    case True
    then have "n = 0" using nat_str_leading[of n] t by simp
    then have "t = []" using t by (simp add: nat_str.simps lit_def)
    with True t show ?thesis by (simp add: int_part_def)
  next
    case False
    with d w show ?thesis by (simp add: int_part_def t)
  qed
qed

lemma nat_str_length: "n < 10 ^ Suc k \<Longrightarrow> length (nat_str n) \<le> Suc k"
proof (induction k arbitrary: n)
  case 0 then show ?case by (subst nat_str.simps) simp
next
  case (Suc k)
  show ?case
  proof (cases "n < 10")
    case False
    have "n div 10 < 10 ^ Suc k" using Suc.prems by (simp add: less_mult_imp_div_less)
    from Suc.IH[OF this] False show ?thesis by (subst nat_str.simps) simp
  qed (subst nat_str.simps, simp)
qed

lemma stops_number: "stops r \<Longrightarrow> (r = [] \<or> \<not> is_digit (hd r)) \<and> fraction_part r = ([], r) \<and> exponent_part r = (None, r)"
  by (auto simp: stops_def is_digit_def fraction_part_def exponent_part_def split: list.splits)

lemma scan_number_int:
  assumes "stops r" "- MAX_IJSON_INTEGER \<le> i" "i \<le> MAX_IJSON_INTEGER"
  shows "scan_number (lit (int_str i) @ r) = Inr (PyInt i, r)"
proof -
  have len: "length (lit (nat_str (nat \<bar>i\<bar>))) \<le> INT_MAX_STR_DIGITS"
  proof -
    have "nat \<bar>i\<bar> < 10 ^ Suc 15" using assms(2,3) by (simp add: MAX_IJSON_INTEGER_def)
    from nat_str_length[OF this] show ?thesis by (simp add: lit_def INT_MAX_STR_DIGITS_def)
  qed
  note st = stops_number[OF assms(1)]
  note ip = int_part_str[of r "nat \<bar>i\<bar>"]
  have hd: "hd (lit (nat_str (nat \<bar>i\<bar>)) @ r) \<noteq> 45"
    using nat_str_digits[of "nat \<bar>i\<bar>"] by (cases "lit (nat_str (nat \<bar>i\<bar>))") (auto simp: lit_def is_digit_def)
  show ?thesis
  proof (cases "i < 0")
    case True
    then have "lit (int_str i) @ r = 45 # lit (nat_str (nat \<bar>i\<bar>)) @ r" by (simp add: int_str_def lit_def)
    with True ip st len show ?thesis by (simp add: scan_number_def number_value_def digits_value_str Let_def)
  next
    case False
    then have "lit (int_str i) @ r = lit (nat_str (nat \<bar>i\<bar>)) @ r" by (simp add: int_str_def)
    with False ip st len hd show ?thesis by (simp add: scan_number_def number_value_def digits_value_str Let_def)
  qed
qed

subsection \<open>Reading back\<close>

text \<open>The scanned value normalises to the JSON value in every context of larger identities.\<close>

definition reads :: "'z codec_scheme \<Rightarrow> nat \<Rightarrow> pyvalue \<Rightarrow> json \<Rightarrow> bool" where
  "reads L k v j \<longleftrightarrow> (\<forall>m d active. within_depth (m - d) j \<longrightarrow> (\<forall>i \<in> set active. k < i) \<longrightarrow>
     normalize L m active d v = Inr j)"

lemma readsD: "reads L k v j \<Longrightarrow> within_depth (m - d) j \<Longrightarrow> (\<And>i. i \<in> set active \<Longrightarrow> k < i) \<Longrightarrow> normalize L m active d v = Inr j"
  unfolding reads_def by blast

lemma reads_mono: "reads L k v j \<Longrightarrow> k \<le> k' \<Longrightarrow> reads L k' v j"
  unfolding reads_def by (meson le_less_trans)

lemma reads_array:
  assumes "list_all2 (reads L k) vs js" "k < k'"
  shows "reads L k' (PySequence k' vs) (JArr js)"
  unfolding reads_def
proof (intro allI impI)
  fix m d active assume dep: "within_depth (m - d) (JArr js)" and act: "\<forall>i \<in> set active. k' < i"
  have "normalize_children L m (k' # active) (d + 1) vs = Inr js"
    using assms(1) dep
  proof (induction rule: list_all2_induct)
    case (Cons v vs j js)
    have "normalize L m (k' # active) (d + 1) v = Inr j"
      by (rule readsD[OF Cons(1)]) (use Cons act assms(2) in \<open>auto simp: algebra_simps\<close>)
    with Cons show ?case by simp
  qed simp
  with dep act show "normalize L m active d (PySequence k' vs) = Inr (JArr js)"
    by (auto simp: normalize_sequence_ok)
qed

lemma reads_object:
  assumes "list_all2 (\<lambda>(k1, v) (k2, j). k1 = k2 \<and> reads L k v j) ms ps" "k < k'"
    "list_all (\<lambda>(n, j). \<not> list_ex surrogate n) ps"
  shows "reads L k' (PyMapping k' (map (\<lambda>(n, v). (PyStr n, v)) ms)) (JObj ps)"
  unfolding reads_def
proof (intro allI impI)
  fix m d active assume dep: "within_depth (m - d) (JObj ps)" and act: "\<forall>i \<in> set active. k' < i"
  have "normalize_items L m (k' # active) (d + 1) (map (\<lambda>(n, v). (PyStr n, v)) ms) = Inr ps"
    using assms(1) dep assms(3)
  proof (induction rule: list_all2_induct)
    case (Cons x ms y ps)
    obtain n v where x: "x = (n, v)" by force
    with Cons obtain j where y: "y = (n, j)" "reads L k v j" by (cases y) auto
    have "normalize L m (k' # active) (d + 1) v = Inr j"
      by (rule readsD[OF y(2)]) (use Cons act assms(2) in \<open>auto simp: y algebra_simps\<close>)
    with Cons show ?case by (simp add: x y key_of_def validate_string_def)
  qed simp
  with dep act show "normalize L m active d (PyMapping k' (map (\<lambda>(n, v). (PyStr n, v)) ms)) = Inr (JObj ps)"
    by (auto simp: normalize_mapping_ok)
qed

text \<open>What the text of one value reads as, whatever follows it.\<close>

definition text_reads :: "'z codec_scheme \<Rightarrow> json \<Rightarrow> bool" where
  "text_reads L j \<longleftrightarrow> (\<forall>r n. stops r \<longrightarrow> 2 * length (json_text j @ r) + 1 \<le> n \<longrightarrow>
     (\<exists>v. scan_once n (json_text j @ r) = Inr (v, r) \<and> reads L (length (json_text j @ r)) v j))"

lemma text_readsE:
  assumes "text_reads L j" "stops r" "2 * length (json_text j @ r) + 1 \<le> n"
  obtains v where "scan_once n (json_text j @ r) = Inr (v, r)" "reads L (length (json_text j @ r)) v j"
  using assms unfolding text_reads_def by blast

lemma json_text_start:
  assumes "plain_json j"
  obtains c t where "json_text j = c # t" "\<not> is_ws c" "c \<noteq> 93" "c \<noteq> 125" "c < 128"
proof (cases j)
  case (JInt i)
  obtain c t where t: "lit (nat_str (nat \<bar>i\<bar>)) = c # t"
    using nat_str_digits[of "nat \<bar>i\<bar>"] by (cases "lit (nat_str (nat \<bar>i\<bar>))") (auto simp: lit_def)
  have c: "is_digit c" using nat_str_digits[of "nat \<bar>i\<bar>"] by (simp add: t)
  show thesis
  proof (cases "i < 0")
    case True
    then have "json_text j = 45 # c # t" using JInt t by (simp add: int_str_def lit_def)
    then show thesis by (rule that) (simp_all add: is_ws_def)
  next
    case False
    then have "json_text j = c # t" using JInt t by (simp add: int_str_def)
    then show thesis by (rule that) (use c in \<open>auto simp: is_ws_def is_digit_def\<close>)
  qed
next
  case (JBool b)
  then show thesis using that by (cases b) (auto simp: is_ws_def lit_def)
qed (use assms that in \<open>auto simp: is_ws_def lit_def string_text_def\<close>)

lemma skip_ws_text: "plain_json j \<Longrightarrow> skip_ws (json_text j @ r) = json_text j @ r"
  by (erule json_text_start) (simp add: skip_ws_def)

lemma skip_ws_stop: "stops r \<Longrightarrow> skip_ws r = r"
  by (cases r) (auto simp: skip_ws_def stops_def is_ws_def)

lemma elements_read:
  assumes "js \<noteq> []" "list_all plain_json js" "list_all (text_reads L) js"
    "2 * length (with_commas (map json_text js) @ 93 # r) + 2 \<le> n"
  shows "\<exists>vs. scan_elements n (with_commas (map json_text js) @ 93 # r) = Inr (vs, r)
    \<and> list_all2 (reads L (length (with_commas (map json_text js) @ 93 # r))) vs js"
  using assms
proof (induction js arbitrary: n)
  case (Cons j js)
  obtain n' where n: "n = Suc n'" using Cons.prems(4) by (cases n) auto
  let ?rest = "if js = [] then 93 # r else 44 # with_commas (map json_text js) @ 93 # r"
  have shape: "with_commas (map json_text (j # js)) @ 93 # r = json_text j @ ?rest" by simp
  have st: "stops ?rest" by (simp add: stops_def)
  obtain v where v: "scan_once n' (json_text j @ ?rest) = Inr (v, ?rest)" "reads L (length (json_text j @ ?rest)) v j"
  proof (rule text_readsE[OF _ st])
    show "text_reads L j" using Cons.prems(3) by simp
    show "2 * length (json_text j @ ?rest) + 1 \<le> n'" using Cons.prems(4) unfolding shape n by simp
  qed
  show ?case
  proof (cases "js = []")
    case True
    with v show ?thesis by (simp add: n skip_ws_def is_ws_def next_char_def)
  next
    case False
    obtain k js' where js: "js = k # js'" using False by (cases js) auto
    have "2 * length (with_commas (map json_text js) @ 93 # r) + 2 \<le> n'" using Cons.prems(4) False n by simp
    from Cons.IH[OF False _ _ this] Cons.prems obtain vs
      where vs: "scan_elements n' (with_commas (map json_text js) @ 93 # r) = Inr (vs, r)"
        "list_all2 (reads L (length (with_commas (map json_text js) @ 93 # r))) vs js" by auto
    have sk: "skip_ws (with_commas (map json_text js) @ 93 # r) = with_commas (map json_text js) @ 93 # r"
      using Cons.prems(2) skip_ws_text[of k "44 # with_commas (map json_text js') @ 93 # r"] skip_ws_text[of k "93 # r"]
      by (simp add: js)
    have "scan_elements n (json_text j @ ?rest) = Inr (v # vs, r)"
      using v(1) False vs(1) sk by (simp add: n skip_ws_def is_ws_def next_char_def)
    moreover have "list_all2 (reads L (length (json_text j @ ?rest))) (v # vs) (j # js)"
      using v(2) False by (auto intro!: list_all2_mono[OF vs(2)] elim: reads_mono)
    ultimately show ?thesis unfolding shape by blast
  qed
qed simp

lemma members_read:
  assumes "ps \<noteq> []" "list_all (\<lambda>(k, j). plain_json j) ps" "list_all (\<lambda>(k, j). text_reads L j) ps"
    "2 * length (with_commas (map (\<lambda>(k, j). string_text k @ 58 # json_text j) ps) @ 125 # r) + 2 \<le> n"
  shows "\<exists>ms. scan_members n (with_commas (map (\<lambda>(k, j). string_text k @ 58 # json_text j) ps) @ 125 # r) = Inr (ms, r)
    \<and> list_all2 (\<lambda>(k1, v) (k2, j). k1 = k2 \<and>
         reads L (length (with_commas (map (\<lambda>(k, j). string_text k @ 58 # json_text j) ps) @ 125 # r)) v j) ms ps"
  using assms
proof (induction ps arbitrary: n)
  case (Cons p ps)
  obtain k j where p: "p = (k, j)" by force
  obtain n' where n: "n = Suc n'" using Cons.prems(4) by (cases n) auto
  let ?text = "\<lambda>ps. with_commas (map (\<lambda>(k, j). string_text k @ 58 # json_text j) ps) @ 125 # r"
  let ?rest = "if ps = [] then 125 # r else 44 # ?text ps"
  have shape: "?text (p # ps) = string_text k @ 58 # json_text j @ ?rest" by (simp add: p)
  have st: "stops ?rest" by (simp add: stops_def)
  obtain v where v: "scan_once n' (json_text j @ ?rest) = Inr (v, ?rest)" "reads L (length (json_text j @ ?rest)) v j"
  proof (rule text_readsE[OF _ st])
    show "text_reads L j" using Cons.prems(3) by (simp add: p)
    show "2 * length (json_text j @ ?rest) + 1 \<le> n'" using Cons.prems(4) unfolding shape n by simp
  qed
  have key: "next_char (string_text k @ q) = Some 34" "scan_string (tl (string_text k @ q)) = Inr (k, q)" for q
    by (simp_all add: string_text_def next_char_def scan_string_text)
  have sj: "skip_ws (json_text j @ ?rest) = json_text j @ ?rest"
    using Cons.prems(2) by (intro skip_ws_text) (simp add: p)
  have colon: "next_char (skip_ws (58 # q)) = Some 58" "tl (skip_ws (58 # q)) = q" for q
    by (simp_all add: skip_ws_def is_ws_def next_char_def)
  show ?case
  proof (cases "ps = []")
    case True
    have "scan_members n (?text (p # ps)) = Inr ([(k, v)], r)"
      unfolding shape n scan_members.simps key rbind_simps prod.case colon sj v(1)
      by (simp add: True skip_ws_def is_ws_def next_char_def)
    with True v(2) show ?thesis unfolding shape by (auto simp: p intro: reads_mono)
  next
    case False
    obtain k' j' ps' where ps: "ps = (k', j') # ps'" using False by (cases ps) auto
    have "2 * length (?text ps) + 2 \<le> n'" using Cons.prems(4) False n by (simp add: p)
    from Cons.IH[OF False _ _ this] Cons.prems obtain ms where ms: "scan_members n' (?text ps) = Inr (ms, r)"
        "list_all2 (\<lambda>(k1, v) (k2, j). k1 = k2 \<and> reads L (length (?text ps)) v j) ms ps" by auto
    have sk: "skip_ws (?text ps) = ?text ps" by (simp add: ps string_text_def skip_ws_def is_ws_def)
    have comma: "next_char (skip_ws (44 # q)) = Some 44" "tl (skip_ws (44 # q)) = q" for q
      by (simp_all add: skip_ws_def is_ws_def next_char_def)
    have "scan_members n (?text (p # ps)) = Inr ((k, v) # ms, r)"
      using sj v(1) ms(1)
      unfolding shape n scan_members.simps key rbind_simps prod.case colon if_not_P[OF False] by (simp add: comma sk)
    moreover have "list_all2 (\<lambda>(k1, v) (k2, j). k1 = k2 \<and> reads L (length (?text (p # ps))) v j) ((k, v) # ms) (p # ps)"
      using v(2) False unfolding shape
      by (auto simp: p intro!: list_all2_mono[OF ms(2)] elim!: reads_mono)
    ultimately show ?thesis by blast
  qed
qed simp

lemma literal_prefix_append: "literal_prefix w (lit w @ r)"
  by (simp add: literal_prefix_def lit_def)

lemma literal_prefix_first: "literal_prefix (c # w) s \<Longrightarrow> s \<noteq> [] \<and> hd s = of_char c"
  by (cases s) (auto simp: literal_prefix_def lit_def)

lemma scan_once_literal:
  "scan_once (Suc n) (lit ''null'' @ r) = Inr (PyNone, r)"
  "scan_once (Suc n) (lit ''true'' @ r) = Inr (PyBool True, r)"
  "scan_once (Suc n) (lit ''false'' @ r) = Inr (PyBool False, r)"
  by (simp_all add: lit_def literal_prefix_def)

lemma scan_once_int:
  assumes "stops r" "- MAX_IJSON_INTEGER \<le> i" "i \<le> MAX_IJSON_INTEGER"
  shows "scan_once (Suc n) (lit (int_str i) @ r) = Inr (PyInt i, r)"
proof -
  obtain c t where t: "lit (nat_str (nat \<bar>i\<bar>)) = c # t"
    using nat_str_digits[of "nat \<bar>i\<bar>"] by (cases "lit (nat_str (nat \<bar>i\<bar>))") (auto simp: lit_def)
  have c: "48 \<le> c" "c \<le> 57" using nat_str_digits[of "nat \<bar>i\<bar>"] by (simp_all add: t is_digit_def)
  have "lit (int_str i) @ r = (if i < 0 then 45 # c # t @ r else c # t @ r)"
    using t by (cases "i < 0") (simp_all add: int_str_def lit_def)
  moreover have "scan_once (Suc n) (45 # c # t @ r) = scan_number (45 # c # t @ r)"
    "scan_once (Suc n) (c # t @ r) = scan_number (c # t @ r)"
    using c by (auto simp: literal_prefix_def lit_def)
  ultimately show ?thesis using scan_number_int[OF assms] by (simp split: if_splits)
qed

lemma reads_leaf:
  "reads L k PyNone JNull" "reads L k (PyBool b) (JBool b)"
  "\<not> list_ex surrogate s \<Longrightarrow> reads L k (PyStr s) (JStr s)"
  "- MAX_IJSON_INTEGER \<le> i \<Longrightarrow> i \<le> MAX_IJSON_INTEGER \<Longrightarrow> reads L k (PyInt i) (JInt i)"
  by (auto simp: reads_def normalize.simps[of L] validate_string_def normalize_integer_def)

lemma fuel_Suc: "2 * length s + 1 \<le> n \<Longrightarrow> \<exists>n'. n = Suc n' \<and> 2 * length s \<le> n'"
  by (cases n) auto

lemma text_reads_leaf:
  assumes "\<And>r n. stops r \<Longrightarrow> scan_once (Suc n) (json_text j @ r) = Inr (v, r)" "\<And>k. reads L k v j"
  shows "text_reads L j"
  unfolding text_reads_def
proof (intro allI impI)
  fix r n assume "stops r" "2 * length (json_text j @ r) + 1 \<le> n"
  then obtain n' where "n = Suc n'" using fuel_Suc by blast
  with assms \<open>stops r\<close> show "\<exists>v. scan_once n (json_text j @ r) = Inr (v, r) \<and> reads L (length (json_text j @ r)) v j"
    by blast
qed

lemma json_text_reads: "ijson j \<Longrightarrow> plain_json j \<Longrightarrow> text_reads L j"
proof (induction j)
  case (JArr js)
  show ?case unfolding text_reads_def
  proof (intro allI impI)
    fix r n assume "stops r" and n: "2 * length (json_text (JArr js) @ r) + 1 \<le> n"
    let ?body = "with_commas (map json_text js) @ 93 # r"
    obtain n' where n': "n = Suc n'" "2 * length ?body + 2 \<le> n'" using fuel_Suc[OF n] by auto
    have text_eq: "json_text (JArr js) @ r = 91 # ?body" by simp
    show "\<exists>v. scan_once n (json_text (JArr js) @ r) = Inr (v, r)
        \<and> reads L (length (json_text (JArr js) @ r)) v (JArr js)"
    proof (cases "js = []")
      case True
      then show ?thesis using reads_array[of L 0 "[]" "[]" "Suc (Suc (length r))"]
        by (simp add: n' skip_ws_def is_ws_def next_char_def)
    next
      case False
      have pl: "list_all plain_json js" "list_all (text_reads L) js"
        using JArr by (auto simp: list_all_iff)
      from elements_read[OF False pl n'(2)] obtain vs where vs: "scan_elements n' ?body = Inr (vs, r)"
          "list_all2 (reads L (length ?body)) vs js" by blast
      obtain j js' where js: "js = j # js'" using False by (cases js) auto
      have "plain_json j" using pl(1) js by simp
      then obtain c t where c: "json_text j = c # t" "\<not> is_ws c" "c \<noteq> 93" "c \<noteq> 125"
        by (rule json_text_start)
      have "skip_ws ?body = ?body" "next_char ?body \<noteq> Some 93" using c by (simp_all add: js skip_ws_def next_char_def)
      then have "scan_once n (91 # ?body) = Inr (PySequence (length (91 # ?body)) vs, r)"
        unfolding n'(1) scan_once_cons using vs(1) by simp
      moreover have "reads L (length (91 # ?body)) (PySequence (length (91 # ?body)) vs) (JArr js)"
        using vs(2) by (rule reads_array) simp
      ultimately show ?thesis unfolding text_eq by blast
    qed
  qed
next
  case (JObj ps)
  show ?case unfolding text_reads_def
  proof (intro allI impI)
    fix r n assume "stops r" and n: "2 * length (json_text (JObj ps) @ r) + 1 \<le> n"
    let ?body = "with_commas (map (\<lambda>(k, j). string_text k @ 58 # json_text j) ps) @ 125 # r"
    obtain n' where n': "n = Suc n'" "2 * length ?body + 2 \<le> n'" using fuel_Suc[OF n] by auto
    have text_eq: "json_text (JObj ps) @ r = 123 # ?body" by simp
    show "\<exists>v. scan_once n (json_text (JObj ps) @ r) = Inr (v, r)
        \<and> reads L (length (json_text (JObj ps) @ r)) v (JObj ps)"
    proof (cases "ps = []")
      case True
      then show ?thesis using reads_object[of L 0 "[]" "[]" "Suc (Suc (length r))"]
        by (simp add: n' skip_ws_def is_ws_def next_char_def unique_object_def)
    next
      case False
      have pl: "list_all (\<lambda>(k, j). plain_json j) ps" "list_all (\<lambda>(k, j). text_reads L j) ps"
        using JObj by (fastforce simp: list_all_iff)+
      from members_read[OF False pl n'(2)] obtain ms where ms: "scan_members n' ?body = Inr (ms, r)"
          "list_all2 (\<lambda>(k1, v) (k2, j). k1 = k2 \<and> reads L (length ?body) v j) ms ps" by blast
      have "map fst ms = map fst ps" using ms(2) by (induction rule: list_all2_induct) auto
      then have u: "unique_object k ms = Inr (PyMapping k (map (\<lambda>(k, v). (PyStr k, v)) ms))" for k
        using JObj.prems(2) by (simp add: unique_object_def)
      have "skip_ws ?body = ?body" "next_char ?body \<noteq> Some 125"
        using False by (cases ps; auto simp: string_text_def skip_ws_def is_ws_def next_char_def)+
      then have "scan_once n (123 # ?body) =
          Inr (PyMapping (length (123 # ?body)) (map (\<lambda>(k, v). (PyStr k, v)) ms), r)"
        unfolding n'(1) scan_once_cons using ms(1) by (simp add: u)
      moreover have "reads L (length (123 # ?body)) (PyMapping (length (123 # ?body)) (map (\<lambda>(k, v). (PyStr k, v)) ms)) (JObj ps)"
        using ms(2) by (rule reads_object) (use JObj.prems(1) in \<open>auto simp: list_all_iff\<close>)
      ultimately show ?thesis unfolding text_eq by blast
    qed
  qed
next
  case (JInt i)
  then show ?case by (intro text_reads_leaf[of _ "PyInt i"]) (simp_all only: json_text.simps ijson.simps scan_once_int reads_leaf)
next
  case (JStr s)
  have "scan_once (Suc n) (json_text (JStr s) @ r) = Inr (PyStr s, r)" for n r
    by (simp add: string_text_def scan_string_text)
  moreover have "reads L k (PyStr s) (JStr s)" for k using JStr(1) by (intro reads_leaf(3)) simp
  ultimately show ?case by (rule text_reads_leaf)
next
  case (JBool b)
  show ?case by (intro text_reads_leaf[of _ "PyBool b"]) (cases b, simp_all only: json_text.simps if_True if_False scan_once_literal reads_leaf)
next
  case JNull
  show ?case by (intro text_reads_leaf[of _ PyNone]) (simp_all only: json_text.simps scan_once_literal reads_leaf)
qed simp

lemma json_loads_text:
  assumes "ijson j" "plain_json j"
  shows "\<exists>v. json_loads (json_text j) = Inr v \<and> reads L (length (json_text j)) v j"
proof -
  obtain v where v: "scan_once (2 * length (json_text j) + 1) (json_text j @ []) = Inr (v, [])"
      "reads L (length (json_text j @ [])) v j"
    by (rule text_readsE[OF json_text_reads[OF assms], of "[]"]) (auto simp: stops_def)
  obtain c t where "json_text j = c # t" "c < 128" using json_text_start[OF assms(2)] by blast
  then have "next_char (json_text j) \<noteq> Some 0xFEFF" by (simp add: next_char_def)
  with v show ?thesis using skip_ws_text[OF assms(2), of "[]"] by (auto simp: json_loads_def skip_ws_def)
qed

lemma utf8_first_char:
  assumes "code_point c" "\<not> surrogate c"
  shows "utf8_first (utf8_char c @ bs) = Some (c, bs)"
proof -
  have ne: "utf8_char c \<noteq> []" by (simp add: utf8_char_def utf8_units_def)
  have w: "utf8_width (unat (hd (utf8_char c @ bs))) = length (utf8_char c)"
    using ne utf8_char_width[OF assms(1)] by simp
  show ?thesis using ne assms unfolding utf8_first_def w
    by (simp add: utf8_units_value utf8_char_units Let_def del: utf8_width.simps)
qed

lemma utf8_decode_encode:
  "list_all (\<lambda>c. code_point c \<and> \<not> surrogate c) s \<Longrightarrow> utf8_decode (concat (map utf8_char s)) = Inr s"
proof (induction s)
  case (Cons c s)
  have "utf8_char c @ concat (map utf8_char s) \<noteq> []" by (simp add: utf8_char_def utf8_units_def)
  with Cons show ?case by (simp add: utf8_decode.simps utf8_first_char)
qed (simp add: utf8_decode.simps)

fun text_points :: "json \<Rightarrow> bool" where
  "text_points (JStr s) = list_all code_point s"
| "text_points (JArr js) = list_all text_points js"
| "text_points (JObj ps) = list_all (\<lambda>(k, j). list_all code_point k \<and> text_points j) ps"
| "text_points _ = True"

lemma escape_points: "code_point c \<Longrightarrow> \<not> surrogate c \<Longrightarrow> list_all (\<lambda>c. code_point c \<and> \<not> surrogate c) (escape_char c)"
  by (auto simp: escape_char_def hex_code_point_def surrogate_def)

lemma string_points:
  "list_all code_point s \<Longrightarrow> \<not> list_ex surrogate s \<Longrightarrow> list_all (\<lambda>c. code_point c \<and> \<not> surrogate c) (string_text s)"
proof -
  assume "list_all code_point s" "\<not> list_ex surrogate s"
  then have "list_all (\<lambda>c. code_point c \<and> \<not> surrogate c) (concat (map escape_char s))"
    by (induction s) (auto dest: escape_points)
  then show ?thesis by (simp add: string_text_def surrogate_def)
qed

lemma with_commas_points:
  "list_all (list_all P) xs \<Longrightarrow> P 44 \<Longrightarrow> list_all P (with_commas xs)"
  by (induction xs) auto

lemma json_text_points:
  "ijson j \<Longrightarrow> text_points j \<Longrightarrow> list_all (\<lambda>c. code_point c \<and> \<not> surrogate c) (json_text j)"
proof (induction j)
  case (JArr js)
  then have "list_all (list_all (\<lambda>c. code_point c \<and> \<not> surrogate c)) (map json_text js)" by (simp add: list_all_iff)
  from with_commas_points[OF this] show ?case by (simp add: surrogate_def)
next
  case (JObj ps)
  have "list_all (\<lambda>c. code_point c \<and> \<not> surrogate c) (string_text k @ 58 # json_text j)" if "(k, j) \<in> set ps" for k j
  proof -
    have "list_all code_point k" "text_points j" "\<not> list_ex surrogate k" "ijson j"
      using JObj.prems that by (auto simp: list_all_iff)
    with JObj.IH[OF that, of j] string_points[of k] show ?thesis by (simp add: surrogate_def)
  qed
  then have "list_all (list_all (\<lambda>c. code_point c \<and> \<not> surrogate c)) (map (\<lambda>(k, j). string_text k @ 58 # json_text j) ps)"
    by (auto simp: list_all_iff)
  from with_commas_points[OF this] show ?case by (simp add: surrogate_def)
next
  case (JInt i)
  have lit_points: "list_all (\<lambda>c. code_point c \<and> \<not> surrogate c) (lit s)" for s
  proof -
    have "c < 256" if "c \<in> set (lit s)" for c using that by (auto simp: lit_def)
    then show ?thesis using lit_no_surrogate[of s] by (fastforce simp: list_all_iff list_ex_iff)
  qed
  then show ?case by simp
next
  case (JStr s)
  then show ?case by (simp add: string_points)
qed (auto simp: lit_def surrogate_def)

lemma json_text_roundtrip:
  assumes "ijson j" "plain_json j" "text_points j" "within_depth MAX_CANONICAL_JSON_DEPTH j"
  shows "parse_json_strict L (concat (map utf8_char (json_text j))) = Inr j"
proof -
  obtain v where v: "json_loads (json_text j) = Inr v" "reads L (length (json_text j)) v j"
    using json_loads_text[OF assms(1,2)] by blast
  have "normalize L MAX_CANONICAL_JSON_DEPTH [] 0 v = Inr j"
    by (rule readsD[OF v(2)]) (use assms(4) in simp_all)
  with v(1) show ?thesis
    by (simp add: parse_json_strict_def parse_json_text_def utf8_decode_encode[OF json_text_points[OF assms(1,3)]]
        normalize_json_value_def MAX_CANONICAL_JSON_DEPTH_def)
qed


definition sample_json :: json where
  "sample_json = JObj [(lit ''a'', JArr [JInt (- 5), JNull, JStr [34, 10, 1, 0x1F600]]), (lit ''b'', JBool True)]"


subsection \<open>What reading guarantees\<close>

fun unique_names :: "json \<Rightarrow> bool" where
  "unique_names (JArr js) = list_all unique_names js"
| "unique_names (JObj ps) = (distinct (map fst ps) \<and> list_all (\<lambda>(k, j). unique_names j) ps)"
| "unique_names _ = True"

text \<open>The Python values the scanner builds.\<close>

fun scanned :: "pyvalue \<Rightarrow> bool" where
  "scanned (PyMapping i items) =
     ((\<exists>pairs. items = map (\<lambda>(k, v). (PyStr k, v)) pairs \<and> distinct (map fst pairs)) \<and>
      list_all (\<lambda>(k, v). scanned v) items)"
| "scanned (PySequence i vs) = list_all scanned vs"
| "scanned (PyUUID u) = False"
| "scanned (PyDateTime t) = False"
| "scanned (PyStrEnum s) = False"
| "scanned (PyFloat f) = False"
| "scanned PyOther = False"
| "scanned v = True"

definition reader_error :: "exn \<Rightarrow> bool" where
  "reader_error e \<longleftrightarrow> (\<exists>m. e = CanonicalJsonError m) \<or> e = DecimalInvalidOperation"

definition scans :: "(exn + 'a) \<Rightarrow> ('a \<Rightarrow> bool) \<Rightarrow> bool" where
  "scans r P \<longleftrightarrow> (case r of Inl e \<Rightarrow> reader_error e | Inr x \<Rightarrow> P x)"

lemma scans_bind: "scans r P \<Longrightarrow> (\<And>x. r = Inr x \<Longrightarrow> P x \<Longrightarrow> scans (f x) Q) \<Longrightarrow> scans (rbind r f) Q"
  by (cases r) (auto simp: scans_def)

lemma scans_simps [simp]:
  "scans (Inl json_invalid) P" "scans (Inl not_finite) P" "scans (Inl (CanonicalJsonError m)) P"
  "scans (Inl DecimalInvalidOperation) P" "scans (Inr x) P = P x"
  by (auto simp: scans_def reader_error_def json_invalid_def not_finite_def)

lemma scan_string_scans: "scans (scan_string s) (\<lambda>_. True)"
proof (induction s rule: scan_string.induct)
  case (2 c s)
  show ?case
  proof (cases "c = 92")
    case True
    then show ?thesis using 2(1) by (auto split: option.split intro!: scans_bind)
  next
    case False
    then show ?thesis using 2(2) by (auto intro!: scans_bind)
  qed
qed simp

lemma scan_number_scans: "scans (scan_number s) (\<lambda>(v, r). scanned v)"
proof -
  have dec: "scans (decimal_of_text n w f e) (\<lambda>_. True)" for n w f e
    by (simp add: decimal_of_text_def Let_def)
  have "scans (rbind (decimal_of_text n w f e) (\<lambda>d. Inr (PyDecimal d, r))) (\<lambda>(v, r). scanned v)" for n w f e and r :: pystr
    by (rule scans_bind[OF dec]) simp
  then have "scans (number_value n w r) (\<lambda>(v, r). scanned v)" for n w r
    unfolding number_value_def
    by (cases "fraction_part r"; cases "exponent_part (snd (fraction_part r))") (simp add: Let_def)
  then show ?thesis unfolding scan_number_def Let_def
    by (cases "int_part (if s \<noteq> [] \<and> hd s = 45 then tl s else s)") auto
qed

lemma unique_object_scans:
  "list_all (\<lambda>(k, v). scanned v) pairs \<Longrightarrow> scans (unique_object i pairs) scanned"
  by (auto simp: unique_object_def list_all_iff intro!: exI[of _ pairs])

lemma scan_leaf_scans:
  "c \<noteq> 34 \<Longrightarrow> c \<noteq> 123 \<Longrightarrow> c \<noteq> 91 \<Longrightarrow> scans (scan_once 1 (c # q)) (\<lambda>(v, r). scanned v)"
  using scan_number_scans[of "c # q"] by simp

lemma scan_scans:
  "scans (scan_once n s) (\<lambda>(v, r). scanned v)"
  "scans (scan_elements n s) (\<lambda>(vs, r). list_all scanned vs)"
  "scans (scan_members n s) (\<lambda>(ms, r). list_all (\<lambda>(k, v). scanned v) ms)"
proof (induction n arbitrary: s)
  case (Suc n)
  { case 1
    show ?case
    proof (cases s)
      case (Cons c q)
      consider "c = 34" | "c = 123" | "c = 91" | "c \<noteq> 34" "c \<noteq> 123" "c \<noteq> 91" by blast
      then show ?thesis
      proof cases
        case 1
        then show ?thesis unfolding Cons scan_once_cons
          by (auto intro!: scans_bind[OF scan_string_scans])
      next
        case 2
        then show ?thesis unfolding Cons scan_once_cons
          by (auto intro!: scans_bind[OF Suc.IH(3)] scans_bind[OF unique_object_scans])
      next
        case 3
        then show ?thesis unfolding Cons scan_once_cons by (auto intro!: scans_bind[OF Suc.IH(2)])
      next
        case 4
        then show ?thesis unfolding Cons scan_once_cons using scan_leaf_scans[of c q] by (simp del: scan_once.simps)
      qed
    qed simp
  next
    case 2
    have rest: "scans (rbind (scan_elements n q) (\<lambda>(vs, r'). Inr (v # vs, r'))) (\<lambda>(vs, r). list_all scanned vs)"
      if "scanned v" for v q
      by (rule scans_bind[OF Suc.IH(2)]) (use that in auto)
    show ?case unfolding scan_elements.simps
      by (rule scans_bind[OF Suc.IH(1)]) (auto simp: rest)
  next
    case 3
    have rest: "scans (rbind (scan_members n q) (\<lambda>(ms, r'). Inr ((k, v) # ms, r')))
        (\<lambda>(ms, r). list_all (\<lambda>(k, v). scanned v) ms)" if "scanned v" for k v q
      by (rule scans_bind[OF Suc.IH(3)]) (use that in auto)
    have one: "scans (rbind (scan_once n q) (\<lambda>(v, r).
          if next_char (skip_ws r) = Some 125 then Inr ([(k, v)], tl (skip_ws r))
          else if next_char (skip_ws r) = Some 44
          then rbind (scan_members n (skip_ws (tl (skip_ws r)))) (\<lambda>(ms, r'). Inr ((k, v) # ms, r'))
          else Inl json_invalid)) (\<lambda>(ms, r). list_all (\<lambda>(k, v). scanned v) ms)" for k q
      by (rule scans_bind[OF Suc.IH(1)]) (auto simp: rest)
    have "scans (rbind (scan_string (tl s)) (\<lambda>(k, r).
        if next_char (skip_ws r) \<noteq> Some 58 then Inl json_invalid
        else rbind (scan_once n (skip_ws (tl (skip_ws r)))) (\<lambda>(v, r).
          if next_char (skip_ws r) = Some 125 then Inr ([(k, v)], tl (skip_ws r))
          else if next_char (skip_ws r) = Some 44
          then rbind (scan_members n (skip_ws (tl (skip_ws r)))) (\<lambda>(ms, r'). Inr ((k, v) # ms, r'))
          else Inl json_invalid))) (\<lambda>(ms, r). list_all (\<lambda>(k, v). scanned v) ms)"
      by (rule scans_bind[OF scan_string_scans]) (auto simp: one)
    then show ?case by simp
  }
qed simp_all

lemma normalize_decimal_error: "normalize_decimal L d = Inl e \<Longrightarrow> \<exists>m. e = CanonicalJsonError m"
  by (auto simp: normalize_decimal_def normalize_integer_def split: if_splits option.splits pyfloat.splits)

lemma normalize_decimal_names: "normalize_decimal L d = Inr j \<Longrightarrow> unique_names j"
  by (auto simp: normalize_decimal_def ok_simps split: if_splits option.splits pyfloat.splits)

lemma normalize_leaf_scanned:
  assumes "scanned v" "\<not> is_container v"
  shows "case normalize L m active d v of Inl e \<Rightarrow> \<exists>msg. e = CanonicalJsonError msg | Inr j \<Rightarrow> unique_names j"
proof (cases v)
  case (PyDecimal x)
  then show ?thesis using normalize_decimal_error[of L x] normalize_decimal_names[of L x]
    by (cases "normalize_decimal L x") (auto simp: normalize.simps[of L m active d])
qed (use assms in \<open>auto simp: normalize.simps[of L m active d] validate_string_def normalize_integer_def\<close>)

lemma normalize_scanned:
  "scanned v \<Longrightarrow>
     case normalize L m active d v of Inl e \<Rightarrow> \<exists>msg. e = CanonicalJsonError msg | Inr j \<Rightarrow> unique_names j"
  "list_all (\<lambda>(k, v). (\<exists>s. k = PyStr s) \<and> scanned v) items \<Longrightarrow>
     case normalize_items L m active d items of
       Inl e \<Rightarrow> \<exists>msg. e = CanonicalJsonError msg
     | Inr ps \<Rightarrow> map (\<lambda>p. PyStr (fst p)) ps = map fst items \<and> list_all (\<lambda>(k, j). unique_names j) ps"
  "list_all scanned vs \<Longrightarrow>
     case normalize_children L m active d vs of
       Inl e \<Rightarrow> \<exists>msg. e = CanonicalJsonError msg | Inr js \<Rightarrow> list_all unique_names js"
proof (induction L m active d v and L m active d items and L m active d vs
    rule: normalize_normalize_items_normalize_children.induct)
  case (1 L m active d v)
  show ?case
  proof (cases v)
    case (PyMapping i items)
    obtain pairs where p: "items = map (\<lambda>(k, v). (PyStr k, v)) pairs" "distinct (map fst pairs)"
      and sc: "list_all (\<lambda>(k, v). scanned v) items" using 1(3) by (auto simp: PyMapping)
    have k: "map fst items = map PyStr (map fst pairs)" unfolding p(1) by (induction pairs) auto
    have "list_all (\<lambda>(k, v). (\<exists>s. k = PyStr s) \<and> scanned v) items" using sc p(1) by (auto simp: list_all_iff)
    note ih = 1(1)[OF _ PyMapping _ this]
    have "distinct (map fst ps)" if "map (\<lambda>p. PyStr (fst p)) ps = map fst items" for ps :: "(pystr \<times> json) list"
    proof -
      have "map PyStr (map fst ps) = map PyStr (map fst pairs)" using that k by (simp add: comp_def)
      moreover have "inj PyStr" by (rule injI) simp
      ultimately show ?thesis using p(2) by (simp add: inj_map_eq_map del: map_map)
    qed
    with ih show ?thesis
      by (cases "normalize_items L m (i # active) (d + 1) items")
        (auto simp: PyMapping normalize.simps[of L m active d "PyMapping i items"])
  next
    case (PySequence i vs)
    then have "list_all scanned vs" using 1(3) by simp
    from 1(2)[OF _ PySequence _ this] show ?thesis
      by (cases "normalize_children L m (i # active) (d + 1) vs")
        (auto simp: PySequence normalize.simps[of L m active d "PySequence i vs"])
  qed (rule normalize_leaf_scanned; use 1(3) in simp)+
next
  case (3 L m active d key child items)
  then obtain k where k: "key = PyStr k" "key_of key = Inr k" by (auto simp: key_of_def)
  show ?case
  proof (cases "normalize L m active d child")
    case (Inl e)
    then show ?thesis using 3(1)[OF k(2)] 3(3) k by (simp add: k(2))
  next
    case (Inr j)
    show ?thesis
    proof (cases "list_ex surrogate k")
      case True
      then show ?thesis using k by (simp add: Inr validate_string_def)
    next
      case False
      then have "validate_string k = Inr k" by (simp add: validate_string_def)
      from 3(2)[OF k(2) Inr this] 3(3) 3(1)[OF k(2)] k Inr this show ?thesis
        by (cases "normalize_items L m active d items") auto
    qed
  qed
next
  case (5 L m active d child children)
  show ?case
  proof (cases "normalize L m active d child")
    case (Inr j)
    from 5(2)[OF Inr] 5(1,3) Inr show ?thesis by (cases "normalize_children L m active d children") auto
  qed (use 5 in simp)
qed simp_all

lemma parse_json_strict_shape:
  "case parse_json_strict L b of
     Inl e \<Rightarrow> (\<exists>m. e = CanonicalJsonError m) \<or> e = DecimalInvalidOperation
   | Inr j \<Rightarrow> ijson j \<and> within_depth MAX_CANONICAL_JSON_DEPTH j \<and> unique_names j"
proof (cases "utf8_decode b")
  case (Inr s)
  have "scans (rbind (scan_once (2 * length s + 1) (skip_ws s)) (\<lambda>(v, r).
      if skip_ws r = [] then Inr v else Inl json_invalid)) scanned"
    by (rule scans_bind[OF scan_scans(1)]) auto
  then have "scans (json_loads s) scanned" unfolding json_loads_def by simp
  then show ?thesis
  proof (cases "json_loads s")
    case (Inr v)
    with \<open>scans (json_loads s) scanned\<close> have "scanned v" by simp
    from normalize_scanned(1)[OF this, of L MAX_CANONICAL_JSON_DEPTH "[]" 0]
      normalize_ijson(1)[of L MAX_CANONICAL_JSON_DEPTH "[]" 0 v]
    show ?thesis
      by (cases "normalize L MAX_CANONICAL_JSON_DEPTH [] 0 v")
        (auto simp: parse_json_strict_def \<open>utf8_decode b = Inr s\<close> parse_json_text_def Inr normalize_json_value_def
          MAX_CANONICAL_JSON_DEPTH_def)
  qed (auto simp: parse_json_strict_def Inr parse_json_text_def scans_def reader_error_def)
qed (simp add: parse_json_strict_def)


text \<open>A number with a huge exponent makes the reader raise the exception of the decimal module.\<close>

lemma parse_json_strict_decimal_escapes:
  "parse_json_strict sample_codec (concat (map utf8_char (lit ''1e1000000000000000000''))) = Inl DecimalInvalidOperation"
proof -
  let ?s = "lit ''1e1000000000000000000''"
  have n: "scan_number ?s = Inl DecimalInvalidOperation"
    by (simp add: scan_number_def lit_def int_part_def is_digit_def fraction_part_def exponent_part_def
        number_value_def decimal_of_text_def digits_value_def ndigits.simps DECIMAL_MAX_EMAX_def)
  have u: "utf8_decode (concat (map utf8_char ?s)) = Inr ?s"
    by (rule utf8_decode_encode) (simp add: lit_def surrogate_def)
  have s: "?s = 49 # tl ?s" by (simp add: lit_def)
  have "next_char ?s = Some 49" "skip_ws ?s = ?s" by (simp_all add: lit_def next_char_def skip_ws_def is_ws_def)
  moreover have "scan_once (Suc k) ?s = scan_number ?s" for k
    by (simp add: lit_def literal_prefix_def)
  ultimately show ?thesis using n by (simp add: parse_json_strict_def u parse_json_text_def json_loads_def)
qed

end
