(* ===== verification/JCS.thy ===== *)
theory JCS
  imports JSON_Text "HOL-Library.List_Lexorder"
begin

text \<open>
  The part of RFC 8785 that the ledger depends on, stated as what the serialiser is documented to
  return: for a value without fractional numbers, the text of the value with the members of every
  object ordered by the UTF-16 code units of their names, in UTF-8. A serialiser with this
  behaviour is a left inverse of the strict reader, and one is given.
\<close>

definition utf16_units :: "nat \<Rightarrow> nat list" where
  "utf16_units c =
     (if c < 0x10000 then [c] else [0xD800 + (c - 0x10000) div 1024, 0xDC00 + (c - 0x10000) mod 1024])"

definition utf16 :: "pystr \<Rightarrow> nat list" where
  "utf16 s = concat (map utf16_units s)"

fun sort_names :: "json \<Rightarrow> json" where
  "sort_names (JArr js) = JArr (map sort_names js)"
| "sort_names (JObj ps) = JObj (sort_key (\<lambda>p. utf16 (fst p)) (map (\<lambda>(k, j). (k, sort_names j)) ps))"
| "sort_names j = j"

definition text_bytes :: "json \<Rightarrow> bytes" where
  "text_bytes j = concat (map utf8_char (json_text j))"

definition rfc8785_plain :: "'z codec_scheme \<Rightarrow> bool" where
  "rfc8785_plain L \<longleftrightarrow> (\<forall>j. plain_json j \<and> ijson j \<and> text_points j \<longrightarrow>
     rfc8785_dumps L j = Some (text_bytes (sort_names j)))"

lemma sort_names_keeps:
  "ijson (sort_names j) = ijson j" "text_points (sort_names j) = text_points j"
  "within_depth n (sort_names j) = within_depth n j" "plain_json (sort_names j) = plain_json j"
proof (induction j arbitrary: n)
  case (JObj ps)
  have f: "map fst (map (\<lambda>(k, j). (k, sort_names j)) ps) = map fst ps" by (induction ps) auto
  have "distinct (map fst (sort_key (\<lambda>p. utf16 (fst p)) xs)) = distinct (map fst xs)" for xs :: "(pystr \<times> json) list"
    by (simp add: distinct_map)
  then have d: "distinct (map fst (sort_key (\<lambda>p. utf16 (fst p)) (map (\<lambda>(k, j). (k, sort_names j)) ps))) = distinct (map fst ps)"
    by (simp only: f)
  have all: "list_all P (sort_key (\<lambda>p. utf16 (fst p)) (map (\<lambda>(k, j). (k, sort_names j)) ps)) =
      list_all (\<lambda>(k, j). P (k, sort_names j)) ps" for P
    by (auto simp: list_all_iff)
  have ih: "ijson (sort_names j) = ijson j" "text_points (sort_names j) = text_points j"
    "within_depth n (sort_names j) = within_depth n j" "plain_json (sort_names j) = plain_json j"
    if "(k, j) \<in> set ps" for k j n
    using JObj[OF that, of j] by auto
  {
    case 1 show ?case unfolding sort_names.simps ijson.simps all by (rule list.pred_cong) (auto simp: ih)
  next
    case 2 show ?case unfolding sort_names.simps text_points.simps all by (rule list.pred_cong) (auto simp: ih)
  next
    case 3 show ?case unfolding sort_names.simps within_depth.simps all
      by (intro conj_cong refl list.pred_cong) (auto simp: ih)
  next
    case 4 show ?case unfolding sort_names.simps plain_json.simps all d
      by (intro conj_cong refl list.pred_cong) (auto simp: ih)
  }
qed (auto simp: list_all_iff)

lemma sort_names_idem: "sort_names (sort_names j) = sort_names j"
proof (induction j)
  case (JObj ps)
  let ?g = "\<lambda>(k, j). (k, sort_names j)" and ?f = "\<lambda>p. utf16 (fst p)"
  have "sort_key ?f (map ?g (sort_key ?f (map ?g ps))) = map ?g (sort_key ?f (map ?g ps))"
  proof (rule sort_key_sorted)
    have "map ?f (map ?g xs) = map ?f xs" for xs :: "(pystr \<times> json) list" by (induction xs) auto
    then show "sorted (map ?f (map ?g (sort_key ?f (map ?g ps))))" by (simp only: sorted_sort_key)
  qed
  moreover have "map ?g (sort_key ?f (map ?g ps)) = sort_key ?f (map ?g ps)"
    using JObj by (intro map_idI) auto
  ultimately show ?case by simp
qed auto

lemma document_text:
  assumes "rfc8785_plain L" "plain_json j" "ijson j" "text_points j" "within_depth MAX_CANONICAL_JSON_DEPTH j"
  shows "canonical_json_bytes L (py_of_json 0 j) = Inr (text_bytes (sort_names j))"
    and "parse_json_strict L (text_bytes (sort_names j)) = Inr (sort_names j)"
proof -
  have "normalize_json_value L MAX_CANONICAL_JSON_DEPTH (py_of_json 0 j) = Inr j"
    unfolding normalize_json_value_def using assms(3,5)
    by (simp add: MAX_CANONICAL_JSON_DEPTH_def normalize_py_of_json)
  then show "canonical_json_bytes L (py_of_json 0 j) = Inr (text_bytes (sort_names j))"
    using assms by (simp add: canonical_json_bytes_def rfc8785_plain_def)
  show "parse_json_strict L (text_bytes (sort_names j)) = Inr (sort_names j)"
    unfolding text_bytes_def
    by (rule json_text_roundtrip) (use assms in \<open>simp_all add: sort_names_keeps\<close>)
qed

text \<open>A serialiser with the documented behaviour, beside a digest of the first 32 bytes.\<close>

definition jcs_codec :: codec where
  "jcs_codec = \<lparr> rfc8785_dumps = (\<lambda>j. if plain_json j then Some (text_bytes (sort_names j)) else None),
     sha256 = (\<lambda>b. take 32 (b @ replicate 32 0)), decimal_to_float = (\<lambda>d. FFinite (dec_normalize d)) \<rparr>"

lemma jcs_codec_plain: "rfc8785_plain jcs_codec"
  by (simp add: rfc8785_plain_def jcs_codec_def)

end
