(* ===== verification/Destruction_Ledger.thy ===== *)
theory Destruction_Ledger
  imports JSON_Reader "HOL-Library.Char_ord" "HOL-Library.List_Lexorder"
begin

text \<open>
  The destruction ledger (\<^verbatim>\<open>security/destruction_ledger.py\<close>): a directory of immutable records, one
  per destroyed content key, chained by digests, and an anchor file outside it that names the
  length and the head of the chain. Directories are dictionaries from file names to files. An
  operation that writes is a sequence of system calls; the model records the state after each of
  them, so that a crash is a stop at any of these states. The checks of paths, owners and access
  rights by the operating system are one flag of the state; writing a file's bytes is one step.
\<close>

subsection \<open>Files and interruptible writes\<close>

record ledger_file =
  fl_regular :: bool
  fl_mode :: nat
  fl_nlink :: nat
  fl_content :: bytes

type_synonym directory = "(string, ledger_file) dict"

record ledger_fs =
  lf_ledger :: directory
  lf_anchors :: directory
  lf_paths_valid :: bool

text \<open>A run: the states after each system call, the final state and the outcome.\<close>

type_synonym ('s, 'a) run = "'s \<Rightarrow> 's list \<times> 's \<times> 'a result"

definition run_return :: "'a result \<Rightarrow> ('s, 'a) run" where
  "run_return r s = ([], s, r)"

definition run_read :: "('s \<Rightarrow> 'a result) \<Rightarrow> ('s, 'a) run" where
  "run_read f s = ([], s, f s)"

definition run_step :: "('s \<Rightarrow> 's) \<Rightarrow> ('s, unit) run" where
  "run_step f s = ([f s], f s, Inr ())"

definition run_bind :: "('s, 'a) run \<Rightarrow> ('a \<Rightarrow> ('s, 'b) run) \<Rightarrow> ('s, 'b) run" where
  "run_bind m k s =
     (case m s of (t, s', r) \<Rightarrow>
      case r of
        Inl e \<Rightarrow> (t, s', Inl e)
      | Inr x \<Rightarrow> (case k x s' of (t', s'', r') \<Rightarrow> (t @ t', s'', r')))"

definition run_trace :: "('s, 'a) run \<Rightarrow> 's \<Rightarrow> 's list" where
  "run_trace m s = fst (m s)"

definition run_final :: "('s, 'a) run \<Rightarrow> 's \<Rightarrow> 's" where
  "run_final m s = fst (snd (m s))"

definition run_result :: "('s, 'a) run \<Rightarrow> 's \<Rightarrow> 'a result" where
  "run_result m s = snd (snd (m s))"

definition guarded :: "'a result \<Rightarrow> 'a result" where
  "guarded r = (case r of Inl _ \<Rightarrow> Inl KeyProviderError | Inr x \<Rightarrow> Inr x)"

definition run_guarded :: "('s, 'a) run \<Rightarrow> ('s, 'a) run" where
  "run_guarded m s = (case m s of (t, s', r) \<Rightarrow> (t, s', guarded r))"

subsection \<open>Entries and anchors\<close>

definition RECORD_VERSION :: int where "RECORD_VERSION = 1"
definition RECEIPT_BYTES :: nat where "RECEIPT_BYTES = 32"
definition MAX_RECORD_BYTES :: nat where "MAX_RECORD_BYTES = 2048"
definition RECORD_MODE :: nat where "RECORD_MODE = 416"
definition ANCHOR_MODE :: nat where "ANCHOR_MODE = 416"

record ledger_entry =
  le_content_key_id :: uuid
  le_tenant_id :: uuid
  le_lineage_id :: uuid
  le_memory_id :: uuid
  le_receipt :: bytes

definition new_entry :: "ledger_entry \<Rightarrow> ledger_entry result" where
  "new_entry e =
     rbind (require_uuid7 (le_content_key_id e) ''content_key_id'') (\<lambda>_.
     rbind (require_uuid7 (le_tenant_id e) ''tenant_id'') (\<lambda>_.
     rbind (require_uuid7 (le_lineage_id e) ''lineage_id'') (\<lambda>_.
     rbind (require_uuid7 (le_memory_id e) ''memory_id'') (\<lambda>_.
       if length (le_receipt e) \<noteq> RECEIPT_BYTES then Inl (ValueError ''destruction ledger entry is invalid'')
       else Inr e))))"

text \<open>The entries that construction accepts.\<close>

definition valid_entry :: "ledger_entry \<Rightarrow> bool" where
  "valid_entry e \<longleftrightarrow> is_uuid7 (le_content_key_id e) \<and> is_uuid7 (le_tenant_id e)
     \<and> is_uuid7 (le_lineage_id e) \<and> is_uuid7 (le_memory_id e) \<and> length (le_receipt e) = RECEIPT_BYTES"

lemma new_entry_iff: "new_entry e = Inr e' \<longleftrightarrow> valid_entry e \<and> e' = e"
  by (auto simp: new_entry_def valid_entry_def require_uuid7_def)

definition hex_text :: "pystr \<Rightarrow> bool" where
  "hex_text s \<longleftrightarrow> length s = 64 \<and> list_all (\<lambda>c. c \<in> set (lit hex_alphabet)) s"

record ledger_anchor =
  la_entry_count :: int
  la_aggregate_sha256 :: pystr

definition new_anchor :: "json \<Rightarrow> json \<Rightarrow> ledger_anchor result" where
  "new_anchor entry_count aggregate =
     (case (entry_count, aggregate) of
        (JInt n, JStr s) \<Rightarrow>
          if n < 0 \<or> \<not> hex_text s then Inl (ValueError ''destruction ledger anchor is invalid'')
          else Inr \<lparr> la_entry_count = n, la_aggregate_sha256 = s \<rparr>
      | _ \<Rightarrow> Inl (ValueError ''destruction ledger anchor is invalid''))"

definition anchor_document :: "ledger_anchor \<Rightarrow> json" where
  "anchor_document a = JObj [(lit ''version'', JInt RECORD_VERSION), (lit ''entry_count'', JInt (la_entry_count a)),
     (lit ''aggregate_sha256'', JStr (la_aggregate_sha256 a))]"

definition document_bytes :: "'z codec_scheme \<Rightarrow> json \<Rightarrow> bytes result" where
  "document_bytes L j = canonical_json_bytes L (py_of_json 0 j)"

definition anchor_bytes :: "'z codec_scheme \<Rightarrow> ledger_anchor \<Rightarrow> bytes result" where
  "anchor_bytes L a = document_bytes L (anchor_document a)"

text \<open>In Python \<^verbatim>\<open>True == 1\<close>.\<close>

definition is_version :: "json option \<Rightarrow> bool" where
  "is_version v \<longleftrightarrow> v = Some (JInt RECORD_VERSION) \<or> v = Some (JBool True)"

definition anchor_from_bytes :: "'z codec_scheme \<Rightarrow> bytes \<Rightarrow> ledger_anchor result" where
  "anchor_from_bytes L raw =
     rbind (parse_json_strict L raw) (\<lambda>document.
       case document of
         JObj ps \<Rightarrow>
           if set (map fst ps) \<noteq> {lit ''version'', lit ''entry_count'', lit ''aggregate_sha256''}
              \<or> \<not> is_version (dict_get ps (lit ''version''))
           then Inl (ValueError ''destruction ledger anchor is invalid'')
           else rbind (document_bytes L document) (\<lambda>canonical.
             if canonical \<noteq> raw then Inl (ValueError ''destruction ledger anchor is invalid'')
             else new_anchor (the (dict_get ps (lit ''entry_count''))) (the (dict_get ps (lit ''aggregate_sha256''))))
       | _ \<Rightarrow> Inl (ValueError ''destruction ledger anchor is invalid''))"

subsection \<open>Records\<close>

record ledger_record =
  lr_entry :: ledger_entry
  lr_generation :: int
  lr_previous_sha256 :: pystr
  lr_record_sha256 :: pystr

definition hexdigest :: "'z codec_scheme \<Rightarrow> bytes \<Rightarrow> pystr" where
  "hexdigest L b = lit (sha256_hexdigest L b)"

definition empty_head :: "'z codec_scheme \<Rightarrow> pystr result" where
  "empty_head L =
     rbind (document_bytes L (JObj [(lit ''version'', JInt RECORD_VERSION)])) (\<lambda>b. Inr (hexdigest L b))"

definition anchor_for_records :: "'z codec_scheme \<Rightarrow> ledger_record list \<Rightarrow> ledger_anchor result" where
  "anchor_for_records L records =
     rbind (if records = [] then empty_head L else Inr (lr_record_sha256 (last records))) (\<lambda>digest.
       new_anchor (JInt (int (length records))) (JStr digest))"

definition unsigned_members :: "ledger_entry \<Rightarrow> int \<Rightarrow> pystr \<Rightarrow> (pystr \<times> json) list" where
  "unsigned_members e generation previous =
     [(lit ''version'', JInt RECORD_VERSION), (lit ''generation'', JInt generation),
      (lit ''previous_sha256'', JStr previous), (lit ''state'', JStr (lit ''destroyed'')),
      (lit ''content_key_id'', JStr (lit (uuid_str (le_content_key_id e)))),
      (lit ''tenant_id'', JStr (lit (uuid_str (le_tenant_id e)))),
      (lit ''lineage_id'', JStr (lit (uuid_str (le_lineage_id e)))),
      (lit ''memory_id'', JStr (lit (uuid_str (le_memory_id e)))),
      (lit ''receipt'', JStr (lit (b64encode (le_receipt e))))]"

definition record_digest :: "'z codec_scheme \<Rightarrow> ledger_entry \<Rightarrow> int \<Rightarrow> pystr \<Rightarrow> pystr result" where
  "record_digest L e generation previous =
     rbind (document_bytes L (JObj (unsigned_members e generation previous))) (\<lambda>b. Inr (hexdigest L b))"

definition entry_document :: "'z codec_scheme \<Rightarrow> ledger_entry \<Rightarrow> int \<Rightarrow> pystr \<Rightarrow> json result" where
  "entry_document L e generation previous =
     rbind (record_digest L e generation previous) (\<lambda>digest.
       Inr (JObj (unsigned_members e generation previous @ [(lit ''record_sha256'', JStr digest)])))"

text \<open>\<^verbatim>\<open>_anchor_for_entries\<close> builds the chain afresh.\<close>

fun records_for_entries ::
    "'z codec_scheme \<Rightarrow> int \<Rightarrow> pystr \<Rightarrow> ledger_entry list \<Rightarrow> ledger_record list result" where
  "records_for_entries L generation previous [] = Inr []"
| "records_for_entries L generation previous (e # es) =
     rbind (record_digest L e generation previous) (\<lambda>digest.
     rbind (records_for_entries L (generation + 1) digest es) (\<lambda>records.
       Inr (\<lparr> lr_entry = e, lr_generation = generation, lr_previous_sha256 = previous,
              lr_record_sha256 = digest \<rparr> # records)))"

definition anchor_for_entries :: "'z codec_scheme \<Rightarrow> ledger_entry list \<Rightarrow> ledger_anchor result" where
  "anchor_for_entries L es =
     rbind (empty_head L) (\<lambda>head.
     rbind (records_for_entries L 1 head es) (\<lambda>records. anchor_for_records L records))"

definition entry_name :: "uuid \<Rightarrow> string" where
  "entry_name key = ''destroyed-'' @ uuid_str key @ ''.json''"

definition invalid_record :: exn where
  "invalid_record = ValueError []"

definition read_bounded_file :: "nat \<Rightarrow> directory \<Rightarrow> string \<Rightarrow> bytes result" where
  "read_bounded_file mode dir name =
     (case dict_get dir name of
        None \<Rightarrow> Inl FileNotFoundError
      | Some f \<Rightarrow>
          if \<not> fl_regular f \<or> fl_mode f \<noteq> mode \<or> fl_nlink f \<noteq> 1
             \<or> \<not> (1 \<le> length (fl_content f) \<and> length (fl_content f) \<le> MAX_RECORD_BYTES)
          then Inl invalid_record else Inr (fl_content f))"

definition string_of :: "pystr \<Rightarrow> string" where
  "string_of s = map char_of s"

definition canonical_uuid :: "string \<Rightarrow> json option \<Rightarrow> uuid result" where
  "canonical_uuid field_name v =
     (case v of
        Some (JStr s) \<Rightarrow>
          rbind (uuid_unstr (string_of s)) (\<lambda>u.
          rbind (require_uuid7 u field_name) (\<lambda>_.
            if lit (uuid_str u) \<noteq> s then Inl invalid_record else Inr u))
      | _ \<Rightarrow> Inl invalid_record)"

definition canonical_base64 :: "json option \<Rightarrow> bytes result" where
  "canonical_base64 v =
     (case v of
        Some (JStr s) \<Rightarrow>
          rbind (b64decode (string_of s)) (\<lambda>decoded.
            if length decoded \<noteq> RECEIPT_BYTES \<or> lit (b64encode decoded) \<noteq> s then Inl invalid_record
            else Inr decoded)
      | _ \<Rightarrow> Inl invalid_record)"

definition RECORD_FIELDS :: "pystr list" where
  "RECORD_FIELDS = map lit [''version'', ''generation'', ''previous_sha256'', ''state'', ''content_key_id'',
     ''tenant_id'', ''lineage_id'', ''memory_id'', ''receipt'', ''record_sha256'']"

definition entry_of_members :: "(pystr \<times> json) list \<Rightarrow> ledger_entry result" where
  "entry_of_members ps =
     rbind (canonical_uuid ''content_key_id'' (dict_get ps (lit ''content_key_id''))) (\<lambda>content_key_id.
     rbind (canonical_uuid ''tenant_id'' (dict_get ps (lit ''tenant_id''))) (\<lambda>tenant_id.
     rbind (canonical_uuid ''lineage_id'' (dict_get ps (lit ''lineage_id''))) (\<lambda>lineage_id.
     rbind (canonical_uuid ''memory_id'' (dict_get ps (lit ''memory_id''))) (\<lambda>memory_id.
     rbind (canonical_base64 (dict_get ps (lit ''receipt''))) (\<lambda>receipt.
       new_entry \<lparr> le_content_key_id = content_key_id, le_tenant_id = tenant_id,
         le_lineage_id = lineage_id, le_memory_id = memory_id, le_receipt = receipt \<rparr>)))))"

definition record_of_members :: "'z codec_scheme \<Rightarrow> string \<Rightarrow> (pystr \<times> json) list \<Rightarrow> ledger_record result" where
  "record_of_members L name ps =
     (if set (map fst ps) \<noteq> set RECORD_FIELDS \<or> \<not> is_version (dict_get ps (lit ''version''))
         \<or> dict_get ps (lit ''state'') \<noteq> Some (JStr (lit ''destroyed''))
      then Inl invalid_record
      else case (dict_get ps (lit ''generation''), dict_get ps (lit ''previous_sha256''), dict_get ps (lit ''record_sha256'')) of
        (Some (JInt generation), Some (JStr previous), Some (JStr digest)) \<Rightarrow>
          if generation < 1 \<or> \<not> hex_text previous \<or> length digest \<noteq> 64 then Inl invalid_record
          else rbind (document_bytes L (JObj (filter (\<lambda>(k, v). k \<noteq> lit ''record_sha256'') ps))) (\<lambda>b.
            if digest \<noteq> hexdigest L b then Inl invalid_record
            else rbind (entry_of_members ps) (\<lambda>entry.
              if name \<noteq> entry_name (le_content_key_id entry) then Inl invalid_record
              else Inr \<lparr> lr_entry = entry, lr_generation = generation, lr_previous_sha256 = previous,
                         lr_record_sha256 = digest \<rparr>))
      | _ \<Rightarrow> Inl invalid_record)"

definition read_record :: "'z codec_scheme \<Rightarrow> directory \<Rightarrow> string \<Rightarrow> ledger_record result" where
  "read_record L dir name =
     rbind (read_bounded_file RECORD_MODE dir name) (\<lambda>raw.
     rbind (parse_json_strict L raw) (\<lambda>parsed.
       case parsed of
         JObj ps \<Rightarrow>
           rbind (document_bytes L parsed) (\<lambda>canonical.
             if canonical \<noteq> raw then Inl invalid_record else record_of_members L name ps)
       | _ \<Rightarrow> Inl invalid_record))"

definition read_entry :: "'z codec_scheme \<Rightarrow> directory \<Rightarrow> string \<Rightarrow> ledger_entry result" where
  "read_entry L dir name = rbind (read_record L dir name) (\<lambda>r. Inr (lr_entry r))"

fun chained :: "int \<Rightarrow> pystr \<Rightarrow> ledger_record list \<Rightarrow> bool" where
  "chained generation previous [] = True"
| "chained generation previous (r # rs) =
     (lr_generation r = generation \<and> lr_previous_sha256 r = previous
      \<and> chained (generation + 1) (lr_record_sha256 r) rs)"

definition read_named_record :: "'z codec_scheme \<Rightarrow> directory \<Rightarrow> string \<Rightarrow> ledger_record result" where
  "read_named_record L dir name =
     (if take 10 name \<noteq> ''destroyed-'' then Inl invalid_record else read_record L dir name)"

definition records :: "'z codec_scheme \<Rightarrow> directory \<Rightarrow> ledger_record list result" where
  "records L dir =
     rbind (traverse (read_named_record L dir) (sort (map fst dir))) (\<lambda>unordered.
       let rs = sort_key lr_generation unordered
       in rbind (empty_head L) (\<lambda>head.
            if \<not> chained 1 head rs then Inl invalid_record
            else if \<not> distinct (map (\<lambda>r. le_content_key_id (lr_entry r)) rs) then Inl invalid_record
            else Inr rs))"

definition entries_of :: "'z codec_scheme \<Rightarrow> directory \<Rightarrow> ledger_entry list result" where
  "entries_of L dir = rbind (records L dir) (\<lambda>rs. Inr (map lr_entry rs))"

definition anchor_is_prefix :: "'z codec_scheme \<Rightarrow> ledger_anchor \<Rightarrow> ledger_record list \<Rightarrow> bool result" where
  "anchor_is_prefix L accepted rs =
     (if int (length rs) < la_entry_count accepted then Inr False
      else rbind (if la_entry_count accepted = 0 then empty_head L
                  else Inr (lr_record_sha256 (rs ! nat (la_entry_count accepted - 1)))) (\<lambda>digest.
        Inr (la_aggregate_sha256 accepted = digest)))"

definition ANCHOR_NAME :: string where "ANCHOR_NAME = ''current.json''"

definition read_anchor :: "'z codec_scheme \<Rightarrow> directory \<Rightarrow> string \<Rightarrow> ledger_anchor result" where
  "read_anchor L dir name = rbind (read_bounded_file ANCHOR_MODE dir name) (\<lambda>raw. anchor_from_bytes L raw)"

subsection \<open>Reading the ledger\<close>

definition require_current_anchor_locked ::
    "'z codec_scheme \<Rightarrow> ledger_anchor option \<Rightarrow> ledger_fs \<Rightarrow> unit result" where
  "require_current_anchor_locked L expected_anchor fs =
     rbind (read_anchor L (lf_anchors fs) ANCHOR_NAME) (\<lambda>expected.
     rbind (records L (lf_ledger fs)) (\<lambda>rs.
     rbind (anchor_for_records L rs) (\<lambda>actual.
       if la_entry_count actual \<noteq> la_entry_count expected
          \<or> la_aggregate_sha256 actual \<noteq> la_aggregate_sha256 expected
       then Inl invalid_record
       else case expected_anchor of
              None \<Rightarrow> Inr ()
            | Some accepted \<Rightarrow>
                rbind (anchor_is_prefix L accepted rs) (\<lambda>ok. if \<not> ok then Inl invalid_record else Inr ()))))"

definition require_current_anchor ::
    "'z codec_scheme \<Rightarrow> ledger_anchor option \<Rightarrow> ledger_fs \<Rightarrow> unit result" where
  "require_current_anchor L expected_anchor fs = guarded (require_current_anchor_locked L expected_anchor fs)"

text \<open>Opening the ledger validates the paths, reads the anchor and requires it to be current.\<close>

definition open_ledger :: "'z codec_scheme \<Rightarrow> ledger_anchor option \<Rightarrow> ledger_fs \<Rightarrow> unit result" where
  "open_ledger L expected_anchor fs =
     guarded (if \<not> lf_paths_valid fs then Inl invalid_record
       else rbind (read_anchor L (lf_anchors fs) ANCHOR_NAME) (\<lambda>_. require_current_anchor L expected_anchor fs))"

definition lookup ::
    "'z codec_scheme \<Rightarrow> ledger_anchor option \<Rightarrow> uuid \<Rightarrow> ledger_fs \<Rightarrow> ledger_entry option result" where
  "lookup L expected_anchor content_key_id fs =
     guarded (rbind (require_uuid7 content_key_id ''content_key_id'') (\<lambda>_.
       rbind (require_current_anchor_locked L expected_anchor fs) (\<lambda>_.
         case read_entry L (lf_ledger fs) (entry_name content_key_id) of
           Inl e \<Rightarrow> if e = FileNotFoundError then Inr None else Inl e
         | Inr entry \<Rightarrow> Inr (Some entry))))"

definition entries :: "'z codec_scheme \<Rightarrow> ledger_anchor option \<Rightarrow> ledger_fs \<Rightarrow> ledger_entry list result" where
  "entries L expected_anchor fs =
     guarded (rbind (require_current_anchor_locked L expected_anchor fs) (\<lambda>_. entries_of L (lf_ledger fs)))"

definition anchor :: "'z codec_scheme \<Rightarrow> ledger_anchor option \<Rightarrow> ledger_fs \<Rightarrow> ledger_anchor result" where
  "anchor L expected_anchor fs = rbind (entries L expected_anchor fs) (\<lambda>es. anchor_for_entries L es)"

definition require_anchor ::
    "'z codec_scheme \<Rightarrow> ledger_anchor option \<Rightarrow> ledger_anchor \<Rightarrow> ledger_fs \<Rightarrow> unit result" where
  "require_anchor L expected_anchor expected fs =
     rbind (require_current_anchor L expected_anchor fs) (\<lambda>_.
     rbind (anchor L expected_anchor fs) (\<lambda>actual.
       if la_entry_count actual \<noteq> la_entry_count expected
          \<or> la_aggregate_sha256 actual \<noteq> la_aggregate_sha256 expected
       then Inl KeyProviderError else Inr ()))"

subsection \<open>Writing\<close>

definition new_file :: "nat \<Rightarrow> bytes \<Rightarrow> ledger_file" where
  "new_file mode content = \<lparr> fl_regular = True, fl_mode = mode, fl_nlink = 1, fl_content = content \<rparr>"

text \<open>
  A file is published by linking a complete temporary file to its name. When the name is taken
  the link fails and the publication is silently skipped.
\<close>

definition link_file :: "string \<Rightarrow> string \<Rightarrow> directory \<Rightarrow> directory" where
  "link_file source target dir =
     (case dict_get dir source of
        None \<Rightarrow> dir
      | Some f \<Rightarrow> dict_set target (f\<lparr> fl_nlink := 2 \<rparr>) (dict_set source (f\<lparr> fl_nlink := 2 \<rparr>) dir))"

definition unlink_linked :: "string \<Rightarrow> string \<Rightarrow> directory \<Rightarrow> directory" where
  "unlink_linked source target dir =
     (case dict_get dir target of
        None \<Rightarrow> dict_del source dir
      | Some f \<Rightarrow> dict_set target (f\<lparr> fl_nlink := 1 \<rparr>) (dict_del source dir))"

definition publish_once :: "string \<Rightarrow> string \<Rightarrow> bytes \<Rightarrow> nat \<Rightarrow> (directory, unit) run" where
  "publish_once temporary destination payload mode dir =
     (if dict_has dir temporary
      then ([dict_del temporary dir], dict_del temporary dir, Inl (ValueError ''File exists''))
      else run_bind (run_step (dict_set temporary (new_file mode []))) (\<lambda>_.
           run_bind (run_step (dict_set temporary (new_file mode payload))) (\<lambda>_.
           run_bind (run_read (\<lambda>d. Inr (dict_has d destination))) (\<lambda>taken.
             if taken then run_step (dict_del temporary)
             else run_bind (run_step (link_file temporary destination)) (\<lambda>_.
                    run_step (unlink_linked temporary destination))))) dir)"

definition replace_file :: "string \<Rightarrow> string \<Rightarrow> bytes result \<Rightarrow> nat \<Rightarrow> (directory, unit) run" where
  "replace_file temporary destination payload mode dir =
     (if dict_has dir temporary
      then ([dict_del temporary dir], dict_del temporary dir, Inl (ValueError ''File exists''))
      else run_bind (run_step (dict_set temporary (new_file mode []))) (\<lambda>_.
           case payload of
             Inl e \<Rightarrow> run_bind (run_step (dict_del temporary)) (\<lambda>_. run_return (Inl e))
           | Inr b \<Rightarrow> run_bind (run_step (dict_set temporary (new_file mode b))) (\<lambda>_.
                        run_step (\<lambda>d. dict_set destination (new_file mode b) (dict_del temporary d)))) dir)"

definition on_ledger :: "(directory, 'a) run \<Rightarrow> (ledger_fs, 'a) run" where
  "on_ledger m fs =
     (case m (lf_ledger fs) of (t, d, r) \<Rightarrow>
        (map (\<lambda>d. fs\<lparr> lf_ledger := d \<rparr>) t, fs\<lparr> lf_ledger := d \<rparr>, r))"

definition on_anchors :: "(directory, 'a) run \<Rightarrow> (ledger_fs, 'a) run" where
  "on_anchors m fs =
     (case m (lf_anchors fs) of (t, d, r) \<Rightarrow>
        (map (\<lambda>d. fs\<lparr> lf_anchors := d \<rparr>) t, fs\<lparr> lf_anchors := d \<rparr>, r))"

definition anchor_history_name :: "ledger_anchor \<Rightarrow> string" where
  "anchor_history_name a =
     ''accepted-'' @ zero_padded 20 (nat (la_entry_count a)) @ ''-'' @ string_of (la_aggregate_sha256 a) @ ''.json''"

definition publish_anchor_history_once ::
    "'z codec_scheme \<Rightarrow> string \<Rightarrow> ledger_anchor \<Rightarrow> (ledger_fs, unit) run" where
  "publish_anchor_history_once L temporary a =
     run_bind (run_return (anchor_bytes L a)) (\<lambda>b.
       on_anchors (publish_once temporary (anchor_history_name a) b ANCHOR_MODE))"

definition require_anchor_file :: "'z codec_scheme \<Rightarrow> ledger_anchor \<Rightarrow> (ledger_fs, unit) run" where
  "require_anchor_file L a =
     run_bind (run_read (\<lambda>fs. read_anchor L (lf_anchors fs) ANCHOR_NAME)) (\<lambda>stored.
       run_return (if stored \<noteq> a then Inl invalid_record else Inr ()))"

definition publish_anchor_once :: "'z codec_scheme \<Rightarrow> string \<Rightarrow> ledger_anchor \<Rightarrow> (ledger_fs, unit) run" where
  "publish_anchor_once L temporary a =
     run_bind (run_return (anchor_bytes L a)) (\<lambda>b.
     run_bind (on_anchors (publish_once temporary ANCHOR_NAME b ANCHOR_MODE)) (\<lambda>_. require_anchor_file L a))"

definition replace_anchor :: "'z codec_scheme \<Rightarrow> string \<Rightarrow> ledger_anchor \<Rightarrow> (ledger_fs, unit) run" where
  "replace_anchor L temporary a =
     run_bind (on_anchors (replace_file temporary ANCHOR_NAME (anchor_bytes L a) ANCHOR_MODE)) (\<lambda>_.
       require_anchor_file L a)"

text \<open>The random names of the temporary files of one operation.\<close>

record temporaries =
  tm_record :: string
  tm_history :: string
  tm_anchor :: string

definition accept_anchor :: "'z codec_scheme \<Rightarrow> temporaries \<Rightarrow> ledger_anchor \<Rightarrow> (ledger_fs, unit) run" where
  "accept_anchor L temp a =
     run_bind (publish_anchor_history_once L (tm_history temp) a) (\<lambda>_. replace_anchor L (tm_anchor temp) a)"

definition find_record :: "uuid \<Rightarrow> ledger_record list \<Rightarrow> ledger_entry option" where
  "find_record key rs = map_option lr_entry (find (\<lambda>r. le_content_key_id (lr_entry r) = key) rs)"

definition append_record ::
    "'z codec_scheme \<Rightarrow> temporaries \<Rightarrow> ledger_record list \<Rightarrow> ledger_entry \<Rightarrow> (ledger_fs, ledger_entry) run" where
  "append_record L temp rs entry =
     run_bind (run_return (anchor_for_records L rs)) (\<lambda>current.
     run_bind (run_return (rbind (entry_document L entry (la_entry_count current + 1) (la_aggregate_sha256 current))
                 (document_bytes L))) (\<lambda>payload.
     run_bind (on_ledger (publish_once (tm_record temp) (entry_name (le_content_key_id entry)) payload RECORD_MODE)) (\<lambda>_.
     run_bind (run_read (\<lambda>fs. read_entry L (lf_ledger fs) (entry_name (le_content_key_id entry)))) (\<lambda>stored.
     run_bind (run_read (\<lambda>fs. rbind (records L (lf_ledger fs)) (anchor_for_records L))) (\<lambda>next_anchor.
     run_bind (accept_anchor L temp next_anchor) (\<lambda>_.
       run_return (if stored \<noteq> entry then Inl invalid_record else Inr stored)))))))"

definition record_destruction ::
    "'z codec_scheme \<Rightarrow> ledger_anchor option \<Rightarrow> temporaries \<Rightarrow> ledger_entry \<Rightarrow> (ledger_fs, ledger_entry) run" where
  "record_destruction L expected_anchor temp entry =
     run_guarded (run_bind (run_read (require_current_anchor_locked L expected_anchor)) (\<lambda>_.
       run_bind (run_read (\<lambda>fs. records L (lf_ledger fs))) (\<lambda>rs.
         case find_record (le_content_key_id entry) rs of
           Some existing \<Rightarrow> run_return (if existing \<noteq> entry then Inl invalid_record else Inr existing)
         | None \<Rightarrow> append_record L temp rs entry)))"

definition initialize_empty_destruction_ledger_anchor ::
    "'z codec_scheme \<Rightarrow> temporaries \<Rightarrow> (ledger_fs, unit) run" where
  "initialize_empty_destruction_ledger_anchor L temp =
     run_guarded (run_bind (run_read (\<lambda>fs. if \<not> lf_paths_valid fs then Inl invalid_record else Inr ())) (\<lambda>_.
       run_bind (run_read (\<lambda>fs. entries_of L (lf_ledger fs))) (\<lambda>es.
         if es \<noteq> [] then run_return (Inl invalid_record)
         else run_bind (run_return (anchor_for_entries L [])) (\<lambda>empty.
              run_bind (publish_anchor_history_once L (tm_history temp) empty) (\<lambda>_.
                publish_anchor_once L (tm_anchor temp) empty)))))"

definition recover_authorized_pending_append ::
    "'z codec_scheme \<Rightarrow> temporaries \<Rightarrow> ledger_anchor \<Rightarrow> ledger_entry list \<Rightarrow> (ledger_fs, unit) run" where
  "recover_authorized_pending_append L temp expected_anchor authorized_entries =
     run_guarded (run_bind (run_read (\<lambda>fs. if \<not> lf_paths_valid fs then Inl invalid_record else Inr ())) (\<lambda>_.
       run_bind (run_read (\<lambda>fs. read_anchor L (lf_anchors fs) ANCHOR_NAME)) (\<lambda>local_anchor.
       run_bind (run_read (\<lambda>fs. records L (lf_ledger fs))) (\<lambda>rs.
       run_bind (run_return (anchor_is_prefix L expected_anchor rs)) (\<lambda>ok.
         if \<not> ok then run_return (Inl invalid_record)
         else run_bind (run_return (anchor_for_records L rs)) (\<lambda>actual.
           if local_anchor = actual then run_return (Inr ())
           else if int (length rs) \<noteq> la_entry_count local_anchor + 1 then run_return (Inl invalid_record)
           else run_bind (run_return (anchor_is_prefix L local_anchor rs)) (\<lambda>ok.
             if \<not> ok \<or> lr_entry (last rs) \<notin> set authorized_entries then run_return (Inl invalid_record)
             else accept_anchor L temp actual)))))))"

end
