(* ===== verification/Ledger_Documents.thy ===== *)
theory Ledger_Documents
  imports JCS Destruction_Ledger
begin

text \<open>
  The documents of the destruction ledger. Records and anchors are flat objects of short strings
  and integers; with a serialiser that follows RFC 8785 their files are within the size limit and
  the readers return exactly what was written.
\<close>

subsection \<open>Documents of the ledger\<close>

text \<open>Flat objects of integers and plain strings.\<close>

definition flat_value :: "json \<Rightarrow> bool" where
  "flat_value j \<longleftrightarrow> j = JBool True \<or> (\<exists>i. j = JInt i \<and> \<bar>i\<bar> \<le> MAX_IJSON_INTEGER) \<or> (\<exists>s. j = JStr (lit s))"

definition flat_members :: "(pystr \<times> json) list \<Rightarrow> bool" where
  "flat_members ps \<longleftrightarrow> distinct (map fst ps) \<and> list_all (\<lambda>(k, j). (\<exists>s. k = lit s) \<and> flat_value j) ps"

lemma lit_points: "list_all code_point (lit s)"
  by (auto simp: lit_def list_all_iff intro: order.strict_trans[of _ 256])

lemma flat_value_ok: "flat_value j \<Longrightarrow> plain_json j \<and> ijson j \<and> text_points j \<and> (\<forall>n \<ge> 0. within_depth n j) \<and> sort_names j = j"
  using lit_no_surrogate lit_points by (auto simp: flat_value_def)

lemma flat_members_ok:
  assumes "flat_members ps"
  shows "plain_json (JObj ps)" "ijson (JObj ps)" "text_points (JObj ps)"
    "within_depth MAX_CANONICAL_JSON_DEPTH (JObj ps)"
    "sort_names (JObj ps) = JObj (sort_key (\<lambda>p. utf16 (fst p)) ps)"
proof -
  have v: "flat_value j" "\<not> list_ex surrogate k" "list_all code_point k" if "(k, j) \<in> set ps" for k j
    using assms that lit_no_surrogate lit_points by (auto simp: flat_members_def list_all_iff)
  show "plain_json (JObj ps)" using assms v flat_value_ok by (auto simp: flat_members_def list_all_iff)
  show "ijson (JObj ps)" "text_points (JObj ps)" "within_depth MAX_CANONICAL_JSON_DEPTH (JObj ps)"
    using v flat_value_ok by (fastforce simp: list_all_iff MAX_CANONICAL_JSON_DEPTH_def)+
  have "map (\<lambda>(k, j). (k, sort_names j)) ps = ps" using v flat_value_ok by (intro map_idI) fastforce
  then show "sort_names (JObj ps) = JObj (sort_key (\<lambda>p. utf16 (fst p)) ps)" by simp
qed

lemma flat_members_sort: "flat_members ps \<Longrightarrow> flat_members (sort_key f ps)"
  by (auto simp: flat_members_def list_all_iff distinct_map)

definition flat_text :: "(pystr \<times> json) list \<Rightarrow> bytes" where
  "flat_text ps = text_bytes (JObj (sort_key (\<lambda>p. utf16 (fst p)) ps))"

lemma flat_document:
  assumes "rfc8785_plain L" "flat_members ps"
  shows "document_bytes L (JObj ps) = Inr (flat_text ps)"
    "parse_json_strict L (flat_text ps) = Inr (JObj (sort_key (\<lambda>p. utf16 (fst p)) ps))"
    "document_bytes L (JObj (sort_key (\<lambda>p. utf16 (fst p)) ps)) = Inr (flat_text ps)"
proof -
  let ?s = "sort_key (\<lambda>p. utf16 (fst p))"
  note ok = flat_members_ok[OF assms(2)]
  show "document_bytes L (JObj ps) = Inr (flat_text ps)" "parse_json_strict L (flat_text ps) = Inr (JObj (?s ps))"
    using document_text[OF assms(1) ok(1-4)] unfolding ok(5) flat_text_def document_bytes_def by simp_all
  note ok' = flat_members_ok[OF flat_members_sort[OF assms(2), of "\<lambda>p. utf16 (fst p)"]]
  have "?s (?s ps) = ?s ps" by (rule sort_key_sorted) simp
  then show "document_bytes L (JObj (?s ps)) = Inr (flat_text ps)"
    using document_text(1)[OF assms(1) ok'(1-4)] unfolding ok'(5) flat_text_def document_bytes_def by simp
qed

lemma sorted_members:
  assumes "distinct (map fst ps)"
  shows "dict_get (sort_key f ps) = dict_get ps" "set (map fst (sort_key f ps)) = set (map fst ps)"
proof -
  have "distinct (map fst (sort_key f ps))" using assms by (simp add: distinct_map)
  then show "dict_get (sort_key f ps) = dict_get ps"
    using assms by (intro map_of_inject_set[THEN iffD2]) simp_all
qed simp

text \<open>Digests, identifiers and receipts are plain strings.\<close>

lemma string_of_lit [simp]: "string_of (lit s) = s"
  by (simp add: string_of_def lit_def comp_def)

lemma lit_eq_iff [simp]: "lit s = lit t \<longleftrightarrow> s = t"
  by (metis string_of_lit)

lemma hex_text_lit: "hex_text s \<Longrightarrow> \<exists>t. s = lit t"
proof -
  assume "hex_text s"
  then have "\<forall>c \<in> set s. \<exists>d. c = of_char d" by (auto simp: hex_text_def list_all_iff lit_def)
  then obtain g where "\<forall>c \<in> set s. c = of_char (g c)" by metis
  then have "s = lit (map g s)" by (simp add: lit_def comp_def map_idI)
  then show ?thesis ..
qed

lemma hexdigest_hex: "length (sha256 L b) = 32 \<Longrightarrow> hex_text (hexdigest L b)"
proof -
  assume "length (sha256 L b) = 32"
  then have "hex_digest_ok (sha256_hexdigest L b)" by (simp add: sha256_hexdigest_def hexdigest_of_32)
  then show ?thesis by (auto simp: hex_digest_ok_def hexdigest_def hex_text_def list_all_iff is_hex_def lit_def)
qed

definition sha256_length :: "'z codec_scheme \<Rightarrow> bool" where
  "sha256_length L \<longleftrightarrow> (\<forall>b. length (sha256 L b) = 32)"

definition MAX_ENTRIES :: int where "MAX_ENTRIES = MAX_IJSON_INTEGER"

lemma unsigned_flat:
  assumes "hex_text previous" "1 \<le> generation" "generation \<le> MAX_ENTRIES"
  shows "flat_members (unsigned_members e generation previous)"
  using assms hex_text_lit[OF assms(1)]
  by (auto simp: flat_members_def unsigned_members_def flat_value_def RECORD_VERSION_def MAX_ENTRIES_def MAX_IJSON_INTEGER_def)

definition digest_of :: "'z codec_scheme \<Rightarrow> ledger_entry \<Rightarrow> int \<Rightarrow> pystr \<Rightarrow> pystr" where
  "digest_of L e generation previous = hexdigest L (flat_text (unsigned_members e generation previous))"

definition signed_members :: "'z codec_scheme \<Rightarrow> ledger_entry \<Rightarrow> int \<Rightarrow> pystr \<Rightarrow> (pystr \<times> json) list" where
  "signed_members L e generation previous =
     unsigned_members e generation previous @ [(lit ''record_sha256'', JStr (digest_of L e generation previous))]"

definition record_of :: "'z codec_scheme \<Rightarrow> ledger_entry \<Rightarrow> int \<Rightarrow> pystr \<Rightarrow> ledger_record" where
  "record_of L e generation previous = \<lparr> lr_entry = e, lr_generation = generation, lr_previous_sha256 = previous,
     lr_record_sha256 = digest_of L e generation previous \<rparr>"

text \<open>The documents fit the size limit of a file.\<close>

lemma with_commas_length: "length (with_commas xs) = sum_list (map length xs) + (length xs - 1)"
  by (induction xs) auto

lemma safe_escape: "list_all (\<lambda>c. 32 \<le> c \<and> c \<noteq> 34 \<and> c \<noteq> 92) s \<Longrightarrow> length (string_text s) = length s + 2"
  by (induction s) (auto simp: string_text_def escape_char_def)

lemma ascii_bytes: "list_all (\<lambda>c. c < 128) s \<Longrightarrow> length (concat (map utf8_char s)) = length s"
  by (induction s) (auto simp: utf8_char_def utf8_units_def)

lemma set_with_commas: "set (with_commas xs) = (\<Union>x \<in> set xs. set x) \<union> (if length xs \<le> 1 then {} else {44})"
  by (induction xs) auto

lemma flat_text_length:
  assumes "list_all (\<lambda>c. c < 128) (json_text (JObj ps))"
  shows "length (flat_text ps) = length (json_text (JObj ps))"
proof -
  let ?f = "\<lambda>p :: pystr \<times> json. utf16 (fst p)" and ?t = "\<lambda>(k, j). string_text k @ 58 # json_text j"
  have "set (with_commas (map ?t (sort_key ?f ps))) = set (with_commas (map ?t ps))"
    unfolding set_with_commas by simp
  then have "list_all (\<lambda>c. c < 128) (json_text (JObj (sort_key ?f ps)))"
    using assms by (simp add: list_all_iff)
  then have "length (flat_text ps) = length (json_text (JObj (sort_key ?f ps)))"
    unfolding flat_text_def text_bytes_def by (rule ascii_bytes)
  also have "\<dots> = length (json_text (JObj ps))"
  proof -
    have "mset (map length (map ?t (sort_key ?f ps))) = mset (map length (map ?t ps))" by simp
    then have "sum_list (map length (map ?t (sort_key ?f ps))) = sum_list (map length (map ?t ps))"
      by (simp only: flip: sum_mset_sum_list)
    then show ?thesis by (simp add: with_commas_length)
  qed
  finally show ?thesis .
qed

definition safe_text :: "pystr \<Rightarrow> bool" where
  "safe_text s \<longleftrightarrow> list_all (\<lambda>c. 32 \<le> c \<and> c \<noteq> 34 \<and> c \<noteq> 92 \<and> c < 128) s"

lemma safe_string: "safe_text s \<Longrightarrow> string_text s = 34 # s @ [34]"
  by (induction s) (auto simp: safe_text_def string_text_def escape_char_def)

lemma safe_hex: "c \<in> set hex_alphabet \<Longrightarrow> safe_text [of_char c]"
  by (auto simp: hex_alphabet_def safe_text_def)

lemma safe_dash: "safe_text [of_char (CHR ''-'')]"
  by (simp add: safe_text_def)

lemma safe_b64: "c \<in> set b64_alphabet \<union> {CHR ''=''} \<Longrightarrow> safe_text [of_char c]"
  by (auto simp: b64_alphabet_def safe_text_def)

lemma safe_lit: "safe_text (lit s) \<longleftrightarrow> (\<forall>c \<in> set s. safe_text [of_char c])"
  by (auto simp: safe_text_def lit_def list_all_iff)

lemma safe_text_iff: "safe_text s \<longleftrightarrow> (\<forall>c \<in> set s. safe_text [c])"
  by (simp add: safe_text_def list_all_iff)

lemma safe_hex_text: "hex_text s \<Longrightarrow> safe_text s"
proof -
  assume "hex_text s"
  then have "c \<in> of_char ` set hex_alphabet" if "c \<in> set s" for c using that by (auto simp: hex_text_def list_all_iff lit_def)
  then have "\<forall>c \<in> set s. safe_text [c]" by (auto intro: safe_hex elim!: imageE)
  then show ?thesis by (rule safe_text_iff[THEN iffD2])
qed

lemma uuid_str_safe: "safe_text (lit (uuid_str u))" "length (uuid_str u) = 36"
proof -
  have "c = CHR ''-'' \<or> c \<in> set hex_alphabet" if "c \<in> set (uuid_str u)" for c
  proof (cases "c = CHR ''-''")
    case False
    then have "c \<in> set (filter (\<lambda>c. c \<noteq> CHR ''-'') (uuid_str u))" using that by simp
    then show ?thesis using uuid_hex_facts(2)[of u] by (auto simp: uuid_str_undash list_all_iff is_hex_def)
  qed simp
  then show "safe_text (lit (uuid_str u))" unfolding safe_lit using safe_hex safe_dash by blast
  show "length (uuid_str u) = 36" by (simp add: uuid_str_def Let_def uuid_hex_facts(1))
qed

lemma b64encode_safe: "safe_text (lit (b64encode bs))"
proof -
  have c: "n < 64 \<Longrightarrow> b64_char n \<in> set b64_alphabet" for n by (simp add: b64_char_def b64_alphabet_facts)
  have "set (b64encode bs) \<subseteq> set b64_alphabet \<union> {CHR ''=''}"
    by (induction bs rule: b64encode.induct) (simp_all add: c b64_sextets)
  then show ?thesis unfolding safe_lit using safe_b64 by blast
qed

lemma b64encode_length: "length (b64encode bs) = 4 * ((length bs + 2) div 3)"
proof (induction bs rule: b64encode.induct)
  case (4 a b c bs)
  have "(length (a # b # c # bs) + 2) div 3 = (length bs + 2) div 3 + 1" by simp
  with 4 show ?case by simp
qed simp_all

definition small_value :: "json \<Rightarrow> bool" where
  "small_value j \<longleftrightarrow> list_all (\<lambda>c. c < 128) (json_text j) \<and> length (json_text j) \<le> 70"

definition small_member :: "pystr \<times> json \<Rightarrow> bool" where
  "small_member = (\<lambda>(k, j). safe_text k \<and> length k \<le> 20 \<and> small_value j)"

lemma small_string: "safe_text s \<Longrightarrow> length s \<le> 68 \<Longrightarrow> small_value (JStr s)"
  by (auto simp: small_value_def safe_string safe_text_def list_all_iff)

lemma small_int: "0 \<le> i \<Longrightarrow> i \<le> MAX_IJSON_INTEGER \<Longrightarrow> small_value (JInt i)"
proof -
  assume i: "0 \<le> i" "i \<le> MAX_IJSON_INTEGER"
  then have "nat \<bar>i\<bar> < 10 ^ Suc 15" by (simp add: MAX_IJSON_INTEGER_def)
  from nat_str_length[OF this] have "length (nat_str (nat \<bar>i\<bar>)) \<le> 70" by simp
  moreover have "list_all (\<lambda>c. c < 128) (lit (nat_str (nat \<bar>i\<bar>)))"
    using nat_str_digits[of "nat \<bar>i\<bar>"] by (auto simp: list_all_iff is_digit_def)
  ultimately show ?thesis using i by (simp add: small_value_def int_str_def lit_def)
qed

lemma small_document:
  assumes "list_all small_member ps" "length ps \<le> 10"
  shows "1 \<le> length (flat_text ps) \<and> length (flat_text ps) \<le> MAX_RECORD_BYTES"
proof -
  let ?t = "\<lambda>(k, j). string_text k @ 58 # json_text j"
  have m: "list_all (\<lambda>c. c < 128) (?t p) \<and> length (?t p) \<le> 93" if "p \<in> set ps" for p
  proof (cases p)
    case (Pair k j)
    then have "safe_text k" "length k \<le> 20" "small_value j" using assms(1) that by (auto simp: list_all_iff small_member_def)
    then show ?thesis by (auto simp: Pair safe_string small_value_def safe_text_def list_all_iff)
  qed
  have ascii: "list_all (\<lambda>c. c < 128) (json_text (JObj ps))"
    using m by (fastforce simp: list_all_iff set_with_commas)
  have "sum_list (map (\<lambda>p. length (?t p)) xs) \<le> 93 * length xs" if "set xs \<subseteq> set ps" for xs
    using that m by (induction xs) (auto dest!: m)
  from this[of ps] have "sum_list (map length (map ?t ps)) \<le> 93 * length ps" by (simp add: comp_def)
  with assms(2) have "length (json_text (JObj ps)) \<le> 942" by (simp add: with_commas_length)
  then show ?thesis using flat_text_length[OF ascii] by (simp add: MAX_RECORD_BYTES_def)
qed

definition good_anchor :: "ledger_anchor \<Rightarrow> bool" where
  "good_anchor a \<longleftrightarrow> 0 \<le> la_entry_count a \<and> la_entry_count a \<le> MAX_ENTRIES \<and> hex_text (la_aggregate_sha256 a)"

definition anchor_members :: "ledger_anchor \<Rightarrow> (pystr \<times> json) list" where
  "anchor_members a = [(lit ''version'', JInt RECORD_VERSION), (lit ''entry_count'', JInt (la_entry_count a)),
     (lit ''aggregate_sha256'', JStr (la_aggregate_sha256 a))]"

lemma anchor_document_eq: "anchor_document a = JObj (anchor_members a)"
  by (simp add: anchor_document_def anchor_members_def)

text \<open>
  The interface to the serialiser and the digest: RFC 8785 text of plain values and digests of 32
  bytes. The facts about single documents are proved under it.
\<close>

locale ledger_codec =
  fixes L :: "'z codec_scheme"
  assumes serialiser: "rfc8785_plain L"
    and digest_length: "sha256_length L"
begin

lemma digest_hex: "hex_text (digest_of L e generation previous)"
  using digest_length by (simp add: digest_of_def hexdigest_hex sha256_length_def)

lemma signed_flat:
  assumes "hex_text previous" "1 \<le> generation" "generation \<le> MAX_ENTRIES"
  shows "flat_members (signed_members L e generation previous)"
  using unsigned_flat[OF assms, of e] hex_text_lit[OF digest_hex[of e generation previous]]
  by (auto simp: signed_members_def flat_members_def flat_value_def unsigned_members_def)

lemma entry_document_eq:
  assumes "hex_text previous" "1 \<le> generation" "generation \<le> MAX_ENTRIES"
  shows "record_digest L e generation previous = Inr (digest_of L e generation previous)"
    "rbind (entry_document L e generation previous) (document_bytes L) = Inr (flat_text (signed_members L e generation previous))"
  using flat_document(1)[OF serialiser unsigned_flat[OF assms]] flat_document(1)[OF serialiser signed_flat[OF assms]]
  by (simp_all add: record_digest_def entry_document_def digest_of_def signed_members_def)

lemma record_members_read:
  assumes "hex_text previous" "1 \<le> generation" "generation \<le> MAX_ENTRIES" "valid_entry e"
  shows "record_of_members L (entry_name (le_content_key_id e))
      (sort_key (\<lambda>p. utf16 (fst p)) (signed_members L e generation previous)) = Inr (record_of L e generation previous)"
proof -
  let ?f = "\<lambda>p :: pystr \<times> json. utf16 (fst p)"
  let ?ps = "signed_members L e generation previous" and ?us = "unsigned_members e generation previous"
  have d: "distinct (map fst ?ps)" using signed_flat[OF assms(1-3)] by (simp add: flat_members_def)
  note g = sorted_members[OF d, of ?f]
  have fil: "filter (\<lambda>(k, v). k \<noteq> lit ''record_sha256'') (sort_key ?f ?ps) = sort_key ?f ?us"
    unfolding filter_sort by (simp add: signed_members_def unsigned_members_def)
  have get: "dict_get ?ps (lit ''version'') = Some (JInt 1)" "dict_get ?ps (lit ''generation'') = Some (JInt generation)"
    "dict_get ?ps (lit ''previous_sha256'') = Some (JStr previous)" "dict_get ?ps (lit ''state'') = Some (JStr (lit ''destroyed''))"
    "dict_get ?ps (lit ''content_key_id'') = Some (JStr (lit (uuid_str (le_content_key_id e))))"
    "dict_get ?ps (lit ''tenant_id'') = Some (JStr (lit (uuid_str (le_tenant_id e))))"
    "dict_get ?ps (lit ''lineage_id'') = Some (JStr (lit (uuid_str (le_lineage_id e))))"
    "dict_get ?ps (lit ''memory_id'') = Some (JStr (lit (uuid_str (le_memory_id e))))"
    "dict_get ?ps (lit ''receipt'') = Some (JStr (lit (b64encode (le_receipt e))))"
    "dict_get ?ps (lit ''record_sha256'') = Some (JStr (digest_of L e generation previous))"
    by (simp_all add: signed_members_def unsigned_members_def RECORD_VERSION_def)
  have names: "set (map fst ?ps) = set RECORD_FIELDS"
    by (auto simp: signed_members_def unsigned_members_def RECORD_FIELDS_def)
  have u: "canonical_uuid n (Some (JStr (lit (uuid_str x)))) = Inr x" if "is_uuid7 x" for n x
    using that by (simp add: canonical_uuid_def uuid_unstr_str require_uuid7_def)
  have r: "canonical_base64 (Some (JStr (lit (b64encode (le_receipt e))))) = Inr (le_receipt e)"
    using assms(4) by (simp add: canonical_base64_def b64decode_encode valid_entry_def)
  have len: "length (digest_of L e generation previous) = 64" using digest_hex by (simp add: hex_text_def)
  have new: "new_entry \<lparr> le_content_key_id = le_content_key_id e, le_tenant_id = le_tenant_id e,
      le_lineage_id = le_lineage_id e, le_memory_id = le_memory_id e, le_receipt = le_receipt e \<rparr> = Inr e"
    using assms(4) by (cases e) (simp add: new_entry_iff)
  have dg: "hexdigest L (flat_text ?us) = digest_of L e generation previous" by (simp add: digest_of_def)
  have ids: "is_uuid7 (le_content_key_id e)" "is_uuid7 (le_tenant_id e)" "is_uuid7 (le_lineage_id e)" "is_uuid7 (le_memory_id e)"
    using assms(4) by (simp_all add: valid_entry_def)
  have "\<not> (generation < 1 \<or> \<not> hex_text previous \<or> length (digest_of L e generation previous) \<noteq> 64)"
    using assms(1,2) len by simp
  then show ?thesis
    unfolding record_of_members_def entry_of_members_def g names get fil flat_document(3)[OF serialiser unsigned_flat[OF assms(1-3)]]
      u[OF ids(1)] u[OF ids(2)] u[OF ids(3)] u[OF ids(4)] r rbind_simps dg new
    by (simp add: is_version_def RECORD_VERSION_def record_of_def)
qed

lemma signed_small:
  assumes "hex_text previous" "1 \<le> generation" "generation \<le> MAX_ENTRIES" "valid_entry e"
  shows "list_all small_member (signed_members L e generation previous)"
proof -
  have h: "small_value (JStr x)" if "hex_text x" for x
    using that by (intro small_string safe_hex_text) (simp_all add: hex_text_def)
  have u: "small_value (JStr (lit (uuid_str x)))" for x
    using uuid_str_safe[of x] by (intro small_string) (simp_all add: lit_def)
  have b: "small_value (JStr (lit (b64encode (le_receipt e))))"
    using assms(4) by (intro small_string b64encode_safe) (simp add: lit_def b64encode_length valid_entry_def RECEIPT_BYTES_def)
  have g: "small_value (JInt generation)" "small_value (JInt 1)"
    using assms(2,3) by (auto intro!: small_int simp: MAX_ENTRIES_def MAX_IJSON_INTEGER_def)
  have st: "small_value (JStr (lit ''destroyed''))"
    by (rule small_string) (simp_all add: safe_text_def lit_def)
  show ?thesis
    unfolding signed_members_def unsigned_members_def
    by (simp add: small_member_def h[OF assms(1)] h[OF digest_hex] u b g st RECORD_VERSION_def)
      (simp add: safe_text_def lit_def)
qed

lemma read_record_written:
  assumes "hex_text previous" "1 \<le> generation" "generation \<le> MAX_ENTRIES" "valid_entry e"
    "dict_get dir (entry_name (le_content_key_id e)) = Some (new_file RECORD_MODE (flat_text (signed_members L e generation previous)))"
  shows "read_record L dir (entry_name (le_content_key_id e)) = Inr (record_of L e generation previous)"
proof -
  let ?ps = "signed_members L e generation previous"
  have "length ?ps \<le> 10" by (simp add: signed_members_def unsigned_members_def)
  from small_document[OF signed_small[OF assms(1-4)] this]
  have "read_bounded_file RECORD_MODE dir (entry_name (le_content_key_id e)) = Inr (flat_text ?ps)"
    by (simp add: read_bounded_file_def assms(5) new_file_def)
  then show ?thesis
    by (simp add: read_record_def flat_document[OF serialiser signed_flat[OF assms(1-3)]] record_members_read[OF assms(1-4)])
qed

lemma anchor_written:
  assumes "good_anchor a"
  shows "anchor_bytes L a = Inr (flat_text (anchor_members a))"
    "anchor_from_bytes L (flat_text (anchor_members a)) = Inr a"
    "1 \<le> length (flat_text (anchor_members a)) \<and> length (flat_text (anchor_members a)) \<le> MAX_RECORD_BYTES"
proof -
  let ?ps = "anchor_members a" and ?f = "\<lambda>p :: pystr \<times> json. utf16 (fst p)"
  have fl: "flat_members ?ps"
    using assms hex_text_lit[of "la_aggregate_sha256 a"]
    by (auto simp: flat_members_def anchor_members_def flat_value_def good_anchor_def RECORD_VERSION_def MAX_ENTRIES_def MAX_IJSON_INTEGER_def)
  show "anchor_bytes L a = Inr (flat_text ?ps)"
    unfolding anchor_bytes_def anchor_document_eq by (rule flat_document(1)[OF serialiser fl])
  have d: "distinct (map fst ?ps)" using fl by (simp add: flat_members_def)
  note g = sorted_members[OF d, of ?f]
  have get: "dict_get ?ps (lit ''version'') = Some (JInt 1)" "dict_get ?ps (lit ''entry_count'') = Some (JInt (la_entry_count a))"
    "dict_get ?ps (lit ''aggregate_sha256'') = Some (JStr (la_aggregate_sha256 a))"
    "set (map fst ?ps) = {lit ''version'', lit ''entry_count'', lit ''aggregate_sha256''}"
    by (simp_all add: anchor_members_def RECORD_VERSION_def)
  show "anchor_from_bytes L (flat_text ?ps) = Inr a"
    unfolding anchor_from_bytes_def flat_document(2)[OF serialiser fl] rbind_simps json.case g get
      flat_document(3)[OF serialiser fl]
    using assms by (cases a) (simp add: is_version_def RECORD_VERSION_def new_anchor_def good_anchor_def)
  have "list_all small_member ?ps"
    using assms unfolding anchor_members_def
    by (simp add: small_member_def small_int small_string safe_hex_text good_anchor_def RECORD_VERSION_def
        MAX_ENTRIES_def MAX_IJSON_INTEGER_def hex_text_def) (simp add: safe_text_def lit_def)
  then show "1 \<le> length (flat_text ?ps) \<and> length (flat_text ?ps) \<le> MAX_RECORD_BYTES"
    by (rule small_document) (simp add: anchor_members_def)
qed

lemma read_anchor_written:
  assumes "good_anchor a" "dict_get dir name = Some (new_file ANCHOR_MODE (flat_text (anchor_members a)))"
  shows "read_anchor L dir name = Inr a"
  using anchor_written[OF assms(1)] assms(2)
  by (simp add: read_anchor_def read_bounded_file_def new_file_def)

lemma empty_head_eq: "\<exists>h. empty_head L = Inr h \<and> hex_text h"
proof -
  have "flat_members [(lit ''version'', JInt RECORD_VERSION)]"
    by (auto simp: flat_members_def flat_value_def RECORD_VERSION_def MAX_IJSON_INTEGER_def)
  from flat_document(1)[OF serialiser this] show ?thesis
    using digest_length by (simp add: empty_head_def sha256_length_def hexdigest_hex)
qed

end

interpretation jcs: ledger_codec jcs_codec
  by unfold_locales (rule jcs_codec_plain, simp add: sha256_length_def jcs_codec_def min_def)

end
