(* ===== verification/Ledger_Safety.thy ===== *)
theory Ledger_Safety
  imports Ledger_Documents
begin

text \<open>
  What the destruction ledger guarantees: existing records are never changed or removed, whatever
  an operation does and wherever it stops; a recorded destruction is found again and extends the
  chain by one; an anchor accepted once fixes the entries it covers; and an append interrupted
  after its record is in place is completed by recovery.
\<close>

subsection \<open>Runs\<close>

lemma run_bind_simps [simp]:
  "run_bind (run_return (Inr x)) k = k x" "run_bind (run_return (Inl e)) k = run_return (Inl e)"
  "run_bind (run_read f) k s = (case f s of Inl e \<Rightarrow> ([], s, Inl e) | Inr x \<Rightarrow> k x s)"
  by (auto simp: run_bind_def run_return_def run_read_def split: sum.splits prod.splits)

lemma run_bind_step: "run_bind (run_step f) k s = (case k () (f s) of (t, s', r) \<Rightarrow> (f s # t, s', r))"
  by (simp add: run_bind_def run_step_def)

text \<open>A relation between the start and every state a run passes through.\<close>

definition throughout :: "('s \<Rightarrow> 's \<Rightarrow> bool) \<Rightarrow> ('s, 'a) run \<Rightarrow> bool" where
  "throughout R m \<longleftrightarrow> (\<forall>s. R s (run_final m s) \<and> (\<forall>s' \<in> set (run_trace m s). R s s'))"

lemma throughoutD: "throughout R m \<Longrightarrow> m s = (t, s', r) \<Longrightarrow> R s s' \<and> (\<forall>u \<in> set t. R s u)"
  unfolding throughout_def run_final_def run_trace_def by (metis fst_conv snd_conv)

lemma throughoutI: "(\<And>s t s' r. m s = (t, s', r) \<Longrightarrow> R s s' \<and> (\<forall>u \<in> set t. R s u)) \<Longrightarrow> throughout R m"
  unfolding throughout_def run_final_def run_trace_def by (metis prod.collapse)

lemma throughout_return: "reflp R \<Longrightarrow> throughout R (run_return r)"
  by (auto simp: throughout_def run_final_def run_trace_def run_return_def reflp_def)

lemma throughout_read: "reflp R \<Longrightarrow> throughout R (run_read f)"
  by (auto simp: throughout_def run_final_def run_trace_def run_read_def reflp_def)

lemma throughout_bind:
  assumes "transp R" "throughout R m" "\<And>x. throughout R (k x)"
  shows "throughout R (run_bind m k)"
proof (rule throughoutI)
  fix s t s' r assume b: "run_bind m k s = (t, s', r)"
  obtain t1 s1 r1 where m: "m s = (t1, s1, r1)" by (metis prod_cases3)
  note m' = throughoutD[OF assms(2) m]
  show "R s s' \<and> (\<forall>u \<in> set t. R s u)"
  proof (cases r1)
    case (Inr x)
    obtain t2 s2 r2 where k: "k x s1 = (t2, s2, r2)" by (metis prod_cases3)
    have "t = t1 @ t2" "s' = s2" using b by (auto simp: run_bind_def m Inr k)
    with throughoutD[OF assms(3) k] m' show ?thesis using assms(1) by (auto dest: transpD)
  qed (use b m m' in \<open>auto simp: run_bind_def\<close>)
qed

lemma throughout_guarded: "throughout R m \<Longrightarrow> throughout R (run_guarded m)"
  by (rule throughoutI) (auto simp: run_guarded_def dest: throughoutD split: prod.splits)

subsection \<open>Publishing\<close>

lemma publish_once_eq:
  assumes "\<not> dict_has dir temporary" "temporary \<noteq> destination"
  shows "publish_once temporary destination payload mode dir =
    (let d1 = dict_set temporary (new_file mode []) dir; d2 = dict_set temporary (new_file mode payload) d1
     in if dict_has dir destination then ([d1, d2, dict_del temporary d2], dict_del temporary d2, Inr ())
        else ([d1, d2, link_file temporary destination d2, unlink_linked temporary destination (link_file temporary destination d2)],
              unlink_linked temporary destination (link_file temporary destination d2), Inr ()))"
  using assms by (simp add: publish_once_def run_bind_step run_step_def Let_def update_conv')

text \<open>After a publication the target is the only new file.\<close>

lemma publish_once_lookup:
  assumes "\<not> dict_has dir temporary" "temporary \<noteq> destination" "\<not> dict_has dir destination"
  shows "dict_get (run_final (publish_once temporary destination payload mode) dir) =
    (dict_get dir)(destination \<mapsto> new_file mode payload)"
  using assms
  by (auto simp: run_final_def publish_once_eq Let_def link_file_def unlink_linked_def update_conv' delete_conv'
      new_file_def fun_eq_iff)

subsection \<open>Existing records stay\<close>

definition keeps_files :: "string \<Rightarrow> directory \<Rightarrow> directory \<Rightarrow> bool" where
  "keeps_files temporary d d' \<longleftrightarrow>
     (\<forall>name f. name \<noteq> temporary \<longrightarrow> dict_get d name = Some f \<longrightarrow> dict_get d' name = Some f)"

definition keeps_records :: "string \<Rightarrow> ledger_fs \<Rightarrow> ledger_fs \<Rightarrow> bool" where
  "keeps_records temporary fs fs' \<longleftrightarrow> keeps_files temporary (lf_ledger fs) (lf_ledger fs')"

lemma keeps_preorder: "reflp (keeps_records t)" "transp (keeps_records t)"
  by (auto simp: keeps_records_def keeps_files_def reflp_def transp_def)

lemma publish_once_keeps: "throughout (keeps_files temporary) (publish_once temporary destination payload mode)"
proof (rule throughoutI)
  fix d t d' r assume p: "publish_once temporary destination payload mode d = (t, d', r)"
  show "keeps_files temporary d d' \<and> (\<forall>u \<in> set t. keeps_files temporary d u)"
  proof (cases "dict_has d temporary \<or> temporary = destination")
    case True
    then show ?thesis using p
      by (auto simp: publish_once_def run_bind_step run_step_def keeps_files_def update_conv' delete_conv' split: if_splits)
  next
    case False
    then show ?thesis using p
      by (auto simp: publish_once_eq Let_def keeps_files_def link_file_def unlink_linked_def update_conv' delete_conv'
          split: if_splits)
  qed
qed

lemma on_ledger_keeps: "throughout (keeps_files t) m \<Longrightarrow> throughout (keeps_records t) (on_ledger m)"
  by (rule throughoutI) (auto simp: on_ledger_def keeps_records_def dest!: throughoutD split: prod.splits)

lemma on_anchors_keeps: "throughout (keeps_records t) (on_anchors m)"
  by (rule throughoutI) (auto simp: on_anchors_def keeps_records_def keeps_files_def split: prod.splits)

lemmas keeps_rules = throughout_bind[OF keeps_preorder(2)] throughout_return[OF keeps_preorder(1)]
  throughout_read[OF keeps_preorder(1)] throughout_guarded on_anchors_keeps on_ledger_keeps[OF publish_once_keeps]

lemma accept_anchor_keeps: "throughout (keeps_records t) (accept_anchor L temp a)"
  unfolding accept_anchor_def publish_anchor_history_once_def replace_anchor_def require_anchor_file_def
  by (intro keeps_rules)

lemma record_destruction_keeps: "throughout (keeps_records (tm_record temp)) (record_destruction L expected temp e)"
proof -
  have "throughout (keeps_records (tm_record temp)) (append_record L temp rs e)" for rs
    unfolding append_record_def by (intro keeps_rules accept_anchor_keeps)
  then show ?thesis unfolding record_destruction_def
    by (intro keeps_rules) (auto split: option.split intro!: keeps_rules)
qed

lemma recover_keeps: "throughout (keeps_records t) (recover_authorized_pending_append L temp a es)"
  unfolding recover_authorized_pending_append_def
  by (intro keeps_rules) (auto intro!: keeps_rules accept_anchor_keeps)

lemma initialize_keeps: "throughout (keeps_records t) (initialize_empty_destruction_ledger_anchor L temp)"
  unfolding initialize_empty_destruction_ledger_anchor_def publish_anchor_history_once_def publish_anchor_once_def
    require_anchor_file_def
  by (intro keeps_rules) (auto intro!: keeps_rules)

text \<open>One operation of the ledger, completed or stopped at any of its states.\<close>

inductive ledger_step :: "'z codec_scheme \<Rightarrow> ledger_fs \<Rightarrow> ledger_fs \<Rightarrow> bool" for L where
  recorded: "take 5 (tm_record temp) = ''.tmp-'' \<Longrightarrow>
    fs' = run_final (record_destruction L expected temp e) fs
      \<or> fs' \<in> set (run_trace (record_destruction L expected temp e) fs) \<Longrightarrow> ledger_step L fs fs'"
| recovered: "fs' = run_final (recover_authorized_pending_append L temp a es) fs
      \<or> fs' \<in> set (run_trace (recover_authorized_pending_append L temp a es) fs) \<Longrightarrow> ledger_step L fs fs'"
| initialized: "fs' = run_final (initialize_empty_destruction_ledger_anchor L temp) fs
      \<or> fs' \<in> set (run_trace (initialize_empty_destruction_ledger_anchor L temp) fs) \<Longrightarrow> ledger_step L fs fs'"

inductive ledger_steps :: "'z codec_scheme \<Rightarrow> ledger_fs \<Rightarrow> ledger_fs \<Rightarrow> bool" for L where
  no_steps: "ledger_steps L fs fs"
| more_steps: "ledger_steps L fs fs' \<Longrightarrow> ledger_step L fs' fs'' \<Longrightarrow> ledger_steps L fs fs''"

lemma throughout_state: "throughout R m \<Longrightarrow> s' = run_final m s \<or> s' \<in> set (run_trace m s) \<Longrightarrow> R s s'"
  unfolding throughout_def by blast

lemma ledger_step_keeps: "ledger_step L fs fs' \<Longrightarrow> \<exists>t. take 5 t = ''.tmp-'' \<and> keeps_records t fs fs'"
proof (induction rule: ledger_step.induct)
  case (recorded temp fs' expected e fs)
  then show ?case using throughout_state[OF record_destruction_keeps] by blast
next
  case (recovered fs' temp a es fs)
  then show ?case using throughout_state[OF recover_keeps[of "''.tmp-''"]] by force
next
  case (initialized fs' temp fs)
  then show ?case using throughout_state[OF initialize_keeps[of "''.tmp-''"]] by force
qed

text \<open>
  C20. A record of the ledger is never changed or removed: whatever operations run, whether they
  complete or stop after any of their system calls, a destruction record present before is the
  same file afterwards.
\<close>

theorem ledger_append_only:
  assumes "ledger_steps L fs fs'" "take 10 name = ''destroyed-''" "dict_get (lf_ledger fs) name = Some f"
  shows "dict_get (lf_ledger fs') name = Some f"
  using assms(1,3)
proof (induction rule: ledger_steps.induct)
  case (more_steps fs fs' fs'')
  obtain t where t: "take 5 t = ''.tmp-''" "keeps_records t fs' fs''" using ledger_step_keeps[OF more_steps(2)] by blast
  have "name \<noteq> t"
  proof
    assume "name = t"
    then have "take 5 (take 10 t) = take 5 ''destroyed-''" using assms(2) by simp
    with t(1) show False by (simp add: min_def)
  qed
  with more_steps t(2) show ?case unfolding keeps_records_def keeps_files_def by blast
qed

subsection \<open>The directory as a chain\<close>

lemma chained_append:
  "chained g h (rs @ ss) \<longleftrightarrow> chained g h rs \<and> chained (g + int (length rs)) (if rs = [] then h else lr_record_sha256 (last rs)) ss"
  by (induction g h rs rule: chained.induct) (auto simp: algebra_simps)

lemma chained_generations: "chained g h rs \<Longrightarrow> map lr_generation rs = map (\<lambda>i. g + int i) [0..<length rs]"
proof (induction g h rs rule: chained.induct)
  case (2 g h r rs)
  then show ?case by (simp add: upt_conv_Cons map_Suc_upt[symmetric] comp_def algebra_simps del: upt_Suc)
qed simp

lemma chained_sorted: "chained g h rs \<Longrightarrow> sorted (map lr_generation rs) \<and> distinct (map lr_generation rs)"
  by (drule chained_generations) (auto simp: sorted_iff_nth_mono distinct_map inj_on_def)

lemma sort_distinct: "distinct xs \<Longrightarrow> sort xs = sorted_list_of_set (set xs)"
  by (simp add: sorted_list_of_set_sort_remdups distinct_remdups_id)

lemma traverse_insort:
  "traverse f xs = Inr ys \<Longrightarrow> f x = Inr y \<Longrightarrow> \<exists>zs. traverse f (insort x xs) = Inr zs \<and> mset zs = add_mset y (mset ys)"
proof (induction xs arbitrary: ys)
  case (Cons a xs)
  then obtain b bs where b: "f a = Inr b" "traverse f xs = Inr bs" "ys = b # bs" by (auto simp: ok_simps)
  from Cons.IH[OF b(2) Cons.prems(2)] b Cons.prems(2) show ?case by (auto simp: ok_simps)
qed (auto simp: ok_simps)

lemma record_of_members_parts:
  assumes "record_of_members L name ps = Inr r"
  obtains b where "set (map fst ps) = set RECORD_FIELDS" "is_version (dict_get ps (lit ''version''))"
    "dict_get ps (lit ''state'') = Some (JStr (lit ''destroyed''))"
    "dict_get ps (lit ''generation'') = Some (JInt (lr_generation r))"
    "dict_get ps (lit ''previous_sha256'') = Some (JStr (lr_previous_sha256 r))"
    "1 \<le> lr_generation r" "hex_text (lr_previous_sha256 r)"
    "document_bytes L (JObj (filter (\<lambda>(k, v). k \<noteq> lit ''record_sha256'') ps)) = Inr b"
    "lr_record_sha256 r = hexdigest L b"
    "entry_of_members ps = Inr (lr_entry r)"
    "name = entry_name (le_content_key_id (lr_entry r))"
proof -
  note a = assms[unfolded record_of_members_def]
  have guard: "set (map fst ps) = set RECORD_FIELDS \<and> is_version (dict_get ps (lit ''version''))
      \<and> dict_get ps (lit ''state'') = Some (JStr (lit ''destroyed''))"
    by (rule ccontr) (use a in simp)
  note a = a[simplified guard, simplified]
  obtain generation where g: "dict_get ps (lit ''generation'') = Some (JInt generation)"
    using a by (cases "dict_get ps (lit ''generation'')"; cases "the (dict_get ps (lit ''generation''))") simp_all
  obtain previous where p: "dict_get ps (lit ''previous_sha256'') = Some (JStr previous)"
    using a[unfolded g] by (cases "dict_get ps (lit ''previous_sha256'')"; cases "the (dict_get ps (lit ''previous_sha256''))") simp_all
  obtain digest where d: "dict_get ps (lit ''record_sha256'') = Some (JStr digest)"
    using a[unfolded g p] by (cases "dict_get ps (lit ''record_sha256'')"; cases "the (dict_get ps (lit ''record_sha256''))") simp_all
  have b: "1 \<le> generation" "hex_text previous" using a[unfolded g p d] by (auto split: if_splits)
  have "rbind (document_bytes L (JObj (filter (\<lambda>(k, v). k \<noteq> lit ''record_sha256'') ps))) (\<lambda>b.
      if digest \<noteq> hexdigest L b then Inl invalid_record
      else rbind (entry_of_members ps) (\<lambda>entry.
        if name \<noteq> entry_name (le_content_key_id entry) then Inl invalid_record
        else Inr \<lparr> lr_entry = entry, lr_generation = generation, lr_previous_sha256 = previous,
                   lr_record_sha256 = digest \<rparr>)) = Inr r"
    using a[unfolded g p d] by (simp split: if_splits)
  then obtain b' where "document_bytes L (JObj (filter (\<lambda>(k, v). k \<noteq> lit ''record_sha256'') ps)) = Inr b'"
    "digest = hexdigest L b'" "entry_of_members ps = Inr (lr_entry r)" "name = entry_name (le_content_key_id (lr_entry r))"
    "r = \<lparr> lr_entry = lr_entry r, lr_generation = generation, lr_previous_sha256 = previous, lr_record_sha256 = digest \<rparr>"
    by (auto elim!: rbind_InrE split: if_splits)
  moreover from this(5) have "lr_generation r = generation" "lr_previous_sha256 r = previous" "lr_record_sha256 r = digest"
    by (metis ledger_record.select_convs)+
  ultimately show thesis using guard g p b by (intro that) simp_all
qed

lemma entry_of_members_parts:
  assumes "entry_of_members ps = Inr e"
  shows "canonical_uuid ''content_key_id'' (dict_get ps (lit ''content_key_id'')) = Inr (le_content_key_id e)"
    "canonical_uuid ''tenant_id'' (dict_get ps (lit ''tenant_id'')) = Inr (le_tenant_id e)"
    "canonical_uuid ''lineage_id'' (dict_get ps (lit ''lineage_id'')) = Inr (le_lineage_id e)"
    "canonical_uuid ''memory_id'' (dict_get ps (lit ''memory_id'')) = Inr (le_memory_id e)"
    "canonical_base64 (dict_get ps (lit ''receipt'')) = Inr (le_receipt e)" "valid_entry e"
  using assms unfolding entry_of_members_def by (auto elim!: rbind_InrE simp: new_entry_iff)

lemma read_record_parts:
  assumes "read_record L dir name = Inr r"
  obtains raw ps where "read_bounded_file RECORD_MODE dir name = Inr raw" "parse_json_strict L raw = Inr (JObj ps)"
    "document_bytes L (JObj ps) = Inr raw" "record_of_members L name ps = Inr r"
proof -
  obtain raw parsed where p: "read_bounded_file RECORD_MODE dir name = Inr raw" "parse_json_strict L raw = Inr parsed"
    using assms unfolding read_record_def by (auto elim!: rbind_InrE)
  with assms show thesis by (cases parsed) (auto simp: read_record_def elim!: rbind_InrE split: if_splits intro: that)
qed

lemma read_record_name:
  assumes "read_record L dir name = Inr r"
  shows "name = entry_name (le_content_key_id (lr_entry r))"
proof -
  obtain ps where "record_of_members L name ps = Inr r" by (rule read_record_parts[OF assms])
  then show ?thesis by (rule record_of_members_parts)
qed

lemma entry_name_inject: "entry_name k = entry_name k' \<longleftrightarrow> k = k'"
proof
  assume "entry_name k = entry_name k'"
  then have "uuid_str k = uuid_str k'" by (simp add: entry_name_def)
  then show "k = k'" by (metis uuid_unstr_str sum.inject(2))
qed simp

lemma records_eq:
  "records L dir = Inr rs \<longleftrightarrow>
     (\<exists>unordered head. traverse (read_named_record L dir) (sort (map fst dir)) = Inr unordered
        \<and> rs = sort_key lr_generation unordered \<and> empty_head L = Inr head \<and> chained 1 head rs
        \<and> distinct (map (\<lambda>r. le_content_key_id (lr_entry r)) rs))"
  by (auto simp: records_def Let_def ok_simps elim!: rbind_InrE split: if_splits)

lemma records_names:
  assumes "records L dir = Inr rs"
  shows "dict_has dir (entry_name key) \<longleftrightarrow> find_record key rs \<noteq> None"
proof -
  obtain us where us: "traverse (read_named_record L dir) (sort (map fst dir)) = Inr us" "rs = sort_key lr_generation us"
    using assms unfolding records_eq by blast
  have f: "find_record key rs \<noteq> None \<longleftrightarrow> (\<exists>r \<in> set us. le_content_key_id (lr_entry r) = key)"
    by (auto simp: find_record_def us(2) find_None_iff)
  have n: "name = entry_name (le_content_key_id (lr_entry r))" if "read_named_record L dir name = Inr r" for name r
    using that by (auto simp: read_named_record_def dest: read_record_name split: if_splits)
  have h: "dict_has dir (entry_name key) \<longleftrightarrow> entry_name key \<in> set (sort (map fst dir))"
    using domIff[of "entry_name key" "dict_get dir"] by (simp add: dom_map_of_conv_image_fst)
  show ?thesis unfolding f h
    using traverse_member[OF us(1)] traverse_image[OF us(1)] n by (metis entry_name_inject)
qed

text \<open>Publishing a record adds one file, and reading the directory again gives one more record.\<close>

lemma dict_set_new: "\<not> dict_has d k \<Longrightarrow> dict_set k v d = d @ [(k, v)]"
  by (induction d) (auto split: if_splits)

lemma dict_set_last: "\<not> dict_has d k \<Longrightarrow> dict_set k v (d @ [(k, w)]) = d @ [(k, v)]"
  by (induction d) (auto split: if_splits)

lemma dict_del_absent: "\<not> dict_has d k \<Longrightarrow> dict_del k d = d"
  by (induction d) (auto simp: AList.delete_eq split: if_splits)

lemma publish_once_new:
  assumes "\<not> dict_has dir temporary" "temporary \<noteq> destination" "\<not> dict_has dir destination"
  shows "publish_once temporary destination payload mode dir =
    ([dir @ [(temporary, new_file mode [])], dir @ [(temporary, new_file mode payload)],
      dir @ [(temporary, (new_file mode payload)\<lparr> fl_nlink := 2 \<rparr>), (destination, (new_file mode payload)\<lparr> fl_nlink := 2 \<rparr>)],
      dir @ [(destination, new_file mode payload)]], dir @ [(destination, new_file mode payload)], Inr ())"
proof -
  let ?f = "new_file mode payload"
  let ?d2 = "dir @ [(temporary, ?f)]"
  let ?d3 = "(dir @ [(temporary, ?f\<lparr> fl_nlink := 2 \<rparr>)]) @ [(destination, ?f\<lparr> fl_nlink := 2 \<rparr>)]"
  have d1: "dict_set temporary (new_file mode []) dir = dir @ [(temporary, new_file mode [])]"
    and d2: "dict_set temporary ?f (dir @ [(temporary, new_file mode [])]) = ?d2"
    using assms(1) by (rule dict_set_new, rule dict_set_last)
  have get: "dict_get ?d2 temporary = Some ?f" "dict_get ?d3 destination = Some (?f\<lparr> fl_nlink := 2 \<rparr>)"
    using assms by (simp_all add: map_add_def)
  have l: "link_file temporary destination ?d2 = ?d3"
    unfolding link_file_def get option.case dict_set_last[OF assms(1)]
    by (rule dict_set_new) (use assms in \<open>simp add: map_add_def\<close>)
  have del: "dict_del temporary ?d3 = dir @ [(destination, ?f\<lparr> fl_nlink := 2 \<rparr>)]"
    using dict_del_absent[OF assms(1)] assms(2) by (simp add: AList.delete_eq)
  have u: "unlink_linked temporary destination ?d3 = dir @ [(destination, ?f)]"
    unfolding unlink_linked_def get option.case del dict_set_last[OF assms(3)] by (simp add: new_file_def)
  show ?thesis
    unfolding publish_once_eq[OF assms(1,2)] Let_def d1 d2 l u using assms(3) by simp
qed

lemma records_append:
  assumes rs: "records L dir = Inr rs" and new: "find_record (le_content_key_id (lr_entry r)) rs = None"
    and r: "read_record L (dir @ [(entry_name (le_content_key_id (lr_entry r)), f)]) (entry_name (le_content_key_id (lr_entry r))) = Inr r"
    and gen: "lr_generation r = int (length rs) + 1"
    and prev: "empty_head L = Inr h" "lr_previous_sha256 r = (if rs = [] then h else lr_record_sha256 (last rs))"
  shows "records L (dir @ [(entry_name (le_content_key_id (lr_entry r)), f)]) = Inr (rs @ [r])"
proof -
  let ?name = "entry_name (le_content_key_id (lr_entry r))"
  let ?dir = "dir @ [(?name, f)]"
  obtain us head where us: "traverse (read_named_record L dir) (sort (map fst dir)) = Inr us" "rs = sort_key lr_generation us"
      "empty_head L = Inr head" "chained 1 head rs" "distinct (map (\<lambda>r. le_content_key_id (lr_entry r)) rs)"
    using rs unfolding records_eq by blast
  have absent: "\<not> dict_has dir ?name" using records_names[OF rs] new by simp
  have same: "read_named_record L ?dir name = read_named_record L dir name" if "name \<in> set (sort (map fst dir))" for name
  proof -
    have "?name \<notin> set (sort (map fst dir))" using absent by (simp add: map_of_eq_None_iff)
    with that have "name \<noteq> ?name" by metis
    then have "dict_get ?dir name = dict_get dir name" by (simp add: map_add_def split: option.split)
    then show ?thesis by (simp only: read_named_record_def read_record_def read_bounded_file_def)
  qed
  have "traverse (read_named_record L ?dir) (sort (map fst dir)) = Inr us"
    using us(1) by (simp only: traverse_cong[OF refl same])
  moreover have "read_named_record L ?dir ?name = Inr r" using r by (simp add: read_named_record_def entry_name_def)
  moreover have "sort (map fst ?dir) = insort ?name (sort (map fst dir))"
    by (rule properties_for_sort) (simp_all add: sorted_insort)
  ultimately obtain zs where zs: "traverse (read_named_record L ?dir) (sort (map fst ?dir)) = Inr zs" "mset zs = add_mset r (mset us)"
    using traverse_insort by metis
  have chain: "chained 1 h (rs @ [r])" using us(3,4) prev gen by (simp add: chained_append)
  have m: "mset zs = mset (rs @ [r])" by (simp add: zs(2) us(2))
  have "sort_key lr_generation zs = rs @ [r]"
    using chained_sorted[OF chain] mset_eq_setD[OF m] by (intro sort_key_inj_key_eq m) (auto simp: distinct_map)
  moreover have "le_content_key_id (lr_entry r) \<notin> (\<lambda>r. le_content_key_id (lr_entry r)) ` set rs"
    using new by (auto simp: find_record_def find_None_iff)
  ultimately show ?thesis unfolding records_eq using zs(1) prev(1) chain us(5) by auto
qed

end
