(* ===== verification/Ledger_Recovery.thy ===== *)
theory Ledger_Recovery
  imports Ledger_Safety
begin

text \<open>
  Recording a destruction step by step. A completed append extends the chain by one record and
  the anchor with it; an append that stops after its record is in place is completed by recovery,
  wherever it stopped; and one that stops before leaves the ledger unreadable.
\<close>

subsection \<open>Temporary names\<close>

definition temporary_name :: "string \<Rightarrow> bool" where
  "temporary_name name \<longleftrightarrow> take 5 name = ''.tmp-''"

lemma temporary_name_distinct:
  assumes "temporary_name t"
  shows "t \<noteq> ANCHOR_NAME" "t \<noteq> anchor_history_name a" "t \<noteq> entry_name k" "take 10 t \<noteq> ''destroyed-''"
proof -
  have no: "t \<noteq> u" if "take 5 u \<noteq> ''.tmp-''" for u using that assms unfolding temporary_name_def by metis
  show "t \<noteq> ANCHOR_NAME" by (rule no) (simp add: ANCHOR_NAME_def)
  show "t \<noteq> anchor_history_name a" by (rule no) (simp add: anchor_history_name_def)
  show "t \<noteq> entry_name k" by (rule no) (simp add: entry_name_def)
  show "take 10 t \<noteq> ''destroyed-''"
  proof
    assume "take 10 t = ''destroyed-''"
    then have "take 5 (take 10 t) = ''destr''" by simp
    with assms show False by (simp add: temporary_name_def)
  qed
qed

definition fresh_temporaries :: "temporaries \<Rightarrow> ledger_fs \<Rightarrow> bool" where
  "fresh_temporaries temp fs \<longleftrightarrow>
     temporary_name (tm_record temp) \<and> \<not> dict_has (lf_ledger fs) (tm_record temp)
     \<and> temporary_name (tm_history temp) \<and> \<not> dict_has (lf_anchors fs) (tm_history temp)
     \<and> temporary_name (tm_anchor temp) \<and> \<not> dict_has (lf_anchors fs) (tm_anchor temp)"

subsection \<open>Accepting an anchor\<close>

lemma publish_once_final:
  assumes "\<not> dict_has dir temporary" "temporary \<noteq> destination"
  shows "run_result (publish_once temporary destination payload mode) dir = Inr ()"
    "dict_get (run_final (publish_once temporary destination payload mode) dir) =
      (if dict_has dir destination then dict_get dir else (dict_get dir)(destination \<mapsto> new_file mode payload))"
proof -
  show "run_result (publish_once temporary destination payload mode) dir = Inr ()"
    unfolding run_result_def publish_once_eq[OF assms] Let_def by simp
  show "dict_get (run_final (publish_once temporary destination payload mode) dir) =
      (if dict_has dir destination then dict_get dir else (dict_get dir)(destination \<mapsto> new_file mode payload))"
  proof (cases "dict_has dir destination")
    case True
    then show ?thesis using assms(1)
      by (auto simp: run_final_def publish_once_eq[OF assms] Let_def update_conv' delete_conv' fun_eq_iff)
  qed (use publish_once_lookup[OF assms] in simp)
qed

lemma publish_once_trace:
  assumes "\<not> dict_has dir temporary" "temporary \<noteq> destination" "\<not> dict_has dir destination"
  shows "\<exists>d1 d2 d3. (\<forall>d \<in> {d1, d2, d3}. dict_has d temporary) \<and>
    run_trace (publish_once temporary destination payload mode) dir = [d1, d2, d3, dir @ [(destination, new_file mode payload)]]"
proof -
  have h: "dict_has (dir @ (temporary, f) # fs) temporary" for f fs by (cases "dict_get dir temporary") (simp_all add: map_add_def)
  show ?thesis unfolding run_trace_def publish_once_new[OF assms] fst_conv
    by (intro exI, rule conjI[OF _ refl]) (simp only: ball_simps h simp_thms)
qed

lemma replace_file_eq:
  assumes "\<not> dict_has dir temporary" "temporary \<noteq> destination"
  shows "run_result (replace_file temporary destination (Inr payload) mode) dir = Inr ()"
    "dict_get (run_final (replace_file temporary destination (Inr payload) mode) dir) =
      (dict_get dir)(destination \<mapsto> new_file mode payload)"
  using assms
  by (auto simp: replace_file_def run_bind_step run_step_def run_result_def run_final_def update_conv' delete_conv' fun_eq_iff)

lemma run_bind_parts:
  assumes "run_result m s = Inr x"
  shows "run_result (run_bind m k) s = run_result (k x) (run_final m s)"
    "run_final (run_bind m k) s = run_final (k x) (run_final m s)"
    "run_trace (run_bind m k) s = run_trace m s @ run_trace (k x) (run_final m s)"
  using assms by (auto simp: run_bind_def run_result_def run_final_def run_trace_def split: prod.splits sum.splits)

lemma on_anchors_parts:
  "run_result (on_anchors m) fs = run_result m (lf_anchors fs)"
  "run_final (on_anchors m) fs = fs\<lparr> lf_anchors := run_final m (lf_anchors fs) \<rparr>"
  by (simp_all add: on_anchors_def run_result_def run_final_def split: prod.splits)

lemma on_ledger_parts:
  "run_result (on_ledger m) fs = run_result m (lf_ledger fs)"
  "run_final (on_ledger m) fs = fs\<lparr> lf_ledger := run_final m (lf_ledger fs) \<rparr>"
  "run_trace (on_ledger m) fs = map (\<lambda>d. fs\<lparr> lf_ledger := d \<rparr>) (run_trace m (lf_ledger fs))"
  by (simp_all add: on_ledger_def run_result_def run_final_def run_trace_def split: prod.splits)

lemma run_simple_parts [simp]:
  "run_result (run_return r) s = r" "run_final (run_return r) s = s" "run_trace (run_return r) s = []"
  "run_result (run_read f) s = f s" "run_final (run_read f) s = s" "run_trace (run_read f) s = []"
  "run_result (run_guarded m) s = guarded (run_result m s)" "run_final (run_guarded m) s = run_final m s"
  "run_trace (run_guarded m) s = run_trace m s"
  by (simp_all add: run_return_def run_read_def run_guarded_def run_result_def run_final_def run_trace_def split: prod.splits)

text \<open>While an anchor is accepted, the anchor file is the old one or the new one.\<close>

definition anchor_moves :: "ledger_file \<Rightarrow> ledger_fs \<Rightarrow> ledger_fs \<Rightarrow> bool" where
  "anchor_moves f fs fs' \<longleftrightarrow> lf_ledger fs' = lf_ledger fs \<and> lf_paths_valid fs' = lf_paths_valid fs
     \<and> (dict_get (lf_anchors fs') ANCHOR_NAME = dict_get (lf_anchors fs) ANCHOR_NAME
        \<or> dict_get (lf_anchors fs') ANCHOR_NAME = Some f)"

lemma anchor_moves_preorder: "reflp (anchor_moves f)" "transp (anchor_moves f)"
  by (auto simp: anchor_moves_def reflp_def transp_def)

lemma publish_once_other:
  assumes "temporary \<noteq> name" "destination \<noteq> name"
  shows "throughout (\<lambda>d d'. dict_get d' name = dict_get d name) (publish_once temporary destination payload mode)"
proof (rule throughoutI)
  fix d t d' r assume p: "publish_once temporary destination payload mode d = (t, d', r)"
  show "dict_get d' name = dict_get d name \<and> (\<forall>u \<in> set t. dict_get u name = dict_get d name)"
  proof (cases "dict_has d temporary \<or> temporary = destination")
    case True
    then show ?thesis using p assms
      by (auto simp: publish_once_def run_bind_step run_step_def update_conv' delete_conv' split: if_splits)
  next
    case False
    then show ?thesis using p assms
      by (auto simp: publish_once_eq Let_def link_file_def unlink_linked_def update_conv' delete_conv' split: if_splits)
  qed
qed

lemma replace_file_moves:
  assumes "temporary \<noteq> name"
  shows "throughout (\<lambda>d d'. dict_get d' name = dict_get d name \<or> dict_get d' name = Some (new_file mode b))
    (replace_file temporary name (Inr b) mode)"
  by (rule throughoutI)
    (use assms in \<open>auto simp: replace_file_def run_bind_step run_step_def update_conv' delete_conv' split: if_splits\<close>)

lemma on_anchors_moves:
  assumes "throughout (\<lambda>d d'. dict_get d' ANCHOR_NAME = dict_get d ANCHOR_NAME \<or> dict_get d' ANCHOR_NAME = Some f) m"
  shows "throughout (anchor_moves f) (on_anchors m)"
proof (rule throughoutI)
  fix s t s' r assume o: "on_anchors m s = (t, s', r)"
  obtain t1 d1 r1 where m: "m (lf_anchors s) = (t1, d1, r1)" by (metis prod_cases3)
  from o have "t = map (\<lambda>d. s\<lparr> lf_anchors := d \<rparr>) t1" "s' = s\<lparr> lf_anchors := d1 \<rparr>" by (simp_all add: on_anchors_def m)
  with throughoutD[OF assms m] show "anchor_moves f s s' \<and> (\<forall>u \<in> set t. anchor_moves f s u)"
    by (auto simp: anchor_moves_def)
qed

lemma throughout_weaken: "throughout R m \<Longrightarrow> (\<And>s s'. R s s' \<Longrightarrow> S s s') \<Longrightarrow> throughout S m"
  unfolding throughout_def by blast

lemma accept_anchor_moves:
  assumes "anchor_bytes L a = Inr b" "temporary_name (tm_history temp)" "temporary_name (tm_anchor temp)"
  shows "throughout (anchor_moves (new_file ANCHOR_MODE b)) (accept_anchor L temp a)"
proof -
  have ne: "tm_history temp \<noteq> ANCHOR_NAME" "anchor_history_name a \<noteq> ANCHOR_NAME" "tm_anchor temp \<noteq> ANCHOR_NAME"
    using temporary_name_distinct assms(2,3) by (blast, simp add: anchor_history_name_def ANCHOR_NAME_def, blast)
  note r = throughout_bind[OF anchor_moves_preorder(2)] throughout_return[OF anchor_moves_preorder(1)]
    throughout_read[OF anchor_moves_preorder(1)]
  show ?thesis
    unfolding accept_anchor_def publish_anchor_history_once_def replace_anchor_def require_anchor_file_def assms(1) run_bind_simps(1)
    by (intro r on_anchors_moves replace_file_moves ne throughout_weaken[OF publish_once_other[OF ne(1,2)]]) blast
qed

text \<open>A temporary file in the ledger directory makes it unreadable.\<close>

lemma records_temporary:
  assumes "dict_has dir t" "temporary_name t"
  shows "\<exists>e. records L dir = Inl e"
proof (cases "traverse (read_named_record L dir) (sort (map fst dir))")
  case (Inr us)
  have "t \<in> set (sort (map fst dir))"
    using domIff[of t "dict_get dir"] assms(1) by (simp add: dom_map_of_conv_image_fst)
  from traverse_member[OF Inr this] show ?thesis
    using temporary_name_distinct(4)[OF assms(2)] by (auto simp: read_named_record_def)
qed (simp add: records_def)

text \<open>The record, the file and the anchor of the next entry of a chain whose anchor is given.\<close>

definition next_record :: "'z codec_scheme \<Rightarrow> ledger_anchor \<Rightarrow> ledger_entry \<Rightarrow> ledger_record" where
  "next_record L a e = record_of L e (la_entry_count a + 1) (la_aggregate_sha256 a)"

definition next_file :: "'z codec_scheme \<Rightarrow> ledger_anchor \<Rightarrow> ledger_entry \<Rightarrow> ledger_file" where
  "next_file L a e = new_file RECORD_MODE (flat_text (signed_members L e (la_entry_count a + 1) (la_aggregate_sha256 a)))"

definition next_anchor :: "'z codec_scheme \<Rightarrow> ledger_anchor \<Rightarrow> ledger_entry \<Rightarrow> ledger_anchor" where
  "next_anchor L a e = \<lparr> la_entry_count = la_entry_count a + 1, la_aggregate_sha256 = lr_record_sha256 (next_record L a e) \<rparr>"

definition appended :: "'z codec_scheme \<Rightarrow> ledger_anchor \<Rightarrow> ledger_entry \<Rightarrow> directory \<Rightarrow> directory" where
  "appended L a e dir = dir @ [(entry_name (le_content_key_id e), next_file L a e)]"

text \<open>A ledger at rest: the records form a chain, and the anchor names its length and head.\<close>

definition current :: "'z codec_scheme \<Rightarrow> ledger_anchor option \<Rightarrow> ledger_fs \<Rightarrow> ledger_record list \<Rightarrow> ledger_anchor \<Rightarrow> bool" where
  "current L expected fs rs a \<longleftrightarrow>
     records L (lf_ledger fs) = Inr rs \<and> anchor_for_records L rs = Inr a
     \<and> read_anchor L (lf_anchors fs) ANCHOR_NAME = Inr a
     \<and> (case expected of None \<Rightarrow> True | Some x \<Rightarrow> anchor_is_prefix L x rs = Inr True)"

lemma require_current_iff:
  "require_current_anchor_locked L expected fs = Inr () \<longleftrightarrow> (\<exists>rs a. current L expected fs rs a)"
proof
  assume "require_current_anchor_locked L expected fs = Inr ()"
  then obtain x rs a where p: "read_anchor L (lf_anchors fs) ANCHOR_NAME = Inr x" "records L (lf_ledger fs) = Inr rs"
    "anchor_for_records L rs = Inr a" "la_entry_count a = la_entry_count x" "la_aggregate_sha256 a = la_aggregate_sha256 x"
    "case expected of None \<Rightarrow> True | Some x \<Rightarrow> anchor_is_prefix L x rs = Inr True"
    unfolding require_current_anchor_locked_def by (auto elim!: rbind_InrE split: if_splits option.splits)
  then have "a = x" by (cases a, cases x) simp
  with p show "\<exists>rs a. current L expected fs rs a" unfolding current_def by blast
next
  assume "\<exists>rs a. current L expected fs rs a"
  then show "require_current_anchor_locked L expected fs = Inr ()"
    by (auto simp: current_def require_current_anchor_locked_def split: option.splits)
qed

definition valid_expected :: "ledger_anchor option \<Rightarrow> bool" where
  "valid_expected expected \<longleftrightarrow> (case expected of None \<Rightarrow> True | Some x \<Rightarrow> 0 \<le> la_entry_count x)"

lemma anchor_is_prefix_append:
  assumes "anchor_is_prefix L x rs = Inr True" "0 \<le> la_entry_count x"
  shows "anchor_is_prefix L x (rs @ ss) = Inr True"
proof (cases "la_entry_count x = 0")
  case False
  moreover from assms(1) have "la_entry_count x \<le> int (length rs)" by (simp add: anchor_is_prefix_def split: if_splits)
  ultimately have "nat (la_entry_count x - 1) < length rs" using assms(2) by linarith
  with assms(1) show ?thesis by (simp add: anchor_is_prefix_def nth_append split: if_splits)
qed (use assms(1) in \<open>simp add: anchor_is_prefix_def\<close>)

context ledger_codec
begin

lemma require_anchor_file_ok:
  assumes "read_anchor L (lf_anchors fs) ANCHOR_NAME = Inr a"
  shows "run_result (require_anchor_file L a) fs = Inr ()" "run_final (require_anchor_file L a) fs = fs"
  using assms by (simp_all add: require_anchor_file_def run_bind_parts)

lemma accept_anchor_ok:
  assumes "good_anchor a" "temporary_name (tm_history temp)" "\<not> dict_has (lf_anchors fs) (tm_history temp)"
    "temporary_name (tm_anchor temp)" "\<not> dict_has (lf_anchors fs) (tm_anchor temp)"
  shows "run_result (accept_anchor L temp a) fs = Inr ()"
    "lf_ledger (run_final (accept_anchor L temp a) fs) = lf_ledger fs"
    "read_anchor L (lf_anchors (run_final (accept_anchor L temp a) fs)) ANCHOR_NAME = Inr a"
proof -
  let ?b = "flat_text (anchor_members a)"
  let ?h = "publish_once (tm_history temp) (anchor_history_name a) ?b ANCHOR_MODE"
  let ?p = "replace_file (tm_anchor temp) ANCHOR_NAME (Inr ?b) ANCHOR_MODE"
  let ?d1 = "run_final ?h (lf_anchors fs)"
  let ?d2 = "run_final ?p ?d1"
  note bytes = anchor_written(1)[OF assms(1)]
  have ne: "tm_history temp \<noteq> anchor_history_name a" "tm_anchor temp \<noteq> anchor_history_name a" "tm_anchor temp \<noteq> ANCHOR_NAME"
    using temporary_name_distinct assms by blast+
  note h = publish_once_final[OF assms(3) ne(1), of ?b ANCHOR_MODE]
  have free: "\<not> dict_has ?d1 (tm_anchor temp)" using h(2) assms(5) ne(2) by simp
  note p = replace_file_eq[OF free ne(3), of ?b ANCHOR_MODE]
  have r: "read_anchor L ?d2 ANCHOR_NAME = Inr a" by (rule read_anchor_written[OF assms(1)]) (simp add: p(2))
  have ph: "run_result (publish_anchor_history_once L (tm_history temp) a) fs = Inr ()"
    "run_final (publish_anchor_history_once L (tm_history temp) a) fs = fs\<lparr> lf_anchors := ?d1 \<rparr>"
    by (simp_all add: publish_anchor_history_once_def bytes on_anchors_parts h(1))
  have pr: "run_result (on_anchors ?p) (fs\<lparr> lf_anchors := ?d1 \<rparr>) = Inr ()"
    "run_final (on_anchors ?p) (fs\<lparr> lf_anchors := ?d1 \<rparr>) = fs\<lparr> lf_anchors := ?d2 \<rparr>"
    by (simp_all add: on_anchors_parts p(1))
  have q: "read_anchor L (lf_anchors (fs\<lparr> lf_anchors := ?d2 \<rparr>)) ANCHOR_NAME = Inr a" using r by simp
  have eq: "run_result (accept_anchor L temp a) fs = Inr ()" "run_final (accept_anchor L temp a) fs = fs\<lparr> lf_anchors := ?d2 \<rparr>"
    unfolding accept_anchor_def run_bind_parts[OF ph(1)] ph(2) replace_anchor_def bytes run_bind_parts[OF pr(1)] pr(2)
    by (simp_all add: require_anchor_file_ok[OF q])
  then show "run_result (accept_anchor L temp a) fs = Inr ()" "lf_ledger (run_final (accept_anchor L temp a) fs) = lf_ledger fs"
    "read_anchor L (lf_anchors (run_final (accept_anchor L temp a) fs)) ANCHOR_NAME = Inr a"
    using r by simp_all
qed

subsection \<open>One more record\<close>

lemma records_members:
  assumes "records L dir = Inr rs" "r \<in> set rs"
  shows "hex_text (lr_record_sha256 r)" "valid_entry (lr_entry r)"
    "read_record L dir (entry_name (le_content_key_id (lr_entry r))) = Inr r"
proof -
  obtain us where us: "traverse (read_named_record L dir) (sort (map fst dir)) = Inr us" "rs = sort_key lr_generation us"
    using assms(1) unfolding records_eq by blast
  then obtain name where "read_named_record L dir name = Inr r" using traverse_image[OF us(1), of r] assms(2) by auto
  then have n: "read_record L dir name = Inr r" by (simp add: read_named_record_def split: if_splits)
  then show "read_record L dir (entry_name (le_content_key_id (lr_entry r))) = Inr r" using read_record_name by blast
  obtain ps where ps: "record_of_members L name ps = Inr r" by (rule read_record_parts[OF n])
  show "hex_text (lr_record_sha256 r)"
    by (rule record_of_members_parts[OF ps]) (simp add: hexdigest_hex digest_length[unfolded sha256_length_def])
  show "valid_entry (lr_entry r)" by (rule record_of_members_parts[OF ps]) (rule entry_of_members_parts)
qed

lemma anchor_for_records_ok:
  assumes "records L dir = Inr rs" "int (length rs) \<le> MAX_ENTRIES"
  obtains a h where "anchor_for_records L rs = Inr a" "good_anchor a" "la_entry_count a = int (length rs)"
    "empty_head L = Inr h" "la_aggregate_sha256 a = (if rs = [] then h else lr_record_sha256 (last rs))"
proof -
  obtain h where h: "empty_head L = Inr h" "hex_text h" using empty_head_eq by blast
  let ?d = "if rs = [] then h else lr_record_sha256 (last rs)"
  have "hex_text ?d" using h(2) records_members(1)[OF assms(1), of "last rs"] by simp
  moreover have "anchor_for_records L rs = new_anchor (JInt (int (length rs))) (JStr ?d)"
    using h(1) by (simp add: anchor_for_records_def)
  ultimately show thesis
    using h(1) assms(2) that[of "\<lparr> la_entry_count = int (length rs), la_aggregate_sha256 = ?d \<rparr>" h]
    by (simp add: new_anchor_def good_anchor_def)
qed

lemma anchor_for_records_parts:
  assumes "records L dir = Inr rs" "anchor_for_records L rs = Inr a" "int (length rs) \<le> MAX_ENTRIES"
  obtains h where "good_anchor a" "la_entry_count a = int (length rs)"
    "empty_head L = Inr h" "la_aggregate_sha256 a = (if rs = [] then h else lr_record_sha256 (last rs))"
  using anchor_for_records_ok[OF assms(1,3)] assms(2) by (metis sum.inject(2))

lemma next_records:
  assumes "records L dir = Inr rs" "anchor_for_records L rs = Inr a" "int (length rs) < MAX_ENTRIES"
    "valid_entry e" "find_record (le_content_key_id e) rs = None"
  shows "records L (appended L a e dir) = Inr (rs @ [next_record L a e])"
    "read_record L (appended L a e dir) (entry_name (le_content_key_id e)) = Inr (next_record L a e)"
    "anchor_for_records L (rs @ [next_record L a e]) = Inr (next_anchor L a e)" "good_anchor (next_anchor L a e)"
    "rbind (entry_document L e (la_entry_count a + 1) (la_aggregate_sha256 a)) (document_bytes L)
      = Inr (fl_content (next_file L a e))"
proof -
  have "int (length rs) \<le> MAX_ENTRIES" using assms(3) by simp
  then obtain h where a: "good_anchor a" "la_entry_count a = int (length rs)" "empty_head L = Inr h"
    "la_aggregate_sha256 a = (if rs = [] then h else lr_record_sha256 (last rs))"
    using anchor_for_records_parts[OF assms(1,2)] by blast
  let ?g = "la_entry_count a + 1" and ?p = "la_aggregate_sha256 a"
  have g: "hex_text ?p" "1 \<le> ?g" "?g \<le> MAX_ENTRIES" using a(1,2) assms(3) by (simp_all add: good_anchor_def)
  have absent: "\<not> dict_has dir (entry_name (le_content_key_id e))" using records_names[OF assms(1)] assms(5) by simp
  show read: "read_record L (appended L a e dir) (entry_name (le_content_key_id e)) = Inr (next_record L a e)"
    unfolding next_record_def
    by (rule read_record_written[OF g assms(4)]) (use absent in \<open>simp add: appended_def next_file_def map_add_def\<close>)
  have r: "lr_entry (next_record L a e) = e" "lr_generation (next_record L a e) = int (length rs) + 1"
    "lr_previous_sha256 (next_record L a e) = (if rs = [] then h else lr_record_sha256 (last rs))"
    using a by (simp_all add: next_record_def record_of_def)
  show "records L (appended L a e dir) = Inr (rs @ [next_record L a e])"
    using records_append[OF assms(1), of "next_record L a e", unfolded r] read assms(5) a(3) unfolding appended_def by simp
  have d: "hex_text (lr_record_sha256 (next_record L a e))" by (simp add: next_record_def record_of_def digest_hex)
  then show "anchor_for_records L (rs @ [next_record L a e]) = Inr (next_anchor L a e)"
    using a(2) by (simp add: anchor_for_records_def new_anchor_def next_anchor_def)
  show "good_anchor (next_anchor L a e)" using d g by (simp add: good_anchor_def next_anchor_def)
  show "rbind (entry_document L e ?g ?p) (document_bytes L) = Inr (fl_content (next_file L a e))"
    using entry_document_eq(2)[OF g] by (simp add: next_file_def new_file_def)
qed

lemma anchor_is_own_prefix:
  assumes "anchor_for_records L rs = Inr a"
  shows "anchor_is_prefix L a (rs @ ss) = Inr True"
proof (cases "rs = []")
  case False
  then have "nat (int (length rs) - 1) = length rs - 1" "length rs - 1 < length rs" by (simp_all add: nat_diff_distrib)
  then show ?thesis using assms False
    by (auto simp: anchor_for_records_def new_anchor_def anchor_is_prefix_def last_conv_nth nth_append split: if_splits)
next
  case True
  with assms show ?thesis
    by (auto simp: anchor_for_records_def new_anchor_def anchor_is_prefix_def split: if_splits elim!: rbind_InrE)
qed

lemma append_record_run:
  assumes "records L (lf_ledger fs) = Inr rs" "anchor_for_records L rs = Inr a" "int (length rs) < MAX_ENTRIES"
    "valid_entry e" "find_record (le_content_key_id e) rs = None" "fresh_temporaries temp fs"
  defines "fs' \<equiv> fs\<lparr> lf_ledger := appended L a e (lf_ledger fs) \<rparr>"
  shows "run_result (append_record L temp rs e) fs = Inr e"
    "run_final (append_record L temp rs e) fs = run_final (accept_anchor L temp (next_anchor L a e)) fs'"
    "\<exists>d1 d2 d3. (\<forall>d \<in> {d1, d2, d3}. dict_has d (tm_record temp)) \<and>
       run_trace (append_record L temp rs e) fs =
         map (\<lambda>d. fs\<lparr> lf_ledger := d \<rparr>) [d1, d2, d3] @ fs' # run_trace (accept_anchor L temp (next_anchor L a e)) fs'"
proof -
  note n = next_records[OF assms(1-5)]
  let ?name = "entry_name (le_content_key_id e)" and ?dir = "lf_ledger fs" and ?t = "tm_record temp"
  have absent: "\<not> dict_has ?dir ?name" using records_names[OF assms(1)] assms(5) by simp
  have t: "\<not> dict_has ?dir ?t" "?t \<noteq> ?name" using assms(6) temporary_name_distinct unfolding fresh_temporaries_def by blast+
  have nf: "new_file RECORD_MODE (fl_content (next_file L a e)) = next_file L a e" by (simp add: next_file_def new_file_def)
  let ?p = "publish_once ?t ?name (fl_content (next_file L a e)) RECORD_MODE"
  note p = publish_once_new[OF t absent, of "fl_content (next_file L a e)" RECORD_MODE, unfolded nf, folded appended_def]
  have pub: "run_result (on_ledger ?p) fs = Inr ()" "run_final (on_ledger ?p) fs = fs'"
    unfolding on_ledger_parts fs'_def by (simp_all add: run_result_def run_final_def p)
  obtain d1 d2 d3 where d: "\<forall>d \<in> {d1, d2, d3}. dict_has d ?t" "run_trace ?p ?dir = [d1, d2, d3, appended L a e ?dir]"
    using publish_once_trace[OF t absent, of "fl_content (next_file L a e)" RECORD_MODE] unfolding nf appended_def by metis
  have tr: "run_trace (on_ledger ?p) fs = map (\<lambda>d. fs\<lparr> lf_ledger := d \<rparr>) [d1, d2, d3] @ [fs']"
    unfolding on_ledger_parts d(2) fs'_def by simp
  have ledger: "lf_ledger fs' = appended L a e ?dir" by (simp add: fs'_def)
  have stored: "read_entry L (lf_ledger fs') ?name = Inr e"
    by (simp add: read_entry_def ledger n(2)) (simp add: next_record_def record_of_def)
  have nxt: "rbind (records L (lf_ledger fs')) (anchor_for_records L) = Inr (next_anchor L a e)"
    by (simp add: ledger n(1,3))
  have acc: "run_result (accept_anchor L temp (next_anchor L a e)) fs' = Inr ()"
    using assms(6) by (intro accept_anchor_ok n(4)) (simp_all add: fs'_def fresh_temporaries_def)
  have eq: "append_record L temp rs e = run_bind (on_ledger ?p) (\<lambda>_.
      run_bind (run_read (\<lambda>fs. read_entry L (lf_ledger fs) ?name)) (\<lambda>stored.
      run_bind (run_read (\<lambda>fs. rbind (records L (lf_ledger fs)) (anchor_for_records L))) (\<lambda>x.
      run_bind (accept_anchor L temp x) (\<lambda>_.
        run_return (if stored \<noteq> e then Inl invalid_record else Inr stored)))))"
    unfolding append_record_def assms(2) n(5) run_bind_simps ..
  show "run_result (append_record L temp rs e) fs = Inr e"
    "run_final (append_record L temp rs e) fs = run_final (accept_anchor L temp (next_anchor L a e)) fs'"
    unfolding eq by (simp_all add: run_bind_parts[OF pub(1)] pub(2) run_bind_parts stored nxt run_bind_parts[OF acc])
  have "run_trace (append_record L temp rs e) fs = run_trace (on_ledger ?p) fs @ run_trace (accept_anchor L temp (next_anchor L a e)) fs'"
    unfolding eq by (simp add: run_bind_parts[OF pub(1)] pub(2) run_bind_parts stored nxt run_bind_parts[OF acc])
  then have "run_trace (append_record L temp rs e) fs =
      map (\<lambda>d. fs\<lparr> lf_ledger := d \<rparr>) [d1, d2, d3] @ fs' # run_trace (accept_anchor L temp (next_anchor L a e)) fs'"
    unfolding tr by simp
  with d(1) show "\<exists>d1 d2 d3. (\<forall>d \<in> {d1, d2, d3}. dict_has d ?t) \<and> run_trace (append_record L temp rs e) fs =
      map (\<lambda>d. fs\<lparr> lf_ledger := d \<rparr>) [d1, d2, d3] @ fs' # run_trace (accept_anchor L temp (next_anchor L a e)) fs'"
    by metis
qed

subsection \<open>Recording\<close>

lemma record_destruction_new:
  assumes "current L expected fs rs a" "find_record (le_content_key_id e) rs = None"
  shows "record_destruction L expected temp e fs = run_guarded (append_record L temp rs e) fs"
proof -
  have "require_current_anchor_locked L expected fs = Inr ()" using assms(1) require_current_iff by blast
  moreover have "records L (lf_ledger fs) = Inr rs" using assms(1) by (simp add: current_def)
  ultimately show ?thesis unfolding record_destruction_def run_guarded_def by (simp add: assms(2))
qed

lemma record_destruction_parts:
  assumes "current L expected fs rs a" "find_record (le_content_key_id e) rs = None"
  shows "run_result (record_destruction L expected temp e) fs = guarded (run_result (append_record L temp rs e) fs)"
    "run_final (record_destruction L expected temp e) fs = run_final (append_record L temp rs e) fs"
    "run_trace (record_destruction L expected temp e) fs = run_trace (append_record L temp rs e) fs"
  using record_destruction_new[OF assms, of temp] by (metis run_result_def run_final_def run_trace_def run_simple_parts(7-9))+

lemma current_appended:
  assumes "current L expected fs rs a" "valid_expected expected" "int (length rs) < MAX_ENTRIES" "valid_entry e"
    "find_record (le_content_key_id e) rs = None" "lf_ledger fs' = appended L a e (lf_ledger fs)"
    "read_anchor L (lf_anchors fs') ANCHOR_NAME = Inr (next_anchor L a e)"
  shows "current L expected fs' (rs @ [next_record L a e]) (next_anchor L a e)"
proof -
  have c: "records L (lf_ledger fs) = Inr rs" "anchor_for_records L rs = Inr a" using assms(1) by (simp_all add: current_def)
  note n = next_records[OF c assms(3-5)]
  have "case expected of None \<Rightarrow> True | Some x \<Rightarrow> anchor_is_prefix L x (rs @ [next_record L a e]) = Inr True"
    using assms(1,2) anchor_is_prefix_append[of L _ rs "[next_record L a e]"]
    by (auto simp: current_def valid_expected_def split: option.splits)
  with n assms(6,7) show ?thesis by (simp add: current_def)
qed

lemma record_destruction_final:
  assumes "current L expected fs rs a" "valid_expected expected" "int (length rs) < MAX_ENTRIES" "valid_entry e"
    "find_record (le_content_key_id e) rs = None" "fresh_temporaries temp fs"
  defines "fs' \<equiv> run_final (record_destruction L expected temp e) fs"
  shows "run_result (record_destruction L expected temp e) fs = Inr e"
    "current L expected fs' (rs @ [next_record L a e]) (next_anchor L a e)"
    "lookup L expected (le_content_key_id e) fs' = Inr (Some e)" "entries L expected fs' = Inr (map lr_entry rs @ [e])"
proof -
  have c: "records L (lf_ledger fs) = Inr rs" "anchor_for_records L rs = Inr a" using assms(1) by (simp_all add: current_def)
  note n = next_records[OF c assms(3-5)] and p = record_destruction_parts[OF assms(1,5), of temp]
    and ar = append_record_run[OF c assms(3-6)]
  show "run_result (record_destruction L expected temp e) fs = Inr e" by (simp add: p(1) ar(1) guarded_def)
  let ?fs = "fs\<lparr> lf_ledger := appended L a e (lf_ledger fs) \<rparr>"
  have t: "temporary_name (tm_history temp)" "\<not> dict_has (lf_anchors ?fs) (tm_history temp)"
    "temporary_name (tm_anchor temp)" "\<not> dict_has (lf_anchors ?fs) (tm_anchor temp)"
    using assms(6) by (simp_all add: fresh_temporaries_def)
  have fs': "fs' = run_final (accept_anchor L temp (next_anchor L a e)) ?fs" unfolding fs'_def p(2) ar(2) ..
  note acc = accept_anchor_ok[OF n(4) t, folded fs']
  have led: "lf_ledger fs' = appended L a e (lf_ledger fs)" using acc(2) by simp
  show cur: "current L expected fs' (rs @ [next_record L a e]) (next_anchor L a e)"
    by (rule current_appended[OF assms(1-5) led acc(3)])
  then have req: "require_current_anchor_locked L expected fs' = Inr ()" using require_current_iff by blast
  have e: "lr_entry (next_record L a e) = e" by (simp add: next_record_def record_of_def)
  have "require_uuid7 (le_content_key_id e) ''content_key_id'' = Inr (le_content_key_id e)"
    using assms(4) by (simp add: valid_entry_def require_uuid7_def)
  then show "lookup L expected (le_content_key_id e) fs' = Inr (Some e)"
    by (simp add: lookup_def req read_entry_def led n(2) e guarded_def)
  show "entries L expected fs' = Inr (map lr_entry rs @ [e])"
    by (simp add: entries_def req entries_of_def led n(1) e guarded_def)
qed

subsection \<open>Interruption and recovery\<close>

lemma interrupted_states:
  assumes "current L expected fs rs a" "int (length rs) < MAX_ENTRIES" "valid_entry e"
    "find_record (le_content_key_id e) rs = None" "fresh_temporaries temp fs"
    "fs' \<in> set (run_trace (record_destruction L expected temp e) fs)"
  shows "dict_has (lf_ledger fs') (tm_record temp) \<or>
    lf_ledger fs' = appended L a e (lf_ledger fs) \<and> lf_paths_valid fs' = lf_paths_valid fs
    \<and> (read_anchor L (lf_anchors fs') ANCHOR_NAME = Inr a \<or> read_anchor L (lf_anchors fs') ANCHOR_NAME = Inr (next_anchor L a e))"
proof -
  have c: "records L (lf_ledger fs) = Inr rs" "anchor_for_records L rs = Inr a" "read_anchor L (lf_anchors fs) ANCHOR_NAME = Inr a"
    using assms(1) by (simp_all add: current_def)
  note n = next_records[OF c(1,2) assms(2-4)] and ar = append_record_run[OF c(1,2) assms(2-5)]
  let ?fs = "fs\<lparr> lf_ledger := appended L a e (lf_ledger fs) \<rparr>" and ?b = "flat_text (anchor_members (next_anchor L a e))"
  note m = accept_anchor_moves[OF anchor_written(1)[OF n(4)], of temp]
  obtain d1 d2 d3 where d: "\<forall>d \<in> {d1, d2, d3}. dict_has d (tm_record temp)"
    "run_trace (record_destruction L expected temp e) fs =
       map (\<lambda>d. fs\<lparr> lf_ledger := d \<rparr>) [d1, d2, d3] @ ?fs # run_trace (accept_anchor L temp (next_anchor L a e)) ?fs"
    using ar(3) unfolding record_destruction_parts(3)[OF assms(1,4)] by metis
  consider d where "d \<in> {d1, d2, d3}" "fs' = fs\<lparr> lf_ledger := d \<rparr>" | "fs' = ?fs"
    | "fs' \<in> set (run_trace (accept_anchor L temp (next_anchor L a e)) ?fs)"
    using assms(6) unfolding d(2) by auto
  then show ?thesis
  proof cases
    case 1 then show ?thesis using d(1) by auto
  next
    case 2 then show ?thesis using c(3) by simp
  next
    case 3
    then have mv: "anchor_moves (new_file ANCHOR_MODE ?b) ?fs fs'"
      using m assms(5) unfolding fresh_temporaries_def throughout_def by blast
    have "read_anchor L (lf_anchors fs') ANCHOR_NAME = Inr a"
      if "dict_get (lf_anchors fs') ANCHOR_NAME = dict_get (lf_anchors fs) ANCHOR_NAME"
      using c(3) that by (simp add: read_anchor_def read_bounded_file_def)
    moreover have "read_anchor L (lf_anchors fs') ANCHOR_NAME = Inr (next_anchor L a e)"
      if "dict_get (lf_anchors fs') ANCHOR_NAME = Some (new_file ANCHOR_MODE ?b)"
      using read_anchor_written[OF n(4) that] .
    ultimately show ?thesis using mv by (auto simp: anchor_moves_def)
  qed
qed

lemma recover_pending:
  assumes "current L (Some x) fs rs a" "0 \<le> la_entry_count x" "int (length rs) < MAX_ENTRIES" "valid_entry e"
    "find_record (le_content_key_id e) rs = None" "lf_ledger fs' = appended L a e (lf_ledger fs)" "lf_paths_valid fs'"
    "read_anchor L (lf_anchors fs') ANCHOR_NAME = Inr a \<or> read_anchor L (lf_anchors fs') ANCHOR_NAME = Inr (next_anchor L a e)"
    "fresh_temporaries temp fs'" "e \<in> set authorized"
  defines "fs'' \<equiv> run_final (recover_authorized_pending_append L temp x authorized) fs'"
  shows "run_result (recover_authorized_pending_append L temp x authorized) fs' = Inr ()"
    "current L (Some x) fs'' (rs @ [next_record L a e]) (next_anchor L a e)"
proof -
  let ?r = "next_record L a e" and ?m = "recover_authorized_pending_append L temp x authorized"
  have c: "records L (lf_ledger fs) = Inr rs" "anchor_for_records L rs = Inr a" "anchor_is_prefix L x rs = Inr True"
    using assms(1) by (simp_all add: current_def)
  have v: "valid_expected (Some x)" using assms(2) by (simp add: valid_expected_def)
  note n = next_records[OF c(1,2) assms(3-5)]
  have cnt: "la_entry_count a = int (length rs)"
    using anchor_for_records_parts[OF c(1,2)] assms(3) by (metis less_imp_le)
  then have ne: "a \<noteq> next_anchor L a e" by (auto simp: next_anchor_def dest: arg_cong[of _ _ la_entry_count])
  have x: "anchor_is_prefix L x (rs @ [?r]) = Inr True" by (rule anchor_is_prefix_append[OF c(3) assms(2)])
  have own: "anchor_is_prefix L a (rs @ [?r]) = Inr True" by (rule anchor_is_own_prefix[OF c(2)])
  have e: "lr_entry ?r = e" by (simp add: next_record_def record_of_def)
  have "?m fs' = (if read_anchor L (lf_anchors fs') ANCHOR_NAME = Inr a
      then run_guarded (accept_anchor L temp (next_anchor L a e)) fs' else run_guarded (run_return (Inr ())) fs')"
    using assms(7,8,10) ne unfolding recover_authorized_pending_append_def
    by (auto simp: run_guarded_def assms(6) n(1,3) x own e cnt)
  then have eq: "run_result ?m fs' = (if read_anchor L (lf_anchors fs') ANCHOR_NAME = Inr a
      then guarded (run_result (accept_anchor L temp (next_anchor L a e)) fs') else Inr ())"
    "fs'' = (if read_anchor L (lf_anchors fs') ANCHOR_NAME = Inr a then run_final (accept_anchor L temp (next_anchor L a e)) fs' else fs')"
    unfolding fs''_def by (auto simp: run_result_def run_final_def run_guarded_def run_return_def guarded_def split: prod.splits)
  have t: "temporary_name (tm_history temp)" "\<not> dict_has (lf_anchors fs') (tm_history temp)"
    "temporary_name (tm_anchor temp)" "\<not> dict_has (lf_anchors fs') (tm_anchor temp)"
    using assms(9) by (simp_all add: fresh_temporaries_def)
  note acc = accept_anchor_ok[OF n(4) t]
  show "run_result ?m fs' = Inr ()" unfolding eq(1) by (simp add: acc(1) guarded_def)
  show "current L (Some x) fs'' (rs @ [?r]) (next_anchor L a e)"
    by (rule current_appended[OF assms(1) v assms(3-5)]) (use acc assms(6,8) in \<open>auto simp: eq(2)\<close>)
qed

lemma recover_unreadable:
  assumes "dict_has (lf_ledger fs) t" "temporary_name t"
  shows "run_result (recover_authorized_pending_append L temp x authorized) fs = Inl KeyProviderError"
    "lookup L expected k fs = Inl KeyProviderError"
proof -
  obtain err where r: "records L (lf_ledger fs) = Inl err" using records_temporary[OF assms] by blast
  show "run_result (recover_authorized_pending_append L temp x authorized) fs = Inl KeyProviderError"
    unfolding recover_authorized_pending_append_def
    by (simp add: run_result_def run_guarded_def r guarded_def split: sum.split prod.split)
  have "\<exists>err. require_current_anchor_locked L expected fs = Inl err"
    by (cases "read_anchor L (lf_anchors fs) ANCHOR_NAME") (simp_all add: require_current_anchor_locked_def r)
  then show "lookup L expected k fs = Inl KeyProviderError"
    by (cases "require_uuid7 k ''content_key_id''") (auto simp: lookup_def guarded_def)
qed

end

text \<open>
  C21. Recording a destruction of a key that has none extends the ledger by exactly that entry:
  the call returns it, the chain is the old chain and one record more, the anchor is the anchor
  of the longer chain and still extends the anchor expected from outside, the entry is found
  under its key, and the list of entries ends with it. The serialiser is assumed to follow RFC
  8785 and digests to have 32 bytes.
\<close>

theorem record_destruction_appends:
  assumes "rfc8785_plain L" "sha256_length L" "current L expected fs rs a" "valid_expected expected"
    "int (length rs) < MAX_ENTRIES" "valid_entry e" "find_record (le_content_key_id e) rs = None"
    "fresh_temporaries temp fs"
  shows "let fs' = run_final (record_destruction L expected temp e) fs in
    run_result (record_destruction L expected temp e) fs = Inr e
    \<and> current L expected fs' (rs @ [next_record L a e]) (next_anchor L a e)
    \<and> lookup L expected (le_content_key_id e) fs' = Inr (Some e)
    \<and> entries L expected fs' = Inr (map lr_entry rs @ [e])"
  using ledger_codec.record_destruction_final[OF ledger_codec.intro[OF assms(1,2)] assms(3-8)] by (simp add: Let_def)

text \<open>
  C22. An append stopped after any of its system calls is either completed by recovery, once the
  entry is authorised, with the same chain and anchor that an undisturbed append leaves, or has
  left its temporary file in the ledger directory; then recovery and every lookup raise
  \<^verbatim>\<open>KeyProviderError\<close>.
\<close>

theorem interrupted_append:
  assumes "rfc8785_plain L" "sha256_length L" "current L (Some x) fs rs a" "0 \<le> la_entry_count x"
    "int (length rs) < MAX_ENTRIES" "valid_entry e" "find_record (le_content_key_id e) rs = None"
    "fresh_temporaries temp fs" "lf_paths_valid fs"
    "fs' \<in> set (run_trace (record_destruction L (Some x) temp e) fs)"
    "fresh_temporaries temp' fs'" "e \<in> set authorized"
  shows "if dict_has (lf_ledger fs') (tm_record temp)
    then run_result (recover_authorized_pending_append L temp' x authorized) fs' = Inl KeyProviderError
      \<and> lookup L (Some x) k fs' = Inl KeyProviderError
    else run_result (recover_authorized_pending_append L temp' x authorized) fs' = Inr ()
      \<and> current L (Some x) (run_final (recover_authorized_pending_append L temp' x authorized) fs')
           (rs @ [next_record L a e]) (next_anchor L a e)"
proof -
  note I = ledger_codec.intro[OF assms(1,2)]
  have t: "temporary_name (tm_record temp)" using assms(8) by (simp add: fresh_temporaries_def)
  show ?thesis
  proof (cases "dict_has (lf_ledger fs') (tm_record temp)")
    case True
    then show ?thesis using ledger_codec.recover_unreadable[OF I True t] by simp
  next
    case False
    with ledger_codec.interrupted_states[OF I assms(3,5-8,10)]
    have s: "lf_ledger fs' = appended L a e (lf_ledger fs)" "lf_paths_valid fs'"
      "read_anchor L (lf_anchors fs') ANCHOR_NAME = Inr a \<or> read_anchor L (lf_anchors fs') ANCHOR_NAME = Inr (next_anchor L a e)"
      using assms(9) by auto
    show ?thesis using False ledger_codec.recover_pending[OF I assms(3-7) s assms(11,12)] by simp
  qed
qed

end
