(* ===== verification/Ledger_Binding.thy ===== *)
theory Ledger_Binding
  imports Ledger_Recovery
begin

text \<open>
  What an anchor is worth: a record is determined by its digest, a digest fixes the digest before
  it, and so one digest accepted from outside fixes the whole chain up to it.
\<close>

subsection \<open>A record is determined by its digest\<close>

lemma canonical_uuid_text: "canonical_uuid n v = Inr u \<Longrightarrow> v = Some (JStr (lit (uuid_str u)))"
  by (auto simp: canonical_uuid_def split: option.splits json.splits if_splits elim!: rbind_InrE)

lemma canonical_base64_text: "canonical_base64 v = Inr bs \<Longrightarrow> v = Some (JStr (lit (b64encode bs)))"
  by (auto simp: canonical_base64_def split: option.splits json.splits if_splits elim!: rbind_InrE)

text \<open>The bytes that a record file is hashed as: the document without the digest.\<close>

definition hashed_as :: "'z codec_scheme \<Rightarrow> directory \<Rightarrow> string \<Rightarrow> bytes \<Rightarrow> bool" where
  "hashed_as L dir name b \<longleftrightarrow> (\<exists>raw ps. read_bounded_file RECORD_MODE dir name = Inr raw
     \<and> parse_json_strict L raw = Inr (JObj ps)
     \<and> document_bytes L (JObj (filter (\<lambda>(k, v). k \<noteq> lit ''record_sha256'') ps)) = Inr b)"

definition hashed_documents :: "'z codec_scheme \<Rightarrow> directory \<Rightarrow> bytes set" where
  "hashed_documents L dir = {b. \<exists>name. hashed_as L dir name b}"

lemma record_flat:
  assumes "record_of_members L name ps = Inr r" "distinct (map fst ps)" "ijson (JObj ps)"
  shows "flat_members (filter (\<lambda>(k, v). k \<noteq> lit ''record_sha256'') ps)"
proof -
  let ?g = "dict_get ps"
  obtain b where p: "set (map fst ps) = set RECORD_FIELDS" "is_version (?g (lit ''version''))"
    "?g (lit ''state'') = Some (JStr (lit ''destroyed''))" "?g (lit ''generation'') = Some (JInt (lr_generation r))"
    "?g (lit ''previous_sha256'') = Some (JStr (lr_previous_sha256 r))" "hex_text (lr_previous_sha256 r)"
    "entry_of_members ps = Inr (lr_entry r)"
    by (rule record_of_members_parts[OF assms(1)])
  note e = entry_of_members_parts[OF p(7)]
  have i: "\<bar>lr_generation r\<bar> \<le> MAX_IJSON_INTEGER"
    using map_of_SomeD[OF p(4)] assms(3) by (fastforce simp: list_all_iff)
  obtain t where t: "lr_previous_sha256 r = lit t" using hex_text_lit[OF p(6)] by blast
  have v: "(\<exists>s. k = lit s) \<and> flat_value j" if "(k, j) \<in> set ps" "k \<noteq> lit ''record_sha256''" for k j
  proof -
    have j: "?g k = Some j" using assms(2) that(1) by simp
    have "k \<in> set RECORD_FIELDS" using that(1) p(1) by force
    then have "?g k = Some j \<and> k \<noteq> lit ''record_sha256'' \<longrightarrow> flat_value j"
      using p(2-5) i t e(1-4)[THEN canonical_uuid_text] e(5)[THEN canonical_base64_text]
      by (auto simp: RECORD_FIELDS_def flat_value_def is_version_def RECORD_VERSION_def MAX_IJSON_INTEGER_def)
    moreover have "\<exists>s. k = lit s" using \<open>k \<in> set RECORD_FIELDS\<close> by (auto simp: RECORD_FIELDS_def)
    ultimately show ?thesis using j that(2) by blast
  qed
  have "distinct (map fst (filter (\<lambda>(k, v). k \<noteq> lit ''record_sha256'') ps))"
    using assms(2) by (rule distinct_map_filter)
  with v show ?thesis by (auto simp: flat_members_def list_all_iff)
qed

lemma entry_of_members_cong:
  assumes "\<And>k. k \<noteq> lit ''record_sha256'' \<Longrightarrow> dict_get ps k = dict_get qs k"
  shows "entry_of_members ps = entry_of_members qs"
  unfolding entry_of_members_def by (simp add: assms)

lemma dict_get_filter: "k \<noteq> n \<Longrightarrow> dict_get (filter (\<lambda>(k, v). k \<noteq> n) ps) k = dict_get ps k"
  by (induction ps) auto

context ledger_codec
begin

lemma record_hashed:
  assumes "read_record L dir name = Inr r"
  obtains b ps where "hashed_as L dir name b" "lr_record_sha256 r = hexdigest L b" "record_of_members L name ps = Inr r"
    "flat_members (filter (\<lambda>(k, v). k \<noteq> lit ''record_sha256'') ps)"
    "document_bytes L (JObj (filter (\<lambda>(k, v). k \<noteq> lit ''record_sha256'') ps)) = Inr b"
proof -
  obtain raw ps where p: "read_bounded_file RECORD_MODE dir name = Inr raw" "parse_json_strict L raw = Inr (JObj ps)"
    "record_of_members L name ps = Inr r" by (rule read_record_parts[OF assms])
  obtain b where b: "document_bytes L (JObj (filter (\<lambda>(k, v). k \<noteq> lit ''record_sha256'') ps)) = Inr b"
    "lr_record_sha256 r = hexdigest L b" by (rule record_of_members_parts[OF p(3)])
  have "distinct (map fst ps)" "ijson (JObj ps)" using parse_json_strict_shape[of L raw] by (simp_all add: p(2))
  from record_flat[OF p(3) this] show thesis using p b by (intro that[of b ps]) (auto simp: hashed_as_def)
qed

lemma record_determined:
  assumes "read_record L d name = Inr r" "read_record L d' name' = Inr r'" "lr_record_sha256 r = lr_record_sha256 r'"
    "inj_on (sha256 L) (hashed_documents L d \<union> hashed_documents L d')"
  shows "r = r'"
proof -
  let ?u = "filter (\<lambda>(k, v). k \<noteq> lit ''record_sha256'')" and ?f = "\<lambda>p :: pystr \<times> json. utf16 (fst p)"
  obtain b ps where p: "hashed_as L d name b" "lr_record_sha256 r = hexdigest L b" "record_of_members L name ps = Inr r"
    "flat_members (?u ps)" "document_bytes L (JObj (?u ps)) = Inr b" by (rule record_hashed[OF assms(1)])
  obtain b' qs where q: "hashed_as L d' name' b'" "lr_record_sha256 r' = hexdigest L b'" "record_of_members L name' qs = Inr r'"
    "flat_members (?u qs)" "document_bytes L (JObj (?u qs)) = Inr b'" by (rule record_hashed[OF assms(2)])
  have "sha256 L b = sha256 L b'"
    using assms(3) unfolding p(2) q(2) hexdigest_def sha256_hexdigest_def lit_eq_iff
    by (metis bytes_fromhex_hex sum.inject(2))
  moreover have "b \<in> hashed_documents L d" "b' \<in> hashed_documents L d'" using p(1) q(1) by (auto simp: hashed_documents_def)
  ultimately have "b = b'" using assms(4) by (auto dest: inj_onD)
  then have "sort_key ?f (?u ps) = sort_key ?f (?u qs)"
    using flat_document(1,2)[OF serialiser p(4)] flat_document(1,2)[OF serialiser q(4)] p(5) q(5) by simp
  then have "dict_get (?u ps) = dict_get (?u qs)"
    using sorted_members(1)[of "?u ps" ?f] sorted_members(1)[of "?u qs" ?f] p(4) q(4) by (simp add: flat_members_def)
  then have get: "dict_get ps k = dict_get qs k" if "k \<noteq> lit ''record_sha256''" for k
    using dict_get_filter[OF that, of ps] dict_get_filter[OF that, of qs] by simp
  obtain c where r: "dict_get ps (lit ''generation'') = Some (JInt (lr_generation r))"
    "dict_get ps (lit ''previous_sha256'') = Some (JStr (lr_previous_sha256 r))" "entry_of_members ps = Inr (lr_entry r)"
    by (rule record_of_members_parts[OF p(3)])
  obtain c' where r': "dict_get qs (lit ''generation'') = Some (JInt (lr_generation r'))"
    "dict_get qs (lit ''previous_sha256'') = Some (JStr (lr_previous_sha256 r'))" "entry_of_members qs = Inr (lr_entry r')"
    by (rule record_of_members_parts[OF q(3)])
  have "lr_generation r = lr_generation r'" "lr_previous_sha256 r = lr_previous_sha256 r'"
    using r(1,2) r'(1,2) get[of "lit ''generation''"] get[of "lit ''previous_sha256''"] by simp_all
  moreover have "lr_entry r = lr_entry r'" using r(3) r'(3) entry_of_members_cong[of ps qs] get by simp
  ultimately show ?thesis using assms(3) by (cases r, cases r') simp
qed

end

subsection \<open>One digest fixes the chain before it\<close>

lemma chained_nth: "chained g h rs \<Longrightarrow> Suc i < length rs \<Longrightarrow> lr_previous_sha256 (rs ! Suc i) = lr_record_sha256 (rs ! i)"
proof (induction g h rs arbitrary: i rule: chained.induct)
  case (2 g h r rs)
  then show ?case by (cases i; cases rs) auto
qed simp

lemma chains_agree:
  assumes "chained 1 h rs" "chained 1 h' ss"
    and det: "\<And>r s. r \<in> set rs \<Longrightarrow> s \<in> set ss \<Longrightarrow> lr_record_sha256 r = lr_record_sha256 s \<Longrightarrow> r = s"
    and "i < length rs" "i < length ss" "lr_record_sha256 (rs ! i) = lr_record_sha256 (ss ! i)"
  shows "take (Suc i) rs = take (Suc i) ss"
  using assms(4-6)
proof (induction i)
  case 0
  then show ?case using det[of "rs ! 0" "ss ! 0"] by (cases rs; cases ss) auto
next
  case (Suc i)
  have eq: "rs ! Suc i = ss ! Suc i" using Suc.prems by (intro det) simp_all
  then have "lr_record_sha256 (rs ! i) = lr_record_sha256 (ss ! i)"
    using chained_nth[OF assms(1) Suc.prems(1)] chained_nth[OF assms(2) Suc.prems(2)] by simp
  with Suc have "take (Suc i) rs = take (Suc i) ss" by simp
  with eq Suc.prems show ?case by (simp add: take_Suc_conv_app_nth)
qed

text \<open>
  C23. An anchor fixes the entries it covers: when the chains read from two ledger directories
  both extend one accepted anchor, their first records, as many as the anchor counts, are the
  same, entry for entry. The digest is assumed to have no collision among the documents that are
  hashed in the two directories, and the serialiser to follow RFC 8785.
\<close>

theorem anchor_fixes_entries:
  assumes "rfc8785_plain L" "sha256_length L" "records L d = Inr rs" "records L d' = Inr ss"
    "anchor_is_prefix L x rs = Inr True" "anchor_is_prefix L x ss = Inr True" "0 \<le> la_entry_count x"
    "inj_on (sha256 L) (hashed_documents L d \<union> hashed_documents L d')"
  shows "take (nat (la_entry_count x)) rs = take (nat (la_entry_count x)) ss"
proof (cases "la_entry_count x = 0")
  case False
  note I = ledger_codec.intro[OF assms(1,2)]
  define i where "i = nat (la_entry_count x - 1)"
  have n: "nat (la_entry_count x) = Suc i" using False assms(7) unfolding i_def by linarith
  have dg: "i < length rs" "i < length ss" "lr_record_sha256 (rs ! i) = lr_record_sha256 (ss ! i)"
    using assms(5,6) False n by (auto simp: anchor_is_prefix_def i_def[symmetric] split: if_splits)
  obtain h h' where c: "chained 1 h rs" "chained 1 h' ss" using assms(3,4) unfolding records_eq by blast
  show ?thesis unfolding n
  proof (rule chains_agree[OF c _ dg])
    fix r s assume "r \<in> set rs" "s \<in> set ss" "lr_record_sha256 r = lr_record_sha256 s"
    then show "r = s"
      using ledger_codec.records_members(3)[OF I assms(3)] ledger_codec.records_members(3)[OF I assms(4)]
        ledger_codec.record_determined[OF I _ _ _ assms(8)] by blast
  qed
qed simp

end
