(* ===== verification/Ledger_Witnesses.thy ===== *)
theory Ledger_Witnesses
  imports Ledger_Binding
begin

text \<open>
  A concrete ledger, with the serialiser of \<^verbatim>\<open>JCS\<close>: empty, then with one and two records. It
  shows that the hypotheses of the ledger's theorems can be met.
\<close>

definition sample_id :: "nat \<Rightarrow> uuid" where
  "sample_id n = of_nat (n * 2 ^ 124 + 0x70008000000000000000)"

definition sample_entry :: "nat \<Rightarrow> ledger_entry" where
  "sample_entry n = \<lparr> le_content_key_id = sample_id n, le_tenant_id = sample_id 2, le_lineage_id = sample_id 3,
     le_memory_id = sample_id 4, le_receipt = replicate 32 7 \<rparr>"

definition sample_head :: pystr where
  "sample_head = (case empty_head jcs_codec of Inl _ \<Rightarrow> [] | Inr h \<Rightarrow> h)"

definition sample_anchor :: ledger_anchor where
  "sample_anchor = \<lparr> la_entry_count = 0, la_aggregate_sha256 = sample_head \<rparr>"

definition sample_anchors :: directory where
  "sample_anchors = [(ANCHOR_NAME, new_file ANCHOR_MODE (flat_text (anchor_members sample_anchor)))]"

definition sample_ledger :: ledger_fs where
  "sample_ledger = \<lparr> lf_ledger = [], lf_anchors = sample_anchors, lf_paths_valid = True \<rparr>"

definition sample_temporaries :: temporaries where
  "sample_temporaries = \<lparr> tm_record = ''.tmp-0'', tm_history = ''.tmp-1'', tm_anchor = ''.tmp-anchor-2'' \<rparr>"

lemma sample_id_uuid7: "is_uuid7 (sample_id 2)" "is_uuid7 (sample_id 3)" "is_uuid7 (sample_id 4)" "is_uuid7 (sample_id 5)"
  "is_uuid7 (sample_id 6)"
  by (simp_all add: sample_id_def is_uuid7_def uuid_version_def uuid_variant_def)

lemma sample_entry_key: "le_content_key_id (sample_entry n) = sample_id n"
  by (simp add: sample_entry_def)

lemma sample_valid: "valid_entry (sample_entry 5)" "valid_entry (sample_entry 6)"
  by (simp_all add: valid_entry_def sample_entry_def sample_id_uuid7 RECEIPT_BYTES_def)

lemma sample_current: "current jcs_codec (Some sample_anchor) sample_ledger [] sample_anchor"
proof -
  obtain h where h: "empty_head jcs_codec = Inr h" "hex_text h" using jcs.empty_head_eq by blast
  then have s: "sample_head = h" by (simp add: sample_head_def)
  have g: "good_anchor sample_anchor"
    using h(2) by (simp add: good_anchor_def sample_anchor_def s MAX_ENTRIES_def MAX_IJSON_INTEGER_def)
  have "read_anchor jcs_codec sample_anchors ANCHOR_NAME = Inr sample_anchor"
    by (rule jcs.read_anchor_written[OF g]) (simp add: sample_anchors_def)
  then show ?thesis
    using h by (simp add: current_def sample_ledger_def records_def Let_def anchor_for_records_def new_anchor_def
        anchor_is_prefix_def sample_anchor_def s)
qed

lemma sample_fresh: "fresh_temporaries sample_temporaries sample_ledger"
  by (simp add: fresh_temporaries_def sample_temporaries_def sample_ledger_def sample_anchors_def temporary_name_def
      ANCHOR_NAME_def)

lemma sample_room: "int (length ([] :: ledger_record list)) < MAX_ENTRIES" "int (length [r :: ledger_record]) < MAX_ENTRIES"
  by (simp_all add: MAX_ENTRIES_def MAX_IJSON_INTEGER_def)

lemma sample_expected: "valid_expected (Some sample_anchor)"
  by (simp add: valid_expected_def sample_anchor_def)

lemma sample_unrecorded: "find_record k [] = None"
  by (simp add: find_record_def)

theorem record_destruction_appends_witness:
  "let fs' = run_final (record_destruction jcs_codec (Some sample_anchor) sample_temporaries (sample_entry 5)) sample_ledger in
    run_result (record_destruction jcs_codec (Some sample_anchor) sample_temporaries (sample_entry 5)) sample_ledger
      = Inr (sample_entry 5)
    \<and> current jcs_codec (Some sample_anchor) fs' [next_record jcs_codec sample_anchor (sample_entry 5)]
        (next_anchor jcs_codec sample_anchor (sample_entry 5))
    \<and> lookup jcs_codec (Some sample_anchor) (sample_id 5) fs' = Inr (Some (sample_entry 5))
    \<and> entries jcs_codec (Some sample_anchor) fs' = Inr [sample_entry 5]"
  using record_destruction_appends[OF jcs_codec_plain jcs.digest_length sample_current sample_expected sample_room(1) sample_valid(1)
      sample_unrecorded sample_fresh]
  by (simp only: Let_def sample_entry_key append_Nil list.map)

text \<open>The append stopped with its record in place and the anchor not yet replaced.\<close>

definition sample_pending :: ledger_fs where
  "sample_pending = sample_ledger\<lparr> lf_ledger := appended jcs_codec sample_anchor (sample_entry 5) [] \<rparr>"

lemma sample_pending_reached:
  "sample_pending \<in> set (run_trace (record_destruction jcs_codec (Some sample_anchor) sample_temporaries (sample_entry 5)) sample_ledger)"
proof -
  have c: "records jcs_codec (lf_ledger sample_ledger) = Inr []" "anchor_for_records jcs_codec [] = Inr sample_anchor"
    using sample_current by (simp_all add: current_def)
  have "lf_ledger sample_ledger = []" by (simp add: sample_ledger_def)
  with jcs.append_record_run(3)[OF c sample_room(1) sample_valid(1) sample_unrecorded sample_fresh]
  show ?thesis
    unfolding jcs.record_destruction_parts(3)[OF sample_current sample_unrecorded] sample_pending_def by auto
qed

lemma sample_pending_fresh: "fresh_temporaries sample_temporaries sample_pending"
  by (simp add: fresh_temporaries_def sample_temporaries_def sample_pending_def sample_ledger_def sample_anchors_def
      temporary_name_def ANCHOR_NAME_def appended_def entry_name_def)

theorem interrupted_append_witness:
  "run_result (recover_authorized_pending_append jcs_codec sample_temporaries sample_anchor [sample_entry 5]) sample_pending = Inr ()
   \<and> current jcs_codec (Some sample_anchor)
       (run_final (recover_authorized_pending_append jcs_codec sample_temporaries sample_anchor [sample_entry 5]) sample_pending)
       [next_record jcs_codec sample_anchor (sample_entry 5)] (next_anchor jcs_codec sample_anchor (sample_entry 5))"
proof -
  have t: "dict_get (lf_ledger sample_pending) (tm_record sample_temporaries) = None"
    using sample_pending_fresh by (simp add: fresh_temporaries_def)
  have c: "0 \<le> la_entry_count sample_anchor" "lf_paths_valid sample_ledger"
    by (simp_all add: sample_anchor_def sample_ledger_def)
  have m: "sample_entry 5 \<in> set [sample_entry 5]" by simp
  show ?thesis
    using interrupted_append[OF jcs_codec_plain jcs.digest_length sample_current c(1) sample_room(1) sample_valid(1)
        sample_unrecorded sample_fresh c(2) sample_pending_reached sample_pending_fresh m]
    by (simp only: t not_None_eq simp_thms if_False append_Nil option.simps)
qed

text \<open>The second entry does not touch the record of the first.\<close>

theorem ledger_append_only_witness:
  "dict_get (lf_ledger (run_final (record_destruction jcs_codec None sample_temporaries (sample_entry 6)) sample_pending))
     (entry_name (sample_id 5)) = Some (next_file jcs_codec sample_anchor (sample_entry 5))"
proof -
  have "ledger_steps jcs_codec sample_pending
      (run_final (record_destruction jcs_codec None sample_temporaries (sample_entry 6)) sample_pending)"
    by (rule more_steps[OF no_steps], rule recorded[of sample_temporaries _ _ None "sample_entry 6"])
      (simp add: sample_temporaries_def, rule disjI1, rule refl)
  moreover have "take 10 (entry_name (sample_id 5)) = ''destroyed-''" by (simp add: entry_name_def)
  moreover have "dict_get (lf_ledger sample_pending) (entry_name (sample_id 5))
      = Some (next_file jcs_codec sample_anchor (sample_entry 5))"
    by (simp add: sample_pending_def appended_def sample_entry_def)
  ultimately show ?thesis by (rule ledger_append_only)
qed

text \<open>The documents hashed in a ledger with one record and in one with two.\<close>

context ledger_codec
begin

lemma hashed_as_written:
  assumes "hashed_as L dir name b" "dict_get dir name = Some (new_file RECORD_MODE (flat_text (signed_members L e generation previous)))"
    "hex_text previous" "1 \<le> generation" "generation \<le> MAX_ENTRIES"
  shows "b = flat_text (unsigned_members e generation previous)"
proof -
  let ?f = "\<lambda>p :: pystr \<times> json. utf16 (fst p)" and ?ps = "signed_members L e generation previous"
  have fil: "filter (\<lambda>(k, v). k \<noteq> lit ''record_sha256'') (sort_key ?f ?ps) = sort_key ?f (unsigned_members e generation previous)"
    unfolding filter_sort by (simp add: signed_members_def unsigned_members_def)
  obtain raw ps where h: "read_bounded_file RECORD_MODE dir name = Inr raw" "parse_json_strict L raw = Inr (JObj ps)"
    "document_bytes L (JObj (filter (\<lambda>(k, v). k \<noteq> lit ''record_sha256'') ps)) = Inr b"
    using assms(1) unfolding hashed_as_def by blast
  have "raw = flat_text ?ps" using h(1) assms(2) by (auto simp: read_bounded_file_def new_file_def split: if_splits)
  then have "ps = sort_key ?f ?ps" using h(2) flat_document(2)[OF serialiser signed_flat[OF assms(3-5)]] by simp
  then show ?thesis using h(3) flat_document(3)[OF serialiser unsigned_flat[OF assms(3-5)]] by (simp add: fil)
qed

end

abbreviation sample_anchor1 :: ledger_anchor where
  "sample_anchor1 \<equiv> next_anchor jcs_codec sample_anchor (sample_entry 5)"

definition sample_directory1 :: directory where
  "sample_directory1 = appended jcs_codec sample_anchor (sample_entry 5) []"

definition sample_directory2 :: directory where
  "sample_directory2 = appended jcs_codec sample_anchor1 (sample_entry 6) sample_directory1"

lemma sample_keys_differ: "sample_id 5 \<noteq> sample_id 6"
  by (simp add: sample_id_def)

lemma sample_records:
  "records jcs_codec sample_directory1 = Inr [next_record jcs_codec sample_anchor (sample_entry 5)]"
  "records jcs_codec sample_directory2 =
     Inr [next_record jcs_codec sample_anchor (sample_entry 5), next_record jcs_codec sample_anchor1 (sample_entry 6)]"
  "anchor_for_records jcs_codec [next_record jcs_codec sample_anchor (sample_entry 5)] = Inr sample_anchor1"
  "good_anchor sample_anchor" "good_anchor sample_anchor1"
proof -
  have c: "records jcs_codec [] = Inr []" "anchor_for_records jcs_codec [] = Inr sample_anchor"
    using sample_current by (simp_all add: current_def sample_ledger_def)
  note n = jcs.next_records[OF c sample_room(1) sample_valid(1) sample_unrecorded, unfolded append_Nil, folded sample_directory1_def]
  show "records jcs_codec sample_directory1 = Inr [next_record jcs_codec sample_anchor (sample_entry 5)]"
    "anchor_for_records jcs_codec [next_record jcs_codec sample_anchor (sample_entry 5)] = Inr sample_anchor1"
    "good_anchor sample_anchor1" by (rule n)+
  have "find_record (le_content_key_id (sample_entry 6)) [next_record jcs_codec sample_anchor (sample_entry 5)] = None"
    using sample_keys_differ by (simp add: find_record_def next_record_def record_of_def sample_entry_key)
  from jcs.next_records(1)[OF n(1,3) sample_room(2) sample_valid(2) this]
  show "records jcs_codec sample_directory2 =
     Inr [next_record jcs_codec sample_anchor (sample_entry 5), next_record jcs_codec sample_anchor1 (sample_entry 6)]"
    by (simp add: sample_directory2_def)
  show "good_anchor sample_anchor" using jcs.anchor_for_records_parts[OF c] sample_room(1) by (metis less_imp_le)
qed

abbreviation sample_document :: "ledger_anchor \<Rightarrow> nat \<Rightarrow> bytes" where
  "sample_document a n \<equiv> flat_text (unsigned_members (sample_entry n) (la_entry_count a + 1) (la_aggregate_sha256 a))"

lemma sample_hashed:
  "hashed_documents jcs_codec sample_directory1 \<union> hashed_documents jcs_codec sample_directory2
    \<subseteq> {sample_document sample_anchor 5, sample_document sample_anchor1 6}"
proof
  fix b assume "b \<in> hashed_documents jcs_codec sample_directory1 \<union> hashed_documents jcs_codec sample_directory2"
  then obtain dir name where d: "dir = sample_directory1 \<or> dir = sample_directory2" "hashed_as jcs_codec dir name b"
    by (auto simp: hashed_documents_def)
  have n: "entry_name (sample_id 5) \<noteq> entry_name (sample_id 6)" using sample_keys_differ entry_name_inject by blast
  have "dict_has dir name" using d(2) by (auto simp: hashed_as_def read_bounded_file_def split: option.splits)
  then have f: "dict_get dir name = Some (next_file jcs_codec sample_anchor (sample_entry 5))
      \<or> dict_get dir name = Some (next_file jcs_codec sample_anchor1 (sample_entry 6))"
    using d(1) n by (auto simp: sample_directory1_def sample_directory2_def appended_def sample_entry_key split: if_splits)
  have g: "hex_text (la_aggregate_sha256 a) \<and> 1 \<le> la_entry_count a + 1 \<and> la_entry_count a + 1 \<le> MAX_ENTRIES"
    if "a \<in> {sample_anchor, sample_anchor1}" for a
    using that sample_records(4,5) by (auto simp: good_anchor_def sample_anchor_def next_anchor_def MAX_ENTRIES_def MAX_IJSON_INTEGER_def)
  from f show "b \<in> {sample_document sample_anchor 5, sample_document sample_anchor1 6}"
    using jcs.hashed_as_written[OF d(2)] g unfolding next_file_def by blast
qed

lemma document_start:
  "\<exists>rest. flat_text (unsigned_members e generation previous) =
     map of_nat (123 # 34 # lit ''content_key_id'' @ [34, 58, 34]) @ map of_nat (lit (uuid_str (le_content_key_id e))) @ rest"
proof -
  let ?k = "lit ''content_key_id''" and ?v = "lit (uuid_str (le_content_key_id e))"
  have "\<exists>ms. sort_key (\<lambda>p. utf16 (fst p)) (unsigned_members e generation previous) = (?k, JStr ?v) # ms \<and> ms \<noteq> []"
    by (simp add: unsigned_members_def utf16_def utf16_units_def lit_def)
  then obtain ms where s: "sort_key (\<lambda>p. utf16 (fst p)) (unsigned_members e generation previous) = (?k, JStr ?v) # ms" by blast
  have u: "concat (map utf8_char s) = map of_nat s" if "list_all (\<lambda>c. c < 128) s" for s
    using that by (induction s) (auto simp: utf8_char_def utf8_units_def)
  have k: "safe_text ?k" by (simp add: safe_text_def lit_def)
  let ?x = "string_text ?k @ 58 # string_text ?v"
  have "\<exists>tail. with_commas (x # xs) = x @ tail" for x :: pystr and xs by (cases xs) auto
  then obtain tl' where w: "with_commas (?x # map (\<lambda>(k, j). string_text k @ 58 # json_text j) ms) = ?x @ tl'" by blast
  have x: "?x = 34 # ?k @ 34 # 58 # 34 # ?v @ [34]" by (simp add: safe_string[OF k] safe_string[OF uuid_str_safe(1)])
  have j: "json_text (JObj ((?k, JStr ?v) # ms)) = 123 # with_commas (?x # map (\<lambda>(k, j). string_text k @ 58 # json_text j) ms) @ [125]"
    by simp
  have t: "json_text (JObj ((?k, JStr ?v) # ms)) = (123 # 34 # ?k @ [34, 58, 34]) @ ?v @ 34 # tl' @ [125]"
    by (simp only: j w[unfolded x] x append_Cons append_Nil append.assoc)
  have "list_all (\<lambda>c. c < 128) (123 # 34 # ?k @ [34, 58, 34])" "list_all (\<lambda>c. c < 128) ?v"
    using k uuid_str_safe(1)[of "le_content_key_id e"] by (auto simp: safe_text_def list_all_iff)
  from u[OF this(1)] u[OF this(2)] show ?thesis
    unfolding flat_text_def text_bytes_def s t map_append concat_append by metis
qed

lemma sample_documents_differ:
  "sha256 jcs_codec (sample_document a 5) \<noteq> sha256 jcs_codec (sample_document b 6)"
proof -
  have h: "sha256 jcs_codec (flat_text (unsigned_members e generation previous)) ! 19
      = of_nat (of_char (uuid_str (le_content_key_id e) ! 0))" for e generation previous
  proof -
    obtain rest where r: "flat_text (unsigned_members e generation previous) =
        map of_nat (123 # 34 # lit ''content_key_id'' @ [34, 58, 34]) @ map of_nat (lit (uuid_str (le_content_key_id e))) @ rest"
      using document_start by blast
    have "length (uuid_str (le_content_key_id e)) = 36" by (rule uuid_str_safe(2))
    then show ?thesis unfolding r by (cases "uuid_str (le_content_key_id e)") (simp_all add: jcs_codec_def lit_def)
  qed
  have c: "uuid_str (sample_id 5) ! 0 = CHR ''5''" "uuid_str (sample_id 6) ! 0 = CHR ''6''"
    by (simp_all add: uuid_str_def Let_def uuid_hex_def sample_id_def uuid_nibble_def hex_digit_def hex_alphabet_def
        upt_conv_Cons)
  have "sha256 jcs_codec (sample_document a 5) ! 19 \<noteq> sha256 jcs_codec (sample_document b 6) ! 19"
    unfolding h sample_entry_key c by simp
  then show ?thesis by metis
qed

lemma inj_on_pair: "f x \<noteq> f y \<Longrightarrow> inj_on f {x, y}"
  by (auto simp: inj_on_def)

theorem anchor_fixes_entries_witness:
  "take (nat (la_entry_count sample_anchor1)) [next_record jcs_codec sample_anchor (sample_entry 5)] =
   take (nat (la_entry_count sample_anchor1))
     [next_record jcs_codec sample_anchor (sample_entry 5), next_record jcs_codec sample_anchor1 (sample_entry 6)]"
proof (rule anchor_fixes_entries[OF jcs_codec_plain jcs.digest_length sample_records(1,2)])
  note p = jcs.anchor_is_own_prefix[OF sample_records(3)]
  show "anchor_is_prefix jcs_codec sample_anchor1 [next_record jcs_codec sample_anchor (sample_entry 5)] = Inr True"
    "anchor_is_prefix jcs_codec sample_anchor1
      [next_record jcs_codec sample_anchor (sample_entry 5), next_record jcs_codec sample_anchor1 (sample_entry 6)] = Inr True"
    using p[of "[]"] p[of "[next_record jcs_codec sample_anchor1 (sample_entry 6)]"] by simp_all
  show "0 \<le> la_entry_count sample_anchor1" using sample_records(5) by (simp add: good_anchor_def)
  show "inj_on (sha256 jcs_codec) (hashed_documents jcs_codec sample_directory1 \<union> hashed_documents jcs_codec sample_directory2)"
    by (rule inj_on_subset[OF inj_on_pair[of "sha256 jcs_codec", OF sample_documents_differ] sample_hashed])
qed

end
