(* ===== verification/Retrieval_Contracts.thy ===== *)
theory Retrieval_Contracts
  imports States
begin

text \<open>
  The contracts of \<^verbatim>\<open>retrieval/contracts.py\<close>: principals, queries, hits, conflict groups, context
  packs and responses, each with the checks that its declaration and its validators make. Frozen
  sets are sets, tuples are lists. Scores are exact rational numbers: the rounding of binary
  floating point is not modelled. Times in results are UTC instants already, so that normalising
  them again has no effect.
\<close>

subsection \<open>Principals and queries\<close>

record query_principal =
  qp_tenant_id :: uuid
  qp_actor_id :: uuid
  qp_client_id :: uuid
  qp_transport_binding_id :: uuid
  qp_scopes :: "pystr set"
  qp_allowed_memory_scopes :: "memory_scope set"
  qp_allowed_visibilities :: "memory_visibility set"
  qp_max_sensitivity :: int
  qp_allow_candidates :: bool
  qp_ingress_id :: "uuid option"

definition validate_query_principal :: "query_principal \<Rightarrow> unit result" where
  "validate_query_principal p =
     rbind (reject_first
       [(64 < card (qp_scopes p) \<or> (\<exists>s \<in> qp_scopes p. \<not> str_between 1 255 s), ''scopes''),
        (qp_max_sensitivity p < 0 \<or> 4 < qp_max_sensitivity p, ''max_sensitivity'')]) (\<lambda>_.
     uuid7_fields
       [(''tenant_id'', Some (qp_tenant_id p)), (''actor_id'', Some (qp_actor_id p)),
        (''client_id'', Some (qp_client_id p)), (''transport_binding_id'', Some (qp_transport_binding_id p)),
        (''ingress_id'', qp_ingress_id p)])"

record 't memory_filters =
  mf_subject_ids :: "uuid list"
  mf_subject_kinds :: "subject_kind set"
  mf_categories :: "memory_category set"
  mf_ontological_statuses :: "ontological_status set"
  mf_scopes :: "memory_scope set"
  mf_visibilities :: "memory_visibility set"
  mf_include_candidates :: bool
  mf_valid_at :: "'t option"

definition no_filters :: "'t memory_filters" where
  "no_filters = \<lparr> mf_subject_ids = [], mf_subject_kinds = {}, mf_categories = {},
     mf_ontological_statuses = {}, mf_scopes = {}, mf_visibilities = {}, mf_include_candidates = False,
     mf_valid_at = None \<rparr>"

text \<open>The validator of the time raises the error of the normalisation itself.\<close>

definition normalize_opt :: "py_datetime option \<Rightarrow> utc option result" where
  "normalize_opt x =
     (case x of None \<Rightarrow> Inr None | Some dt \<Rightarrow> rbind (normalize_utc_datetime dt) (\<lambda>t. Inr (Some t)))"

definition validate_memory_filters :: "py_datetime memory_filters \<Rightarrow> utc memory_filters result" where
  "validate_memory_filters f =
     rbind (reject_first
       [(128 < length (mf_subject_ids f), ''subject_ids''),
        (\<not> distinct (mf_subject_ids f), ''subject identifiers must be unique'')]) (\<lambda>_.
     rbind (uuid7_fields (map (\<lambda>u. (''subject_id'', Some u)) (mf_subject_ids f))) (\<lambda>_.
     rbind (normalize_opt (mf_valid_at f)) (\<lambda>valid_at.
       Inr \<lparr> mf_subject_ids = mf_subject_ids f, mf_subject_kinds = mf_subject_kinds f,
         mf_categories = mf_categories f, mf_ontological_statuses = mf_ontological_statuses f,
         mf_scopes = mf_scopes f, mf_visibilities = mf_visibilities f,
         mf_include_candidates = mf_include_candidates f, mf_valid_at = valid_at \<rparr>)))"

text \<open>The fields that every query has.\<close>

record query_base =
  qb_persona_id :: uuid
  qb_branch_id :: uuid
  qb_logical_session_id :: "uuid option"
  qb_project_ref :: "pystr option"
  qb_relationship_ref :: "pystr option"

definition validate_query_base :: "query_base \<Rightarrow> unit result" where
  "validate_query_base b =
     rbind (reject_first
       [(\<not> opt_all (str_between 1 1024) (qb_project_ref b), ''project_ref''),
        (\<not> opt_all (str_between 1 1024) (qb_relationship_ref b), ''relationship_ref'')]) (\<lambda>_.
     uuid7_fields
       [(''persona_id'', Some (qb_persona_id b)), (''branch_id'', Some (qb_branch_id b)),
        (''logical_session_id'', qb_logical_session_id b)])"

datatype 't direct_read_query =
    ContextPackQuery query_base (cpq_query: pystr) (cpq_scopes: "memory_scope set") (cpq_token_budget: int)
  | MemorySearchQuery query_base (msq_query: pystr) (msq_filters: "'t memory_filters") (msq_limit: nat) (msq_explain: bool)
  | MemoryGetQuery query_base (mgq_memory_id: uuid) (mgq_include_conflicts: bool)
  | MemoryTimelineQuery query_base (mtq_starts_at: 't) (mtq_ends_at: 't) (mtq_filters: "'t memory_filters") (mtq_limit: nat)
  | MemoryConflictsQuery query_base (mcq_query: "pystr option") (mcq_subject_id: "uuid option") (mcq_limit: nat)
  | MemoryLineageQuery query_base
  | MemorySelectionHistoryQuery query_base (mhq_limit: nat)

fun query_base_of :: "'t direct_read_query \<Rightarrow> query_base" where
  "query_base_of (ContextPackQuery b q s t) = b"
| "query_base_of (MemorySearchQuery b q f l e) = b"
| "query_base_of (MemoryGetQuery b m c) = b"
| "query_base_of (MemoryTimelineQuery b s e f l) = b"
| "query_base_of (MemoryConflictsQuery b q s l) = b"
| "query_base_of (MemoryLineageQuery b) = b"
| "query_base_of (MemorySelectionHistoryQuery b l) = b"

text \<open>The class variable \<^verbatim>\<open>OPERATION\<close>.\<close>

fun query_operation :: "'t direct_read_query \<Rightarrow> string" where
  "query_operation (ContextPackQuery b q s t) = ''context_pack''"
| "query_operation (MemorySearchQuery b q f l e) = ''search''"
| "query_operation (MemoryGetQuery b m c) = ''get''"
| "query_operation (MemoryTimelineQuery b s e f l) = ''timeline''"
| "query_operation (MemoryConflictsQuery b q s l) = ''conflicts''"
| "query_operation (MemoryLineageQuery b) = ''lineage''"
| "query_operation (MemorySelectionHistoryQuery b l) = ''selection_history''"

definition bounded_query :: "pystr \<Rightarrow> bool" where
  "bounded_query q \<longleftrightarrow> str_between 1 8192 q"

fun validate_query_fields :: "py_datetime direct_read_query \<Rightarrow> utc direct_read_query result" where
  "validate_query_fields (ContextPackQuery b q s t) =
     rbind (reject_first [(\<not> bounded_query q, ''query''), (t < 256 \<or> 1000000 < t, ''token_budget'')]) (\<lambda>_.
       Inr (ContextPackQuery b q s t))"
| "validate_query_fields (MemorySearchQuery b q f l e) =
     rbind (validate_memory_filters f) (\<lambda>f.
     rbind (reject_first [(\<not> bounded_query q, ''query''), (l < 1 \<or> 100 < l, ''limit'')]) (\<lambda>_.
       Inr (MemorySearchQuery b q f l e)))"
| "validate_query_fields (MemoryGetQuery b m c) =
     rbind (uuid7_fields [(''memory_id'', Some m)]) (\<lambda>_. Inr (MemoryGetQuery b m c))"
| "validate_query_fields (MemoryTimelineQuery b s e f l) =
     rbind (normalize_utc_datetime s) (\<lambda>s.
     rbind (normalize_utc_datetime e) (\<lambda>e.
     rbind (validate_memory_filters f) (\<lambda>f.
     rbind (reject_first [(e < s, ''timeline end must not precede its start''), (l < 1 \<or> 200 < l, ''limit'')]) (\<lambda>_.
       Inr (MemoryTimelineQuery b s e f l)))))"
| "validate_query_fields (MemoryConflictsQuery b q s l) =
     rbind (reject_first [(\<not> opt_all bounded_query q, ''query''), (l < 1 \<or> 100 < l, ''limit'')]) (\<lambda>_.
     rbind (uuid7_fields [(''subject_id'', s)]) (\<lambda>_.
     rbind (reject_first [(q = None \<and> s = None, ''conflict reads require a query or subject'')]) (\<lambda>_.
       Inr (MemoryConflictsQuery b q s l))))"
| "validate_query_fields (MemoryLineageQuery b) = Inr (MemoryLineageQuery b)"
| "validate_query_fields (MemorySelectionHistoryQuery b l) =
     rbind (reject_first [(l < 1 \<or> 200 < l, ''limit'')]) (\<lambda>_. Inr (MemorySelectionHistoryQuery b l))"

definition validate_query :: "py_datetime direct_read_query \<Rightarrow> utc direct_read_query result" where
  "validate_query q = validated
     (rbind (validate_query_base (query_base_of q)) (\<lambda>_. validate_query_fields q))"

subsection \<open>Scores\<close>

datatype retrieval_source = LEXICAL | TRIGRAM | SEMANTIC

datatype score_modifier = SCOPE_MATCH | AUTHORITY | CONFIDENCE | SALIENCE | RECENCY

definition unit_float :: "rat \<Rightarrow> bool" where
  "unit_float x \<longleftrightarrow> 0 \<le> x \<and> x \<le> 1"

record source_contribution =
  sc_source :: retrieval_source
  sc_rank :: int
  sc_contribution :: rat

record score_modifiers =
  sm_scope_match :: rat
  sm_authority :: rat
  sm_confidence :: rat
  sm_salience :: rat
  sm_recency :: rat

record modifier_contribution =
  mc_modifier :: score_modifier
  mc_value :: rat
  mc_contribution :: rat

record memory_score =
  ms_sources :: "source_contribution list"
  ms_rrf_score :: rat
  ms_modifiers :: score_modifiers
  ms_modifier_contributions :: "modifier_contribution list"
  ms_final_score :: rat

definition no_modifiers :: score_modifiers where
  "no_modifiers = \<lparr> sm_scope_match = 0, sm_authority = 0, sm_confidence = 0, sm_salience = 0, sm_recency = 0 \<rparr>"

definition validate_source_contribution :: "source_contribution \<Rightarrow> unit result" where
  "validate_source_contribution c = reject_first
     [(\<not> safe_positive (sc_rank c), ''rank''), (\<not> unit_float (sc_contribution c), ''contribution'')]"

definition validate_score_modifiers :: "score_modifiers \<Rightarrow> unit result" where
  "validate_score_modifiers m = reject_first
     [(\<not> unit_float (sm_scope_match m), ''scope_match''), (\<not> unit_float (sm_authority m), ''authority''),
      (\<not> unit_float (sm_confidence m), ''confidence''), (\<not> unit_float (sm_salience m), ''salience''),
      (\<not> unit_float (sm_recency m), ''recency'')]"

definition validate_modifier_contribution :: "modifier_contribution \<Rightarrow> unit result" where
  "validate_modifier_contribution c = reject_first
     [(\<not> unit_float (mc_value c), ''value''), (\<not> unit_float (mc_contribution c), ''contribution'')]"

definition validate_memory_score :: "memory_score \<Rightarrow> unit result" where
  "validate_memory_score s = reject_first
     [(3 < length (ms_sources s), ''sources''), (\<not> unit_float (ms_rrf_score s), ''rrf_score''),
      (5 < length (ms_modifier_contributions s), ''modifier_contributions''),
      (\<not> unit_float (ms_final_score s), ''final_score''),
      (\<not> distinct (map sc_source (ms_sources s)), ''score sources must be unique''),
      (\<not> distinct (map mc_modifier (ms_modifier_contributions s)), ''score modifiers must be unique'')]"

subsection \<open>Hits and conflict groups\<close>

record evidence_excerpt =
  ee_evidence_id :: uuid
  ee_source_type :: pystr
  ee_excerpt :: pystr
  ee_occurred_at :: "utc option"

definition validate_evidence_excerpt :: "evidence_excerpt \<Rightarrow> unit result" where
  "validate_evidence_excerpt x =
     rbind (reject_first
       [(\<not> str_between 1 64 (ee_source_type x), ''source_type''),
        (\<not> str_between 1 4096 (ee_excerpt x), ''excerpt'')]) (\<lambda>_.
     uuid7_fields [(''evidence_id'', Some (ee_evidence_id x))])"

record memory_hit =
  mh_memory_id :: uuid
  mh_revision :: int
  mh_last_event_id :: uuid
  mh_branch_id :: uuid
  mh_subject_id :: uuid
  mh_subject_kind :: subject_kind
  mh_category :: memory_category
  mh_ontological_status :: ontological_status
  mh_scope :: memory_scope
  mh_visibility :: memory_visibility
  mh_status :: memory_status
  mh_statement :: pystr
  mh_reason_to_remember :: "pystr option"
  mh_interpretation_limits :: "pystr list"
  mh_authority_class :: authority_class
  mh_valid_from :: "utc option"
  mh_valid_to :: "utc option"
  mh_observed_at :: "utc option"
  mh_score :: memory_score
  mh_explanation_codes :: "string list"
  mh_evidence :: "evidence_excerpt list"

definition hit_validity_inverted :: "memory_hit \<Rightarrow> bool" where
  "hit_validity_inverted h \<longleftrightarrow>
     (case (mh_valid_from h, mh_valid_to h) of (Some a, Some b) \<Rightarrow> b < a | _ \<Rightarrow> False)"

definition validate_memory_hit :: "memory_hit \<Rightarrow> unit result" where
  "validate_memory_hit h =
     rbind (uuid7_fields
       [(''memory_id'', Some (mh_memory_id h)), (''last_event_id'', Some (mh_last_event_id h)),
        (''branch_id'', Some (mh_branch_id h)), (''subject_id'', Some (mh_subject_id h))]) (\<lambda>_.
     reject_first
       [(\<not> safe_positive (mh_revision h), ''revision''),
        (mh_status h \<notin> {CANDIDATE, ACTIVE, DISPUTED}, ''status''),
        (\<not> str_between 1 8192 (mh_statement h), ''statement''),
        (\<not> opt_all (str_between 1 4096) (mh_reason_to_remember h), ''reason_to_remember''),
        (32 < length (mh_interpretation_limits h)
           \<or> \<not> list_all (str_between 1 1024) (mh_interpretation_limits h), ''interpretation_limits''),
        (9 < length (mh_explanation_codes h), ''explanation_codes''),
        (32 < length (mh_evidence h), ''evidence''),
        (hit_validity_inverted h, ''memory validity end must not precede its start''),
        (\<not> distinct (mh_interpretation_limits h), ''interpretation limits must be unique''),
        (\<not> distinct (mh_explanation_codes h), ''explanation codes must be unique'')])"

definition without_evidence :: "memory_hit \<Rightarrow> memory_hit" where
  "without_evidence h = (if mh_evidence h = [] then h else h\<lparr> mh_evidence := [] \<rparr>)"

record conflict_group =
  cg_conflict_id :: uuid
  cg_subject_id :: uuid
  cg_members :: "memory_hit list"

definition validate_conflict_group :: "conflict_group \<Rightarrow> unit result" where
  "validate_conflict_group g =
     rbind (uuid7_fields [(''conflict_id'', Some (cg_conflict_id g)), (''subject_id'', Some (cg_subject_id g))]) (\<lambda>_.
     reject_first
       [(length (cg_members g) < 2 \<or> 32 < length (cg_members g), ''members''),
        (\<not> distinct (map mh_memory_id (cg_members g)), ''conflict members must be unique''),
        (list_ex (\<lambda>m. mh_status m \<noteq> DISPUTED) (cg_members g), ''open conflict members must be disputed''),
        (list_ex (\<lambda>m. mh_subject_id m \<noteq> cg_subject_id g) (cg_members g),
           ''conflict members must share the conflict subject'')])"

subsection \<open>Context packs\<close>

datatype context_section =
    PERSONA | ACTIVE_BOUNDARIES | USER_PREFERENCES | RELATIONSHIP_PATTERNS | PROJECT_CONTEXT
  | EPISODIC_ANCHORS | OPEN_QUESTIONS

record exclusion_summary =
  xs_requested_scope_reduction :: bool
  xs_evidence_omitted :: bool
  xs_budget_truncated :: bool

record provenance_record =
  pv_event_id :: uuid
  pv_memory_id :: uuid
  pv_revision :: int

record context_pack =
  cp_context_pack_id :: uuid
  cp_persona :: "memory_hit list"
  cp_active_boundaries :: "memory_hit list"
  cp_user_preferences :: "memory_hit list"
  cp_relationship_patterns :: "memory_hit list"
  cp_project_context :: "memory_hit list"
  cp_episodic_anchors :: "memory_hit list"
  cp_open_questions :: "memory_hit list"
  cp_conflicts :: "conflict_group list"
  cp_excluded_scope_summary :: exclusion_summary
  cp_provenance :: "provenance_record list"

definition pack_hits :: "context_pack \<Rightarrow> memory_hit list" where
  "pack_hits p = cp_persona p @ cp_active_boundaries p @ cp_user_preferences p @ cp_relationship_patterns p
     @ cp_project_context p @ cp_episodic_anchors p @ cp_open_questions p"

definition pack_conflict_members :: "context_pack \<Rightarrow> memory_hit list" where
  "pack_conflict_members p = concat (map cg_members (cp_conflicts p))"

definition validate_context_pack :: "context_pack \<Rightarrow> unit result" where
  "validate_context_pack p =
     rbind (uuid7_fields [(''context_pack_id'', Some (cp_context_pack_id p))]) (\<lambda>_.
     reject_first
       [(64 < length (cp_persona p), ''persona''), (64 < length (cp_active_boundaries p), ''active_boundaries''),
        (64 < length (cp_user_preferences p), ''user_preferences''),
        (64 < length (cp_relationship_patterns p), ''relationship_patterns''),
        (64 < length (cp_project_context p), ''project_context''),
        (64 < length (cp_episodic_anchors p), ''episodic_anchors''),
        (64 < length (cp_open_questions p), ''open_questions''),
        (32 < length (cp_conflicts p), ''conflicts''), (512 < length (cp_provenance p), ''provenance''),
        (\<not> distinct (map mh_memory_id (pack_hits p @ pack_conflict_members p)),
           ''a memory may appear only once in a context pack'')])"

subsection \<open>Metadata\<close>

datatype availability = AVAILABLE | UNAVAILABLE | WARMING | STALE

datatype channel_reason =
    NOT_APPLICABLE | NO_ACTIVE_MODEL | EMBEDDING_MISSING | EMBEDDING_STALE | BACKFILL_IN_PROGRESS
  | DEPENDENCY_UNAVAILABLE

record channel_state =
  ch_availability :: availability
  ch_reason :: "channel_reason option"

definition validate_channel_state :: "channel_state \<Rightarrow> unit result" where
  "validate_channel_state c = reject_first
     [((ch_availability c = AVAILABLE) \<noteq> (ch_reason c = None),
       ''available channels have no reason; unavailable channels require one'')]"

record retrieval_profile_info =
  ri_sha256 :: string
  ri_active_embedding_model_id :: "uuid option"
  ri_lexical :: channel_state
  ri_trigram :: channel_state
  ri_semantic :: channel_state

datatype read_warning =
    EMBEDDINGS_UNAVAILABLE | EMBEDDINGS_WARMING | EMBEDDINGS_STALE | RESULTS_TRUNCATED | EVIDENCE_OMITTED_WARNING

datatype omission_reason =
    BUDGET_TRUNCATED | ITEM_BUDGET_REACHED | EVIDENCE_OMITTED | REQUESTED_SCOPE_REDUCTION

record budget_metadata =
  bm_requested_units :: int
  bm_used_units :: int
  bm_serialized_bytes :: int
  bm_truncated :: bool
  bm_omission_reasons :: "omission_reason list"

definition validate_budget_metadata :: "budget_metadata \<Rightarrow> unit result" where
  "validate_budget_metadata b = reject_first
     [(bm_requested_units b < 1 \<or> 1000000 < bm_requested_units b, ''requested_units''),
      (bm_used_units b < 1 \<or> 262144 < bm_used_units b, ''used_units''),
      (bm_serialized_bytes b < 1 \<or> 262144 < bm_serialized_bytes b, ''serialized_bytes''),
      (4 < length (bm_omission_reasons b), ''omission_reasons''),
      (\<not> distinct (bm_omission_reasons b), ''budget omission reasons must be unique''),
      (bm_requested_units b < bm_used_units b, ''read result exceeds its requested budget''),
      (bm_used_units b \<noteq> bm_serialized_bytes b, ''v1 estimator units must equal serialized UTF-8 bytes''),
      (list_ex (\<lambda>r. r \<in> {BUDGET_TRUNCATED, ITEM_BUDGET_REACHED}) (bm_omission_reasons b) \<noteq> bm_truncated b,
         ''budget truncation flag and reasons must agree'')]"

record context_pack_result =
  cr_result :: context_pack
  cr_warnings :: "read_warning list"
  cr_retrieval :: retrieval_profile_info
  cr_budget :: budget_metadata

definition validate_warnings :: "read_warning list \<Rightarrow> unit result" where
  "validate_warnings ws = reject_first
     [(8 < length ws, ''warnings''), (\<not> distinct ws, ''read warnings must be unique'')]"

end
