(* ===== verification/Eligibility.thy ===== *)
theory Eligibility
  imports Retrieval_Contracts
begin

text \<open>
  Authorisation of reads (\<^verbatim>\<open>retrieval/eligibility.py\<close>): which operations a principal may call, and
  the decision whether one memory may be disclosed to it. The theorems say what an eligible
  memory satisfies, and that filters of the caller only ever narrow the authority.
\<close>

record resolved_read_context =
  rc_tenant_id :: uuid
  rc_lineage_id :: uuid
  rc_branch_id :: uuid
  rc_logical_session_id :: "uuid option"
  rc_project_subject_id :: "uuid option"
  rc_relationship_subject_id :: "uuid option"

definition validate_read_context :: "resolved_read_context \<Rightarrow> unit result" where
  "validate_read_context c = uuid7_fields
     [(''tenant_id'', Some (rc_tenant_id c)), (''lineage_id'', Some (rc_lineage_id c)),
      (''branch_id'', Some (rc_branch_id c)), (''logical_session_id'', rc_logical_session_id c),
      (''project_subject_id'', rc_project_subject_id c),
      (''relationship_subject_id'', rc_relationship_subject_id c)]"

record eligibility_candidate =
  ec_tenant_id :: uuid
  ec_lineage_id :: uuid
  ec_branch_id :: uuid
  ec_memory_id :: uuid
  ec_subject_id :: uuid
  ec_subject_kind :: subject_kind
  ec_category :: memory_category
  ec_ontological_status :: ontological_status
  ec_scope :: memory_scope
  ec_visibility :: memory_visibility
  ec_sensitivity :: int
  ec_status :: memory_status
  ec_origin_session_id :: "uuid option"
  ec_valid_from :: "utc option"
  ec_valid_to :: "utc option"

definition validate_eligibility_candidate :: "eligibility_candidate \<Rightarrow> unit result" where
  "validate_eligibility_candidate c =
     rbind (uuid7_fields
       [(''tenant_id'', Some (ec_tenant_id c)), (''lineage_id'', Some (ec_lineage_id c)),
        (''branch_id'', Some (ec_branch_id c)), (''memory_id'', Some (ec_memory_id c)),
        (''subject_id'', Some (ec_subject_id c)), (''origin_session_id'', ec_origin_session_id c)]) (\<lambda>_.
     reject_first [(ec_sensitivity c < 0 \<or> 4 < ec_sensitivity c, ''sensitivity'')])"

datatype eligibility_reason =
    ELIGIBLE | UNAUTHORIZED_OPERATION | TENANT_MISMATCH | LINEAGE_MISMATCH | BRANCH_MISMATCH
  | TERMINAL_STATUS | CANDIDATE_NOT_ALLOWED | SCOPE_NOT_AUTHORIZED | SCOPE_NOT_REQUESTED
  | VISIBILITY_NOT_AUTHORIZED | VISIBILITY_NOT_REQUESTED | SENSITIVITY_NOT_AUTHORIZED
  | SUBJECT_NOT_REQUESTED | SESSION_NOT_ELIGIBLE | OUTSIDE_VALIDITY_WINDOW | CATEGORY_NOT_REQUESTED
  | ONTOLOGY_NOT_REQUESTED | SUBJECT_KIND_NOT_REQUESTED

record eligibility_decision =
  ed_eligible :: bool
  ed_reason :: eligibility_reason

definition reject :: "eligibility_reason \<Rightarrow> eligibility_decision" where
  "reject reason = \<lparr> ed_eligible = False, ed_reason = reason \<rparr>"

definition REQUIRED_SCOPES :: "(string, string) dict" where
  "REQUIRED_SCOPES =
     [(''context_pack'', ''memory.read.context''), (''search'', ''memory.read.search''),
      (''get'', ''memory.read.get''), (''timeline'', ''memory.read.timeline''),
      (''conflicts'', ''memory.read.conflicts''), (''lineage'', ''memory.read.lineage''),
      (''selection_history'', ''memory.read.selection_history'')]"

definition operation_authorized :: "query_principal \<Rightarrow> 't direct_read_query \<Rightarrow> bool" where
  "operation_authorized caller query \<longleftrightarrow>
     lit (the (dict_get REQUIRED_SCOPES (query_operation query))) \<in> qp_scopes caller
     \<or> lit ''memory:read'' \<in> qp_scopes caller"

lemma required_scope_defined: "dict_get REQUIRED_SCOPES (query_operation q) \<noteq> None"
  by (cases q) (simp_all add: REQUIRED_SCOPES_def)

fun filters_for_query :: "'t direct_read_query \<Rightarrow> 't memory_filters" where
  "filters_for_query (ContextPackQuery b q scopes t) = no_filters\<lparr> mf_scopes := scopes \<rparr>"
| "filters_for_query (MemorySearchQuery b q filters l e) = filters"
| "filters_for_query (MemoryTimelineQuery b s e filters l) = filters"
| "filters_for_query _ = no_filters"

definition outside_window :: "eligibility_candidate \<Rightarrow> utc \<Rightarrow> bool" where
  "outside_window c valid_at \<longleftrightarrow>
     (case ec_valid_from c of None \<Rightarrow> False | Some t \<Rightarrow> valid_at < t)
     \<or> (case ec_valid_to c of None \<Rightarrow> False | Some t \<Rightarrow> t < valid_at)"

definition evaluate_eligibility ::
    "query_principal \<Rightarrow> resolved_read_context \<Rightarrow> eligibility_candidate \<Rightarrow> utc direct_read_query \<Rightarrow>
     utc memory_filters \<Rightarrow> utc \<Rightarrow> eligibility_decision" where
  "evaluate_eligibility caller context candidate query filters evaluated_at =
     (if \<not> operation_authorized caller query then reject UNAUTHORIZED_OPERATION
      else if qp_tenant_id caller \<noteq> rc_tenant_id context \<or> ec_tenant_id candidate \<noteq> qp_tenant_id caller
      then reject TENANT_MISMATCH
      else if ec_lineage_id candidate \<noteq> rc_lineage_id context then reject LINEAGE_MISMATCH
      else if ec_branch_id candidate \<noteq> rc_branch_id context
              \<or> ec_branch_id candidate \<noteq> qb_branch_id (query_base_of query)
      then reject BRANCH_MISMATCH
      else if ec_status candidate \<in> {SUPERSEDED, RETIRED, TOMBSTONED} then reject TERMINAL_STATUS
      else if ec_status candidate = CANDIDATE \<and> \<not> (qp_allow_candidates caller \<and> mf_include_candidates filters)
      then reject CANDIDATE_NOT_ALLOWED
      else if ec_scope candidate \<notin> qp_allowed_memory_scopes caller then reject SCOPE_NOT_AUTHORIZED
      else if mf_scopes filters \<noteq> {} \<and> ec_scope candidate \<notin> mf_scopes filters then reject SCOPE_NOT_REQUESTED
      else if ec_visibility candidate \<notin> qp_allowed_visibilities caller then reject VISIBILITY_NOT_AUTHORIZED
      else if mf_visibilities filters \<noteq> {} \<and> ec_visibility candidate \<notin> mf_visibilities filters
      then reject VISIBILITY_NOT_REQUESTED
      else if ec_sensitivity candidate > qp_max_sensitivity caller then reject SENSITIVITY_NOT_AUTHORIZED
      else if mf_subject_ids filters \<noteq> [] \<and> ec_subject_id candidate \<notin> set (mf_subject_ids filters)
      then reject SUBJECT_NOT_REQUESTED
      else if mf_subject_kinds filters \<noteq> {} \<and> ec_subject_kind candidate \<notin> mf_subject_kinds filters
      then reject SUBJECT_KIND_NOT_REQUESTED
      else if mf_categories filters \<noteq> {} \<and> ec_category candidate \<notin> mf_categories filters
      then reject CATEGORY_NOT_REQUESTED
      else if mf_ontological_statuses filters \<noteq> {} \<and> ec_ontological_status candidate \<notin> mf_ontological_statuses filters
      then reject ONTOLOGY_NOT_REQUESTED
      else if ec_scope candidate = SC_PROJECT \<and> rc_project_subject_id context \<noteq> Some (ec_subject_id candidate)
      then reject SUBJECT_NOT_REQUESTED
      else if ec_scope candidate = SC_RELATIONSHIP \<and> rc_relationship_subject_id context \<noteq> Some (ec_subject_id candidate)
      then reject SUBJECT_NOT_REQUESTED
      else if ec_scope candidate \<in> {SC_EPISODIC, SC_SCENE_LOCAL}
              \<and> (rc_logical_session_id context = None \<or> ec_origin_session_id candidate \<noteq> rc_logical_session_id context)
      then reject SESSION_NOT_ELIGIBLE
      else if outside_window candidate (case mf_valid_at filters of None \<Rightarrow> evaluated_at | Some t \<Rightarrow> t)
      then reject OUTSIDE_VALIDITY_WINDOW
      else \<lparr> ed_eligible = True, ed_reason = ELIGIBLE \<rparr>)"

definition conflict_group_eligible :: "eligibility_decision list \<Rightarrow> bool" where
  "conflict_group_eligible decisions \<longleftrightarrow> 2 \<le> length decisions \<and> list_all ed_eligible decisions"

subsection \<open>What an eligible memory satisfies\<close>

text \<open>The authority of a principal in a context, as a specification without order of checks.\<close>

definition authorized_read :: "query_principal \<Rightarrow> resolved_read_context \<Rightarrow> eligibility_candidate \<Rightarrow> uuid \<Rightarrow> bool" where
  "authorized_read p c m branch \<longleftrightarrow>
     qp_tenant_id p = rc_tenant_id c \<and> ec_tenant_id m = qp_tenant_id p \<and> ec_lineage_id m = rc_lineage_id c
     \<and> ec_branch_id m = rc_branch_id c \<and> ec_branch_id m = branch
     \<and> ec_status m \<notin> {SUPERSEDED, RETIRED, TOMBSTONED} \<and> (ec_status m = CANDIDATE \<longrightarrow> qp_allow_candidates p)
     \<and> ec_scope m \<in> qp_allowed_memory_scopes p \<and> ec_visibility m \<in> qp_allowed_visibilities p
     \<and> ec_sensitivity m \<le> qp_max_sensitivity p
     \<and> (ec_scope m = SC_PROJECT \<longrightarrow> rc_project_subject_id c = Some (ec_subject_id m))
     \<and> (ec_scope m = SC_RELATIONSHIP \<longrightarrow> rc_relationship_subject_id c = Some (ec_subject_id m))
     \<and> (ec_scope m \<in> {SC_EPISODIC, SC_SCENE_LOCAL} \<longrightarrow>
          rc_logical_session_id c \<noteq> None \<and> ec_origin_session_id m = rc_logical_session_id c)"

definition requested_read :: "utc memory_filters \<Rightarrow> utc \<Rightarrow> eligibility_candidate \<Rightarrow> bool" where
  "requested_read f now m \<longleftrightarrow>
     (ec_status m = CANDIDATE \<longrightarrow> mf_include_candidates f)
     \<and> (mf_scopes f = {} \<or> ec_scope m \<in> mf_scopes f) \<and> (mf_visibilities f = {} \<or> ec_visibility m \<in> mf_visibilities f)
     \<and> (mf_subject_ids f = [] \<or> ec_subject_id m \<in> set (mf_subject_ids f))
     \<and> (mf_subject_kinds f = {} \<or> ec_subject_kind m \<in> mf_subject_kinds f)
     \<and> (mf_categories f = {} \<or> ec_category m \<in> mf_categories f)
     \<and> (mf_ontological_statuses f = {} \<or> ec_ontological_status m \<in> mf_ontological_statuses f)
     \<and> \<not> outside_window m (case mf_valid_at f of None \<Rightarrow> now | Some t \<Rightarrow> t)"

lemma eligible_if: "ed_eligible (if b then reject r else d) \<longleftrightarrow> \<not> b \<and> ed_eligible d"
  by (simp add: reject_def)

lemma eligible_iff:
  "ed_eligible (evaluate_eligibility p c m q f now) \<longleftrightarrow>
     operation_authorized p q \<and> authorized_read p c m (qb_branch_id (query_base_of q)) \<and> requested_read f now m"
  unfolding evaluate_eligibility_def eligible_if authorized_read_def requested_read_def
  by (simp only: not_less de_Morgan_disj de_Morgan_conj not_not eligibility_decision.simps) argo

text \<open>
  The decision is exact: a memory is eligible if and only if the operation is authorised, the
  memory lies within the authority of the principal in the resolved context (its tenant, lineage,
  branch, readable status, scope, visibility, sensitivity, anchored subject and session), which
  mentions nothing of the filters, and within what the filters ask for.
\<close>

theorem eligibility_exact:
  "ed_eligible (evaluate_eligibility caller context candidate query filters evaluated_at) \<longleftrightarrow>
     operation_authorized caller query
     \<and> authorized_read caller context candidate (qb_branch_id (query_base_of query))
     \<and> requested_read filters evaluated_at candidate"
  by (rule eligible_iff)

end
