(* ===== verification/Ranking.thy ===== *)
theory Ranking
  imports Eligibility "HOL-Library.Product_Lexorder" "HOL-Library.List_Lexorder" "HOL-Library.Char_ord"
begin

text \<open>
  Weighted reciprocal rank fusion (\<^verbatim>\<open>retrieval/ranking.py\<close>) with the shipped profile. The power
  \<^verbatim>\<open>0.5 ** x\<close> of the recency modifier is an argument; the order in which the set of memory
  identifiers is iterated is an argument too, and does not matter.
\<close>

subsection \<open>The profile\<close>

datatype recency_curve = DEFAULT_CURVE | PROJECT_STATE_CURVE | STABLE_IDENTITY_CURVE

record retrieval_profile =
  pf_k :: int
  pf_candidate_depths :: "(retrieval_source, int) dict"
  pf_generator_weights :: "(retrieval_source, rat) dict"
  pf_authority_values :: "(authority_class, rat) dict"
  pf_category_recency_curve :: "(memory_category, recency_curve) dict"
  pf_modifier_weights :: "(score_modifier, rat) dict"
  pf_recency_curves :: "(recency_curve, int) dict"

definition retrieval_sources :: "retrieval_source list" where
  "retrieval_sources = [LEXICAL, TRIGRAM, SEMANTIC]"

definition score_modifier_names :: "score_modifier list" where
  "score_modifier_names = [SCOPE_MATCH, AUTHORITY, CONFIDENCE, SALIENCE, RECENCY]"

definition validate_retrieval_profile :: "retrieval_profile \<Rightarrow> unit result" where
  "validate_retrieval_profile p = reject_first
     [(pf_k p < 1 \<or> 10000 < pf_k p, ''k''),
      (set (map fst (pf_candidate_depths p)) \<noteq> set retrieval_sources
         \<or> set (map fst (pf_generator_weights p)) \<noteq> set retrieval_sources,
       ''retrieval profile must define every generator exactly once''),
      (list_ex (\<lambda>v. \<not> (1 \<le> v \<and> v \<le> 10000)) (map snd (pf_candidate_depths p)), ''candidate depths are out of bounds''),
      (list_ex (\<lambda>v. \<not> (0 \<le> v \<and> v \<le> 100)) (map snd (pf_generator_weights p)), ''generator weights are out of bounds''),
      (set (map fst (pf_modifier_weights p)) \<noteq> set score_modifier_names, ''retrieval profile modifiers do not match v1''),
      (list_ex (\<lambda>v. \<not> (0 \<le> v \<and> v \<le> 1)) (map snd (pf_modifier_weights p)), ''modifier weights are out of bounds''),
      (set (map fst (pf_authority_values p)) \<noteq> set authority_classes, ''retrieval profile must define every authority class''),
      (list_ex (\<lambda>v. \<not> (0 \<le> v \<and> v \<le> 1)) (map snd (pf_authority_values p)), ''authority values are out of bounds''),
      (set (map fst (pf_category_recency_curve p)) \<noteq> set memory_categories,
       ''retrieval profile must define every category recency curve'')]"

definition RRF_V1_PROFILE :: retrieval_profile where
  "RRF_V1_PROFILE = \<lparr>
     pf_k = 60,
     pf_candidate_depths = [(LEXICAL, 200), (SEMANTIC, 200), (TRIGRAM, 200)],
     pf_generator_weights = [(LEXICAL, 1), (SEMANTIC, 1), (TRIGRAM, 7 / 10)],
     pf_authority_values =
       [(ASSISTANT_INTERPRETATION, 45 / 100), (ASSISTANT_OBSERVATION, 65 / 100), (EXPLICIT_USER_CORRECTION, 1),
        (EXPLICIT_USER_STATEMENT, 95 / 100), (EXTERNAL_SOURCE, 55 / 100), (IMPORTED_LEGACY_MEMORY, 4 / 10),
        (VERIFIED_PROJECT_SOURCE, 9 / 10)],
     pf_category_recency_curve =
       [(ASSISTANT_PREFERENCE_LIKE_PATTERN, STABLE_IDENTITY_CURVE), (BOUNDARY_OR_PERMISSION, STABLE_IDENTITY_CURVE),
        (EMERGENT_TENDENCY, DEFAULT_CURVE), (EPISODIC_ANCHOR, DEFAULT_CURVE), (EXTERNAL_FACT, DEFAULT_CURVE),
        (INTERACTION_CONVENTION, STABLE_IDENTITY_CURVE), (INTERPRETATION, DEFAULT_CURVE),
        (OPEN_QUESTION, DEFAULT_CURVE), (PROCEDURE, DEFAULT_CURVE), (PROJECT_DECISION, STABLE_IDENTITY_CURVE),
        (PROJECT_STATE, PROJECT_STATE_CURVE), (RELATIONSHIP_PATTERN, STABLE_IDENTITY_CURVE),
        (STABLE_FACT, STABLE_IDENTITY_CURVE), (USER_PREFERENCE, STABLE_IDENTITY_CURVE)],
     pf_modifier_weights =
       [(AUTHORITY, 15 / 100), (CONFIDENCE, 5 / 100), (RECENCY, 3 / 100), (SALIENCE, 8 / 100), (SCOPE_MATCH, 12 / 100)],
     pf_recency_curves = [(DEFAULT_CURVE, 3650), (PROJECT_STATE_CURVE, 90), (STABLE_IDENTITY_CURVE, 36500)] \<rparr>"

lemma shipped_profile_valid: "validate_retrieval_profile RRF_V1_PROFILE = Inr ()"
  by (simp add: validate_retrieval_profile_def RRF_V1_PROFILE_def retrieval_sources_def score_modifier_names_def
      authority_classes_def memory_categories_def) auto

subsection \<open>Modifiers\<close>

text \<open>Instants are microseconds; a day has 86400 seconds.\<close>

definition age_days :: "utc \<Rightarrow> utc \<Rightarrow> rat" where
  "age_days evaluated_at observed_at = max 0 (of_int (evaluated_at - observed_at) / 1000000 / 86400)"

definition recency_modifier_v1 :: "(rat \<Rightarrow> rat) \<Rightarrow> memory_category \<Rightarrow> utc option \<Rightarrow> utc \<Rightarrow> rat" where
  "recency_modifier_v1 half_power category observed_at evaluated_at =
     (case observed_at of
        None \<Rightarrow> 0
      | Some t \<Rightarrow>
          let curve = the (dict_get (pf_category_recency_curve RRF_V1_PROFILE) category);
              half_life = the (dict_get (pf_recency_curves RRF_V1_PROFILE) curve)
          in half_power (age_days evaluated_at t / of_int half_life))"

definition new_score_modifiers :: "score_modifiers \<Rightarrow> score_modifiers result" where
  "new_score_modifiers m = validated (rbind (validate_score_modifiers m) (\<lambda>_. Inr m))"

definition score_modifiers_v1 ::
    "(rat \<Rightarrow> rat) \<Rightarrow> rat \<Rightarrow> authority_class \<Rightarrow> rat \<Rightarrow> rat \<Rightarrow> memory_category \<Rightarrow> utc option \<Rightarrow> utc \<Rightarrow>
     score_modifiers result" where
  "score_modifiers_v1 half_power scope_match authority_class confidence salience category observed_at evaluated_at =
     new_score_modifiers
       \<lparr> sm_scope_match = scope_match,
         sm_authority = the (dict_get (pf_authority_values RRF_V1_PROFILE) authority_class),
         sm_confidence = confidence, sm_salience = salience,
         sm_recency = recency_modifier_v1 half_power category observed_at evaluated_at \<rparr>"

definition modifier_values :: "score_modifiers \<Rightarrow> (score_modifier \<times> rat) list" where
  "modifier_values m = [(SCOPE_MATCH, sm_scope_match m), (AUTHORITY, sm_authority m),
     (CONFIDENCE, sm_confidence m), (SALIENCE, sm_salience m), (RECENCY, sm_recency m)]"

subsection \<open>Fusion\<close>

record source_ranking =
  sr_source :: retrieval_source
  sr_memory_ids :: "uuid list"

definition validate_source_ranking :: "source_ranking \<Rightarrow> unit result" where
  "validate_source_ranking r =
     rbind (reject_first
       [(\<not> distinct (sr_memory_ids r), ''one source ranking cannot contain duplicate memories'')]) (\<lambda>_.
     uuid7_fields (map (\<lambda>u. (''memory_id'', Some u)) (sr_memory_ids r)))"

record ranked_memory =
  rk_memory_id :: uuid
  rk_score :: memory_score

definition generator_weight :: "retrieval_source \<Rightarrow> rat" where
  "generator_weight s = the (dict_get (pf_generator_weights RRF_V1_PROFILE) s)"

definition modifier_weight :: "score_modifier \<Rightarrow> rat" where
  "modifier_weight m = the (dict_get (pf_modifier_weights RRF_V1_PROFILE) m)"

definition maximum_rrf :: "retrieval_source list \<Rightarrow> rat" where
  "maximum_rrf sources = sum_list (map (\<lambda>s. generator_weight s / (of_int (pf_k RRF_V1_PROFILE) + 1)) sources)"

definition modifier_weight_total :: rat where
  "modifier_weight_total = sum_list (map snd (pf_modifier_weights RRF_V1_PROFILE))"

text \<open>The ranks of a memory in the channels that found it, in the fixed order of the channels.\<close>

definition memory_ranks :: "(retrieval_source, uuid list) dict \<Rightarrow> uuid \<Rightarrow> (retrieval_source \<times> nat) list" where
  "memory_ranks rankings memory_id =
     List.map_filter (\<lambda>s. case dict_get rankings s of None \<Rightarrow> None
       | Some ids \<Rightarrow> (case index_of ids memory_id of None \<Rightarrow> None | Some i \<Rightarrow> Some (s, i + 1))) retrieval_sources"

definition raw_rrf :: "retrieval_source \<times> nat \<Rightarrow> rat" where
  "raw_rrf x = generator_weight (fst x) / (of_int (pf_k RRF_V1_PROFILE) + of_nat (snd x))"

definition share :: "rat \<Rightarrow> rat \<Rightarrow> rat" where
  "share maximum x = (if maximum \<noteq> 0 then x / maximum else 0)"

definition score_memory :: "rat \<Rightarrow> (retrieval_source \<times> nat) list \<Rightarrow> score_modifiers \<Rightarrow> memory_score" where
  "score_memory maximum ranks modifiers =
     (let rrf_score = share maximum (sum_list (map raw_rrf ranks));
          contributions = map (\<lambda>(name, value). \<lparr> mc_modifier = name, mc_value = value,
            mc_contribution = modifier_weight name * value \<rparr>) (modifier_values modifiers);
          modifier_sum = sum_list (map mc_contribution contributions)
      in \<lparr> ms_sources = map (\<lambda>x. \<lparr> sc_source = fst x, sc_rank = int (snd x), sc_contribution = share maximum (raw_rrf x) \<rparr>) ranks,
           ms_rrf_score = rrf_score, ms_modifiers = modifiers, ms_modifier_contributions = contributions,
           ms_final_score = (rrf_score + modifier_sum) / (1 + modifier_weight_total) \<rparr>)"

text \<open>The constructors check every part: sources, modifiers, the score and the identifier.\<close>

definition new_ranked_memory :: "uuid \<Rightarrow> memory_score \<Rightarrow> ranked_memory result" where
  "new_ranked_memory memory_id score =
     rbind (traverse (\<lambda>c. validated (validate_source_contribution c)) (ms_sources score)) (\<lambda>_.
     rbind (traverse (\<lambda>c. validated (validate_modifier_contribution c)) (ms_modifier_contributions score)) (\<lambda>_.
     rbind (validated (validate_memory_score score)) (\<lambda>_.
     rbind (validated (uuid7_fields [(''memory_id'', Some memory_id)])) (\<lambda>_.
       Inr \<lparr> rk_memory_id = memory_id, rk_score = score \<rparr>))))"

definition rank_key :: "ranked_memory \<Rightarrow> rat \<times> string" where
  "rank_key r = (- ms_final_score (rk_score r), uuid_str (rk_memory_id r))"

definition weighted_rrf_v1 ::
    "(uuid set \<Rightarrow> uuid list) \<Rightarrow> source_ranking list \<Rightarrow> (uuid, score_modifiers) dict \<Rightarrow> ranked_memory list result" where
  "weighted_rrf_v1 iterate source_rankings modifiers_by_memory =
     (let sources = map sr_source source_rankings;
          rankings = map (\<lambda>r. (sr_source r, sr_memory_ids r)) source_rankings;
          memory_ids = set (concat (map sr_memory_ids source_rankings));
          maximum = maximum_rrf sources
      in if \<not> distinct sources then Inl (ValueError ''retrieval sources must be unique'')
         else rbind (traverse (\<lambda>memory_id.
                new_ranked_memory memory_id (score_memory maximum (memory_ranks rankings memory_id)
                  (case dict_get modifiers_by_memory memory_id of None \<Rightarrow> no_modifiers | Some m \<Rightarrow> m)))
              (iterate memory_ids)) (\<lambda>results. Inr (sort_key rank_key results)))"

subsection \<open>Scores stay in the unit interval\<close>

lemma generator_weight_range: "0 < generator_weight s" "generator_weight s \<le> 1"
  by (cases s; simp add: generator_weight_def RRF_V1_PROFILE_def)+

lemma modifier_weight_range: "0 \<le> modifier_weight m" "modifier_weight m \<le> 1"
  by (cases m; simp add: modifier_weight_def RRF_V1_PROFILE_def)+

lemma profile_k: "pf_k RRF_V1_PROFILE = 60"
  by (simp add: RRF_V1_PROFILE_def)

lemma memory_ranks_sources:
  "distinct (map fst (memory_ranks rankings memory_id))"
  "set (map fst (memory_ranks rankings memory_id)) \<subseteq> set (map fst rankings)"
  "(s, n) \<in> set (memory_ranks rankings memory_id) \<Longrightarrow>
     \<exists>ids. dict_get rankings s = Some ids \<and> index_of ids memory_id = Some (n - 1) \<and> 1 \<le> n"
  "length (memory_ranks rankings memory_id) \<le> 3"
proof -
  let ?f = "\<lambda>s. case dict_get rankings s of None \<Rightarrow> None
       | Some ids \<Rightarrow> (case index_of ids memory_id of None \<Rightarrow> None | Some i \<Rightarrow> Some (s, i + 1))"
  have f: "?f s = Some p \<Longrightarrow> fst p = s" for s p by (auto split: option.splits)
  have "distinct xs \<Longrightarrow> distinct (map fst (List.map_filter ?f xs)) \<and> set (map fst (List.map_filter ?f xs)) \<subseteq> set xs" for xs
    by (induction xs) (auto simp: List.map_filter_simps split: option.splits)
  from this[of retrieval_sources] show "distinct (map fst (memory_ranks rankings memory_id))"
    by (simp add: memory_ranks_def retrieval_sources_def)
  show m: "\<exists>ids. dict_get rankings s = Some ids \<and> index_of ids memory_id = Some (n - 1) \<and> 1 \<le> n"
    if "(s, n) \<in> set (memory_ranks rankings memory_id)" for s n
    using that by (auto simp: memory_ranks_def List.map_filter_def split: option.splits)
  show "set (map fst (memory_ranks rankings memory_id)) \<subseteq> set (map fst rankings)"
    using m by (force dest: map_of_SomeD)
  have "length (List.map_filter ?f xs) \<le> length xs" for xs
    by (induction xs) (auto simp: List.map_filter_simps split: option.splits)
  from this[of retrieval_sources] show "length (memory_ranks rankings memory_id) \<le> 3"
    by (simp add: memory_ranks_def retrieval_sources_def)
qed

lemma raw_rrf_le:
  assumes "1 \<le> n"
  shows "0 \<le> raw_rrf (s, n) \<and> raw_rrf (s, n) \<le> generator_weight s / (of_int (pf_k RRF_V1_PROFILE) + 1)"
proof -
  have "(1 :: rat) \<le> of_nat n" using assms by simp
  then have "generator_weight s / (60 + of_nat n) \<le> generator_weight s / (60 + 1)"
    using generator_weight_range(1)[of s] by (intro divide_left_mono) simp_all
  then show ?thesis using generator_weight_range(1)[of s] by (simp add: raw_rrf_def profile_k)
qed

lemma raw_sum_le:
  assumes "distinct (map fst ranks)" "set (map fst ranks) \<subseteq> set sources" "distinct sources" "\<forall>(s, n) \<in> set ranks. 1 \<le> n"
  shows "0 \<le> sum_list (map raw_rrf ranks)" "sum_list (map raw_rrf ranks) \<le> maximum_rrf sources"
proof -
  let ?w = "\<lambda>s. generator_weight s / (of_int (pf_k RRF_V1_PROFILE) + 1)"
  have r: "0 \<le> raw_rrf x \<and> raw_rrf x \<le> ?w (fst x)" if "x \<in> set ranks" for x
    using that assms(4) raw_rrf_le[of "snd x" "fst x"] by (cases x) auto
  show "0 \<le> sum_list (map raw_rrf ranks)" by (rule sum_list_nonneg) (use r in fastforce)
  have "sum_list (map raw_rrf ranks) \<le> sum_list (map (\<lambda>x. ?w (fst x)) ranks)" using r by (intro sum_list_mono) simp
  also have "\<dots> = sum_list (map ?w (map fst ranks))" by (simp add: comp_def)
  also have "\<dots> = sum ?w (set (map fst ranks))" using assms(1) by (rule sum_list_distinct_conv_sum_set)
  also have "\<dots> \<le> sum ?w (set sources)"
    using assms(2) generator_weight_range(1) by (intro sum_mono2) (auto simp: profile_k less_imp_le)
  also have "\<dots> = maximum_rrf sources" using sum_list_distinct_conv_sum_set[OF assms(3), of ?w] by (simp add: maximum_rrf_def)
  finally show "sum_list (map raw_rrf ranks) \<le> maximum_rrf sources" .
qed

lemma share_unit: "0 \<le> x \<Longrightarrow> x \<le> maximum \<Longrightarrow> unit_float (share maximum x)"
  by (auto simp: share_def unit_float_def divide_le_eq_1)

definition unit_modifiers :: "score_modifiers \<Rightarrow> bool" where
  "unit_modifiers m \<longleftrightarrow> validate_score_modifiers m = Inr ()"

lemma unit_modifiers_values: "unit_modifiers m \<Longrightarrow> (name, value) \<in> set (modifier_values m) \<Longrightarrow> unit_float value"
  by (auto simp: unit_modifiers_def validate_score_modifiers_def modifier_values_def ok_simps)

lemma modifier_sum_bounds:
  assumes "unit_modifiers m"
  shows "0 \<le> sum_list (map (\<lambda>(n, v). modifier_weight n * v) (modifier_values m))"
    "sum_list (map (\<lambda>(n, v). modifier_weight n * v) (modifier_values m)) \<le> modifier_weight_total"
proof -
  have v: "0 \<le> v \<and> v \<le> 1" if "(n, v) \<in> set (modifier_values m)" for n v
    using unit_modifiers_values[OF assms that] by (simp add: unit_float_def)
  show "0 \<le> sum_list (map (\<lambda>(n, v). modifier_weight n * v) (modifier_values m))"
    using v modifier_weight_range(1) by (intro sum_list_nonneg) auto
  have "sum_list (map (\<lambda>(n, v). modifier_weight n * v) (modifier_values m))
      \<le> sum_list (map (\<lambda>(n, v). modifier_weight n) (modifier_values m))"
    using v modifier_weight_range(1) by (intro sum_list_mono) (auto intro: mult_left_le)
  also have "\<dots> = modifier_weight_total"
    by (simp add: modifier_values_def modifier_weight_total_def modifier_weight_def RRF_V1_PROFILE_def)
  finally show "sum_list (map (\<lambda>(n, v). modifier_weight n * v) (modifier_values m)) \<le> modifier_weight_total" .
qed

lemma modifier_weight_total_nonneg: "0 \<le> modifier_weight_total"
  by (simp add: modifier_weight_total_def RRF_V1_PROFILE_def)

lemma score_memory_valid:
  assumes "distinct (map fst ranks)" "set (map fst ranks) \<subseteq> set sources" "distinct sources" "\<forall>(s, n) \<in> set ranks. 1 \<le> n"
    "unit_modifiers m" "length ranks \<le> 3"
  shows "unit_float (ms_rrf_score (score_memory (maximum_rrf sources) ranks m))"
    "unit_float (ms_final_score (score_memory (maximum_rrf sources) ranks m))"
    "validate_memory_score (score_memory (maximum_rrf sources) ranks m) = Inr ()"
proof -
  let ?s = "score_memory (maximum_rrf sources) ranks m"
  let ?c = "\<lambda>(name, value). \<lparr> mc_modifier = name, mc_value = value, mc_contribution = modifier_weight name * value \<rparr>"
  note b = raw_sum_le[OF assms(1-4)] and ms = modifier_sum_bounds[OF assms(5)]
  show r: "unit_float (ms_rrf_score ?s)" using share_unit[OF b] by (simp add: score_memory_def Let_def)
  have "map mc_contribution (map ?c (modifier_values m)) = map (\<lambda>(n, v). modifier_weight n * v) (modifier_values m)"
    by (simp add: modifier_values_def)
  then have fs: "ms_final_score ?s = (ms_rrf_score ?s + sum_list (map (\<lambda>(n, v). modifier_weight n * v) (modifier_values m))) / (1 + modifier_weight_total)"
    unfolding score_memory_def Let_def by (simp only: memory_score.simps)
  show f: "unit_float (ms_final_score ?s)"
    using r ms modifier_weight_total_nonneg unfolding fs unit_float_def by (auto simp: divide_le_eq_1)
  have sources: "map sc_source (ms_sources ?s) = map fst ranks" by (simp add: score_memory_def Let_def comp_def)
  have names: "map mc_modifier (ms_modifier_contributions ?s) = map fst (modifier_values m)"
    by (simp add: score_memory_def Let_def modifier_values_def)
  have lens: "length (ms_sources ?s) = length ranks" "length (ms_modifier_contributions ?s) = 5"
    by (simp_all add: score_memory_def Let_def modifier_values_def)
  have "distinct (map fst (modifier_values m))" by (simp add: modifier_values_def)
  then show "validate_memory_score ?s = Inr ()"
    using r f assms(1,6) by (simp add: validate_memory_score_def sources names lens)
qed

lemma index_of_bounds: "index_of xs x = Some i \<Longrightarrow> i < length xs \<and> xs ! i = x"
  by (induction xs arbitrary: i) (auto split: if_splits)

lemma index_of_member: "x \<in> set xs \<longleftrightarrow> index_of xs x \<noteq> None"
  by (induction xs) auto

lemma new_ranked_memory_ok:
  assumes "distinct sources" "set (map fst rankings) \<subseteq> set sources" "unit_modifiers m" "is_uuid7 memory_id"
    "\<forall>(s, ids) \<in> set rankings. int (length ids) \<le> 2 ^ 53 - 1"
  defines "score \<equiv> score_memory (maximum_rrf sources) (memory_ranks rankings memory_id) m"
  shows "new_ranked_memory memory_id score = Inr \<lparr> rk_memory_id = memory_id, rk_score = score \<rparr>"
    "unit_float (ms_final_score score)" "unit_float (ms_rrf_score score)"
proof -
  let ?r = "memory_ranks rankings memory_id"
  have one: "\<forall>(s, n) \<in> set ?r. 1 \<le> n" using memory_ranks_sources(3) by blast
  have sub: "set (map fst ?r) \<subseteq> set sources" using memory_ranks_sources(2) assms(2) by blast
  note v = score_memory_valid[OF memory_ranks_sources(1) sub assms(1) one assms(3) memory_ranks_sources(4), folded score_def]
  show "unit_float (ms_final_score score)" "unit_float (ms_rrf_score score)" by (rule v)+
  have src: "validate_source_contribution c = Inr ()" if "c \<in> set (ms_sources score)" for c
  proof -
    obtain s n where x: "(s, n) \<in> set ?r" "c = \<lparr> sc_source = s, sc_rank = int n, sc_contribution = share (maximum_rrf sources) (raw_rrf (s, n)) \<rparr>"
      using \<open>c \<in> set (ms_sources score)\<close> by (auto simp: score_def score_memory_def Let_def)
    obtain ids where ids: "dict_get rankings s = Some ids" "index_of ids memory_id = Some (n - 1)" "1 \<le> n"
      using memory_ranks_sources(3)[OF x(1)] by blast
    have "int (length ids) \<le> 2 ^ 53 - 1" using assms(5) map_of_SomeD[OF ids(1)] by blast
    moreover have "n - 1 < length ids" using index_of_bounds[OF ids(2)] by blast
    ultimately have rank: "safe_positive (int n)" using ids(3) unfolding safe_positive_def by linarith
    have s: "s \<in> set sources" using sub x(1) by force
    have "raw_rrf (s, n) \<le> maximum_rrf sources"
      using raw_sum_le(2)[of "[(s, n)]" sources] s assms(1) ids(3) by simp
    then have "unit_float (share (maximum_rrf sources) (raw_rrf (s, n)))"
      using raw_rrf_le[OF ids(3), of s] by (intro share_unit) simp_all
    with rank show ?thesis by (simp add: x(2) validate_source_contribution_def)
  qed
  have mod: "validate_modifier_contribution c = Inr ()" if "c \<in> set (ms_modifier_contributions score)" for c
  proof -
    obtain n v' where x: "(n, v') \<in> set (modifier_values m)" "c = \<lparr> mc_modifier = n, mc_value = v', mc_contribution = modifier_weight n * v' \<rparr>"
      using \<open>c \<in> set (ms_modifier_contributions score)\<close> by (auto simp: score_def score_memory_def Let_def)
    have "unit_float v'" by (rule unit_modifiers_values[OF assms(3) x(1)])
    then have "unit_float (modifier_weight n * v')"
      using modifier_weight_range[of n] by (auto simp: unit_float_def intro: mult_le_one)
    with \<open>unit_float v'\<close> show ?thesis by (simp add: x(2) validate_modifier_contribution_def)
  qed
  have t: "\<exists>ys. traverse (\<lambda>c. validated (f c)) xs = Inr ys" if "\<forall>c \<in> set xs. f c = Inr ()" for f :: "'a \<Rightarrow> unit result" and xs
    using that by (induction xs) auto
  have "is_uuid7 memory_id \<Longrightarrow> uuid7_fields [(''memory_id'', Some memory_id)] = Inr ()"
    by (simp add: uuid7_field_def require_uuid7_def)
  then show "new_ranked_memory memory_id score = Inr \<lparr> rk_memory_id = memory_id, rk_score = score \<rparr>"
    using t[of "ms_sources score" validate_source_contribution] t[of "ms_modifier_contributions score" validate_modifier_contribution]
      src mod v(3) assms(4)
    unfolding new_ranked_memory_def by auto
qed

text \<open>Rankings and modifiers as their constructors admit them.\<close>

definition fusable :: "source_ranking list \<Rightarrow> (uuid, score_modifiers) dict \<Rightarrow> bool" where
  "fusable rankings modifiers \<longleftrightarrow> distinct (map sr_source rankings)
     \<and> list_all (\<lambda>r. validate_source_ranking r = Inr () \<and> int (length (sr_memory_ids r)) \<le> 2 ^ 53 - 1) rankings
     \<and> list_all (\<lambda>(u, m). unit_modifiers m) modifiers"

lemma uuid7_fields_all: "uuid7_fields (map (\<lambda>u. (n, Some u)) us) = Inr () \<longleftrightarrow> list_all is_uuid7 us"
  by (induction us) (auto simp: uuid7_field_def require_uuid7_def)

lemma no_modifiers_unit: "unit_modifiers no_modifiers"
  by (simp add: unit_modifiers_def validate_score_modifiers_def no_modifiers_def unit_float_def)

definition fused_score :: "source_ranking list \<Rightarrow> (uuid, score_modifiers) dict \<Rightarrow> uuid \<Rightarrow> memory_score" where
  "fused_score rankings modifiers memory_id =
     score_memory (maximum_rrf (map sr_source rankings))
       (memory_ranks (map (\<lambda>r. (sr_source r, sr_memory_ids r)) rankings) memory_id)
       (case dict_get modifiers memory_id of None \<Rightarrow> no_modifiers | Some m \<Rightarrow> m)"

lemma fused_score_ok:
  assumes "fusable rankings modifiers" "memory_id \<in> set (concat (map sr_memory_ids rankings))"
  shows "new_ranked_memory memory_id (fused_score rankings modifiers memory_id)
      = Inr \<lparr> rk_memory_id = memory_id, rk_score = fused_score rankings modifiers memory_id \<rparr>"
    "unit_float (ms_final_score (fused_score rankings modifiers memory_id))"
    "unit_float (ms_rrf_score (fused_score rankings modifiers memory_id))"
proof -
  let ?ms = "map (\<lambda>r. (sr_source r, sr_memory_ids r)) rankings"
  have d: "distinct (map sr_source rankings)" using assms(1) by (simp add: fusable_def)
  have sub: "set (map fst ?ms) \<subseteq> set (map sr_source rankings)" by auto
  have len: "\<forall>(s, ids) \<in> set ?ms. int (length ids) \<le> 2 ^ 53 - 1" using assms(1) by (auto simp: fusable_def list_all_iff)
  have u: "unit_modifiers (case dict_get modifiers memory_id of None \<Rightarrow> no_modifiers | Some m \<Rightarrow> m)"
    using assms(1) no_modifiers_unit by (auto simp: fusable_def list_all_iff dest: map_of_SomeD split: option.split)
  obtain r where r: "r \<in> set rankings" "memory_id \<in> set (sr_memory_ids r)" using assms(2) by auto
  then have "list_all is_uuid7 (sr_memory_ids r)"
    using assms(1) by (auto simp: fusable_def list_all_iff validate_source_ranking_def uuid7_fields_all ok_simps)
  with r(2) have i: "is_uuid7 memory_id" by (simp add: list_all_iff)
  show "new_ranked_memory memory_id (fused_score rankings modifiers memory_id)
      = Inr \<lparr> rk_memory_id = memory_id, rk_score = fused_score rankings modifiers memory_id \<rparr>"
    "unit_float (ms_final_score (fused_score rankings modifiers memory_id))"
    "unit_float (ms_rrf_score (fused_score rankings modifiers memory_id))"
    unfolding fused_score_def by (rule new_ranked_memory_ok[OF d sub u i len])+
qed

lemma weighted_rrf_eq:
  assumes "fusable rankings modifiers" "set (iterate (set (concat (map sr_memory_ids rankings)))) = set (concat (map sr_memory_ids rankings))"
  shows "weighted_rrf_v1 iterate rankings modifiers = Inr (sort_key rank_key
    (map (\<lambda>u. \<lparr> rk_memory_id = u, rk_score = fused_score rankings modifiers u \<rparr>) (iterate (set (concat (map sr_memory_ids rankings))))))"
proof -
  have d: "distinct (map sr_source rankings)" using assms(1) by (simp add: fusable_def)
  have "traverse (\<lambda>u. new_ranked_memory u (fused_score rankings modifiers u)) us
      = Inr (map (\<lambda>u. \<lparr> rk_memory_id = u, rk_score = fused_score rankings modifiers u \<rparr>) us)"
    if "set us \<subseteq> set (concat (map sr_memory_ids rankings))" for us
    using that by (induction us) (simp_all add: fused_score_ok(1)[OF assms(1)])
  from this[of "iterate (set (concat (map sr_memory_ids rankings)))"] show ?thesis
    unfolding weighted_rrf_v1_def Let_def fused_score_def[symmetric] using d assms(2) by simp
qed

lemma rank_key_inj: "inj_on rank_key (set (map (\<lambda>u. \<lparr> rk_memory_id = u, rk_score = f u \<rparr>) us))"
proof (rule inj_onI)
  fix x y assume x: "x \<in> set (map (\<lambda>u. \<lparr> rk_memory_id = u, rk_score = f u \<rparr>) us)"
    and y: "y \<in> set (map (\<lambda>u. \<lparr> rk_memory_id = u, rk_score = f u \<rparr>) us)" and k: "rank_key x = rank_key y"
  from k have "uuid_str (rk_memory_id x) = uuid_str (rk_memory_id y)" by (simp add: rank_key_def)
  then have "rk_memory_id x = rk_memory_id y" by (metis uuid_unstr_str sum.inject(2))
  with x y show "x = y" by auto
qed


definition sample_memory :: "nat \<Rightarrow> uuid" where
  "sample_memory n = of_nat (0x70008000000000000000 + n)"

definition sample_rankings :: "source_ranking list" where
  "sample_rankings =
     [\<lparr> sr_source = LEXICAL, sr_memory_ids = [sample_memory 2, sample_memory 3] \<rparr>,
      \<lparr> sr_source = SEMANTIC, sr_memory_ids = [sample_memory 3] \<rparr>]"


end
