(* ===== verification/Context_Pack.thy ===== *)
theory Context_Pack
  imports Ranking "HOL-Library.Multiset"
begin

text \<open>
  Assembly of context packs within a byte budget (\<^verbatim>\<open>retrieval/context_pack.py\<close>,
  \<^verbatim>\<open>retrieval/budgeting.py\<close>). The JSON-facing value of a result is what the validation library
  dumps; it is an argument of the model, like the serialiser behind the canonical bytes.
\<close>

subsection \<open>Budgets\<close>

definition HARD_RESPONSE_BYTE_CEILING :: int where "HARD_RESPONSE_BYTE_CEILING = 262144"

definition estimate_utf8_upper_bound :: "'z codec_scheme \<Rightarrow> ('a \<Rightarrow> pyvalue) \<Rightarrow> 'a \<Rightarrow> int result" where
  "estimate_utf8_upper_bound L model_dump value =
     rbind (canonical_json_bytes L (model_dump value)) (\<lambda>b. Inr (int (length b)))"

definition fits_budget :: "'z codec_scheme \<Rightarrow> ('a \<Rightarrow> pyvalue) \<Rightarrow> 'a \<Rightarrow> int \<Rightarrow> bool result" where
  "fits_budget L model_dump value requested_units =
     (if \<not> (1 \<le> requested_units \<and> requested_units \<le> 1000000) then Inl (ValueError ''requested budget is out of bounds'')
      else rbind (estimate_utf8_upper_bound L model_dump value) (\<lambda>size.
        Inr (size \<le> requested_units \<and> size \<le> HARD_RESPONSE_BYTE_CEILING)))"

subsection \<open>Sections and lanes\<close>

definition section_order :: "context_section list" where
  "section_order = [ACTIVE_BOUNDARIES, PERSONA, USER_PREFERENCES, RELATIONSHIP_PATTERNS, PROJECT_CONTEXT,
     EPISODIC_ANCHORS, OPEN_QUESTIONS]"

definition section_for_hit :: "memory_hit \<Rightarrow> context_section" where
  "section_for_hit h =
     (if mh_category h = BOUNDARY_OR_PERMISSION then ACTIVE_BOUNDARIES
      else if mh_category h = USER_PREFERENCE then USER_PREFERENCES
      else if mh_category h = RELATIONSHIP_PATTERN \<or> mh_scope h = SC_RELATIONSHIP then RELATIONSHIP_PATTERNS
      else if mh_category h = EPISODIC_ANCHOR \<or> mh_scope h \<in> {SC_EPISODIC, SC_SCENE_LOCAL} then EPISODIC_ANCHORS
      else if mh_category h = OPEN_QUESTION then OPEN_QUESTIONS
      else if mh_scope h = SC_PROJECT \<or> mh_category h \<in> {PROJECT_DECISION, PROJECT_STATE, PROCEDURE} then PROJECT_CONTEXT
      else PERSONA)"

definition hit_key :: "memory_hit \<Rightarrow> rat \<times> string" where
  "hit_key h = (- ms_final_score (mh_score h), uuid_str (mh_memory_id h))"

text \<open>A validated group has members, so the maximum of the source is never taken of nothing.\<close>

definition conflict_key :: "conflict_group \<Rightarrow> rat \<times> string" where
  "conflict_key g = (- Max (set (map (\<lambda>m. ms_final_score (mh_score m)) (cg_members g))), uuid_str (cg_conflict_id g))"

datatype lane = ConflictLane | SectionLane context_section

datatype pack_item = HitItem memory_hit | ConflictItem conflict_group

fun item_lane :: "pack_item \<Rightarrow> lane" where
  "item_lane (HitItem h) = SectionLane (section_for_hit h)"
| "item_lane (ConflictItem g) = ConflictLane"

fun item_members :: "pack_item \<Rightarrow> memory_hit list" where
  "item_members (HitItem h) = [h]"
| "item_members (ConflictItem g) = cg_members g"

definition lane_items :: "memory_hit list \<Rightarrow> conflict_group list \<Rightarrow> lane \<Rightarrow> pack_item list" where
  "lane_items hits conflicts l =
     (let conflict_member_ids = mh_memory_id ` set (concat (map cg_members conflicts))
      in case l of
           ConflictLane \<Rightarrow> map ConflictItem (sort_key conflict_key conflicts)
         | SectionLane s \<Rightarrow> map HitItem (filter (\<lambda>h. mh_memory_id h \<notin> conflict_member_ids \<and> section_for_hit h = s)
             (sort_key hit_key hits)))"

definition lane_order :: "lane list" where
  "lane_order = SectionLane ACTIVE_BOUNDARIES # ConflictLane # map SectionLane (tl section_order)"

text \<open>One turn takes the item at the index from every lane that still has one.\<close>

definition turn :: "(lane \<Rightarrow> 'a list) \<Rightarrow> nat \<Rightarrow> 'a list" where
  "turn lanes index = List.map_filter (\<lambda>l. if index < length (lanes l) then Some (lanes l ! index) else None) lane_order"

function turns :: "(lane \<Rightarrow> 'a list) \<Rightarrow> nat \<Rightarrow> 'a list" where
  "turns lanes index =
     (if list_ex (\<lambda>l. index < length (lanes l)) lane_order then turn lanes index @ turns lanes (index + 1) else [])"
  by pat_completeness auto
termination
proof (relation "measure (\<lambda>(lanes, index). sum_list (map (\<lambda>l. length (lanes l) - index) lane_order))", goal_cases)
  case (2 lanes index)
  then obtain l where l: "l \<in> set lane_order" "index < length (lanes l)" by (auto simp: list_ex_iff)
  have "sum_list (map (\<lambda>l. length (lanes l) - (index + 1)) xs) < sum_list (map (\<lambda>l. length (lanes l) - index) xs)"
    if "l \<in> set xs" for xs
    using that
  proof (induction xs)
    case (Cons x xs)
    have le: "sum_list (map (\<lambda>l. length (lanes l) - (index + 1)) ys) \<le> sum_list (map (\<lambda>l. length (lanes l) - index) ys)" for ys
      by (induction ys) auto
    show ?case
    proof (cases "x = l")
      case True
      then have "length (lanes x) - (index + 1) < length (lanes x) - index" using l(2) by simp
      with le[of xs] show ?thesis by simp
    next
      case False
      with Cons have "sum_list (map (\<lambda>l. length (lanes l) - (index + 1)) xs) < sum_list (map (\<lambda>l. length (lanes l) - index) xs)"
        by simp
      moreover have "length (lanes x) - (index + 1) \<le> length (lanes x) - index" by simp
      ultimately show ?thesis by simp
    qed
  qed simp
  from this[OF l(1)] show ?case by simp
qed simp

declare turns.simps [simp del]

definition round_robin_items :: "memory_hit list \<Rightarrow> conflict_group list \<Rightarrow> pack_item list" where
  "round_robin_items hits conflicts = turns (lane_items hits conflicts) 0"

subsection \<open>Packs\<close>

record pack_flags =
  fg_requested_scope_reduction :: bool
  fg_evidence_omitted :: bool
  fg_budget_truncated :: bool

definition new_provenance :: "memory_hit \<Rightarrow> provenance_record result" where
  "new_provenance m = validated
     (rbind (uuid7_fields [(''event_id'', Some (mh_last_event_id m)), (''memory_id'', Some (mh_memory_id m))]) (\<lambda>_.
      rbind (reject_first [(\<not> safe_positive (mh_revision m), ''revision'')]) (\<lambda>_.
        Inr \<lparr> pv_event_id = mh_last_event_id m, pv_memory_id = mh_memory_id m, pv_revision = mh_revision m \<rparr>)))"

definition items_in :: "context_section \<Rightarrow> pack_item list \<Rightarrow> memory_hit list" where
  "items_in s items =
     List.map_filter (\<lambda>i. case i of HitItem h \<Rightarrow> if section_for_hit h = s then Some h else None | ConflictItem g \<Rightarrow> None) items"

definition conflicts_in :: "pack_item list \<Rightarrow> conflict_group list" where
  "conflicts_in items = List.map_filter (\<lambda>i. case i of HitItem h \<Rightarrow> None | ConflictItem g \<Rightarrow> Some g) items"

definition provenance_of :: "pack_item list \<Rightarrow> provenance_record list result" where
  "provenance_of items =
     rbind (traverse new_provenance (concat (map item_members items))) (\<lambda>records.
       let provenance = fold (\<lambda>r. dict_set (pv_event_id r) r) records []
       in Inr (map snd (sort_key (\<lambda>p. uuid_str (fst p)) provenance)))"

definition pack_from_items :: "uuid \<Rightarrow> pack_item list \<Rightarrow> pack_flags \<Rightarrow> context_pack result" where
  "pack_from_items context_pack_id items flags =
     rbind (provenance_of items) (\<lambda>provenance.
       let pack = \<lparr> cp_context_pack_id = context_pack_id, cp_persona = items_in PERSONA items,
             cp_active_boundaries = items_in ACTIVE_BOUNDARIES items, cp_user_preferences = items_in USER_PREFERENCES items,
             cp_relationship_patterns = items_in RELATIONSHIP_PATTERNS items,
             cp_project_context = items_in PROJECT_CONTEXT items, cp_episodic_anchors = items_in EPISODIC_ANCHORS items,
             cp_open_questions = items_in OPEN_QUESTIONS items, cp_conflicts = conflicts_in items,
             cp_excluded_scope_summary = \<lparr> xs_requested_scope_reduction = fg_requested_scope_reduction flags,
               xs_evidence_omitted = fg_evidence_omitted flags, xs_budget_truncated = fg_budget_truncated flags \<rparr>,
             cp_provenance = provenance \<rparr>
       in rbind (validated (validate_context_pack pack)) (\<lambda>_. Inr pack))"

record result_frame =
  rf_requested_units :: int
  rf_retrieval :: retrieval_profile_info
  rf_truncated :: bool
  rf_omission_reasons :: "omission_reason list"
  rf_warnings :: "read_warning list"

definition sized_result :: "context_pack \<Rightarrow> result_frame \<Rightarrow> int \<Rightarrow> context_pack_result" where
  "sized_result pack frame used =
     \<lparr> cr_result = pack, cr_warnings = rf_warnings frame, cr_retrieval = rf_retrieval frame,
       cr_budget = \<lparr> bm_requested_units = rf_requested_units frame, bm_used_units = used, bm_serialized_bytes = used,
         bm_truncated = rf_truncated frame, bm_omission_reasons = rf_omission_reasons frame \<rparr> \<rparr>"

definition new_context_pack_result :: "context_pack \<Rightarrow> result_frame \<Rightarrow> int \<Rightarrow> context_pack_result result" where
  "new_context_pack_result pack frame used =
     rbind (validated (validate_budget_metadata (cr_budget (sized_result pack frame used)))) (\<lambda>_.
     rbind (validated (validate_warnings (rf_warnings frame))) (\<lambda>_. Inr (sized_result pack frame used)))"

text \<open>The size is written into the result that is measured; at most eight rounds look for a fixed point.\<close>

fun size_rounds ::
    "nat \<Rightarrow> 'z codec_scheme \<Rightarrow> (context_pack_result \<Rightarrow> pyvalue) \<Rightarrow> context_pack \<Rightarrow> result_frame \<Rightarrow> int \<Rightarrow>
     (context_pack_result option \<times> int) result" where
  "size_rounds 0 L model_dump pack frame used = Inl (RuntimeError ''context-pack budget size did not converge'')"
| "size_rounds (Suc n) L model_dump pack frame used =
     rbind (new_context_pack_result pack frame used) (\<lambda>result.
     rbind (estimate_utf8_upper_bound L model_dump result) (\<lambda>measured.
       if measured = used then Inr (Some result, measured)
       else if measured > rf_requested_units frame \<or> measured > HARD_RESPONSE_BYTE_CEILING then Inr (None, measured)
       else size_rounds n L model_dump pack frame measured))"

definition result_with_size ::
    "'z codec_scheme \<Rightarrow> (context_pack_result \<Rightarrow> pyvalue) \<Rightarrow> context_pack \<Rightarrow> result_frame \<Rightarrow>
     (context_pack_result option \<times> int) result" where
  "result_with_size L model_dump pack frame = size_rounds 8 L model_dump pack frame 1"

subsection \<open>Assembly\<close>

record pack_request =
  pr_context_pack_id :: uuid
  pr_requested_units :: int
  pr_retrieval :: retrieval_profile_info
  pr_requested_scope_reduction :: bool

definition probe_frame :: "pack_request \<Rightarrow> result_frame" where
  "probe_frame rq = \<lparr> rf_requested_units = pr_requested_units rq, rf_retrieval = pr_retrieval rq, rf_truncated = True,
     rf_omission_reasons = [BUDGET_TRUNCATED], rf_warnings = [RESULTS_TRUNCATED] \<rparr>"

text \<open>Every candidate is tried on top of what is selected so far, and skipped when it does not fit.\<close>

fun select_items ::
    "'z codec_scheme \<Rightarrow> (context_pack_result \<Rightarrow> pyvalue) \<Rightarrow> pack_request \<Rightarrow> bool \<Rightarrow> pack_item list \<Rightarrow> bool \<Rightarrow>
     pack_item list \<Rightarrow> (pack_item list \<times> bool) result" where
  "select_items L model_dump rq evidence_omitted selected omitted [] = Inr (selected, omitted)"
| "select_items L model_dump rq evidence_omitted selected omitted (candidate # candidates) =
     rbind (pack_from_items (pr_context_pack_id rq) (selected @ [candidate])
         \<lparr> fg_requested_scope_reduction = pr_requested_scope_reduction rq, fg_evidence_omitted = evidence_omitted,
           fg_budget_truncated = True \<rparr>) (\<lambda>pack.
     rbind (result_with_size L model_dump pack (probe_frame rq)) (\<lambda>(result, _).
       case result of
         None \<Rightarrow> select_items L model_dump rq evidence_omitted selected True candidates
       | Some _ \<Rightarrow> select_items L model_dump rq evidence_omitted (selected @ [candidate]) omitted candidates))"

definition final_frame :: "pack_request \<Rightarrow> bool \<Rightarrow> bool \<Rightarrow> result_frame" where
  "final_frame rq evidence_omitted omitted =
     \<lparr> rf_requested_units = pr_requested_units rq, rf_retrieval = pr_retrieval rq, rf_truncated = omitted,
       rf_omission_reasons = (if omitted then [BUDGET_TRUNCATED] else []) @ (if evidence_omitted then [EVIDENCE_OMITTED] else [])
         @ (if pr_requested_scope_reduction rq then [REQUESTED_SCOPE_REDUCTION] else []),
       rf_warnings = (if omitted then [RESULTS_TRUNCATED] else []) @ (if evidence_omitted then [EVIDENCE_OMITTED_WARNING] else []) \<rparr>"

definition strip_group :: "conflict_group \<Rightarrow> conflict_group" where
  "strip_group g = g\<lparr> cg_members := map without_evidence (cg_members g) \<rparr>"

definition assemble_context_pack ::
    "'z codec_scheme \<Rightarrow> (context_pack_result \<Rightarrow> pyvalue) \<Rightarrow> pack_request \<Rightarrow> bool \<Rightarrow> memory_hit list \<Rightarrow>
     conflict_group list \<Rightarrow> context_pack_result result" where
  "assemble_context_pack L model_dump rq include_evidence hits conflicts =
     (if \<not> (1 \<le> pr_requested_units rq \<and> pr_requested_units rq \<le> 1000000)
      then Inl (ValueError ''requested budget is out of bounds'')
      else
        let evidence_omitted = (\<not> include_evidence \<and>
              (list_ex (\<lambda>h. mh_evidence h \<noteq> []) hits
               \<or> list_ex (\<lambda>g. list_ex (\<lambda>m. mh_evidence m \<noteq> []) (cg_members g)) conflicts));
            hits = (if include_evidence then hits else map without_evidence hits);
            conflicts = (if include_evidence then conflicts else map strip_group conflicts)
        in rbind (select_items L model_dump rq evidence_omitted [] False (round_robin_items hits conflicts)) (\<lambda>(selected, omitted).
           rbind (pack_from_items (pr_context_pack_id rq) selected
               \<lparr> fg_requested_scope_reduction = pr_requested_scope_reduction rq, fg_evidence_omitted = evidence_omitted,
                 fg_budget_truncated = omitted \<rparr>) (\<lambda>pack.
           rbind (result_with_size L model_dump pack (final_frame rq evidence_omitted omitted)) (\<lambda>(final, _).
             case final of None \<Rightarrow> Inl BudgetTooSmallError | Some r \<Rightarrow> Inr r))))"

subsection \<open>Round robin\<close>

lemma mset_map_filter_append:
  "mset (List.map_filter f (xs @ ys)) = mset (List.map_filter f xs) + mset (List.map_filter f ys)"
  by (simp add: List.map_filter_def)

lemma mset_turn:
  "mset (turn lanes i) + (\<Sum>l\<leftarrow>lane_order. mset (drop (Suc i) (lanes l))) = (\<Sum>l\<leftarrow>lane_order. mset (drop i (lanes l)))"
proof -
  have "mset (List.map_filter (\<lambda>l. if i < length (lanes l) then Some (lanes l ! i) else None) ls)
      + (\<Sum>l\<leftarrow>ls. mset (drop (Suc i) (lanes l))) = (\<Sum>l\<leftarrow>ls. mset (drop i (lanes l)))" for ls
  proof (induction ls)
    case (Cons l ls)
    have "mset (drop i (lanes l)) = (if i < length (lanes l) then {# lanes l ! i #} else {#}) + mset (drop (Suc i) (lanes l))"
      by (cases "i < length (lanes l)") (simp_all add: Cons_nth_drop_Suc[symmetric])
    with Cons show ?case by (simp add: List.map_filter_def ac_simps)
  qed (simp add: List.map_filter_def)
  then show ?thesis by (simp add: turn_def)
qed

lemma mset_turns: "mset (turns lanes i) = (\<Sum>l\<leftarrow>lane_order. mset (drop i (lanes l)))"
proof (induction lanes i rule: turns.induct)
  case (1 lanes index)
  show ?case
  proof (cases "list_ex (\<lambda>l. index < length (lanes l)) lane_order")
    case True
    then show ?thesis using 1[OF True] mset_turn[of lanes index] by (subst turns.simps) simp
  next
    case False
    then have "drop index (lanes l) = []" if "l \<in> set lane_order" for l using that by (auto simp: list_ex_iff)
    then have "(\<Sum>l\<leftarrow>lane_order. mset (drop index (lanes l))) = (\<Sum>l\<leftarrow>lane_order. {#})"
      by (intro arg_cong[where f = sum_list] map_cong) auto
    with False show ?thesis by (subst turns.simps) simp
  qed
qed

lemma every_lane: "l \<in> set lane_order"
proof (cases l)
  case (SectionLane s)
  then show ?thesis by (cases s) (simp_all add: lane_order_def section_order_def)
qed (simp add: lane_order_def)

lemma set_sum_list_mset: "set_mset (\<Sum>x\<leftarrow>xs. f x) = (\<Union>x \<in> set xs. set_mset (f x))"
  by (induction xs) auto

lemma set_turns: "set (turns lanes 0) = (\<Union>l. set (lanes l))"
proof -
  have "set (turns lanes 0) = set_mset (mset (turns lanes 0))" by simp
  also have "\<dots> = (\<Union>l \<in> set lane_order. set (lanes l))" by (simp add: mset_turns set_sum_list_mset)
  finally show ?thesis using every_lane by auto
qed

definition standalone :: "memory_hit list \<Rightarrow> conflict_group list \<Rightarrow> memory_hit set" where
  "standalone hits conflicts = {h \<in> set hits. \<forall>g \<in> set conflicts. \<forall>m \<in> set (cg_members g). mh_memory_id m \<noteq> mh_memory_id h}"

lemma set_round_robin_items:
  "set (round_robin_items hits conflicts) = HitItem ` standalone hits conflicts \<union> ConflictItem ` set conflicts"
  (is "?l = ?r")
proof -
  have union: "(\<Union>l. f l) = f ConflictLane \<union> (\<Union>s. f (SectionLane s))" for f :: "lane \<Rightarrow> pack_item set"
    by (auto, metis lane.exhaust)
  have conflicts: "set (lane_items hits conflicts ConflictLane) = ConflictItem ` set conflicts"
    by (simp add: lane_items_def)
  have hits: "(\<Union>s. set (lane_items hits conflicts (SectionLane s))) = HitItem ` standalone hits conflicts"
    unfolding lane_items_def standalone_def by (auto simp: image_iff Let_def) metis+
  show ?thesis
    unfolding round_robin_items_def set_turns union conflicts hits by blast
qed

subsection \<open>Sizes and selection\<close>

lemma new_context_pack_result_eq: "new_context_pack_result pack frame used = Inr r \<Longrightarrow> r = sized_result pack frame used"
  by (auto simp: new_context_pack_result_def elim!: rbind_InrE)

lemma size_rounds_sound:
  assumes "size_rounds n L model_dump pack frame used = Inr (Some r, m)"
  shows "r = sized_result pack frame m \<and> new_context_pack_result pack frame m = Inr r
    \<and> estimate_utf8_upper_bound L model_dump r = Inr m"
  using assms
proof (induction n arbitrary: used)
  case (Suc n)
  from Suc.prems obtain x k where x: "new_context_pack_result pack frame used = Inr x"
      "estimate_utf8_upper_bound L model_dump x = Inr k"
    and k: "(if k = used then Inr (Some x, k)
       else if k > rf_requested_units frame \<or> k > HARD_RESPONSE_BYTE_CEILING then Inr (None, k)
       else size_rounds n L model_dump pack frame k) = Inr (Some r, m)"
    by (auto elim!: rbind_InrE)
  show ?case
  proof (cases "k = used")
    case True
    with k have "x = r" "used = m" "k = m" by simp_all
    with x new_context_pack_result_eq[OF x(1)] show ?thesis by simp
  next
    case False
    with k have "size_rounds n L model_dump pack frame k = Inr (Some r, m)" by (auto split: if_splits)
    then show ?thesis by (rule Suc.IH)
  qed
qed simp

lemma new_context_pack_result_bounds:
  assumes "new_context_pack_result pack frame used = Inr r"
  shows "1 \<le> used \<and> used \<le> rf_requested_units frame \<and> used \<le> HARD_RESPONSE_BYTE_CEILING"
  using assms by (auto simp: new_context_pack_result_def validate_budget_metadata_def sized_result_def
      HARD_RESPONSE_BYTE_CEILING_def ok_simps split: if_splits)

lemma select_items_sound:
  assumes "select_items L model_dump rq eo sel om cands = Inr (sel', om')"
  shows "\<exists>ys. sel' = sel @ ys \<and> set ys \<subseteq> set cands \<and> (om \<longrightarrow> om') \<and> (\<not> om' \<longrightarrow> ys = cands)"
  using assms
proof (induction cands arbitrary: sel om)
  case (Cons c cands)
  from Cons.prems consider
      "select_items L model_dump rq eo sel True cands = Inr (sel', om')"
    | "select_items L model_dump rq eo (sel @ [c]) om cands = Inr (sel', om')"
    by (auto elim!: rbind_InrE split: option.splits)
  then show ?case
  proof cases
    case 1
    from Cons.IH[OF 1] show ?thesis by auto
  next
    case 2
    from Cons.IH[OF 2] obtain ys where "sel' = (sel @ [c]) @ ys" "set ys \<subseteq> set cands" "om \<longrightarrow> om'" "\<not> om' \<longrightarrow> ys = cands"
      by blast
    then show ?thesis by (intro exI[of _ "c # ys"]) auto
  qed
qed simp

subsection \<open>Contents of a pack\<close>

fun pack_section :: "context_section \<Rightarrow> context_pack \<Rightarrow> memory_hit list" where
  "pack_section PERSONA p = cp_persona p"
| "pack_section ACTIVE_BOUNDARIES p = cp_active_boundaries p"
| "pack_section USER_PREFERENCES p = cp_user_preferences p"
| "pack_section RELATIONSHIP_PATTERNS p = cp_relationship_patterns p"
| "pack_section PROJECT_CONTEXT p = cp_project_context p"
| "pack_section EPISODIC_ANCHORS p = cp_episodic_anchors p"
| "pack_section OPEN_QUESTIONS p = cp_open_questions p"

lemma set_pack_hits: "set (pack_hits p) = (\<Union>s. set (pack_section s p))"
proof -
  have "(UNIV :: context_section set) = set section_order"
    using context_section.exhaust by (auto simp: section_order_def)
  then have "(\<Union>s. set (pack_section s p)) = (\<Union>s \<in> set section_order. set (pack_section s p))" by simp
  then show ?thesis by (auto simp: pack_hits_def section_order_def)
qed

lemma fold_dict_set:
  "set (fold (\<lambda>r. dict_set (k r) r) rs d) \<subseteq> set d \<union> (\<lambda>r. (k r, r)) ` set rs
   \<and> fst ` set (fold (\<lambda>r. dict_set (k r) r) rs d) = fst ` set d \<union> k ` set rs"
proof (induction rs arbitrary: d)
  case (Cons r rs)
  have "set (dict_set x v e) \<subseteq> set e \<union> {(x, v)}" for x v and e :: "('a \<times> 'b) list" by (induction e) auto
  from this[of "k r" r d] have "set (dict_set (k r) r d) \<subseteq> set d \<union> {(k r, r)}" .
  moreover have "fst ` set (dict_set (k r) r d) = fst ` set d \<union> {k r}" using dom_update[of "k r" r d] by auto
  ultimately show ?case using Cons[of "dict_set (k r) r d"] by (simp, blast)
qed simp

definition provenance_of_hit :: "memory_hit \<Rightarrow> provenance_record" where
  "provenance_of_hit m = \<lparr> pv_event_id = mh_last_event_id m, pv_memory_id = mh_memory_id m, pv_revision = mh_revision m \<rparr>"

lemma new_provenance_eq: "new_provenance m = Inr r \<Longrightarrow> r = provenance_of_hit m"
  by (auto simp: new_provenance_def provenance_of_hit_def ok_simps)

lemma provenance_of_sound:
  assumes "provenance_of items = Inr ps"
  shows "set ps \<subseteq> provenance_of_hit ` set (concat (map item_members items))
    \<and> pv_event_id ` set ps = mh_last_event_id ` set (concat (map item_members items))"
proof -
  let ?ms = "concat (map item_members items)"
  from assms obtain rs where rs: "traverse new_provenance ?ms = Inr rs"
    and ps: "ps = map snd (sort_key (\<lambda>p. uuid_str (fst p)) (fold (\<lambda>r. dict_set (pv_event_id r) r) rs []))"
    by (auto simp: provenance_of_def Let_def elim!: rbind_InrE)
  have set_rs: "set rs = provenance_of_hit ` set ?ms"
    using traverse_member[OF rs] traverse_image[OF rs] new_provenance_eq by (fastforce simp: image_iff)
  let ?d = "fold (\<lambda>r. dict_set (pv_event_id r) r) rs []"
  have d: "set ?d \<subseteq> (\<lambda>r. (pv_event_id r, r)) ` set rs" "fst ` set ?d = pv_event_id ` set rs"
    using fold_dict_set[of pv_event_id rs "[]"] by auto
  have "set ps = snd ` set ?d" using ps by simp
  moreover have "pv_event_id ` snd ` set ?d = fst ` set ?d" using d(1) by (force simp: image_iff)
  moreover have "snd ` set ?d \<subseteq> set rs" using d(1) by auto
  ultimately show ?thesis using d(2) set_rs by (simp add: image_image provenance_of_hit_def)
qed

lemma uuid7_fields_ok:
  "uuid7_fields [] = Inr v"
  "uuid7_fields ((n, u) # rest) = Inr v \<longleftrightarrow> opt_all is_uuid7 u \<and> uuid7_fields rest = Inr v"
  by (simp_all add: uuid7_field_def opt_all_def require_uuid7_def ok_simps split: option.splits)

lemma validate_context_pack_ok:
  "validate_context_pack p = Inr () \<longleftrightarrow> is_uuid7 (cp_context_pack_id p)
     \<and> list_all (\<lambda>s. length (pack_section s p) \<le> 64) [PERSONA, ACTIVE_BOUNDARIES, USER_PREFERENCES,
          RELATIONSHIP_PATTERNS, PROJECT_CONTEXT, EPISODIC_ANCHORS, OPEN_QUESTIONS]
     \<and> length (cp_conflicts p) \<le> 32 \<and> length (cp_provenance p) \<le> 512
     \<and> distinct (map mh_memory_id (pack_hits p @ pack_conflict_members p))"
  unfolding validate_context_pack_def rbind_eq_Inr reject_first_ok not_less not_not list.pred_inject pack_section.simps
  by (simp only: uuid7_fields_ok) (simp add: opt_all_def)

lemma pack_from_items_sound:
  assumes "pack_from_items pid items flags = Inr p"
  shows "pack_section s p = items_in s items \<and> cp_conflicts p = conflicts_in items
    \<and> provenance_of items = Inr (cp_provenance p) \<and> validate_context_pack p = Inr ()"
  using assms by (cases s) (auto simp: pack_from_items_def Let_def validated_eq_Inr elim!: rbind_InrE)

lemma set_items_in: "set (items_in s items) = {h. HitItem h \<in> set items \<and> section_for_hit h = s}"
proof (induction items)
  case (Cons i items)
  then show ?case by (cases i) (auto simp: items_in_def List.map_filter_simps)
qed (simp add: items_in_def List.map_filter_simps)

lemma set_conflicts_in: "set (conflicts_in items) = {g. ConflictItem g \<in> set items}"
proof (induction items)
  case (Cons i items)
  then show ?case by (cases i) (auto simp: conflicts_in_def List.map_filter_simps)
qed (simp add: conflicts_in_def List.map_filter_simps)

definition disclosed :: "context_pack \<Rightarrow> memory_hit set" where
  "disclosed p = set (pack_hits p) \<union> set (pack_conflict_members p)"

lemma disclosed_items:
  assumes "pack_from_items pid items flags = Inr p"
  shows "disclosed p = set (concat (map item_members items))"
proof -
  have "set (pack_hits p) = {h. HitItem h \<in> set items}"
    using pack_from_items_sound[OF assms] by (auto simp: set_pack_hits set_items_in)
  moreover have "set (pack_conflict_members p) = (\<Union>g \<in> {g. ConflictItem g \<in> set items}. set (cg_members g))"
    using pack_from_items_sound[OF assms] by (simp add: pack_conflict_members_def set_conflicts_in)
  moreover have "set (concat (map item_members items)) =
      {h. HitItem h \<in> set items} \<union> (\<Union>g \<in> {g. ConflictItem g \<in> set items}. set (cg_members g))"
  proof (induction items)
    case (Cons i items)
    then show ?case by (cases i) auto
  qed simp
  ultimately show ?thesis by (simp add: disclosed_def)
qed

definition prepared_hits :: "bool \<Rightarrow> memory_hit list \<Rightarrow> memory_hit list" where
  "prepared_hits include_evidence hits = (if include_evidence then hits else map without_evidence hits)"

definition prepared_conflicts :: "bool \<Rightarrow> conflict_group list \<Rightarrow> conflict_group list" where
  "prepared_conflicts include_evidence conflicts = (if include_evidence then conflicts else map strip_group conflicts)"

lemma assemble_context_pack_InrE:
  assumes "assemble_context_pack L model_dump rq inc hits conflicts = Inr r"
  obtains selected omitted eo m where
    "set selected \<subseteq> HitItem ` standalone (prepared_hits inc hits) (prepared_conflicts inc conflicts)
       \<union> ConflictItem ` set (prepared_conflicts inc conflicts)"
    "omitted \<or> selected = round_robin_items (prepared_hits inc hits) (prepared_conflicts inc conflicts)"
    "pack_from_items (pr_context_pack_id rq) selected
       \<lparr> fg_requested_scope_reduction = pr_requested_scope_reduction rq, fg_evidence_omitted = eo,
         fg_budget_truncated = omitted \<rparr> = Inr (cr_result r)"
    "r = sized_result (cr_result r) (final_frame rq eo omitted) m"
    "new_context_pack_result (cr_result r) (final_frame rq eo omitted) m = Inr r"
    "estimate_utf8_upper_bound L model_dump r = Inr m"
proof -
  let ?h = "prepared_hits inc hits" and ?c = "prepared_conflicts inc conflicts"
  from assms obtain eo selected omitted p m where sel:
      "select_items L model_dump rq eo [] False (round_robin_items ?h ?c) = Inr (selected, omitted)"
    and p: "pack_from_items (pr_context_pack_id rq) selected
       \<lparr> fg_requested_scope_reduction = pr_requested_scope_reduction rq, fg_evidence_omitted = eo,
         fg_budget_truncated = omitted \<rparr> = Inr p"
    and size: "result_with_size L model_dump p (final_frame rq eo omitted) = Inr (Some r, m)"
    unfolding assemble_context_pack_def Let_def prepared_hits_def prepared_conflicts_def
    by (auto elim!: rbind_InrE split: if_splits option.splits)
  note r = size_rounds_sound[OF size[unfolded result_with_size_def]]
  have rp: "cr_result r = p" using r by (simp add: sized_result_def)
  from select_items_sound[OF sel]
  have s: "set selected \<subseteq> set (round_robin_items ?h ?c)" "omitted \<or> selected = round_robin_items ?h ?c" by auto
  show ?thesis
  proof (rule that[of selected omitted eo m])
    show "r = sized_result (cr_result r) (final_frame rq eo omitted) m"
      "new_context_pack_result (cr_result r) (final_frame rq eo omitted) m = Inr r"
      "estimate_utf8_upper_bound L model_dump r = Inr m"
      using r unfolding rp by blast+
  qed (use s p in \<open>simp_all only: set_round_robin_items rp\<close>)
qed

text \<open>
  C13. A context pack accounts for its own size exactly: the unit count and the byte count it
  carries are the length of its own canonical serialisation, which exceeds neither the requested
  budget nor the hard response ceiling.
\<close>

theorem assemble_context_pack_bounded:
  assumes "assemble_context_pack L model_dump rq include_evidence hits conflicts = Inr r"
  shows "estimate_utf8_upper_bound L model_dump r = Inr (bm_used_units (cr_budget r))
    \<and> bm_serialized_bytes (cr_budget r) = bm_used_units (cr_budget r)
    \<and> bm_requested_units (cr_budget r) = pr_requested_units rq
    \<and> 1 \<le> bm_used_units (cr_budget r) \<and> bm_used_units (cr_budget r) \<le> pr_requested_units rq
    \<and> bm_used_units (cr_budget r) \<le> HARD_RESPONSE_BYTE_CEILING"
proof -
  from assms obtain eo omitted m where
      r: "r = sized_result (cr_result r) (final_frame rq eo omitted) m"
      and v: "new_context_pack_result (cr_result r) (final_frame rq eo omitted) m = Inr r"
      and m: "estimate_utf8_upper_bound L model_dump r = Inr m"
    by (rule assemble_context_pack_InrE) blast
  have "bm_used_units (cr_budget r) = m \<and> bm_serialized_bytes (cr_budget r) = m
      \<and> bm_requested_units (cr_budget r) = pr_requested_units rq"
    by (subst (1 2 3) r) (simp add: sized_result_def final_frame_def)
  with m new_context_pack_result_bounds[OF v] show ?thesis by (simp add: final_frame_def)
qed

text \<open>
  C14. What a context pack discloses: a hit stands in the section its category and scope assign it,
  comes from the hits the pack was built from, and is no member of a conflict; conflicts are
  included whole or not at all; no memory appears twice; every disclosed memory has its last event
  in the provenance and nothing else does; and a pack not marked truncated contains everything.
\<close>

theorem context_pack_contents:
  fixes hits :: "memory_hit list"
  assumes "assemble_context_pack L model_dump rq include_evidence hits conflicts = Inr r"
  defines "p \<equiv> cr_result r" and "hs \<equiv> prepared_hits include_evidence hits"
    and "gs \<equiv> prepared_conflicts include_evidence conflicts"
  shows "set (pack_section s p) \<subseteq> {h \<in> standalone hs gs. section_for_hit h = s}
    \<and> set (cp_conflicts p) \<subseteq> set gs
    \<and> distinct (map mh_memory_id (pack_hits p @ pack_conflict_members p))
    \<and> set (cp_provenance p) \<subseteq> provenance_of_hit ` disclosed p
    \<and> pv_event_id ` set (cp_provenance p) = mh_last_event_id ` disclosed p
    \<and> (bm_truncated (cr_budget r) \<or> set (pack_hits p) = standalone hs gs \<and> set (cp_conflicts p) = set gs)"
proof -
  from assms(1) obtain selected omitted eo m where
      sel: "set selected \<subseteq> HitItem ` standalone hs gs \<union> ConflictItem ` set gs"
      and all: "omitted \<or> selected = round_robin_items hs gs"
      and p: "pack_from_items (pr_context_pack_id rq) selected
       \<lparr> fg_requested_scope_reduction = pr_requested_scope_reduction rq, fg_evidence_omitted = eo,
         fg_budget_truncated = omitted \<rparr> = Inr p"
      and r: "r = sized_result p (final_frame rq eo omitted) m"
    unfolding p_def hs_def gs_def by (rule assemble_context_pack_InrE) blast
  note f = pack_from_items_sound[OF p] and d = disclosed_items[OF p]
  have sec: "set (pack_section s p) = {h. HitItem h \<in> set selected \<and> section_for_hit h = s}" for s
    using f[of s] by (simp add: set_items_in)
  have con: "set (cp_conflicts p) = {g. ConflictItem g \<in> set selected}"
    using f by (simp add: set_conflicts_in)
  have "distinct (map mh_memory_id (pack_hits p @ pack_conflict_members p))"
    using f validate_context_pack_ok[of p] by blast
  moreover have "set (pack_section s p) \<subseteq> {h \<in> standalone hs gs. section_for_hit h = s}"
    "set (cp_conflicts p) \<subseteq> set gs"
    unfolding sec con using sel by auto
  moreover have "set (pack_hits p) = standalone hs gs \<and> set (cp_conflicts p) = set gs" if "\<not> omitted"
    using all that unfolding set_pack_hits sec con by (auto simp: set_round_robin_items)
  moreover have "bm_truncated (cr_budget r) = omitted"
    by (subst r) (simp add: sized_result_def final_frame_def)
  ultimately show ?thesis
    using provenance_of_sound[of selected "cp_provenance p"] f unfolding d by blast
qed

end
