(* ===== verification/Read_Responses.thy ===== *)
theory Read_Responses
  imports Context_Pack JSON_Text
begin

text \<open>
  The responses of reads (\<^verbatim>\<open>retrieval/contracts.py\<close>) and the audit query over selection
  decisions with its cursors (\<^verbatim>\<open>application/queries.py\<close>, \<^verbatim>\<open>storage/selection_history.py\<close>).
\<close>

subsection \<open>Events and branches\<close>

record timeline_event =
  te_event_id :: uuid
  te_sequence :: int
  te_operation :: event_operation
  te_memory_id :: "uuid option"
  te_created_at :: utc

definition validate_timeline_event :: "timeline_event \<Rightarrow> unit result" where
  "validate_timeline_event e =
     rbind (reject_first [(\<not> safe_positive (te_sequence e), ''sequence'')]) (\<lambda>_.
     uuid7_fields [(''event_id'', Some (te_event_id e)), (''memory_id'', te_memory_id e)])"

record branch_view =
  bv_branch_id :: uuid
  bv_parent_branch_id :: "uuid option"
  bv_fork_event_sequence :: "int option"
  bv_name :: pystr
  bv_visibility_ceiling :: memory_visibility
  bv_sealed :: bool

definition validate_branch_view :: "branch_view \<Rightarrow> unit result" where
  "validate_branch_view b =
     rbind (reject_first
       [(\<not> opt_all safe_positive (bv_fork_event_sequence b), ''fork_event_sequence''),
        (\<not> str_between 1 255 (bv_name b), ''name'')]) (\<lambda>_.
     rbind (uuid7_fields [(''branch_id'', Some (bv_branch_id b)), (''parent_branch_id'', bv_parent_branch_id b)]) (\<lambda>_.
     reject_first
       [((bv_parent_branch_id b = None) \<noteq> (bv_fork_event_sequence b = None),
         ''branch parent and fork sequence must be supplied together'')]))"

subsection \<open>Selection decisions\<close>

record selection_decision_record =
  sd_selection_sequence :: int
  sd_decision_id :: uuid
  sd_policy_sha256 :: string
  sd_matched_rule_ids :: "string list"
  sd_outcome :: string
  sd_reason_codes :: "string list"
  sd_memory_id :: "uuid option"
  sd_event_id :: "uuid option"
  sd_decided_at :: utc

definition rule_pattern :: "string \<Rightarrow> bool" where
  "rule_pattern s \<longleftrightarrow> s \<noteq> [] \<and> hd s \<in> set ''abcdefghijklmnopqrstuvwxyz''
     \<and> list_all (\<lambda>c. c \<in> set ''abcdefghijklmnopqrstuvwxyz0123456789_.-'') s \<and> length s \<le> 128"

definition validate_decision_view :: "selection_decision_record \<Rightarrow> unit result" where
  "validate_decision_view d =
     rbind (reject_first
       [(\<not> safe_positive (sd_selection_sequence d), ''selection_sequence''),
        (\<not> hex_digest_ok (sd_policy_sha256 d), ''profile_sha256''),
        (16 < length (sd_matched_rule_ids d) \<or> \<not> list_all rule_pattern (sd_matched_rule_ids d), ''matched_rule_ids''),
        (sd_outcome d \<notin> {''omit'', ''reject'', ''candidate'', ''active'', ''promoted'', ''expired''}, ''outcome''),
        (8 < length (sd_reason_codes d)
           \<or> \<not> list_all (\<lambda>c. lower_snake c \<and> length c \<le> 128) (sd_reason_codes d), ''reason_codes'')]) (\<lambda>_.
     rbind (uuid7_fields
       [(''decision_id'', Some (sd_decision_id d)), (''memory_id'', sd_memory_id d), (''event_id'', sd_event_id d)]) (\<lambda>_.
     reject_first
       [(\<not> distinct (sd_matched_rule_ids d), ''matched selection rules must be unique''),
        (\<not> distinct (sd_reason_codes d), ''selection reason codes must be unique'')]))"

definition selection_decision :: "selection_decision_record \<Rightarrow> selection_decision_record result" where
  "selection_decision d = rbind (validated (validate_decision_view d)) (\<lambda>_. Inr d)"

record selection_history_filters =
  sf_tenant_id :: uuid
  sf_persona_id :: uuid
  sf_lineage_id :: uuid
  sf_branch_id :: uuid
  sf_allowed_scopes :: "memory_scope set"
  sf_allowed_visibilities :: "memory_visibility set"
  sf_max_sensitivity :: int
  sf_requested_subject_ids :: "uuid set option"
  sf_project_subject_ids :: "uuid set"
  sf_relationship_subject_ids :: "uuid set"
  sf_session_subject_ids :: "uuid set"
  sf_allowed_subject_kinds :: "subject_kind set option"
  sf_selection_bases :: "string set option"

definition SELECTION_BASES :: "string set" where
  "SELECTION_BASES = {''routine_banter'', ''explicit_user_correction'', ''explicit_user_preference'',
     ''explicit_user_permission'', ''verified_project_decision'', ''assistant_observation'', ''assistant_interpretation'',
     ''imported_legacy'', ''meaningful_episodic_anchor'', ''explicit_user_request''}"

definition validate_selection_history_filters :: "selection_history_filters \<Rightarrow> unit result" where
  "validate_selection_history_filters f = reject_first
     [(sf_allowed_scopes f = {}, ''selection history requires at least one allowed scope''),
      (sf_allowed_visibilities f = {}, ''selection history requires at least one allowed visibility''),
      (\<not> (0 \<le> sf_max_sensitivity f \<and> sf_max_sensitivity f \<le> 4), ''maximum sensitivity must be between zero and four''),
      (case sf_selection_bases f of None \<Rightarrow> False | Some b \<Rightarrow> b = {} \<or> \<not> b \<subseteq> SELECTION_BASES,
         ''selection bases must be a non-empty subset of the closed vocabulary'')]"

record decisions_query =
  dq_base :: query_base
  dq_selection_bases :: "string set"
  dq_requested_memory_scopes :: "memory_scope set"
  dq_requested_visibilities :: "memory_visibility set"
  dq_requested_subject_ids :: "uuid list"
  dq_requested_subject_kinds :: "subject_kind set"
  dq_max_sensitivity :: "int option"
  dq_cursor :: "pystr option"
  dq_limit :: nat

definition validate_decisions_query :: "decisions_query \<Rightarrow> unit result" where
  "validate_decisions_query q = validated
     (rbind (validate_query_base (dq_base q)) (\<lambda>_.
      rbind (reject_first
       [(\<not> dq_selection_bases q \<subseteq> SELECTION_BASES, ''selection_bases''),
        (128 < length (dq_requested_subject_ids q), ''requested_subject_ids''),
        (\<not> opt_all (\<lambda>s. 0 \<le> s \<and> s \<le> 4) (dq_max_sensitivity q), ''max_sensitivity''),
        (\<not> opt_all (str_between 1 4096) (dq_cursor q), ''cursor''),
        (dq_limit q < 1 \<or> 200 < dq_limit q, ''limit''),
        (\<not> distinct (dq_requested_subject_ids q), ''requested subject identifiers must be unique'')]) (\<lambda>_.
      uuid7_fields (map (\<lambda>u. (''requested_subject_id'', Some u)) (dq_requested_subject_ids q)))))"

subsection \<open>Cursors\<close>

definition SELECTION_CURSOR_PREFIX :: string where
  "SELECTION_CURSOR_PREFIX = ''selection-decisions-v2:''"

text \<open>URL-safe Base64 replaces two characters of the alphabet; the padding is stripped.\<close>

definition to_urlsafe :: "char \<Rightarrow> char" where
  "to_urlsafe c = (if c = CHR ''+'' then CHR ''-'' else if c = CHR ''/'' then CHR ''_'' else c)"

definition from_urlsafe :: "char \<Rightarrow> char" where
  "from_urlsafe c = (if c = CHR ''-'' then CHR ''+'' else if c = CHR ''_'' then CHR ''/'' else c)"

definition ascii_bytes_of :: "string \<Rightarrow> bytes" where
  "ascii_bytes_of s = map (\<lambda>c. of_nat (of_char c)) s"

definition encode_selection_cursor :: "int \<Rightarrow> pystr" where
  "encode_selection_cursor sequence =
     lit (map to_urlsafe (filter (\<lambda>c. c \<noteq> CHR ''='') (b64encode (ascii_bytes_of (SELECTION_CURSOR_PREFIX @ int_str sequence)))))"

text \<open>
  The lenient decoder of the standard library: characters outside the alphabet are skipped, a
  complete padding ends the input, and an unfinished group is an error.
\<close>

fun a2b_base64 :: "nat \<Rightarrow> nat \<Rightarrow> nat \<Rightarrow> string \<Rightarrow> bytes option" where
  "a2b_base64 quad pads left [] = (if quad = 0 then Some [] else None)"
| "a2b_base64 quad pads left (c # cs) =
     (if c = CHR ''='' then
        (if 2 \<le> quad \<and> 4 \<le> quad + pads + 1 then Some []
         else a2b_base64 quad (if 2 \<le> quad then pads + 1 else pads) left cs)
      else case b64_val c of
        None \<Rightarrow> a2b_base64 quad pads left cs
      | Some v \<Rightarrow>
          if quad = 0 then a2b_base64 1 0 v cs
          else if quad = 1 then map_option (Cons (of_nat (left * 4 + v div 16))) (a2b_base64 2 0 (v mod 16) cs)
          else if quad = 2 then map_option (Cons (of_nat (left * 16 + v div 4))) (a2b_base64 3 0 (v mod 4) cs)
          else map_option (Cons (of_nat (left * 64 + v))) (a2b_base64 0 0 0 cs))"

text \<open>The constructor \<^verbatim>\<open>int\<close> on bytes: surrounding white space, a sign, digits with single underscores between them.\<close>

definition ascii_space :: "char \<Rightarrow> bool" where
  "ascii_space c \<longleftrightarrow> c = CHR '' '' \<or> (9 \<le> (of_char c :: nat) \<and> (of_char c :: nat) \<le> 13)"

definition is_digit_char :: "char \<Rightarrow> bool" where
  "is_digit_char c \<longleftrightarrow> 48 \<le> (of_char c :: nat) \<and> (of_char c :: nat) \<le> 57"

fun digits_underscores :: "string \<Rightarrow> bool" where
  "digits_underscores [] = False"
| "digits_underscores [c] = is_digit_char c"
| "digits_underscores (c # d # cs) \<longleftrightarrow>
     is_digit_char c \<and> (if d = CHR ''_'' then cs \<noteq> [] \<and> digits_underscores cs else digits_underscores (d # cs))"

definition py_int :: "string \<Rightarrow> int option" where
  "py_int s =
     (let t = rev (dropWhile ascii_space (rev (dropWhile ascii_space s)));
          negative = (t \<noteq> [] \<and> hd t = CHR ''-'');
          u = (if t \<noteq> [] \<and> hd t \<in> {CHR ''-'', CHR ''+''} then tl t else t);
          ds = filter (\<lambda>c. c \<noteq> CHR ''_'') u
      in if \<not> digits_underscores u \<or> 4300 < length ds then None
         else Some (if negative then - int (nat_value ds) else int (nat_value ds)))"

definition starts_with :: "string \<Rightarrow> string \<Rightarrow> bool" where
  "starts_with p s \<longleftrightarrow> take (length p) s = p"

definition decode_selection_cursor :: "pystr option \<Rightarrow> int option result" where
  "decode_selection_cursor cursor =
     (case cursor of
        None \<Rightarrow> Inr None
      | Some c \<Rightarrow>
          if list_ex (\<lambda>x. 127 < x) c then Inl (ValueError ''invalid selection cursor'')
          else
            let encoded = map char_of c
            in case a2b_base64 0 0 0 (map from_urlsafe (encoded @ replicate ((4 - length encoded mod 4) mod 4) (CHR ''=''))) of
                 None \<Rightarrow> Inl (ValueError ''invalid selection cursor'')
               | Some payload \<Rightarrow>
                   let p = map (\<lambda>b. char_of (unat b)) payload
                   in if \<not> starts_with SELECTION_CURSOR_PREFIX p then Inl (ValueError ''invalid selection cursor'')
                      else case py_int (drop (length SELECTION_CURSOR_PREFIX) p) of
                        None \<Rightarrow> Inl (ValueError ''invalid selection cursor'')
                      | Some n \<Rightarrow> if n < 1 then Inl (ValueError ''invalid selection cursor'') else Inr (Some n))"

text \<open>A cursor that was handed out is read back as the sequence it stands for.\<close>

lemma a2b_base64_encode: "a2b_base64 0 0 0 (b64encode bs) = Some bs"
  by (induction bs rule: b64encode.induct)
    (simp_all add: b64_val_char b64_sextets b64_char_not_pad b64_octets div_mult_mod_eq del: of_nat_add of_nat_mult)

lemma b64encode_pad:
  "filter (\<lambda>c. c \<noteq> CHR ''='') (b64encode bs)
     @ replicate ((4 - length (filter (\<lambda>c. c \<noteq> CHR ''='') (b64encode bs)) mod 4) mod 4) (CHR ''='') = b64encode bs"
proof (induction bs rule: b64encode.induct)
  case (2 a)
  have "replicate 2 (CHR ''='') = ''==''" by (simp add: numeral_2_eq_2)
  then show ?case using b64_char_not_pad[OF b64_sextets(1)[of a]] b64_char_not_pad[OF b64_sextets(2)[of a]]
    by simp
next
  case (3 a b)
  have one: "(4 - Suc (Suc (Suc 0)) mod 4) mod 4 = Suc 0" by simp
  show ?case
    using b64_char_not_pad[OF b64_sextets(1)[of a]] b64_char_not_pad[OF b64_sextets(4)[of a b]]
      b64_char_not_pad[OF b64_sextets(3)[of b]] by (simp add: one)
next
  case (4 a b c bs)
  have shift: "Suc (Suc (Suc (Suc n))) mod 4 = n mod 4" for n by presburger
  have "b64_char (unat c mod 64) \<noteq> CHR ''=''" by (rule b64_char_not_pad) simp
  with 4 show ?case
    using b64_char_not_pad[OF b64_sextets(1)[of a]] b64_char_not_pad[OF b64_sextets(4)[of a b]]
      b64_char_not_pad[OF b64_sextets(5)[of b c]] by (simp add: shift)
qed simp

lemma urlsafe_inverse:
  assumes "c \<in> set (b64encode bs)"
  shows "from_urlsafe (to_urlsafe c) = c \<and> (of_char (to_urlsafe c) :: nat) < 128"
proof -
  have "n < 64 \<Longrightarrow> b64_char n \<in> set b64_alphabet" for n by (simp add: b64_char_def b64_alphabet_facts)
  then have "set (b64encode bs) \<subseteq> set b64_alphabet \<union> {CHR ''=''}"
    by (induction bs rule: b64encode.induct) (simp_all add: b64_sextets)
  moreover have "\<forall>c \<in> set (CHR ''='' # b64_alphabet). from_urlsafe (to_urlsafe c) = c \<and> (of_char (to_urlsafe c) :: nat) < 128"
    by (simp add: b64_alphabet_def from_urlsafe_def to_urlsafe_def)
  ultimately show ?thesis using assms by auto
qed

lemma nat_str_chars: "c \<in> set (nat_str n) \<Longrightarrow> is_digit_char c"
  using nat_str_digits[of n] by (auto simp: list_all_iff lit_def is_digit_def is_digit_char_def)

lemma digit_char_facts:
  assumes "is_digit_char c"
  shows "\<not> ascii_space c" "c \<noteq> CHR ''_''" "c \<noteq> CHR ''-''" "c \<noteq> CHR ''+''"
  using assms by (auto simp: is_digit_char_def ascii_space_def)

lemma digits_plain: "s \<noteq> [] \<Longrightarrow> list_all is_digit_char s \<Longrightarrow> digits_underscores s"
  by (induction s rule: digits_underscores.induct) (auto simp: digit_char_facts)

lemma py_int_nat_str:
  assumes "n < 10 ^ Suc k" "k \<le> 4299"
  shows "py_int (nat_str n) = Some (int n)"
proof -
  have ne: "nat_str n \<noteq> []" using nat_str_digits[of n] by simp
  have all: "list_all is_digit_char (nat_str n)" using nat_str_chars by (simp add: list_all_iff)
  then have strip: "dropWhile ascii_space (nat_str n) = nat_str n" "dropWhile ascii_space (rev (nat_str n)) = rev (nat_str n)"
    using ne digit_char_facts(1) by (cases "nat_str n", simp, simp add: list_all_iff)
      (cases "rev (nat_str n)", simp, metis (no_types, lifting) digit_char_facts(1) dropWhile.simps(2) list.set_intros(1) nat_str_chars set_rev)
  have hd: "hd (nat_str n) \<noteq> CHR ''-''" "hd (nat_str n) \<noteq> CHR ''+''"
    using ne nat_str_chars[of "hd (nat_str n)" n] digit_char_facts by auto
  have "filter (\<lambda>c. c \<noteq> CHR ''_'') (nat_str n) = nat_str n"
    using nat_str_chars digit_char_facts(2) by (intro filter_True) blast
  then show ?thesis
    using digits_plain[OF ne all] hd nat_str_length[OF assms(1)] assms(2) by (simp add: py_int_def strip nat_value_str)
qed

lemma unat_of_nat_char: "char_of (unat (of_nat (of_char c) :: 8 word)) = c"
proof -
  have "(of_char c :: nat) < 256" by simp
  then show ?thesis by (simp add: unat_of_nat take_bit_nat_eq_self)
qed

lemma selection_cursor_roundtrip:
  assumes "1 \<le> n" "n < 10 ^ Suc k" "k \<le> 4299"
  shows "decode_selection_cursor (Some (encode_selection_cursor n)) = Inr (Some n)"
proof -
  let ?text = "SELECTION_CURSOR_PREFIX @ nat_str (nat n)"
  let ?e = "filter (\<lambda>c. c \<noteq> CHR ''='') (b64encode (ascii_bytes_of ?text))"
  have enc: "encode_selection_cursor n = lit (map to_urlsafe ?e)"
    using assms(1) by (simp add: encode_selection_cursor_def int_str_def)
  have inverse_e: "map from_urlsafe (map to_urlsafe ?e) = ?e"
    unfolding map_map using urlsafe_inverse by (intro map_idI) auto
  have eq: "map from_urlsafe [CHR ''=''] = [CHR ''='']" by (simp add: from_urlsafe_def)
  have bytes: "a2b_base64 0 0 0 (map from_urlsafe (map to_urlsafe ?e
      @ replicate ((4 - length (map to_urlsafe ?e) mod 4) mod 4) (CHR ''=''))) = Some (ascii_bytes_of ?text)"
    using b64encode_pad[of "ascii_bytes_of ?text"] a2b_base64_encode[of "ascii_bytes_of ?text"] inverse_e eq
    by (simp add: map_replicate)
  have ascii: "map (\<lambda>b. char_of (unat b)) (ascii_bytes_of s) = s" for s
    unfolding ascii_bytes_of_def by (induction s) (simp_all add: unat_of_nat_char)
  have small: "\<not> list_ex (\<lambda>x. 127 < x) (lit (map to_urlsafe ?e))"
    using urlsafe_inverse[of _ "ascii_bytes_of ?text"] by (fastforce simp: list_ex_iff lit_def)
  have "py_int (nat_str (nat n)) = Some n" using py_int_nat_str[of "nat n" k] assms by (simp add: nat_less_iff)
  moreover have "map char_of (lit (map to_urlsafe ?e)) = map to_urlsafe ?e" by (simp add: lit_def comp_def)
  ultimately show ?thesis
    unfolding enc decode_selection_cursor_def
    using small bytes assms(1) by (simp add: Let_def ascii starts_with_def)
qed

subsection \<open>Responses\<close>

datatype read_error_code =
    INVALID_INPUT | UNAUTHENTICATED | FORBIDDEN | NOT_FOUND | INVALID_CURSOR | BUDGET_TOO_SMALL
  | DEPENDENCY_UNAVAILABLE_ERROR | INTERNAL_ERROR

fun safe_message :: "read_error_code \<Rightarrow> string" where
  "safe_message INVALID_INPUT = ''The read input is invalid.''"
| "safe_message UNAUTHENTICATED = ''Authentication is required.''"
| "safe_message FORBIDDEN = ''The authenticated caller is not permitted to perform this read.''"
| "safe_message NOT_FOUND = ''The requested resource was not found.''"
| "safe_message INVALID_CURSOR = ''The pagination cursor is invalid for this read.''"
| "safe_message BUDGET_TOO_SMALL = ''The requested budget cannot fit a valid result.''"
| "safe_message DEPENDENCY_UNAVAILABLE_ERROR = ''A required dependency is unavailable.''"
| "safe_message INTERNAL_ERROR = ''The read could not be completed.''"

record read_error_body =
  eb_code :: read_error_code
  eb_message :: string
  eb_retryable :: bool

definition error_body :: "read_error_code \<Rightarrow> bool \<Rightarrow> read_error_body" where
  "error_body code retryable = \<lparr> eb_code = code, eb_message = safe_message code, eb_retryable = retryable \<rparr>"

datatype read_response =
    ContextPackResponse context_pack_result
  | MemorySearchResult uuid "memory_hit list" "read_warning list" retrieval_profile_info
  | MemoryGetResult memory_hit "conflict_group list"
  | MemoryTimelineResult "timeline_event list"
  | MemoryConflictsResult "conflict_group list"
  | MemoryLineageResult branch_view
  | MemorySelectionHistoryResult "timeline_event list"
  | MemorySelectionDecisionsResult "selection_decision_record list" "pystr option" bool
  | ReadError read_error_body
  | ReadErrorV2 read_error_body

abbreviation read_error :: "read_error_code \<Rightarrow> read_response" where
  "read_error code \<equiv> ReadError (error_body code False)"

abbreviation read_error_v2 :: "read_error_code \<Rightarrow> read_response" where
  "read_error_v2 code \<equiv> ReadErrorV2 (error_body code False)"

definition new_pagination :: "pystr option \<Rightarrow> bool \<Rightarrow> unit result" where
  "new_pagination next_cursor has_more = validated (reject_first
     [(\<not> opt_all (str_between 1 4096) next_cursor, ''next_cursor''),
      (has_more \<noteq> (next_cursor \<noteq> None), ''pagination cursor and has_more must agree'')])"

definition new_search_result ::
    "uuid \<Rightarrow> memory_hit list \<Rightarrow> read_warning list \<Rightarrow> retrieval_profile_info \<Rightarrow> read_response result" where
  "new_search_result query_id hits warnings retrieval =
     rbind (validated (rbind (reject_first [(100 < length hits, ''hits'')]) (\<lambda>_.
        uuid7_fields [(''query_id'', Some query_id)]))) (\<lambda>_.
     rbind (validated (validate_warnings warnings)) (\<lambda>_. Inr (MemorySearchResult query_id hits warnings retrieval)))"

definition bounded_payload :: "nat \<Rightarrow> 'a list \<Rightarrow> read_response \<Rightarrow> read_response result" where
  "bounded_payload maximum items response =
     rbind (validated (reject_first [(maximum < length items, ''payload'')])) (\<lambda>_. Inr response)"

end
