(* ===== verification/Sealed_Content.thy ===== *)
theory Sealed_Content
  imports Ledger_Documents
begin

text \<open>
  Authenticated envelopes of sealed content (\<^verbatim>\<open>security/sealed_content.py\<close>, the key references
  of \<^verbatim>\<open>security/keys.py\<close>) and their use for memories (\<^verbatim>\<open>application/sealed_content.py\<close>). The
  cipher AES-256-GCM, the key provider and the validation library's JSON reader are arguments.
\<close>

subsection \<open>Contexts and additional data\<close>

record sealed_context =
  sx_tenant_id :: uuid
  sx_lineage_id :: uuid
  sx_branch_id :: uuid
  sx_memory_id :: uuid
  sx_content_key_id :: uuid
  sx_revision :: int
  sx_event_id :: uuid
  sx_schema_version :: int
  sx_payload_version :: int

definition small_positive :: "int \<Rightarrow> bool" where
  "small_positive i \<longleftrightarrow> 1 \<le> i \<and> i \<le> 32767"

definition validate_sealed_context :: "sealed_context \<Rightarrow> unit result" where
  "validate_sealed_context c =
     rbind (uuid7_fields
       [(''tenant_id'', Some (sx_tenant_id c)), (''lineage_id'', Some (sx_lineage_id c)),
        (''branch_id'', Some (sx_branch_id c)), (''memory_id'', Some (sx_memory_id c)),
        (''content_key_id'', Some (sx_content_key_id c)), (''event_id'', Some (sx_event_id c))]) (\<lambda>_.
     reject_first
       [(\<not> small_positive (sx_revision c), ''revision must be between 1 and 32767''),
        (\<not> small_positive (sx_schema_version c), ''schema_version must be between 1 and 32767''),
        (\<not> small_positive (sx_payload_version c), ''payload_version must be between 1 and 32767'')])"

definition aad_document :: "sealed_context \<Rightarrow> pyvalue" where
  "aad_document c = PyMapping 0
     [(PyStr (lit ''aad_contract''), PyStr (lit ''scalevault.sealed-content-aad.v1'')),
      (PyStr (lit ''algorithm''), PyStr (lit ''AES-256-GCM'')),
      (PyStr (lit ''branch_id''), PyUUID (sx_branch_id c)),
      (PyStr (lit ''content_key_id''), PyUUID (sx_content_key_id c)),
      (PyStr (lit ''event_id''), PyUUID (sx_event_id c)),
      (PyStr (lit ''lineage_id''), PyUUID (sx_lineage_id c)),
      (PyStr (lit ''memory_id''), PyUUID (sx_memory_id c)),
      (PyStr (lit ''payload_version''), PyInt (sx_payload_version c)),
      (PyStr (lit ''revision''), PyInt (sx_revision c)),
      (PyStr (lit ''schema_version''), PyInt (sx_schema_version c)),
      (PyStr (lit ''tenant_id''), PyUUID (sx_tenant_id c))]"

definition aad_bytes :: "'z codec_scheme \<Rightarrow> sealed_context \<Rightarrow> bytes result" where
  "aad_bytes L c = canonical_json_bytes L (aad_document c)"

subsection \<open>Envelopes\<close>

record content_envelope =
  ce_content_key_id :: uuid
  ce_nonce :: bytes
  ce_ciphertext :: bytes
  ce_aad_sha256 :: bytes
  ce_safe_summary :: pystr
  ce_envelope_version :: int
  ce_algorithm :: pystr

definition SEALED_ENVELOPE_VERSION :: int where "SEALED_ENVELOPE_VERSION = 1"
definition SEALED_ENVELOPE_CONTRACT :: pystr where "SEALED_ENVELOPE_CONTRACT = lit ''scalevault.sealed-content-envelope.v1''"
definition SEALED_ALGORITHM :: pystr where "SEALED_ALGORITHM = lit ''AES-256-GCM''"
definition MAX_SEALED_PLAINTEXT_BYTES :: nat where "MAX_SEALED_PLAINTEXT_BYTES = 700 * 1024"

definition safe_summary_ok :: "pystr \<Rightarrow> bool" where
  "safe_summary_ok s \<longleftrightarrow> 1 \<le> length s \<and> length s \<le> 1024 \<and> \<not> list_all py_isspace s \<and> utf8_size s \<le> 4096
     \<and> \<not> list_ex surrogate s"

text \<open>Every failed check of the constructor is reported as the one error without detail.\<close>

definition new_content_envelope :: "content_envelope \<Rightarrow> content_envelope result" where
  "new_content_envelope e =
     (if is_uuid7 (ce_content_key_id e) \<and> ce_envelope_version e = SEALED_ENVELOPE_VERSION
         \<and> ce_algorithm e = SEALED_ALGORITHM \<and> length (ce_nonce e) = 12
         \<and> 17 \<le> length (ce_ciphertext e) \<and> length (ce_ciphertext e) \<le> MAX_SEALED_PLAINTEXT_BYTES + 16
         \<and> length (ce_aad_sha256 e) = 32 \<and> safe_summary_ok (ce_safe_summary e)
      then Inr e else Inl InvalidSealedEnvelopeError)"

definition envelope_document :: "content_envelope \<Rightarrow> json_object" where
  "envelope_document e =
     [(lit ''contract_version'', JStr SEALED_ENVELOPE_CONTRACT), (lit ''envelope_version'', JInt (ce_envelope_version e)),
      (lit ''algorithm'', JStr (ce_algorithm e)), (lit ''content_key_id'', JStr (lit (uuid_str (ce_content_key_id e)))),
      (lit ''nonce'', JStr (lit (b64encode (ce_nonce e)))), (lit ''ciphertext'', JStr (lit (b64encode (ce_ciphertext e)))),
      (lit ''aad_sha256'', JStr (lit (bytes_hex (ce_aad_sha256 e)))), (lit ''safe_summary'', JStr (ce_safe_summary e))]"

definition ENVELOPE_FIELDS :: "pystr list" where
  "ENVELOPE_FIELDS = map lit [''contract_version'', ''envelope_version'', ''algorithm'', ''content_key_id'', ''nonce'',
     ''ciphertext'', ''aad_sha256'', ''safe_summary'']"

definition decode_canonical_base64 :: "pystr \<Rightarrow> bytes option" where
  "decode_canonical_base64 value =
     (if list_ex (\<lambda>c. 127 < c) value then None
      else case b64decode (string_of value) of
        Inl _ \<Rightarrow> None
      | Inr decoded \<Rightarrow> if lit (b64encode decoded) \<noteq> value then None else Some decoded)"

definition decode_uuid_text :: "pystr \<Rightarrow> uuid option" where
  "decode_uuid_text value =
     (case uuid_unstr (string_of value) of
        Inl _ \<Rightarrow> None
      | Inr u \<Rightarrow> if lit (uuid_str u) \<noteq> value then None else Some u)"

text \<open>
  A digest has 64 characters, none of them an upper-case letter; other characters outside the
  alphabet, and spaces, leave fewer than 32 bytes or none.
\<close>

definition decode_hex_text :: "pystr \<Rightarrow> bytes option" where
  "decode_hex_text value =
     (if length value \<noteq> 64 \<or> list_ex (\<lambda>c. 127 < c) value then None
      else case bytes_fromhex (string_of value) of Inl _ \<Rightarrow> None | Inr b \<Rightarrow> Some b)"

text \<open>A boolean is an integer for the type check and is refused by the check of the version.\<close>

definition envelope_from_document :: "json_object \<Rightarrow> content_envelope result" where
  "envelope_from_document d =
     (if set (map fst d) \<noteq> set ENVELOPE_FIELDS then Inl InvalidSealedEnvelopeError
      else case (dict_get d (lit ''contract_version''), dict_get d (lit ''content_key_id''), dict_get d (lit ''nonce''),
                 dict_get d (lit ''ciphertext''), dict_get d (lit ''aad_sha256''), dict_get d (lit ''envelope_version''),
                 dict_get d (lit ''algorithm''), dict_get d (lit ''safe_summary'')) of
        (Some (JStr contract), Some (JStr key), Some (JStr nonce), Some (JStr ciphertext), Some (JStr digest),
         Some (JInt version), Some (JStr algorithm), Some (JStr summary)) \<Rightarrow>
          (if contract \<noteq> SEALED_ENVELOPE_CONTRACT then Inl InvalidSealedEnvelopeError
           else case (decode_uuid_text key, decode_canonical_base64 nonce, decode_canonical_base64 ciphertext,
                      decode_hex_text digest) of
             (Some u, Some n, Some c, Some h) \<Rightarrow>
               new_content_envelope \<lparr> ce_content_key_id = u, ce_nonce = n, ce_ciphertext = c, ce_aad_sha256 = h,
                 ce_safe_summary = summary, ce_envelope_version = version, ce_algorithm = algorithm \<rparr>
           | _ \<Rightarrow> Inl InvalidSealedEnvelopeError)
      | _ \<Rightarrow> Inl InvalidSealedEnvelopeError)"

subsection \<open>Sealing and opening\<close>

text \<open>The authenticated cipher; a failure of the library is the absence of a value.\<close>

record aead =
  aes_encrypt :: "bytes \<Rightarrow> bytes \<Rightarrow> bytes \<Rightarrow> bytes \<Rightarrow> bytes option"
  aes_decrypt :: "bytes \<Rightarrow> bytes \<Rightarrow> bytes \<Rightarrow> bytes \<Rightarrow> bytes option"

definition seal_content ::
    "'z codec_scheme \<Rightarrow> aead \<Rightarrow> bytes \<Rightarrow> bytes \<Rightarrow> bytes \<Rightarrow> sealed_context \<Rightarrow> pystr \<Rightarrow> content_envelope result" where
  "seal_content L A nonce key plaintext context safe_summary =
     (if \<not> (1 \<le> length plaintext \<and> length plaintext \<le> MAX_SEALED_PLAINTEXT_BYTES) then Inl InvalidSealedEnvelopeError
      else if \<not> safe_summary_ok safe_summary then Inl InvalidSealedEnvelopeError
      else if length nonce \<noteq> 12 then Inl (SealedContentError ''sealed content encryption failed'')
      else rbind (aad_bytes L context) (\<lambda>aad.
        case aes_encrypt A key nonce plaintext aad of
          None \<Rightarrow> Inl (SealedContentError ''sealed content encryption failed'')
        | Some ciphertext \<Rightarrow> new_content_envelope
            \<lparr> ce_content_key_id = sx_content_key_id context, ce_nonce = nonce, ce_ciphertext = ciphertext,
              ce_aad_sha256 = sha256_digest L aad, ce_safe_summary = safe_summary,
              ce_envelope_version = SEALED_ENVELOPE_VERSION, ce_algorithm = SEALED_ALGORITHM \<rparr>))"

definition open_content ::
    "'z codec_scheme \<Rightarrow> aead \<Rightarrow> bytes \<Rightarrow> content_envelope \<Rightarrow> sealed_context \<Rightarrow> bytes result" where
  "open_content L A key envelope context =
     rbind (aad_bytes L context) (\<lambda>aad.
       if ce_content_key_id envelope \<noteq> sx_content_key_id context \<or> ce_aad_sha256 envelope \<noteq> sha256_digest L aad
       then Inl SealedContentAuthenticationError
       else case aes_decrypt A key (ce_nonce envelope) (ce_ciphertext envelope) aad of
         None \<Rightarrow> Inl SealedContentAuthenticationError
       | Some plaintext \<Rightarrow>
           if \<not> (1 \<le> length plaintext \<and> length plaintext \<le> MAX_SEALED_PLAINTEXT_BYTES)
           then Inl SealedContentAuthenticationError else Inr plaintext)"

record key_reference =
  kf_content_key_id :: uuid
  kf_provider_name :: pystr
  kf_provider_key_reference :: pystr

definition bounded_text :: "nat \<Rightarrow> pystr \<Rightarrow> bool" where
  "bounded_text maximum s \<longleftrightarrow> 1 \<le> length s \<and> length s \<le> maximum \<and> \<not> py_isspace (hd s) \<and> \<not> py_isspace (last s)
     \<and> list_all (\<lambda>c. 0x20 \<le> c \<and> c \<noteq> 0x7F) s"

definition validate_key_reference :: "key_reference \<Rightarrow> unit result" where
  "validate_key_reference r =
     rbind (uuid7_fields [(''content_key_id'', Some (kf_content_key_id r))]) (\<lambda>_.
     reject_first
       [(\<not> bounded_text 64 (kf_provider_name r), ''provider_name is invalid''),
        (\<not> bounded_text 512 (kf_provider_key_reference r), ''provider_key_reference is invalid'')])"

text \<open>What a provider returns: key material, whose constructor requires 32 bytes, or another object.\<close>

datatype provided_key = KeyMaterial bytes | OtherObject

definition new_key_material :: "bytes \<Rightarrow> provided_key result" where
  "new_key_material key = (if length key \<noteq> 32 then Inl KeyProviderError else Inr (KeyMaterial key))"

record key_provider =
  kp_name :: "pystr result"
  kp_get_key :: "key_reference \<Rightarrow> provided_key result"

definition key_from_provider :: "key_provider \<Rightarrow> key_reference \<Rightarrow> sealed_context \<Rightarrow> bytes result" where
  "key_from_provider provider reference context =
     (if kf_content_key_id reference \<noteq> sx_content_key_id context then Inl SealedContentKeyUnavailableError
      else case rbind (kp_name provider) (\<lambda>name.
             if name \<noteq> kf_provider_name reference then Inl SealedContentKeyUnavailableError
             else kp_get_key provider reference) of
        Inl _ \<Rightarrow> Inl SealedContentKeyUnavailableError
      | Inr OtherObject \<Rightarrow> Inl SealedContentKeyUnavailableError
      | Inr (KeyMaterial key) \<Rightarrow> Inr key)"

definition seal_with_provider ::
    "'z codec_scheme \<Rightarrow> aead \<Rightarrow> bytes \<Rightarrow> key_provider \<Rightarrow> key_reference \<Rightarrow> bytes \<Rightarrow> sealed_context \<Rightarrow> pystr \<Rightarrow>
     content_envelope result" where
  "seal_with_provider L A nonce provider reference plaintext context safe_summary =
     rbind (key_from_provider provider reference context) (\<lambda>key.
       seal_content L A nonce key plaintext context safe_summary)"

definition open_with_provider ::
    "'z codec_scheme \<Rightarrow> aead \<Rightarrow> key_provider \<Rightarrow> key_reference \<Rightarrow> content_envelope \<Rightarrow> sealed_context \<Rightarrow> bytes result" where
  "open_with_provider L A provider reference envelope context =
     rbind (key_from_provider provider reference context) (\<lambda>key. open_content L A key envelope context)"

subsection \<open>Sealed memories\<close>

definition sealed_request_ok :: "pystr \<Rightarrow> unit result" where
  "sealed_request_ok safe_summary = reject_first
     [(\<not> str_between 1 1024 safe_summary, ''safe_summary''),
      (list_all py_isspace safe_summary \<or> list_ex surrogate safe_summary \<or> 4096 < utf8_size safe_summary,
         ''sealed-content safe summary is invalid'')]"

record sealed_plaintext =
  sp_contract_version :: pystr
  sp_statement :: pystr
  sp_reason_to_remember :: pystr
  sp_interpretation_limits :: "pystr list"
  sp_metadata :: json_object

definition validate_sealed_plaintext :: "sealed_plaintext \<Rightarrow> unit result" where
  "validate_sealed_plaintext p = reject_first
     [(\<not> str_between 1 8192 (sp_statement p), ''statement''),
      (\<not> str_between 1 4096 (sp_reason_to_remember p), ''reason_to_remember''),
      (32 < length (sp_interpretation_limits p) \<or> \<not> list_all (str_between 1 1024) (sp_interpretation_limits p),
         ''interpretation_limits''),
      (128 < length (sp_metadata p), ''metadata''),
      (sp_contract_version p \<noteq> lit ''scalevault.sealed-memory-plaintext.v1'', ''sealed plaintext contract is unsupported''),
      (list_all py_isspace (sp_statement p) \<or> list_all py_isspace (sp_reason_to_remember p),
         ''sealed plaintext content is invalid''),
      (\<not> distinct (sp_interpretation_limits p), ''sealed interpretation limits must be unique'')]"

definition state_document :: "sealed_envelope \<Rightarrow> json_object" where
  "state_document s =
     [(lit ''contract_version'', JStr (lit (se_contract_version s))), (lit ''envelope_version'', JInt (se_envelope_version s)),
      (lit ''algorithm'', JStr (lit (se_algorithm s))), (lit ''content_key_id'', JStr (lit (uuid_str (se_content_key_id s)))),
      (lit ''nonce'', JStr (lit (se_nonce s))), (lit ''ciphertext'', JStr (lit (se_ciphertext s))),
      (lit ''aad_sha256'', JStr (lit (se_aad_sha256 s))), (lit ''safe_summary'', JStr (se_safe_summary s))]"

definition envelope_state :: "content_envelope \<Rightarrow> sealed_envelope result" where
  "envelope_state e =
     (let s = \<lparr> se_contract_version = string_of SEALED_ENVELOPE_CONTRACT, se_envelope_version = ce_envelope_version e,
            se_algorithm = string_of (ce_algorithm e), se_content_key_id = ce_content_key_id e,
            se_nonce = b64encode (ce_nonce e), se_ciphertext = b64encode (ce_ciphertext e),
            se_aad_sha256 = bytes_hex (ce_aad_sha256 e), se_safe_summary = ce_safe_summary e \<rparr>
      in rbind (validated (validate_sealed_envelope s)) (\<lambda>_. Inr s))"

definition envelope_primitive :: "sealed_envelope \<Rightarrow> content_envelope result" where
  "envelope_primitive s = envelope_from_document (state_document s)"

text \<open>
  Times and scores of a validated state are in normal form, so that validating it again leaves
  them as they are.
\<close>

definition revalidate_memory :: "memory \<Rightarrow> memory result" where
  "revalidate_memory m = validated
     (rbind (memory_field_constraints m) (\<lambda>_.
      rbind (memory_uuid7_fields m) (\<lambda>_.
      rbind (memory_model_validators m) (\<lambda>_. Inr m))))"

definition with_plaintext :: "memory \<Rightarrow> sealed_plaintext \<Rightarrow> memory" where
  "with_plaintext state p = state\<lparr> m_statement := Some (sp_statement p),
     m_reason_to_remember := Some (sp_reason_to_remember p), m_interpretation_limits := sp_interpretation_limits p,
     m_metadata := sp_metadata p, m_class := MemoryStateV2 (candidate_expires_at state) \<rparr>"

definition decrypt_memory_state ::
    "(key_reference \<Rightarrow> content_envelope \<Rightarrow> sealed_context \<Rightarrow> bytes result) \<Rightarrow> (bytes \<Rightarrow> sealed_plaintext result) \<Rightarrow>
     memory \<Rightarrow> sealed_envelope \<Rightarrow> key_reference \<Rightarrow> sealed_context \<Rightarrow> memory result" where
  "decrypt_memory_state opener read_plaintext state sealed reference context =
     rbind (envelope_primitive sealed) (\<lambda>envelope.
     rbind (opener reference envelope context) (\<lambda>plaintext_bytes.
       case rbind (read_plaintext plaintext_bytes) (\<lambda>p. rbind (validated (validate_sealed_plaintext p)) (\<lambda>_. Inr p)) of
         Inl _ \<Rightarrow> Inl (ValueError ''sealed memory plaintext is invalid'')
       | Inr p \<Rightarrow> revalidate_memory (with_plaintext state p)))"

text \<open>Keyed digests of sensitive material; HMAC-SHA-256 is an argument.\<close>

definition new_digest_binder :: "bytes \<Rightarrow> bytes result" where
  "new_digest_binder secret =
     (if length secret < 32 then Inl (ValueError ''sealed digest binding secret is invalid'') else Inr secret)"

definition binding_unavailable :: exn where
  "binding_unavailable = ValueError ''sealed digest binding unavailable''"

definition bind_digest :: "(bytes \<Rightarrow> bytes \<Rightarrow> bytes) \<Rightarrow> bytes \<Rightarrow> pystr \<Rightarrow> bytes \<Rightarrow> bytes result" where
  "bind_digest hmac secret purpose material =
     (if list_ex (\<lambda>c. 127 < c) purpose \<or> purpose = [] \<or> 64 < length purpose then Inl binding_unavailable
      else Inr (hmac secret (be_bytes 2 (length purpose) @ map of_nat purpose @ material)))"

definition bind_sealed_digest :: "(pystr \<Rightarrow> bytes \<Rightarrow> bytes result) option \<Rightarrow> pystr \<Rightarrow> bytes \<Rightarrow> bytes result" where
  "bind_sealed_digest binder purpose material =
     (case binder of
        None \<Rightarrow> Inl binding_unavailable
      | Some bind_with \<Rightarrow>
          (case bind_with purpose material of
             Inl _ \<Rightarrow> Inl binding_unavailable
           | Inr digest \<Rightarrow> if length digest \<noteq> 32 then Inl binding_unavailable else Inr digest))"

subsection \<open>Additional data identify the context\<close>

definition aad_members :: "sealed_context \<Rightarrow> (pystr \<times> json) list" where
  "aad_members c =
     [(lit ''aad_contract'', JStr (lit ''scalevault.sealed-content-aad.v1'')), (lit ''algorithm'', JStr (lit ''AES-256-GCM'')),
      (lit ''branch_id'', JStr (lit (uuid_str (sx_branch_id c)))),
      (lit ''content_key_id'', JStr (lit (uuid_str (sx_content_key_id c)))),
      (lit ''event_id'', JStr (lit (uuid_str (sx_event_id c)))), (lit ''lineage_id'', JStr (lit (uuid_str (sx_lineage_id c)))),
      (lit ''memory_id'', JStr (lit (uuid_str (sx_memory_id c)))), (lit ''payload_version'', JInt (sx_payload_version c)),
      (lit ''revision'', JInt (sx_revision c)), (lit ''schema_version'', JInt (sx_schema_version c)),
      (lit ''tenant_id'', JStr (lit (uuid_str (sx_tenant_id c))))]"

abbreviation aad_text :: "sealed_context \<Rightarrow> bytes" where
  "aad_text c \<equiv> flat_text (aad_members c)"

lemma valid_context_fields:
  assumes "validate_sealed_context c = Inr ()"
  shows "small_positive (sx_revision c)" "small_positive (sx_schema_version c)" "small_positive (sx_payload_version c)"
    "is_uuid7 (sx_content_key_id c)"
proof -
  from assms have "uuid7_fields
       [(''tenant_id'', Some (sx_tenant_id c)), (''lineage_id'', Some (sx_lineage_id c)),
        (''branch_id'', Some (sx_branch_id c)), (''memory_id'', Some (sx_memory_id c)),
        (''content_key_id'', Some (sx_content_key_id c)), (''event_id'', Some (sx_event_id c))] = Inr ()"
    and rest: "small_positive (sx_revision c) \<and> small_positive (sx_schema_version c) \<and> small_positive (sx_payload_version c)"
    unfolding validate_sealed_context_def rbind_eq_Inr reject_first_ok by auto
  then show "is_uuid7 (sx_content_key_id c)"
    by (auto simp: uuid7_field_def require_uuid7_def elim!: rbind_InrE split: if_splits)
  from rest show "small_positive (sx_revision c)" "small_positive (sx_schema_version c)" "small_positive (sx_payload_version c)"
    by blast+
qed

lemma aad_flat:
  assumes "validate_sealed_context c = Inr ()"
  shows "flat_members (aad_members c)"
  using valid_context_fields(1-3)[OF assms]
  by (auto simp: flat_members_def aad_members_def flat_value_def small_positive_def MAX_IJSON_INTEGER_def)

lemma aad_bytes_eq:
  assumes "rfc8785_plain L" "validate_sealed_context c = Inr ()"
  shows "aad_bytes L c = Inr (aad_text c)"
proof -
  have i: "normalize_integer (sx_revision c) = Inr (sx_revision c)"
    "normalize_integer (sx_schema_version c) = Inr (sx_schema_version c)"
    "normalize_integer (sx_payload_version c) = Inr (sx_payload_version c)"
    using valid_context_fields(1-3)[OF assms(2)] by (simp_all add: normalize_integer_ok small_positive_def MAX_IJSON_INTEGER_def)
  have v: "validate_string (lit t) = Inr (lit t)" for t by (simp add: validate_string_ok lit_no_surrogate)
  have "normalize_json_value L MAX_CANONICAL_JSON_DEPTH (aad_document c) = Inr (JObj (aad_members c))"
    by (simp add: normalize_json_value_def MAX_CANONICAL_JSON_DEPTH_def aad_document_def aad_members_def
        normalize.simps key_of_def v i)
  moreover note ok = flat_members_ok[OF aad_flat[OF assms(2)]]
  have "rfc8785_dumps L (JObj (aad_members c)) = Some (aad_text c)"
    using assms(1) ok(1-3) unfolding rfc8785_plain_def flat_text_def ok(5)[symmetric] by blast
  ultimately show ?thesis by (simp add: aad_bytes_def canonical_json_bytes_def)
qed

lemma uuid_str_inj: "uuid_str u = uuid_str v \<longleftrightarrow> u = v"
  by (metis uuid_unstr_str sum.inject(2))

lemma aad_text_inj:
  assumes "rfc8785_plain L" "validate_sealed_context c = Inr ()" "validate_sealed_context d = Inr ()"
    and "aad_text c = aad_text d"
  shows "c = d"
proof -
  have "sort_key (\<lambda>p. utf16 (fst p)) (aad_members c) = sort_key (\<lambda>p. utf16 (fst p)) (aad_members d)"
    using flat_document(2)[OF assms(1) aad_flat[OF assms(2)]] flat_document(2)[OF assms(1) aad_flat[OF assms(3)]] assms(4)
    by simp
  then have get: "dict_get (aad_members c) k = dict_get (aad_members d) k" for k
    using aad_flat[OF assms(2)] aad_flat[OF assms(3)] by (metis flat_members_def sorted_members(1))
  show ?thesis
    using get[of "lit ''branch_id''"] get[of "lit ''content_key_id''"] get[of "lit ''event_id''"] get[of "lit ''lineage_id''"]
      get[of "lit ''memory_id''"] get[of "lit ''payload_version''"] get[of "lit ''revision''"]
      get[of "lit ''schema_version''"] get[of "lit ''tenant_id''"]
    by (cases c, cases d) (simp add: aad_members_def uuid_str_inj)
qed

subsection \<open>Round trips\<close>

lemma envelope_document_roundtrip:
  assumes "new_content_envelope e = Inr e"
  shows "envelope_from_document (envelope_document e) = Inr e"
proof -
  have lit_small: "\<not> list_ex (\<lambda>c. 127 < c) t" if "safe_text t" for t
    using that by (auto simp: safe_text_def list_ex_iff list_all_iff)
  have safe_hex_lit: "safe_text (lit (bytes_hex b))" for b
    unfolding safe_lit using bytes_hex_is_hex[of b] safe_hex by (auto simp: list_all_iff is_hex_def)
  have len: "length (ce_aad_sha256 e) = 32" using assms by (auto simp: new_content_envelope_def split: if_splits)
  have dec: "decode_uuid_text (lit (uuid_str u)) = Some u" "decode_canonical_base64 (lit (b64encode b)) = Some b"
    "decode_hex_text (lit (bytes_hex (ce_aad_sha256 e))) = Some (ce_aad_sha256 e)" for u b
    using lit_small[OF b64encode_safe[of b]] lit_small[OF safe_hex_lit[of "ce_aad_sha256 e"]]
    by (simp_all add: decode_uuid_text_def uuid_unstr_str decode_canonical_base64_def b64decode_encode decode_hex_text_def
        bytes_fromhex_hex length_bytes_hex len) (simp add: lit_def length_bytes_hex len)
  have fields: "set (map fst (envelope_document e)) = set ENVELOPE_FIELDS"
    by (simp add: envelope_document_def ENVELOPE_FIELDS_def)
  show ?thesis
    using assms unfolding envelope_from_document_def fields by (simp add: envelope_document_def dec) (cases e, simp)
qed

text \<open>What the cipher is documented to do: with a 32-byte key and a 12-byte nonce it appends a 16-byte tag and decrypts again.\<close>

definition aead_lawful :: "aead \<Rightarrow> bool" where
  "aead_lawful A \<longleftrightarrow> (\<forall>key nonce plaintext aad. length key = 32 \<and> length nonce = 12 \<longrightarrow>
     (\<exists>c. aes_encrypt A key nonce plaintext aad = Some c \<and> length c = length plaintext + 16
       \<and> aes_decrypt A key nonce c aad = Some plaintext))"

lemma seal_content_eq:
  assumes "rfc8785_plain L" "sha256_length L" "aead_lawful A" "validate_sealed_context c = Inr ()"
    and "1 \<le> length p" "length p \<le> MAX_SEALED_PLAINTEXT_BYTES" "safe_summary_ok s" "length nonce = 12" "length key = 32"
  shows "\<exists>e. seal_content L A nonce key p c s = Inr e \<and> new_content_envelope e = Inr e
    \<and> ce_content_key_id e = sx_content_key_id c \<and> ce_aad_sha256 e = sha256 L (aad_text c)
    \<and> aes_decrypt A key (ce_nonce e) (ce_ciphertext e) (aad_text c) = Some p"
proof -
  obtain t where t: "aes_encrypt A key nonce p (aad_text c) = Some t" "length t = length p + 16"
      "aes_decrypt A key nonce t (aad_text c) = Some p"
    using assms(3,8,9) unfolding aead_lawful_def by blast
  let ?e = "\<lparr> ce_content_key_id = sx_content_key_id c, ce_nonce = nonce, ce_ciphertext = t,
    ce_aad_sha256 = sha256 L (aad_text c), ce_safe_summary = s,
    ce_envelope_version = SEALED_ENVELOPE_VERSION, ce_algorithm = SEALED_ALGORITHM \<rparr>"
  have new: "new_content_envelope ?e = Inr ?e"
    using t(2) assms valid_context_fields(4)[OF assms(4)] by (simp add: new_content_envelope_def sha256_length_def)
  then have "seal_content L A nonce key p c s = Inr ?e"
    using assms t(1) by (simp add: seal_content_def aad_bytes_eq sha256_digest_def)
  with new t(3) show ?thesis by (intro exI[of _ ?e]) simp
qed

text \<open>
  C16. Sealed content round trips: a plaintext within the limits can be sealed in any valid context,
  opening the envelope with the same key in the same context returns the plaintext, and the
  envelope survives its own JSON form.
\<close>

theorem sealed_content_roundtrip:
  assumes "rfc8785_plain L" "sha256_length L" "aead_lawful A" "validate_sealed_context context = Inr ()"
    and "1 \<le> length plaintext" "length plaintext \<le> MAX_SEALED_PLAINTEXT_BYTES" "safe_summary_ok safe_summary"
    and "length nonce = 12" "length key = 32"
  shows "\<exists>e. seal_content L A nonce key plaintext context safe_summary = Inr e
    \<and> open_content L A key e context = Inr plaintext \<and> envelope_from_document (envelope_document e) = Inr e"
proof -
  from seal_content_eq[OF assms] obtain e where e: "seal_content L A nonce key plaintext context safe_summary = Inr e"
    "new_content_envelope e = Inr e" "ce_content_key_id e = sx_content_key_id context"
    "ce_aad_sha256 e = sha256 L (aad_text context)"
    "aes_decrypt A key (ce_nonce e) (ce_ciphertext e) (aad_text context) = Some plaintext" by blast
  then have "open_content L A key e context = Inr plaintext"
    using assms by (simp add: open_content_def aad_bytes_eq sha256_digest_def)
  with e envelope_document_roundtrip[OF e(2)] show ?thesis by blast
qed

text \<open>
  C15. An envelope opens only where it was sealed: in any other context (another tenant, memory,
  revision, creating event or contract version) opening fails with the authentication error
  whatever key is supplied, provided the digests of the two contexts differ when their texts do.
\<close>

theorem sealed_content_bound:
  assumes "rfc8785_plain L" "validate_sealed_context c = Inr ()" "validate_sealed_context c' = Inr ()"
    and "inj_on (sha256 L) {aad_text c, aad_text c'}"
    and "seal_content L A nonce key plaintext c safe_summary = Inr e" "c' \<noteq> c"
  shows "open_content L A key' e c' = Inl SealedContentAuthenticationError"
proof -
  have "ce_aad_sha256 e = sha256 L (aad_text c)"
    using assms(5) unfolding seal_content_def aad_bytes_eq[OF assms(1,2)]
    by (auto simp: new_content_envelope_def sha256_digest_def split: if_splits option.splits)
  moreover have "sha256 L (aad_text c) \<noteq> sha256 L (aad_text c')"
    using assms(4,6) aad_text_inj[OF assms(1,2,3)] by (auto simp: inj_on_def)
  ultimately show ?thesis by (simp add: open_content_def aad_bytes_eq[OF assms(1,3)] sha256_digest_def)
qed

text \<open>
  C31. Opening through a provider fails closed: plaintext is returned exactly when the reference
  names the key of the context and of the envelope, the provider is the one named and supplies key
  material, the digest is that of the context and the cipher authenticates a plaintext within the
  limits. Every other outcome, whatever the provider raises, is one of two errors without detail.
\<close>

theorem open_with_provider_closed:
  assumes "rfc8785_plain L" "validate_sealed_context c = Inr ()"
  shows "(open_with_provider L A provider reference e c = Inr plaintext \<longleftrightarrow>
      kf_content_key_id reference = sx_content_key_id c \<and> kp_name provider = Inr (kf_provider_name reference)
      \<and> (\<exists>key. kp_get_key provider reference = Inr (KeyMaterial key)
           \<and> aes_decrypt A key (ce_nonce e) (ce_ciphertext e) (aad_text c) = Some plaintext)
      \<and> ce_content_key_id e = sx_content_key_id c \<and> ce_aad_sha256 e = sha256 L (aad_text c)
      \<and> 1 \<le> length plaintext \<and> length plaintext \<le> MAX_SEALED_PLAINTEXT_BYTES)
    \<and> (is_ok (open_with_provider L A provider reference e c)
      \<or> open_with_provider L A provider reference e c = Inl SealedContentAuthenticationError
      \<or> open_with_provider L A provider reference e c = Inl SealedContentKeyUnavailableError)"
proof -
  have o: "open_content L A key e c = Inr plaintext \<longleftrightarrow>
      ce_content_key_id e = sx_content_key_id c \<and> ce_aad_sha256 e = sha256 L (aad_text c)
      \<and> aes_decrypt A key (ce_nonce e) (ce_ciphertext e) (aad_text c) = Some plaintext
      \<and> 1 \<le> length plaintext \<and> length plaintext \<le> MAX_SEALED_PLAINTEXT_BYTES" for key
    by (auto simp: open_content_def aad_bytes_eq[OF assms] sha256_digest_def split: option.splits)
  have oe: "is_ok (open_content L A key e c) \<or> open_content L A key e c = Inl SealedContentAuthenticationError" for key
    by (auto simp: open_content_def aad_bytes_eq[OF assms] split: option.splits)
  have k: "key_from_provider provider reference c = Inr key \<longleftrightarrow>
      kf_content_key_id reference = sx_content_key_id c \<and> kp_name provider = Inr (kf_provider_name reference)
      \<and> kp_get_key provider reference = Inr (KeyMaterial key)" for key
    by (auto simp: key_from_provider_def rbind_def split: sum.splits provided_key.splits if_splits)
  have ke: "is_ok (key_from_provider provider reference c)
      \<or> key_from_provider provider reference c = Inl SealedContentKeyUnavailableError"
    by (auto simp: key_from_provider_def split: sum.splits provided_key.splits)
  show ?thesis
  proof (cases "key_from_provider provider reference c")
    case (Inl x)
    with ke k show ?thesis by (auto simp: open_with_provider_def)
  next
    case (Inr key)
    with k[of key] o[of key] oe[of key] show ?thesis by (auto simp: open_with_provider_def)
  qed
qed

subsection \<open>Opened memories\<close>

lemma decrypt_memory_state_keeps:
  assumes "decrypt_memory_state opener read_plaintext state sealed reference context = Inr m"
  shows "\<exists>p. m = with_plaintext state p"
  using assms by (auto simp: decrypt_memory_state_def revalidate_memory_def validated_eq_Inr elim!: rbind_InrE split: sum.splits)

subsection \<open>Witnesses\<close>

definition sealed_id :: "nat \<Rightarrow> uuid" where
  "sealed_id n = of_nat (0x70008000000000000000 + n)"

definition sample_context :: "int \<Rightarrow> sealed_context" where
  "sample_context revision = \<lparr> sx_tenant_id = sealed_id 2, sx_lineage_id = sealed_id 3, sx_branch_id = sealed_id 4,
     sx_memory_id = sealed_id 5, sx_content_key_id = sealed_id 6, sx_revision = revision, sx_event_id = sealed_id 7,
     sx_schema_version = 1, sx_payload_version = 3 \<rparr>"

text \<open>A cipher that only appends a tag, and a digest that tells the sample contexts apart.\<close>

definition sample_aead :: aead where
  "sample_aead = \<lparr> aes_encrypt = (\<lambda>_ _ p _. Some (p @ replicate 16 0)),
     aes_decrypt = (\<lambda>_ _ c _. Some (take (length c - 16) c)) \<rparr>"

definition sample_digest_codec :: codec where
  "sample_digest_codec = jcs_codec\<lparr> sha256 := (\<lambda>b. replicate 32 (if b = aad_text (sample_context 1) then 1 else 0)) \<rparr>"

lemma sample_sealed_laws:
  "rfc8785_plain sample_digest_codec" "sha256_length sample_digest_codec" "aead_lawful sample_aead"
  by (simp_all add: sample_digest_codec_def rfc8785_plain_def jcs_codec_def sha256_length_def aead_lawful_def sample_aead_def)

lemma sample_context_valid: "validate_sealed_context (sample_context 1) = Inr ()" "validate_sealed_context (sample_context 2) = Inr ()"
  by (simp_all add: validate_sealed_context_def sample_context_def uuid7_field_def require_uuid7_def sealed_id_def
      is_uuid7_def uuid_version_def uuid_variant_def small_positive_def)

lemma sample_summary_ok: "safe_summary_ok (lit ''tea'')"
  by (simp add: safe_summary_ok_def lit_def py_isspace_def surrogate_def utf8_size_def)

theorem sealed_content_roundtrip_witness:
  "\<exists>e. seal_content sample_digest_codec sample_aead (replicate 12 0) (replicate 32 0) [1, 2] (sample_context 1) (lit ''tea'') = Inr e
    \<and> open_content sample_digest_codec sample_aead (replicate 32 0) e (sample_context 1) = Inr [1, 2]
    \<and> envelope_from_document (envelope_document e) = Inr e"
  using sealed_content_roundtrip[OF sample_sealed_laws sample_context_valid(1) _ _ sample_summary_ok,
      of "[1, 2]" "replicate 12 0" "replicate 32 0"]
  by (simp add: MAX_SEALED_PLAINTEXT_BYTES_def)

lemma sample_sealed:
  "\<exists>e. seal_content sample_digest_codec sample_aead (replicate 12 0) (replicate 32 0) [1, 2] (sample_context 1) (lit ''tea'') = Inr e"
  using seal_content_eq[OF sample_sealed_laws sample_context_valid(1) _ _ sample_summary_ok,
      of "[1, 2]" "replicate 12 0" "replicate 32 0"]
  by (auto simp: MAX_SEALED_PLAINTEXT_BYTES_def)

theorem sealed_content_bound_witness:
  "\<exists>e. seal_content sample_digest_codec sample_aead (replicate 12 0) (replicate 32 0) [1, 2] (sample_context 1) (lit ''tea'') = Inr e
    \<and> open_content sample_digest_codec sample_aead (replicate 32 0) e (sample_context 2) = Inl SealedContentAuthenticationError"
proof -
  obtain e where e: "seal_content sample_digest_codec sample_aead (replicate 12 0) (replicate 32 0) [1, 2]
      (sample_context 1) (lit ''tea'') = Inr e" using sample_sealed by blast
  have ne: "sample_context 2 \<noteq> sample_context 1" by (simp add: sample_context_def)
  then have "aad_text (sample_context 2) \<noteq> aad_text (sample_context 1)"
    using aad_text_inj[OF sample_sealed_laws(1) sample_context_valid(2,1)] by blast
  then have "inj_on (sha256 sample_digest_codec) {aad_text (sample_context 1), aad_text (sample_context 2)}"
    by (simp add: inj_on_def sample_digest_codec_def)
  from sealed_content_bound[OF sample_sealed_laws(1) sample_context_valid this e ne] e show ?thesis by blast
qed

definition sample_provider :: key_provider where
  "sample_provider = \<lparr> kp_name = Inr (lit ''vault''), kp_get_key = (\<lambda>_. Inl KeyProviderError) \<rparr>"

definition sample_envelope :: content_envelope where
  "sample_envelope = \<lparr> ce_content_key_id = sealed_id 6, ce_nonce = replicate 12 0, ce_ciphertext = replicate 17 0,
     ce_aad_sha256 = replicate 32 0, ce_safe_summary = lit ''tea'', ce_envelope_version = 1, ce_algorithm = SEALED_ALGORITHM \<rparr>"

theorem open_with_provider_closed_witness:
  "open_with_provider sample_digest_codec sample_aead sample_provider
     \<lparr> kf_content_key_id = sealed_id 6, kf_provider_name = lit ''vault'', kf_provider_key_reference = lit ''a'' \<rparr> sample_envelope (sample_context 1)
     = Inl SealedContentKeyUnavailableError
   \<and> open_with_provider sample_digest_codec sample_aead sample_provider
     \<lparr> kf_content_key_id = sealed_id 6, kf_provider_name = lit ''vault'', kf_provider_key_reference = lit ''a'' \<rparr> sample_envelope (sample_context 1)
     \<noteq> Inr [1]"
  using open_with_provider_closed[OF sample_sealed_laws(1) sample_context_valid(1), of sample_aead sample_provider
      "\<lparr> kf_content_key_id = sealed_id 6, kf_provider_name = lit ''vault'', kf_provider_key_reference = lit ''a'' \<rparr>" sample_envelope "[1]"]
  by (simp add: open_with_provider_def key_from_provider_def sample_provider_def sample_context_def)

end
