(* ===== verification/Query_Engine.thy ===== *)
theory Query_Engine
  imports Read_Responses Sealed_Content
begin

text \<open>
  The read engine (\<^verbatim>\<open>application/queries.py\<close>): authorisation of the operation, resolution of
  the context, retrieval, ranking, conflict groups, opening of sealed memories and the shape of
  every response. The repository and the embedder are arguments: the engine is written against
  their protocols, and a read sees one snapshot, so that their answers are functions.
\<close>

subsection \<open>What the repository returns\<close>

record retrieval_filters =
  rf_tenant_id :: uuid
  rf_lineage_id :: uuid
  rf_branch_id :: uuid
  rf_allowed_scopes :: "memory_scope set"
  rf_allowed_visibilities :: "memory_visibility set"
  rf_allowed_statuses :: "memory_status set"
  rf_max_sensitivity :: int
  rf_requested_subject_ids :: "uuid set option"
  rf_project_subject_ids :: "uuid set"
  rf_relationship_subject_ids :: "uuid set"
  rf_session_subject_ids :: "uuid set"
  rf_allowed_subject_kinds :: "subject_kind set option"
  rf_allowed_categories :: "memory_category set option"
  rf_allowed_ontological_statuses :: "ontological_status set option"
  rf_valid_at :: "utc option"

definition new_retrieval_filters :: "retrieval_filters \<Rightarrow> retrieval_filters result" where
  "new_retrieval_filters f = rbind (reject_first
     [(rf_allowed_scopes f = {}, ''retrieval requires at least one allowed scope''),
      (rf_allowed_visibilities f = {}, ''retrieval requires at least one allowed visibility''),
      (rf_allowed_statuses f = {}, ''retrieval requires at least one allowed status''),
      (\<not> (0 \<le> rf_max_sensitivity f \<and> rf_max_sensitivity f \<le> 4), ''maximum sensitivity must be between zero and four'')])
     (\<lambda>_. Inr f)"

record ranked_candidate =
  rd_memory_id :: uuid
  rd_channel_rank :: int
  rd_channel_score :: rat

record hydrated_memory =
  hm_state :: memory
  hm_last_event_id :: uuid

record sealed_content_binding =
  sb_event_id :: uuid
  sb_revision :: int
  sb_schema_version :: int
  sb_payload_version :: int

record open_conflict_group =
  og_conflict_id :: uuid
  og_visible_memory_ids :: "uuid list"
  og_total_member_count :: nat

definition is_partial :: "open_conflict_group \<Rightarrow> bool" where
  "is_partial g \<longleftrightarrow> length (og_visible_memory_ids g) \<noteq> og_total_member_count g"

text \<open>The frozen sets of subjects as lists without duplicates, in their order of iteration.\<close>

record storage_context =
  st_lineage_id :: uuid
  st_branch_id :: uuid
  st_logical_session_id :: "uuid option"
  st_project_subject_ids :: "uuid list"
  st_relationship_subject_ids :: "uuid list"
  st_session_subject_ids :: "uuid list"

record lineage_metadata =
  lm_persona_id :: uuid
  lm_lineage_id :: uuid
  lm_branch_id :: uuid
  lm_parent_branch_id :: "uuid option"
  lm_fork_event_sequence :: "int option"
  lm_visibility_ceiling :: memory_visibility
  lm_sealed_at :: "utc option"

record timeline_entry =
  tl_sequence :: int
  tl_event_id :: uuid
  tl_operation :: string
  tl_memory_id :: "uuid option"
  tl_created_at :: utc

record 'v candidate_repository =
  cr_resolve_context :: "uuid \<Rightarrow> uuid \<Rightarrow> uuid \<Rightarrow> uuid \<Rightarrow> query_base \<Rightarrow> storage_context option result"
  cr_lexical_candidates :: "retrieval_filters \<Rightarrow> pystr \<Rightarrow> nat \<Rightarrow> ranked_candidate list result"
  cr_trigram_candidates :: "retrieval_filters \<Rightarrow> pystr \<Rightarrow> nat \<Rightarrow> ranked_candidate list result"
  cr_vector_candidates :: "retrieval_filters \<Rightarrow> 'v \<Rightarrow> nat \<Rightarrow> ranked_candidate list result"
  cr_hydrate_memories :: "retrieval_filters \<Rightarrow> uuid list \<Rightarrow> hydrated_memory list result"
  cr_get_memory :: "retrieval_filters \<Rightarrow> uuid \<Rightarrow> hydrated_memory option result"
  cr_content_key_reference :: "uuid \<Rightarrow> uuid \<Rightarrow> uuid \<Rightarrow> uuid \<Rightarrow> key_reference option result"
  cr_sealed_content_binding ::
    "uuid \<Rightarrow> uuid \<Rightarrow> uuid \<Rightarrow> uuid \<Rightarrow> uuid \<Rightarrow> sealed_envelope \<Rightarrow> sealed_content_binding option result"
  cr_open_conflict_members :: "retrieval_filters \<Rightarrow> uuid list \<Rightarrow> (uuid, open_conflict_group) dict result"
  cr_find_open_conflicts :: "retrieval_filters \<Rightarrow> uuid \<Rightarrow> nat \<Rightarrow> (uuid, open_conflict_group) dict result"
  cr_timeline :: "retrieval_filters \<Rightarrow> utc option \<Rightarrow> utc option \<Rightarrow> int option \<Rightarrow> nat \<Rightarrow> timeline_entry list result"
  cr_lineage_metadata :: "uuid \<Rightarrow> uuid \<Rightarrow> uuid \<Rightarrow> lineage_metadata option result"
  cr_selection_events :: "retrieval_filters \<Rightarrow> int option \<Rightarrow> nat \<Rightarrow> timeline_entry list result"
  cr_list_decisions :: "selection_history_filters \<Rightarrow> int option \<Rightarrow> nat \<Rightarrow> selection_decision_record list result"

text \<open>
  The engine with its collaborators, and what a call takes from outside: the clock, a fresh
  identifier, the order in which a set is iterated, the power of the recency curve, the digest of
  the profile, the serialiser and the dump of the validation library.
\<close>

record 'v query_engine =
  qe_repository :: "'v candidate_repository"
  qe_embed_query :: "(uuid \<Rightarrow> pystr \<Rightarrow> 'v result) option"
  qe_key_provider :: "key_provider option"
  qe_content_opener :: "key_provider \<Rightarrow> key_reference \<Rightarrow> content_envelope \<Rightarrow> sealed_context \<Rightarrow> bytes result"
  qe_read_plaintext :: "bytes \<Rightarrow> sealed_plaintext result"
  qe_now :: utc
  qe_new_uuid7 :: uuid
  qe_iterate :: "uuid set \<Rightarrow> uuid list"
  qe_half_power :: "rat \<Rightarrow> rat"
  qe_profile_sha256 :: string
  qe_codec :: codec
  qe_model_dump :: "context_pack_result \<Rightarrow> pyvalue"

subsection \<open>Shaping\<close>

definition opt_set :: "'a set \<Rightarrow> 'a set option" where
  "opt_set s = (if s = {} then None else Some s)"

definition storage_filters ::
    "query_principal \<Rightarrow> resolved_read_context \<Rightarrow> storage_context \<Rightarrow> utc memory_filters \<Rightarrow> retrieval_filters result" where
  "storage_filters caller context anchors requested =
     (let scopes = qp_allowed_memory_scopes caller;
          scopes = (if mf_scopes requested \<noteq> {} then scopes \<inter> mf_scopes requested else scopes);
          visibilities = qp_allowed_visibilities caller;
          visibilities = (if mf_visibilities requested \<noteq> {} then visibilities \<inter> mf_visibilities requested else visibilities);
          statuses = {ACTIVE, DISPUTED} \<union> (if qp_allow_candidates caller \<and> mf_include_candidates requested then {CANDIDATE} else {})
      in new_retrieval_filters
        \<lparr> rf_tenant_id = qp_tenant_id caller, rf_lineage_id = rc_lineage_id context, rf_branch_id = rc_branch_id context,
          rf_allowed_scopes = scopes, rf_allowed_visibilities = visibilities, rf_allowed_statuses = statuses,
          rf_max_sensitivity = qp_max_sensitivity caller, rf_requested_subject_ids = opt_set (set (mf_subject_ids requested)),
          rf_project_subject_ids = set (st_project_subject_ids anchors),
          rf_relationship_subject_ids = set (st_relationship_subject_ids anchors),
          rf_session_subject_ids = set (st_session_subject_ids anchors),
          rf_allowed_subject_kinds = opt_set (mf_subject_kinds requested), rf_allowed_categories = opt_set (mf_categories requested),
          rf_allowed_ontological_statuses = opt_set (mf_ontological_statuses requested), rf_valid_at = mf_valid_at requested \<rparr>)"

definition candidate :: "memory \<Rightarrow> eligibility_candidate" where
  "candidate m =
     \<lparr> ec_tenant_id = m_tenant_id m, ec_lineage_id = m_lineage_id m, ec_branch_id = m_branch_id m,
       ec_memory_id = m_memory_id m, ec_subject_id = m_subject_id m, ec_subject_kind = m_subject_kind m,
       ec_category = m_category m, ec_ontological_status = m_ontological_status m, ec_scope = m_scope m,
       ec_visibility = m_visibility m, ec_sensitivity = m_sensitivity m, ec_status = m_status m,
       ec_origin_session_id = m_origin_session_id m, ec_valid_from = m_valid_from m, ec_valid_to = m_valid_to m \<rparr>"

definition new_candidate :: "memory \<Rightarrow> eligibility_candidate result" where
  "new_candidate m = rbind (validated (validate_eligibility_candidate (candidate m))) (\<lambda>_. Inr (candidate m))"

definition modifiers :: "'v query_engine \<Rightarrow> memory \<Rightarrow> score_modifiers result" where
  "modifiers E m = score_modifiers_v1 (qe_half_power E) 1 (m_authority_class m) (dec_value (m_confidence m))
     (dec_value (m_salience m)) (m_category m) (m_observed_at m) (qe_now E)"

definition hit :: "memory \<Rightarrow> memory_score \<Rightarrow> uuid \<Rightarrow> memory_hit result" where
  "hit m score last_event_id =
     (case m_statement m of
        None \<Rightarrow> Inl (ValueError ''retrieved memory has no statement'')
      | Some statement \<Rightarrow>
          let h = \<lparr> mh_memory_id = m_memory_id m, mh_revision = m_revision m, mh_last_event_id = last_event_id,
                mh_branch_id = m_branch_id m, mh_subject_id = m_subject_id m, mh_subject_kind = m_subject_kind m,
                mh_category = m_category m, mh_ontological_status = m_ontological_status m, mh_scope = m_scope m,
                mh_visibility = m_visibility m, mh_status = m_status m, mh_statement = statement,
                mh_reason_to_remember = m_reason_to_remember m, mh_interpretation_limits = m_interpretation_limits m,
                mh_authority_class = m_authority_class m, mh_valid_from = m_valid_from m, mh_valid_to = m_valid_to m,
                mh_observed_at = m_observed_at m, mh_score = score, mh_explanation_codes = [], mh_evidence = [] \<rparr>
          in rbind (validated (validate_memory_hit h)) (\<lambda>_. Inr h))"

definition new_timeline_event :: "timeline_entry \<Rightarrow> timeline_event result" where
  "new_timeline_event entry =
     (case List.find (\<lambda>op. event_operation_value op = tl_operation entry) event_operations of
        None \<Rightarrow> Inl (ValueError ''EventOperation'')
      | Some op \<Rightarrow>
          let e = \<lparr> te_event_id = tl_event_id entry, te_sequence = tl_sequence entry, te_operation = op,
                te_memory_id = tl_memory_id entry, te_created_at = tl_created_at entry \<rparr>
          in rbind (validated (validate_timeline_event e)) (\<lambda>_. Inr e))"

definition new_branch_view :: "lineage_metadata \<Rightarrow> branch_view result" where
  "new_branch_view v =
     (let b = \<lparr> bv_branch_id = lm_branch_id v, bv_parent_branch_id = lm_parent_branch_id v,
            bv_fork_event_sequence = lm_fork_event_sequence v, bv_name = lit ''current'',
            bv_visibility_ceiling = lm_visibility_ceiling v, bv_sealed = (lm_sealed_at v \<noteq> None) \<rparr>
      in rbind (validated (validate_branch_view b)) (\<lambda>_. Inr b))"

definition retrieval_profile_of :: "'v query_engine \<Rightarrow> bool \<Rightarrow> retrieval_profile_info" where
  "retrieval_profile_of E semantic_available =
     (let available = \<lparr> ch_availability = AVAILABLE, ch_reason = None \<rparr>
      in \<lparr> ri_sha256 = qe_profile_sha256 E, ri_active_embedding_model_id = None, ri_lexical = available,
           ri_trigram = available,
           ri_semantic = (if semantic_available then available
             else \<lparr> ch_availability = UNAVAILABLE, ch_reason = Some DEPENDENCY_UNAVAILABLE \<rparr>) \<rparr>)"

text \<open>The keys of a dictionary built from a sequence: first occurrences, in order.\<close>

definition fromkeys :: "'a list \<Rightarrow> 'a list" where
  "fromkeys xs = rev (remdups (rev xs))"

definition dict_of :: "('k \<times> 'v) list \<Rightarrow> ('k, 'v) dict" where
  "dict_of ps = fold (\<lambda>p. dict_set (fst p) (snd p)) ps []"

definition dict_update :: "('k, 'v) dict \<Rightarrow> ('k, 'v) dict \<Rightarrow> ('k, 'v) dict" where
  "dict_update d e = fold (\<lambda>p. dict_set (fst p) (snd p)) e d"

fun query_filters :: "utc direct_read_query \<Rightarrow> utc memory_filters" where
  "query_filters (MemorySearchQuery b q filters l e) = filters"
| "query_filters (MemoryTimelineQuery b s e filters l) = filters"
| "query_filters (ContextPackQuery b q scopes t) = no_filters\<lparr> mf_scopes := scopes \<rparr>"
| "query_filters _ = no_filters"

subsection \<open>Retrieval\<close>

text \<open>The state every step of one read shares.\<close>

record 'v read_frame =
  fr_engine :: "'v query_engine"
  fr_caller :: query_principal
  fr_context :: resolved_read_context
  fr_filters :: retrieval_filters
  fr_requested :: "utc memory_filters"
  fr_query :: "utc direct_read_query"

abbreviation repo :: "'v read_frame \<Rightarrow> 'v candidate_repository" where
  "repo F \<equiv> qe_repository (fr_engine F)"

definition decide :: "'v read_frame \<Rightarrow> memory \<Rightarrow> eligibility_decision result" where
  "decide F m = rbind (new_candidate m) (\<lambda>c.
     Inr (evaluate_eligibility (fr_caller F) (fr_context F) c (fr_query F) (fr_requested F) (qe_now (fr_engine F))))"

definition eligible :: "'v read_frame \<Rightarrow> memory \<Rightarrow> bool result" where
  "eligible F m = rbind (decide F m) (\<lambda>d. Inr (ed_eligible d))"

fun filter_result :: "('a \<Rightarrow> bool result) \<Rightarrow> 'a list \<Rightarrow> 'a list result" where
  "filter_result f [] = Inr []"
| "filter_result f (x # xs) = rbind (f x) (\<lambda>b. rbind (filter_result f xs) (\<lambda>ys. Inr (if b then x # ys else ys)))"

definition new_source_ranking :: "retrieval_source \<Rightarrow> uuid list \<Rightarrow> source_ranking result" where
  "new_source_ranking source memory_ids =
     (let r = \<lparr> sr_source = source, sr_memory_ids = memory_ids \<rparr>
      in rbind (validated (validate_source_ranking r)) (\<lambda>_. Inr r))"

definition modifiers_by_memory :: "'v query_engine \<Rightarrow> hydrated_memory list \<Rightarrow> (uuid, score_modifiers) dict result" where
  "modifiers_by_memory E memories =
     rbind (traverse (\<lambda>x. rbind (modifiers E (hm_state x)) (\<lambda>m. Inr (m_memory_id (hm_state x), m))) memories) (\<lambda>ps.
       Inr (dict_of ps))"

definition vector_channel :: "'v read_frame \<Rightarrow> pystr \<Rightarrow> nat \<Rightarrow> ranked_candidate list \<times> read_warning list" where
  "vector_channel F text depth =
     (case qe_embed_query (fr_engine F) of
        None \<Rightarrow> ([], [EMBEDDINGS_UNAVAILABLE])
      | Some embed_text \<Rightarrow>
          (case rbind (embed_text (qp_tenant_id (fr_caller F)) text) (\<lambda>v. cr_vector_candidates (repo F) (fr_filters F) v depth) of
             Inl _ \<Rightarrow> ([], [EMBEDDINGS_UNAVAILABLE])
           | Inr vector \<Rightarrow> (vector, [])))"

definition ranked_hit :: "(uuid, hydrated_memory) dict \<Rightarrow> ranked_memory \<Rightarrow> memory_hit result" where
  "ranked_hit by_id r =
     (case dict_get by_id (rk_memory_id r) of
        None \<Rightarrow> Inl (KeyError ''by_id'')
      | Some x \<Rightarrow> hit (hm_state x) (rk_score r) (hm_last_event_id x))"

definition rank_found :: "'v read_frame \<Rightarrow> source_ranking list \<Rightarrow> hydrated_memory list \<Rightarrow> memory_hit list result" where
  "rank_found F rankings found =
     rbind (filter_result (\<lambda>x. eligible F (hm_state x)) found) (\<lambda>memories.
     let by_id = dict_of (map (\<lambda>x. (m_memory_id (hm_state x), x)) memories)
     in rbind (modifiers_by_memory (fr_engine F) memories) (\<lambda>mods.
        rbind (weighted_rrf_v1 (qe_iterate (fr_engine F)) rankings mods) (\<lambda>ranked.
          traverse (ranked_hit by_id) (filter (\<lambda>r. dict_has by_id (rk_memory_id r)) ranked))))"

definition ranked_hits :: "'v read_frame \<Rightarrow> pystr \<Rightarrow> nat \<Rightarrow> (memory_hit list \<times> read_warning list) result" where
  "ranked_hits F text requested_limit =
     (let depth = min 500 (max 100 (requested_limit * 4)); ids = map rd_memory_id
      in rbind (cr_lexical_candidates (repo F) (fr_filters F) text depth) (\<lambda>lexical.
         rbind (cr_trigram_candidates (repo F) (fr_filters F) text depth) (\<lambda>trigram.
         let (vector, warnings) = vector_channel F text depth
         in rbind (traverse (\<lambda>(source, values). new_source_ranking source (ids values))
              (filter (\<lambda>(source, values). values \<noteq> []) [(LEXICAL, lexical), (TRIGRAM, trigram), (SEMANTIC, vector)])) (\<lambda>rankings.
            rbind (cr_hydrate_memories (repo F) (fr_filters F) (fromkeys (ids lexical @ ids trigram @ ids vector))) (\<lambda>found.
            rbind (rank_found F rankings found) (\<lambda>hits. Inr (hits, warnings)))))))"

text \<open>One group: skipped when it is partial, incompletely read or not wholly eligible.\<close>

definition group_member :: "(uuid, memory_score) dict \<Rightarrow> hydrated_memory \<Rightarrow> memory_hit result" where
  "group_member scores x =
     (case dict_get scores (m_memory_id (hm_state x)) of
        None \<Rightarrow> Inl (KeyError ''scores'')
      | Some score \<Rightarrow> hit (hm_state x) score (hm_last_event_id x))"

definition new_conflict_group :: "uuid \<Rightarrow> memory_hit list \<Rightarrow> conflict_group result" where
  "new_conflict_group conflict_id members =
     (let g = \<lparr> cg_conflict_id = conflict_id, cg_subject_id = mh_subject_id (hd members), cg_members = members \<rparr>
      in rbind (validated (validate_conflict_group g)) (\<lambda>_. Inr g))"

definition score_group :: "'v query_engine \<Rightarrow> hydrated_memory list \<Rightarrow> memory_hit list result" where
  "score_group E memories =
     rbind (new_source_ranking LEXICAL (map (\<lambda>x. m_memory_id (hm_state x)) memories)) (\<lambda>ranking.
     rbind (modifiers_by_memory E memories) (\<lambda>mods.
     rbind (weighted_rrf_v1 (qe_iterate E) [ranking] mods) (\<lambda>ranked.
       traverse (group_member (dict_of (map (\<lambda>r. (rk_memory_id r, rk_score r)) ranked))) memories)))"

definition hydrate_group :: "'v read_frame \<Rightarrow> open_conflict_group \<Rightarrow> conflict_group option result" where
  "hydrate_group F og =
     (if is_partial og then Inr None
      else rbind (cr_hydrate_memories (repo F) (fr_filters F) (og_visible_memory_ids og)) (\<lambda>memories.
           rbind (traverse (\<lambda>x. decide F (hm_state x)) memories) (\<lambda>decisions.
           if length memories \<noteq> og_total_member_count og \<or> \<not> conflict_group_eligible decisions then Inr None
           else rbind (score_group (fr_engine F) memories) (\<lambda>members.
                rbind (new_conflict_group (og_conflict_id og) members) (\<lambda>g. Inr (Some g))))))"

definition hydrate_conflict_groups ::
    "'v read_frame \<Rightarrow> (uuid, open_conflict_group) dict \<Rightarrow> conflict_group list result" where
  "hydrate_conflict_groups F groups =
     rbind (traverse (hydrate_group F) (map snd groups)) (\<lambda>gs. Inr (List.map_filter id gs))"

definition conflicts_of :: "'v read_frame \<Rightarrow> memory_hit list \<Rightarrow> conflict_group list result" where
  "conflicts_of F hits =
     rbind (cr_open_conflict_members (repo F) (fr_filters F) (map mh_memory_id hits)) (\<lambda>groups.
       hydrate_conflict_groups F groups)"

text \<open>Every exception while a sealed memory is opened means that there is nothing to disclose.\<close>

definition open_sealed_memory :: "'v read_frame \<Rightarrow> memory \<Rightarrow> memory option result" where
  "open_sealed_memory F m =
     (case (sealed_content m, qe_key_provider (fr_engine F), m_content_key_id m) of
        (Some sealed, Some provider, Some key_id) \<Rightarrow>
          rbind (cr_sealed_content_binding (repo F) (m_tenant_id m) (m_lineage_id m) (m_branch_id m) (m_memory_id m) key_id sealed)
            (\<lambda>binding. case binding of None \<Rightarrow> Inr None | Some b \<Rightarrow>
          rbind (cr_content_key_reference (repo F) (m_tenant_id m) (m_lineage_id m) (m_memory_id m) key_id)
            (\<lambda>reference. case reference of None \<Rightarrow> Inr None | Some r \<Rightarrow>
              let context = \<lparr> sx_tenant_id = m_tenant_id m, sx_lineage_id = m_lineage_id m, sx_branch_id = m_branch_id m,
                    sx_memory_id = m_memory_id m, sx_content_key_id = key_id, sx_revision = sb_revision b,
                    sx_event_id = sb_event_id b, sx_schema_version = sb_schema_version b,
                    sx_payload_version = sb_payload_version b \<rparr>
              in Inr (case rbind (validate_sealed_context context) (\<lambda>_.
                        decrypt_memory_state (qe_content_opener (fr_engine F) provider) (qe_read_plaintext (fr_engine F))
                          m sealed r context) of
                        Inl _ \<Rightarrow> None | Inr opened \<Rightarrow> Some opened)))
      | _ \<Rightarrow> Inr None)"

subsection \<open>Dispatch\<close>

definition search_page :: "nat \<Rightarrow> memory_hit list \<Rightarrow> conflict_group list \<Rightarrow> memory_hit list" where
  "search_page limit hits conflicts =
     (let conflict_members = dict_of (map (\<lambda>m. (mh_memory_id m, m)) (concat (map cg_members conflicts)));
          expanded = dict_update (dict_of (map (\<lambda>h. (mh_memory_id h, h)) hits)) conflict_members;
          page = take limit (sort_key hit_key (map snd expanded));
          complete_ids = mh_memory_id ` set page;
          partial_ids = \<Union> ((\<lambda>g. mh_memory_id ` set (cg_members g)) `
            set (filter (\<lambda>g. \<not> mh_memory_id ` set (cg_members g) \<subseteq> complete_ids) conflicts))
      in filter (\<lambda>h. mh_memory_id h \<notin> partial_ids) page)"

definition get_result :: "'v read_frame \<Rightarrow> memory \<Rightarrow> uuid \<Rightarrow> bool \<Rightarrow> read_response result" where
  "get_result F m last_event_id include_conflicts =
     rbind (new_source_ranking LEXICAL [m_memory_id m]) (\<lambda>ranking.
     rbind (modifiers (fr_engine F) m) (\<lambda>mods.
     rbind (weighted_rrf_v1 (qe_iterate (fr_engine F)) [ranking] [(m_memory_id m, mods)]) (\<lambda>ranked.
     rbind (case ranked of [] \<Rightarrow> Inl (KeyError ''index'') | r # _ \<Rightarrow> hit m (rk_score r) last_event_id) (\<lambda>h.
     rbind (if include_conflicts then conflicts_of F [h] else Inr []) (\<lambda>conflicts.
       bounded_payload 100 conflicts (MemoryGetResult h conflicts))))))"

definition dispatch_get :: "'v read_frame \<Rightarrow> uuid \<Rightarrow> bool \<Rightarrow> read_response result" where
  "dispatch_get F memory_id include_conflicts =
     rbind (cr_get_memory (repo F) (fr_filters F) memory_id) (\<lambda>found.
       case found of
         None \<Rightarrow> Inr (read_error NOT_FOUND)
       | Some x \<Rightarrow>
           rbind (eligible F (hm_state x)) (\<lambda>ok.
             if \<not> ok then Inr (read_error NOT_FOUND)
             else rbind (if is_v3 (hm_state x) then open_sealed_memory F (hm_state x) else Inr (Some (hm_state x))) (\<lambda>opened.
               case opened of
                 None \<Rightarrow> Inr (read_error NOT_FOUND)
               | Some m \<Rightarrow> get_result F m (hm_last_event_id x) include_conflicts)))"

definition conflict_subjects :: "'v read_frame \<Rightarrow> pystr option \<Rightarrow> uuid option \<Rightarrow> nat \<Rightarrow> uuid set result" where
  "conflict_subjects F text subject_id limit =
     (let subjects = set_option subject_id
      in case text of
           None \<Rightarrow> Inr subjects
         | Some t \<Rightarrow>
             rbind (cr_lexical_candidates (repo F) (fr_filters F) t limit) (\<lambda>lexical.
             rbind (cr_trigram_candidates (repo F) (fr_filters F) t limit) (\<lambda>trigram.
             rbind (cr_hydrate_memories (repo F) (fr_filters F) (fromkeys (map rd_memory_id (lexical @ trigram)))) (\<lambda>found.
             rbind (filter_result (\<lambda>x. eligible F (hm_state x)) found) (\<lambda>memories.
               Inr (subjects \<union> (\<lambda>x. m_subject_id (hm_state x)) ` set memories))))))"

definition dispatch_conflicts :: "'v read_frame \<Rightarrow> pystr option \<Rightarrow> uuid option \<Rightarrow> nat \<Rightarrow> read_response result" where
  "dispatch_conflicts F text subject_id limit =
     rbind (conflict_subjects F text subject_id limit) (\<lambda>subjects.
     rbind (traverse (\<lambda>s. cr_find_open_conflicts (repo F) (fr_filters F) s limit) (qe_iterate (fr_engine F) subjects)) (\<lambda>found.
     rbind (hydrate_conflict_groups F (fold (\<lambda>e d. dict_update d e) found [])) (\<lambda>conflicts.
       bounded_payload 100 conflicts (MemoryConflictsResult conflicts))))"

fun dispatch :: "'v read_frame \<Rightarrow> utc direct_read_query \<Rightarrow> read_response result" where
  "dispatch F (MemorySearchQuery b text filters limit explain) =
     rbind (ranked_hits F text limit) (\<lambda>(hits, warnings).
     rbind (conflicts_of F hits) (\<lambda>conflicts.
       new_search_result (qe_new_uuid7 (fr_engine F)) (search_page limit hits conflicts) warnings
         (retrieval_profile_of (fr_engine F) (warnings = []))))"
| "dispatch F (ContextPackQuery b text scopes token_budget) =
     rbind (ranked_hits F text 64) (\<lambda>(hits, warnings).
     rbind (conflicts_of F hits) (\<lambda>conflicts.
       case assemble_context_pack (qe_codec (fr_engine F)) (qe_model_dump (fr_engine F))
              \<lparr> pr_context_pack_id = qe_new_uuid7 (fr_engine F), pr_requested_units = token_budget,
                pr_retrieval = retrieval_profile_of (fr_engine F) (warnings = []),
                pr_requested_scope_reduction = (scopes \<noteq> {}) \<rparr> False hits conflicts of
         Inr r \<Rightarrow> Inr (ContextPackResponse r)
       | Inl e \<Rightarrow> if e = BudgetTooSmallError then Inr (read_error BUDGET_TOO_SMALL) else Inl e))"
| "dispatch F (MemoryGetQuery b memory_id include_conflicts) = dispatch_get F memory_id include_conflicts"
| "dispatch F (MemoryTimelineQuery b starts_at ends_at filters limit) =
     rbind (cr_timeline (repo F) (fr_filters F) (Some starts_at) (Some ends_at) None limit) (\<lambda>entries.
     rbind (traverse new_timeline_event entries) (\<lambda>events. bounded_payload 200 events (MemoryTimelineResult events)))"
| "dispatch F (MemoryLineageQuery b) =
     rbind (cr_lineage_metadata (repo F) (qp_tenant_id (fr_caller F)) (qb_persona_id b) (qb_branch_id b)) (\<lambda>lineage.
       case lineage of
         None \<Rightarrow> Inr (read_error NOT_FOUND)
       | Some v \<Rightarrow> if lm_lineage_id v \<noteq> rc_lineage_id (fr_context F) then Inr (read_error NOT_FOUND)
                   else rbind (new_branch_view v) (\<lambda>branch. Inr (MemoryLineageResult branch)))"
| "dispatch F (MemorySelectionHistoryQuery b limit) =
     rbind (cr_selection_events (repo F) (fr_filters F) None limit) (\<lambda>entries.
     rbind (traverse new_timeline_event entries) (\<lambda>events. bounded_payload 200 events (MemorySelectionHistoryResult events)))"
| "dispatch F (MemoryConflictsQuery b text subject_id limit) = dispatch_conflicts F text subject_id limit"

subsection \<open>The entry point\<close>

datatype read_query = Direct "utc direct_read_query" | Decisions decisions_query

fun read_query_base :: "read_query \<Rightarrow> query_base" where
  "read_query_base (Direct q) = query_base_of q"
| "read_query_base (Decisions q) = dq_base q"

fun read_authorized :: "query_principal \<Rightarrow> read_query \<Rightarrow> bool" where
  "read_authorized caller (Direct q) = operation_authorized caller q"
| "read_authorized caller (Decisions q) \<longleftrightarrow>
     lit (the (dict_get REQUIRED_SCOPES ''selection_history'')) \<in> qp_scopes caller \<or> lit ''memory:read'' \<in> qp_scopes caller"

fun read_failure :: "read_query \<Rightarrow> read_error_code \<Rightarrow> bool \<Rightarrow> read_response" where
  "read_failure (Direct q) code retryable = ReadError (error_body code retryable)"
| "read_failure (Decisions q) code retryable = ReadErrorV2 (error_body code retryable)"

definition selection_decisions ::
    "'v query_engine \<Rightarrow> query_principal \<Rightarrow> resolved_read_context \<Rightarrow> storage_context \<Rightarrow> decisions_query \<Rightarrow> read_response result" where
  "selection_decisions E caller context anchors query =
     (case decode_selection_cursor (dq_cursor query) of
        Inl _ \<Rightarrow> Inr (read_error_v2 INVALID_CURSOR)
      | Inr before_sequence \<Rightarrow>
          let scopes = qp_allowed_memory_scopes caller;
              scopes = (if dq_requested_memory_scopes query \<noteq> {} then scopes \<inter> dq_requested_memory_scopes query else scopes);
              visibilities = qp_allowed_visibilities caller;
              visibilities = (if dq_requested_visibilities query \<noteq> {} then visibilities \<inter> dq_requested_visibilities query else visibilities);
              max_sensitivity = (case dq_max_sensitivity query of None \<Rightarrow> qp_max_sensitivity caller
                | Some s \<Rightarrow> min (qp_max_sensitivity caller) s);
              filters = \<lparr> sf_tenant_id = qp_tenant_id caller, sf_persona_id = qb_persona_id (dq_base query),
                sf_lineage_id = rc_lineage_id context, sf_branch_id = rc_branch_id context, sf_allowed_scopes = scopes,
                sf_allowed_visibilities = visibilities, sf_max_sensitivity = max_sensitivity,
                sf_requested_subject_ids = opt_set (set (dq_requested_subject_ids query)),
                sf_project_subject_ids = set (st_project_subject_ids anchors),
                sf_relationship_subject_ids = set (st_relationship_subject_ids anchors),
                sf_session_subject_ids = set (st_session_subject_ids anchors),
                sf_allowed_subject_kinds = opt_set (dq_requested_subject_kinds query),
                sf_selection_bases = opt_set (dq_selection_bases query) \<rparr>
          in if scopes = {} \<or> visibilities = {} then Inr (read_error_v2 FORBIDDEN)
             else rbind (validate_selection_history_filters filters) (\<lambda>_.
               case cr_list_decisions (qe_repository E) filters before_sequence (dq_limit query + 1) of
                 Inl e \<Rightarrow> (case e of SelectionHistoryError c \<Rightarrow> Inr (read_error_v2 DEPENDENCY_UNAVAILABLE_ERROR) | _ \<Rightarrow> Inl e)
               | Inr found \<Rightarrow>
                   let has_more = (length found > dq_limit query);
                       visible = take (dq_limit query) found;
                       next_cursor = (if has_more \<and> visible \<noteq> []
                         then Some (encode_selection_cursor (sd_selection_sequence (last visible))) else None)
                   in rbind (traverse selection_decision visible) (\<lambda>decisions.
                      rbind (new_pagination next_cursor has_more) (\<lambda>_.
                        bounded_payload 200 decisions (MemorySelectionDecisionsResult decisions next_cursor has_more)))))"

definition resolve_read_context :: "query_principal \<Rightarrow> storage_context \<Rightarrow> resolved_read_context result" where
  "resolve_read_context caller sc =
     (let c = \<lparr> rc_tenant_id = qp_tenant_id caller, rc_lineage_id = st_lineage_id sc, rc_branch_id = st_branch_id sc,
            rc_logical_session_id = st_logical_session_id sc,
            rc_project_subject_id = (case st_project_subject_ids sc of [] \<Rightarrow> None | x # _ \<Rightarrow> Some x),
            rc_relationship_subject_id = (case st_relationship_subject_ids sc of [] \<Rightarrow> None | x # _ \<Rightarrow> Some x) \<rparr>
      in rbind (validated (validate_read_context c)) (\<lambda>_. Inr c))"

definition read_in_session :: "'v query_engine \<Rightarrow> query_principal \<Rightarrow> read_query \<Rightarrow> read_response result" where
  "read_in_session E caller query =
     rbind (cr_resolve_context (qe_repository E) (qp_tenant_id caller) (qp_actor_id caller) (qp_client_id caller)
         (qp_transport_binding_id caller) (read_query_base query)) (\<lambda>resolved.
       case resolved of
         None \<Rightarrow> Inr (read_error NOT_FOUND)
       | Some sc \<Rightarrow>
           if 1 < length (st_project_subject_ids sc) \<or> 1 < length (st_relationship_subject_ids sc)
           then Inr (read_error NOT_FOUND)
           else rbind (resolve_read_context caller sc) (\<lambda>context.
             case query of
               Decisions q \<Rightarrow> selection_decisions E caller context sc q
             | Direct q \<Rightarrow>
                 (case storage_filters caller context sc (query_filters q) of
                    Inl e \<Rightarrow> if is_value_error e then Inr (read_error FORBIDDEN) else Inl e
                  | Inr filters \<Rightarrow> dispatch \<lparr> fr_engine = E, fr_caller = caller, fr_context = context,
                      fr_filters = filters, fr_requested = query_filters q, fr_query = q \<rparr> q)))"

definition is_os_error :: "exn \<Rightarrow> bool" where
  "is_os_error e \<longleftrightarrow> e = OSError \<or> e = FileNotFoundError"

text \<open>A timeout is an operating-system error in the class hierarchy.\<close>

definition execute :: "'v query_engine \<Rightarrow> query_principal \<Rightarrow> read_query \<Rightarrow> read_response" where
  "execute E caller query =
     (if \<not> read_authorized caller query then read_failure query FORBIDDEN False
      else case read_in_session E caller query of
        Inr response \<Rightarrow> response
      | Inl e \<Rightarrow> if is_os_error e then read_failure query DEPENDENCY_UNAVAILABLE_ERROR True
                 else read_failure query INTERNAL_ERROR False)"

end
