(* ===== verification/Query_Safety.thy ===== *)
theory Query_Safety
  imports Query_Engine
begin

text \<open>
  What reads disclose. Nothing is assumed of the repository: whatever rows it returns, a memory
  appears in a response only if it passed the eligibility decision for this caller, context and
  query, and a search page contains a conflict wholly or not at all.
\<close>

subsection \<open>Memories behind hits\<close>

definition shows_memory :: "memory \<Rightarrow> memory_hit \<Rightarrow> bool" where
  "shows_memory m h \<longleftrightarrow>
     mh_memory_id h = m_memory_id m \<and> mh_revision h = m_revision m \<and> mh_branch_id h = m_branch_id m
     \<and> mh_subject_id h = m_subject_id m \<and> mh_scope h = m_scope m \<and> mh_visibility h = m_visibility m
     \<and> mh_status h = m_status m \<and> mh_category h = m_category m"

definition allowed :: "'v read_frame \<Rightarrow> memory \<Rightarrow> bool" where
  "allowed F m \<longleftrightarrow> operation_authorized (fr_caller F) (fr_query F)
     \<and> authorized_read (fr_caller F) (fr_context F) (candidate m) (qb_branch_id (query_base_of (fr_query F)))
     \<and> requested_read (fr_requested F) (qe_now (fr_engine F)) (candidate m)"

definition permitted :: "'v read_frame \<Rightarrow> memory_hit \<Rightarrow> bool" where
  "permitted F h \<longleftrightarrow> (\<exists>m. shows_memory m h \<and> allowed F m \<and> m_statement m = Some (mh_statement h))"

lemma decide_allowed: "decide F m = Inr d \<Longrightarrow> ed_eligible d \<Longrightarrow> allowed F m"
  by (auto simp: decide_def new_candidate_def allowed_def eligible_iff elim!: rbind_InrE)

lemma eligible_allowed: "eligible F m = Inr True \<Longrightarrow> allowed F m"
  by (auto simp: eligible_def intro: decide_allowed elim!: rbind_InrE)

lemma filter_result_set:
  assumes "filter_result f xs = Inr ys"
  shows "set ys \<subseteq> {x \<in> set xs. f x = Inr True}"
  using assms
proof (induction xs arbitrary: ys)
  case (Cons x xs)
  from Cons.prems obtain b zs where "f x = Inr b" "filter_result f xs = Inr zs" "ys = (if b then x # zs else zs)"
    by (auto elim!: rbind_InrE)
  with Cons.IH[of zs] show ?case by auto
qed simp

lemma hit_shows:
  assumes "hit m score e = Inr h"
  shows "shows_memory m h \<and> m_statement m = Some (mh_statement h)"
  using assms by (auto simp: hit_def Let_def shows_memory_def elim!: rbind_InrE split: option.splits)

lemma set_dict_set: "set (dict_set x w d) \<subseteq> set d \<union> {(x, w)}"
  by (induction d) auto

lemma dict_update_set: "set (dict_update d e) \<subseteq> set d \<union> set e"
proof -
  have "set (fold (\<lambda>p. dict_set (fst p) (snd p)) e d) \<subseteq> set d \<union> set e"
  proof (induction e arbitrary: d)
    case (Cons q qs)
    show ?case using set_dict_set[of "fst q" "snd q" d] Cons[of "dict_set (fst q) (snd q) d"] by auto
  qed simp
  then show ?thesis by (simp add: dict_update_def)
qed

lemma dict_of_set: "set (dict_of ps) \<subseteq> set ps"
  using dict_update_set[of "[]" ps] by (simp add: dict_of_def dict_update_def)

lemma dict_of_get: "dict_get (dict_of ps) k = Some v \<Longrightarrow> (k, v) \<in> set ps"
  using dict_of_set[of ps] by (auto dest: map_of_SomeD)

subsection \<open>Ranked hits and conflict groups\<close>

lemma rank_found_permitted:
  assumes "rank_found F rankings found = Inr hits" "h \<in> set hits"
  shows "permitted F h"
proof -
  from assms(1) obtain memories ranked where
      memories: "filter_result (\<lambda>x. eligible F (hm_state x)) found = Inr memories"
    and hits: "traverse (ranked_hit (dict_of (map (\<lambda>x. (m_memory_id (hm_state x), x)) memories))) ranked = Inr hits"
    unfolding rank_found_def Let_def by (elim rbind_InrE) blast
  obtain r where "ranked_hit (dict_of (map (\<lambda>x. (m_memory_id (hm_state x), x)) memories)) r = Inr h"
    using traverse_image[OF hits assms(2)] by blast
  then obtain x where r: "dict_get (dict_of (map (\<lambda>x. (m_memory_id (hm_state x), x)) memories)) (rk_memory_id r) = Some x"
    and h: "hit (hm_state x) (rk_score r) (hm_last_event_id x) = Inr h"
    by (auto simp: ranked_hit_def split: option.splits)
  from dict_of_get[OF r] have "x \<in> set memories" by auto
  with filter_result_set[OF memories] have "allowed F (hm_state x)" by (auto intro: eligible_allowed)
  with hit_shows[OF h] show ?thesis by (auto simp: permitted_def)
qed

lemma ranked_hits_permitted:
  assumes "ranked_hits F text limit = Inr (hits, warnings)" "h \<in> set hits"
  shows "permitted F h"
proof -
  from assms(1) obtain rankings found where "rank_found F rankings found = Inr hits"
    unfolding ranked_hits_def Let_def by (auto elim!: rbind_InrE split: prod.splits)
  then show ?thesis using assms(2) by (rule rank_found_permitted)
qed

lemma score_group_members:
  assumes "score_group E memories = Inr members"
  shows "length members = length memories" "h \<in> set members \<Longrightarrow> \<exists>x \<in> set memories. \<exists>score. hit (hm_state x) score (hm_last_event_id x) = Inr h"
proof -
  from assms obtain scores where t: "traverse (group_member scores) memories = Inr members"
    unfolding score_group_def by (elim rbind_InrE) blast
  then show "length members = length memories" by (metis list_all2_lengthD traverse_eq_Inr)
  assume "h \<in> set members"
  from traverse_image[OF t this] obtain x where "x \<in> set memories" "group_member scores x = Inr h" by blast
  then show "\<exists>x \<in> set memories. \<exists>score. hit (hm_state x) score (hm_last_event_id x) = Inr h"
    by (auto simp: group_member_def split: option.splits)
qed

lemma new_conflict_group_eq:
  assumes "new_conflict_group c members = Inr g"
  shows "cg_members g = members" "cg_conflict_id g = c" "validate_conflict_group g = Inr ()"
  using assms by (auto simp: new_conflict_group_def Let_def validated_eq_Inr elim!: rbind_InrE)

lemma hydrate_group_permitted:
  assumes "hydrate_group F og = Inr (Some g)"
  shows "(\<forall>m \<in> set (cg_members g). permitted F m) \<and> length (cg_members g) = og_total_member_count og
    \<and> cg_conflict_id g = og_conflict_id og \<and> validate_conflict_group g = Inr ()"
proof -
  from assms obtain memories decisions members where
      d: "traverse (\<lambda>x. decide F (hm_state x)) memories = Inr decisions" "conflict_group_eligible decisions"
        "length memories = og_total_member_count og"
    and m: "score_group (fr_engine F) memories = Inr members" "new_conflict_group (og_conflict_id og) members = Inr g"
    unfolding hydrate_group_def by (auto elim!: rbind_InrE split: if_splits)
  have "permitted F h" if h: "h \<in> set members" for h
  proof -
    obtain x score where x: "x \<in> set memories" "hit (hm_state x) score (hm_last_event_id x) = Inr h"
      using score_group_members(2)[OF m(1) h] by blast
    obtain e where "e \<in> set decisions" "decide F (hm_state x) = Inr e" using traverse_member[OF d(1) x(1)] by blast
    with d(2) have "allowed F (hm_state x)" by (auto simp: conflict_group_eligible_def list_all_iff intro: decide_allowed)
    with hit_shows[OF x(2)] show ?thesis by (auto simp: permitted_def)
  qed
  then show ?thesis using d(3) score_group_members(1)[OF m(1)] new_conflict_group_eq[OF m(2)] by simp
qed

lemma hydrate_conflict_groups_permitted:
  assumes "hydrate_conflict_groups F groups = Inr gs" "g \<in> set gs"
  shows "\<forall>m \<in> set (cg_members g). permitted F m"
proof -
  from assms(1) obtain os where os: "traverse (hydrate_group F) (map snd groups) = Inr os" "gs = List.map_filter id os"
    by (auto simp: hydrate_conflict_groups_def elim!: rbind_InrE)
  then have "Some g \<in> set os" using assms(2) by (auto simp: List.map_filter_def)
  from traverse_image[OF os(1) this] hydrate_group_permitted show ?thesis by blast
qed

lemma conflicts_of_permitted:
  assumes "conflicts_of F hits = Inr gs" "h \<in> set (concat (map cg_members gs))"
  shows "permitted F h"
proof -
  from assms(1) obtain groups where "hydrate_conflict_groups F groups = Inr gs"
    by (auto simp: conflicts_of_def elim!: rbind_InrE)
  from hydrate_conflict_groups_permitted[OF this] assms(2) show ?thesis by auto
qed

subsection \<open>Responses\<close>

fun disclosed_hits :: "read_response \<Rightarrow> memory_hit list" where
  "disclosed_hits (ContextPackResponse r) = pack_hits (cr_result r) @ pack_conflict_members (cr_result r)"
| "disclosed_hits (MemorySearchResult i hits w p) = hits"
| "disclosed_hits (MemoryGetResult h gs) = h # concat (map cg_members gs)"
| "disclosed_hits (MemoryConflictsResult gs) = concat (map cg_members gs)"
| "disclosed_hits _ = []"

text \<open>A response of \<^verbatim>\<open>get\<close> may show what was sealed in an eligible memory.\<close>

definition disclosable :: "'v read_frame \<Rightarrow> memory_hit \<Rightarrow> bool" where
  "disclosable F h \<longleftrightarrow> (\<exists>m. shows_memory m h \<and> allowed F m \<and>
     (m_statement m = Some (mh_statement h) \<or> is_v3 m \<and> query_operation (fr_query F) = ''get''))"

lemma permitted_disclosable: "permitted F h \<Longrightarrow> disclosable F h"
  by (auto simp: permitted_def disclosable_def)

lemma without_evidence_permitted: "permitted F h \<Longrightarrow> permitted F (without_evidence h)"
  by (auto simp: permitted_def shows_memory_def without_evidence_def)

lemma assembled_from:
  assumes "assemble_context_pack L model_dump rq inc hits conflicts = Inr r" "h \<in> disclosed (cr_result r)"
  shows "\<exists>h' \<in> set hits \<union> set (concat (map cg_members conflicts)). h = h' \<or> h = without_evidence h'"
proof -
  from assms(1) obtain selected flags where
      sel: "set selected \<subseteq> HitItem ` standalone (prepared_hits inc hits) (prepared_conflicts inc conflicts)
         \<union> ConflictItem ` set (prepared_conflicts inc conflicts)"
      and p: "pack_from_items (pr_context_pack_id rq) selected flags = Inr (cr_result r)"
    by (rule assemble_context_pack_InrE) blast
  from assms(2) obtain i where i: "i \<in> set selected" "h \<in> set (item_members i)" unfolding disclosed_items[OF p] by auto
  with sel consider g where "h \<in> set (prepared_hits inc hits)"
    | g where "g \<in> set (prepared_conflicts inc conflicts)" "h \<in> set (cg_members g)"
    by (auto simp: standalone_def)
  then show ?thesis
    by cases (auto simp: prepared_hits_def prepared_conflicts_def strip_group_def split: if_splits, blast)
qed

lemma search_page_set: "set (search_page limit hits conflicts) \<subseteq> set hits \<union> set (concat (map cg_members conflicts))"
proof -
  let ?d = "dict_of (map (\<lambda>h. (mh_memory_id h, h)) hits)" and ?e = "dict_of (map (\<lambda>m. (mh_memory_id m, m)) (concat (map cg_members conflicts)))"
  have "set (search_page limit hits conflicts) \<subseteq> snd ` set (dict_update ?d ?e)"
    by (auto simp: search_page_def Let_def dest: in_set_takeD)
  also have "\<dots> \<subseteq> snd ` (set (map (\<lambda>h. (mh_memory_id h, h)) hits) \<union> set (map (\<lambda>m. (mh_memory_id m, m)) (concat (map cg_members conflicts))))"
    using dict_update_set[of ?d ?e] dict_of_set[of "map (\<lambda>h. (mh_memory_id h, h)) hits"]
      dict_of_set[of "map (\<lambda>m. (mh_memory_id m, m)) (concat (map cg_members conflicts))"] by (intro image_mono) blast
  finally show ?thesis by (auto simp: image_iff)
qed

lemma with_plaintext_shows: "shows_memory (with_plaintext m p) h \<longleftrightarrow> shows_memory m h"
  by (simp add: with_plaintext_def shows_memory_def)

lemma open_sealed_memory_shows:
  assumes "open_sealed_memory F m = Inr (Some m')"
  shows "\<exists>p. m' = with_plaintext m p"
  using assms by (auto simp: open_sealed_memory_def Let_def elim!: rbind_InrE dest!: decrypt_memory_state_keeps split: option.splits sum.splits)

lemma get_result_disclosed:
  assumes "get_result F m e inc = Inr response" "h \<in> set (disclosed_hits response)"
  shows "shows_memory m h \<and> m_statement m = Some (mh_statement h) \<or> permitted F h"
proof -
  from assms(1) obtain ranked :: "ranked_memory list" and h' gs where h': "(case ranked of [] \<Rightarrow> Inl (KeyError ''index'') | r # _ \<Rightarrow> hit m (rk_score r) e) = Inr h'"
    and gs: "(if inc then conflicts_of F [h'] else Inr []) = Inr gs" and r: "bounded_payload 100 gs (MemoryGetResult h' gs) = Inr response"
    unfolding get_result_def by (elim rbind_InrE) (rule that; assumption)
  have "response = MemoryGetResult h' gs" using r by (auto simp: bounded_payload_def elim!: rbind_InrE)
  with assms(2) consider "h = h'" | "h \<in> set (concat (map cg_members gs))" by auto
  then show ?thesis
  proof cases
    case 1
    obtain score where "hit m score e = Inr h" using h' 1 by (auto split: list.splits)
    then show ?thesis using hit_shows by blast
  next
    case 2
    then show ?thesis using gs conflicts_of_permitted[of F "[h']" gs h] by (auto split: if_splits)
  qed
qed

lemma dispatch_get_disclosable:
  assumes "dispatch_get F memory_id inc = Inr response" "h \<in> set (disclosed_hits response)" "query_operation (fr_query F) = ''get''"
  shows "disclosable F h"
proof -
  from assms(1) obtain found :: "hydrated_memory option" where c: "(case found of None \<Rightarrow> Inr (read_error NOT_FOUND)
       | Some x \<Rightarrow> rbind (eligible F (hm_state x)) (\<lambda>ok. if \<not> ok then Inr (read_error NOT_FOUND)
             else rbind (if is_v3 (hm_state x) then open_sealed_memory F (hm_state x) else Inr (Some (hm_state x))) (\<lambda>opened.
               case opened of None \<Rightarrow> Inr (read_error NOT_FOUND)
               | Some m \<Rightarrow> get_result F m (hm_last_event_id x) inc))) = Inr response"
    unfolding dispatch_get_def by (rule rbind_InrE)
  obtain x where "found = Some x" using c assms(2) by (cases found) auto
  with c assms(2) obtain opened where x1: "eligible F (hm_state x) = Inr True"
      and o: "(if is_v3 (hm_state x) then open_sealed_memory F (hm_state x) else Inr (Some (hm_state x))) = Inr opened"
      "(case opened of None \<Rightarrow> Inr (read_error NOT_FOUND) | Some m \<Rightarrow> get_result F m (hm_last_event_id x) inc) = Inr response"
    by (auto elim!: rbind_InrE split: if_split_asm)
  obtain m where "opened = Some m" using o(2) assms(2) by (cases opened) auto
  with x1 o have x: "eligible F (hm_state x) = Inr True"
      "(if is_v3 (hm_state x) then open_sealed_memory F (hm_state x) else Inr (Some (hm_state x))) = Inr (Some m)"
      "get_result F m (hm_last_event_id x) inc = Inr response" by simp_all
  from get_result_disclosed[OF x(3) assms(2)] show ?thesis
  proof
    assume s: "shows_memory m h \<and> m_statement m = Some (mh_statement h)"
    have "shows_memory (hm_state x) h \<and> (m_statement (hm_state x) = Some (mh_statement h) \<or> is_v3 (hm_state x))"
      using x(2) s open_sealed_memory_shows[of F "hm_state x" m] by (auto simp: with_plaintext_shows split: if_splits)
    with eligible_allowed[OF x(1)] assms(3) show ?thesis by (auto simp: disclosable_def)
  qed (rule permitted_disclosable)
qed

lemma dispatch_disclosable:
  assumes "dispatch F q = Inr response" "h \<in> set (disclosed_hits response)" "fr_query F = q"
  shows "disclosable F h"
proof (cases q)
  case (MemorySearchQuery b t filters limit explain)
  then obtain hits warnings gs where d: "ranked_hits F t limit = Inr (hits, warnings)" "conflicts_of F hits = Inr gs"
      "response = MemorySearchResult (qe_new_uuid7 (fr_engine F)) (search_page limit hits gs) warnings
         (retrieval_profile_of (fr_engine F) (warnings = []))"
    using assms(1) by (auto simp: new_search_result_def elim!: rbind_InrE)
  then have "h \<in> set hits \<union> set (concat (map cg_members gs))" using assms(2) search_page_set[of limit hits gs] by auto
  then have "permitted F h" using ranked_hits_permitted[OF d(1)] conflicts_of_permitted[OF d(2)] by blast
  then show ?thesis by (rule permitted_disclosable)
next
  case (ContextPackQuery b t scopes budget)
  then obtain hits warnings gs r rq where d: "ranked_hits F t 64 = Inr (hits, warnings)" "conflicts_of F hits = Inr gs"
      "assemble_context_pack (qe_codec (fr_engine F)) (qe_model_dump (fr_engine F)) rq False hits gs = Inr r"
      "response = ContextPackResponse r"
    using assms(1,2) by (auto elim!: rbind_InrE split: sum.splits if_splits)
  then have "h \<in> disclosed (cr_result r)" using assms(2) by (simp add: disclosed_def)
  from assembled_from[OF d(3) this] obtain h' where h': "h' \<in> set hits \<union> set (concat (map cg_members gs))"
    "h = h' \<or> h = without_evidence h'" by blast
  then have "permitted F h'" using ranked_hits_permitted[OF d(1)] conflicts_of_permitted[OF d(2)] by blast
  then have "permitted F h" using h'(2) without_evidence_permitted by blast
  then show ?thesis by (rule permitted_disclosable)
next
  case (MemoryGetQuery b memory_id inc)
  then have "dispatch_get F memory_id inc = Inr response" using assms(1) by simp
  then show ?thesis using assms(2) by (rule dispatch_get_disclosable) (simp add: assms(3) MemoryGetQuery)
next
  case (MemoryConflictsQuery b t subject limit)
  then obtain groups gs where "hydrate_conflict_groups F groups = Inr gs" "response = MemoryConflictsResult gs"
    using assms(1) by (auto simp: dispatch_conflicts_def bounded_payload_def elim!: rbind_InrE)
  then have "permitted F h" using assms(2) hydrate_conflict_groups_permitted[of F groups gs] by auto
  then show ?thesis by (rule permitted_disclosable)
qed (use assms(1,2) in \<open>auto simp: bounded_payload_def elim!: rbind_InrE split: option.splits if_splits\<close>)

lemma selection_decisions_disclose:
  "selection_decisions E caller context sc q = Inr response \<Longrightarrow> disclosed_hits response = []"
  by (auto simp: selection_decisions_def Let_def bounded_payload_def elim!: rbind_InrE split: sum.splits if_splits exn.splits)


subsection \<open>Search pages\<close>

lemma fold_dict_keys:
  assumes "list_all (\<lambda>p. fst p = k (snd p)) ps" "list_all (\<lambda>p. fst p = k (snd p)) d" "distinct (map fst d)"
  shows "list_all (\<lambda>p. fst p = k (snd p)) (dict_update d ps) \<and> distinct (map fst (dict_update d ps))"
  using assms unfolding dict_update_def
proof (induction ps arbitrary: d)
  case (Cons p ps)
  have "list_all (\<lambda>p. fst p = k (snd p)) (dict_set (fst p) (snd p) d)"
    using Cons.prems(1,2) set_dict_set[of "fst p" "snd p" d] by (auto simp: list_all_iff)
  with Cons show ?case by (simp add: distinct_update)
qed simp

lemma distinct_sort_key: "distinct (map f xs) \<Longrightarrow> distinct (map f (sort_key k xs))"
  by (simp add: distinct_map)

lemma search_page_ids: "distinct (map mh_memory_id (search_page limit hits conflicts))"
proof -
  let ?h = "map (\<lambda>h. (mh_memory_id h, h)) hits" and ?c = "map (\<lambda>m. (mh_memory_id m, m)) (concat (map cg_members conflicts))"
  have of_eq: "dict_of ps = dict_update [] ps" for ps :: "(uuid \<times> memory_hit) list" by (simp add: dict_of_def dict_update_def)
  let ?x = "dict_update (dict_of ?h) (dict_of ?c)"
  have "list_all (\<lambda>p. fst p = mh_memory_id (snd p)) ?x \<and> distinct (map fst ?x)"
  proof (rule fold_dict_keys)
    show "list_all (\<lambda>p. fst p = mh_memory_id (snd p)) (dict_of ?c)" "list_all (\<lambda>p. fst p = mh_memory_id (snd p)) (dict_of ?h)"
      using dict_of_set[of ?c] dict_of_set[of ?h] by (fastforce simp: list_all_iff)+
    show "distinct (map fst (dict_of ?h))"
      using fold_dict_keys[of mh_memory_id ?h "[]"] by (simp add: of_eq list_all_iff)
  qed
  moreover from this have "map mh_memory_id (map snd ?x) = map fst ?x" by (simp add: list_all_iff)
  ultimately have "distinct (map mh_memory_id (map snd ?x))" by (simp only:)
  then have "distinct (map mh_memory_id (sort_key hit_key (map snd ?x)))"
    by (rule distinct_sort_key)
  then have "distinct (map mh_memory_id (take limit (sort_key hit_key (map snd ?x))))"
    by (simp add: take_map[symmetric])
  then show ?thesis unfolding search_page_def Let_def by (rule distinct_map_filter)
qed


end
