(* ===== verification/Pack_Total.thy ===== *)
theory Pack_Total
  imports Context_Pack
begin

text \<open>
  Totality of context-pack assembly: with a serialiser that writes the two size fields in decimal
  the search for the size ends within its eight rounds, and on lists within the limits of the
  contract the assembly returns a pack or reports that the budget is too small.
\<close>

subsection \<open>The size rounds\<close>

definition counts_digits ::
    "'z codec_scheme \<Rightarrow> (context_pack_result \<Rightarrow> pyvalue) \<Rightarrow> (context_pack \<Rightarrow> result_frame \<Rightarrow> int) \<Rightarrow> bool" where
  "counts_digits L model_dump base \<longleftrightarrow> (\<forall>pack frame used. 0 \<le> base pack frame \<and>
     (1 \<le> used \<and> used \<le> HARD_RESPONSE_BYTE_CEILING \<longrightarrow>
       estimate_utf8_upper_bound L model_dump (sized_result pack frame used)
         = Inr (base pack frame + 2 * int (ndigits (nat used)))))"

lemma ndigits_pos: "1 \<le> ndigits n"
  by (subst ndigits.simps) simp

lemma ndigits_mono: "m \<le> n \<Longrightarrow> ndigits m \<le> ndigits n"
proof (induction n arbitrary: m rule: ndigits.induct)
  case (1 n)
  show ?case
  proof (cases "n < 10 \<or> m < 10")
    case True
    with 1(2) ndigits_pos[of n] show ?thesis by (subst ndigits.simps) auto
  next
    case False
    then have "ndigits (m div 10) \<le> ndigits (n div 10)" using 1 by (simp add: div_le_mono)
    with False show ?thesis by (simp add: ndigits.simps[of m] ndigits.simps[of n])
  qed
qed

lemma ndigits_ceiling: "n \<le> 262144 \<Longrightarrow> ndigits n \<le> 6"
  using ndigits_mono[of n 262144] by (simp add: ndigits.simps)

definition sound_frame :: "result_frame \<Rightarrow> bool" where
  "sound_frame f \<longleftrightarrow> 1 \<le> rf_requested_units f \<and> rf_requested_units f \<le> 1000000
     \<and> length (rf_omission_reasons f) \<le> 4 \<and> distinct (rf_omission_reasons f)
     \<and> rf_truncated f = list_ex (\<lambda>r. r \<in> {BUDGET_TRUNCATED, ITEM_BUDGET_REACHED}) (rf_omission_reasons f)
     \<and> length (rf_warnings f) \<le> 8 \<and> distinct (rf_warnings f)"

lemma new_context_pack_result_total:
  assumes "sound_frame f" "1 \<le> used" "used \<le> rf_requested_units f" "used \<le> HARD_RESPONSE_BYTE_CEILING"
  shows "new_context_pack_result pack f used = Inr (sized_result pack f used)"
  using assms by (auto simp: new_context_pack_result_def sound_frame_def sized_result_def validate_budget_metadata_def
      validate_warnings_def HARD_RESPONSE_BYTE_CEILING_def)

lemma size_rounds_total:
  assumes "counts_digits L model_dump base" "sound_frame f"
    and "1 \<le> used" "used \<le> rf_requested_units f" "used \<le> HARD_RESPONSE_BYTE_CEILING"
    and "used \<le> base pack f + 2 * int (ndigits (nat used))"
    and "7 < n + ndigits (nat used) \<or> used = base pack f + 2 * int (ndigits (nat used)) \<and> 0 < n"
  shows "\<exists>x. size_rounds n L model_dump pack f used = Inr x"
  using assms
proof (induction n arbitrary: used)
  case 0
  have "nat used \<le> 262144" using 0(5) by (simp add: HARD_RESPONSE_BYTE_CEILING_def)
  from ndigits_ceiling[OF this] 0(7) show ?case by simp
next
  case (Suc n)
  let ?m = "base pack f + 2 * int (ndigits (nat used))"
  have est: "estimate_utf8_upper_bound L model_dump (sized_result pack f used) = Inr ?m"
    using Suc.prems(1,3,5) by (simp add: counts_digits_def)
  have step: "size_rounds (Suc n) L model_dump pack f used =
      (if ?m = used then Inr (Some (sized_result pack f used), ?m)
       else if ?m > rf_requested_units f \<or> ?m > HARD_RESPONSE_BYTE_CEILING then Inr (None, ?m)
       else size_rounds n L model_dump pack f ?m)"
    using new_context_pack_result_total[OF Suc.prems(2-5), of pack] est by simp
  show ?case
  proof (cases "?m = used \<or> ?m > rf_requested_units f \<or> ?m > HARD_RESPONSE_BYTE_CEILING")
    case True
    then show ?thesis unfolding step by auto
  next
    case False
    have less: "used < ?m" using False Suc.prems(6) by linarith
    then have mono: "ndigits (nat used) \<le> ndigits (nat ?m)" by (intro ndigits_mono) simp
    have "7 < n + ndigits (nat ?m) \<or> ?m = base pack f + 2 * int (ndigits (nat ?m)) \<and> 0 < n"
    proof (cases "ndigits (nat ?m) = ndigits (nat used)")
      case True
      have "nat used \<le> 262144" using Suc.prems(5) by (simp add: HARD_RESPONSE_BYTE_CEILING_def)
      from ndigits_ceiling[OF this] Suc.prems(7) False have "0 < n" by auto
      with True show ?thesis by simp
    next
      case f: False
      with mono Suc.prems(7) False show ?thesis by auto
    qed
    then have "\<exists>x. size_rounds n L model_dump pack f ?m = Inr x"
      using False less mono Suc.prems by (intro Suc.IH) auto
    with False show ?thesis unfolding step by auto
  qed
qed

lemma result_with_size_total:
  assumes "counts_digits L model_dump base" "sound_frame f"
  shows "\<exists>x m. result_with_size L model_dump pack f = Inr (x, m)"
proof -
  have "0 \<le> base pack f" using assms(1) by (simp add: counts_digits_def)
  then have "\<exists>x. size_rounds 8 L model_dump pack f 1 = Inr x"
    using assms by (intro size_rounds_total[OF assms])
      (simp_all add: sound_frame_def HARD_RESPONSE_BYTE_CEILING_def ndigits.simps)
  then show ?thesis by (auto simp: result_with_size_def)
qed

subsection \<open>Admissible item lists\<close>

abbreviation members :: "pack_item list \<Rightarrow> memory_hit list" where
  "members items \<equiv> concat (map item_members items)"

definition hits_in :: "pack_item list \<Rightarrow> memory_hit list" where
  "hits_in items = List.map_filter (\<lambda>i. case i of HitItem h \<Rightarrow> Some h | ConflictItem g \<Rightarrow> None) items"

definition admissible :: "pack_item list \<Rightarrow> bool" where
  "admissible items \<longleftrightarrow> length (hits_in items) \<le> 64 \<and> length (conflicts_in items) \<le> 32
     \<and> length (members items) \<le> 512 \<and> distinct (map mh_memory_id (members items))
     \<and> (\<forall>m \<in> set (members items). new_provenance m = Inr (provenance_of_hit m))"

lemma pack_item_lists [simp]:
  "hits_in [] = []" "hits_in (HitItem h # is) = h # hits_in is" "hits_in (ConflictItem g # is) = hits_in is"
  "conflicts_in [] = []" "conflicts_in (HitItem h # is) = conflicts_in is"
  "conflicts_in (ConflictItem g # is) = g # conflicts_in is"
  "items_in s [] = []" "items_in s (HitItem h # is) = (if section_for_hit h = s then h # items_in s is else items_in s is)"
  "items_in s (ConflictItem g # is) = items_in s is"
  by (simp_all add: hits_in_def conflicts_in_def items_in_def List.map_filter_simps)

lemma items_in_hits: "items_in s items = filter (\<lambda>h. section_for_hit h = s) (hits_in items)"
proof (induction items)
  case (Cons i items)
  then show ?case by (cases i) simp_all
qed simp

lemma mset_members: "mset (members items) = mset (hits_in items) + mset (concat (map cg_members (conflicts_in items)))"
proof (induction items)
  case (Cons i items)
  then show ?case by (cases i) (simp_all add: ac_simps)
qed simp

lemma append_item_lists [simp]:
  "hits_in (xs @ ys) = hits_in xs @ hits_in ys" "conflicts_in (xs @ ys) = conflicts_in xs @ conflicts_in ys"
  by (simp_all add: hits_in_def conflicts_in_def List.map_filter_def)

lemma mset_item_lists:
  assumes "mset xs = mset ys"
  shows "mset (hits_in xs) = mset (hits_in ys)" "mset (conflicts_in xs) = mset (conflicts_in ys)"
    "mset (members xs) = mset (members ys)"
proof -
  have filter_eq: "mset (List.map_filter f xs) = mset (List.map_filter f ys)" for f :: "pack_item \<Rightarrow> 'a option"
    using assms by (simp add: List.map_filter_def mset_filter mset_map[symmetric])
  then show "mset (hits_in xs) = mset (hits_in ys)" "mset (conflicts_in xs) = mset (conflicts_in ys)"
    by (simp_all add: hits_in_def conflicts_in_def List.map_filter_def mset_filter assms)
  show "mset (members xs) = mset (members ys)"
    using assms by (simp add: mset_concat sum_mset_sum_list[symmetric] comp_def)
qed

lemma admissible_sub:
  assumes "mset xs \<subseteq># mset ys" "admissible ys"
  shows "admissible xs"
proof -
  obtain zs where "mset ys = mset xs + mset zs" using assms(1) by (metis ex_mset mset_subset_eq_exists_conv)
  then have "mset ys = mset (xs @ zs)" by simp
  note m = mset_item_lists[OF this]
  have "length (hits_in ys) = length (hits_in (xs @ zs))" "length (conflicts_in ys) = length (conflicts_in (xs @ zs))"
    "length (members ys) = length (members (xs @ zs))" using m by (metis size_mset)+
  moreover have "mset (map mh_memory_id (members ys)) = mset (map mh_memory_id (members (xs @ zs)))"
    using m(3) by (simp add: mset_map)
  from mset_eq_imp_distinct_iff[OF this] assms(2) have "distinct (map mh_memory_id (members (xs @ zs)))"
    by (simp add: admissible_def)
  moreover have "set (members ys) = set (members (xs @ zs))" using m(3) by (rule mset_eq_setD)
  ultimately show ?thesis using assms(2) unfolding admissible_def by auto
qed

lemma length_fold_dict_set: "length (fold (\<lambda>r. dict_set (k r) r) rs d) \<le> length d + length rs"
proof (induction rs arbitrary: d)
  case (Cons r rs)
  have "length (dict_set (k r) r d) \<le> Suc (length d)" by (induction d) auto
  with Cons[of "dict_set (k r) r d"] show ?case by simp
qed simp

lemma pack_hits_items:
  assumes "\<And>s. pack_section s p = items_in s items"
  shows "mset (pack_hits p) = mset (hits_in items)"
proof -
  have "mset (pack_hits p) = (\<Sum>s\<leftarrow>section_order. mset (pack_section s p))"
    by (simp add: pack_hits_def section_order_def ac_simps)
  also have "\<dots> = (\<Sum>s\<leftarrow>section_order. filter_mset (\<lambda>h. section_for_hit h = s) (mset (hits_in items)))"
    by (simp add: assms items_in_hits)
  also have "\<dots> = mset xs" if "xs = hits_in items" for xs
    unfolding that[symmetric]
  proof (induction xs)
    case (Cons x xs)
    then show ?case by (cases "section_for_hit x") (simp_all add: section_order_def)
  qed (simp add: section_order_def)
  finally show ?thesis by simp
qed

lemma traverse_map: "(\<And>x. x \<in> set xs \<Longrightarrow> f x = Inr (g x)) \<Longrightarrow> traverse f xs = Inr (map g xs)"
  by (induction xs) auto

lemma pack_from_items_total:
  assumes "is_uuid7 pid" "admissible items"
  shows "\<exists>p. pack_from_items pid items flags = Inr p"
proof -
  have t: "traverse new_provenance (members items) = Inr (map provenance_of_hit (members items))"
    using assms(2) unfolding admissible_def by (intro traverse_map) blast
  obtain ps where ps: "provenance_of items = Inr ps" and len: "length ps \<le> 512"
    using length_fold_dict_set[of pv_event_id "map provenance_of_hit (members items)" "[]"] assms(2)
    unfolding provenance_of_def t admissible_def by (auto simp: Let_def)
  define p where "p = \<lparr> cp_context_pack_id = pid, cp_persona = items_in PERSONA items,
             cp_active_boundaries = items_in ACTIVE_BOUNDARIES items, cp_user_preferences = items_in USER_PREFERENCES items,
             cp_relationship_patterns = items_in RELATIONSHIP_PATTERNS items,
             cp_project_context = items_in PROJECT_CONTEXT items, cp_episodic_anchors = items_in EPISODIC_ANCHORS items,
             cp_open_questions = items_in OPEN_QUESTIONS items, cp_conflicts = conflicts_in items,
             cp_excluded_scope_summary = \<lparr> xs_requested_scope_reduction = fg_requested_scope_reduction flags,
               xs_evidence_omitted = fg_evidence_omitted flags, xs_budget_truncated = fg_budget_truncated flags \<rparr>,
             cp_provenance = ps \<rparr>"
  have sec: "pack_section s p = items_in s items" for s by (cases s) (simp_all add: p_def)
  have "length (pack_section s p) \<le> 64" for s
    using assms(2) length_filter_le[of _ "hits_in items"] unfolding sec items_in_hits admissible_def by (meson le_trans)
  moreover have "mset (map mh_memory_id (pack_hits p @ pack_conflict_members p)) = mset (map mh_memory_id (members items))"
    by (simp add: mset_map pack_hits_items[OF sec] mset_members pack_conflict_members_def) (simp add: p_def)
  from mset_eq_imp_distinct_iff[OF this] assms(2) have "distinct (map mh_memory_id (pack_hits p @ pack_conflict_members p))"
    by (simp add: admissible_def)
  ultimately have "validate_context_pack p = Inr ()"
    using assms len unfolding validate_context_pack_ok admissible_def by (simp add: p_def)
  then show ?thesis
    by (intro exI[of _ p]) (simp add: pack_from_items_def ps Let_def p_def)
qed

subsection \<open>Assembly\<close>

lemma mset_round_robin_items:
  "mset (round_robin_items hits conflicts) \<subseteq># mset (map HitItem hits) + mset (map ConflictItem conflicts)"
proof -
  define P where "P = (\<lambda>h :: memory_hit. mh_memory_id h \<notin> mh_memory_id ` set (concat (map cg_members conflicts)))"
  have parts: "(\<Sum>s\<leftarrow>section_order. mset (map HitItem (filter (\<lambda>h. P h \<and> section_for_hit h = s) xs))) \<subseteq># mset (map HitItem xs)" for xs
  proof (induction xs)
    case (Cons x xs)
    show ?case
    proof (cases "P x")
      case True
      have "(\<Sum>s\<leftarrow>section_order. mset (map HitItem (filter (\<lambda>h. P h \<and> section_for_hit h = s) (x # xs)))) =
          add_mset (HitItem x) (\<Sum>s\<leftarrow>section_order. mset (map HitItem (filter (\<lambda>h. P h \<and> section_for_hit h = s) xs)))"
        using True by (cases "section_for_hit x") (simp_all add: section_order_def)
      with Cons show ?thesis by simp
    next
      case False
      have "mset (map HitItem xs) \<subseteq># mset (map HitItem (x # xs))" by simp
      from subset_mset.order_trans[OF Cons this] False show ?thesis by simp
    qed
  qed (simp add: section_order_def)
  have "mset (round_robin_items hits conflicts) = (\<Sum>l\<leftarrow>lane_order. mset (lane_items hits conflicts l))"
    by (simp add: round_robin_items_def mset_turns)
  also have "\<dots> = mset (map ConflictItem (sort_key conflict_key conflicts))
      + (\<Sum>s\<leftarrow>section_order. mset (map HitItem (filter (\<lambda>h. P h \<and> section_for_hit h = s) (sort_key hit_key hits))))"
    by (simp add: lane_order_def section_order_def lane_items_def P_def Let_def ac_simps)
  finally show ?thesis using parts[of "sort_key hit_key hits"] by (simp add: subset_mset.add_mono)
qed

lemma select_items_total:
  assumes "counts_digits L model_dump base" "is_uuid7 (pr_context_pack_id rq)" "admissible (sel @ cands)"
    and "1 \<le> pr_requested_units rq" "pr_requested_units rq \<le> 1000000"
  shows "\<exists>sel' om'. select_items L model_dump rq eo sel om cands = Inr (sel', om') \<and> admissible sel'"
  using assms(3)
proof (induction cands arbitrary: sel om)
  case (Cons c cands)
  have adm: "admissible (sel @ [c])" "admissible (sel @ cands)" by (auto intro: admissible_sub[OF _ Cons.prems])
  obtain p where p: "pack_from_items (pr_context_pack_id rq) (sel @ [c])
         \<lparr> fg_requested_scope_reduction = pr_requested_scope_reduction rq, fg_evidence_omitted = eo,
           fg_budget_truncated = True \<rparr> = Inr p"
    using pack_from_items_total[OF assms(2) adm(1)] by blast
  have "sound_frame (probe_frame rq)" using assms(4,5) by (simp add: sound_frame_def probe_frame_def)
  from result_with_size_total[OF assms(1) this] obtain x m where
    "result_with_size L model_dump p (probe_frame rq) = Inr (x, m)" by blast
  moreover have "\<exists>sel' om'. select_items L model_dump rq eo sel True cands = Inr (sel', om') \<and> admissible sel'"
    by (rule Cons.IH[OF adm(2)])
  moreover have "\<exists>sel' om'. select_items L model_dump rq eo (sel @ [c]) om cands = Inr (sel', om') \<and> admissible sel'"
    using Cons.prems by (intro Cons.IH) simp
  ultimately show ?case using p by (cases x) simp_all
qed simp

text \<open>The contract of the inputs: validated hits and groups, each memory once, within the contract's limits.\<close>

definition packable :: "memory_hit list \<Rightarrow> conflict_group list \<Rightarrow> bool" where
  "packable hits conflicts \<longleftrightarrow>
     list_all (\<lambda>m. validate_memory_hit m = Inr ()) (hits @ concat (map cg_members conflicts))
     \<and> distinct (map mh_memory_id hits) \<and> distinct (map mh_memory_id (concat (map cg_members conflicts)))
     \<and> length hits \<le> 64 \<and> length conflicts \<le> 32 \<and> length hits + length (concat (map cg_members conflicts)) \<le> 512"

lemma validated_hit_provenance: "validate_memory_hit m = Inr () \<Longrightarrow> new_provenance m = Inr (provenance_of_hit m)"
  unfolding validate_memory_hit_def rbind_eq_Inr reject_first_ok uuid7_fields_ok
  by (auto simp: new_provenance_def provenance_of_hit_def uuid7_field_def require_uuid7_def opt_all_def)

lemma without_evidence_fields [simp]:
  "mh_memory_id (without_evidence m) = mh_memory_id m" "mh_evidence (without_evidence m) = []"
  by (simp_all add: without_evidence_def)

lemma without_evidence_valid: "validate_memory_hit m = Inr () \<Longrightarrow> validate_memory_hit (without_evidence m) = Inr ()"
  unfolding validate_memory_hit_def rbind_eq_Inr reject_first_ok
  by (simp add: without_evidence_def hit_validity_inverted_def split: option.splits)

lemma packable_prepared:
  assumes "packable hits conflicts"
  shows "packable (prepared_hits inc hits) (prepared_conflicts inc conflicts)"
proof (cases inc)
  case False
  have "concat (map cg_members (map strip_group conflicts)) = map without_evidence (concat (map cg_members conflicts))"
    by (induction conflicts) (simp_all add: strip_group_def)
  with assms False show ?thesis
    by (auto simp: packable_def prepared_hits_def prepared_conflicts_def comp_def list_all_iff intro!: without_evidence_valid)
qed (use assms in \<open>simp add: prepared_hits_def prepared_conflicts_def\<close>)

lemma distinct_sub: "mset xs \<subseteq># mset ys \<Longrightarrow> distinct (map f ys) \<Longrightarrow> distinct (map f xs)"
proof -
  assume "mset xs \<subseteq># mset ys" and d: "distinct (map f ys)"
  then obtain zs where "mset ys = mset (xs @ zs)" by (metis ex_mset mset_append mset_subset_eq_exists_conv)
  then have "mset (map f ys) = mset (map f (xs @ zs))" by simp
  from mset_eq_imp_distinct_iff[OF this] d show ?thesis by simp
qed

lemma concat_sub: "mset xs \<subseteq># mset ys \<Longrightarrow> mset (concat (map f xs)) \<subseteq># mset (concat (map f ys))"
proof -
  assume "mset xs \<subseteq># mset ys"
  then obtain zs where "mset ys = mset (xs @ zs)" by (metis ex_mset mset_append mset_subset_eq_exists_conv)
  then have "mset (concat (map f ys)) = mset (concat (map f (xs @ zs)))"
    by (simp add: mset_concat sum_mset_sum_list[symmetric] comp_def)
  then show ?thesis by simp
qed

lemma round_robin_lists:
  "mset (hits_in (round_robin_items hits conflicts)) \<subseteq># mset hits"
  "mset (conflicts_in (round_robin_items hits conflicts)) \<subseteq># mset conflicts"
proof -
  have "hits_in (map ConflictItem gs) = []" "conflicts_in (map ConflictItem gs) = gs" for gs by (induction gs) simp_all
  moreover have "hits_in (map HitItem hs) = hs" "conflicts_in (map HitItem hs) = []" for hs by (induction hs) simp_all
  ultimately have lists: "hits_in (map HitItem hits @ map ConflictItem conflicts) = hits"
      "conflicts_in (map HitItem hits @ map ConflictItem conflicts) = conflicts" by simp_all
  obtain zs where "mset (map HitItem hits @ map ConflictItem conflicts) = mset (round_robin_items hits conflicts @ zs)"
    using mset_round_robin_items[of hits conflicts] by (metis ex_mset mset_append mset_subset_eq_exists_conv)
  from mset_item_lists(1,2)[OF this]
  have "mset hits = mset (hits_in (round_robin_items hits conflicts)) + mset (hits_in zs)"
    "mset conflicts = mset (conflicts_in (round_robin_items hits conflicts)) + mset (conflicts_in zs)"
    unfolding lists by simp_all
  then show "mset (hits_in (round_robin_items hits conflicts)) \<subseteq># mset hits"
    "mset (conflicts_in (round_robin_items hits conflicts)) \<subseteq># mset conflicts" by simp_all
qed

lemma set_hits_in: "set (hits_in items) = {h. HitItem h \<in> set items}"
proof (induction items)
  case (Cons i items)
  then show ?case by (cases i) auto
qed simp

lemma packable_admissible:
  assumes "packable hits conflicts"
  shows "admissible (round_robin_items hits conflicts)"
proof -
  let ?hs = "hits_in (round_robin_items hits conflicts)" and ?gs = "conflicts_in (round_robin_items hits conflicts)"
  let ?ms = "members (round_robin_items hits conflicts)" and ?cm = "concat (map cg_members ?gs)"
  note h = round_robin_lists(1)[of hits conflicts] and g = round_robin_lists(2)[of hits conflicts]
  note c = concat_sub[OF g, of cg_members]
  have ms: "mset ?ms = mset (?hs @ ?cm)" by (simp add: mset_members)
  have "size (mset ?hs) \<le> length hits" "size (mset ?gs) \<le> length conflicts"
    "size (mset ?cm) \<le> length (concat (map cg_members conflicts))"
    using size_mset_mono[OF h] size_mset_mono[OF g] size_mset_mono[OF c] by simp_all
  moreover have "length ?ms = length ?hs + length ?cm" using ms by (metis size_mset length_append)
  moreover have "set ?ms \<subseteq> set (hits @ concat (map cg_members conflicts))"
    using mset_eq_setD[OF ms] set_mset_mono[OF h] set_mset_mono[OF c] by auto
  moreover have "distinct (map mh_memory_id (?hs @ ?cm))"
  proof -
    have "set ?hs \<subseteq> standalone hits conflicts" unfolding set_hits_in set_round_robin_items by auto
    moreover have "set ?gs \<subseteq> set conflicts" using set_mset_mono[OF g] by simp
    ultimately have "mh_memory_id ` set ?hs \<inter> mh_memory_id ` set ?cm = {}" by (fastforce simp: standalone_def)
    then show ?thesis
      using distinct_sub[OF h, of mh_memory_id] distinct_sub[OF c, of mh_memory_id] assms by (simp add: packable_def)
  qed
  then have "distinct (map mh_memory_id ?ms)"
    using mset_eq_imp_distinct_iff[of "map mh_memory_id ?ms" "map mh_memory_id (?hs @ ?cm)"] ms by simp
  ultimately show ?thesis
    using assms validated_hit_provenance unfolding admissible_def packable_def list_all_iff by auto
qed

lemma final_frame_sound:
  assumes "1 \<le> pr_requested_units rq" "pr_requested_units rq \<le> 1000000"
  shows "sound_frame (final_frame rq eo om)"
  using assms by (auto simp: sound_frame_def final_frame_def)


end
