(* ===== verification/Retrieval_Witnesses.thy ===== *)
theory Retrieval_Witnesses
  imports Pack_Total JCS
begin

text \<open>
  Concrete context packs: a serialiser of the two size fields, one hit and one conflict of two
  members, on which the theorems about packs are applied.
\<close>

definition size_dump :: "context_pack_result \<Rightarrow> pyvalue" where
  "size_dump r = PySequence 0 [PyInt (bm_used_units (cr_budget r)), PyInt (bm_serialized_bytes (cr_budget r))]"

lemma length_nat_str: "length (nat_str n) = ndigits n"
proof (induction n rule: ndigits.induct)
  case (1 n)
  then show ?case by (subst nat_str.simps, subst ndigits.simps) simp
qed

lemma length_ascii: "list_all (\<lambda>c. c < 128) s \<Longrightarrow> length (concat (map utf8_char s)) = length s"
  by (induction s) (simp_all add: utf8_char_def utf8_units_def)

lemma size_dump_estimate:
  assumes "1 \<le> used" "used \<le> HARD_RESPONSE_BYTE_CEILING"
  shows "estimate_utf8_upper_bound jcs_codec size_dump (sized_result pack f used) = Inr (3 + 2 * int (ndigits (nat used)))"
proof -
  let ?t = "lit (nat_str (nat used))"
  have i: "normalize_integer used = Inr used"
    using assms by (simp add: normalize_integer_ok MAX_IJSON_INTEGER_def HARD_RESPONSE_BYTE_CEILING_def)
  have "normalize_json_value jcs_codec MAX_CANONICAL_JSON_DEPTH (size_dump (sized_result pack f used))
      = Inr (JArr [JInt used, JInt used])"
    by (simp add: normalize_json_value_def size_dump_def sized_result_def normalize.simps MAX_CANONICAL_JSON_DEPTH_def i)
  moreover have "text_bytes (sort_names (JArr [JInt used, JInt used])) = concat (map utf8_char (91 # ?t @ 44 # ?t @ [93]))"
    using assms by (simp add: text_bytes_def int_str_def)
  moreover have "list_all (\<lambda>c. c < 128) (91 # ?t @ 44 # ?t @ [93])"
    using nat_str_digits[of "nat used"] by (auto simp: list_all_iff is_digit_def)
  then have "length (concat (map utf8_char (91 # ?t @ 44 # ?t @ [93]))) = 3 + 2 * ndigits (nat used)"
    by (subst length_ascii) (simp_all add: length_nat_str lit_def)
  ultimately show ?thesis
    by (simp add: estimate_utf8_upper_bound_def canonical_json_bytes_def jcs_codec_def)
qed

lemma size_dump_counts: "counts_digits jcs_codec size_dump (\<lambda>_ _. 3)"
  by (simp add: counts_digits_def size_dump_estimate)

definition sample_hit :: "nat \<Rightarrow> memory_status \<Rightarrow> memory_hit" where
  "sample_hit n status =
     \<lparr> mh_memory_id = sample_memory n, mh_revision = 1, mh_last_event_id = sample_memory (n + 16),
       mh_branch_id = sample_memory 1, mh_subject_id = sample_memory 1, mh_subject_kind = SUBJ_PERSONA,
       mh_category = USER_PREFERENCE, mh_ontological_status = LITERAL_USER_FACT, mh_scope = SC_GLOBAL,
       mh_visibility = PRIVATE_ROOT, mh_status = status, mh_statement = lit ''tea'', mh_reason_to_remember = None,
       mh_interpretation_limits = [], mh_authority_class = EXPLICIT_USER_STATEMENT, mh_valid_from = None,
       mh_valid_to = None, mh_observed_at = None,
       mh_score = \<lparr> ms_sources = [], ms_rrf_score = 1, ms_modifiers = no_modifiers, ms_modifier_contributions = [],
         ms_final_score = 1 \<rparr>,
       mh_explanation_codes = [], mh_evidence = [] \<rparr>"

definition sample_group :: conflict_group where
  "sample_group = \<lparr> cg_conflict_id = sample_memory 9, cg_subject_id = sample_memory 1,
     cg_members = [sample_hit 3 DISPUTED, sample_hit 4 DISPUTED] \<rparr>"

definition sample_channel :: channel_state where
  "sample_channel = \<lparr> ch_availability = AVAILABLE, ch_reason = None \<rparr>"

definition sample_request :: pack_request where
  "sample_request = \<lparr> pr_context_pack_id = sample_memory 8, pr_requested_units = 4096,
     pr_retrieval = \<lparr> ri_sha256 = '''', ri_active_embedding_model_id = None, ri_lexical = sample_channel,
       ri_trigram = sample_channel, ri_semantic = sample_channel \<rparr>, pr_requested_scope_reduction = False \<rparr>"

lemma size_dump_rounds:
  assumes "sound_frame f" "5 \<le> rf_requested_units f"
  shows "result_with_size jcs_codec size_dump p f = Inr (Some (sized_result p f 5), 5)"
proof -
  have "estimate_utf8_upper_bound jcs_codec size_dump (sized_result p f 1) = Inr 5"
    "estimate_utf8_upper_bound jcs_codec size_dump (sized_result p f 5) = Inr 5"
    by (simp_all add: size_dump_estimate HARD_RESPONSE_BYTE_CEILING_def ndigits.simps)
  moreover have "new_context_pack_result p f 1 = Inr (sized_result p f 1)"
    "new_context_pack_result p f 5 = Inr (sized_result p f 5)"
    using assms by (auto intro!: new_context_pack_result_total simp: HARD_RESPONSE_BYTE_CEILING_def)
  moreover have "8 = Suc (Suc 6)" by simp
  ultimately show ?thesis
    using assms(2) unfolding result_with_size_def by (simp only: size_rounds.simps) (simp add: HARD_RESPONSE_BYTE_CEILING_def)
qed

lemma sample_uuid7:
  "is_uuid7 (sample_memory 1)" "is_uuid7 (sample_memory 2)" "is_uuid7 (sample_memory 3)" "is_uuid7 (sample_memory 4)"
  "is_uuid7 (sample_memory 8)" "is_uuid7 (sample_memory 18)" "is_uuid7 (sample_memory 19)" "is_uuid7 (sample_memory 20)"
  by (simp_all add: sample_memory_def is_uuid7_def uuid_version_def uuid_variant_def)

lemma sample_request_units: "1 \<le> pr_requested_units sample_request" "pr_requested_units sample_request \<le> 1000000"
  "is_uuid7 (pr_context_pack_id sample_request)"
  by (simp_all add: sample_request_def sample_uuid7)

lemma sample_select:
  "admissible (sel @ cands) \<Longrightarrow>
     select_items jcs_codec size_dump sample_request eo sel om cands = Inr (sel @ cands, om)"
proof (induction cands arbitrary: sel)
  case (Cons c cands)
  have "admissible (sel @ [c])" by (rule admissible_sub[OF _ Cons.prems]) simp
  then obtain p where "pack_from_items (pr_context_pack_id sample_request) (sel @ [c])
         \<lparr> fg_requested_scope_reduction = pr_requested_scope_reduction sample_request, fg_evidence_omitted = eo,
           fg_budget_truncated = True \<rparr> = Inr p"
    using pack_from_items_total[OF sample_request_units(3)] by blast
  moreover have "result_with_size jcs_codec size_dump p (probe_frame sample_request)
      = Inr (Some (sized_result p (probe_frame sample_request) 5), 5)" for p
    by (rule size_dump_rounds) (simp_all add: sound_frame_def probe_frame_def sample_request_def)
  ultimately show ?case using Cons by simp
qed simp

lemma sample_packable: "packable [sample_hit 2 ACTIVE] [sample_group]"
  by (simp add: packable_def sample_hit_def sample_group_def validate_memory_hit_def hit_validity_inverted_def
      uuid7_field_def require_uuid7_def sample_uuid7 str_between_def lit_def opt_all_def safe_positive_def)
    (simp add: sample_memory_def is_uuid7_def uuid_version_def uuid_variant_def)

lemma sample_assembly:
  assumes "packable hits gs"
  shows "is_ok (assemble_context_pack jcs_codec size_dump sample_request inc hits gs)"
proof -
  let ?is = "round_robin_items (prepared_hits inc hits) (prepared_conflicts inc gs)"
  have adm: "admissible ([] @ ?is)"
    using packable_admissible[OF packable_prepared[OF assms]] by simp
  have p: "\<exists>p. pack_from_items (pr_context_pack_id sample_request) ?is flags = Inr p" for flags
    using pack_from_items_total[OF sample_request_units(3)] adm by simp
  have r: "result_with_size jcs_codec size_dump p (final_frame sample_request eo om)
      = Inr (Some (sized_result p (final_frame sample_request eo om) 5), 5)" for p eo om
    by (rule size_dump_rounds) (simp_all add: final_frame_sound sample_request_units, simp add: final_frame_def sample_request_def)
  show ?thesis
    unfolding assemble_context_pack_def Let_def prepared_hits_def[symmetric] prepared_conflicts_def[symmetric] sample_select[OF adm]
    using sample_request_units p by (auto simp: r) (metis (no_types, lifting) is_ok_simps rbind_simps p r)
qed

abbreviation sample_pack_result :: "context_pack_result result" where
  "sample_pack_result \<equiv>
     assemble_context_pack jcs_codec size_dump sample_request False [sample_hit 2 ACTIVE] [sample_group]"

lemma sample_pack_result_ok: "\<exists>r. sample_pack_result = Inr r"
  using sample_assembly[OF sample_packable, of False] by (simp only: is_ok_iff)

theorem assemble_context_pack_bounded_witness:
  "\<exists>r. sample_pack_result = Inr r
    \<and> estimate_utf8_upper_bound jcs_codec size_dump r = Inr (bm_used_units (cr_budget r))
    \<and> bm_used_units (cr_budget r) \<le> 4096"
proof -
  obtain r where r: "sample_pack_result = Inr r" using sample_pack_result_ok by blast
  have "pr_requested_units sample_request = 4096" by (simp add: sample_request_def)
  with assemble_context_pack_bounded[OF r] r show ?thesis by auto
qed

theorem context_pack_contents_witness:
  "\<exists>r. sample_pack_result = Inr r \<and> set (cp_conflicts (cr_result r)) \<subseteq> {strip_group sample_group}
    \<and> set (pack_section USER_PREFERENCES (cr_result r)) \<subseteq> {without_evidence (sample_hit 2 ACTIVE)}
    \<and> distinct (map mh_memory_id (pack_hits (cr_result r) @ pack_conflict_members (cr_result r)))"
proof -
  obtain r where r: "sample_pack_result = Inr r" using sample_pack_result_ok by blast
  from context_pack_contents[OF r, of USER_PREFERENCES] r show ?thesis
    by (auto simp: prepared_hits_def prepared_conflicts_def standalone_def)
qed


end
