(* ===== verification/Query_Witnesses.thy ===== *)
theory Query_Witnesses
  imports Query_Safety Retrieval_Witnesses
begin

text \<open>
  A concrete engine: a repository with one active memory that a caller with the scope
  \<^verbatim>\<open>memory:read\<close> reads, on which the theorem about disclosure is applied.
\<close>

definition sample_state :: memory where
  "sample_state =
     \<lparr> m_memory_id = sample_memory 2, m_tenant_id = sample_memory 5, m_lineage_id = sample_memory 6,
       m_branch_id = sample_memory 7, m_subject_id = sample_memory 8, m_subject_kind = SUBJ_GLOBAL, m_revision = 1,
       m_category = USER_PREFERENCE, m_ontological_status = LITERAL_USER_FACT, m_scope = SC_GLOBAL,
       m_visibility = PRIVATE_ROOT, m_status = ACTIVE, m_statement = Some (lit ''tea''),
       m_reason_to_remember = Some (lit ''asked''), m_interpretation_limits = [], m_confidence = Dec False 1 0,
       m_salience = Dec False 1 0, m_durability = Dec False 1 0, m_sensitivity = 0,
       m_authority_class = EXPLICIT_USER_STATEMENT, m_valid_from = None, m_valid_to = None, m_observed_at = None,
       m_origin_session_id = None, m_publication_approved_at = None, m_publication_approved_by_actor_id = None,
       m_content_protection = PLAINTEXT, m_content_key_id = None, m_created_at = 0, m_updated_at = 0,
       m_fingerprint_version = 1, m_normalized_fingerprint = None, m_metadata = [], m_class = MemoryStateV1 \<rparr>"

definition sample_caller :: query_principal where
  "sample_caller = \<lparr> qp_tenant_id = sample_memory 5, qp_actor_id = sample_memory 9, qp_client_id = sample_memory 10,
     qp_transport_binding_id = sample_memory 11, qp_scopes = {lit ''memory:read''}, qp_allowed_memory_scopes = {SC_GLOBAL},
     qp_allowed_visibilities = {PRIVATE_ROOT}, qp_max_sensitivity = 1, qp_allow_candidates = False, qp_ingress_id = None \<rparr>"

definition sample_storage_context :: storage_context where
  "sample_storage_context = \<lparr> st_lineage_id = sample_memory 6, st_branch_id = sample_memory 7, st_logical_session_id = None,
     st_project_subject_ids = [], st_relationship_subject_ids = [], st_session_subject_ids = [] \<rparr>"

definition sample_repository :: "unit candidate_repository" where
  "sample_repository =
     \<lparr> cr_resolve_context = (\<lambda>_ _ _ _ _. Inr (Some sample_storage_context)), cr_lexical_candidates = (\<lambda>_ _ _. Inr []),
       cr_trigram_candidates = (\<lambda>_ _ _. Inr []), cr_vector_candidates = (\<lambda>_ _ _. Inr []),
       cr_hydrate_memories = (\<lambda>_ _. Inr []),
       cr_get_memory = (\<lambda>_ _. Inr (Some \<lparr> hm_state = sample_state, hm_last_event_id = sample_memory 18 \<rparr>)),
       cr_content_key_reference = (\<lambda>_ _ _ _. Inr None), cr_sealed_content_binding = (\<lambda>_ _ _ _ _ _. Inr None),
       cr_open_conflict_members = (\<lambda>_ _. Inr []), cr_find_open_conflicts = (\<lambda>_ _ _. Inr []),
       cr_timeline = (\<lambda>_ _ _ _ _. Inr []), cr_lineage_metadata = (\<lambda>_ _ _. Inr None),
       cr_selection_events = (\<lambda>_ _ _. Inr []), cr_list_decisions = (\<lambda>_ _ _. Inr []) \<rparr>"

definition sample_engine :: "unit query_engine" where
  "sample_engine =
     \<lparr> qe_repository = sample_repository, qe_embed_query = None, qe_key_provider = None,
       qe_content_opener = (\<lambda>_ _ _ _. Inl SealedContentAuthenticationError), qe_read_plaintext = (\<lambda>_. Inl (ValueError [])),
       qe_now = 0, qe_new_uuid7 = sample_memory 4, qe_iterate = (\<lambda>_. [sample_memory 2]), qe_half_power = (\<lambda>_. 1),
       qe_profile_sha256 = [], qe_codec = jcs_codec, qe_model_dump = size_dump \<rparr>"

definition sample_query :: "utc direct_read_query" where
  "sample_query = MemoryGetQuery \<lparr> qb_persona_id = sample_memory 12, qb_branch_id = sample_memory 7,
     qb_logical_session_id = None, qb_project_ref = None, qb_relationship_ref = None \<rparr> (sample_memory 2) False"

lemma sample_ids:
  "is_uuid7 (sample_memory 2)" "is_uuid7 (sample_memory 5)" "is_uuid7 (sample_memory 6)" "is_uuid7 (sample_memory 7)"
  "is_uuid7 (sample_memory 8)" "is_uuid7 (sample_memory 18)"
  by (simp_all add: sample_memory_def is_uuid7_def uuid_version_def uuid_variant_def)

lemmas sample_defs = sample_state_def sample_caller_def sample_storage_context_def sample_repository_def sample_engine_def
  sample_query_def sample_ids uuid7_field_def require_uuid7_def

definition sample_mods :: score_modifiers where
  "sample_mods = \<lparr> sm_scope_match = 1, sm_authority = 95 / 100, sm_confidence = 1, sm_salience = 1, sm_recency = 0 \<rparr>"

lemma sample_modifiers: "modifiers sample_engine sample_state = Inr sample_mods"
  by (simp add: modifiers_def score_modifiers_v1_def new_score_modifiers_def sample_mods_def sample_state_def sample_engine_def
      recency_modifier_v1_def RRF_V1_PROFILE_def scale10_def) (simp add: validate_score_modifiers_def unit_float_def)

lemma sample_get:
  "\<exists>h. execute sample_engine sample_caller (Direct sample_query) = MemoryGetResult h []"
proof -
  let ?r = "\<lparr> sr_source = LEXICAL, sr_memory_ids = [sample_memory 2] \<rparr>"
  have ranking: "new_source_ranking LEXICAL [sample_memory 2] = Inr ?r"
    by (simp add: new_source_ranking_def validate_source_ranking_def sample_ids uuid7_field_def require_uuid7_def)
  have "fusable [?r] [(sample_memory 2, sample_mods)]"
    by (simp add: fusable_def validate_source_ranking_def sample_ids uuid7_field_def require_uuid7_def unit_modifiers_def validate_score_modifiers_def
        sample_mods_def unit_float_def)
  then have rrf: "weighted_rrf_v1 (\<lambda>_. [sample_memory 2]) [?r] [(sample_memory 2, sample_mods)] =
      Inr [\<lparr> rk_memory_id = sample_memory 2, rk_score = fused_score [?r] [(sample_memory 2, sample_mods)] (sample_memory 2) \<rparr>]"
    by (subst weighted_rrf_eq) simp_all
  have id: "m_memory_id sample_state = sample_memory 2" "qe_iterate sample_engine = (\<lambda>_. [sample_memory 2])"
    by (simp_all add: sample_state_def sample_engine_def)
  have hit: "\<exists>h. hit sample_state score (sample_memory 18) = Inr h" for score
    by (simp add: hit_def sample_defs validate_memory_hit_def hit_validity_inverted_def str_between_def lit_def opt_all_def
        safe_positive_def Let_def)
  let ?ctx = "\<lparr> rc_tenant_id = sample_memory 5, rc_lineage_id = sample_memory 6, rc_branch_id = sample_memory 7,
     rc_logical_session_id = None, rc_project_subject_id = None, rc_relationship_subject_id = None \<rparr>"
  have ctx: "resolve_read_context sample_caller sample_storage_context = Inr ?ctx"
    by (simp add: resolve_read_context_def validate_read_context_def sample_defs Let_def)
  have get: "\<exists>h. get_result F sample_state (sample_memory 18) False = Inr (MemoryGetResult h [])"
    if "fr_engine F = sample_engine" for F :: "unit read_frame"
    using hit[of "fused_score [?r] [(sample_memory 2, sample_mods)] (sample_memory 2)"]
    by (auto simp: get_result_def that id ranking sample_modifiers rrf bounded_payload_def)
  have el: "eligible F sample_state = Inr True"
    if "fr_engine F = sample_engine" "fr_caller F = sample_caller" "fr_context F = ?ctx" "fr_query F = sample_query"
      "fr_requested F = no_filters" for F :: "unit read_frame"
    by (simp add: eligible_def decide_def new_candidate_def validate_eligibility_candidate_def that candidate_def
        evaluate_eligibility_def operation_authorized_def no_filters_def outside_window_def sample_defs)
  let ?F = "\<lambda>filters. \<lparr> fr_engine = sample_engine, fr_caller = sample_caller, fr_context = ?ctx, fr_filters = filters,
     fr_requested = no_filters, fr_query = sample_query \<rparr>"
  have dispatched: "\<exists>h. dispatch (?F filters) sample_query = Inr (MemoryGetResult h [])" for filters
  proof -
    have "dispatch (?F filters) sample_query = get_result (?F filters) sample_state (sample_memory 18) False"
      using el[of "?F filters"] by (simp add: sample_query_def dispatch_get_def sample_engine_def sample_repository_def)
        (simp add: is_v3_def sample_state_def)
    with get[of "?F filters"] show ?thesis by simp
  qed
  have "\<exists>filters. storage_filters sample_caller ?ctx sample_storage_context no_filters = Inr filters"
    by (simp add: storage_filters_def new_retrieval_filters_def sample_caller_def no_filters_def Let_def)
  then obtain filters where fs: "storage_filters sample_caller ?ctx sample_storage_context no_filters = Inr filters" by blast
  have q: "query_filters sample_query = no_filters" by (simp add: sample_query_def)
  have res: "cr_resolve_context (qe_repository sample_engine) a b c d e = Inr (Some sample_storage_context)" for a b c d e
    by (simp add: sample_engine_def sample_repository_def)
  have none: "st_project_subject_ids sample_storage_context = []" "st_relationship_subject_ids sample_storage_context = []"
    by (simp_all add: sample_storage_context_def)
  have auth: "read_authorized sample_caller (Direct sample_query)"
    by (simp add: operation_authorized_def sample_caller_def)
  obtain h where "dispatch (?F filters) sample_query = Inr (MemoryGetResult h [])" using dispatched by blast
  then have "read_in_session sample_engine sample_caller (Direct sample_query) = Inr (MemoryGetResult h [])"
    by (simp add: read_in_session_def res none ctx fs q)
  then show ?thesis using auth by (simp add: execute_def)
qed



end
