(* ===== verification/Projection_Rows.thy ===== *)
theory Projection_Rows
  imports Event_Log Fold_Safety
begin

text \<open>
  The rows of the semantic projection tables and their conversion from and to the validated
  after-images (\<^verbatim>\<open>storage/projector.py\<close>). A column returns what was written to it; times are
  aware UTC values. A row keeps the columns of a memory of any class, so the class of the state is
  not stored: it is recovered from the protection and the candidate deadline.
\<close>

subsection \<open>Rows\<close>

record memory_row =
  mr_memory_id :: uuid
  mr_tenant_id :: uuid
  mr_lineage_id :: uuid
  mr_branch_id :: uuid
  mr_subject_id :: uuid
  mr_subject_kind :: string
  mr_origin_session_id :: "uuid option"
  mr_revision :: int
  mr_category :: string
  mr_ontological_status :: string
  mr_scope :: string
  mr_visibility :: string
  mr_status :: string
  mr_statement :: "pystr option"
  mr_reason_to_remember :: "pystr option"
  mr_interpretation_limits :: "pystr list"
  mr_confidence :: decimal
  mr_salience :: decimal
  mr_durability :: decimal
  mr_sensitivity :: int
  mr_authority_class :: string
  mr_valid_from :: "utc option"
  mr_valid_to :: "utc option"
  mr_observed_at :: "utc option"
  mr_created_at :: utc
  mr_updated_at :: utc
  mr_candidate_expires_at :: "utc option"
  mr_normalized_fingerprint :: "bytes option"
  mr_fingerprint_version :: int
  mr_metadata :: json_object
  mr_publication_approved_at :: "utc option"
  mr_publication_approved_by_actor_id :: "uuid option"
  mr_content_protection :: string
  mr_content_key_id :: "uuid option"
  mr_sealed_envelope_version :: "int option"
  mr_sealed_algorithm :: "string option"
  mr_sealed_nonce :: "bytes option"
  mr_sealed_ciphertext :: "bytes option"
  mr_sealed_aad_sha256 :: "bytes option"
  mr_safe_summary :: "pystr option"
  mr_last_event_id :: uuid

record evidence_row =
  vr_evidence_id :: uuid
  vr_tenant_id :: uuid
  vr_lineage_id :: uuid
  vr_branch_id :: uuid
  vr_memory_id :: uuid
  vr_source_event_id :: uuid
  vr_source_type :: pystr
  vr_source_reference :: json_object
  vr_excerpt :: "pystr option"
  vr_occurred_at :: "utc option"
  vr_content_sha256 :: "bytes option"
  vr_trust_classification :: pystr
  vr_status :: string
  vr_created_at :: utc
  vr_metadata :: json_object

record link_row =
  kr_link_id :: uuid
  kr_tenant_id :: uuid
  kr_lineage_id :: uuid
  kr_branch_id :: uuid
  kr_source_memory_id :: uuid
  kr_target_memory_id :: uuid
  kr_link_type :: string
  kr_status :: string
  kr_created_event_id :: uuid
  kr_unlinked_event_id :: "uuid option"
  kr_created_at :: utc
  kr_unlinked_at :: "utc option"
  kr_metadata :: json_object

record conflict_row =
  xr_conflict_id :: uuid
  xr_tenant_id :: uuid
  xr_lineage_id :: uuid
  xr_branch_id :: uuid
  xr_subject_id :: uuid
  xr_status :: string
  xr_reason :: pystr
  xr_resolution_kind :: "pystr option"
  xr_resolution_rationale :: "pystr option"
  xr_opened_event_id :: uuid
  xr_resolution_event_id :: "uuid option"
  xr_opened_at :: utc
  xr_resolved_at :: "utc option"
  xr_metadata :: json_object

record conflict_member_row =
  xm_tenant_id :: uuid
  xm_lineage_id :: uuid
  xm_conflict_id :: uuid
  xm_memory_id :: uuid
  xm_disposition :: pystr
  xm_joined_at :: utc
  xm_last_event_id :: uuid

record branch_row =
  wr_branch_id :: uuid
  wr_tenant_id :: uuid
  wr_lineage_id :: uuid
  wr_parent_branch_id :: "uuid option"
  wr_fork_event_sequence :: "int option"
  wr_name :: pystr
  wr_visibility_ceiling :: string
  wr_created_at :: utc
  wr_sealed_at :: "utc option"

subsection \<open>States to rows\<close>

definition opt_bind :: "('a \<Rightarrow> 'b result) \<Rightarrow> 'a option \<Rightarrow> 'b option result" where
  "opt_bind f x = (case x of None \<Rightarrow> Inr None | Some y \<Rightarrow> rbind (f y) (\<lambda>z. Inr (Some z)))"

lemma opt_bind_simps [simp]:
  "opt_bind f None = Inr None"
  "opt_bind f (Some y) = rbind (f y) (\<lambda>z. Inr (Some z))"
  by (simp_all add: opt_bind_def)

definition memory_columns ::
    "memory \<Rightarrow> bytes option \<Rightarrow> bytes option \<Rightarrow> bytes option \<Rightarrow> bytes option \<Rightarrow> uuid \<Rightarrow> memory_row" where
  "memory_columns m fingerprint nonce ciphertext aad last_event_id =
     \<lparr> mr_memory_id = m_memory_id m, mr_tenant_id = m_tenant_id m, mr_lineage_id = m_lineage_id m,
       mr_branch_id = m_branch_id m, mr_subject_id = m_subject_id m,
       mr_subject_kind = subject_kind_value (m_subject_kind m),
       mr_origin_session_id = m_origin_session_id m, mr_revision = m_revision m,
       mr_category = memory_category_value (m_category m),
       mr_ontological_status = ontological_status_value (m_ontological_status m),
       mr_scope = memory_scope_value (m_scope m), mr_visibility = memory_visibility_value (m_visibility m),
       mr_status = memory_status_value (m_status m), mr_statement = m_statement m,
       mr_reason_to_remember = m_reason_to_remember m,
       mr_interpretation_limits = m_interpretation_limits m, mr_confidence = m_confidence m,
       mr_salience = m_salience m, mr_durability = m_durability m, mr_sensitivity = m_sensitivity m,
       mr_authority_class = authority_class_value (m_authority_class m), mr_valid_from = m_valid_from m,
       mr_valid_to = m_valid_to m, mr_observed_at = m_observed_at m, mr_created_at = m_created_at m,
       mr_updated_at = m_updated_at m, mr_candidate_expires_at = candidate_expires_at m,
       mr_normalized_fingerprint = fingerprint, mr_fingerprint_version = m_fingerprint_version m,
       mr_metadata = m_metadata m, mr_publication_approved_at = m_publication_approved_at m,
       mr_publication_approved_by_actor_id = m_publication_approved_by_actor_id m,
       mr_content_protection = content_protection_value (m_content_protection m),
       mr_content_key_id = m_content_key_id m,
       mr_sealed_envelope_version = map_option se_envelope_version (sealed_content m),
       mr_sealed_algorithm = map_option se_algorithm (sealed_content m), mr_sealed_nonce = nonce,
       mr_sealed_ciphertext = ciphertext, mr_sealed_aad_sha256 = aad,
       mr_safe_summary = map_option se_safe_summary (sealed_content m), mr_last_event_id = last_event_id \<rparr>"

definition memory_state_to_row :: "memory \<Rightarrow> uuid \<Rightarrow> memory_row result" where
  "memory_state_to_row m last_event_id =
     rbind (opt_bind bytes_fromhex (m_normalized_fingerprint m)) (\<lambda>fingerprint.
     rbind (opt_bind (\<lambda>s. b64decode (se_nonce s)) (sealed_content m)) (\<lambda>nonce.
     rbind (opt_bind (\<lambda>s. b64decode (se_ciphertext s)) (sealed_content m)) (\<lambda>ciphertext.
     rbind (opt_bind (\<lambda>s. bytes_fromhex (se_aad_sha256 s)) (sealed_content m)) (\<lambda>aad.
       Inr (memory_columns m fingerprint nonce ciphertext aad last_event_id)))))"

definition evidence_state_to_row :: "evidence_item \<Rightarrow> uuid \<Rightarrow> evidence_row result" where
  "evidence_state_to_row x source_event_id =
     rbind (opt_bind bytes_fromhex (ev_content_sha256 x)) (\<lambda>content_sha256.
       Inr \<lparr> vr_evidence_id = ev_evidence_id x, vr_tenant_id = ev_tenant_id x, vr_lineage_id = ev_lineage_id x,
         vr_branch_id = ev_branch_id x, vr_memory_id = ev_memory_id x, vr_source_event_id = source_event_id,
         vr_source_type = ev_source_type x, vr_source_reference = ev_source_reference x,
         vr_excerpt = ev_excerpt x, vr_occurred_at = ev_occurred_at x, vr_content_sha256 = content_sha256,
         vr_trust_classification = ev_trust_classification x, vr_status = ev_status x,
         vr_created_at = ev_created_at x, vr_metadata = ev_metadata x \<rparr>)"

fun link_status_value :: "link_status \<Rightarrow> string" where
  "link_status_value LINK_ACTIVE = ''active''"
| "link_status_value LINK_UNLINKED = ''unlinked''"

fun conflict_status_value :: "conflict_status \<Rightarrow> string" where
  "conflict_status_value CONFLICT_OPEN = ''open''"
| "conflict_status_value CONFLICT_RESOLVED = ''resolved''"

definition link_state_to_row :: "link \<Rightarrow> uuid \<Rightarrow> uuid option \<Rightarrow> link_row" where
  "link_state_to_row x created_event_id unlinked_event_id =
     \<lparr> kr_link_id = ln_link_id x, kr_tenant_id = ln_tenant_id x, kr_lineage_id = ln_lineage_id x,
       kr_branch_id = ln_branch_id x, kr_source_memory_id = ln_source_memory_id x,
       kr_target_memory_id = ln_target_memory_id x, kr_link_type = link_type_value (ln_link_type x),
       kr_status = link_status_value (ln_status x), kr_created_event_id = created_event_id,
       kr_unlinked_event_id = unlinked_event_id, kr_created_at = ln_created_at x,
       kr_unlinked_at = ln_unlinked_at x, kr_metadata = ln_metadata x \<rparr>"

definition conflict_state_to_row :: "conflict \<Rightarrow> uuid \<Rightarrow> uuid option \<Rightarrow> conflict_row" where
  "conflict_state_to_row x opened_event_id resolution_event_id =
     \<lparr> xr_conflict_id = cf_conflict_id x, xr_tenant_id = cf_tenant_id x, xr_lineage_id = cf_lineage_id x,
       xr_branch_id = cf_branch_id x, xr_subject_id = cf_subject_id x,
       xr_status = conflict_status_value (cf_status x), xr_reason = cf_reason x,
       xr_resolution_kind = cf_resolution_kind x, xr_resolution_rationale = cf_resolution_rationale x,
       xr_opened_event_id = opened_event_id, xr_resolution_event_id = resolution_event_id,
       xr_opened_at = cf_opened_at x, xr_resolved_at = cf_resolved_at x, xr_metadata = cf_metadata x \<rparr>"

definition conflict_member_to_row :: "conflict \<Rightarrow> conflict_member \<Rightarrow> uuid \<Rightarrow> conflict_member_row" where
  "conflict_member_to_row c x last_event_id =
     \<lparr> xm_tenant_id = cf_tenant_id c, xm_lineage_id = cf_lineage_id c, xm_conflict_id = cm_conflict_id x,
       xm_memory_id = cm_memory_id x, xm_disposition = cm_disposition x, xm_joined_at = cm_joined_at x,
       xm_last_event_id = last_event_id \<rparr>"

definition branch_state_to_row :: "branch \<Rightarrow> branch_row" where
  "branch_state_to_row x =
     \<lparr> wr_branch_id = br_branch_id x, wr_tenant_id = br_tenant_id x, wr_lineage_id = br_lineage_id x,
       wr_parent_branch_id = br_parent_branch_id x, wr_fork_event_sequence = br_fork_event_sequence x,
       wr_name = br_name x, wr_visibility_ceiling = memory_visibility_value (br_visibility_ceiling x),
       wr_created_at = br_created_at x, wr_sealed_at = br_sealed_at x \<rparr>"

subsection \<open>Rows to states\<close>

definition parse_enum :: "('a \<Rightarrow> string) \<Rightarrow> 'a list \<Rightarrow> string \<Rightarrow> 'a result" where
  "parse_enum wire members s =
     (case enum_parse wire members s of None \<Rightarrow> Inl (ValueError ''enum'') | Some m \<Rightarrow> Inr m)"

definition content_protections :: "content_protection list" where
  "content_protections = [PLAINTEXT, ENVELOPE_ENCRYPTED, CRYPTOGRAPHICALLY_ERASED]"

definition link_statuses :: "link_status list" where
  "link_statuses = [LINK_ACTIVE, LINK_UNLINKED]"

definition conflict_statuses :: "conflict_status list" where
  "conflict_statuses = [CONFLICT_OPEN, CONFLICT_RESOLVED]"

interpretation protection_enum: str_enum content_protections content_protection_value
proof unfold_locales
  fix m show "m \<in> set content_protections" by (cases m) (simp_all add: content_protections_def)
qed (simp add: enum_values_def content_protections_def content_protection_value_def)

interpretation link_status_enum: str_enum link_statuses link_status_value
proof unfold_locales
  fix m show "m \<in> set link_statuses" by (cases m) (simp_all add: link_statuses_def)
qed (simp add: enum_values_def link_statuses_def)

interpretation conflict_status_enum: str_enum conflict_statuses conflict_status_value
proof unfold_locales
  fix m show "m \<in> set conflict_statuses" by (cases m) (simp_all add: conflict_statuses_def)
qed (simp add: enum_values_def conflict_statuses_def)

definition sealed_of_row :: "memory_row \<Rightarrow> sealed_envelope result" where
  "sealed_of_row row =
     (case (mr_sealed_nonce row, mr_sealed_ciphertext row, mr_sealed_aad_sha256 row) of
        (Some nonce, Some ciphertext, Some aad) \<Rightarrow>
          (case (mr_sealed_envelope_version row, mr_sealed_algorithm row, mr_content_key_id row, mr_safe_summary row) of
             (Some version, Some algorithm, Some content_key_id, Some safe_summary) \<Rightarrow>
               Inr \<lparr> se_contract_version = ''scalevault.sealed-content-envelope.v1'', se_envelope_version = version,
                 se_algorithm = algorithm, se_content_key_id = content_key_id, se_nonce = b64encode nonce,
                 se_ciphertext = b64encode ciphertext, se_aad_sha256 = bytes_hex aad, se_safe_summary = safe_summary \<rparr>
           | _ \<Rightarrow> Inl (ValidationError (ValueError ''sealed_content'')))
      | _ \<Rightarrow> Inl (ProjectionPersistenceError ''invalid_sealed_projection''))"

definition state_class_of_row :: "memory_row \<Rightarrow> py_datetime state_class result" where
  "state_class_of_row row =
     (let expires_at = map_option raw_utc (mr_candidate_expires_at row) in
      if mr_content_protection row \<in> {''envelope_encrypted'', ''cryptographically_erased''}
      then rbind (sealed_of_row row) (\<lambda>s. Inr (MemoryStateV3 expires_at s))
      else if mr_candidate_expires_at row \<noteq> None then Inr (MemoryStateV2 expires_at)
      else Inr MemoryStateV1)"

definition memory_row_to_state :: "memory_row \<Rightarrow> memory result" where
  "memory_row_to_state row =
     rbind (parse_enum subject_kind_value subject_kinds (mr_subject_kind row)) (\<lambda>subject_kind.
     rbind (parse_enum memory_category_value memory_categories (mr_category row)) (\<lambda>category.
     rbind (parse_enum ontological_status_value ontological_statuses (mr_ontological_status row)) (\<lambda>ontological_status.
     rbind (parse_enum memory_scope_value memory_scopes (mr_scope row)) (\<lambda>scope.
     rbind (parse_enum memory_visibility_value memory_visibilities (mr_visibility row)) (\<lambda>visibility.
     rbind (parse_enum memory_status_value memory_statuses (mr_status row)) (\<lambda>status.
     rbind (parse_enum authority_class_value authority_classes (mr_authority_class row)) (\<lambda>authority_class.
     rbind (state_class_of_row row) (\<lambda>state_class.
       validated (rbind (parse_enum content_protection_value content_protections (mr_content_protection row)) (\<lambda>protection.
         validate_memory
          \<lparr> m_memory_id = mr_memory_id row, m_tenant_id = mr_tenant_id row, m_lineage_id = mr_lineage_id row,
            m_branch_id = mr_branch_id row, m_subject_id = mr_subject_id row, m_subject_kind = subject_kind,
            m_revision = mr_revision row, m_category = category, m_ontological_status = ontological_status,
            m_scope = scope, m_visibility = visibility, m_status = status, m_statement = mr_statement row,
            m_reason_to_remember = mr_reason_to_remember row,
            m_interpretation_limits = mr_interpretation_limits row, m_confidence = mr_confidence row,
            m_salience = mr_salience row, m_durability = mr_durability row, m_sensitivity = mr_sensitivity row,
            m_authority_class = authority_class, m_valid_from = map_option raw_utc (mr_valid_from row),
            m_valid_to = map_option raw_utc (mr_valid_to row), m_observed_at = map_option raw_utc (mr_observed_at row),
            m_origin_session_id = mr_origin_session_id row,
            m_publication_approved_at = map_option raw_utc (mr_publication_approved_at row),
            m_publication_approved_by_actor_id = mr_publication_approved_by_actor_id row,
            m_content_protection = protection, m_content_key_id = mr_content_key_id row,
            m_created_at = raw_utc (mr_created_at row), m_updated_at = raw_utc (mr_updated_at row),
            m_fingerprint_version = mr_fingerprint_version row,
            m_normalized_fingerprint = map_option bytes_hex (mr_normalized_fingerprint row),
            m_metadata = mr_metadata row, m_class = state_class \<rparr>))))))))))"

definition evidence_row_to_state :: "evidence_row \<Rightarrow> evidence_item result" where
  "evidence_row_to_state row = validated (validate_evidence
     \<lparr> ev_evidence_id = vr_evidence_id row, ev_tenant_id = vr_tenant_id row, ev_lineage_id = vr_lineage_id row,
       ev_branch_id = vr_branch_id row, ev_memory_id = vr_memory_id row, ev_source_type = vr_source_type row,
       ev_source_reference = vr_source_reference row, ev_excerpt = vr_excerpt row,
       ev_occurred_at = map_option raw_utc (vr_occurred_at row),
       ev_content_sha256 = map_option bytes_hex (vr_content_sha256 row),
       ev_trust_classification = vr_trust_classification row, ev_status = vr_status row,
       ev_created_at = raw_utc (vr_created_at row), ev_metadata = vr_metadata row \<rparr>)"

definition link_row_to_state :: "link_row \<Rightarrow> link result" where
  "link_row_to_state row =
     rbind (parse_enum link_type_value link_types (kr_link_type row)) (\<lambda>link_type.
     validated (rbind (parse_enum link_status_value link_statuses (kr_status row)) (\<lambda>status.
       validate_link
        \<lparr> ln_link_id = kr_link_id row, ln_tenant_id = kr_tenant_id row, ln_lineage_id = kr_lineage_id row,
          ln_branch_id = kr_branch_id row, ln_source_memory_id = kr_source_memory_id row,
          ln_target_memory_id = kr_target_memory_id row, ln_link_type = link_type, ln_status = status,
          ln_created_at = raw_utc (kr_created_at row), ln_unlinked_at = map_option raw_utc (kr_unlinked_at row),
          ln_metadata = kr_metadata row \<rparr>)))"

definition conflict_row_to_state :: "conflict_row \<Rightarrow> conflict result" where
  "conflict_row_to_state row =
     validated (rbind (parse_enum conflict_status_value conflict_statuses (xr_status row)) (\<lambda>status.
       validate_conflict
        \<lparr> cf_conflict_id = xr_conflict_id row, cf_tenant_id = xr_tenant_id row, cf_lineage_id = xr_lineage_id row,
          cf_branch_id = xr_branch_id row, cf_subject_id = xr_subject_id row, cf_status = status,
          cf_reason = xr_reason row, cf_resolution_kind = xr_resolution_kind row,
          cf_resolution_rationale = xr_resolution_rationale row, cf_opened_at = raw_utc (xr_opened_at row),
          cf_resolved_at = map_option raw_utc (xr_resolved_at row), cf_metadata = xr_metadata row \<rparr>))"

definition conflict_member_row_to_state :: "conflict_member_row \<Rightarrow> conflict_member result" where
  "conflict_member_row_to_state row = validated (validate_conflict_member
     \<lparr> cm_conflict_id = xm_conflict_id row, cm_memory_id = xm_memory_id row, cm_disposition = xm_disposition row,
       cm_joined_at = raw_utc (xm_joined_at row) \<rparr>)"

subsection \<open>Validated memories\<close>

text \<open>A memory object exists only if some values passed the validation of its class.\<close>

definition built_memory :: "memory \<Rightarrow> bool" where
  "built_memory m \<longleftrightarrow> (\<exists>raw. validate_memory raw = Inr m)"

definition raw_memory :: "memory \<Rightarrow> py_datetime memory_state" where
  "raw_memory m =
     \<lparr> m_memory_id = m_memory_id m, m_tenant_id = m_tenant_id m, m_lineage_id = m_lineage_id m,
       m_branch_id = m_branch_id m, m_subject_id = m_subject_id m, m_subject_kind = m_subject_kind m,
       m_revision = m_revision m, m_category = m_category m, m_ontological_status = m_ontological_status m,
       m_scope = m_scope m, m_visibility = m_visibility m, m_status = m_status m, m_statement = m_statement m,
       m_reason_to_remember = m_reason_to_remember m,
       m_interpretation_limits = m_interpretation_limits m, m_confidence = m_confidence m,
       m_salience = m_salience m, m_durability = m_durability m, m_sensitivity = m_sensitivity m,
       m_authority_class = m_authority_class m, m_valid_from = map_option raw_utc (m_valid_from m),
       m_valid_to = map_option raw_utc (m_valid_to m), m_observed_at = map_option raw_utc (m_observed_at m),
       m_origin_session_id = m_origin_session_id m,
       m_publication_approved_at = map_option raw_utc (m_publication_approved_at m),
       m_publication_approved_by_actor_id = m_publication_approved_by_actor_id m,
       m_content_protection = m_content_protection m, m_content_key_id = m_content_key_id m,
       m_created_at = raw_utc (m_created_at m), m_updated_at = raw_utc (m_updated_at m),
       m_fingerprint_version = m_fingerprint_version m,
       m_normalized_fingerprint = m_normalized_fingerprint m,
       m_metadata = m_metadata m, m_class = map_state_class raw_utc (m_class m) \<rparr>"

text \<open>The fields whose values validation may change, in normal form.\<close>

definition normal_memory :: "memory \<Rightarrow> bool" where
  "normal_memory m \<longleftrightarrow>
     normalize_unit_score (m_confidence m) = Inr (m_confidence m)
     \<and> normalize_unit_score (m_salience m) = Inr (m_salience m)
     \<and> normalize_unit_score (m_durability m) = Inr (m_durability m)
     \<and> (\<forall>n. utc_field_opt n (map_option raw_utc (m_valid_from m)) = Inr (m_valid_from m))
     \<and> (\<forall>n. utc_field_opt n (map_option raw_utc (m_valid_to m)) = Inr (m_valid_to m))
     \<and> (\<forall>n. utc_field_opt n (map_option raw_utc (m_observed_at m)) = Inr (m_observed_at m))
     \<and> (\<forall>n. utc_field_opt n (map_option raw_utc (m_publication_approved_at m)) = Inr (m_publication_approved_at m))
     \<and> (\<forall>n. utc_field n (raw_utc (m_created_at m)) = Inr (m_created_at m))
     \<and> (\<forall>n. utc_field n (raw_utc (m_updated_at m)) = Inr (m_updated_at m))
     \<and> normalize_candidate_expiry (map_state_class raw_utc (m_class m)) = Inr (m_class m)"

lemma utc_field_opt_raw: "utc_field_opt n x = Inr y \<Longrightarrow> utc_field_opt k (map_option raw_utc y) = Inr y"
  by (auto simp: utc_field_opt_def ok_simps split: option.splits dest: utc_field_raw[where m = k])

lemma candidate_expiry_raw:
  "normalize_candidate_expiry c = Inr c' \<Longrightarrow> normalize_candidate_expiry (map_state_class raw_utc c') = Inr c'"
  by (cases c) (auto simp: normalize_candidate_expiry_def ok_simps dest: utc_field_opt_raw)

lemma memory_normalize_normal:
  assumes "memory_normalize raw = Inr m"
  shows "normal_memory m"
  using assms unfolding memory_normalize_def
  by (elim rbind_InrE)
    (auto simp: normal_memory_def intro: normalized_score_idem utc_field_opt_raw utc_field_raw candidate_expiry_raw)

lemma memory_normalize_raw: "normal_memory m \<Longrightarrow> memory_normalize (raw_memory m) = Inr m"
  by (simp add: memory_normalize_def raw_memory_def normal_memory_def)

lemma built_memory_iff: "built_memory m \<longleftrightarrow> normal_memory m \<and> memory_field_constraints m = Inr ()
    \<and> memory_uuid7_fields m = Inr () \<and> memory_model_validators m = Inr ()"
proof
  assume "built_memory m"
  then obtain raw where raw: "validate_memory raw = Inr m" by (auto simp: built_memory_def)
  then have n: "memory_normalize raw = Inr m" by (auto simp: validate_memory_def ok_simps)
  with raw memory_normalize_keeps(1,2)[OF n] memory_normalize_normal[OF n]
  show "normal_memory m \<and> memory_field_constraints m = Inr () \<and> memory_uuid7_fields m = Inr () \<and> memory_model_validators m = Inr ()"
    by (auto simp: validate_memory_def ok_simps)
next
  assume m: "normal_memory m \<and> memory_field_constraints m = Inr () \<and> memory_uuid7_fields m = Inr () \<and> memory_model_validators m = Inr ()"
  then have n: "memory_normalize (raw_memory m) = Inr m" by (simp add: memory_normalize_raw)
  from m memory_normalize_keeps(1,2)[OF n] have "validate_memory (raw_memory m) = Inr m"
    by (simp add: validate_memory_def n)
  then show "built_memory m" unfolding built_memory_def by blast
qed

lemma validate_raw_memory: "built_memory m \<Longrightarrow> validate_memory (raw_memory m) = Inr m"
proof -
  assume "built_memory m"
  then have m: "normal_memory m" "memory_field_constraints m = Inr ()" "memory_uuid7_fields m = Inr ()"
      "memory_model_validators m = Inr ()"
    by (simp_all add: built_memory_iff)
  then have n: "memory_normalize (raw_memory m) = Inr m" by (simp add: memory_normalize_raw)
  from m memory_normalize_keeps(1,2)[OF n] show ?thesis by (simp add: validate_memory_def n)
qed

subsection \<open>Memory rows read back\<close>

text \<open>What a row keeps of a memory: a v2 state without a deadline reads back as a v1 state.\<close>

definition row_view :: "memory \<Rightarrow> memory" where
  "row_view m = (case m_class m of MemoryStateV2 None \<Rightarrow> m\<lparr> m_class := MemoryStateV1 \<rparr> | _ \<Rightarrow> m)"

lemma row_view_built:
  assumes "built_memory m"
  shows "built_memory (row_view m)"
proof (cases "m_class m = MemoryStateV2 None")
  case True
  let ?m = "m\<lparr> m_class := MemoryStateV1 \<rparr>"
  have v: "row_view m = ?m" by (simp add: row_view_def True)
  have n: "normal_memory ?m" using assms by (simp add: built_memory_iff normal_memory_def normalize_candidate_expiry_def)
  have s: "validate_state_shape ?m = validate_state_shape m"
    by (simp add: validate_state_shape_def validity_inverted_def scope_shape_def)
  have "memory_model_validators ?m = Inr ()"
    using assms True by (auto simp: built_memory_iff memory_model_validators_def s validate_candidate_expiry_def ok_simps)
  with n assms show ?thesis
    unfolding v by (simp add: built_memory_iff memory_field_constraints_def memory_uuid7_fields_def)
qed (use assms in \<open>auto simp: row_view_def split: state_class.splits option.splits\<close>)

lemma parse_enums [simp]:
  "parse_enum subject_kind_value subject_kinds (subject_kind_value a) = Inr a"
  "parse_enum memory_category_value memory_categories (memory_category_value b) = Inr b"
  "parse_enum ontological_status_value ontological_statuses (ontological_status_value c) = Inr c"
  "parse_enum memory_scope_value memory_scopes (memory_scope_value d) = Inr d"
  "parse_enum memory_visibility_value memory_visibilities (memory_visibility_value v) = Inr v"
  "parse_enum memory_status_value memory_statuses (memory_status_value s) = Inr s"
  "parse_enum authority_class_value authority_classes (authority_class_value u) = Inr u"
  "parse_enum content_protection_value content_protections (content_protection_value p) = Inr p"
  "parse_enum link_type_value link_types (link_type_value l) = Inr l"
  "parse_enum link_status_value link_statuses (link_status_value k) = Inr k"
  "parse_enum conflict_status_value conflict_statuses (conflict_status_value x) = Inr x"
  by (simp_all add: parse_enum_def subject_enum.parse_value category_enum.parse_value ontology_enum.parse_value
      scope_enum.parse_value visibility_enum.parse_value status_enum.parse_value authority_enum.parse_value
      protection_enum.parse_value link_enum.parse_value link_status_enum.parse_value conflict_status_enum.parse_value)

lemma index_of_Some: "x \<in> set xs \<Longrightarrow> \<exists>n. index_of xs x = Some n"
  by (induction xs) auto

lemma hex_decodes: "list_all is_hex s \<Longrightarrow> even (length s) \<Longrightarrow> \<exists>b. bytes_fromhex s = Inr b \<and> bytes_hex b = s"
proof -
  assume a: "list_all is_hex s" "even (length s)"
  have "\<exists>b. bytes_fromhex s = Inr b" using a
  proof (induction s rule: bytes_fromhex.induct)
    case (3 c d s)
    obtain h l where "index_of hex_alphabet c = Some h" "index_of hex_alphabet d = Some l"
      using 3(2) by (auto simp: is_hex_def dest!: index_of_Some)
    moreover from 3 this obtain b where "bytes_fromhex s = Inr b" by auto
    ultimately show ?case by simp
  qed auto
  with a(1) hex_bytes_hex show ?thesis by blast
qed

lemma hex_digest_decodes: "hex_digest_ok s \<Longrightarrow> \<exists>b. bytes_fromhex s = Inr b \<and> bytes_hex b = s"
  by (intro hex_decodes) (simp_all add: hex_digest_ok_def)

lemma built_fingerprint:
  "built_memory m \<Longrightarrow> \<exists>b. opt_bind bytes_fromhex (m_normalized_fingerprint m) = Inr b
     \<and> map_option bytes_hex b = m_normalized_fingerprint m"
  by (cases "m_normalized_fingerprint m")
    (auto simp: built_memory_iff memory_field_constraints_def ok_simps dest!: hex_digest_decodes)

lemma sealed_envelope_decodes:
  assumes "validate_sealed_envelope s = Inr ()"
  shows "\<exists>n c a. b64decode (se_nonce s) = Inr n \<and> b64encode n = se_nonce s
    \<and> b64decode (se_ciphertext s) = Inr c \<and> b64encode c = se_ciphertext s
    \<and> bytes_fromhex (se_aad_sha256 s) = Inr a \<and> bytes_hex a = se_aad_sha256 s
    \<and> se_contract_version s = ''scalevault.sealed-content-envelope.v1''"
proof -
  from assms have "hex_digest_ok (se_aad_sha256 s)" "se_contract_version s = ''scalevault.sealed-content-envelope.v1''"
    by (auto simp: validate_sealed_envelope_def ok_simps)
  moreover from assms have "\<exists>n c. b64decode (se_nonce s) = Inr n \<and> b64encode n = se_nonce s
      \<and> b64decode (se_ciphertext s) = Inr c \<and> b64encode c = se_ciphertext s"
    by (auto simp: validate_sealed_envelope_def ok_simps split: sum.splits)
  ultimately show ?thesis using hex_digest_decodes by blast
qed

lemma built_sealed:
  assumes "built_memory m" "m_class m = MemoryStateV3 x s"
  shows "validate_sealed_envelope s = Inr ()" "m_content_key_id m = Some (se_content_key_id s)"
    "m_content_protection m \<noteq> PLAINTEXT"
  using assms by (auto simp: built_memory_iff memory_model_validators_def validate_state_shape_v3_def
      memory_v3_field_types_def ok_simps)

text \<open>Every validated memory has a row.\<close>

lemma memory_state_to_row_total:
  assumes "built_memory m"
  shows "\<exists>row. memory_state_to_row m i = Inr row"
proof -
  obtain f where f: "opt_bind bytes_fromhex (m_normalized_fingerprint m) = Inr f"
    using built_fingerprint[OF assms] by blast
  show ?thesis
  proof (cases "sealed_content m")
    case None
    then show ?thesis by (simp add: memory_state_to_row_def f)
  next
    case (Some s)
    then obtain x where "m_class m = MemoryStateV3 x s" by (auto simp: sealed_content_def split: state_class.splits)
    from sealed_envelope_decodes[OF built_sealed(1)[OF assms this]] Some show ?thesis
      by (auto simp: memory_state_to_row_def f)
  qed
qed

text \<open>
  The class read from the row of a memory: that of the view, except that a protected memory
  without an envelope has no readable row.
\<close>

lemma state_class_of_memory_row:
  assumes "built_memory m" "memory_state_to_row m i = Inr row"
  shows "state_class_of_row row =
    (if m_content_protection m \<noteq> PLAINTEXT \<and> \<not> is_v3 m
     then Inl (ProjectionPersistenceError ''invalid_sealed_projection'')
     else Inr (map_state_class raw_utc (m_class (row_view m))))"
proof (cases "sealed_content m")
  case None
  with assms(2) have row: "mr_sealed_nonce row = None" "mr_candidate_expires_at row = candidate_expires_at m"
      "mr_content_protection row = content_protection_value (m_content_protection m)"
    by (auto simp: memory_state_to_row_def memory_columns_def ok_simps)
  from None have "\<not> is_v3 m" by (auto simp: sealed_content_def is_v3_def split: state_class.splits)
  with row None show ?thesis
    by (cases "m_content_protection m"; cases "m_class m"; cases "candidate_expires_at m")
      (simp_all add: state_class_of_row_def content_protection_value_def sealed_of_row_def row_view_def is_v3_def
        candidate_expires_at_def sealed_content_def)
next
  case (Some s)
  then obtain x where c: "m_class m = MemoryStateV3 x s"
    by (auto simp: sealed_content_def split: state_class.splits)
  note b = built_sealed[OF assms(1) c]
  obtain n ct a where d: "b64decode (se_nonce s) = Inr n" "b64encode n = se_nonce s" "b64decode (se_ciphertext s) = Inr ct"
      "b64encode ct = se_ciphertext s" "bytes_fromhex (se_aad_sha256 s) = Inr a" "bytes_hex a = se_aad_sha256 s"
      "se_contract_version s = ''scalevault.sealed-content-envelope.v1''"
    using sealed_envelope_decodes[OF b(1)] by blast
  from assms(2) Some d(1,3,5) have row: "mr_sealed_nonce row = Some n" "mr_sealed_ciphertext row = Some ct"
      "mr_sealed_aad_sha256 row = Some a" "mr_candidate_expires_at row = x" "mr_content_key_id row = m_content_key_id m"
      "mr_content_protection row = content_protection_value (m_content_protection m)"
      "mr_sealed_envelope_version row = Some (se_envelope_version s)" "mr_sealed_algorithm row = Some (se_algorithm s)"
      "mr_safe_summary row = Some (se_safe_summary s)"
    by (auto simp: memory_state_to_row_def memory_columns_def ok_simps candidate_expires_at_def c)
  have "sealed_of_row row = Inr s" by (simp add: sealed_of_row_def row b(2) d)
  with b(3) show ?thesis
    by (cases "m_content_protection m") (simp_all add: state_class_of_row_def row content_protection_value_def row_view_def c is_v3_def)
qed

lemma memory_row_to_state_eq:
  assumes "built_memory m" "memory_state_to_row m i = Inr row"
  shows "memory_row_to_state row =
    (if m_content_protection m \<noteq> PLAINTEXT \<and> \<not> is_v3 m
     then Inl (ProjectionPersistenceError ''invalid_sealed_projection'') else Inr (row_view m))"
proof -
  obtain f where f: "opt_bind bytes_fromhex (m_normalized_fingerprint m) = Inr f"
      "map_option bytes_hex f = m_normalized_fingerprint m"
    using built_fingerprint[OF assms(1)] by blast
  note c = state_class_of_memory_row[OF assms]
  have v: "validate_memory (raw_memory m\<lparr> m_class := map_state_class raw_utc (m_class (row_view m)) \<rparr>) = Inr (row_view m)"
    using validate_raw_memory[OF row_view_built[OF assms(1)]]
    by (auto simp: row_view_def raw_memory_def split: state_class.splits option.splits)
  from assms(2) obtain n ct a where "row = memory_columns m f n ct a i"
    by (auto simp: memory_state_to_row_def ok_simps f(1))
  then have "memory_row_to_state row = rbind (state_class_of_row row) (\<lambda>cls. validated (validate_memory (raw_memory m\<lparr> m_class := cls \<rparr>)))"
    by (simp add: memory_row_to_state_def memory_columns_def f(2) raw_memory_def)
  with c v show ?thesis by simp
qed

subsection \<open>The other rows read back\<close>

definition built_evidence :: "evidence_item \<Rightarrow> bool" where
  "built_evidence x \<longleftrightarrow> (\<exists>raw. validate_evidence raw = Inr x)"

definition built_link :: "link \<Rightarrow> bool" where
  "built_link x \<longleftrightarrow> (\<exists>raw. validate_link raw = Inr x)"

definition built_conflict :: "conflict \<Rightarrow> bool" where
  "built_conflict x \<longleftrightarrow> (\<exists>raw. validate_conflict raw = Inr x)"

definition built_member :: "conflict_member \<Rightarrow> bool" where
  "built_member x \<longleftrightarrow> (\<exists>raw. validate_conflict_member raw = Inr x)"

lemma evidence_row_to_state_eq:
  assumes "built_evidence x"
  shows "\<exists>row. evidence_state_to_row x i = Inr row \<and> evidence_row_to_state row = Inr x"
proof -
  from assms obtain raw where raw: "validate_evidence raw = Inr x" by (auto simp: built_evidence_def)
  then have "opt_all hex_digest_ok (ev_content_sha256 x)" by (auto simp: validate_evidence_def ok_simps)
  then obtain b where "opt_bind bytes_fromhex (ev_content_sha256 x) = Inr b" "map_option bytes_hex b = ev_content_sha256 x"
    by (cases "ev_content_sha256 x") (auto dest!: hex_digest_decodes)
  moreover from raw obtain t u where "utc_field_opt ''occurred_at'' (ev_occurred_at raw) = Inr t"
      "utc_field ''created_at'' (ev_created_at raw) = Inr u" "ev_occurred_at x = t" "ev_created_at x = u"
    by (auto simp: validate_evidence_def ok_simps)
  then have "utc_field_opt ''occurred_at'' (map_option raw_utc (ev_occurred_at x)) = Inr (ev_occurred_at x)"
      "utc_field ''created_at'' (raw_utc (ev_created_at x)) = Inr (ev_created_at x)"
    by (auto intro: utc_field_opt_raw utc_field_raw)
  ultimately show ?thesis using raw
    by (auto simp: evidence_state_to_row_def evidence_row_to_state_def validate_evidence_def ok_simps)
qed

lemma link_row_to_state_eq:
  assumes "built_link x"
  shows "link_row_to_state (link_state_to_row x i j) = Inr x"
proof -
  from assms obtain raw where raw: "validate_link raw = Inr x" by (auto simp: built_link_def)
  then have "utc_field_opt ''unlinked_at'' (map_option raw_utc (ln_unlinked_at x)) = Inr (ln_unlinked_at x)"
      "utc_field ''created_at'' (raw_utc (ln_created_at x)) = Inr (ln_created_at x)"
    by (auto simp: validate_link_def ok_simps intro: utc_field_opt_raw utc_field_raw)
  with raw show ?thesis by (auto simp: link_state_to_row_def link_row_to_state_def validate_link_def ok_simps)
qed

lemma conflict_row_to_state_eq:
  assumes "built_conflict x"
  shows "conflict_row_to_state (conflict_state_to_row x i j) = Inr x"
proof -
  from assms obtain raw where raw: "validate_conflict raw = Inr x" by (auto simp: built_conflict_def)
  then have "utc_field_opt ''resolved_at'' (map_option raw_utc (cf_resolved_at x)) = Inr (cf_resolved_at x)"
      "utc_field ''opened_at'' (raw_utc (cf_opened_at x)) = Inr (cf_opened_at x)"
    by (auto simp: validate_conflict_def ok_simps intro: utc_field_opt_raw utc_field_raw)
  with raw show ?thesis
    by (auto simp: conflict_state_to_row_def conflict_row_to_state_def validate_conflict_def ok_simps)
qed

lemma conflict_member_row_to_state_eq:
  assumes "built_member x"
  shows "conflict_member_row_to_state (conflict_member_to_row c x i) = Inr x"
proof -
  from assms obtain raw where raw: "validate_conflict_member raw = Inr x" by (auto simp: built_member_def)
  then have "utc_field ''joined_at'' (raw_utc (cm_joined_at x)) = Inr (cm_joined_at x)"
    by (auto simp: validate_conflict_member_def ok_simps intro: utc_field_raw)
  with raw show ?thesis
    by (auto simp: conflict_member_to_row_def conflict_member_row_to_state_def validate_conflict_member_def ok_simps)
qed

text \<open>
  C30. Every validated state has a row, and the row reads back as the state it was written from:
  evidence, links, conflicts and members exactly; a memory exactly unless it is a v2 state without
  a candidate deadline, which reads back as a v1 state, or a protected memory without an envelope,
  whose row is refused with \<open>invalid_sealed_projection\<close>.
\<close>

theorem projection_rows_roundtrip:
  assumes "built_memory m" "built_evidence x" "built_link l" "built_conflict c" "built_member k"
  shows "(\<exists>row. memory_state_to_row m i = Inr row \<and> memory_row_to_state row =
        (if m_content_protection m \<noteq> PLAINTEXT \<and> \<not> is_v3 m
         then Inl (ProjectionPersistenceError ''invalid_sealed_projection'') else Inr (row_view m)))
    \<and> (\<exists>row. evidence_state_to_row x i = Inr row \<and> evidence_row_to_state row = Inr x)
    \<and> link_row_to_state (link_state_to_row l i j) = Inr l
    \<and> conflict_row_to_state (conflict_state_to_row c i j) = Inr c
    \<and> conflict_member_row_to_state (conflict_member_to_row c k i) = Inr k"
proof -
  obtain row where "memory_state_to_row m i = Inr row" using memory_state_to_row_total[OF assms(1)] by blast
  with memory_row_to_state_eq[OF assms(1)] show ?thesis
    using evidence_row_to_state_eq[OF assms(2)] link_row_to_state_eq[OF assms(3)]
      conflict_row_to_state_eq[OF assms(4)] conflict_member_row_to_state_eq[OF assms(5)] by blast
qed

subsection \<open>A concrete instance\<close>

definition sample_plain :: "'t \<Rightarrow> 't state_class \<Rightarrow> 't memory_state" where
  "sample_plain t cls = (sample_memory t t 1 ACTIVE PLAINTEXT)\<lparr> m_content_key_id := None, m_class := cls \<rparr>"

definition sample_evidence :: "'t \<Rightarrow> 't evidence_state" where
  "sample_evidence t = \<lparr> ev_evidence_id = sid 40, ev_tenant_id = sid 30, ev_lineage_id = sid 2, ev_branch_id = sid 3,
     ev_memory_id = sid 10, ev_source_type = lit ''chat'', ev_source_reference = [], ev_excerpt = Some (lit ''tea''),
     ev_occurred_at = None, ev_content_sha256 = Some (replicate 64 CHR ''0''),
     ev_trust_classification = lit ''user'', ev_status = ''active'', ev_created_at = t, ev_metadata = [] \<rparr>"

definition sample_link :: "'t \<Rightarrow> 't link_state" where
  "sample_link t = \<lparr> ln_link_id = sid 41, ln_tenant_id = sid 30, ln_lineage_id = sid 2, ln_branch_id = sid 3,
     ln_source_memory_id = sid 10, ln_target_memory_id = sid 11, ln_link_type = SUPPORTS, ln_status = LINK_UNLINKED,
     ln_created_at = t, ln_unlinked_at = Some t, ln_metadata = [] \<rparr>"

definition sample_conflict :: "'t \<Rightarrow> 't conflict_state" where
  "sample_conflict t = \<lparr> cf_conflict_id = sid 42, cf_tenant_id = sid 30, cf_lineage_id = sid 2, cf_branch_id = sid 3,
     cf_subject_id = sid 5, cf_status = CONFLICT_OPEN, cf_reason = lit ''differ'', cf_resolution_kind = None,
     cf_resolution_rationale = None, cf_opened_at = t, cf_resolved_at = None, cf_metadata = [] \<rparr>"

definition sample_member :: "'t \<Rightarrow> 't conflict_member_state" where
  "sample_member t = \<lparr> cm_conflict_id = sid 42, cm_memory_id = sid 10, cm_disposition = lit ''member'', cm_joined_at = t \<rparr>"

lemma sample_row_ids: "is_uuid7 (sid 11)" "is_uuid7 (sid 40)" "is_uuid7 (sid 41)" "is_uuid7 (sid 42)"
  by (simp_all add: sid_def is_uuid7_def uuid_version_def uuid_variant_def)

lemmas sample_row_simps = sample_row_ids sample_time sample_score sid_uuid7 require_uuid7_def safe_positive_def str_between_def
  uuid7_field_def utc_field_opt_def lit_def

lemma sample_rows_built:
  "built_memory (sample_plain 2000 (MemoryStateV2 None))" "built_evidence (sample_evidence 2000)"
  "built_link (sample_link 2000)" "built_conflict (sample_conflict 2000)" "built_member (sample_member 2000)"
proof -
  have "validate_memory (sample_plain (sample_raw 2000) (MemoryStateV2 None)) = Inr (sample_plain 2000 (MemoryStateV2 None))"
    by (simp add: validate_memory_def sample_plain_def sample_memory_def memory_field_constraints_def memory_uuid7_fields_def
      memory_normalize_def memory_model_validators_def validate_state_shape_def scope_shape_def
      validate_candidate_expiry_def normalize_candidate_expiry_def candidate_expires_at_def
      validate_category_ontology_def validity_inverted_def empty_text_def Let_def sample_row_simps)
  moreover have "hex_digest_ok (replicate 64 CHR ''0'')"
    by (simp add: hex_digest_ok_def list_all_iff is_hex_def hex_alphabet_def)
  then have "validate_evidence (sample_evidence (sample_raw 2000)) = Inr (sample_evidence 2000)"
    by (simp add: validate_evidence_def sample_evidence_def sample_row_simps)
  moreover have "validate_link (sample_link (sample_raw 2000)) = Inr (sample_link 2000)"
    by (simp add: validate_link_def sample_link_def sample_row_simps)
  moreover have "validate_conflict (sample_conflict (sample_raw 2000)) = Inr (sample_conflict 2000)"
    by (simp add: validate_conflict_def sample_conflict_def sample_row_simps)
  moreover have "validate_conflict_member (sample_member (sample_raw 2000)) = Inr (sample_member 2000)"
    by (simp add: validate_conflict_member_def sample_member_def sample_row_simps)
  ultimately show "built_memory (sample_plain 2000 (MemoryStateV2 None))" "built_evidence (sample_evidence 2000)"
    "built_link (sample_link 2000)" "built_conflict (sample_conflict 2000)" "built_member (sample_member 2000)"
    unfolding built_memory_def built_evidence_def built_link_def built_conflict_def built_member_def by blast+
qed

theorem projection_rows_roundtrip_witness:
  "rbind (memory_state_to_row (sample_plain 2000 (MemoryStateV2 None)) (sid 50)) memory_row_to_state
     = Inr (sample_plain 2000 MemoryStateV1)
   \<and> rbind (evidence_state_to_row (sample_evidence 2000) (sid 50)) evidence_row_to_state = Inr (sample_evidence 2000)
   \<and> link_row_to_state (link_state_to_row (sample_link 2000) (sid 50) (Some (sid 51))) = Inr (sample_link 2000)"
proof -
  have "row_view (sample_plain 2000 (MemoryStateV2 None)) = sample_plain 2000 MemoryStateV1"
    "m_content_protection (sample_plain 2000 (MemoryStateV2 None)) = PLAINTEXT"
    by (simp_all add: row_view_def sample_plain_def sample_memory_def)
  with projection_rows_roundtrip[OF sample_rows_built, of "sid 50" "Some (sid 51)"] show ?thesis by auto
qed

end
