(* ===== verification/Spec2Isabelle.thy ===== *)
theory Spec2Isabelle
  imports Fold_Safety Constraints Policy_Safety Fingerprints Locks Outbox_Worker Event_Log Ledger_Witnesses
    Query_Witnesses Projection_Rows
begin

text \<open>
  Verification of the ScaleVault memory node
  (\<^verbatim>\<open>src/services/memory-node/src/kivra_memory\<close>; paths below are relative to it).

  \<^bold>\<open>The program.\<close> The node keeps memories as an append-only log of hashed events. A command is
  turned into an event, appended under a transport binding, and folded into a projection of
  memories, evidence, links, conflicts and branches; the projection is stored in tables and can be
  rebuilt from the log at any time. A selection policy decides what a nomination becomes. Reads
  are authorised per memory, ranked, and packed into a byte budget. Sealed memories are encrypted
  under keys whose destruction is recorded in a ledger of files. An outbox carries follow-up work
  to leased workers, and advisory locks serialise commands.

  \<^bold>\<open>How it is modelled.\<close> Definitions carry the names of the source without the leading underscore
  and are executable. A raise is the left side of a result type whose exceptions are the classes of
  the source (\<open>Prelude\<close>); a validated model is a record, its validators are functions in the order
  of the class; dictionaries are association lists in insertion order; a Python string is a list of
  code points; UUIDs and bytes are words; times are microseconds in UTC. Database statements are
  functions on lists of rows, and a failed transaction returns an exception without tables. Code
  outside the repository is an argument: the RFC 8785 serialiser, SHA-256, BLAKE2b, HMAC, AES-GCM,
  the field reader of the validation library, powers of one half, the clock, random bytes, and the
  repository, embedder and key provider of the read engine. What a theorem needs of such an
  argument is a hypothesis, and the witness of the theorem gives a function that satisfies it.

  \<^bold>\<open>Values and documents.\<close> \<open>Prelude\<close>, \<open>Enums\<close> (\<^verbatim>\<open>domain/enums.py\<close>), \<open>Identifiers\<close>
  (\<^verbatim>\<open>domain/identifiers.py\<close>), \<open>Encoding\<close> (hexadecimal, base64 and UUID text of the standard
  library), \<open>Byte_Codes\<close> (big-endian lengths, length-framed bytes and UTF-8), \<open>Values\<close> (\<^verbatim>\<open>domain/values.py\<close>),
  \<open>Canonical_JSON\<close>, \<open>JSON_Reader\<close>, \<open>JSON_Text\<close> and \<open>JCS\<close> (\<^verbatim>\<open>domain/canonical_json.py\<close> with the
  scanner of Python's json module). Normalising is idempotent and gives interoperable JSON; the
  strict reader returns every interoperable value from its text and fails only with two named
  exceptions. The scanner runs on fuel twice the length of the text plus one; each step consumes a
  character or closes a nesting level, so this never runs out.

  \<^bold>\<open>Events and the fold.\<close> \<open>States\<close> and \<open>Events\<close> (\<^verbatim>\<open>domain/events.py\<close>), \<open>Constraints\<close>
  (\<^verbatim>\<open>domain/constraints.py\<close>), \<open>Fingerprints\<close> (\<^verbatim>\<open>domain/fingerprints.py\<close>), \<open>Folding\<close>
  (\<^verbatim>\<open>domain/folding.py\<close>) with the step lemmas in \<open>Fold_Steps\<close>, the invariant in
  \<open>Fold_Invariants\<close>, and its consequences in \<open>Replay\<close>, \<open>Tenancy\<close> and \<open>Fold_Safety\<close>; \<open>Samples\<close> is
  the stream on which they are applied. The fold refines an abstract memory lifecycle, keeps the
  projection invariant, loses no update, isolates tenants, never fails an internal assertion, and
  an erased memory is final. The tenant replay agrees with the global one.

  \<^bold>\<open>Storage.\<close> \<open>Event_Store\<close> and \<open>Event_Log\<close> (\<^verbatim>\<open>storage/event_store.py\<close> and reading the log in
  \<^verbatim>\<open>storage/projector.py\<close>): the log reads back what was appended, appends are authorised, an
  ingress item is consumed once. \<open>Projection_Rows\<close> (row conversions of \<^verbatim>\<open>storage/projector.py\<close>,
  columns of \<^verbatim>\<open>storage/models/projections.py\<close> and of the branches in
  \<^verbatim>\<open>storage/models/lineage.py\<close>): every validated state has a row, and what the row reads back as.
  \<open>Locks\<close> (\<^verbatim>\<open>storage/locks.py\<close>, \<^verbatim>\<open>storage/transactions.py\<close>): ordered acquisition cannot
  deadlock and the retry loop is bounded. \<open>Outbox\<close> and \<open>Outbox_Worker\<close> (\<^verbatim>\<open>storage/outbox.py\<close>,
  \<^verbatim>\<open>storage/outbox_worker.py\<close>): the table constraints hold in every interleaving, no job is lost,
  and a lease that was given up is worthless.

  \<^bold>\<open>Policy.\<close> \<open>Policy_Contracts\<close>, \<open>Policy\<close> and \<open>Policy_Safety\<close> (\<^verbatim>\<open>policy/contracts.py\<close>,
  \<^verbatim>\<open>policy/evaluator.py\<close>, \<^verbatim>\<open>policy/lifecycle.py\<close>, the shipped profile): the evaluator is total
  for valid profiles, an accepted nomination passed every gate, and under the shipped profile
  content becomes active only on explicit user or verified project evidence.

  \<^bold>\<open>Reads.\<close> \<open>Retrieval_Contracts\<close> and \<open>Read_Responses\<close> (\<^verbatim>\<open>retrieval/contracts.py\<close>),
  \<open>Eligibility\<close> (\<^verbatim>\<open>retrieval/eligibility.py\<close>), \<open>Ranking\<close> (\<^verbatim>\<open>retrieval/ranking.py\<close> and its
  profile), \<open>Context_Pack\<close> and \<open>Pack_Total\<close> (\<^verbatim>\<open>retrieval/context_pack.py\<close>,
  \<^verbatim>\<open>retrieval/budgeting.py\<close>), \<open>Query_Engine\<close> and \<open>Query_Safety\<close> (\<^verbatim>\<open>application/queries.py\<close>), with
  concrete instances in \<open>Retrieval_Witnesses\<close> and \<open>Query_Witnesses\<close>. Whatever the repository
  returns, a response shows only memories the caller may see; a context pack states its own size
  exactly and stays within its budget; conflicts are shown whole or not at all. Scores are exact
  rationals, so the rounding of binary floats is not modelled. The search for the size of a pack
  keeps the eight rounds of the source, and they are shown to be enough; the round robin over the
  lanes is shown to terminate.

  \<^bold>\<open>Sealed content and its destruction.\<close> \<open>Sealed_Content\<close> (\<^verbatim>\<open>security/sealed_content.py\<close>,
  \<^verbatim>\<open>security/keys.py\<close>, \<^verbatim>\<open>application/sealed_content.py\<close>): sealing round trips, an envelope opens
  only in its own context, and opening through a provider fails closed. \<open>Destruction_Ledger\<close>,
  \<open>Ledger_Documents\<close>, \<open>Ledger_Safety\<close>, \<open>Ledger_Recovery\<close>, \<open>Ledger_Binding\<close> and
  \<open>Ledger_Witnesses\<close> (\<^verbatim>\<open>security/destruction_ledger.py\<close>): every operation is a sequence of system
  calls that may stop after any of them; records are never changed, an interrupted append is
  completed by recovery unless its temporary file remains, and one accepted anchor fixes the chain.

  \<^bold>\<open>Interfaces.\<close> Each contract is a locale, interpreted on the definitions that provide it:
  \<open>pydict\<close> (dictionaries in insertion order), \<open>str_enum\<close> (enumerations and their wire values),
  \<open>text_codec\<close> (encodings with a left inverse), \<open>prefix_code\<close> (encodings that delimit themselves),
  \<open>ledger_codec\<close> (the serialiser of ledger documents), \<open>replay_invariant\<close> and \<open>replay_relation\<close>
  (what a replay keeps of an invariant, and how it may change a state, given the same of one step).

  \<^bold>\<open>Not modelled.\<close> Deriving the provenance of rows, the order of branch rows and writing the
  projection tables, live updates (\<^verbatim>\<open>storage/live_projection.py\<close>), and the remaining storage modules:
  they are statements executed by PostgreSQL around the conversions above. The CHECK and foreign-key
  constraints of the projection tables, and the generated search column of a memory, which the
  database computes. \<^verbatim>\<open>domain/commands.py\<close> and the application services other than reads and
  sealed content: orchestration of sessions and declarations read by the validation library. The
  archive, the GitHub ingress, the HTTP and MCP interfaces, administration, observability, runtime
  wiring, workers, operator tools, migrations and the Go services: input and output over git,
  processes, sockets and command lines. The serialisation of one aggregate for the archive
  (\<^verbatim>\<open>canonical_aggregate_bytes\<close>).
\<close>

end
